(* ===== verification/Go_Prelude.thy ===== *)
theory Go_Prelude
  imports Main "HOL-Library.Sublist" "HOL-Library.Word" "HOL-Library.Monad_Syntax"
begin

text \<open>
  The part of the Go language and of its standard library that the components share.
  Strings are byte strings (\<^typ>\<open>string\<close>, that is \<^typ>\<open>char list\<close>). The functions of Go's
  \<open>strings\<close> package that fold case or trim white space are exact on ASCII strings, the only
  ones that host names, ports, modes and header names hold; bytes above 127 are left alone.
  Functions with several results return a tuple, a Go \<open>error\<close> is an \<open>option\<close> (or a sum) in the
  result, and a run-time panic (an index or a slice out of range) is the value \<open>None\<close> of an
  outer option.
\<close>

type_synonym byte = "8 word"
type_synonym bytes = "byte list"

section \<open>Package strings\<close>

definition is_space :: "char \<Rightarrow> bool" where
  "is_space c \<longleftrightarrow> c \<in> {CHR 0x09, CHR 0x0A, CHR 0x0B, CHR 0x0C, CHR 0x0D, CHR 0x20}"

definition trim_where :: "('a \<Rightarrow> bool) \<Rightarrow> 'a list \<Rightarrow> 'a list" where
  "trim_where P s = rev (dropWhile P (rev (dropWhile P s)))"

definition TrimSpace :: "string \<Rightarrow> string" where
  "TrimSpace s = trim_where is_space s"

definition Trim :: "string \<Rightarrow> string \<Rightarrow> string" where
  "Trim s cutset = trim_where (\<lambda>c. c \<in> set cutset) s"

definition lower_char :: "char \<Rightarrow> char" where
  "lower_char c = (if 65 \<le> (of_char c :: nat) \<and> (of_char c :: nat) \<le> 90
     then char_of ((of_char c :: nat) + 32) else c)"

definition ToLower :: "string \<Rightarrow> string" where
  "ToLower s = map lower_char s"

definition EqualFold :: "string \<Rightarrow> string \<Rightarrow> bool" where
  "EqualFold s t \<longleftrightarrow> ToLower s = ToLower t"

definition HasPrefix :: "string \<Rightarrow> string \<Rightarrow> bool" where
  "HasPrefix s p \<longleftrightarrow> prefix p s"

definition HasSuffix :: "string \<Rightarrow> string \<Rightarrow> bool" where
  "HasSuffix s p \<longleftrightarrow> prefix (rev p) (rev s)"

definition TrimPrefix :: "string \<Rightarrow> string \<Rightarrow> string" where
  "TrimPrefix s p = (if HasPrefix s p then drop (length p) s else s)"

definition TrimSuffix :: "string \<Rightarrow> string \<Rightarrow> string" where
  "TrimSuffix s p = (if HasSuffix s p then take (length s - length p) s else s)"

text \<open>\<open>strings.Index\<close> (\<open>None\<close> stands for \<open>-1\<close>) and \<open>strings.Contains\<close>.\<close>

fun Index :: "string \<Rightarrow> string \<Rightarrow> nat option" where
  "Index [] sub = (if sub = [] then Some 0 else None)"
| "Index (c # s) sub = (if prefix sub (c # s) then Some 0 else map_option Suc (Index s sub))"

definition Contains :: "string \<Rightarrow> string \<Rightarrow> bool" where
  "Contains s sub \<longleftrightarrow> Index s sub \<noteq> None"

text \<open>\<open>strings.Split\<close> with a one-byte separator, the only form the program uses, and
  \<open>strings.Join\<close>.\<close>

fun Split :: "'a \<Rightarrow> 'a list \<Rightarrow> 'a list list" where
  "Split c [] = [[]]"
| "Split c (x # xs) =
     (if x = c then [] # Split c xs
      else (case Split c xs of [] \<Rightarrow> [[x]] | y # ys \<Rightarrow> (x # y) # ys))"

fun Join :: "'a list list \<Rightarrow> 'a list \<Rightarrow> 'a list" where
  "Join [] sep = []"
| "Join [x] sep = x"
| "Join (x # y # ys) sep = x @ sep @ Join (y # ys) sep"

text \<open>\<open>strings.ReplaceAll\<close> for a nonempty pattern (the program never passes an empty one).\<close>

function ReplaceAll :: "string \<Rightarrow> string \<Rightarrow> string \<Rightarrow> string" where
  "ReplaceAll s old new =
     (if s = [] \<or> old = [] then s
      else if prefix old s then new @ ReplaceAll (drop (length old) s) old new
      else hd s # ReplaceAll (tl s) old new)"
  by pat_completeness auto
termination
  by (relation "measure (\<lambda>(s, _, _). length s)") (auto simp: length_greater_0_conv [symmetric] simp del: length_greater_0_conv)

declare ReplaceAll.simps [simp del]

definition Count_byte :: "string \<Rightarrow> char \<Rightarrow> nat" where
  "Count_byte s c = length (filter ((=) c) s)"

text \<open>Decimal printing, \<open>fmt.Sprintf("%d", n)\<close> on a non-negative number.\<close>

fun Itoa :: "nat \<Rightarrow> string" where
  "Itoa n = (if n < 10 then [char_of (48 + n)] else Itoa (n div 10) @ [char_of (48 + n mod 10)])"

declare Itoa.simps [simp del]

definition ItoaInt :: "int \<Rightarrow> string" where
  "ItoaInt i = (if i < 0 then CHR ''-'' # Itoa (nat (- i)) else Itoa (nat i))"

section \<open>Lemmas on the string functions\<close>

lemma hd_dropWhile_not: "dropWhile P s = c # t \<Longrightarrow> \<not> P c"
  by (metis hd_dropWhile list.distinct(1) list.sel(1))

lemma trim_where_split: "\<exists>t. dropWhile P s = trim_where P s @ t"
proof
  show "dropWhile P s = trim_where P s @ rev (takeWhile P (rev (dropWhile P s)))"
    by (metis trim_where_def rev_append rev_rev_ident takeWhile_dropWhile_id)
qed

lemma dropWhile_trim_where [simp]: "dropWhile P (trim_where P s) = trim_where P s"
proof (cases "trim_where P s")
  case (Cons c cs)
  then obtain t where "dropWhile P s = c # cs @ t"
    using trim_where_split [of P s] by auto
  then have "\<not> P c" by (rule hd_dropWhile_not)
  with Cons show ?thesis by simp
qed simp

lemma trim_where_idem [simp]: "trim_where P (trim_where P s) = trim_where P s"
proof -
  have "trim_where P (trim_where P s) = rev (dropWhile P (rev (trim_where P s)))"
    by (simp add: trim_where_def [of P "trim_where P s"])
  then show ?thesis by (simp add: trim_where_def)
qed

lemma set_trim_where: "set (trim_where P s) \<subseteq> set s"
  using set_dropWhileD [of _ P "rev (dropWhile P s)"] set_dropWhileD [of _ P s]
  by (auto simp: trim_where_def)

lemma dropWhile_id: "(\<And>c. c \<in> set s \<Longrightarrow> \<not> P c) \<Longrightarrow> dropWhile P s = s"
  by (cases s) auto

lemma trim_where_id: "(\<And>c. c \<in> set s \<Longrightarrow> \<not> P c) \<Longrightarrow> trim_where P s = s"
proof -
  assume *: "\<And>c. c \<in> set s \<Longrightarrow> \<not> P c"
  then have "dropWhile P s = s" and "dropWhile P (rev s) = rev s"
    using dropWhile_id [of s P] dropWhile_id [of "rev s" P] by auto
  then show ?thesis by (simp add: trim_where_def)
qed

lemma trim_where_map:
  assumes "\<And>c. P (f c) = P c"
  shows "trim_where P (map f s) = map f (trim_where P s)"
proof -
  have "P \<circ> f = P" using assms by auto
  then show ?thesis by (simp add: trim_where_def dropWhile_map rev_map)
qed

lemma TrimSpace_idem [simp]: "TrimSpace (TrimSpace s) = TrimSpace s"
  by (simp add: TrimSpace_def)

lemma TrimSpace_Nil [simp]: "TrimSpace [] = []"
  by (simp add: TrimSpace_def trim_where_def)

lemma set_TrimSpace: "set (TrimSpace s) \<subseteq> set s"
  by (simp add: TrimSpace_def set_trim_where)

lemma lower_char_idem [simp]: "lower_char (lower_char c) = lower_char c"
  by (auto simp: lower_char_def)

lemma ToLower_idem [simp]: "ToLower (ToLower s) = ToLower s"
  by (simp add: ToLower_def)

lemma ToLower_Nil [simp]: "ToLower [] = []"
  and ToLower_eq_Nil [simp]: "ToLower s = [] \<longleftrightarrow> s = []"
  and length_ToLower [simp]: "length (ToLower s) = length s"
  by (simp_all add: ToLower_def)

lemma ToLower_append [simp]: "ToLower (s @ t) = ToLower s @ ToLower t"
  by (simp add: ToLower_def)

lemma lower_char_cases:
  "lower_char c = c \<or> (97 \<le> (of_char (lower_char c) :: nat) \<and> (of_char (lower_char c) :: nat) \<le> 122
     \<and> 65 \<le> (of_char c :: nat) \<and> (of_char c :: nat) \<le> 90)"
  by (simp add: lower_char_def)

lemma char_code_iff: "c = d \<longleftrightarrow> (of_char c :: nat) = of_char d"
  by (simp add: of_char_eq_iff)

lemma is_space_code: "is_space c \<longleftrightarrow> (of_char c :: nat) \<in> {9, 10, 11, 12, 13, 32}"
  unfolding is_space_def char_code_iff insert_iff empty_iff by simp

lemma is_space_lower [simp]: "is_space (lower_char c) = is_space c"
  using lower_char_cases [of c] by (auto simp: is_space_code)

lemma TrimSpace_ToLower [simp]: "TrimSpace (ToLower s) = ToLower (TrimSpace s)"
  by (simp add: TrimSpace_def ToLower_def trim_where_map)

lemma EqualFold_refl [simp]: "EqualFold s s"
  and EqualFold_sym: "EqualFold s t \<Longrightarrow> EqualFold t s"
  and EqualFold_trans: "EqualFold s t \<Longrightarrow> EqualFold t u \<Longrightarrow> EqualFold s u"
  by (simp_all add: EqualFold_def)

lemma HasSuffix_iff_suffix: "HasSuffix s p \<longleftrightarrow> suffix p s"
  by (simp add: HasSuffix_def suffix_to_prefix)

lemma Split_neq_Nil [simp]: "Split c s \<noteq> []"
  by (induction s) (auto split: list.splits)

lemma length_Split: "length (Split c s) = Suc (length (filter ((=) c) s))"
  by (induction s) (auto split: list.splits)

lemma Join_Cons: "ys \<noteq> [] \<Longrightarrow> Join (x # ys) sep = x @ sep @ Join ys sep"
  by (cases ys) auto

lemma Join_Split [simp]: "Join (Split c s) [c] = s"
proof (induction s)
  case (Cons x xs)
  show ?case
  proof (cases "x = c")
    case True
    with Cons show ?thesis by (simp add: Join_Cons)
  next
    case False
    obtain y ys where y: "Split c xs = y # ys" by (cases "Split c xs") auto
    then have "Join ((x # y) # ys) [c] = x # Join (y # ys) [c]" by (cases ys) auto
    with False y Cons show ?thesis by simp
  qed
qed simp

lemma Split_no_sep: "p \<in> set (Split c s) \<Longrightarrow> c \<notin> set p"
  by (induction s arbitrary: p) (auto split: list.splits if_splits)

lemma Split_not_in: "c \<notin> set s \<Longrightarrow> Split c s = [s]"
  by (induction s) auto

lemma Split_append_sep: "c \<notin> set s \<Longrightarrow> Split c (s @ c # t) = s # Split c t"
  by (induction s) auto

lemma Split_Join: "ps \<noteq> [] \<Longrightarrow> (\<And>p. p \<in> set ps \<Longrightarrow> c \<notin> set p) \<Longrightarrow> Split c (Join ps [c]) = ps"
  by (induction ps "[c]" rule: Join.induct) (auto simp: Split_not_in Split_append_sep)

lemma Index_Some_iff: "Index s sub = Some i \<Longrightarrow> prefix sub (drop i s) \<and> i \<le> length s"
  by (induction s arbitrary: i) (auto split: if_splits)

lemma Contains_iff: "Contains s sub \<longleftrightarrow> sublist sub s"
proof (induction s)
  case (Cons c s)
  have "Contains (c # s) sub \<longleftrightarrow> prefix sub (c # s) \<or> Contains s sub"
    by (simp add: Contains_def)
  with Cons show ?case by (simp add: sublist_Cons_right)
qed (simp add: Contains_def)

section \<open>Package net: host and port\<close>

text \<open>\<open>net.SplitHostPort\<close>; \<open>None\<close> is its error. The last colon separates host and port; a
  bracketed host ends right before it.\<close>

definition last_index :: "'a \<Rightarrow> 'a list \<Rightarrow> nat option" where
  "last_index c s = (if c \<in> set s then Some (length s - 1 - length (takeWhile ((\<noteq>) c) (rev s))) else None)"

definition first_index :: "'a \<Rightarrow> 'a list \<Rightarrow> nat option" where
  "first_index c s = (if c \<in> set s then Some (length (takeWhile ((\<noteq>) c) s)) else None)"

definition SplitHostPort :: "string \<Rightarrow> (string \<times> string) option" where
  "SplitHostPort hp =
     (case last_index (CHR '':'') hp of
        None \<Rightarrow> None
      | Some i \<Rightarrow>
          if hd hp = CHR ''['' then
            (case first_index (CHR '']'') hp of
               None \<Rightarrow> None
             | Some e \<Rightarrow>
                 if e + 1 = i \<and> e + 1 \<noteq> length hp
                    \<and> CHR ''['' \<notin> set (drop 1 hp) \<and> CHR '']'' \<notin> set (drop (e + 1) hp)
                 then Some (take (e - 1) (drop 1 hp), drop (i + 1) hp) else None)
          else if CHR '':'' \<notin> set (take i hp) \<and> CHR ''['' \<notin> set hp \<and> CHR '']'' \<notin> set hp
               then Some (take i hp, drop (i + 1) hp) else None)"

definition JoinHostPort :: "string \<Rightarrow> string \<Rightarrow> string" where
  "JoinHostPort host port =
     (if CHR '':'' \<in> set host then ''['' @ host @ '']:'' @ port else host @ '':'' @ port)"

lemma last_index_append:
  assumes "c \<notin> set t"
  shows "last_index c (s @ c # t) = Some (length s)"
proof -
  have "takeWhile ((\<noteq>) c) (rev t @ c # rev s) = rev t"
    using assms by (subst takeWhile_append2) auto
  then show ?thesis by (simp add: last_index_def)
qed

lemma first_index_append:
  assumes "c \<notin> set s"
  shows "first_index c (s @ c # t) = Some (length s)"
proof -
  have "takeWhile ((\<noteq>) c) (s @ c # t) = s"
    using assms by (subst takeWhile_append2) auto
  then show ?thesis by (simp add: first_index_def)
qed

lemma SplitHostPort_JoinHostPort:
  assumes h: "CHR ''['' \<notin> set h" "CHR '']'' \<notin> set h"
    and p: "CHR '':'' \<notin> set p" "CHR ''['' \<notin> set p" "CHR '']'' \<notin> set p"
  shows "SplitHostPort (JoinHostPort h p) = Some (h, p)"
proof (cases "CHR '':'' \<in> set h")
  case True
  let ?hp = "''['' @ h @ '']:'' @ p"
  have l: "last_index (CHR '':'') ?hp = Some (length h + 2)"
    using last_index_append [OF p(1), of "''['' @ h @ '']''"] by simp
  have f: "first_index (CHR '']'') ?hp = Some (length h + 1)"
    using first_index_append [of "CHR '']''" "''['' @ h" "'':'' @ p"] h by simp
  have "JoinHostPort h p = ?hp" using True by (simp add: JoinHostPort_def)
  then show ?thesis using h p unfolding SplitHostPort_def \<open>JoinHostPort h p = ?hp\<close> l f by simp
next
  case False
  have l: "last_index (CHR '':'') (h @ '':'' @ p) = Some (length h)"
    using last_index_append [OF p(1), of h] by simp
  have "hd (h @ '':'' @ p) \<noteq> CHR ''[''" using h by (cases h) auto
  with False h p show ?thesis by (simp add: JoinHostPort_def SplitHostPort_def l [simplified])
qed

section \<open>Byte slices and machine integers\<close>

text \<open>Reads that panic out of range, and the slice expression \<open>s[a:b]\<close> on a slice whose capacity
  is its length.\<close>

definition rd8 :: "bytes \<Rightarrow> nat \<Rightarrow> nat option" where
  "rd8 data i = (if i < length data then Some (unat (data ! i)) else None)"

definition rd16 :: "bytes \<Rightarrow> nat \<Rightarrow> nat option" where
  "rd16 data i = do { a \<leftarrow> rd8 data i; b \<leftarrow> rd8 data (i + 1); Some (256 * a + b) }"

definition slice :: "'a list \<Rightarrow> int \<Rightarrow> int \<Rightarrow> 'a list option" where
  "slice s a b = (if 0 \<le> a \<and> a \<le> b \<and> b \<le> int (length s)
     then Some (take (nat (b - a)) (drop (nat a) s)) else None)"

text \<open>Integer division of Go truncates towards zero.\<close>

definition quot :: "int \<Rightarrow> int \<Rightarrow> int" where
  "quot a b = sgn a * sgn b * (\<bar>a\<bar> div \<bar>b\<bar>)"

lemma rd8_Some [simp]: "i < length data \<Longrightarrow> rd8 data i = Some (unat (data ! i))"
  by (simp add: rd8_def)

lemma rd16_Some [simp]:
  "i + 1 < length data \<Longrightarrow> rd16 data i = Some (256 * unat (data ! i) + unat (data ! (i + 1)))"
  by (simp add: rd16_def)

lemma unat_byte_less [simp]: "unat (b :: byte) < 256"
  using unsigned_less [of b, where ?'a = nat] by simp

lemma rd16_less: "rd16 data i = Some n \<Longrightarrow> n < 65536"
proof -
  assume "rd16 data i = Some n"
  then obtain a b :: byte where "n = 256 * unat a + unat b"
    by (auto simp: rd16_def rd8_def split: if_splits bind_splits)
  then show ?thesis using unat_byte_less [of a] unat_byte_less [of b] by linarith
qed

lemma slice_nat: "a \<le> b \<Longrightarrow> b \<le> length s \<Longrightarrow> slice s (int a) (int b) = Some (take (b - a) (drop a s))"
  by (simp add: slice_def nat_diff_distrib' flip: of_nat_diff)

lemma quot_nonneg: "0 \<le> a \<Longrightarrow> 0 < b \<Longrightarrow> quot a b = a div b"
  by (cases "a = 0") (simp_all add: quot_def)

text \<open>Host and port without brackets.\<close>

lemma Itoa_no_colon: "CHR '':'' \<notin> set (Itoa n)"
proof (induction n rule: Itoa.induct)
  case (1 n)
  have d: "(char_of (48 + k) :: char) \<noteq> CHR '':''" if "k < 10" for k :: nat
  proof
    assume "(char_of (48 + k) :: char) = CHR '':''"
    then have "(of_char (char_of (48 + k) :: char) :: nat) = of_char (CHR '':'')" by simp
    then show False using that by simp
  qed
  show ?case using 1 d [of n] d [of "n mod 10"] by (subst Itoa.simps) auto
qed

lemma SplitHostPort_two_colons:
  assumes "CHR '':'' \<in> set host" "hd host \<noteq> CHR ''[''" "CHR '':'' \<notin> set port"
  shows "SplitHostPort (host @ '':'' @ port) = None"
proof -
  have "host \<noteq> []" using assms(1) by auto
  then show ?thesis using assms last_index_append [OF assms(3), of host] by (auto simp: SplitHostPort_def)
qed

section \<open>Interfaces shared by the components\<close>

text \<open>A component as a transition system: its operations, called in any order, keep an invariant.\<close>

locale step_system =
  fixes step :: "'s \<Rightarrow> 's \<Rightarrow> bool"
    and initial :: "'s \<Rightarrow> bool"
    and inv :: "'s \<Rightarrow> bool"
  assumes initial_inv: "initial s \<Longrightarrow> inv s"
    and step_inv: "step s s' \<Longrightarrow> inv s \<Longrightarrow> inv s'"
begin

lemma steps_inv: "step\<^sup>*\<^sup>* s s' \<Longrightarrow> inv s \<Longrightarrow> inv s'"
  by (induction rule: rtranclp_induct) (auto intro: step_inv)

lemma reachable_inv: "initial s \<Longrightarrow> step\<^sup>*\<^sup>* s s' \<Longrightarrow> inv s'"
  using steps_inv initial_inv by blast

end

text \<open>A background task that is started and stopped: stopping a task in a good state never panics.\<close>

locale background_task =
  fixes start :: "'s \<Rightarrow> 's"
    and stop :: "'s \<Rightarrow> 's option"
    and running :: "'s \<Rightarrow> bool"
    and ok :: "'s \<Rightarrow> bool"
  assumes start_ok: "ok s \<Longrightarrow> ok (start s)"
    and start_running: "running (start s)"
    and stop_ok: "ok s \<Longrightarrow> \<exists>s'. stop s = Some s' \<and> ok s' \<and> \<not> running s'"
begin

lemma stop_SomeD: "ok s \<Longrightarrow> stop s = Some s' \<Longrightarrow> ok s' \<and> \<not> running s'"
  using stop_ok by fastforce

lemma stop_total: "ok s \<Longrightarrow> stop s \<noteq> None"
  using stop_ok by fastforce

lemma stop_cases:
  assumes "ok s"
  obtains s' where "stop s = Some s'" "ok s'" "\<not> running s'"
  using assms stop_ok by blast

end

text \<open>A component that implements an abstract one, operation by operation.\<close>

locale simulation =
  fixes cstep :: "'op \<Rightarrow> 'c \<Rightarrow> 'c"
    and astep :: "'op \<Rightarrow> 'a \<Rightarrow> 'a"
    and rel :: "'a \<Rightarrow> 'c \<Rightarrow> bool"
  assumes sim: "rel a c \<Longrightarrow> rel (astep op a) (cstep op c)"
begin

lemma run_sim: "rel a c \<Longrightarrow> rel (fold astep ops a) (fold cstep ops c)"
  by (induction ops arbitrary: a c) (auto intro: sim)

end

end
