(* ===== verification/Addresses.thy ===== *)
theory Addresses
  imports Go_Prelude
begin

text \<open>
  Hosts, ports and IP addresses: the helpers of \<open>src/proxy/proxy.go\<close> that turn a request
  authority, a rule's domain or an upstream string into a host or a dial address, and the part
  of Go's \<open>net\<close> package they use (\<open>net.ParseIP\<close>, \<open>net.IP.To4\<close>, \<open>net.IP.String\<close>).
\<close>

section \<open>IP addresses\<close>

text \<open>A \<open>net.IP\<close> is a byte slice: empty for \<open>nil\<close>, 4 bytes or 16 bytes.\<close>

type_synonym ip = "nat list"

definition is_digit :: "char \<Rightarrow> bool" where
  "is_digit c \<longleftrightarrow> 48 \<le> (of_char c :: nat) \<and> (of_char c :: nat) \<le> 57"

definition digit_val :: "char \<Rightarrow> nat" where
  "digit_val c = of_char c - 48"

definition dec_val :: "string \<Rightarrow> nat" where
  "dec_val s = foldl (\<lambda>n c. n * 10 + digit_val c) 0 s"

definition parse_octet :: "string \<Rightarrow> nat option" where
  "parse_octet s =
     (if s \<noteq> [] \<and> list_all is_digit s \<and> (length s = 1 \<or> hd s \<noteq> CHR ''0'') \<and> dec_val s \<le> 255
      then Some (dec_val s) else None)"

definition parseIPv4 :: "string \<Rightarrow> ip option" where
  "parseIPv4 s =
     (case map parse_octet (Split (CHR ''.'') s) of
        [Some a, Some b, Some c, Some d] \<Rightarrow> Some [a, b, c, d]
      | _ \<Rightarrow> None)"

definition hex_val :: "char \<Rightarrow> nat option" where
  "hex_val c = (let n = (of_char c :: nat) in
     if 48 \<le> n \<and> n \<le> 57 then Some (n - 48)
     else if 97 \<le> n \<and> n \<le> 102 then Some (n - 87)
     else if 65 \<le> n \<and> n \<le> 70 then Some (n - 55) else None)"

definition is_hex :: "char \<Rightarrow> bool" where
  "is_hex c \<longleftrightarrow> hex_val c \<noteq> None"

definition hex_num :: "string \<Rightarrow> nat" where
  "hex_num s = foldl (\<lambda>n c. n * 16 + the (hex_val c)) 0 s"

text \<open>The group loop of \<open>netip.parseIPv6\<close>: \<open>acc\<close> holds the bytes read so far, \<open>ell\<close> the
  position of the ellipsis. At most eight groups fit, which bounds the recursion.\<close>

function parse_groups :: "nat list \<Rightarrow> nat option \<Rightarrow> string \<Rightarrow> (nat list \<times> nat option) option" where
  "parse_groups acc ell s =
     (if 16 \<le> length acc then (if s = [] then Some (acc, ell) else None)
      else
        let h = takeWhile is_hex s; r = dropWhile is_hex s in
        if h = [] \<or> 4 < length h then None
        else if r \<noteq> [] \<and> hd r = CHR ''.'' then
          (if ell = None \<and> length acc \<noteq> 12 \<or> 16 < length acc + 4 then None
           else map_option (\<lambda>v4. (acc @ v4, ell)) (parseIPv4 s))
        else
          let acc' = acc @ [hex_num h div 256, hex_num h mod 256] in
          if r = [] then Some (acc', ell)
          else if hd r \<noteq> CHR '':'' \<or> tl r = [] then None
          else if hd (tl r) = CHR '':'' then
            (if ell \<noteq> None then None
             else if tl (tl r) = [] then Some (acc', Some (length acc'))
             else parse_groups acc' (Some (length acc')) (tl (tl r)))
          else parse_groups acc' ell (tl r))"
  by pat_completeness auto
termination
  by (relation "measure (\<lambda>(acc, _, _). 16 - length acc)") auto

declare parse_groups.simps [simp del]

definition parseIPv6 :: "string \<Rightarrow> ip option" where
  "parseIPv6 s =
     (let (ell0, s0) = (if prefix ''::'' s then (Some 0, drop 2 s) else (None, s)) in
      if ell0 \<noteq> None \<and> s0 = [] then Some (replicate 16 0)
      else case parse_groups [] ell0 s0 of
        None \<Rightarrow> None
      | Some (acc, ell) \<Rightarrow>
          if length acc < 16
          then (case ell of None \<Rightarrow> None
                | Some e \<Rightarrow> Some (take e acc @ replicate (16 - length acc) 0 @ drop e acc))
          else if ell \<noteq> None then None else Some acc)"

text \<open>\<open>net.ParseIP\<close>: the first \<open>.\<close>, \<open>:\<close> or \<open>%\<close> decides the family; a zone is refused, so
  any \<open>%\<close> is.\<close>

definition ParseIP :: "string \<Rightarrow> ip option" where
  "ParseIP s =
     (case filter (\<lambda>c. c \<in> {CHR ''.'', CHR '':'', CHR ''%''}) s of
        [] \<Rightarrow> None
      | c # _ \<Rightarrow> if CHR ''%'' \<in> set s then None
                 else if c = CHR ''.'' then parseIPv4 s else parseIPv6 s)"

definition To4 :: "ip \<Rightarrow> ip option" where
  "To4 a = (if length a = 4 then Some a
            else if length a = 16 \<and> take 12 a = replicate 10 0 @ [255, 255] then Some (drop 12 a)
            else None)"

section \<open>Hosts and dial addresses (src/proxy/proxy.go)\<close>

definition isLiteralIP :: "string \<Rightarrow> bool" where
  "isLiteralIP host \<longleftrightarrow> ParseIP (Trim host ''[]'') \<noteq> None"

definition normalizeHost :: "string \<Rightarrow> string" where
  "normalizeHost hostport0 =
     (let hostport = TrimSpace hostport0 in
      if hostport = '''' then ''''
      else case SplitHostPort hostport of
        Some (host, _) \<Rightarrow> ToLower (TrimSpace host)
      | None \<Rightarrow>
          if HasPrefix hostport ''['' \<and> HasSuffix hostport '']''
          then ToLower (TrimSuffix (TrimPrefix hostport ''['') '']'')
          else ToLower hostport)"

definition cleanWebsiteToken :: "string \<Rightarrow> string" where
  "cleanWebsiteToken token0 =
     (let token = Trim (TrimSuffix (TrimPrefix (normalizeHost token0) ''*.'') ''$'') ''[]'' in
      case Index token '':'' of Some i \<Rightarrow> take i token | None \<Rightarrow> token)"

definition tokenMatchesDomain :: "string \<Rightarrow> string \<Rightarrow> bool" where
  "tokenMatchesDomain token0 domain0 =
     (let token = cleanWebsiteToken token0; domain = cleanWebsiteToken domain0 in
      if token = '''' \<or> domain = '''' then False
      else token = domain \<or> HasSuffix token (''.'' @ domain))"

definition ensureAddrWithPort :: "string \<Rightarrow> string \<Rightarrow> string" where
  "ensureAddrWithPort addr0 defaultPort =
     (let addr = TrimSpace addr0 in
      if addr = '''' then ''''
      else case SplitHostPort addr of
        Some (host, port) \<Rightarrow> JoinHostPort host (if port = '''' then defaultPort else port)
      | None \<Rightarrow>
          if HasPrefix addr ''['' \<and> HasSuffix addr '']''
          then JoinHostPort (TrimSuffix (TrimPrefix addr ''['') '']'') defaultPort
          else JoinHostPort addr defaultPort)"

text \<open>The \<open>base.*\<close> loop of \<open>hostMatchesDomain\<close> and \<open>domainMatchScore\<close>: some window of the
  host's labels, with at least one label after it, equals the base's labels.\<close>

fun windowMatch :: "string list \<Rightarrow> string list \<Rightarrow> bool" where
  "windowMatch hostParts baseParts =
     (if length baseParts < length hostParts
      then (take (length baseParts) hostParts = baseParts \<or>
            (case hostParts of [] \<Rightarrow> False | _ # rest \<Rightarrow> windowMatch rest baseParts))
      else False)"

declare windowMatch.simps [simp del]

definition hostMatchesDomain :: "string \<Rightarrow> string \<Rightarrow> bool" where
  "hostMatchesDomain host0 domain0 =
     (let host = ToLower (TrimSpace host0); domain1 = ToLower (TrimSpace domain0) in
      if host = '''' \<or> domain1 = '''' then False
      else
        let domain = TrimSuffix (TrimPrefix domain1 ''*.'') ''$'' in
        if HasSuffix domain ''.*'' then
          (let base = TrimSuffix domain ''.*'' in
           if base = '''' then False
           else
             let hostParts = Split (CHR ''.'') host; baseParts = Split (CHR ''.'') base in
             if length hostParts < length baseParts + 1 then False
             else windowMatch hostParts baseParts)
        else if host = domain then True
        else HasSuffix host (''.'' @ domain))"

text \<open>Go's \<open>regexp\<close> engine is the parameter \<open>re\<close>: \<open>re pattern host\<close> is \<open>None\<close> when the
  pattern does not compile and \<open>Some b\<close> for \<open>MatchString\<close> otherwise.\<close>

type_synonym regexp_engine = "string \<Rightarrow> string \<Rightarrow> bool option"

definition domainMatchScore :: "regexp_engine \<Rightarrow> string \<Rightarrow> string \<Rightarrow> int" where
  "domainMatchScore re host0 domain0 =
     (let host = ToLower (TrimSpace host0); domain1 = ToLower (TrimSpace domain0) in
      if host = '''' \<or> domain1 = '''' then -1
      else if HasPrefix domain1 ''~'' then
        (let pattern = TrimSpace (TrimPrefix domain1 ''~'') in
         if pattern = '''' then -1
         else case re pattern host of
           None \<Rightarrow> -1
         | Some b \<Rightarrow> if b then 900 + int (length pattern) else -1)
      else
        let domain = TrimSuffix (TrimPrefix domain1 ''*.'') ''$'' in
        if HasSuffix domain ''.*'' then
          (let base = TrimSuffix domain ''.*'' in
           if base = '''' then -1
           else
             let hostParts = Split (CHR ''.'') host; baseParts = Split (CHR ''.'') base in
             if length hostParts < length baseParts + 1 then -1
             else if windowMatch hostParts baseParts then int (length base) else -1)
        else if host = domain then int (length domain) + 1000
        else if HasSuffix host (''.'' @ domain) then int (length domain)
        else -1)"

end
