(* ===== verification/Cert_Verify.thy ===== *)
theory Cert_Verify
  imports Addresses
begin

text \<open>
  Upstream certificate checks, \<open>src/proxy/cert_verify.go\<close>. Chain building and the hash of the
  public key belong to Go's \<open>crypto/x509\<close> and \<open>crypto/sha256\<close> and to the operating system's
  root store; they are the parameters \<open>chain\<close> (the error of \<open>Certificate.Verify\<close> for the peer's
  chain, with the DNS name to check or none; an empty \<open>VerifyOptions.DNSName\<close> means no check) and
  \<open>spki_hash\<close>.
\<close>

record certVerifyConfig =
  cv_Mode :: string
  cv_Names :: "string list"
  cv_Suffixes :: "string list"
  cv_SPKISHA256 :: "string list"
  cv_AllowUnknownAuthority :: bool

record x509Cert =
  x_CommonName :: string
  x_DNSNames :: "string list"
  x_RawSPKI :: bytes

text \<open>The errors of a verification: those of \<open>x509\<close>, of which the code tells only
  \<open>UnknownAuthorityError\<close> apart, and the ones the callback makes itself.\<close>

datatype verifyError = UnknownAuthority | OtherX509 string | NoPeerCertificates
  | NamesMismatch | SuffixMismatch | SPKIMismatch string | UnknownMode string

definition IsZero :: "certVerifyConfig \<Rightarrow> bool" where
  "IsZero c \<longleftrightarrow> TrimSpace (cv_Mode c) = '''' \<and> cv_Names c = [] \<and> cv_Suffixes c = [] \<and>
     cv_SPKISHA256 c = [] \<and> \<not> cv_AllowUnknownAuthority c"

definition normalizeCertVerifyConfig :: "certVerifyConfig \<Rightarrow> string \<Rightarrow> certVerifyConfig" where
  "normalizeCertVerifyConfig cfg verifyName =
     (let mode0 = TrimSpace (cv_Mode cfg);
          mode = (if mode0 = '''' then
                    (if cv_Names cfg \<noteq> [] then ''allow_names''
                     else if cv_Suffixes cfg \<noteq> [] then ''allow_suffixes''
                     else if cv_SPKISHA256 cfg \<noteq> [] then ''allow_spki'' else '''')
                  else mode0);
          names = map normalizeHost (cv_Names cfg)
      in \<lparr>cv_Mode = mode,
          cv_Names = (if mode = ''strict_real'' \<and> verifyName \<noteq> '''' \<and> names = []
                      then [normalizeHost verifyName] else names),
          cv_Suffixes = map (\<lambda>s. ToLower (TrimSpace s)) (cv_Suffixes cfg),
          cv_SPKISHA256 = map TrimSpace (cv_SPKISHA256 cfg),
          cv_AllowUnknownAuthority = cv_AllowUnknownAuthority cfg\<rparr>)"

definition maybeIgnoreUnknownAuthority ::
    "verifyError option \<Rightarrow> certVerifyConfig \<Rightarrow> verifyError option" where
  "maybeIgnoreUnknownAuthority err cfg =
     (if err = None \<or> \<not> cv_AllowUnknownAuthority cfg then err
      else if err = Some UnknownAuthority then None else err)"

text \<open>\<open>certNames\<close>: common name and DNS names, folded, empty and repeated ones dropped.\<close>

fun appendNames :: "string list \<Rightarrow> string list \<Rightarrow> string list" where
  "appendNames out [] = out"
| "appendNames out (v # vs) =
     (let v' = ToLower (TrimSpace v) in
      if v' = '''' \<or> v' \<in> set out then appendNames out vs else appendNames (out @ [v']) vs)"

definition certNames :: "x509Cert \<Rightarrow> string list" where
  "certNames cert = appendNames [] (x_CommonName cert # x_DNSNames cert)"

definition dnsMatch :: "string \<Rightarrow> string \<Rightarrow> bool" where
  "dnsMatch certName0 host0 =
     (let certName = ToLower (TrimSpace certName0); host = ToLower (TrimSpace host0) in
      if certName = '''' \<or> host = '''' then False
      else if certName = host then True
      else if HasPrefix certName ''*.'' then
        (let base = TrimPrefix certName ''*.'' in
         HasSuffix host (''.'' @ base) \<and>
         Count_byte base (CHR ''.'') + 1 \<le> Count_byte host (CHR ''.''))
      else False)"

definition matchesAllowedNames :: "x509Cert \<Rightarrow> string list \<Rightarrow> bool" where
  "matchesAllowedNames cert names \<longleftrightarrow>
     names \<noteq> [] \<and>
     list_ex (\<lambda>allowed0. let allowed = ToLower (TrimSpace allowed0) in
        allowed \<noteq> '''' \<and>
        list_ex (\<lambda>candidate. dnsMatch candidate allowed \<or> dnsMatch allowed candidate)
          (certNames cert)) names"

definition matchesAllowedSuffixes :: "x509Cert \<Rightarrow> string list \<Rightarrow> bool" where
  "matchesAllowedSuffixes cert sfxs \<longleftrightarrow>
     sfxs \<noteq> [] \<and>
     list_ex (\<lambda>sfx0. let sfx = ToLower (TrimSpace sfx0) in
        sfx \<noteq> '''' \<and>
        list_ex (\<lambda>candidate0. let candidate = ToLower candidate0 in
            candidate = sfx \<or> HasSuffix candidate sfx \<or>
            (HasPrefix candidate ''*.'' \<and>
             (let base = TrimPrefix candidate ''*'' in base = sfx \<or> HasSuffix base sfx)))
          (certNames cert)) sfxs"

definition matchesSPKI :: "(bytes \<Rightarrow> string) \<Rightarrow> x509Cert \<Rightarrow> string list \<Rightarrow> bool" where
  "matchesSPKI spki_hash cert allowed \<longleftrightarrow>
     list_ex (\<lambda>item. EqualFold (TrimSpace item) (spki_hash (x_RawSPKI cert))) allowed"

text \<open>The callback of \<open>buildVerifyConnection\<close>; \<open>None\<close> of the outer option is the \<open>nil\<close>
  callback, \<open>f certs = None\<close> is acceptance.\<close>

type_synonym chain_verifier = "x509Cert list \<Rightarrow> string option \<Rightarrow> verifyError option"

definition verifyConnection ::
    "(bytes \<Rightarrow> string) \<Rightarrow> chain_verifier \<Rightarrow> string \<Rightarrow> certVerifyConfig
       \<Rightarrow> x509Cert list \<Rightarrow> verifyError option" where
  "verifyConnection spki_hash chain realName cfg certs =
     (case certs of
        [] \<Rightarrow> Some NoPeerCertificates
      | leaf # _ \<Rightarrow>
          let chain_only = maybeIgnoreUnknownAuthority (chain certs None) cfg in
          if cv_Mode cfg = ''strict_real'' then
            maybeIgnoreUnknownAuthority (chain certs (if realName = '''' then None else Some realName)) cfg
          else if cv_Mode cfg = ''chain_only'' then chain_only
          else if cv_Mode cfg = ''allow_names'' then
            (if chain_only \<noteq> None then chain_only
             else if \<not> matchesAllowedNames leaf (cv_Names cfg) then Some NamesMismatch else None)
          else if cv_Mode cfg = ''allow_suffixes'' then
            (if chain_only \<noteq> None then chain_only
             else if \<not> matchesAllowedSuffixes leaf (cv_Suffixes cfg) then Some SuffixMismatch
             else None)
          else if cv_Mode cfg = ''allow_spki'' then
            (if chain_only \<noteq> None then chain_only
             else if \<not> matchesSPKI spki_hash leaf (cv_SPKISHA256 cfg)
             then Some (SPKIMismatch (spki_hash (x_RawSPKI leaf))) else None)
          else Some (UnknownMode (cv_Mode cfg)))"

definition buildVerifyConnection ::
    "(bytes \<Rightarrow> string) \<Rightarrow> chain_verifier \<Rightarrow> string \<Rightarrow> certVerifyConfig
       \<Rightarrow> (x509Cert list \<Rightarrow> verifyError option) option" where
  "buildVerifyConnection spki_hash chain realName cfg0 =
     (let cfg = normalizeCertVerifyConfig cfg0 realName in
      if cv_Mode cfg = '''' then None else Some (verifyConnection spki_hash chain realName cfg))"

end
