(* ===== verification/Rule_Data.thy ===== *)
theory Rule_Data
  imports Cert_Verify
begin

text \<open>
  The data model of \<open>src/proxy/proxy.go\<close>: site groups, upstreams, ECH profiles, DNS nodes,
  settings and the flat \<open>Rule\<close> the matcher works on. Field names carry a short prefix for their
  struct, since two Isabelle records of one theory cannot share a field name. A pointer to a bool
  is an option.
\<close>

record siteGroup =
  sg_ID :: string
  sg_Name :: string
  sg_Website :: string
  sg_Domains :: "string list"
  sg_Mode :: string
  sg_Upstream :: string
  sg_Upstreams :: "string list"
  sg_DNSMode :: string
  sg_SniFake :: string
  sg_ConnectPolicy :: string
  sg_SniPolicy :: string
  sg_Enabled :: bool
  sg_ECHEnabled :: bool
  sg_ECHProfileID :: string
  sg_ECHDomain :: string
  sg_UseCFPool :: bool
  sg_CertVerify :: certVerifyConfig

record upstream =
  up_ID :: string
  up_Name :: string
  up_Address :: string
  up_Enabled :: bool

record echProfile =
  ep_ID :: string
  ep_Name :: string
  ep_Config :: string
  ep_DiscoveryDomain :: string
  ep_DoHUpstream :: string
  ep_AutoUpdate :: bool

record dnsNode =
  dn_ID :: string
  dn_Name :: string
  dn_URL :: string
  dn_SNI :: string
  dn_IPs :: "string list"
  dn_ECHEnabled :: bool
  dn_ECHProfileID :: string
  dn_ECHAutoUpdate :: bool
  dn_QUIC :: bool
  dn_CertVerify :: certVerifyConfig
  dn_Enabled :: bool

record tunConfig =
  tun_Enabled :: bool
  tun_MTU :: int
  tun_DNSHijack :: bool
  tun_AutoRoute :: bool
  tun_StrictRoute :: bool

record cloudflareConfig =
  cf_PreferredIPs :: "string list"
  cf_AutoUpdate :: bool
  cf_APIKey :: string

record autoRoutingConfig =
  ar_Mode :: string
  ar_GFWListURL :: string
  ar_LastUpdate :: string

record settingsConfig =
  set_ListenPort :: string
  set_Socks5Port :: string
  set_ServerHost :: string
  set_ServerAuth :: string
  set_CloseToTray :: "bool option"
  set_AutoStart :: "bool option"
  set_ShowMainWindowOnAutoStart :: "bool option"
  set_AutoEnableProxyOnAutoStart :: "bool option"
  set_AutoRouting :: autoRoutingConfig
  set_TUN :: tunConfig
  set_Language :: string
  set_Theme :: string
  set_CloudflareConfig :: cloudflareConfig
  set_Socks5Enabled :: "bool option"

record rulesConfig =
  rc_SiteGroups :: "siteGroup list"
  rc_Upstreams :: "upstream list"
  rc_DNSNodes :: "dnsNode list"
  rc_ECHProfiles :: "echProfile list"

record rule =
  r_Domain :: string
  r_Upstream :: string
  r_Upstreams :: "string list"
  r_DNSMode :: string
  r_Mode :: string
  r_SniFake :: string
  r_ConnectPolicy :: string
  r_SniPolicy :: string
  r_Enabled :: bool
  r_SiteID :: string
  r_ECHEnabled :: bool
  r_ECHProfileID :: string
  r_UseCFPool :: bool
  r_ECHDiscoveryDomain :: string
  r_ECHDoHUpstream :: string
  r_ECHAutoUpdate :: bool
  r_CertVerify :: certVerifyConfig
  r_AutoRouted :: bool
  r_FallbackMode :: string

text \<open>Go's zero values.\<close>

definition zeroCertVerify :: certVerifyConfig where
  "zeroCertVerify = \<lparr>cv_Mode = '''', cv_Names = [], cv_Suffixes = [], cv_SPKISHA256 = [],
     cv_AllowUnknownAuthority = False\<rparr>"

definition zeroRule :: rule where
  "zeroRule = \<lparr>r_Domain = '''', r_Upstream = '''', r_Upstreams = [], r_DNSMode = '''', r_Mode = '''',
     r_SniFake = '''', r_ConnectPolicy = '''', r_SniPolicy = '''', r_Enabled = False, r_SiteID = '''',
     r_ECHEnabled = False, r_ECHProfileID = '''', r_UseCFPool = False, r_ECHDiscoveryDomain = '''',
     r_ECHDoHUpstream = '''', r_ECHAutoUpdate = False, r_CertVerify = zeroCertVerify,
     r_AutoRouted = False, r_FallbackMode = ''''\<rparr>"

definition zeroECHProfile :: echProfile where
  "zeroECHProfile = \<lparr>ep_ID = '''', ep_Name = '''', ep_Config = '''', ep_DiscoveryDomain = '''',
     ep_DoHUpstream = '''', ep_AutoUpdate = False\<rparr>"

definition mergeRule :: "rule \<Rightarrow> rule \<Rightarrow> rule" where
  "mergeRule base overlay = base
     \<lparr>r_Upstream := (if TrimSpace (r_Upstream overlay) \<noteq> '''' then r_Upstream overlay else r_Upstream base),
      r_Upstreams := (if r_Upstreams overlay \<noteq> [] then r_Upstreams overlay else r_Upstreams base),
      r_DNSMode := (if TrimSpace (r_DNSMode overlay) \<noteq> '''' then r_DNSMode overlay else r_DNSMode base),
      r_SniFake := (if TrimSpace (r_SniFake overlay) \<noteq> '''' then r_SniFake overlay else r_SniFake base),
      r_ConnectPolicy := (if TrimSpace (r_ConnectPolicy overlay) \<noteq> '''' then r_ConnectPolicy overlay
                          else r_ConnectPolicy base),
      r_SniPolicy := (if TrimSpace (r_SniPolicy overlay) \<noteq> '''' then r_SniPolicy overlay
                      else r_SniPolicy base),
      r_CertVerify := (if \<not> IsZero (r_CertVerify overlay) then r_CertVerify overlay
                       else r_CertVerify base)\<rparr>"

definition normalizeDNSMode :: "string \<Rightarrow> string" where
  "normalizeDNSMode mode =
     (let m = ToLower (TrimSpace mode) in
      if m = '''' \<or> m = ''system'' then ''''
      else if m \<in> {''prefer_ipv4'', ''prefer_ipv6'', ''ipv4_only'', ''ipv6_only''} then m
      else '''')"

text \<open>\<open>runtime.GOOS\<close> of the build this repository makes.\<close>

definition GOOS :: string where
  "GOOS = ''linux''"

definition normalizeTUNConfig :: "tunConfig \<Rightarrow> tunConfig" where
  "normalizeTUNConfig cfg =
     (let cfg1 = (if tun_MTU cfg \<le> 0 then cfg\<lparr>tun_MTU := 9000\<rparr> else cfg) in
      if GOOS = ''windows'' then cfg1\<lparr>tun_StrictRoute := False\<rparr> else cfg1)"

lemma normalizeDNSMode_idem [simp]: "normalizeDNSMode (normalizeDNSMode m) = normalizeDNSMode m"
  by (auto simp: normalizeDNSMode_def Let_def)

lemma normalizeTUNConfig_idem [simp]: "normalizeTUNConfig (normalizeTUNConfig c) = normalizeTUNConfig c"
  by (simp add: normalizeTUNConfig_def Let_def)

lemma mergeRule_idem [simp]: "mergeRule (mergeRule b ov) ov = mergeRule b ov"
  by (simp add: mergeRule_def)

lemma mergeRule_frame [simp]:
  "r_Mode (mergeRule b ov) = r_Mode b" "r_SiteID (mergeRule b ov) = r_SiteID b"
  "r_ECHEnabled (mergeRule b ov) = r_ECHEnabled b" "r_UseCFPool (mergeRule b ov) = r_UseCFPool b"
  "r_Domain (mergeRule b ov) = r_Domain b" "r_ECHProfileID (mergeRule b ov) = r_ECHProfileID b"
  "r_FallbackMode (mergeRule b ov) = r_FallbackMode b"
  by (simp_all add: mergeRule_def)

end
