(* ===== verification/TLS_Fragment.thy ===== *)
theory TLS_Fragment
  imports Rule_Data
begin

text \<open>
  TLS record fragmentation, \<open>src/proxy/tls_fragment.go\<close>: reading the first TLS record of a client,
  locating the server name in its ClientHello, cutting the record into smaller records around the
  last dot of the name, and the connection handler with its fallback. A Go run-time panic is the
  outer \<open>None\<close> of a result (or \<open>SendPanic\<close>); offsets of the parser are naturals, the indices that
  the code computes by subtraction are integers.
\<close>

definition tlsRecordHeaderLen :: nat where "tlsRecordHeaderLen = 5"
definition defaultTLSRFNumRecords :: int where "defaultTLSRFNumRecords = 4"
definition defaultTLSRFNumSegments :: int where "defaultTLSRFNumSegments = 1"
definition defaultTLSRFModMinorVer :: bool where "defaultTLSRFModMinorVer = True"
definition defaultTLSRFOOB :: bool where "defaultTLSRFOOB = False"
definition defaultTLSRFOOBEx :: bool where "defaultTLSRFOOBEx = False"

section \<open>Reading the first record\<close>

text \<open>\<open>readInitialTLSRecord\<close> on the bytes the client sends before it stops sending: the record and
  the bytes left in the connection, or the error of \<open>io.ReadFull\<close>.\<close>

definition readInitialTLSRecord :: "bytes \<Rightarrow> (bytes \<times> bytes) option" where
  "readInitialTLSRecord stream =
     (if length stream < tlsRecordHeaderLen then None
      else
        let recordLen = 256 * unat (stream ! 3) + unat (stream ! 4) in
        if length stream < tlsRecordHeaderLen + recordLen then None
        else Some (take (tlsRecordHeaderLen + recordLen) stream,
                   drop (tlsRecordHeaderLen + recordLen) stream))"

section \<open>Parsing the ClientHello\<close>

record helloInfo =
  h_prtVer :: "bytes option"
  h_sniPos :: int
  h_sniLen :: int
  h_hasKeyShare :: bool
  h_err :: "string option"

abbreviation helloErr :: "bytes option \<Rightarrow> int \<Rightarrow> int \<Rightarrow> bool \<Rightarrow> string \<Rightarrow> helloInfo option" where
  "helloErr ver pos len ks msg \<equiv>
     Some \<lparr>h_prtVer = ver, h_sniPos = pos, h_sniLen = len, h_hasKeyShare = ks, h_err = Some msg\<rparr>"

abbreviation helloOk :: "bytes option \<Rightarrow> int \<Rightarrow> int \<Rightarrow> bool \<Rightarrow> helloInfo option" where
  "helloOk ver pos len ks \<equiv>
     Some \<lparr>h_prtVer = ver, h_sniPos = pos, h_sniLen = len, h_hasKeyShare = ks, h_err = None\<rparr>"

definition extTypeSNI :: nat where "extTypeSNI = 0x0000"
definition extTypeKeyShare :: nat where "extTypeKeyShare = 0x0033"

text \<open>The SNI extension at \<open>extDataStart\<close>: \<open>Inl\<close> is the error message, \<open>Inr\<close> position and
  length of the name.\<close>

definition parseSNI :: "bytes \<Rightarrow> nat \<Rightarrow> nat \<Rightarrow> (string + nat \<times> nat) option" where
  "parseSNI data extDataStart extLen =
     (if extLen < 2 then Some (Inl ''malformed SNI extension'')
      else do {
        listLen \<leftarrow> rd16 data extDataStart;
        if listLen + 2 \<noteq> extLen then Some (Inl ''SNI list length field mismatch'')
        else
          let cursor = extDataStart + 2; extDataEnd = extDataStart + extLen in
          if extDataEnd < cursor + 3 then Some (Inl ''SNI entry too short'')
          else do {
            nameType \<leftarrow> rd8 data cursor;
            if nameType \<noteq> 0 then Some (Inl ''unsupported SNI name type'')
            else do {
              nameLen \<leftarrow> rd16 data (cursor + 1);
              let nameStart = cursor + 3;
              if extDataEnd < nameStart + nameLen then Some (Inl ''SNI name length exceeds extension'')
              else Some (Inr (nameStart, nameLen))
            }
          }
      })"

text \<open>The loop over the extensions.\<close>

function extLoop :: "bytes \<Rightarrow> bytes option \<Rightarrow> nat \<Rightarrow> nat \<Rightarrow> int \<Rightarrow> int \<Rightarrow> bool \<Rightarrow> helloInfo option" where
  "extLoop data ver extensionsEnd offset sniPos sniLen ks =
     (if offset + 4 \<le> extensionsEnd then do {
        extType \<leftarrow> rd16 data offset;
        extLen \<leftarrow> rd16 data (offset + 2);
        let extDataStart = offset + 4;
        let extDataEnd = extDataStart + extLen;
        if extensionsEnd < extDataEnd
        then helloErr ver sniPos sniLen False ''extension length exceeds extensions block''
        else if extType = extTypeKeyShare \<and> sniPos \<noteq> -1 then helloOk ver sniPos sniLen True
        else
          let ks' = (extType = extTypeKeyShare \<or> ks) in
          if sniPos = -1 \<and> extType = extTypeSNI then do {
            res \<leftarrow> parseSNI data extDataStart extLen;
            (case res of
               Inl msg \<Rightarrow> helloErr ver sniPos sniLen ks' msg
             | Inr (nameStart, nameLen) \<Rightarrow>
                 if ks' then helloOk ver (int nameStart) (int nameLen) ks'
                 else extLoop data ver extensionsEnd extDataEnd (int nameStart) (int nameLen) ks')
          }
          else extLoop data ver extensionsEnd extDataEnd sniPos sniLen ks'
      }
      else helloOk ver sniPos sniLen ks)"
  by pat_completeness auto
termination
  by (relation "measure (\<lambda>(_, _, e, off, _, _, _). e - off)") auto

declare extLoop.simps [simp del]

text \<open>From the session id (at \<open>offset\<close>) to the extensions.\<close>

definition parseBody :: "bytes \<Rightarrow> bytes option \<Rightarrow> nat \<Rightarrow> helloInfo option" where
  "parseBody data ver offset0 =
     (let fail = (\<lambda>msg. helloErr ver (-1) 0 False msg); n = length data in
      if n \<le> offset0 then fail ''unexpected end after Random''
      else do {
        sessionIDLen \<leftarrow> rd8 data offset0;
        let offset1 = offset0 + 1;
        if n < offset1 + sessionIDLen then fail ''session_id length exceeds data''
        else
          let offset2 = offset1 + sessionIDLen in
          if n < offset2 + 2 then fail ''cannot read cipher_suites length''
          else do {
            csLen \<leftarrow> rd16 data offset2;
            let offset3 = offset2 + 2;
            if n < offset3 + csLen then fail ''cipher_suites exceed data''
            else
              let offset4 = offset3 + csLen in
              if n \<le> offset4 then fail ''cannot read compression_methods length''
              else do {
                compMethodsLen \<leftarrow> rd8 data offset4;
                let offset5 = offset4 + 1;
                if n < offset5 + compMethodsLen then fail ''compression_methods exceed data''
                else
                  let offset6 = offset5 + compMethodsLen in
                  if n < offset6 + 2 then helloOk ver (-1) 0 False
                  else do {
                    extTotalLen \<leftarrow> rd16 data offset6;
                    let offset7 = offset6 + 2;
                    if n < offset7 + extTotalLen then fail ''extensions length exceeds data''
                    else extLoop data ver (offset7 + extTotalLen) offset7 (-1) 0 False
                  }
              }
          }
      })"

definition parseClientHello :: "bytes \<Rightarrow> helloInfo option" where
  "parseClientHello data =
     (let fail = (\<lambda>msg. helloErr None (-1) 0 False msg) in
      if length data < tlsRecordHeaderLen then fail ''TLS record too short''
      else do {
        recordLen \<leftarrow> rd16 data 3;
        if length data < tlsRecordHeaderLen + recordLen then fail ''record length exceeds data size''
        else if recordLen < 4 then fail ''handshake message too short''
        else do {
          typ \<leftarrow> rd8 data 5;
          if typ \<noteq> 1 then fail (''not a ClientHello handshake (type='' @ Itoa typ @ '')'')
          else do {
            b1 \<leftarrow> rd8 data 6; b2 \<leftarrow> rd8 data 7; b3 \<leftarrow> rd8 data 8;
            let handshakeLen = b1 * 65536 + b2 * 256 + b3;
            if recordLen < handshakeLen + 4 then fail ''handshake length exceeds record length''
            else if handshakeLen < 2 + 32 + 1 then fail ''ClientHello too short for mandatory fields''
            else do {
              ver \<leftarrow> slice data 9 11;
              parseBody data (Some ver) 43
            }
          }
        }
      })"

section \<open>Cutting the record\<close>

text \<open>\<open>findLastDot\<close>: the loop from \<open>sniPos + sniLen\<close> down to \<open>sniPos\<close>.\<close>

function findLastDotFrom :: "bytes \<Rightarrow> int \<Rightarrow> int \<Rightarrow> int \<Rightarrow> (int \<times> bool) option" where
  "findLastDotFrom data sniPos sniLen i =
     (if sniPos \<le> i then
        if 0 \<le> i \<and> i < int (length data) then
          if data ! nat i = 0x2E then Some (i, True) else findLastDotFrom data sniPos sniLen (i - 1)
        else None
      else Some (quot sniLen 2 + sniPos, False))"
  by pat_completeness auto
termination
  by (relation "measure (\<lambda>(_, p, _, i). nat (i - p + 1))") auto

declare findLastDotFrom.simps [simp del]

definition findLastDot :: "bytes \<Rightarrow> int \<Rightarrow> int \<Rightarrow> (int \<times> bool) option" where
  "findLastDot data sniPos sniLen = findLastDotFrom data sniPos sniLen (sniPos + sniLen)"

text \<open>\<open>makeRecord\<close>: three header bytes, the length as a truncated 16-bit number, the payload.\<close>

definition makeRecord :: "bytes \<Rightarrow> bytes \<Rightarrow> bytes" where
  "makeRecord header payload =
     take 3 (take 3 header @ [0, 0, 0]) @
     [word_of_nat (length payload div 256), word_of_nat (length payload)] @ payload"

text \<open>\<open>splitAndAppend\<close>: \<open>None\<close> is a nil header.\<close>

definition splitParts :: "bytes \<Rightarrow> int \<Rightarrow> bytes list" where
  "splitParts data n =
     (if n \<le> 0 then []
      else if n = 1 \<or> int (length data) < n then [data]
      else
        let k = nat n; base = length data div k in
        map (\<lambda>i. if i = k - 1 then drop (i * base) data else take base (drop (i * base) data)) [0..<k])"

definition splitAndAppend :: "bytes \<Rightarrow> bytes option \<Rightarrow> int \<Rightarrow> bytes list \<Rightarrow> bytes list" where
  "splitAndAppend data header n result =
     result @ map (\<lambda>part. case header of None \<Rightarrow> part | Some h \<Rightarrow> makeRecord h part) (splitParts data n)"

section \<open>Sending\<close>

text \<open>What \<open>sendRecords\<close> does to the connection: plain writes, writes with an urgent byte
  (\<open>sendWithOOB\<close>) and pauses. A step is a label for \<open>wrap\<close> (none: the error is returned as it
  is) and an event, \<open>None\<close> when computing its bytes panics. The connection is the parameter
  \<open>conn\<close>: the error of an event after a history of events, \<open>None\<close> when it succeeds.\<close>

datatype netEvent = Write bytes | WriteOOB bytes byte | Sleep

type_synonym sendStep = "string option \<times> netEvent option"
type_synonym connection = "netEvent list \<Rightarrow> netEvent \<Rightarrow> string option"

datatype sendResult = Sent "netEvent list" | SendErr "netEvent list" string | SendPanic "netEvent list"

definition wrapErr :: "string option \<Rightarrow> string \<Rightarrow> string" where
  "wrapErr label cause = (case label of None \<Rightarrow> cause | Some msg \<Rightarrow> msg @ '': '' @ cause)"

fun runSends :: "connection \<Rightarrow> netEvent list \<Rightarrow> sendStep list \<Rightarrow> sendResult" where
  "runSends conn log [] = Sent log"
| "runSends conn log ((label, None) # _) = SendPanic log"
| "runSends conn log ((label, Some Sleep) # rest) = runSends conn (log @ [Sleep]) rest"
| "runSends conn log ((label, Some ev) # rest) =
     (case conn log ev of
        Some cause \<Rightarrow> SendErr (log @ [ev]) (wrapErr label cause)
      | None \<Rightarrow> runSends conn (log @ [ev]) rest)"

abbreviation panicStep :: sendStep where
  "panicStep \<equiv> (None, None)"

definition sleepSteps :: "bool \<Rightarrow> sendStep list" where
  "sleepSteps interval = (if interval then [(None, Some Sleep)] else [])"

definition oobexSteps :: "bytes \<Rightarrow> bool \<Rightarrow> sendStep list" where
  "oobexSteps data interval =
     [(Some ''oob 1'', do { a \<leftarrow> slice data 0 15; b \<leftarrow> slice data 15 16; Some (WriteOOB a (hd b)) }),
      (Some ''oob 2'', do { a \<leftarrow> slice data 16 20; Some (WriteOOB a 0) })] @ sleepSteps interval"

definition packetSteps :: "string \<Rightarrow> bool \<Rightarrow> bool \<Rightarrow> bytes list \<Rightarrow> sendStep list" where
  "packetSteps what oob interval packets =
     concat (map (\<lambda>(i, packet).
        (if i = 0 \<and> oob then (Some ''oob'', Some (WriteOOB packet 0))
         else (Some (what @ Itoa (i + 1)), Some (Write packet))) # sleepSteps interval)
       (enumerate 0 packets))"

text \<open>The loop of the \<open>segments == -1\<close> branch.\<close>

definition chunkSteps :: "bool \<Rightarrow> bool \<Rightarrow> bool \<Rightarrow> nat \<times> bytes \<Rightarrow> sendStep list" where
  "chunkSteps oob oobex interval = (\<lambda>(i, chunk).
     if i = 0 then
       if oob then (Some ''oob'', Some (WriteOOB chunk 0)) # sleepSteps interval
       else if oobex then
         [(Some ''oob 1'', if chunk = [] then None else Some (WriteOOB (butlast chunk) (last chunk)))]
       else []
     else if i = 1 \<and> oobex then [(Some ''oob 2'', Some (WriteOOB chunk 0))]
     else (Some (''write record '' @ Itoa (i + 1)), Some (Write chunk)) # sleepSteps interval)"

definition segmentParts :: "bytes \<Rightarrow> int \<Rightarrow> bytes list" where
  "segmentParts merged segments =
     (let base = length merged div nat segments in
      map (\<lambda>i. let start = i * base; stop = (if int i = segments - 1 then length merged else start + base)
               in take (stop - start) (drop start merged)) [0..<nat segments])"

text \<open>The records a ClientHello is cut into, \<open>None\<close> for a panic.\<close>

definition helloChunks :: "bytes \<Rightarrow> int \<Rightarrow> int \<Rightarrow> int \<Rightarrow> bytes list option" where
  "helloChunks hello offset len records =
     (if records < 0 then None
      else do {
        (cutAt, _) \<leftarrow> findLastDot hello offset len;
        header \<leftarrow> slice hello 0 3;
        left \<leftarrow> slice hello 5 cutAt;
        right \<leftarrow> slice hello cutAt (int (length hello));
        let leftChunks = quot records 2;
        let rightChunks = records - leftChunks;
        Some (splitAndAppend right (Some header) rightChunks
               (splitAndAppend left (Some header) leftChunks []))
      })"

definition singleRecordPlan ::
    "bytes \<Rightarrow> int \<Rightarrow> int \<Rightarrow> int \<Rightarrow> bool \<Rightarrow> bool \<Rightarrow> bool \<Rightarrow> sendStep list" where
  "singleRecordPlan hello offset len segments oob oobex interval =
     (let pre = (if oobex then oobexSteps hello interval else []);
          hello' = (if oobex then drop 20 hello else hello)
      in pre @
        (if segments = 1 then [(Some ''send remaining data'', Some (Write hello'))]
         else if segments < 0 then [panicStep]
         else case (do {
             (cutAt, _) \<leftarrow> findLastDot hello' (offset - 20) len;
             left \<leftarrow> slice hello' 0 cutAt;
             right \<leftarrow> slice hello' cutAt (int (length hello'));
             let leftSegments = quot segments 2;
             let rightSegments = segments - leftSegments;
             Some (splitAndAppend right None rightSegments (splitAndAppend left None leftSegments []))
           }) of
             None \<Rightarrow> [panicStep]
           | Some packets \<Rightarrow> packetSteps ''write packet '' oob interval packets))"

definition mergedPlan :: "bytes \<Rightarrow> int \<Rightarrow> bool \<Rightarrow> bool \<Rightarrow> bool \<Rightarrow> sendStep list" where
  "mergedPlan merged segments oob oobex interval =
     (let pre = (if oobex then oobexSteps merged interval else []);
          merged' = (if oobex then drop 20 merged else merged)
      in pre @
        (if segments = 1 \<or> int (length merged') \<le> segments then [(None, Some (Write merged'))]
         else if segments = 0 then [panicStep]
         else packetSteps ''write segment '' oob interval (segmentParts merged' segments)))"

definition sendPlan ::
    "bytes \<Rightarrow> int \<Rightarrow> int \<Rightarrow> int \<Rightarrow> int \<Rightarrow> bool \<Rightarrow> bool \<Rightarrow> bool \<Rightarrow> sendStep list" where
  "sendPlan hello offset len records segments oob oobex interval =
     (if records = 1 then singleRecordPlan hello offset len segments oob oobex interval
      else case helloChunks hello offset len records of
        None \<Rightarrow> [panicStep]
      | Some chunks \<Rightarrow>
          if segments = -1 then concat (map (chunkSteps oob oobex interval) (enumerate 0 chunks))
          else mergedPlan (concat chunks) segments oob oobex interval)"

text \<open>\<open>sendRecords\<close> changes its argument in place: the first component is the ClientHello
  afterwards.\<close>

definition setMinorVer :: "bool \<Rightarrow> bytes \<Rightarrow> bytes" where
  "setMinorVer modMinorVer hello = (if modMinorVer \<and> 3 \<le> length hello then hello[2 := 0x04] else hello)"

definition sendRecords ::
    "connection \<Rightarrow> bytes \<Rightarrow> int \<Rightarrow> int \<Rightarrow> int \<Rightarrow> int \<Rightarrow> bool \<Rightarrow> bool \<Rightarrow> bool \<Rightarrow> bool \<Rightarrow> bytes \<times> sendResult" where
  "sendRecords conn hello offset len records segments oob oobex modMinorVer interval =
     (let hello' = setMinorVer modMinorVer hello in
      (hello', runSends conn [] (sendPlan hello' offset len records segments oob oobex interval)))"

section \<open>The connection handler\<close>

text \<open>The outside world of \<open>handleTLSFragment\<close>: the client's bytes, the upstream and fallback
  connections, the byte the probe reads (\<open>None\<close> on a read error), the configured server and
  whether the fallback can be dialled.\<close>

record fragEnv =
  fe_clientBytes :: bytes
  fe_upstream :: connection
  fe_probe :: "byte option"
  fe_serverHost :: string
  fe_dialServer :: "string \<Rightarrow> connection option"

datatype endpoint = Client | UpstreamConn | FallbackConn

text \<open>What the handler does: writes on an endpoint, closes of an endpoint, the dial of the
  fallback, and a tunnel between the client (with the bytes it has left to send) and an endpoint
  (with bytes already read from it put back in front).\<close>

datatype action = Send endpoint netEvent | Close endpoint | Dial string
  | Tunnel bytes endpoint bytes | Panicked

text \<open>\<open>DialFallback\<close> (src/proxy/auto_routing.go).\<close>

definition DialFallback ::
    "(string \<Rightarrow> connection option) \<Rightarrow> string \<Rightarrow> string \<Rightarrow> action list \<times> connection option" where
  "DialFallback dial fallbackMode serverHost =
     (if fallbackMode = ''server'' then
        if serverHost = '''' then ([], None)
        else let addr = ensureAddrWithPort serverHost ''443'' in ([Dial addr], dial addr)
      else ([], None))"

definition handleTLSRFFallback :: "fragEnv \<Rightarrow> rule \<Rightarrow> bytes \<Rightarrow> bytes \<Rightarrow> action list" where
  "handleTLSRFFallback env rule rest originalRecord =
     (let (acts, newConn) = DialFallback (fe_dialServer env) (r_FallbackMode rule) (fe_serverHost env) in
      acts @
      (case newConn of
         None \<Rightarrow> [Close Client]
       | Some conn \<Rightarrow>
           Send FallbackConn (Write originalRecord) #
           (case conn [] (Write originalRecord) of
              Some _ \<Rightarrow> [Close FallbackConn, Close Client]
            | None \<Rightarrow> [Tunnel rest FallbackConn []])))"

definition handleTLSFragment :: "fragEnv \<Rightarrow> rule \<Rightarrow> action list" where
  "handleTLSFragment env rule =
     (case readInitialTLSRecord (fe_clientBytes env) of
        None \<Rightarrow> [Close Client, Close UpstreamConn]
      | Some (record, rest) \<Rightarrow>
          (case parseClientHello record of
             None \<Rightarrow> [Panicked]
           | Some h \<Rightarrow>
               if h_err h \<noteq> None then [Close Client, Close UpstreamConn]
               else if h_sniPos h \<le> 0 \<or> h_sniLen h \<le> 0 then
                 Send UpstreamConn (Write record) #
                 (case fe_upstream env [] (Write record) of
                    Some _ \<Rightarrow> [Close Client, Close UpstreamConn]
                  | None \<Rightarrow> [Tunnel rest UpstreamConn []])
               else
                 let hasFallback = (r_FallbackMode rule \<noteq> '''');
                     savedRecord = record;
                     result = snd (sendRecords (fe_upstream env) record (h_sniPos h) (h_sniLen h)
                       defaultTLSRFNumRecords defaultTLSRFNumSegments defaultTLSRFOOB
                       defaultTLSRFOOBEx defaultTLSRFModMinorVer True)
                 in (case result of
                       SendPanic log \<Rightarrow> map (Send UpstreamConn) log @ [Panicked]
                     | SendErr log _ \<Rightarrow> map (Send UpstreamConn) log @ Close UpstreamConn #
                         (if hasFallback then handleTLSRFFallback env rule rest savedRecord
                          else [Close Client])
                     | Sent log \<Rightarrow> map (Send UpstreamConn) log @
                         (if hasFallback then
                            (case fe_probe env of
                               None \<Rightarrow> Close UpstreamConn # handleTLSRFFallback env rule rest savedRecord
                             | Some b \<Rightarrow> [Tunnel rest UpstreamConn [b]])
                          else [Tunnel rest UpstreamConn []]))))"

end
