(* ===== verification/TLS_Fragment_Correct.thy ===== *)
theory TLS_Fragment_Correct
  imports TLS_Fragment
begin

text \<open>
  Correctness of the fragmentation component: the parser never panics and reports a server name
  inside the record; the records that are sent carry the same handshake bytes, in order, under
  valid headers; no single record holds the whole server name; the handler offers the fallback the
  original bytes; and the two inputs on which the code does not do what it means to.
\<close>

section \<open>The parser\<close>

text \<open>What the parser promises about the server name.\<close>

definition sniOk :: "bytes \<Rightarrow> int \<Rightarrow> int \<Rightarrow> bool" where
  "sniOk data pos len \<longleftrightarrow> (pos = -1 \<and> len = 0) \<or> (43 < pos \<and> 0 \<le> len \<and> pos + len \<le> int (length data))"

lemma parseSNI_safe:
  assumes "s + l \<le> length data"
  shows "(\<exists>msg. parseSNI data s l = Some (Inl msg)) \<or>
         (\<exists>p n. parseSNI data s l = Some (Inr (p, n)) \<and> p = s + 5 \<and> p + n \<le> s + l)"
  using assms by (simp add: parseSNI_def Let_def)

text \<open>One round of the loop, with the two length fields read.\<close>

lemma extLoop_step:
  assumes "off + 4 \<le> e" "rd16 data off = Some t" "rd16 data (off + 2) = Some l"
  shows "extLoop data ver e off pos len ks =
      (if e < off + 4 + l then helloErr ver pos len False ''extension length exceeds extensions block''
       else if t = extTypeKeyShare \<and> pos \<noteq> -1 then helloOk ver pos len True
       else if pos = -1 \<and> t = extTypeSNI then
         parseSNI data (off + 4) l \<bind> (\<lambda>res. case res of
               Inl msg \<Rightarrow> helloErr ver pos len (t = extTypeKeyShare \<or> ks) msg
             | Inr (nameStart, nameLen) \<Rightarrow>
                 if t = extTypeKeyShare \<or> ks
                 then helloOk ver (int nameStart) (int nameLen) (t = extTypeKeyShare \<or> ks)
                 else extLoop data ver e (off + 4 + l) (int nameStart) (int nameLen) (t = extTypeKeyShare \<or> ks))
       else extLoop data ver e (off + 4 + l) pos len (t = extTypeKeyShare \<or> ks))"
  by (subst extLoop.simps) (simp only: assms if_True bind.bind_lunit Let_def)

lemma extLoop_safe:
  assumes "e \<le> length data" "43 < off" "sniOk data pos len"
  shows "\<exists>h. extLoop data ver e off pos len ks = Some h \<and> sniOk data (h_sniPos h) (h_sniLen h)"
  using assms(2,3)
proof (induction "e - off" arbitrary: off pos len ks rule: less_induct)
  case less
  show ?case
  proof (cases "off + 4 \<le> e")
    case False
    with less.prems show ?thesis by (subst extLoop.simps) simp
  next
    case True
    with assms(1) obtain t l where t: "rd16 data off = Some t" and l: "rd16 data (off + 2) = Some l" by simp
    note step = extLoop_step [OF True t l]
    have IH: "\<exists>h. extLoop data ver e (off + 4 + l) p n k = Some h \<and> sniOk data (h_sniPos h) (h_sniLen h)"
      if "sniOk data p n" for p n k
      using less.hyps [of "off + 4 + l" p n k] True less.prems(1) that by simp
    show ?thesis
    proof (cases "e < off + 4 + l \<or> (t = extTypeKeyShare \<and> pos \<noteq> -1) \<or> \<not> (pos = -1 \<and> t = extTypeSNI)")
      case True
      with less.prems(2) IH [OF less.prems(2)] show ?thesis by (auto simp: step)
    next
      case False
      with assms(1) parseSNI_safe [of "off + 4" l data] consider
          msg where "parseSNI data (off + 4) l = Some (Inl msg)"
        | p n where "parseSNI data (off + 4) l = Some (Inr (p, n))" "p = off + 4 + 5" "p + n \<le> off + 4 + l"
        by auto
      then show ?thesis
      proof cases
        case (2 p n)
        then have ok: "sniOk data (int p) (int n)" using False assms(1) less.prems(1) by (simp add: sniOk_def)
        show ?thesis using 2(1) False ok IH [OF ok] by (simp add: step)
      qed (use False less.prems(2) in \<open>simp add: step\<close>)
    qed
  qed
qed

lemma parseBody_safe:
  assumes "42 < off"
  shows "\<exists>h. parseBody data ver off = Some h \<and> sniOk data (h_sniPos h) (h_sniLen h)"
proof -
  have e: "sniOk data (-1) 0" by (simp add: sniOk_def)
  show ?thesis using assms e extLoop_safe [OF _ _ e]
    by (simp add: parseBody_def Let_def)
qed

lemma parseClientHello_safe:
  "\<exists>h. parseClientHello data = Some h \<and> sniOk data (h_sniPos h) (h_sniLen h)"
proof -
  have e: "sniOk data (-1) 0" by (simp add: sniOk_def)
  show ?thesis
    using parseBody_safe [of 43 data] e
    by (simp add: parseClientHello_def tlsRecordHeaderLen_def Let_def slice_def)
qed

section \<open>Finding the cut\<close>

definition dotSpec :: "bytes \<Rightarrow> int \<Rightarrow> int \<Rightarrow> int \<Rightarrow> int \<times> bool \<Rightarrow> bool" where
  "dotSpec data pos len i r \<longleftrightarrow>
     (if snd r then pos \<le> fst r \<and> fst r \<le> i \<and> data ! nat (fst r) = 0x2E else fst r = quot len 2 + pos)"

lemma findLastDotFrom_spec:
  assumes "0 \<le> pos" "i < int (length data)"
  shows "\<exists>r. findLastDotFrom data pos len i = Some r \<and> dotSpec data pos len i r"
  using assms
proof (induction data pos len i rule: findLastDotFrom.induct)
  case (1 data pos len i)
  show ?case
  proof (cases "pos \<le> i \<and> data ! nat i \<noteq> 0x2E")
    case True
    with "1.prems" have u: "findLastDotFrom data pos len i = findLastDotFrom data pos len (i - 1)"
      by (simp add: findLastDotFrom.simps [of data pos len i])
    from True "1.prems" "1.IH" obtain r where r: "findLastDotFrom data pos len (i - 1) = Some r"
      "dotSpec data pos len (i - 1) r" by auto
    then have "dotSpec data pos len i r" by (auto simp: dotSpec_def)
    with r u show ?thesis by simp
  next
    case False
    with "1.prems" show ?thesis by (auto simp: findLastDotFrom.simps [of data pos len i] dotSpec_def)
  qed
qed

lemma findLastDot_panic:
  "0 \<le> pos \<Longrightarrow> 0 \<le> len \<Longrightarrow> int (length data) \<le> pos + len \<Longrightarrow> findLastDot data pos len = None"
  by (simp add: findLastDot_def findLastDotFrom.simps)

lemma findLastDot_inside:
  assumes "0 \<le> pos" "2 \<le> len" "pos + len < int (length data)"
    and "data ! nat pos \<noteq> 0x2E" "data ! nat (pos + len) \<noteq> 0x2E"
  shows "\<exists>c f. findLastDot data pos len = Some (c, f) \<and> pos < c \<and> c < pos + len"
proof -
  obtain r where r: "findLastDot data pos len = Some r" "dotSpec data pos len (pos + len) r"
    using findLastDotFrom_spec [of pos "pos + len" data len] assms unfolding findLastDot_def by blast
  obtain c f where "r = (c, f)" by (cases r)
  with r have c: "findLastDot data pos len = Some (c, f)"
    "if f then pos \<le> c \<and> c \<le> pos + len \<and> data ! nat c = 0x2E else c = quot len 2 + pos"
    by (simp_all add: dotSpec_def split: if_splits)
  have "c \<noteq> pos" "c \<noteq> pos + len" if f using c(2) assms that by auto
  moreover have "quot len 2 = len div 2" using assms by (simp add: quot_nonneg)
  ultimately show ?thesis using c assms by (intro exI [of _ c] exI [of _ f]) (auto split: if_splits)
qed

section \<open>Splitting and framing\<close>

lemma concat_blocks: "concat (map (\<lambda>i. take b (drop (i * b) d)) [0..<m]) = take (m * b) d"
proof (induction m)
  case (Suc m)
  have "take (Suc m * b) d = take (m * b) d @ take b (drop (m * b) d)"
    by (metis add.commute mult_Suc take_add)
  with Suc show ?case by simp
qed simp

lemma concat_splitParts: "0 < n \<Longrightarrow> concat (splitParts d n) = d"
proof -
  assume n: "0 < n"
  show ?thesis
  proof (cases "n = 1 \<or> int (length d) < n")
    case False
    define k where "k = nat n" define b where "b = length d div k"
    obtain m where m: "k = Suc m" using n by (metis k_def gr0_implies_Suc zero_less_nat_eq)
    have "splitParts d n = map (\<lambda>i. if i = k - 1 then drop (i * b) d else take b (drop (i * b) d)) [0..<k]"
      using n False by (simp add: splitParts_def Let_def k_def b_def)
    also have "\<dots> = map (\<lambda>i. take b (drop (i * b) d)) [0..<m] @ [drop (m * b) d]"
      by (simp add: m)
    finally show ?thesis by (simp add: concat_blocks)
  qed (use n in \<open>auto simp: splitParts_def\<close>)
qed

lemma splitParts_le: "p \<in> set (splitParts d n) \<Longrightarrow> length p \<le> length d"
  by (auto simp: splitParts_def Let_def split: if_splits)

lemma length_splitParts: "length (splitParts d n) \<le> nat n"
  by (auto simp: splitParts_def Let_def)

lemma makeRecord_eq:
  obtains x where "length x = 3" "length h = 3 \<Longrightarrow> x = h"
    "makeRecord h p = x @ word_of_nat (length p div 256) # word_of_nat (length p) # p"
proof
  show "length (take 3 (take 3 h @ [0, 0, 0])) = 3" by simp
  show "take 3 (take 3 h @ [0, 0, 0]) = h" if "length h = 3" using that by simp
qed (simp add: makeRecord_def)

lemma drop_makeRecord [simp]: "drop 5 (makeRecord h p) = p"
  by (rule makeRecord_eq [of h p]) (simp add: drop_append)

lemma take_makeRecord: "length h = 3 \<Longrightarrow> take 3 (makeRecord h p) = h"
  by (rule makeRecord_eq [of h p]) simp

lemma length_makeRecord [simp]: "length (makeRecord h p) = 5 + length p"
  by (rule makeRecord_eq [of h p]) simp

lemma record_length_field:
  assumes "n < 65536"
  shows "256 * unat (word_of_nat (n div 256) :: byte) + unat (word_of_nat n :: byte) = n"
proof -
  have "unat (word_of_nat (n div 256) :: byte) = n div 256"
    using assms by (simp add: unat_of_nat)
  moreover have "unat (word_of_nat n :: byte) = n mod 256" by (simp add: unat_of_nat)
  ultimately show ?thesis by simp
qed

lemma readInitialTLSRecord_makeRecord:
  assumes "length p < 65536"
  shows "readInitialTLSRecord (makeRecord h p @ rest) = Some (makeRecord h p, rest)"
proof -
  have "(makeRecord h p @ rest) ! 3 = word_of_nat (length p div 256)"
    "(makeRecord h p @ rest) ! 4 = word_of_nat (length p)"
    by (rule makeRecord_eq [of h p], simp add: nth_append)+
  with record_length_field [OF assms] show ?thesis
    by (simp add: readInitialTLSRecord_def tlsRecordHeaderLen_def Let_def)
qed

section \<open>Reassembly\<close>

text \<open>A receiver's view of the byte stream: split off one record after the other.\<close>

fun unframeAll :: "('a list \<Rightarrow> ('a list \<times> 'a list) option) \<Rightarrow> nat \<Rightarrow> 'a list \<Rightarrow> 'a list list option" where
  "unframeAll unframe fuel [] = Some []"
| "unframeAll unframe 0 s = None"
| "unframeAll unframe (Suc fuel) s = do {
     (r, rest) \<leftarrow> unframe s;
     rs \<leftarrow> unframeAll unframe fuel rest;
     Some (r # rs) }"

definition recordsOf :: "bytes \<Rightarrow> bytes list option" where
  "recordsOf s = unframeAll readInitialTLSRecord (length s) s"

text \<open>What \<open>sendRecords\<close> needs from the splitter and the record format.\<close>

locale fragmenter =
  fixes split :: "bytes \<Rightarrow> int \<Rightarrow> bytes list"
    and frame :: "bytes \<Rightarrow> bytes \<Rightarrow> bytes"
    and unframe :: "bytes \<Rightarrow> (bytes \<times> bytes) option"
    and payload :: "bytes \<Rightarrow> bytes"
    and maxLen :: nat
  assumes concat_split: "0 < n \<Longrightarrow> concat (split d n) = d"
    and split_le: "p \<in> set (split d n) \<Longrightarrow> length p \<le> length d"
    and unframe_frame: "length p < maxLen \<Longrightarrow> unframe (frame h p @ rest) = Some (frame h p, rest)"
    and payload_frame: "payload (frame h p) = p"
    and frame_nonempty: "frame h p \<noteq> []"
begin

lemma unframeAll_frames:
  "(\<And>p. p \<in> set ps \<Longrightarrow> length p < maxLen) \<Longrightarrow> length ps \<le> fuel \<Longrightarrow>
   unframeAll unframe fuel (concat (map (frame h) ps)) = Some (map (frame h) ps)"
proof (induction ps arbitrary: fuel)
  case (Cons p ps)
  then obtain k where k: "fuel = Suc k" by (cases fuel) auto
  obtain c cs where c: "frame h p = c # cs" using frame_nonempty [of h p] by (cases "frame h p") auto
  have "unframe (frame h p @ concat (map (frame h) ps)) = Some (frame h p, concat (map (frame h) ps))"
    using Cons.prems by (intro unframe_frame) simp
  with Cons k show ?case by (simp add: c)
qed simp

lemma length_frames: "length ps \<le> length (concat (map (frame h) ps))"
proof (induction ps)
  case (Cons p ps)
  then show ?case using frame_nonempty [of h p] by (cases "frame h p") auto
qed simp

lemma unframe_stream:
  "(\<And>p. p \<in> set ps \<Longrightarrow> length p < maxLen) \<Longrightarrow>
   unframeAll unframe (length (concat (map (frame h) ps))) (concat (map (frame h) ps)) = Some (map (frame h) ps)"
  by (rule unframeAll_frames [OF _ length_frames])

lemma payloads: "map payload (map (frame h) ps) = ps"
  by (simp add: comp_def payload_frame)

lemma reassemble:
  "0 < m \<Longrightarrow> 0 < n \<Longrightarrow> concat (map payload (map (frame h) (split l m @ split r n))) = l @ r"
  unfolding payloads by (simp add: concat_split)

text \<open>A boundary at the cut: a part lies on one side of it.\<close>

lemma part_on_one_side:
  assumes "0 < m" "split l m @ split r n = before @ p # after"
  shows "length (concat before) + length p \<le> length l \<or> length l \<le> length (concat before)"
proof -
  from assms(2) consider us where "split l m = before @ p # us" "after = us @ split r n"
    | us where "before = split l m @ us" "us @ p # after = split r n"
    by (auto simp: append_eq_append_conv2 Cons_eq_append_conv append_eq_Cons_conv)
  then show ?thesis
  proof cases
    case 1
    then have "l = concat before @ p @ concat us" using concat_split [OF assms(1), of l] by simp
    then show ?thesis by simp
  next
    case 2
    then have "concat before = l @ concat us" using concat_split [OF assms(1), of l] by simp
    then show ?thesis by simp
  qed
qed

end

interpretation tls: fragmenter splitParts makeRecord readInitialTLSRecord "drop 5" 65536
proof unfold_locales
  show "makeRecord h p \<noteq> []" for h p by (metis add_gr_0 length_greater_0_conv length_makeRecord zero_less_numeral)
qed (auto simp: concat_splitParts splitParts_le readInitialTLSRecord_makeRecord)

section \<open>The records that are sent\<close>

text \<open>With the default settings the plan is one write of the concatenated records.\<close>

abbreviation sendDefault :: "connection \<Rightarrow> bytes \<Rightarrow> int \<Rightarrow> int \<Rightarrow> sendResult" where
  "sendDefault conn hello pos len \<equiv> snd (sendRecords conn hello pos len defaultTLSRFNumRecords
     defaultTLSRFNumSegments defaultTLSRFOOB defaultTLSRFOOBEx defaultTLSRFModMinorVer True)"

lemmas tlsrf_defaults = defaultTLSRFNumRecords_def defaultTLSRFNumSegments_def defaultTLSRFOOB_def
  defaultTLSRFOOBEx_def defaultTLSRFModMinorVer_def

lemma quot_4_2 [simp]: "quot 4 2 = 2"
  by (simp add: quot_def)

lemma setMinorVer_facts:
  assumes "5 \<le> length hello"
  shows "length (setMinorVer True hello) = length hello" "drop 5 (setMinorVer True hello) = drop 5 hello"
    "take 3 (setMinorVer True hello) = [hello ! 0, hello ! 1, 4]"
    "3 \<le> j \<Longrightarrow> setMinorVer True hello ! j = hello ! j"
proof -
  obtain a b c rest where h: "hello = a # b # c # rest"
    using assms by (auto simp: Suc_le_length_iff numeral_eq_Suc)
  then have m: "setMinorVer True hello = a # b # 4 # rest"
    by (simp add: setMinorVer_def)
  show "length (setMinorVer True hello) = length hello" "drop 5 (setMinorVer True hello) = drop 5 hello"
    "take 3 (setMinorVer True hello) = [hello ! 0, hello ! 1, 4]" by (simp_all add: h m [unfolded h])
  show "3 \<le> j \<Longrightarrow> setMinorVer True hello ! j = hello ! j" by (simp add: setMinorVer_def)
qed

lemma helloChunks_eq:
  assumes "findLastDot hello pos len = Some (int c, f)" "5 \<le> c" "c \<le> length hello"
  shows "helloChunks hello pos len 4 =
     Some (map (makeRecord (take 3 hello))
       (splitParts (take (c - 5) (drop 5 hello)) 2 @ splitParts (drop c hello) 2))"
proof -
  have "slice hello 0 3 = Some (take 3 hello)" "slice hello 5 (int c) = Some (take (c - 5) (drop 5 hello))"
    "slice hello (int c) (int (length hello)) = Some (drop c hello)"
    using assms slice_nat [of 0 3 hello] slice_nat [of 5 c hello] slice_nat [of c "length hello" hello] by simp_all
  with assms(1) show ?thesis by (simp add: helloChunks_def splitAndAppend_def)
qed

lemma sendDefault_eq:
  assumes "helloChunks (setMinorVer True hello) pos len 4 = Some chunks" "conn [] (Write (concat chunks)) = None"
  shows "sendDefault conn hello pos len = Sent [Write (concat chunks)]"
  using assms by (simp add: sendRecords_def Let_def tlsrf_defaults sendPlan_def mergedPlan_def)

lemma sendDefault_panic:
  assumes "findLastDot (setMinorVer True hello) pos len = None"
  shows "sendDefault conn hello pos len = SendPanic []"
  using assms by (simp add: sendRecords_def Let_def tlsrf_defaults sendPlan_def helloChunks_def)

section \<open>Properties\<close>

text \<open>C14. The parser is safe on every input: it never reads outside the record, so it never panics,
  and it reports either no server name or one that lies inside the record, after the fixed fields of
  the ClientHello.\<close>

theorem parseClientHello_total:
  "\<exists>h. parseClientHello data = Some h \<and>
     ((h_sniPos h = -1 \<and> h_sniLen h = 0) \<or>
      (43 < h_sniPos h \<and> 0 \<le> h_sniLen h \<and> h_sniPos h + h_sniLen h \<le> int (length data)))"
  using parseClientHello_safe [of data] by (simp add: sniOk_def)

lemma cut_inside:
  assumes "43 < pos" "2 \<le> len" "pos + len < int (length hello)"
    and "hello ! nat pos \<noteq> 0x2E" "hello ! nat (pos + len) \<noteq> 0x2E"
  obtains c f where "findLastDot (setMinorVer True hello) pos len = Some (int c, f)"
    "nat pos < c" "int c < pos + len"
proof -
  have l: "5 \<le> length hello" using assms by linarith
  have "3 \<le> nat pos" "3 \<le> nat (pos + len)" using assms by linarith+
  then obtain c f where c: "findLastDot (setMinorVer True hello) pos len = Some (c, f)" "pos < c" "c < pos + len"
    using findLastDot_inside [of pos len "setMinorVer True hello"] assms setMinorVer_facts [OF l] by auto
  show thesis
  proof (rule that [of "nat c" f])
    show "findLastDot (setMinorVer True hello) pos len = Some (int (nat c), f)"
      using c assms by simp
  qed (use c assms in linarith)+
qed

text \<open>C1. Fragmentation keeps the handshake and hides the name. Let the first record of a client
  (of at most 65540 bytes) hold, by the parser's report, a server name of at least two bytes that is not the end
  of the record, does not start with a dot and is not followed by the byte of a dot. On a connection
  that accepts the write, \<open>sendRecords\<close> with the default settings makes one write, which a receiver splits into at
  most four TLS records; all carry the type and major version of the original and minor version 4, their
  payloads concatenated are the original handshake bytes, and no single payload covers the whole
  server name.\<close>

theorem fragments_reassemble_and_hide_sni:
  assumes "parseClientHello hello = Some h" "h_sniPos h = pos" "h_sniLen h = len"
    and "0 < pos" "2 \<le> len" "pos + len < int (length hello)" "length hello < 65541"
    and "hello ! nat pos \<noteq> 0x2E" "hello ! nat (pos + len) \<noteq> 0x2E"
    and "\<And>b. conn [] (Write b) = None"
  shows "\<exists>merged recs. sendDefault conn hello pos len = Sent [Write merged] \<and>
     recordsOf merged = Some recs \<and> length recs \<le> 4 \<and>
     (\<forall>r \<in> set recs. take 3 r = [hello ! 0, hello ! 1, 4]) \<and>
     concat (map (drop 5) recs) = drop 5 hello \<and>
     (\<forall>before p after. map (drop 5) recs = before @ p # after \<longrightarrow>
        \<not> (5 + int (length (concat before)) \<le> pos \<and>
           pos + len \<le> 5 + int (length (concat before)) + int (length p)))"
proof -
  have pos: "43 < pos" using parseClientHello_safe [of hello] assms(1-4) by (auto simp: sniOk_def)
  have l: "5 \<le> length hello" using pos assms by linarith
  note mv = setMinorVer_facts [OF l]
  obtain c f where c: "findLastDot (setMinorVer True hello) pos len = Some (int c, f)"
      "nat pos < c" "int c < pos + len"
    using cut_inside [of pos len hello] pos assms by blast
  define L where "L = take (c - 5) (drop 5 hello)"
  define R where "R = drop c hello"
  define ps where "ps = splitParts L 2 @ splitParts R 2"
  define recs where "recs = map (makeRecord [hello ! 0, hello ! 1, 4]) ps"
  have c5: "5 \<le> c" "c \<le> length hello" "c \<le> length (setMinorVer True hello)"
    using c pos assms(6) mv(1) by linarith+
  have d5: "drop c x = drop (c - 5) (drop 5 x)" for x :: bytes using c5 by simp
  have R: "drop c (setMinorVer True hello) = R" unfolding R_def d5 mv(2) ..
  have ch: "helloChunks (setMinorVer True hello) pos len 4 = Some recs"
    using helloChunks_eq [OF c(1) c5(1) c5(3)] by (simp add: R mv(2,3) recs_def ps_def L_def)
  have LR: "L @ R = drop 5 hello" unfolding L_def R_def d5 by (rule append_take_drop_id)
  have lenL: "length L = c - 5" using c5 by (simp add: L_def)
  have short: "length p < 65536" if "p \<in> set ps" for p
  proof -
    from that have "length p \<le> length L \<or> length p \<le> length R"
      unfolding ps_def using splitParts_le by auto
    then show ?thesis using assms(7) c5 by (auto simp: L_def R_def)
  qed
  have recs: "recordsOf (concat recs) = Some recs"
    unfolding recordsOf_def recs_def by (rule tls.unframe_stream) (rule short)
  have cat: "concat (map (drop 5) recs) = drop 5 hello"
    unfolding recs_def ps_def using tls.reassemble [of 2 2 "[hello ! 0, hello ! 1, 4]" L R] LR by simp
  have hide: "\<not> (5 + int (length (concat before)) \<le> pos \<and> pos + len \<le> 5 + int (length (concat before)) + int (length p))"
    if "map (drop 5) recs = before @ p # after" for before p after
  proof -
    from that have "length (concat before) + length p \<le> length L \<or> length L \<le> length (concat before)"
      unfolding recs_def tls.payloads ps_def using tls.part_on_one_side [of 2 L R 2 before p after] by simp
    with lenL c pos show ?thesis by linarith
  qed
  have hdr: "take 3 r = [hello ! 0, hello ! 1, 4]" if "r \<in> set recs" for r
    using that by (auto simp: recs_def take_makeRecord)
  have "length recs \<le> 4"
    using length_splitParts [of L 2] length_splitParts [of R 2] by (simp add: recs_def ps_def)
  with sendDefault_eq [of hello pos len recs conn, OF ch assms(10)] recs cat hide hdr show ?thesis by blast
qed

text \<open>Two ClientHellos for the witnesses: a server name \<open>a.io\<close> followed by another extension, and one
  in which the server name is the last extension.\<close>

definition helloPrefix :: "byte \<Rightarrow> byte \<Rightarrow> byte \<Rightarrow> bytes" where
  "helloPrefix recLen hsLen extLen = [0x16, 3, 1, 0, recLen, 1, 0, 0, hsLen, 3, 3,
     0, 0, 0, 0, 0, 0, 0, 0, 0, 0, 0, 0, 0, 0, 0, 0, 0, 0, 0, 0, 0, 0, 0, 0, 0, 0, 0, 0, 0, 0, 0, 0,
     0, 0, 2, 0x13, 1, 1, 0, 0, extLen]"

definition sniExt :: bytes where
  "sniExt = [0, 0, 0, 9, 0, 7, 0, 0, 4, 0x61, 0x2E, 0x69, 0x6F]"

definition exampleHello :: bytes where
  "exampleHello = helloPrefix 64 60 17 @ sniExt @ [0, 23, 0, 0]"

definition exampleHelloSniLast :: bytes where
  "exampleHelloSniLast = helloPrefix 60 56 13 @ sniExt"

lemmas example_defs = exampleHello_def exampleHelloSniLast_def helloPrefix_def sniExt_def

lemma parse_exampleHello:
  "parseClientHello exampleHello =
     Some \<lparr>h_prtVer = Some [3, 3], h_sniPos = 61, h_sniLen = 4, h_hasKeyShare = False, h_err = None\<rparr>"
  by (simp add: example_defs parseClientHello_def parseBody_def extLoop.simps parseSNI_def rd16_def rd8_def
      slice_def tlsRecordHeaderLen_def extTypeSNI_def extTypeKeyShare_def)

lemma parse_exampleHelloSniLast:
  "parseClientHello exampleHelloSniLast =
     Some \<lparr>h_prtVer = Some [3, 3], h_sniPos = 61, h_sniLen = 4, h_hasKeyShare = False, h_err = None\<rparr>"
  by (simp add: example_defs parseClientHello_def parseBody_def extLoop.simps parseSNI_def rd16_def rd8_def
      slice_def tlsRecordHeaderLen_def extTypeSNI_def extTypeKeyShare_def)

theorem fragments_reassemble_and_hide_sni_witness:
  "\<exists>merged recs. sendDefault (\<lambda>_ _. None) exampleHello 61 4 = Sent [Write merged] \<and>
     recordsOf merged = Some recs \<and> concat (map (drop 5) recs) = drop 5 exampleHello"
proof -
  have l: "length exampleHello = 69" by (simp add: example_defs)
  have "exampleHello ! nat 61 \<noteq> 0x2E" "exampleHello ! nat (61 + 4) \<noteq> 0x2E" by (simp_all add: example_defs)
  with fragments_reassemble_and_hide_sni [OF parse_exampleHello, of 61 4 "\<lambda>_ _. None"] l
  show ?thesis by auto
qed

text \<open>C40. When the server name is the end of the record (its extension is the last one of the
  ClientHello), \<open>findLastDot\<close> reads one byte past the record: the handler panics before anything is
  sent, whatever the connection and the rule are.\<close>

theorem sni_at_end_panics:
  assumes "readInitialTLSRecord (fe_clientBytes env) = Some (hello, rest)"
    and "parseClientHello hello = Some h" "h_err h = None" "0 < h_sniPos h" "0 < h_sniLen h"
    and "h_sniPos h + h_sniLen h = int (length hello)"
  shows "handleTLSFragment env rule = [Panicked]"
proof -
  have "length (setMinorVer True hello) = length hello" by (simp add: setMinorVer_def)
  then have "findLastDot (setMinorVer True hello) (h_sniPos h) (h_sniLen h) = None"
    using assms by (intro findLastDot_panic) auto
  from sendDefault_panic [OF this] assms show ?thesis by (simp add: handleTLSFragment_def)
qed

lemma read_example:
  "readInitialTLSRecord exampleHello = Some (exampleHello, [])"
  "readInitialTLSRecord exampleHelloSniLast = Some (exampleHelloSniLast, [])"
  by (simp_all add: readInitialTLSRecord_def example_defs tlsRecordHeaderLen_def)

theorem sni_at_end_panics_witness:
  "handleTLSFragment \<lparr>fe_clientBytes = exampleHelloSniLast, fe_upstream = (\<lambda>_ _. None), fe_probe = None,
     fe_serverHost = '''', fe_dialServer = (\<lambda>_. None)\<rparr> (zeroRule\<lparr>r_Mode := ''tls-rf''\<rparr>) = [Panicked]"
  by (rule sni_at_end_panics [OF _ parse_exampleHelloSniLast])
     (simp_all add: read_example(2), simp add: example_defs)

lemma readInitialTLSRecord_append: "readInitialTLSRecord s = Some (r, rest) \<Longrightarrow> s = r @ rest"
  by (auto simp: readInitialTLSRecord_def Let_def split: if_splits)

lemma fallback_sends:
  "Send e ev \<in> set (handleTLSRFFallback env rule rest rec) \<Longrightarrow> e = FallbackConn \<and> ev = Write rec"
  by (auto simp: handleTLSRFFallback_def DialFallback_def Let_def split: if_splits option.splits)

text \<open>The fallback gets the bytes the client sent: whenever the handler writes to the fallback
  connection, it writes exactly the client's first record, although \<open>sendRecords\<close> overwrites the
  minor version in place before.\<close>

theorem fallback_gets_original_record:
  assumes "Send FallbackConn ev \<in> set (handleTLSFragment env rule)"
  shows "\<exists>record rest. readInitialTLSRecord (fe_clientBytes env) = Some (record, rest) \<and>
     ev = Write record \<and> fe_clientBytes env = record @ rest"
proof (cases "readInitialTLSRecord (fe_clientBytes env)")
  case None
  with assms show ?thesis by (simp add: handleTLSFragment_def)
next
  case (Some rr)
  obtain r rest where rr: "rr = (r, rest)" by (cases rr)
  obtain h where h: "parseClientHello r = Some h" using parseClientHello_safe by blast
  have "ev = Write r"
    using assms fallback_sends [of FallbackConn ev env rule rest r]
    by (auto simp: handleTLSFragment_def Some rr h Let_def split: if_splits option.splits sendResult.splits)
  with Some rr readInitialTLSRecord_append show ?thesis by blast
qed

lemma cut_example: "findLastDot (setMinorVer True exampleHello) 61 4 = Some (62, True)"
  by (simp add: findLastDot_def findLastDotFrom.simps setMinorVer_def example_defs)

lemma chunks_example:
  "\<exists>c cs. helloChunks (setMinorVer True exampleHello) 61 4 4 = Some (c # cs)"
  using helloChunks_eq [of "setMinorVer True exampleHello" 61 4 62 True] cut_example
  by (simp add: splitParts_def setMinorVer_def example_defs upt_rec)

theorem fallback_gets_original_record_witness:
  "\<exists>record rest. readInitialTLSRecord exampleHello = Some (record, rest) \<and>
     Write exampleHello = Write record \<and> exampleHello = record @ rest"
proof -
  let ?env = "\<lparr>fe_clientBytes = exampleHello, fe_upstream = (\<lambda>_ _. Some ''reset''), fe_probe = None,
     fe_serverHost = ''srv'', fe_dialServer = (\<lambda>_. Some (\<lambda>_ _. None))\<rparr>"
  let ?rule = "zeroRule\<lparr>r_FallbackMode := ''server''\<rparr>"
  obtain c cs where "helloChunks (setMinorVer True exampleHello) 61 4 4 = Some (c # cs)"
    using chunks_example by blast
  then have "\<exists>log e. sendDefault (\<lambda>_ _. Some ''reset'') exampleHello 61 4 = SendErr log e"
    by (simp add: sendRecords_def tlsrf_defaults sendPlan_def mergedPlan_def)
  then have "Send FallbackConn (Write exampleHello) \<in> set (handleTLSFragment ?env ?rule)"
    by (auto simp: handleTLSFragment_def read_example parse_exampleHello handleTLSRFFallback_def DialFallback_def)
  from fallback_gets_original_record [OF this] show ?thesis by simp
qed

lemma chunkSteps_plain:
  "chunkSteps False False interval (0, c) = []"
  "chunkSteps False False interval (Suc i, c) =
     (Some (''write record '' @ Itoa (Suc i + 1)), Some (Write c)) # sleepSteps interval"
  by (simp_all add: chunkSteps_def)

lemma runSends_tail_chunks:
  assumes "\<And>log ev. conn log ev = None"
  shows "\<exists>log'. runSends conn log (concat (map (chunkSteps False False interval) (enumerate (Suc n) cs))) = Sent (log @ log') \<and>
     filter ((\<noteq>) Sleep) log' = map Write cs"
proof (induction cs arbitrary: n log)
  case (Cons c cs)
  obtain log' where l: "runSends conn (log @ Write c # (if interval then [Sleep] else []))
       (concat (map (chunkSteps False False interval) (enumerate (Suc (Suc n)) cs)))
     = Sent ((log @ Write c # (if interval then [Sleep] else [])) @ log')"
     "filter ((\<noteq>) Sleep) log' = map Write cs" using Cons.IH by blast
  then show ?case
    by (intro exI [of _ "Write c # (if interval then [Sleep] else []) @ log'"])
       (auto simp: chunkSteps_plain sleepSteps_def assms [of log "Write c"])
qed simp

text \<open>In the mode of one write per record (\<open>segments = -1\<close>) without urgent data, the first
  record is never sent: on a connection that accepts every write it sees every record but the first.\<close>

theorem segments_minus_one_drops_first_record:
  assumes "helloChunks (setMinorVer mv hello) pos len records = Some (c # cs)" "records \<noteq> 1"
    and "\<And>log ev. conn log ev = None"
  shows "\<exists>log. snd (sendRecords conn hello pos len records (-1) False False mv interval) = Sent log \<and>
     filter ((\<noteq>) Sleep) log = map Write cs"
  using runSends_tail_chunks [where conn = conn and log = "[]" and interval = interval and n = 0 and cs = cs]
    assms by (simp add: sendRecords_def Let_def sendPlan_def chunkSteps_plain)

theorem segments_minus_one_drops_first_record_witness:
  "\<exists>c cs log. helloChunks (setMinorVer True exampleHello) 61 4 4 = Some (c # cs) \<and>
     snd (sendRecords (\<lambda>_ _. None) exampleHello 61 4 4 (-1) False False True True) = Sent log \<and>
     filter ((\<noteq>) Sleep) log = map Write cs"
proof -
  obtain c cs where c: "helloChunks (setMinorVer True exampleHello) 61 4 4 = Some (c # cs)"
    using chunks_example by blast
  from segments_minus_one_drops_first_record [OF c, of "\<lambda>_ _. None" True] c show ?thesis by auto
qed

end
