(* ===== verification/Gfw_List.thy ===== *)
theory Gfw_List
  imports Go_Prelude
begin

text \<open>
  The GFW domain list, \<open>src/proxy/gfwlist.go\<close>: loading from a text stream, saving, and the
  blocked-host query that walks up the label hierarchy. A \<open>bufio.Scanner\<close> is a list of lines
  together with the error \<open>scanner.Err()\<close> reports after them; the value \<open>time.Now()\<close> is an
  argument.
\<close>

type_synonym gfwReader = "string list \<times> string option"

record gfwList =
  gfw_domains :: "string set"
  gfw_count :: nat
  gfw_lastLoad :: int

definition NewGFWList :: gfwList where
  "NewGFWList = \<lparr>gfw_domains = {}, gfw_count = 0, gfw_lastLoad = 0\<rparr>"

text \<open>The scan loop of \<open>LoadFromReader\<close>.\<close>

definition skipLine :: "string \<Rightarrow> bool" where
  "skipLine line \<longleftrightarrow> line = '''' \<or> HasPrefix line ''#'' \<or> HasPrefix line ''!'' \<or>
     HasPrefix line ''Source:'' \<or> HasPrefix line ''---''"

fun scanLines :: "string list \<Rightarrow> string set \<times> nat \<Rightarrow> string set \<times> nat" where
  "scanLines [] acc = acc"
| "scanLines (raw # rest) (domains, count) =
     (let line = TrimSpace raw in
      if skipLine line then scanLines rest (domains, count)
      else scanLines rest (insert (ToLower line) domains, count + 1))"

definition LoadFromReader ::
    "int \<Rightarrow> gfwReader \<Rightarrow> gfwList \<Rightarrow> (string + nat) \<times> gfwList" where
  "LoadFromReader now r g =
     (let (domains, count) = scanLines (fst r) ({}, 0) in
      case snd r of
        Some e \<Rightarrow> (Inl e, g)
      | None \<Rightarrow> (Inr count, g\<lparr>gfw_domains := domains, gfw_count := count, gfw_lastLoad := now\<rparr>))"

text \<open>\<open>bufio.ScanLines\<close>: the pieces between line feeds, each without a trailing carriage return;
  a final empty piece is no line.\<close>

definition dropCR :: "string \<Rightarrow> string" where
  "dropCR l = (if l \<noteq> [] \<and> last l = CHR 0x0D then butlast l else l)"

definition ScanLines :: "string \<Rightarrow> string list" where
  "ScanLines s = (let ps = Split (CHR 0x0A) s in
     map dropCR (if last ps = '''' then butlast ps else ps))"

text \<open>A file behind \<open>bufio.NewScanner\<close>: a line of 64 kB or more ends the scan with an error.\<close>

definition fileReader :: "string \<Rightarrow> gfwReader" where
  "fileReader text0 =
     (if list_ex (\<lambda>p. 65536 \<le> length p) (Split (CHR 0x0A) text0)
      then (map dropCR (takeWhile (\<lambda>p. length p < 65536) (Split (CHR 0x0A) text0)),
            Some ''bufio.Scanner: token too long'')
      else (ScanLines text0, None))"

text \<open>A file is its content, or \<open>None\<close> when it cannot be opened.\<close>

definition LoadFromFile :: "int \<Rightarrow> string option \<Rightarrow> gfwList \<Rightarrow> (string + nat) \<times> gfwList" where
  "LoadFromFile now file g =
     (case file of
        None \<Rightarrow> (Inl ''no such file or directory'', g)
      | Some text0 \<Rightarrow> LoadFromReader now (fileReader text0) g)"

definition defaultGFWListURL :: string where
  "defaultGFWListURL = ''https://raw.githubusercontent.com/Loyalsoldier/v2ray-rules-dat/release/gfw.txt''"

text \<open>The HTTP client is the parameter \<open>fetch\<close>: an error, or a status code and a body.\<close>

type_synonym http_fetch = "string \<Rightarrow> string + nat \<times> gfwReader"

definition LoadFromURL :: "http_fetch \<Rightarrow> int \<Rightarrow> string \<Rightarrow> gfwList \<Rightarrow> (string + nat) \<times> gfwList" where
  "LoadFromURL fetch now url0 g =
     (let url = (if url0 = '''' then defaultGFWListURL else url0) in
      case fetch url of
        Inl e \<Rightarrow> (Inl (''fetch GFWList: '' @ e), g)
      | Inr (status, body) \<Rightarrow>
          if status \<noteq> 200 then (Inl (''fetch GFWList: HTTP '' @ Itoa status), g)
          else LoadFromReader now body g)"

text \<open>\<open>SaveToFile\<close> writes one domain per line, in the iteration order \<open>ord\<close> of the map. A failing
  directory creation or write (\<open>io\<close>) leaves the file as it was.\<close>

fun saveText :: "string list \<Rightarrow> string" where
  "saveText [] = ''''"
| "saveText (d # ds) = d @ CHR 0x0A # saveText ds"

definition SaveToFile :: "string option \<Rightarrow> string list \<Rightarrow> string option \<Rightarrow> string option \<times> string option" where
  "SaveToFile io ord file = (case io of Some e \<Rightarrow> (Some e, file) | None \<Rightarrow> (None, Some (saveText ord)))"

text \<open>\<open>IsBlocked\<close>: exact match, then every proper label suffix.\<close>

definition IsBlocked :: "gfwList \<Rightarrow> string \<Rightarrow> bool" where
  "IsBlocked g host0 =
     (let host = ToLower (TrimSpace host0) in
      if host = '''' then False
      else if gfw_domains g = {} then False
      else if host \<in> gfw_domains g then True
      else let parts = Split (CHR ''.'') host in
        list_ex (\<lambda>i. Join (drop i parts) ''.'' \<in> gfw_domains g) [1..<length parts])"

section \<open>The suffix walk\<close>

text \<open>The strings the walk visits are the suffixes that follow a separator.\<close>

lemma Join_drop_Split_Cons:
  assumes "x \<noteq> c" "0 < i"
  shows "drop i (Split c (x # xs)) = drop i (Split c xs)"
  using assms by (cases "Split c xs"; cases i) auto

lemma length_Split_Cons: "length (Split c (x # xs)) = (if x = c then Suc else id) (length (Split c xs))"
  by (auto split: list.splits)

lemma label_suffixes:
  "(\<exists>i. 1 \<le> i \<and> i < length (Split c s) \<and> t = Join (drop i (Split c s)) [c]) \<longleftrightarrow> suffix (c # t) s"
proof (induction s)
  case (Cons x xs)
  show ?case
  proof (cases "x = c")
    case True
    have "(\<exists>i. 1 \<le> i \<and> i < length (Split c (x # xs)) \<and> t = Join (drop i (Split c (x # xs))) [c])
        \<longleftrightarrow> (\<exists>j. j < length (Split c xs) \<and> t = Join (drop j (Split c xs)) [c])" (is "?L \<longleftrightarrow> ?R")
    proof
      assume ?L then obtain i where "1 \<le> i" "i < length (Split c (x # xs))"
        "t = Join (drop i (Split c (x # xs))) [c]" by blast
      with True show ?R by (intro exI [of _ "i - 1"]) (cases i, auto)
    next
      assume ?R then obtain j where "j < length (Split c xs)" "t = Join (drop j (Split c xs)) [c]" by blast
      with True show ?L by (intro exI [of _ "Suc j"]) auto
    qed
    also have "\<dots> \<longleftrightarrow> t = xs \<or> (\<exists>j. 1 \<le> j \<and> j < length (Split c xs) \<and> t = Join (drop j (Split c xs)) [c])"
    proof
      assume ?R then obtain j where j: "j < length (Split c xs)" "t = Join (drop j (Split c xs)) [c]" by blast
      then show "t = xs \<or> (\<exists>j. 1 \<le> j \<and> j < length (Split c xs) \<and> t = Join (drop j (Split c xs)) [c])"
        by (cases j) (auto intro: exI [of _ j])
    next
      assume "t = xs \<or> (\<exists>j. 1 \<le> j \<and> j < length (Split c xs) \<and> t = Join (drop j (Split c xs)) [c])"
      then show ?R
      proof
        assume "t = xs" then show ?R by (intro exI [of _ 0]) simp
      qed blast
    qed
    also have "\<dots> \<longleftrightarrow> suffix (c # t) (x # xs)"
      using Cons.IH True by (auto simp: suffix_Cons)
    finally show ?thesis .
  next
    case False
    then show ?thesis using Cons.IH Join_drop_Split_Cons [OF False] length_Split_Cons [of c x xs]
      by (auto simp: suffix_Cons)
  qed
qed (auto simp: suffix_def)

lemma IsBlocked_iff:
  "IsBlocked g h \<longleftrightarrow>
     (let host = ToLower (TrimSpace h) in
      host \<noteq> '''' \<and> (\<exists>d \<in> gfw_domains g. host = d \<or> HasSuffix host (''.'' @ d)))"
proof -
  have "list_ex (\<lambda>i. Join (drop i (Split c s)) [c] \<in> D) [1..<length (Split c s)]
      \<longleftrightarrow> (\<exists>d \<in> D. suffix (c # d) s)" for c :: char and s D
  proof -
    have "list_ex (\<lambda>i. Join (drop i (Split c s)) [c] \<in> D) [1..<length (Split c s)] \<longleftrightarrow>
      (\<exists>d \<in> D. \<exists>i. 1 \<le> i \<and> i < length (Split c s) \<and> d = Join (drop i (Split c s)) [c])"
      unfolding list_ex_iff set_upt atLeastLessThan_iff Bex_def by blast
    then show ?thesis by (simp only: label_suffixes)
  qed
  then show ?thesis
    by (auto simp: IsBlocked_def Let_def HasSuffix_iff_suffix)
qed

section \<open>Loading and saving\<close>

lemma scanLines_acc:
  "scanLines ls (D, n) =
     (D \<union> {ToLower (TrimSpace l) | l. l \<in> set ls \<and> \<not> skipLine (TrimSpace l)},
      n + length (filter (\<lambda>l. \<not> skipLine (TrimSpace l)) ls))"
  by (induction ls arbitrary: D n) (auto simp: Let_def)

text \<open>A list of well-formed domains (folded, trimmed, not comments) survives saving and loading.\<close>

definition wf_domain :: "string \<Rightarrow> bool" where
  "wf_domain d \<longleftrightarrow> TrimSpace d = d \<and> ToLower d = d \<and> \<not> skipLine d \<and> CHR 0x0A \<notin> set d"

lemma TrimSpace_last: "TrimSpace d = d \<Longrightarrow> d \<noteq> [] \<Longrightarrow> \<not> is_space (last d)"
proof -
  assume t: "TrimSpace d = d" and "d \<noteq> []"
  then have "dropWhile is_space (rev (dropWhile is_space d)) = rev d"
    by (metis TrimSpace_def trim_where_def rev_rev_ident)
  moreover have "rev d = last d # rev (butlast d)" using \<open>d \<noteq> []\<close>
    by (metis append_butlast_last_id rev.simps(2) rev_rev_ident rev_append append_Cons append_Nil)
  ultimately show ?thesis using hd_dropWhile_not by metis
qed

lemma dropCR_wf: "wf_domain d \<Longrightarrow> dropCR d = d"
  using TrimSpace_last [of d] by (auto simp: dropCR_def wf_domain_def is_space_def)

lemma Split_saveText: "(\<And>d. d \<in> set ds \<Longrightarrow> CHR 0x0A \<notin> set d) \<Longrightarrow> Split (CHR 0x0A) (saveText ds) = ds @ ['''']"
  by (induction ds) (auto simp: Split_append_sep)

lemma ScanLines_saveText:
  "(\<And>d. d \<in> set ds \<Longrightarrow> wf_domain d) \<Longrightarrow> ScanLines (saveText ds) = ds"
proof -
  assume wf: "\<And>d. d \<in> set ds \<Longrightarrow> wf_domain d"
  then have "map dropCR ds = ds" by (intro map_idI dropCR_wf)
  with wf show ?thesis by (simp add: ScanLines_def Split_saveText wf_domain_def)
qed

text \<open>What a scanner delivers: lines without line feed, shorter than its buffer. Every domain loaded
  from such lines is well formed, so writing the list and reading it back gives the same set.\<close>

definition scannerLines :: "string list \<Rightarrow> bool" where
  "scannerLines ls \<longleftrightarrow> (\<forall>l \<in> set ls. CHR 0x0A \<notin> set l \<and> length l < 65536)"

lemma lower_char_eq:
  assumes "(of_char d :: nat) < 65"
  shows "lower_char c = d \<longleftrightarrow> c = d"
proof
  assume "lower_char c = d" then show "c = d" using lower_char_cases [of c] assms by auto
next
  assume "c = d" then show "lower_char c = d" using assms by (simp add: lower_char_def)
qed

lemma lower_char_not_upper: "\<not> (65 \<le> (of_char (lower_char c) :: nat) \<and> (of_char (lower_char c) :: nat) \<le> 90)"
  by (simp add: lower_char_def)

lemma lower_char_consts:
  "lower_char c = CHR ''#'' \<longleftrightarrow> c = CHR ''#''" "lower_char c = CHR ''!'' \<longleftrightarrow> c = CHR ''!''"
  "lower_char c = CHR ''-'' \<longleftrightarrow> c = CHR ''-''" "lower_char c = CHR 0x0A \<longleftrightarrow> c = CHR 0x0A"
  by (rule lower_char_eq, simp)+

lemma lower_char_not_S: "lower_char c \<noteq> CHR ''S''"
  using lower_char_not_upper [of c] by auto

lemma prefix_ToLower:
  assumes "\<And>c d. d \<in> set p \<Longrightarrow> lower_char c = d \<Longrightarrow> c = d"
  shows "prefix p (ToLower t) \<Longrightarrow> prefix p t"
  using assms
proof (induction p arbitrary: t)
  case (Cons d p)
  show ?case
  proof (cases t)
    case (Cons a u)
    with Cons.prems have "lower_char a = d" "prefix p (ToLower u)" by (auto simp: ToLower_def)
    with Cons Cons.IH [of u] Cons.prems(2) show ?thesis by (metis Cons_prefix_Cons list.set_intros)
  qed (use Cons.prems in simp)
qed simp

lemma not_Source_ToLower: "\<not> prefix (CHR ''S'' # p) (ToLower t)"
  using lower_char_not_S by (cases t) (force simp: ToLower_def)+

lemma skipLine_ToLower: "\<not> skipLine t \<Longrightarrow> \<not> skipLine (ToLower t)"
  using prefix_ToLower [of "''#''" t] prefix_ToLower [of "''!''" t] prefix_ToLower [of "''---''" t] not_Source_ToLower [of "''ource:''" t]
  unfolding skipLine_def HasPrefix_def by (simp add: lower_char_consts) blast

lemma length_TrimSpace_le: "length (TrimSpace s) \<le> length s"
  using length_dropWhile_le [of is_space s] length_dropWhile_le [of is_space "rev (dropWhile is_space s)"]
  by (simp add: TrimSpace_def trim_where_def)

lemma loaded_wf:
  assumes "LoadFromReader now (ls, None) g = (Inr n, g1)" "scannerLines ls" "d \<in> gfw_domains g1"
  shows "wf_domain d \<and> length d < 65536"
proof -
  from assms(1,3) obtain l where l: "l \<in> set ls" "\<not> skipLine (TrimSpace l)" "d = ToLower (TrimSpace l)"
    by (auto simp: LoadFromReader_def scanLines_acc)
  have "CHR 0x0A \<notin> set (TrimSpace l)" "length l < 65536"
    using l(1) assms(2) set_TrimSpace [of l] by (auto simp: scannerLines_def)
  then have "CHR 0x0A \<notin> set d" "length d < 65536"
    using l(3) length_TrimSpace_le [of l] by (auto simp: ToLower_def lower_char_consts dest: sym)
  then show ?thesis using l(2,3) skipLine_ToLower by (simp add: wf_domain_def)
qed

lemma finite_loaded: "LoadFromReader now (ls, None) g = (Inr n, g1) \<Longrightarrow> finite (gfw_domains g1)"
  by (auto simp: LoadFromReader_def scanLines_acc)

lemma fileReader_saveText:
  assumes "\<And>d. d \<in> set ds \<Longrightarrow> wf_domain d \<and> length d < 65536"
  shows "fileReader (saveText ds) = (ds, None)"
  using assms ScanLines_saveText [of ds] Split_saveText [of ds]
  by (force simp: fileReader_def list_ex_iff wf_domain_def)

lemma save_load:
  assumes "LoadFromReader now (ls, None) g = (Inr n, g1)" "scannerLines ls" "set ds = gfw_domains g1"
  shows "LoadFromFile now' (snd (SaveToFile None ds file)) g' =
    (Inr (length ds), g'\<lparr>gfw_domains := gfw_domains g1, gfw_count := length ds, gfw_lastLoad := now'\<rparr>)"
proof -
  have wf: "\<And>d. d \<in> set ds \<Longrightarrow> wf_domain d \<and> length d < 65536"
    using loaded_wf [OF assms(1,2)] assms(3) by blast
  then have "{ToLower (TrimSpace l) |l. l \<in> set ds \<and> \<not> skipLine (TrimSpace l)} = set ds"
    by (force simp: wf_domain_def)
  moreover have "filter (\<lambda>l. \<not> skipLine (TrimSpace l)) ds = ds"
    using wf by (intro filter_True) (auto simp: wf_domain_def)
  moreover have "fileReader (saveText ds) = (ds, None)" by (rule fileReader_saveText) (rule wf)
  ultimately show ?thesis using assms(3)
    by (simp add: LoadFromFile_def SaveToFile_def LoadFromReader_def scanLines_acc)
qed

lemma IsBlocked_cong: "gfw_domains g = gfw_domains g' \<Longrightarrow> IsBlocked g h = IsBlocked g' h"
  by (simp add: IsBlocked_def)

lemma LoadFromURL_ok:
  assumes "LoadFromURL fetch now url g0 = (Inr n, g)"
  shows "\<exists>url' ls. fetch url' = Inr (200, ls, None) \<and> LoadFromReader now (ls, None) g0 = (Inr n, g)"
proof -
  obtain url' ls e where "fetch url' = Inr (200, ls, e)" "LoadFromReader now (ls, e) g0 = (Inr n, g)"
    using assms unfolding LoadFromURL_def Let_def by (auto split: sum.splits if_splits)
  moreover from this(2) have "e = None" by (auto simp: LoadFromReader_def split: option.splits prod.splits)
  ultimately show ?thesis by blast
qed

end
