(* ===== verification/Routing.thy ===== *)
theory Routing
  imports Rule_Data Gfw_List
begin

text \<open>
  Routing decisions: the automatic router of \<open>src/proxy/auto_routing.go\<close> and the rule matcher
  \<open>RuleManager.matchRule\<close> of \<open>src/proxy/proxy.go\<close>. The DoH resolver is the parameter
  \<open>resolve\<close> (\<open>None\<close> for a nil resolver; the resolver returns \<open>None\<close> on an error), clock values
  are arguments.
\<close>

section \<open>Cloudflare address ranges\<close>

definition cloudflareCIDRStrings :: "string list" where
  "cloudflareCIDRStrings =
     [''173.245.48.0/20'', ''103.21.244.0/22'', ''103.22.200.0/22'',
      ''103.31.4.0/22'', ''141.101.64.0/18'', ''108.162.192.0/18'',
      ''190.93.240.0/20'', ''188.114.96.0/20'', ''197.234.240.0/22'',
      ''198.41.128.0/17'', ''162.158.0.0/15'', ''104.16.0.0/13'',
      ''104.24.0.0/14'', ''172.64.0.0/13'', ''131.0.72.0/22'']"

text \<open>\<open>net.ParseCIDR\<close> on an IPv4 prefix and \<open>net.IPNet.Contains\<close>. A masked comparison of
  32-bit addresses compares the quotients by the size of the block.\<close>

definition ip4_val :: "ip \<Rightarrow> nat" where
  "ip4_val a = foldl (\<lambda>n b. n * 256 + b) 0 a"

definition ParseCIDR :: "string \<Rightarrow> (ip \<times> nat) option" where
  "ParseCIDR s =
     (case Split (CHR ''/'') s of
        [addr, bits] \<Rightarrow>
          (case parseIPv4 addr of
             None \<Rightarrow> None
           | Some a \<Rightarrow>
               if bits \<noteq> [] \<and> list_all is_digit bits \<and> dec_val bits \<le> 32
               then Some (a, dec_val bits) else None)
      | _ \<Rightarrow> None)"

definition netContains :: "ip \<times> nat \<Rightarrow> ip \<Rightarrow> bool" where
  "netContains n a =
     (case To4 a of
        None \<Rightarrow> False
      | Some v \<Rightarrow> ip4_val v div 2 ^ (32 - snd n) = ip4_val (fst n) div 2 ^ (32 - snd n))"

section \<open>The automatic router\<close>

record cfCacheEntry =
  ce_isCF :: bool
  ce_checkedAt :: int

record autoRouter =
  rt_config :: autoRoutingConfig
  rt_gfwList :: gfwList
  rt_cfNets :: "(ip \<times> nat) list"
  rt_cfCache :: "string \<rightharpoonup> cfCacheEntry"

type_synonym ip_resolver = "string \<Rightarrow> ip list option"

text \<open>Nanoseconds in the 30 minutes of \<open>cfCacheTTL\<close>.\<close>

definition cfCacheTTL :: int where
  "cfCacheTTL = 30 * 60 * 1000000000"

definition NewAutoRouter :: "autoRoutingConfig \<Rightarrow> autoRouter" where
  "NewAutoRouter config =
     \<lparr>rt_config = config, rt_gfwList = NewGFWList,
      rt_cfNets = List.map_filter ParseCIDR cloudflareCIDRStrings, rt_cfCache = Map.empty\<rparr>"

lemma NewAutoRouter_sel [simp]:
  "rt_gfwList (NewAutoRouter c) = NewGFWList" "rt_config (NewAutoRouter c) = c"
  "rt_cfCache (NewAutoRouter c) = Map.empty"
  by (simp_all add: NewAutoRouter_def)

definition isCloudflareIP :: "autoRouter \<Rightarrow> ip \<Rightarrow> bool" where
  "isCloudflareIP ar a \<longleftrightarrow> list_ex (\<lambda>n. netContains n a) (rt_cfNets ar)"

definition IsCloudflare ::
    "ip_resolver option \<Rightarrow> int \<Rightarrow> int \<Rightarrow> autoRouter \<Rightarrow> string \<Rightarrow> bool \<times> autoRouter" where
  "IsCloudflare resolve t0 t1 ar host0 =
     (let host = ToLower (TrimSpace host0) in
      if host = '''' then (False, ar)
      else
        let probe =
          (let isCF = (case resolve of
                 None \<Rightarrow> False
               | Some rs \<Rightarrow>
                   (case rs host of None \<Rightarrow> False
                    | Some ips \<Rightarrow> list_ex (isCloudflareIP ar) ips))
           in (isCF, ar\<lparr>rt_cfCache := (rt_cfCache ar)(host \<mapsto> \<lparr>ce_isCF = isCF, ce_checkedAt = t1\<rparr>)\<rparr>))
        in case rt_cfCache ar host of
             Some entry \<Rightarrow> if t0 - ce_checkedAt entry < cfCacheTTL then (ce_isCF entry, ar) else probe
           | None \<Rightarrow> probe)"

abbreviation directRule :: rule where
  "directRule \<equiv> zeroRule\<lparr>r_Mode := ''direct'', r_Enabled := True\<rparr>"

definition Decide ::
    "ip_resolver option \<Rightarrow> int \<Rightarrow> int \<Rightarrow> autoRouter \<Rightarrow> string \<Rightarrow> rule \<times> autoRouter" where
  "Decide resolve t0 t1 ar host =
     (if ar_Mode (rt_config ar) = '''' then (directRule, ar)
      else if \<not> IsBlocked (rt_gfwList ar) host then (directRule, ar)
      else
        let (isCF, ar') = IsCloudflare resolve t0 t1 ar host in
        if isCF then
          (zeroRule\<lparr>r_Mode := ''mitm'', r_ECHEnabled := True, r_ECHProfileID := ''legacy-cloudflare'',
             r_ECHDiscoveryDomain := ''crypto.cloudflare.com'', r_ECHAutoUpdate := True,
             r_UseCFPool := True, r_Enabled := True, r_AutoRouted := True\<rparr>, ar')
        else
          let rule = zeroRule\<lparr>r_Mode := ''tls-rf'', r_Enabled := True, r_AutoRouted := True\<rparr> in
          (if ar_Mode (rt_config ar') = ''server'' then rule\<lparr>r_FallbackMode := ''server''\<rparr> else rule, ar'))"

record gfwListStatus =
  gs_Enabled :: bool
  gs_Mode :: string
  gs_DomainCount :: nat
  gs_LastUpdate :: string
  gs_GFWListURL :: string

definition UpdateConfig :: "autoRoutingConfig \<Rightarrow> autoRouter \<Rightarrow> autoRouter" where
  "UpdateConfig config ar = ar\<lparr>rt_config := config\<rparr>"

definition GetStatus :: "autoRouter \<Rightarrow> gfwListStatus" where
  "GetStatus ar = \<lparr>gs_Enabled = (ar_Mode (rt_config ar) \<noteq> ''''), gs_Mode = ar_Mode (rt_config ar),
     gs_DomainCount = gfw_count (rt_gfwList ar), gs_LastUpdate = ar_LastUpdate (rt_config ar),
     gs_GFWListURL = ar_GFWListURL (rt_config ar)\<rparr>"

section \<open>The rule matcher\<close>

text \<open>The scoring loop of \<open>matchRule\<close>, over any scoring function.\<close>

fun bestLoop :: "('r \<Rightarrow> bool) \<Rightarrow> ('r \<Rightarrow> int) \<Rightarrow> 'r list \<Rightarrow> 'r \<times> int \<Rightarrow> 'r \<times> int" where
  "bestLoop enabled score [] acc = acc"
| "bestLoop enabled score (r # rs) (best, bestScore) =
     (if \<not> enabled r then bestLoop enabled score rs (best, bestScore)
      else if 0 \<le> score r \<and> bestScore < score r then bestLoop enabled score rs (r, score r)
      else bestLoop enabled score rs (best, bestScore))"

text \<open>\<open>matchRule\<close>: the rule, the route event it emits, and the router with its cache.\<close>

definition matchRule ::
    "regexp_engine \<Rightarrow> ip_resolver option \<Rightarrow> int \<Rightarrow> int \<Rightarrow> rule list \<Rightarrow> autoRouter option
       \<Rightarrow> autoRoutingConfig \<Rightarrow> string \<Rightarrow> string
       \<Rightarrow> rule \<times> (string \<times> string) \<times> autoRouter option" where
  "matchRule re resolve t0 t1 rules router arc host0 mode0 =
     (let host = normalizeHost host0; mode = ToLower (TrimSpace mode0);
          (best, bestScore) =
            bestLoop r_Enabled (\<lambda>r. domainMatchScore re host (r_Domain r)) rules (zeroRule, -1)
      in
      if 0 \<le> bestScore then
        let best' = (if mode = ''transparent'' \<and> r_Mode best = ''mitm''
                     then best\<lparr>r_Mode := ''direct''\<rparr> else best)
        in (best', (host, r_Mode best'), router)
      else case router of
        None \<Rightarrow> (directRule, (host, ''direct''), router)
      | Some ar \<Rightarrow>
          if ar_Mode arc = '''' then (directRule, (host, ''direct''), router)
          else let (autoRule, ar') = Decide resolve t0 t1 ar host in
            if r_Mode autoRule \<noteq> ''direct'' then (autoRule, (host, r_Mode autoRule), Some ar')
            else (directRule, (host, ''direct''), Some ar'))"

text \<open>The specification of the loop: \<open>r\<close> is an enabled rule that matches, beats every earlier
  enabled rule and is beaten by no later one.\<close>

definition isBest :: "('r \<Rightarrow> bool) \<Rightarrow> ('r \<Rightarrow> int) \<Rightarrow> 'r list \<Rightarrow> 'r \<Rightarrow> bool" where
  "isBest enabled score rs r \<longleftrightarrow> (\<exists>pre post. rs = pre @ r # post \<and> enabled r \<and> 0 \<le> score r \<and>
     (\<forall>q \<in> set pre. enabled q \<longrightarrow> score q < score r) \<and>
     (\<forall>q \<in> set post. enabled q \<longrightarrow> score q \<le> score r))"

text \<open>What the loop promises, for every scoring function that marks a miss by \<open>-1\<close>.\<close>

locale scored_rules =
  fixes enabled :: "'r \<Rightarrow> bool"
    and score :: "'r \<Rightarrow> int"
  assumes score_ge: "-1 \<le> score r"
begin

lemma loop_miss:
  "(\<forall>q \<in> set rs. enabled q \<longrightarrow> score q \<le> b) \<Longrightarrow> bestLoop enabled score rs (a, b) = (a, b)"
  by (induction rs) auto

lemma loop_cases:
  "-1 \<le> b \<Longrightarrow> (bestLoop enabled score rs (a, b) = (a, b) \<and> (\<forall>q \<in> set rs. enabled q \<longrightarrow> score q \<le> b)) \<or>
   (\<exists>r. isBest enabled score rs r \<and> b < score r \<and> bestLoop enabled score rs (a, b) = (r, score r))"
proof (induction rs arbitrary: a b)
  case (Cons x xs)
  show ?case
  proof (cases "enabled x \<and> 0 \<le> score x \<and> b < score x")
    case True
    then have step: "bestLoop enabled score (x # xs) (a, b) = bestLoop enabled score xs (x, score x)" by simp
    from Cons.IH [of "score x" x] score_ge [of x] consider
        "bestLoop enabled score xs (x, score x) = (x, score x)" "\<forall>q \<in> set xs. enabled q \<longrightarrow> score q \<le> score x"
      | r where "isBest enabled score xs r" "score x < score r" "bestLoop enabled score xs (x, score x) = (r, score r)"
      by blast
    then show ?thesis
    proof cases
      case 1
      with True have "isBest enabled score (x # xs) x" unfolding isBest_def by (intro exI [of _ "[]"] exI [of _ xs]) auto
      with 1 True step show ?thesis by auto
    next
      case (2 r)
      then obtain pre post where pp: "xs = pre @ r # post" "enabled r" "0 \<le> score r"
        "\<forall>q \<in> set pre. enabled q \<longrightarrow> score q < score r" "\<forall>q \<in> set post. enabled q \<longrightarrow> score q \<le> score r"
        unfolding isBest_def by blast
      with 2 have "isBest enabled score (x # xs) r"
        unfolding isBest_def by (intro exI [of _ "x # pre"] exI [of _ post]) auto
      with 2 True step show ?thesis by (intro disjI2 exI [of _ r]) auto
    qed
  next
    case False
    then have step: "bestLoop enabled score (x # xs) (a, b) = bestLoop enabled score xs (a, b)" by auto
    have x: "enabled x \<longrightarrow> score x \<le> b" using False score_ge [of x] Cons.prems by force
    from Cons.IH [OF Cons.prems, of a] consider
        "bestLoop enabled score xs (a, b) = (a, b)" "\<forall>q \<in> set xs. enabled q \<longrightarrow> score q \<le> b"
      | r where "isBest enabled score xs r" "b < score r" "bestLoop enabled score xs (a, b) = (r, score r)"
      by blast
    then show ?thesis
    proof cases
      case 1 with x step show ?thesis by auto
    next
      case (2 r)
      then obtain pre post where pp: "xs = pre @ r # post" "enabled r" "0 \<le> score r"
        "\<forall>q \<in> set pre. enabled q \<longrightarrow> score q < score r" "\<forall>q \<in> set post. enabled q \<longrightarrow> score q \<le> score r"
        unfolding isBest_def by blast
      with 2 x have "isBest enabled score (x # xs) r"
        unfolding isBest_def by (intro exI [of _ "x # pre"] exI [of _ post]) auto
      with 2 step show ?thesis by (intro disjI2 exI [of _ r]) auto
    qed
  qed
qed simp

lemma loop_hit:
  assumes "isBest enabled score rs r"
  shows "bestLoop enabled score rs (a, -1) = (r, score r)"
proof -
  from assms obtain pre post where rs: "rs = pre @ r # post" and r: "enabled r" "0 \<le> score r"
    and pre: "\<forall>q \<in> set pre. enabled q \<longrightarrow> score q < score r"
    and post: "\<forall>q \<in> set post. enabled q \<longrightarrow> score q \<le> score r" unfolding isBest_def by blast
  have "b < score r \<Longrightarrow> bestLoop enabled score (pre @ r # post) (a, b) = (r, score r)" for a b
    using pre by (induction pre arbitrary: a b) (auto simp: r loop_miss [OF post])
  with rs r show ?thesis by simp
qed

end

section \<open>Properties of the scores\<close>

lemma domainMatchScore_ge: "-1 \<le> domainMatchScore re h d"
  by (auto simp: domainMatchScore_def Let_def split: option.split)

interpretation dom: scored_rules r_Enabled "\<lambda>r. domainMatchScore re host (r_Domain r)" for re host
  by unfold_locales (rule domainMatchScore_ge)

lemma windowMatch_length: "windowMatch hp bp \<Longrightarrow> length bp < length hp"
  by (subst (asm) windowMatch.simps) (auto split: if_splits)

text \<open>Where no regular expression is involved, a score marks exactly the hosts that
  \<open>hostMatchesDomain\<close> accepts.\<close>

lemma domainMatchScore_hostMatches:
  assumes "\<not> HasPrefix (ToLower (TrimSpace d)) ''~''"
  shows "0 \<le> domainMatchScore re h d \<longleftrightarrow> hostMatchesDomain h d"
  using assms by (auto simp: domainMatchScore_def hostMatchesDomain_def Let_def)

section \<open>Properties of the matcher\<close>

lemma matchRule_hit:
  assumes "isBest r_Enabled (\<lambda>q. domainMatchScore re (normalizeHost host) (r_Domain q)) rules r"
  shows "matchRule re resolve t0 t1 rules router arc host mode =
     (let r' = (if ToLower (TrimSpace mode) = ''transparent'' \<and> r_Mode r = ''mitm''
                then r\<lparr>r_Mode := ''direct''\<rparr> else r)
      in (r', (normalizeHost host, r_Mode r'), router))"
proof -
  have "0 \<le> domainMatchScore re (normalizeHost host) (r_Domain r)"
    using assms by (auto simp: isBest_def)
  with dom.loop_hit [OF assms] show ?thesis by (simp add: matchRule_def Let_def)
qed

lemma matchRule_miss:
  assumes "\<forall>q \<in> set rules. r_Enabled q \<longrightarrow> domainMatchScore re (normalizeHost host) (r_Domain q) < 0"
  shows "matchRule re resolve t0 t1 rules router arc host mode =
     (case router of
        Some ar \<Rightarrow> if ar_Mode arc = '''' then (directRule, (normalizeHost host, ''direct''), router)
          else let (autoRule, ar') = Decide resolve t0 t1 ar (normalizeHost host) in
            if r_Mode autoRule \<noteq> ''direct''
            then (autoRule, (normalizeHost host, r_Mode autoRule), Some ar')
            else (directRule, (normalizeHost host, ''direct''), Some ar')
      | None \<Rightarrow> (directRule, (normalizeHost host, ''direct''), router))"
proof -
  have "bestLoop r_Enabled (\<lambda>q. domainMatchScore re (normalizeHost host) (r_Domain q)) rules (zeroRule, -1)
      = (zeroRule, -1)"
    by (rule dom.loop_miss) (use assms in force)
  then show ?thesis by (simp add: matchRule_def Let_def split: option.split)
qed

lemma best_or_miss:
  fixes rules :: "rule list"
  shows "(\<exists>r. isBest r_Enabled (\<lambda>q. domainMatchScore re h (r_Domain q)) rules r) \<or>
   (\<forall>q \<in> set rules. r_Enabled q \<longrightarrow> domainMatchScore re h (r_Domain q) < 0)"
  using dom.loop_cases [of "-1" re h rules zeroRule] by force

lemma Decide_modes:
  "r_Mode (fst (Decide resolve t0 t1 ar host)) \<in> {''direct'', ''mitm'', ''tls-rf''}"
  by (simp add: Decide_def split_beta Let_def zeroRule_def)

lemma IsCloudflare_frame:
  "rt_config (snd (IsCloudflare resolve t0 t1 ar host)) = rt_config ar"
  "rt_gfwList (snd (IsCloudflare resolve t0 t1 ar host)) = rt_gfwList ar"
  "rt_cfNets (snd (IsCloudflare resolve t0 t1 ar host)) = rt_cfNets ar"
  by (simp_all add: IsCloudflare_def Let_def split: option.split)

lemma IsCloudflare_cached:
  assumes "rt_cfCache ar (ToLower (TrimSpace host)) = Some e" "t0 - ce_checkedAt e < cfCacheTTL"
    and "ToLower (TrimSpace host) \<noteq> ''''"
  shows "IsCloudflare resolve t0 t1 ar host = (ce_isCF e, ar)"
  using assms by (simp add: IsCloudflare_def)

text \<open>C2. The router picks the best match: if \<open>r\<close> is the first enabled rule with the highest
  non-negative score for the normalised host, \<open>matchRule\<close> returns \<open>r\<close>, with a MITM rule turned into
  \<open>direct\<close> in global transparent mode and nothing else changed, emits one route event for that
  host and mode, and does not touch the automatic router.\<close>

theorem matchRule_best:
  assumes "isBest r_Enabled (\<lambda>q. domainMatchScore re (normalizeHost host) (r_Domain q)) rules r"
  shows "\<exists>r'. matchRule re resolve t0 t1 rules router arc host mode =
           (r', (normalizeHost host, r_Mode r'), router) \<and>
         r' = (if ToLower (TrimSpace mode) = ''transparent'' \<and> r_Mode r = ''mitm''
               then r\<lparr>r_Mode := ''direct''\<rparr> else r)"
  using matchRule_hit [OF assms] by (simp add: Let_def)

theorem matchRule_best_witness:
  "let a = zeroRule\<lparr>r_Domain := ''example.com'', r_Mode := ''tls-rf'', r_Enabled := True\<rparr>;
       b = zeroRule\<lparr>r_Domain := ''www.example.com'', r_Mode := ''mitm'', r_Enabled := True\<rparr>
   in \<exists>r'. matchRule (\<lambda>_ _. None) None 0 0 [a, b] None \<lparr>ar_Mode = '''', ar_GFWListURL = '''', ar_LastUpdate = ''''\<rparr>
        ''WWW.Example.com:443'' ''transparent'' = (r', (normalizeHost ''WWW.Example.com:443'', r_Mode r'), None) \<and>
      r' = b\<lparr>r_Mode := ''direct''\<rparr>"
proof -
  let ?a = "zeroRule\<lparr>r_Domain := ''example.com'', r_Mode := ''tls-rf'', r_Enabled := True\<rparr>"
  let ?b = "zeroRule\<lparr>r_Domain := ''www.example.com'', r_Mode := ''mitm'', r_Enabled := True\<rparr>"
  let ?s = "\<lambda>q. domainMatchScore (\<lambda>_ _. None) (normalizeHost ''WWW.Example.com:443'') (r_Domain q)"
  have s: "domainMatchScore (\<lambda>_ _. None) (normalizeHost ''WWW.Example.com:443'') ''example.com'' = 11"
    "domainMatchScore (\<lambda>_ _. None) (normalizeHost ''WWW.Example.com:443'') ''www.example.com'' = 1015"
    by code_simp+
  have "isBest r_Enabled ?s [?a, ?b] ?b"
    unfolding isBest_def by (rule exI [of _ "[?a]"], rule exI [of _ "[]"]) (simp add: s)
  from matchRule_best [OF this, of None 0 0 None _ "''transparent''"] show ?thesis
    by (simp add: Let_def TrimSpace_def trim_where_def is_space_def ToLower_def lower_char_def)
qed

text \<open>A host that no enabled rule matches is left to the automatic router when there is one
  and automatic routing is on, and goes direct otherwise; the mode is one of \<open>direct\<close>, \<open>mitm\<close> and
  \<open>tls-rf\<close>, and it is not \<open>direct\<close> only when the GFW list blocks the host.\<close>

theorem matchRule_unmatched:
  assumes "\<forall>q \<in> set rules. r_Enabled q \<longrightarrow> domainMatchScore re (normalizeHost host) (r_Domain q) < 0"
    and "matchRule re resolve t0 t1 rules router arc host mode = (r, ev, router')"
  shows "r_Mode r \<in> {''direct'', ''mitm'', ''tls-rf''} \<and> r_Enabled r \<and> ev = (normalizeHost host, r_Mode r) \<and>
    (r_Mode r \<noteq> ''direct'' \<longrightarrow> ar_Mode arc \<noteq> '''' \<and> r_AutoRouted r \<and>
       (\<exists>ar. router = Some ar \<and> ar_Mode (rt_config ar) \<noteq> '''' \<and> IsBlocked (rt_gfwList ar) (normalizeHost host)))"
  using assms(2) unfolding matchRule_miss [OF assms(1)]
  by (auto simp: Decide_def Let_def split_beta zeroRule_def split: option.splits if_splits)

theorem matchRule_unmatched_witness:
  "let ar = NewAutoRouter \<lparr>ar_Mode = ''default'', ar_GFWListURL = '''', ar_LastUpdate = ''''\<rparr>;
       g = ar\<lparr>rt_gfwList := (rt_gfwList ar)\<lparr>gfw_domains := {''blocked.org''}\<rparr>\<rparr>;
       (r, ev, _) = matchRule (\<lambda>_ _. None) None 0 0 [] (Some g) (rt_config ar) ''a.blocked.org'' ''mitm''
   in r_Mode r = ''tls-rf'' \<and> r_AutoRouted r \<and> ev = (normalizeHost ''a.blocked.org'', ''tls-rf'')"
proof -
  define ar where "ar = NewAutoRouter \<lparr>ar_Mode = ''default'', ar_GFWListURL = '''', ar_LastUpdate = ''''\<rparr>"
  define g where "g = ar\<lparr>rt_gfwList := (rt_gfwList ar)\<lparr>gfw_domains := {''blocked.org''}\<rparr>\<rparr>"
  obtain r ev g' where m: "matchRule (\<lambda>_ _. None) None 0 0 [] (Some g) (rt_config ar)
      ''a.blocked.org'' ''mitm'' = (r, ev, g')" by (metis surj_pair)
  have "r_Mode (fst (matchRule (\<lambda>_ _. None) None 0 0 [] (Some g) (rt_config ar) ''a.blocked.org'' ''mitm''))
      = ''tls-rf''"
    unfolding g_def ar_def by code_simp
  with m have "r_Mode r = ''tls-rf''" by simp
  with matchRule_unmatched [OF _ m] show ?thesis
    unfolding ar_def [symmetric] g_def [symmetric] Let_def by (simp add: m)
qed

text \<open>A domain as rule files write them when no pattern syntax is used.\<close>

definition plainDomain :: "string \<Rightarrow> bool" where
  "plainDomain d \<longleftrightarrow> d \<noteq> '''' \<and> TrimSpace d = d \<and> ToLower d = d \<and> \<not> HasPrefix d ''~'' \<and>
     \<not> HasPrefix d ''*.'' \<and> \<not> HasSuffix d ''$'' \<and> \<not> HasSuffix d ''.*''"

lemma score_exact: "plainDomain h \<Longrightarrow> domainMatchScore re h h = int (length h) + 1000"
  by (simp add: plainDomain_def domainMatchScore_def TrimPrefix_def TrimSuffix_def)

lemma score_suffix:
  "plainDomain h \<Longrightarrow> plainDomain d \<Longrightarrow> HasSuffix h (''.'' @ d) \<Longrightarrow> domainMatchScore re h d = int (length d)"
  by (auto simp: plainDomain_def domainMatchScore_def TrimPrefix_def TrimSuffix_def HasSuffix_def
      dest: prefix_length_le)

lemma trim_where_Cons: "\<not> P c \<Longrightarrow> trim_where P s = s \<Longrightarrow> s \<noteq> [] \<Longrightarrow> trim_where P (c # s) = c # s"
  by (simp add: trim_where_def) (metis dropWhile_append1 dropWhile_eq_Nil_conv dropWhile_trim_where
    rev_rev_ident set_rev trim_where_def append_Nil2 rev.simps(2))

lemma score_regex:
  assumes "plainDomain h" "TrimSpace p = p" "ToLower p = p" "p \<noteq> ''''" "re p h = Some True"
  shows "domainMatchScore re h (CHR ''~'' # p) = 900 + int (length p)"
proof -
  have t: "TrimSpace (CHR ''~'' # p) = CHR ''~'' # p"
    using assms(2,4) trim_where_Cons [of is_space "CHR ''~''" p]
    by (simp add: TrimSpace_def is_space_def)
  have l: "ToLower (CHR ''~'' # p) = CHR ''~'' # p"
    using assms(3) by (simp add: ToLower_def lower_char_def)
  show ?thesis using assms
    by (simp add: plainDomain_def domainMatchScore_def t l HasPrefix_def TrimPrefix_def)
qed

text \<open>The ranking of the three kinds of rules on a host \<open>h\<close>: a matching regular expression
  outranks a suffix rule unless the suffix is 900 characters longer, and an exact rule outranks the
  regular expression exactly while the pattern is shorter than 100 characters plus the host's
  length. So a long enough pattern outranks an exact rule.\<close>

theorem rule_kind_ranking:
  assumes "plainDomain h" "plainDomain d" "HasSuffix h (''.'' @ d)"
    and "TrimSpace p = p" "ToLower p = p" "p \<noteq> ''''" "re p h = Some True"
  shows "(domainMatchScore re h d < domainMatchScore re h (CHR ''~'' # p) \<longleftrightarrow> length d < 900 + length p) \<and>
    (domainMatchScore re h (CHR ''~'' # p) < domainMatchScore re h h \<longleftrightarrow> length p < 100 + length h)"
  using score_exact [OF assms(1)] score_suffix [OF assms(1-3)] score_regex [of h p re, OF assms(1,4-7)] by auto

theorem rule_kind_ranking_witness:
  "let h = ''www.example.com''; d = ''example.com''; p = replicate 200 CHR ''w''; re = (\<lambda>_ _. Some True)
   in domainMatchScore re h d < domainMatchScore re h (CHR ''~'' # p) \<and>
      \<not> domainMatchScore re h (CHR ''~'' # p) < domainMatchScore re h h"
proof -
  let ?p = "replicate 200 CHR ''w''" let ?re = "\<lambda>_ _ :: string. Some True"
  have "plainDomain ''www.example.com''" "plainDomain ''example.com''" by code_simp+
  moreover have "HasSuffix ''www.example.com'' (''.'' @ ''example.com'')" by code_simp
  moreover have "TrimSpace ?p = ?p"
    unfolding TrimSpace_def by (rule trim_where_id) (simp add: is_space_def)
  moreover have "ToLower ?p = ?p" by (simp add: ToLower_def lower_char_def)
  ultimately show ?thesis
    using rule_kind_ranking [of "''www.example.com''" "''example.com''" ?p ?re]
    unfolding Let_def by simp
qed

text \<open>The verdict of \<open>IsCloudflare\<close> is kept for 30 minutes: when a probe of a host that was not
  in the cache gives \<open>b\<close>, every query for that host, in any case or with white space around it,
  less than \<open>cfCacheTTL\<close> after the probe gives \<open>b\<close> again without asking a resolver and without
  changing the router.\<close>

theorem IsCloudflare_cache:
  assumes "ToLower (TrimSpace host) \<noteq> ''''" "rt_cfCache ar (ToLower (TrimSpace host)) = None"
    and "IsCloudflare resolve t0 t1 ar host = (b, ar')"
    and "ToLower (TrimSpace host') = ToLower (TrimSpace host)" "t - t1 < cfCacheTTL"
  shows "IsCloudflare resolve' t t' ar' host' = (b, ar')"
proof -
  from assms have "rt_cfCache ar' (ToLower (TrimSpace host')) = Some \<lparr>ce_isCF = b, ce_checkedAt = t1\<rparr>"
    by (auto simp: IsCloudflare_def Let_def)
  then show ?thesis using IsCloudflare_cached [of ar' host'] assms by simp
qed

theorem IsCloudflare_cache_witness:
  "let ar = NewAutoRouter \<lparr>ar_Mode = ''default'', ar_GFWListURL = '''', ar_LastUpdate = ''''\<rparr>;
       (b, ar') = IsCloudflare (Some (\<lambda>_. Some [[104, 16, 1, 1]])) 0 5 ar ''Shop.example''
   in IsCloudflare None 1000 1001 ar' '' shop.EXAMPLE'' = (b, ar')"
proof -
  define ar where "ar = NewAutoRouter \<lparr>ar_Mode = ''default'', ar_GFWListURL = '''', ar_LastUpdate = ''''\<rparr>"
  obtain b ar' where m: "IsCloudflare (Some (\<lambda>_. Some [[104, 16, 1, 1]])) 0 5 ar ''Shop.example'' = (b, ar')"
    by (metis surj_pair)
  have "ToLower (TrimSpace ''Shop.example'') \<noteq> ''''" by code_simp
  moreover have "rt_cfCache ar (ToLower (TrimSpace ''Shop.example'')) = None"
    by (simp add: ar_def NewAutoRouter_def)
  moreover have "ToLower (TrimSpace '' shop.EXAMPLE'') = ToLower (TrimSpace ''Shop.example'')" by code_simp
  moreover have "(1000 :: int) - 5 < cfCacheTTL" by (simp add: cfCacheTTL_def)
  ultimately have "IsCloudflare None 1000 1001 ar' '' shop.EXAMPLE'' = (b, ar')"
    using IsCloudflare_cache [OF _ _ m] by blast
  then show ?thesis unfolding ar_def [symmetric] Let_def m by simp
qed

end
