(* ===== verification/Rule_Manager.thy ===== *)
theory Rule_Manager
  imports Routing
begin

text \<open>
  The rule manager of \<open>src/proxy/proxy.go\<close>: its state, the two configuration files, loading with
  defaults and migrations, the compilation of site groups into rules, and the editing operations of
  the dashboard. Reading and writing a file is explicit: a file is missing, unreadable, malformed or
  holds a configuration value (\<open>encoding/json\<close> writes and reads back the values of these structs
  unchanged), and a write fails when the argument \<open>io\<close> carries an error. \<open>rm_gfwCache\<close> is the cached
  GFW list beside the rules file. The count \<open>rm_saved\<close>
  records the calls of the config-saved callback. An operation returns its error and the new state.
\<close>

datatype 'c configFile = Missing | Unreadable string | Malformed string | Holds 'c

record ruleManager =
  rm_rules :: "rule list"
  rm_siteGroups :: "siteGroup list"
  rm_upstreams :: "upstream list"
  rm_dnsNodes :: "dnsNode list"
  rm_cloudflareConfig :: cloudflareConfig
  rm_tunConfig :: tunConfig
  rm_closeToTray :: bool
  rm_autoStart :: bool
  rm_showMainOnAutoStart :: bool
  rm_autoEnableProxyOnAutoStart :: bool
  rm_socks5Enabled :: bool
  rm_socks5Port :: string
  rm_serverHost :: string
  rm_serverAuth :: string
  rm_listenPort :: string
  rm_echProfiles :: "echProfile list"
  rm_autoRouter :: "autoRouter option"
  rm_autoRoutingConfig :: autoRoutingConfig
  rm_language :: string
  rm_theme :: string
  rm_settingsFile :: "settingsConfig configFile"
  rm_rulesFile :: "rulesConfig configFile"
  rm_gfwCache :: "string option"
  rm_saved :: nat

type_synonym io = "string option"
type_synonym rmResult = "string option \<times> ruleManager"

abbreviation zeroTUN :: tunConfig where
  "zeroTUN \<equiv> \<lparr>tun_Enabled = False, tun_MTU = 0, tun_DNSHijack = False, tun_AutoRoute = False,
     tun_StrictRoute = False\<rparr>"

abbreviation zeroCF :: cloudflareConfig where
  "zeroCF \<equiv> \<lparr>cf_PreferredIPs = [], cf_AutoUpdate = False, cf_APIKey = ''''\<rparr>"

abbreviation zeroAutoRouting :: autoRoutingConfig where
  "zeroAutoRouting \<equiv> \<lparr>ar_Mode = '''', ar_GFWListURL = '''', ar_LastUpdate = ''''\<rparr>"

definition NewRuleManager :: "settingsConfig configFile \<Rightarrow> rulesConfig configFile \<Rightarrow> string option \<Rightarrow> ruleManager" where
  "NewRuleManager settingsFile rulesFile gfwCache =
     \<lparr>rm_rules = [], rm_siteGroups = [], rm_upstreams = [], rm_dnsNodes = [],
      rm_cloudflareConfig = zeroCF, rm_tunConfig = zeroTUN, rm_closeToTray = True, rm_autoStart = False,
      rm_showMainOnAutoStart = True, rm_autoEnableProxyOnAutoStart = False, rm_socks5Enabled = False,
      rm_socks5Port = '''', rm_serverHost = '''', rm_serverAuth = '''', rm_listenPort = '''',
      rm_echProfiles = [], rm_autoRouter = None, rm_autoRoutingConfig = zeroAutoRouting,
      rm_language = ''zh'', rm_theme = ''dark'', rm_settingsFile = settingsFile,
      rm_rulesFile = rulesFile, rm_gfwCache = gfwCache, rm_saved = 0\<rparr>"

section \<open>Saving\<close>

definition settingsOf :: "ruleManager \<Rightarrow> settingsConfig" where
  "settingsOf rm =
     \<lparr>set_ListenPort = (if rm_listenPort rm = '''' then ''8080'' else rm_listenPort rm),
      set_Socks5Port = (if rm_socks5Port rm = '''' then ''8081'' else rm_socks5Port rm),
      set_ServerHost = rm_serverHost rm, set_ServerAuth = rm_serverAuth rm,
      set_CloseToTray = Some (rm_closeToTray rm), set_AutoStart = Some (rm_autoStart rm),
      set_ShowMainWindowOnAutoStart = Some (rm_showMainOnAutoStart rm),
      set_AutoEnableProxyOnAutoStart = Some (rm_autoEnableProxyOnAutoStart rm),
      set_AutoRouting = rm_autoRoutingConfig rm, set_TUN = normalizeTUNConfig (rm_tunConfig rm),
      set_Language = rm_language rm, set_Theme = rm_theme rm,
      set_CloudflareConfig = rm_cloudflareConfig rm, set_Socks5Enabled = Some (rm_socks5Enabled rm)\<rparr>"

definition saveSettingsConfig :: "io \<Rightarrow> ruleManager \<Rightarrow> rmResult" where
  "saveSettingsConfig io rm =
     (case io of Some e \<Rightarrow> (Some e, rm)
      | None \<Rightarrow> (None, rm\<lparr>rm_settingsFile := Holds (settingsOf rm), rm_saved := rm_saved rm + 1\<rparr>))"

definition rulesConfigOf :: "ruleManager \<Rightarrow> rulesConfig" where
  "rulesConfigOf rm = \<lparr>rc_SiteGroups = rm_siteGroups rm, rc_Upstreams = rm_upstreams rm,
     rc_DNSNodes = rm_dnsNodes rm, rc_ECHProfiles = rm_echProfiles rm\<rparr>"

definition saveRulesConfig :: "io \<Rightarrow> ruleManager \<Rightarrow> rmResult" where
  "saveRulesConfig io rm =
     (case io of Some e \<Rightarrow> (Some e, rm)
      | None \<Rightarrow> (None, rm\<lparr>rm_rulesFile := Holds (rulesConfigOf rm), rm_saved := rm_saved rm + 1\<rparr>))"

definition SaveConfig :: "io \<Rightarrow> io \<Rightarrow> ruleManager \<Rightarrow> rmResult" where
  "SaveConfig io1 io2 rm =
     (case saveSettingsConfig io1 rm of
        (Some e, rm') \<Rightarrow> (Some e, rm')
      | (None, rm') \<Rightarrow> saveRulesConfig io2 rm')"

section \<open>Compiling site groups into rules\<close>

text \<open>Both lookup maps are filled in list order, so the last entry of an ID wins.\<close>

definition upstreamMap :: "upstream list \<Rightarrow> (string \<rightharpoonup> string)" where
  "upstreamMap ups = map_of (rev (map (\<lambda>u. (up_ID u, up_Address u))
     (filter (\<lambda>u. up_Enabled u \<and> up_Address u \<noteq> '''') ups)))"

definition echProfileMap :: "echProfile list \<Rightarrow> (string \<rightharpoonup> echProfile)" where
  "echProfileMap profiles = map_of (rev (map (\<lambda>p. (ep_ID p, p)) profiles))"

definition resolveID :: "(string \<rightharpoonup> string) \<Rightarrow> string \<Rightarrow> string" where
  "resolveID m i = (case m i of Some addr \<Rightarrow> addr | None \<Rightarrow> i)"

definition groupRule :: "upstream list \<Rightarrow> echProfile list \<Rightarrow> siteGroup \<Rightarrow> string \<Rightarrow> rule" where
  "groupRule ups profiles sg domain =
     (let um = upstreamMap ups;
          ep = (if sg_ECHProfileID sg \<noteq> '''' then
                  (case echProfileMap profiles (sg_ECHProfileID sg) of Some p \<Rightarrow> p | None \<Rightarrow> zeroECHProfile)
                else zeroECHProfile)
      in zeroRule
       \<lparr>r_Domain := domain, r_Mode := sg_Mode sg, r_Upstream := resolveID um (sg_Upstream sg),
        r_Upstreams := map (resolveID um) (sg_Upstreams sg), r_DNSMode := normalizeDNSMode (sg_DNSMode sg),
        r_SniFake := sg_SniFake sg, r_ConnectPolicy := TrimSpace (sg_ConnectPolicy sg),
        r_SniPolicy := TrimSpace (sg_SniPolicy sg), r_Enabled := True, r_SiteID := sg_ID sg,
        r_ECHEnabled := sg_ECHEnabled sg, r_ECHProfileID := sg_ECHProfileID sg,
        r_UseCFPool := sg_UseCFPool sg, r_ECHDiscoveryDomain := ep_DiscoveryDomain ep,
        r_ECHDoHUpstream := ep_DoHUpstream ep, r_ECHAutoUpdate := ep_AutoUpdate ep,
        r_CertVerify := sg_CertVerify sg\<rparr>)"

definition compileRules :: "siteGroup list \<Rightarrow> upstream list \<Rightarrow> echProfile list \<Rightarrow> rule list" where
  "compileRules sgs ups profiles =
     concat (map (\<lambda>sg. map (groupRule ups profiles sg) (sg_Domains sg)) (filter sg_Enabled sgs))"

definition buildRules :: "ruleManager \<Rightarrow> ruleManager" where
  "buildRules rm = rm\<lparr>rm_rules := compileRules (rm_siteGroups rm) (rm_upstreams rm) (rm_echProfiles rm)\<rparr>"

section \<open>Loading\<close>

definition normalizeECHProfile :: "echProfile \<Rightarrow> echProfile" where
  "normalizeECHProfile p = p\<lparr>ep_ID := TrimSpace (ep_ID p), ep_Name := TrimSpace (ep_Name p),
     ep_Config := TrimSpace (ep_Config p), ep_DiscoveryDomain := TrimSpace (ep_DiscoveryDomain p),
     ep_DoHUpstream := TrimSpace (ep_DoHUpstream p)\<rparr>"

text \<open>Assignments through an index found by a linear search: the first element with the key is
  replaced or removed.\<close>

fun updateFirst :: "('a \<Rightarrow> string) \<Rightarrow> string \<Rightarrow> ('a \<Rightarrow> 'a) \<Rightarrow> 'a list \<Rightarrow> 'a list" where
  "updateFirst key k f [] = []"
| "updateFirst key k f (x # xs) = (if key x = k then f x # xs else x # updateFirst key k f xs)"

fun removeFirst :: "('a \<Rightarrow> string) \<Rightarrow> string \<Rightarrow> 'a list \<Rightarrow> 'a list" where
  "removeFirst key k [] = []"
| "removeFirst key k (x # xs) = (if key x = k then xs else x # removeFirst key k xs)"

definition findECHProfileByID :: "echProfile list \<Rightarrow> string \<Rightarrow> echProfile option" where
  "findECHProfileByID profiles id0 =
     (let i = TrimSpace id0 in if i = '''' then None else find (\<lambda>p. ep_ID p = i) profiles)"

definition legacyID :: string where "legacyID = ''legacy-cloudflare''"

definition fillLegacy :: "echProfile \<Rightarrow> echProfile" where
  "fillLegacy p0 =
     (let p = normalizeECHProfile p0;
          p1 = (if ep_Name p = '''' then p\<lparr>ep_Name := ''Legacy Cloudflare''\<rparr> else p)
      in if ep_DiscoveryDomain p1 = '''' then p1\<lparr>ep_DiscoveryDomain := ''crypto.cloudflare.com''\<rparr> else p1)"

definition ensureLegacyCloudflareProfile :: "echProfile list \<Rightarrow> string \<times> echProfile list" where
  "ensureLegacyCloudflareProfile profiles =
     (case findECHProfileByID profiles legacyID of
        Some existing \<Rightarrow> (ep_ID (fillLegacy existing), updateFirst ep_ID legacyID fillLegacy profiles)
      | None \<Rightarrow> (legacyID, profiles @ [zeroECHProfile\<lparr>ep_ID := legacyID, ep_Name := ''Legacy Cloudflare'',
          ep_DiscoveryDomain := ''crypto.cloudflare.com'', ep_AutoUpdate := True\<rparr>]))"

fun migrateLegacyECHRules ::
    "siteGroup list \<Rightarrow> echProfile list \<Rightarrow> siteGroup list \<times> echProfile list \<times> bool" where
  "migrateLegacyECHRules [] profiles = ([], profiles, False)"
| "migrateLegacyECHRules (sg0 # sgs) profiles =
     (let sg = sg0\<lparr>sg_ECHProfileID := TrimSpace (sg_ECHProfileID sg0), sg_ECHDomain := TrimSpace (sg_ECHDomain sg0)\<rparr> in
      if sg_ECHEnabled sg \<and> sg_ECHProfileID sg = '''' \<and> EqualFold (sg_ECHDomain sg) ''crypto.cloudflare.com''
      then let (i, profiles1) = ensureLegacyCloudflareProfile profiles;
               (sgs', profiles', _) = migrateLegacyECHRules sgs profiles1
           in (sg\<lparr>sg_ECHProfileID := i, sg_ECHDomain := ''''\<rparr> # sgs', profiles', True)
      else let (sgs', profiles', migrated) = migrateLegacyECHRules sgs profiles
           in (sg # sgs', profiles', migrated))"

text \<open>\<open>inferWebsiteFromSiteGroup\<close>: the table of well-known sites, then the second-level label of a
  domain, then of any token.\<close>

definition siteTable :: "(string list \<times> string) list" where
  "siteTable =
    [([''google.com'', ''youtube.com'', ''gstatic.com'', ''googlevideo.com'', ''gvt1.com'', ''ytimg.com'', ''youtu.be'', ''ggpht.com''], ''google''),
     ([''github.com'', ''githubusercontent.com'', ''githubassets.com'', ''github.io''], ''github''),
     ([''telegram.org'', ''web.telegram.org'', ''cdn-telegram.org'', ''t.me'', ''telesco.pe'', ''tg.dev'', ''telegram.me''], ''telegram''),
     ([''proton.me''], ''proton''),
     ([''pixiv.net'', ''fanbox.cc'', ''pximg.net'', ''pixiv.org''], ''pixiv''),
     ([''nyaa.si''], ''nyaa''),
     ([''wikipedia.org'', ''wikimedia.org'', ''mediawiki.org'', ''wikibooks.org'', ''wikidata.org'', ''wikifunctions.org'', ''wikinews.org'', ''wikiquote.org'', ''wikisource.org'', ''wikiversity.org'', ''wikivoyage.org'', ''wiktionary.org''], ''wikipedia''),
     ([''e-hentai.org'', ''exhentai.org'', ''ehgt.org'', ''hentaiverse.org'', ''ehwiki.org'', ''ehtracker.org''], ''ehentai''),
     ([''facebook.com'', ''fbcdn.net'', ''instagram.com'', ''cdninstagram.com'', ''instagr.am'', ''ig.me'', ''whatsapp.com'', ''whatsapp.net''], ''meta''),
     ([''twitter.com'', ''x.com'', ''t.co'', ''twimg.com''], ''x''),
     ([''steamcommunity.com'', ''steampowered.com''], ''steam''),
     ([''mega.nz'', ''mega.io'', ''mega.co.nz''], ''mega''),
     ([''dailymotion.com''], ''dailymotion''),
     ([''duckduckgo.com''], ''duckduckgo''),
     ([''reddit.com'', ''redd.it'', ''redditmedia.com'', ''redditstatic.com''], ''reddit''),
     ([''twitch.tv''], ''twitch''),
     ([''bbc.com'', ''bbc.co.uk'', ''bbci.co.uk''], ''bbc'')]"

fun labelOf :: "string list \<Rightarrow> string option" where
  "labelOf [] = None"
| "labelOf (t0 # ts) =
     (let t = cleanWebsiteToken t0 in
      if t = '''' \<or> t = ''off'' then labelOf ts
      else let parts = Split (CHR ''.'') t in
        if 2 \<le> length parts then Some (parts ! (length parts - 2)) else Some t)"

definition inferWebsiteFromSiteGroup :: "siteGroup \<Rightarrow> string" where
  "inferWebsiteFromSiteGroup sg =
     (let tokens = [sg_Name sg, sg_Upstream sg, sg_SniFake sg] @ sg_Domains sg;
          hasDomain = (\<lambda>domains. list_ex (\<lambda>t. list_ex (tokenMatchesDomain t) domains) tokens)
      in case find (\<lambda>(domains, _). hasDomain domains) siteTable of
           Some (_, site) \<Rightarrow> site
         | None \<Rightarrow>
             (case labelOf (sg_Domains sg) of
                Some l \<Rightarrow> l
              | None \<Rightarrow> (case labelOf tokens of Some l \<Rightarrow> l | None \<Rightarrow> ''misc'')))"

definition applySettingsDefaults :: "ruleManager \<Rightarrow> ruleManager" where
  "applySettingsDefaults rm =
     rm\<lparr>rm_listenPort := (if rm_listenPort rm = '''' then ''8080'' else rm_listenPort rm),
        rm_tunConfig := normalizeTUNConfig (rm_tunConfig rm)\<rparr>"

definition saveDefaultSettingsConfig :: "io \<Rightarrow> ruleManager \<Rightarrow> rmResult" where
  "saveDefaultSettingsConfig io rm = saveSettingsConfig io
     (applySettingsDefaults (rm\<lparr>rm_closeToTray := True, rm_autoStart := False,
        rm_showMainOnAutoStart := True, rm_autoEnableProxyOnAutoStart := False\<rparr>))"

definition loadSettingsConfig :: "io \<Rightarrow> ruleManager \<Rightarrow> rmResult" where
  "loadSettingsConfig io rm =
     (case rm_settingsFile rm of
        Missing \<Rightarrow> saveDefaultSettingsConfig io rm
      | Unreadable e \<Rightarrow> (Some e, rm)
      | Malformed e \<Rightarrow> (Some e, rm)
      | Holds config \<Rightarrow>
          (None, applySettingsDefaults (rm
            \<lparr>rm_closeToTray := (case set_CloseToTray config of Some b \<Rightarrow> b | None \<Rightarrow> True),
             rm_autoStart := (case set_AutoStart config of Some b \<Rightarrow> b | None \<Rightarrow> False),
             rm_showMainOnAutoStart := (case set_ShowMainWindowOnAutoStart config of Some b \<Rightarrow> b | None \<Rightarrow> True),
             rm_autoEnableProxyOnAutoStart :=
               (case set_AutoEnableProxyOnAutoStart config of Some b \<Rightarrow> b | None \<Rightarrow> False),
             rm_cloudflareConfig := set_CloudflareConfig config, rm_tunConfig := set_TUN config,
             rm_serverHost := set_ServerHost config, rm_serverAuth := set_ServerAuth config,
             rm_listenPort := (if set_ListenPort config \<noteq> '''' then set_ListenPort config else rm_listenPort rm),
             rm_socks5Port := (if set_Socks5Port config \<noteq> '''' then set_Socks5Port config else rm_socks5Port rm),
             rm_autoRoutingConfig := set_AutoRouting config, rm_language := set_Language config,
             rm_theme := set_Theme config,
             rm_socks5Enabled := (case set_Socks5Enabled config of Some b \<Rightarrow> b | None \<Rightarrow> rm_socks5Enabled rm)\<rparr>)))"

definition defaultDNSNodes :: "dnsNode list" where
  "defaultDNSNodes = []"

definition saveDefaultRulesConfig :: "io \<Rightarrow> ruleManager \<Rightarrow> rmResult" where
  "saveDefaultRulesConfig io rm = saveRulesConfig io (buildRules (rm\<lparr>rm_siteGroups := [], rm_upstreams := [],
     rm_dnsNodes := defaultDNSNodes, rm_echProfiles := []\<rparr>))"

definition loadRulesConfig :: "io \<Rightarrow> ruleManager \<Rightarrow> rmResult" where
  "loadRulesConfig io rm =
     (case rm_rulesFile rm of
        Missing \<Rightarrow> saveDefaultRulesConfig io rm
      | Unreadable e \<Rightarrow> (Some e, rm)
      | Malformed e \<Rightarrow> (Some e, rm)
      | Holds config \<Rightarrow>
          (None, rm\<lparr>rm_siteGroups := rc_SiteGroups config, rm_upstreams := rc_Upstreams config,
             rm_dnsNodes := (if rc_DNSNodes config = [] then defaultDNSNodes else rc_DNSNodes config),
             rm_echProfiles := rc_ECHProfiles config\<rparr>))"

text \<open>The two migrations of \<open>LoadConfig\<close> on the site groups and profiles.\<close>

definition fillWebsite :: "siteGroup \<Rightarrow> siteGroup \<times> bool" where
  "fillWebsite sg0 =
     (let sg = sg0\<lparr>sg_Website := TrimSpace (sg_Website sg0)\<rparr> in
      if sg_Website sg = '''' then (sg\<lparr>sg_Website := inferWebsiteFromSiteGroup sg\<rparr>, True) else (sg, False))"

definition migrateGroups ::
    "siteGroup list \<Rightarrow> echProfile list \<Rightarrow> siteGroup list \<times> echProfile list \<times> bool" where
  "migrateGroups sgs profiles =
     (let filled = map fillWebsite sgs;
          (sgs', profiles', echMigrated) = migrateLegacyECHRules (map fst filled) profiles
      in (sgs', profiles', list_ex snd filled \<or> echMigrated))"

definition finishLoad :: "io \<Rightarrow> ruleManager \<Rightarrow> rmResult" where
  "finishLoad io rm =
     (let sgs = map (\<lambda>sg. sg\<lparr>sg_DNSMode := normalizeDNSMode (sg_DNSMode sg)\<rparr>) (rm_siteGroups rm);
          profiles = map normalizeECHProfile (rm_echProfiles rm);
          rm1 = applySettingsDefaults rm;
          (sgs', profiles', migrated) = migrateGroups sgs profiles;
          rm2 = buildRules (rm1\<lparr>rm_siteGroups := sgs', rm_echProfiles := profiles'\<rparr>)
      in if migrated then (None, snd (saveRulesConfig io rm2)) else (None, rm2))"

definition LoadConfig :: "io \<Rightarrow> io \<Rightarrow> io \<Rightarrow> ruleManager \<Rightarrow> rmResult" where
  "LoadConfig io1 io2 io3 rm =
     (case loadSettingsConfig io1 rm of
        (Some e, rm1) \<Rightarrow> (Some e, rm1)
      | (None, rm1) \<Rightarrow>
          (case loadRulesConfig io2 rm1 of
             (Some e, rm2) \<Rightarrow> (Some e, rm2)
           | (None, rm2) \<Rightarrow> finishLoad io3 rm2))"

end
