(* ===== verification/Base64.thy ===== *)
theory Base64
  imports Go_Prelude
begin

text \<open>
  Package \<open>encoding/base64\<close>, standard alphabet with padding, as far as the program uses it:
  \<open>EncodeToString\<close> writes ECH configurations into profiles and \<open>DecodeString\<close> reads them back. The
  decoder skips carriage returns and line feeds, reads quanta of four characters, accepts padding
  only in the last quantum, and ignores the unused bits before the padding.
\<close>

text \<open>Positions of the alphabet \<open>A-Z a-z 0-9 + /\<close> as character codes.\<close>

definition b64_char :: "nat \<Rightarrow> char" where
  "b64_char n = char_of (if n < 26 then n + 65 else if n < 52 then n + 71
     else if n < 62 then n - 4 else if n = 62 then 43 else (47 :: nat))"

definition b64_val :: "char \<Rightarrow> nat option" where
  "b64_val c = (let n = (of_char c :: nat) in
     if 65 \<le> n \<and> n \<le> 90 then Some (n - 65)
     else if 97 \<le> n \<and> n \<le> 122 then Some (n - 71)
     else if 48 \<le> n \<and> n \<le> 57 then Some (n + 4)
     else if n = 43 then Some 62 else if n = 47 then Some 63 else None)"

fun EncodeToString :: "bytes \<Rightarrow> string" where
  "EncodeToString [] = []"
| "EncodeToString [a] =
     [b64_char (unat a div 4), b64_char (unat a mod 4 * 16), CHR ''='', CHR ''='']"
| "EncodeToString [a, b] =
     [b64_char (unat a div 4), b64_char (unat a mod 4 * 16 + unat b div 16),
      b64_char (unat b mod 16 * 4), CHR ''='']"
| "EncodeToString (a # b # c # rest) =
     b64_char (unat a div 4) # b64_char (unat a mod 4 * 16 + unat b div 16) #
     b64_char (unat b mod 16 * 4 + unat c div 64) # b64_char (unat c mod 64) # EncodeToString rest"

fun decodeQuanta :: "string \<Rightarrow> bytes option" where
  "decodeQuanta [] = Some []"
| "decodeQuanta (w # x # y # z # rest) =
     (case (b64_val w, b64_val x) of
        (Some p, Some q) \<Rightarrow>
          let a = of_nat (p * 4 + q div 16) in
          if y = CHR ''='' then (if z = CHR ''='' \<and> rest = [] then Some [a] else None)
          else (case b64_val y of
             None \<Rightarrow> None
           | Some r \<Rightarrow>
               let b = of_nat (q mod 16 * 16 + r div 4) in
               if z = CHR ''='' then (if rest = [] then Some [a, b] else None)
               else (case b64_val z of
                  None \<Rightarrow> None
                | Some s \<Rightarrow>
                    map_option (\<lambda>t. a # b # of_nat (r mod 4 * 64 + s) # t) (decodeQuanta rest)))
      | _ \<Rightarrow> None)"
| "decodeQuanta _ = None"

definition DecodeString :: "string \<Rightarrow> bytes option" where
  "DecodeString s = decodeQuanta (filter (\<lambda>c. c \<noteq> CHR 0x0A \<and> c \<noteq> CHR 0x0D) s)"

lemma b64_code: "n < 64 \<Longrightarrow> (of_char (b64_char n) :: nat) =
    (if n < 26 then n + 65 else if n < 52 then n + 71 else if n < 62 then n - 4 else if n = 62 then 43 else 47)"
  by (simp add: b64_char_def)

lemma b64_val_char: "n < 64 \<Longrightarrow> b64_val (b64_char n) = Some n"
  by (simp add: b64_val_def b64_code Let_def) arith

lemma b64_char_plain:
  assumes "n < 64"
  shows "b64_char n \<noteq> CHR ''=''" "\<not> is_space (b64_char n)"
proof -
  show "\<not> is_space (b64_char n)" using assms by (simp add: is_space_code b64_code) arith
  show "b64_char n \<noteq> CHR ''=''" using assms by (simp add: char_code_iff b64_code) arith
qed

lemma byte_div4 [simp]: "unat (a :: byte) div 4 < 64"
  and byte_div16 [simp]: "unat (a :: byte) div 16 < 16"
  and byte_div64 [simp]: "unat (a :: byte) div 64 < 4"
  using unat_byte_less [of a] by linarith+

lemma six_bits [simp]:
  "unat (a :: byte) mod 4 * 16 < 64" "unat (a :: byte) mod 16 * 4 < 64"
  "unat (a :: byte) mod 4 * 16 + unat (b :: byte) div 16 < 64"
  "unat (a :: byte) mod 16 * 4 + unat (b :: byte) div 64 < 64"
proof -
  have m: "unat a mod 4 < 4" "unat a mod 16 < 16" by simp_all
  show "unat a mod 4 * 16 < 64" "unat a mod 16 * 4 < 64" using m by linarith+
  show "unat a mod 4 * 16 + unat b div 16 < 64" using m byte_div16 [of b] by linarith
  show "unat a mod 16 * 4 + unat b div 64 < 64" using m byte_div64 [of b] by linarith
qed

lemma first_byte: "(x :: nat) < 16 \<Longrightarrow> u div 4 * 4 + (u mod 4 * 16 + x) div 16 = u"
  and second_byte: "(x :: nat) < 4 \<Longrightarrow> y < 16 \<Longrightarrow> (k * 16 + y) mod 16 * 16 + (v mod 16 * 4 + x) div 4 = y * 16 + v mod 16"
  by (simp_all add: div_mult_mod_eq mult.commute)

lemma of_nat_unat_byte: "n = unat (a :: byte) \<Longrightarrow> of_nat n = a" by simp

lemma decode_encode_quanta: "decodeQuanta (EncodeToString bs) = Some bs"
proof (induction bs rule: EncodeToString.induct)
  case (2 a)
  have "unat a div 4 * 4 + unat a mod 4 * 16 div 16 = unat a" by simp
  then show ?case by (simp add: b64_val_char b64_char_plain of_nat_unat_byte)
next
  case (3 a b)
  have "unat a div 4 * 4 + (unat a mod 4 * 16 + unat b div 16) div 16 = unat a"
    by (rule first_byte) simp
  moreover have "(unat a mod 4 * 16 + unat b div 16) mod 16 * 16 + unat b mod 16 * 4 div 4 = unat b"
    by simp
  ultimately show ?case by (simp add: b64_val_char b64_char_plain of_nat_unat_byte del: of_nat_add of_nat_mult)
next
  case (4 a b c rest)
  have "unat a div 4 * 4 + (unat a mod 4 * 16 + unat b div 16) div 16 = unat a"
    by (rule first_byte) simp
  moreover have "(unat a mod 4 * 16 + unat b div 16) mod 16 * 16 + (unat b mod 16 * 4 + unat c div 64) div 4 = unat b"
    using second_byte [of "unat c div 64" "unat b div 16" "unat a mod 4" "unat b"] by simp
  moreover have "(unat b mod 16 * 4 + unat c div 64) mod 4 * 64 + unat c mod 64 = unat c" by simp
  ultimately show ?case using 4 by (simp add: b64_val_char b64_char_plain of_nat_unat_byte del: of_nat_add of_nat_mult)
qed simp

lemma EncodeToString_plain:
  "c \<in> set (EncodeToString bs) \<Longrightarrow> \<not> is_space c"
proof (induction bs rule: EncodeToString.induct)
  case (2 a) then show ?case using b64_char_plain by (auto simp: is_space_def)
next
  case (3 a b) then show ?case using b64_char_plain by (auto simp: is_space_def)
next
  case (4 a b c' rest) then show ?case using b64_char_plain by auto
qed simp

lemma DecodeString_EncodeToString [simp]: "DecodeString (EncodeToString bs) = Some bs"
proof -
  have "filter (\<lambda>c. c \<noteq> CHR 0x0A \<and> c \<noteq> CHR 0x0D) (EncodeToString bs) = EncodeToString bs"
    using EncodeToString_plain [of _ bs] by (intro filter_True) (auto simp: is_space_def)
  then show ?thesis by (simp add: DecodeString_def decode_encode_quanta)
qed

lemma TrimSpace_EncodeToString [simp]: "TrimSpace (EncodeToString bs) = EncodeToString bs"
  unfolding TrimSpace_def using EncodeToString_plain [of _ bs] by (intro trim_where_id) auto

lemma EncodeToString_eq_Nil [simp]: "EncodeToString bs = [] \<longleftrightarrow> bs = []"
  by (cases bs rule: EncodeToString.cases) auto

end
