(* ===== verification/Rule_Edit.thy ===== *)
theory Rule_Edit
  imports Rule_Manager Base64
begin

text \<open>
  The editing operations of the rule manager (\<open>src/proxy/proxy.go\<close>): site groups, upstreams, DNS
  nodes, ECH profiles, settings and automatic routing. \<open>generateID()\<close> (a time stamp) is the argument
  \<open>newID\<close>; \<open>io\<close> is the outcome of the file write at the end of the operation.
\<close>

section \<open>Site groups, upstreams and DNS nodes\<close>

definition AddSiteGroup :: "io \<Rightarrow> string \<Rightarrow> siteGroup \<Rightarrow> ruleManager \<Rightarrow> rmResult" where
  "AddSiteGroup io newID sg0 rm =
     (let sg = sg0\<lparr>sg_ID := newID, sg_Website := TrimSpace (sg_Website sg0)\<rparr> in
      saveRulesConfig io (buildRules (rm\<lparr>rm_siteGroups := rm_siteGroups rm @ [sg]\<rparr>)))"

definition UpdateSiteGroup :: "io \<Rightarrow> siteGroup \<Rightarrow> ruleManager \<Rightarrow> rmResult" where
  "UpdateSiteGroup io sg0 rm =
     (let sg = sg0\<lparr>sg_Website := TrimSpace (sg_Website sg0)\<rparr> in
      saveRulesConfig io (buildRules
        (rm\<lparr>rm_siteGroups := updateFirst sg_ID (sg_ID sg) (\<lambda>_. sg) (rm_siteGroups rm)\<rparr>)))"

definition DeleteSiteGroup :: "io \<Rightarrow> string \<Rightarrow> ruleManager \<Rightarrow> rmResult" where
  "DeleteSiteGroup io i rm =
     saveRulesConfig io (buildRules (rm\<lparr>rm_siteGroups := removeFirst sg_ID i (rm_siteGroups rm)\<rparr>))"

definition AddUpstream :: "io \<Rightarrow> string \<Rightarrow> upstream \<Rightarrow> ruleManager \<Rightarrow> rmResult" where
  "AddUpstream io newID u rm =
     saveRulesConfig io (rm\<lparr>rm_upstreams := rm_upstreams rm @ [u\<lparr>up_ID := newID\<rparr>]\<rparr>)"

definition UpdateUpstream :: "io \<Rightarrow> upstream \<Rightarrow> ruleManager \<Rightarrow> rmResult" where
  "UpdateUpstream io u rm =
     saveRulesConfig io (rm\<lparr>rm_upstreams := updateFirst up_ID (up_ID u) (\<lambda>_. u) (rm_upstreams rm)\<rparr>)"

definition DeleteUpstream :: "io \<Rightarrow> string \<Rightarrow> ruleManager \<Rightarrow> rmResult" where
  "DeleteUpstream io i rm =
     saveRulesConfig io (rm\<lparr>rm_upstreams := removeFirst up_ID i (rm_upstreams rm)\<rparr>)"

definition AddDNSNode :: "io \<Rightarrow> string \<Rightarrow> dnsNode \<Rightarrow> ruleManager \<Rightarrow> rmResult" where
  "AddDNSNode io newID n rm =
     saveRulesConfig io (rm\<lparr>rm_dnsNodes := rm_dnsNodes rm @ [n\<lparr>dn_ID := newID\<rparr>]\<rparr>)"

definition UpdateDNSNode :: "io \<Rightarrow> dnsNode \<Rightarrow> ruleManager \<Rightarrow> rmResult" where
  "UpdateDNSNode io n rm =
     saveRulesConfig io (rm\<lparr>rm_dnsNodes := updateFirst dn_ID (dn_ID n) (\<lambda>_. n) (rm_dnsNodes rm)\<rparr>)"

definition DeleteDNSNode :: "io \<Rightarrow> string \<Rightarrow> ruleManager \<Rightarrow> rmResult" where
  "DeleteDNSNode io i rm =
     saveRulesConfig io (rm\<lparr>rm_dnsNodes := removeFirst dn_ID i (rm_dnsNodes rm)\<rparr>)"

text \<open>The search loop for the first node of an ID, and the clamped move.\<close>

fun indexOf :: "('a \<Rightarrow> string) \<Rightarrow> string \<Rightarrow> 'a list \<Rightarrow> nat option" where
  "indexOf key k [] = None"
| "indexOf key k (x # xs) = (if key x = k then Some 0 else map_option Suc (indexOf key k xs))"

text \<open>The three appends that take the node out and put it back at the target.\<close>

definition moveTo :: "nat \<Rightarrow> nat \<Rightarrow> 'a list \<Rightarrow> 'a list" where
  "moveTo srcIdx targetIndex xs =
     (let node = xs ! srcIdx; rest = take srcIdx xs @ drop (srcIdx + 1) xs; tail = drop targetIndex rest
      in take targetIndex rest @ [node] @ tail)"

definition SetDNSNodePriority :: "io \<Rightarrow> string \<Rightarrow> int \<Rightarrow> ruleManager \<Rightarrow> rmResult" where
  "SetDNSNodePriority io i targetIndex0 rm =
     (case indexOf dn_ID i (rm_dnsNodes rm) of
        None \<Rightarrow> (Some (''dns node '' @ i @ '' not found''), rm)
      | Some srcIdx \<Rightarrow>
          let targetIndex1 = (if targetIndex0 < 0 then 0 else targetIndex0);
              n = length (rm_dnsNodes rm);
              targetIndex = (if int n \<le> targetIndex1 then n - 1 else nat targetIndex1)
          in if srcIdx = targetIndex then (None, rm)
             else saveRulesConfig io (rm\<lparr>rm_dnsNodes := moveTo srcIdx targetIndex (rm_dnsNodes rm)\<rparr>))"

section \<open>ECH profiles\<close>

definition UpsertECHProfile :: "io \<Rightarrow> string \<Rightarrow> echProfile \<Rightarrow> ruleManager \<Rightarrow> rmResult" where
  "UpsertECHProfile io newID p0 rm =
     (let p = normalizeECHProfile p0; ps = rm_echProfiles rm in
      saveRulesConfig io (rm\<lparr>rm_echProfiles :=
        (if ep_ID p = '''' then ps @ [p\<lparr>ep_ID := newID\<rparr>]
         else if list_ex (\<lambda>x. ep_ID x = ep_ID p) ps then updateFirst ep_ID (ep_ID p) (\<lambda>_. p) ps
         else ps @ [p])\<rparr>))"

definition DeleteECHProfile :: "io \<Rightarrow> string \<Rightarrow> ruleManager \<Rightarrow> rmResult" where
  "DeleteECHProfile io i rm =
     saveRulesConfig io (rm\<lparr>rm_echProfiles := removeFirst ep_ID i (rm_echProfiles rm)\<rparr>)"

text \<open>The empty list stands for the nil slice.\<close>

definition GetBinaryECHConfig :: "ruleManager \<Rightarrow> string \<Rightarrow> bytes" where
  "GetBinaryECHConfig rm i =
     (case find (\<lambda>p. ep_ID p = i) (rm_echProfiles rm) of
        None \<Rightarrow> []
      | Some p \<Rightarrow> (case DecodeString (ep_Config p) of None \<Rightarrow> [] | Some d \<Rightarrow> d))"

definition UpdateECHProfileConfig :: "io \<Rightarrow> string \<Rightarrow> bytes \<Rightarrow> ruleManager \<Rightarrow> rmResult" where
  "UpdateECHProfileConfig io profileID configBytes rm =
     (if profileID = '''' \<or> configBytes = [] then (None, rm)
      else
        let configBase64 = EncodeToString configBytes in
        case find (\<lambda>p. ep_ID p = profileID) (rm_echProfiles rm) of
          None \<Rightarrow> (Some (''profile '' @ profileID @ '' not found''), rm)
        | Some p \<Rightarrow>
            if ep_Config p = configBase64 then (None, rm)
            else saveRulesConfig io (rm\<lparr>rm_echProfiles :=
              updateFirst ep_ID profileID (\<lambda>x. x\<lparr>ep_Config := configBase64\<rparr>) (rm_echProfiles rm)\<rparr>))"

section \<open>Settings\<close>

definition SetListenPort :: "string \<Rightarrow> ruleManager \<Rightarrow> ruleManager" where
  "SetListenPort port rm = rm\<lparr>rm_listenPort := port\<rparr>"

definition SetSocks5Enabled :: "bool \<Rightarrow> ruleManager \<Rightarrow> ruleManager" where
  "SetSocks5Enabled enabled rm = rm\<lparr>rm_socks5Enabled := enabled\<rparr>"

definition SetSocks5Port :: "string \<Rightarrow> ruleManager \<Rightarrow> ruleManager" where
  "SetSocks5Port port rm = rm\<lparr>rm_socks5Port := port\<rparr>"

definition UpdateServerConfig :: "io \<Rightarrow> string \<Rightarrow> string \<Rightarrow> ruleManager \<Rightarrow> rmResult" where
  "UpdateServerConfig io host auth rm =
     saveSettingsConfig io (rm\<lparr>rm_serverHost := host, rm_serverAuth := auth\<rparr>)"

definition SetCloseToTray :: "io \<Rightarrow> bool \<Rightarrow> ruleManager \<Rightarrow> rmResult" where
  "SetCloseToTray io enabled rm = saveSettingsConfig io (rm\<lparr>rm_closeToTray := enabled\<rparr>)"

definition SetAutoStart :: "io \<Rightarrow> bool \<Rightarrow> ruleManager \<Rightarrow> rmResult" where
  "SetAutoStart io enabled rm = saveSettingsConfig io (rm\<lparr>rm_autoStart := enabled\<rparr>)"

definition SetShowMainWindowOnAutoStart :: "io \<Rightarrow> bool \<Rightarrow> ruleManager \<Rightarrow> rmResult" where
  "SetShowMainWindowOnAutoStart io enabled rm =
     saveSettingsConfig io (rm\<lparr>rm_showMainOnAutoStart := enabled\<rparr>)"

definition SetAutoEnableProxyOnAutoStart :: "io \<Rightarrow> bool \<Rightarrow> ruleManager \<Rightarrow> rmResult" where
  "SetAutoEnableProxyOnAutoStart io enabled rm =
     saveSettingsConfig io (rm\<lparr>rm_autoEnableProxyOnAutoStart := enabled\<rparr>)"

definition SetLanguage :: "io \<Rightarrow> string \<Rightarrow> ruleManager \<Rightarrow> rmResult" where
  "SetLanguage io lang rm = saveSettingsConfig io (rm\<lparr>rm_language := lang\<rparr>)"

definition GetTheme :: "ruleManager \<Rightarrow> string" where
  "GetTheme rm = (if rm_theme rm = '''' then ''dark'' else rm_theme rm)"

definition SetTheme :: "io \<Rightarrow> string \<Rightarrow> ruleManager \<Rightarrow> rmResult" where
  "SetTheme io theme rm = saveSettingsConfig io (rm\<lparr>rm_theme := theme\<rparr>)"

definition UpdateCloudflareConfig :: "io \<Rightarrow> cloudflareConfig \<Rightarrow> ruleManager \<Rightarrow> rmResult" where
  "UpdateCloudflareConfig io cfg rm = saveSettingsConfig io (rm\<lparr>rm_cloudflareConfig := cfg\<rparr>)"

definition GetTUNConfig :: "ruleManager \<Rightarrow> tunConfig" where
  "GetTUNConfig rm = normalizeTUNConfig (rm_tunConfig rm)"

definition UpdateTUNConfig :: "io \<Rightarrow> tunConfig \<Rightarrow> ruleManager \<Rightarrow> rmResult" where
  "UpdateTUNConfig io cfg rm = saveSettingsConfig io (rm\<lparr>rm_tunConfig := normalizeTUNConfig cfg\<rparr>)"

section \<open>Automatic routing\<close>

definition UpdateAutoRoutingConfig :: "io \<Rightarrow> autoRoutingConfig \<Rightarrow> ruleManager \<Rightarrow> rmResult" where
  "UpdateAutoRoutingConfig io cfg rm = saveSettingsConfig io
     (rm\<lparr>rm_autoRoutingConfig := cfg, rm_autoRouter := map_option (UpdateConfig cfg) (rm_autoRouter rm)\<rparr>)"

definition InitAutoRouter :: "int \<Rightarrow> ruleManager \<Rightarrow> ruleManager" where
  "InitAutoRouter now rm =
     (let ar = NewAutoRouter (rm_autoRoutingConfig rm);
          (_, g) = LoadFromFile now (rm_gfwCache rm) (rt_gfwList ar)
      in rm\<lparr>rm_autoRouter := Some (ar\<lparr>rt_gfwList := g\<rparr>)\<rparr>)"

text \<open>A refresh downloads the list, caches it (\<open>ord\<close> is the order in which the iteration of the domain map yields its keys),
  stamps the configuration and saves the settings; the two write errors are only logged.\<close>

definition RefreshGFWList ::
    "http_fetch \<Rightarrow> string list \<Rightarrow> int \<Rightarrow> string \<Rightarrow> io \<Rightarrow> io \<Rightarrow> ruleManager
       \<Rightarrow> (string + nat) \<times> ruleManager" where
  "RefreshGFWList fetch ord now stamp io1 io2 rm =
     (case rm_autoRouter rm of
        None \<Rightarrow> (Inl ''auto router not initialized'', rm)
      | Some ar \<Rightarrow>
          let cfg = rm_autoRoutingConfig rm;
              url = (if ar_GFWListURL cfg = '''' then defaultGFWListURL else ar_GFWListURL cfg)
          in case LoadFromURL fetch now url (rt_gfwList ar) of
               (Inl e, g) \<Rightarrow> (Inl e, rm\<lparr>rm_autoRouter := Some (ar\<lparr>rt_gfwList := g\<rparr>)\<rparr>)
             | (Inr count, g) \<Rightarrow>
                 let (_, cache) = SaveToFile io1 ord (rm_gfwCache rm);
                     cfg' = cfg\<lparr>ar_LastUpdate := stamp\<rparr>;
                     ar' = UpdateConfig cfg' (ar\<lparr>rt_gfwList := g\<rparr>)
                 in (Inr count, snd (saveSettingsConfig io2 (rm\<lparr>rm_gfwCache := cache,
                      rm_autoRoutingConfig := cfg', rm_autoRouter := Some ar'\<rparr>))))"

definition GetAutoRoutingStatus :: "ruleManager \<Rightarrow> gfwListStatus" where
  "GetAutoRoutingStatus rm =
     (case rm_autoRouter rm of
        Some ar \<Rightarrow> GetStatus ar
      | None \<Rightarrow> \<lparr>gs_Enabled = False, gs_Mode = ar_Mode (rm_autoRoutingConfig rm), gs_DomainCount = 0,
                 gs_LastUpdate = '''', gs_GFWListURL = ''''\<rparr>)"

end
