(* ===== verification/Rule_Manager_Correct.thy ===== *)
theory Rule_Manager_Correct
  imports Rule_Edit "HOL-Library.Multiset"
begin

text \<open>
  Correctness of the rule manager: the contract that site groups, upstreams and DNS nodes share (a
  keyed collection written through to the rules file), what loading establishes, which edits reach
  the compiled rules, and what survives a restart.
\<close>

section \<open>Keyed collections\<close>

lemma updateFirst_keys:
  "(\<And>x. key x = k \<Longrightarrow> key (f x) = k) \<Longrightarrow> map key (updateFirst key k f xs) = map key xs"
  by (induction xs) auto

lemma updateFirst_absent: "k \<notin> key ` set xs \<Longrightarrow> updateFirst key k f xs = xs"
  by (induction xs) auto

lemma removeFirst_absent: "k \<notin> key ` set xs \<Longrightarrow> removeFirst key k xs = xs"
  by (induction xs) auto

lemma removeFirst_append: "k \<notin> key ` set xs \<Longrightarrow> removeFirst key k (xs @ ys) = xs @ removeFirst key k ys"
  by (induction xs) auto

lemma removeFirst_distinct:
  "distinct (map key xs) \<Longrightarrow> removeFirst key k xs = filter (\<lambda>x. key x \<noteq> k) xs"
  by (induction xs) (auto simp: rev_image_eqI intro!: filter_True [symmetric])

lemma updateFirst_distinct:
  "distinct (map key xs) \<Longrightarrow> updateFirst key k f xs = map (\<lambda>x. if key x = k then f x else x) xs"
  by (induction xs) (auto simp: rev_image_eqI intro!: map_idI [symmetric])

lemma find_updateFirst:
  "(\<And>x. key x = k \<Longrightarrow> key (f x) = k) \<Longrightarrow>
   find (\<lambda>x. key x = j) (updateFirst key k f xs) =
     (if j = k then map_option f (find (\<lambda>x. key x = k) xs) else find (\<lambda>x. key x = j) xs)"
  by (induction xs) auto

lemma find_None: "k \<notin> key ` set xs \<Longrightarrow> find (\<lambda>x. key x = k) xs = None"
  by (auto simp: find_None_iff)

lemma find_append: "find P (xs @ ys) = (case find P xs of Some x \<Rightarrow> Some x | None \<Rightarrow> find P ys)"
  by (induction xs) auto

lemma find_filter_other: "j \<noteq> k \<Longrightarrow> find (\<lambda>x. key x = j) (filter (\<lambda>x. key x \<noteq> k) xs) = find (\<lambda>x. key x = j) xs"
  by (induction xs) auto

text \<open>The contract of one kind of item: how the three operations change its list, and that the
  rules file holds the new state exactly when the write succeeded.\<close>

locale keyed_store =
  fixes items :: "ruleManager \<Rightarrow> 'a list"
    and key :: "'a \<Rightarrow> string"
    and stamp :: "string \<Rightarrow> 'a \<Rightarrow> 'a"
    and clean :: "'a \<Rightarrow> 'a"
    and add :: "io \<Rightarrow> string \<Rightarrow> 'a \<Rightarrow> ruleManager \<Rightarrow> rmResult"
    and upd :: "io \<Rightarrow> 'a \<Rightarrow> ruleManager \<Rightarrow> rmResult"
    and del :: "io \<Rightarrow> string \<Rightarrow> ruleManager \<Rightarrow> rmResult"
  assumes key_stamp [simp]: "key (stamp i x) = i"
    and key_clean [simp]: "key (clean x) = key x"
    and items_add [simp]: "items (snd (add io i x rm)) = items rm @ [stamp i x]"
    and items_upd [simp]: "items (snd (upd io x rm)) = updateFirst key (key x) (\<lambda>_. clean x) (items rm)"
    and items_del [simp]: "items (snd (del io i rm)) = removeFirst key i (items rm)"
    and err_add: "fst (add io i x rm) = io"
    and err_upd: "fst (upd io x rm) = io"
    and err_del: "fst (del io i rm) = io"
    and file_add: "rm_rulesFile (snd (add io i x rm)) =
      (if io = None then Holds (rulesConfigOf (snd (add io i x rm))) else rm_rulesFile rm)"
    and file_upd: "rm_rulesFile (snd (upd io x rm)) =
      (if io = None then Holds (rulesConfigOf (snd (upd io x rm))) else rm_rulesFile rm)"
    and file_del: "rm_rulesFile (snd (del io i rm)) =
      (if io = None then Holds (rulesConfigOf (snd (del io i rm))) else rm_rulesFile rm)"
begin

definition lookup :: "ruleManager \<Rightarrow> string \<Rightarrow> 'a option" where
  "lookup rm k = find (\<lambda>x. key x = k) (items rm)"

lemma distinct_add:
  "distinct (map key (items rm)) \<Longrightarrow> i \<notin> key ` set (items rm)
     \<Longrightarrow> distinct (map key (items (snd (add io i x rm))))"
  by auto

lemma distinct_upd: "distinct (map key (items rm)) \<Longrightarrow> distinct (map key (items (snd (upd io x rm))))"
  by (simp add: updateFirst_keys)

lemma distinct_del: "distinct (map key (items rm)) \<Longrightarrow> distinct (map key (items (snd (del io i rm))))"
  by (simp add: removeFirst_distinct distinct_map_filter)

lemma lookup_None: "lookup rm k = None \<longleftrightarrow> k \<notin> key ` set (items rm)"
  by (auto simp: lookup_def find_None_iff)

lemma lookup_add:
  "i \<notin> key ` set (items rm) \<Longrightarrow>
   lookup (snd (add io i x rm)) k = (if k = i then Some (stamp i x) else lookup rm k)"
  by (auto simp: lookup_def find_append find_None split: option.split)

lemma lookup_upd:
  "lookup (snd (upd io x rm)) k =
     (if k = key x then map_option (\<lambda>_. clean x) (lookup rm k) else lookup rm k)"
  by (simp add: lookup_def find_updateFirst)

lemma lookup_del:
  "distinct (map key (items rm)) \<Longrightarrow>
   lookup (snd (del io i rm)) k = (if k = i then None else lookup rm k)"
  by (auto simp: lookup_def removeFirst_distinct find_filter_other find_None_iff)

lemma add_del_cancel:
  "i \<notin> key ` set (items rm) \<Longrightarrow> items (snd (del io' i (snd (add io i x rm)))) = items rm"
  by (simp add: removeFirst_append)

end

lemmas edit_defs = AddSiteGroup_def UpdateSiteGroup_def DeleteSiteGroup_def AddUpstream_def
  UpdateUpstream_def DeleteUpstream_def AddDNSNode_def UpdateDNSNode_def DeleteDNSNode_def
  UpsertECHProfile_def DeleteECHProfile_def

lemma saveRulesConfig_simps [simp]:
  "fst (saveRulesConfig io rm) = io"
  "rm_siteGroups (snd (saveRulesConfig io rm)) = rm_siteGroups rm"
  "rm_upstreams (snd (saveRulesConfig io rm)) = rm_upstreams rm"
  "rm_dnsNodes (snd (saveRulesConfig io rm)) = rm_dnsNodes rm"
  "rm_echProfiles (snd (saveRulesConfig io rm)) = rm_echProfiles rm"
  "rm_rules (snd (saveRulesConfig io rm)) = rm_rules rm"
  "rm_settingsFile (snd (saveRulesConfig io rm)) = rm_settingsFile rm"
  "rulesConfigOf (snd (saveRulesConfig io rm)) = rulesConfigOf rm"
  "settingsOf (snd (saveRulesConfig io rm)) = settingsOf rm"
  "rm_rulesFile (snd (saveRulesConfig io rm)) = (if io = None then Holds (rulesConfigOf rm) else rm_rulesFile rm)"
  by (simp_all add: saveRulesConfig_def rulesConfigOf_def settingsOf_def split: option.splits)

lemma buildRules_simps [simp]:
  "rm_siteGroups (buildRules rm) = rm_siteGroups rm" "rm_upstreams (buildRules rm) = rm_upstreams rm"
  "rm_dnsNodes (buildRules rm) = rm_dnsNodes rm" "rm_echProfiles (buildRules rm) = rm_echProfiles rm"
  "rm_rulesFile (buildRules rm) = rm_rulesFile rm" "rulesConfigOf (buildRules rm) = rulesConfigOf rm"
  "rm_rules (buildRules rm) = compileRules (rm_siteGroups rm) (rm_upstreams rm) (rm_echProfiles rm)"
  by (simp_all add: buildRules_def rulesConfigOf_def)

interpretation sites: keyed_store rm_siteGroups sg_ID
    "\<lambda>i sg. sg\<lparr>sg_ID := i, sg_Website := TrimSpace (sg_Website sg)\<rparr>"
    "\<lambda>sg. sg\<lparr>sg_Website := TrimSpace (sg_Website sg)\<rparr>" AddSiteGroup UpdateSiteGroup DeleteSiteGroup
  by unfold_locales (simp_all add: edit_defs)

interpretation ups: keyed_store rm_upstreams up_ID "\<lambda>i u. u\<lparr>up_ID := i\<rparr>" id
    AddUpstream UpdateUpstream DeleteUpstream
  by unfold_locales (simp_all add: edit_defs)

interpretation nodes: keyed_store rm_dnsNodes dn_ID "\<lambda>i n. n\<lparr>dn_ID := i\<rparr>" id
    AddDNSNode UpdateDNSNode DeleteDNSNode
  by unfold_locales (simp_all add: edit_defs)

section \<open>Sequences of edits\<close>

text \<open>The edits of the rules file that the dashboard can ask for, with the ID that \<open>generateID\<close>
  gives where one is made.\<close>

datatype ruleEdit =
    EditAddSiteGroup string siteGroup | EditUpdateSiteGroup siteGroup | EditDeleteSiteGroup string
  | EditAddUpstream string upstream | EditUpdateUpstream upstream | EditDeleteUpstream string
  | EditAddDNSNode string dnsNode | EditUpdateDNSNode dnsNode | EditDeleteDNSNode string
  | EditSetDNSNodePriority string int
  | EditUpsertECHProfile string echProfile | EditDeleteECHProfile string
  | EditUpdateECHProfileConfig string bytes

fun applyEdit :: "io \<Rightarrow> ruleEdit \<Rightarrow> ruleManager \<Rightarrow> rmResult" where
  "applyEdit io (EditAddSiteGroup i x) rm = AddSiteGroup io i x rm"
| "applyEdit io (EditUpdateSiteGroup x) rm = UpdateSiteGroup io x rm"
| "applyEdit io (EditDeleteSiteGroup i) rm = DeleteSiteGroup io i rm"
| "applyEdit io (EditAddUpstream i x) rm = AddUpstream io i x rm"
| "applyEdit io (EditUpdateUpstream x) rm = UpdateUpstream io x rm"
| "applyEdit io (EditDeleteUpstream i) rm = DeleteUpstream io i rm"
| "applyEdit io (EditAddDNSNode i x) rm = AddDNSNode io i x rm"
| "applyEdit io (EditUpdateDNSNode x) rm = UpdateDNSNode io x rm"
| "applyEdit io (EditDeleteDNSNode i) rm = DeleteDNSNode io i rm"
| "applyEdit io (EditSetDNSNodePriority i t) rm = SetDNSNodePriority io i t rm"
| "applyEdit io (EditUpsertECHProfile i x) rm = UpsertECHProfile io i x rm"
| "applyEdit io (EditDeleteECHProfile i) rm = DeleteECHProfile io i rm"
| "applyEdit io (EditUpdateECHProfileConfig i c) rm = UpdateECHProfileConfig io i c rm"

text \<open>A time stamp is new among the IDs of the list it goes to.\<close>

fun freshFor :: "ruleManager \<Rightarrow> ruleEdit \<Rightarrow> bool" where
  "freshFor rm (EditAddSiteGroup i _) = (i \<notin> sg_ID ` set (rm_siteGroups rm))"
| "freshFor rm (EditAddUpstream i _) = (i \<notin> up_ID ` set (rm_upstreams rm))"
| "freshFor rm (EditAddDNSNode i _) = (i \<notin> dn_ID ` set (rm_dnsNodes rm))"
| "freshFor rm (EditUpsertECHProfile i _) = (i \<notin> ep_ID ` set (rm_echProfiles rm))"
| "freshFor _ _ = True"

text \<open>The states that edits reach from a state \<open>rm0\<close>; each write may succeed or fail.\<close>

inductive edits :: "ruleManager \<Rightarrow> ruleManager \<Rightarrow> bool" for rm0 where
  start: "edits rm0 rm0"
| step: "edits rm0 rm \<Longrightarrow> freshFor rm e \<Longrightarrow> edits rm0 (snd (applyEdit io e rm))"

definition idsDistinct :: "ruleManager \<Rightarrow> bool" where
  "idsDistinct rm \<longleftrightarrow> distinct (map sg_ID (rm_siteGroups rm)) \<and> distinct (map up_ID (rm_upstreams rm)) \<and>
     distinct (map dn_ID (rm_dnsNodes rm)) \<and> distinct (map ep_ID (rm_echProfiles rm))"

text \<open>Every edit works on one of the four lists and leaves the others alone.\<close>

lemma edit_frames [simp]:
  "rm_upstreams (snd (AddSiteGroup io i sg rm)) = rm_upstreams rm"
  "rm_upstreams (snd (UpdateSiteGroup io sg rm)) = rm_upstreams rm"
  "rm_upstreams (snd (DeleteSiteGroup io i rm)) = rm_upstreams rm"
  "rm_dnsNodes (snd (AddSiteGroup io i sg rm)) = rm_dnsNodes rm"
  "rm_dnsNodes (snd (UpdateSiteGroup io sg rm)) = rm_dnsNodes rm"
  "rm_dnsNodes (snd (DeleteSiteGroup io i rm)) = rm_dnsNodes rm"
  "rm_echProfiles (snd (AddSiteGroup io i sg rm)) = rm_echProfiles rm"
  "rm_echProfiles (snd (UpdateSiteGroup io sg rm)) = rm_echProfiles rm"
  "rm_echProfiles (snd (DeleteSiteGroup io i rm)) = rm_echProfiles rm"
  "rm_siteGroups (snd (AddUpstream io i u rm)) = rm_siteGroups rm"
  "rm_siteGroups (snd (UpdateUpstream io u rm)) = rm_siteGroups rm"
  "rm_siteGroups (snd (DeleteUpstream io i rm)) = rm_siteGroups rm"
  "rm_dnsNodes (snd (AddUpstream io i u rm)) = rm_dnsNodes rm"
  "rm_dnsNodes (snd (UpdateUpstream io u rm)) = rm_dnsNodes rm"
  "rm_dnsNodes (snd (DeleteUpstream io i rm)) = rm_dnsNodes rm"
  "rm_echProfiles (snd (AddUpstream io i u rm)) = rm_echProfiles rm"
  "rm_echProfiles (snd (UpdateUpstream io u rm)) = rm_echProfiles rm"
  "rm_echProfiles (snd (DeleteUpstream io i rm)) = rm_echProfiles rm"
  "rm_siteGroups (snd (AddDNSNode io i n rm)) = rm_siteGroups rm"
  "rm_siteGroups (snd (UpdateDNSNode io n rm)) = rm_siteGroups rm"
  "rm_siteGroups (snd (DeleteDNSNode io i rm)) = rm_siteGroups rm"
  "rm_upstreams (snd (AddDNSNode io i n rm)) = rm_upstreams rm"
  "rm_upstreams (snd (UpdateDNSNode io n rm)) = rm_upstreams rm"
  "rm_upstreams (snd (DeleteDNSNode io i rm)) = rm_upstreams rm"
  "rm_echProfiles (snd (AddDNSNode io i n rm)) = rm_echProfiles rm"
  "rm_echProfiles (snd (UpdateDNSNode io n rm)) = rm_echProfiles rm"
  "rm_echProfiles (snd (DeleteDNSNode io i rm)) = rm_echProfiles rm"
  by (simp_all add: edit_defs Let_def)

lemma priority_frames [simp]:
  "rm_siteGroups (snd (SetDNSNodePriority io i t rm)) = rm_siteGroups rm"
  "rm_upstreams (snd (SetDNSNodePriority io i t rm)) = rm_upstreams rm"
  "rm_echProfiles (snd (SetDNSNodePriority io i t rm)) = rm_echProfiles rm"
  "rm_rules (snd (SetDNSNodePriority io i t rm)) = rm_rules rm"
  by (auto simp: SetDNSNodePriority_def Let_def split: option.split)

lemma profile_frames [simp]:
  "rm_siteGroups (snd (UpsertECHProfile io i p rm)) = rm_siteGroups rm"
  "rm_siteGroups (snd (DeleteECHProfile io i rm)) = rm_siteGroups rm"
  "rm_siteGroups (snd (UpdateECHProfileConfig io i c rm)) = rm_siteGroups rm"
  "rm_upstreams (snd (UpsertECHProfile io i p rm)) = rm_upstreams rm"
  "rm_upstreams (snd (DeleteECHProfile io i rm)) = rm_upstreams rm"
  "rm_upstreams (snd (UpdateECHProfileConfig io i c rm)) = rm_upstreams rm"
  "rm_dnsNodes (snd (UpsertECHProfile io i p rm)) = rm_dnsNodes rm"
  "rm_dnsNodes (snd (DeleteECHProfile io i rm)) = rm_dnsNodes rm"
  "rm_dnsNodes (snd (UpdateECHProfileConfig io i c rm)) = rm_dnsNodes rm"
  by (auto simp: edit_defs UpdateECHProfileConfig_def Let_def split: option.split)

lemma UpsertECHProfile_keys:
  "distinct (map ep_ID (rm_echProfiles rm)) \<Longrightarrow> i \<notin> ep_ID ` set (rm_echProfiles rm) \<Longrightarrow>
   distinct (map ep_ID (rm_echProfiles (snd (UpsertECHProfile io i p rm))))"
  by (auto simp: UpsertECHProfile_def Let_def updateFirst_keys list_ex_iff)

lemma UpdateECHProfileConfig_keys:
  "map ep_ID (rm_echProfiles (snd (UpdateECHProfileConfig io i c rm))) = map ep_ID (rm_echProfiles rm)"
  by (auto simp: UpdateECHProfileConfig_def Let_def updateFirst_keys split: option.split)

lemma ech_readback:
  assumes "find (\<lambda>p. ep_ID p = i) (rm_echProfiles rm) \<noteq> None" "i \<noteq> ''''" "c \<noteq> []"
  shows "GetBinaryECHConfig (snd (UpdateECHProfileConfig io i c rm)) i = c"
proof -
  obtain p where "find (\<lambda>p. ep_ID p = i) (rm_echProfiles rm) = Some p" using assms(1) by blast
  with assms(2,3) show ?thesis
    by (cases "ep_Config p = EncodeToString c")
      (simp_all add: UpdateECHProfileConfig_def GetBinaryECHConfig_def Let_def find_updateFirst)
qed

lemma ech_other:
  "j \<noteq> i \<Longrightarrow> GetBinaryECHConfig (snd (UpdateECHProfileConfig io i c rm)) j = GetBinaryECHConfig rm j"
  by (auto simp: UpdateECHProfileConfig_def GetBinaryECHConfig_def Let_def find_updateFirst split: option.split)

text \<open>Moving a node keeps the multiset of nodes.\<close>

lemma indexOf_Some: "indexOf key k xs = Some i \<Longrightarrow> i < length xs \<and> key (xs ! i) = k"
  by (induction xs arbitrary: i) (auto split: if_splits)

lemma indexOf_None: "indexOf key k xs = None \<longleftrightarrow> k \<notin> key ` set xs"
  by (induction xs) auto

lemma mset_moveTo:
  assumes "i < length xs"
  shows "mset (moveTo i t xs) = mset xs"
proof -
  let ?rest = "take i xs @ drop (i + 1) xs"
  have "mset (moveTo i t xs) = add_mset (xs ! i) (mset (take t ?rest @ drop t ?rest))"
    by (simp add: moveTo_def Let_def del: append_take_drop_id)
  also have "\<dots> = mset (take i xs @ xs ! i # drop (Suc i) xs)"
    unfolding append_take_drop_id by simp
  finally show ?thesis using id_take_nth_drop [OF assms] by simp
qed

lemma SetDNSNodePriority_mset: "mset (rm_dnsNodes (snd (SetDNSNodePriority io i t rm))) = mset (rm_dnsNodes rm)"
  by (auto simp: SetDNSNodePriority_def Let_def mset_moveTo dest!: indexOf_Some split: option.split)

lemma SetDNSNodePriority_keys:
  "distinct (map dn_ID (rm_dnsNodes (snd (SetDNSNodePriority io i t rm)))) \<longleftrightarrow> distinct (map dn_ID (rm_dnsNodes rm))"
  by (metis SetDNSNodePriority_mset mset_eq_imp_distinct_iff mset_map)

lemma applyEdit_distinct:
  assumes "idsDistinct rm" "freshFor rm e"
  shows "idsDistinct (snd (applyEdit io e rm))"
proof -
  have d: "distinct (map sg_ID (rm_siteGroups rm))" "distinct (map up_ID (rm_upstreams rm))"
    "distinct (map dn_ID (rm_dnsNodes rm))" "distinct (map ep_ID (rm_echProfiles rm))"
    using assms(1) by (auto simp: idsDistinct_def)
  then show ?thesis using assms(2)
    by (cases e) (auto simp: idsDistinct_def updateFirst_keys removeFirst_distinct distinct_map_filter
      UpsertECHProfile_keys UpdateECHProfileConfig_keys SetDNSNodePriority_keys DeleteECHProfile_def
      simp del: distinct_map)
qed

text \<open>IDs stay unique: from a state in which the site groups, upstreams, DNS nodes and ECH profiles
  have distinct IDs, every sequence of edits (with failing and succeeding writes in any order, and
  time stamps that are new in their list) leads to such a state again.\<close>

theorem edits_keep_ids_distinct:
  assumes "edits rm0 rm" "idsDistinct rm0"
  shows "idsDistinct rm"
  using assms by (induction rule: edits.induct) (simp_all add: applyEdit_distinct)

text \<open>Which edits compile the rules anew.\<close>

fun rebuilds :: "ruleEdit \<Rightarrow> bool" where
  "rebuilds (EditAddSiteGroup _ _) = True"
| "rebuilds (EditUpdateSiteGroup _) = True"
| "rebuilds (EditDeleteSiteGroup _) = True"
| "rebuilds _ = False"

lemma applyEdit_rules:
  "rm_rules (snd (applyEdit io e rm)) =
     (let rm' = snd (applyEdit io e rm) in
      if rebuilds e then compileRules (rm_siteGroups rm') (rm_upstreams rm') (rm_echProfiles rm')
      else rm_rules rm)"
  by (cases e) (auto simp: edit_defs UpdateECHProfileConfig_def Let_def split: option.split)

lemma applyEdit_siteGroups: "\<not> rebuilds e \<Longrightarrow> rm_siteGroups (snd (applyEdit io e rm)) = rm_siteGroups rm"
  by (cases e) auto

definition exampleGroup :: siteGroup where
  "exampleGroup = \<lparr>sg_ID = ''1'', sg_Name = ''Example'', sg_Website = ''example'',
     sg_Domains = [''example.org''], sg_Mode = ''mitm'', sg_Upstream = ''7'', sg_Upstreams = [],
     sg_DNSMode = '''', sg_SniFake = '''', sg_ConnectPolicy = '''', sg_SniPolicy = '''', sg_Enabled = True,
     sg_ECHEnabled = False, sg_ECHProfileID = '''', sg_ECHDomain = '''', sg_UseCFPool = False,
     sg_CertVerify = zeroCertVerify\<rparr>"

definition exampleUpstream :: upstream where
  "exampleUpstream = \<lparr>up_ID = ''7'', up_Name = ''front'', up_Address = ''192.0.2.1:443'', up_Enabled = True\<rparr>"

definition exampleManager :: ruleManager where
  "exampleManager = buildRules ((NewRuleManager Missing Missing None)
     \<lparr>rm_siteGroups := [exampleGroup], rm_upstreams := [exampleUpstream]\<rparr>)"

text \<open>An edit of a site group leaves the manager with exactly the rules compiled from its new
  state; every other edit leaves the rules as they were. So an upstream that a site group refers to
  can be given a new address without any rule following: the rules of the example manager still dial
  the old address after \<open>UpdateUpstream\<close>.\<close>

theorem only_site_group_edits_rebuild_rules:
  "(\<forall>io e rm. let rm' = snd (applyEdit io e rm) in
      rm_rules rm' = (if rebuilds e then compileRules (rm_siteGroups rm') (rm_upstreams rm') (rm_echProfiles rm')
                      else rm_rules rm)) \<and>
   (let rm' = snd (UpdateUpstream None (exampleUpstream\<lparr>up_Address := ''198.51.100.9:443''\<rparr>) exampleManager) in
      map r_Upstream (rm_rules rm') = [''192.0.2.1:443''] \<and>
      map r_Upstream (compileRules (rm_siteGroups rm') (rm_upstreams rm') (rm_echProfiles rm')) = [''198.51.100.9:443''])"
proof (intro conjI allI)
  fix io e rm
  show "let rm' = snd (applyEdit io e rm) in
      rm_rules rm' = (if rebuilds e then compileRules (rm_siteGroups rm') (rm_upstreams rm') (rm_echProfiles rm')
                      else rm_rules rm)"
    using applyEdit_rules [of io e rm] by (simp add: Let_def)
next
  show "let rm' = snd (UpdateUpstream None (exampleUpstream\<lparr>up_Address := ''198.51.100.9:443''\<rparr>) exampleManager) in
      map r_Upstream (rm_rules rm') = [''192.0.2.1:443''] \<and>
      map r_Upstream (compileRules (rm_siteGroups rm') (rm_upstreams rm') (rm_echProfiles rm')) = [''198.51.100.9:443'']"
    by code_simp
qed

text \<open>What a rule takes from its site group, whatever the upstreams and profiles are.\<close>

definition fromGroup :: "siteGroup \<Rightarrow> rule \<Rightarrow> bool" where
  "fromGroup sg r \<longleftrightarrow> sg_Enabled sg \<and> r_Domain r \<in> set (sg_Domains sg) \<and> r_SiteID r = sg_ID sg \<and>
     r_Enabled r \<and> r_Mode r = sg_Mode sg \<and> r_SniFake r = sg_SniFake sg \<and>
     r_SniPolicy r = TrimSpace (sg_SniPolicy sg) \<and> r_ConnectPolicy r = TrimSpace (sg_ConnectPolicy sg) \<and>
     r_DNSMode r = normalizeDNSMode (sg_DNSMode sg) \<and> r_ECHEnabled r = sg_ECHEnabled sg \<and>
     r_ECHProfileID r = sg_ECHProfileID sg \<and> r_UseCFPool r = sg_UseCFPool sg \<and>
     r_CertVerify r = sg_CertVerify sg \<and> \<not> r_AutoRouted r \<and> r_FallbackMode r = ''''"

lemma groupRule_fromGroup: "sg_Enabled sg \<Longrightarrow> d \<in> set (sg_Domains sg) \<Longrightarrow> fromGroup sg (groupRule ups ps sg d)"
  by (simp add: fromGroup_def groupRule_def Let_def zeroRule_def)

lemma compileRules_domains:
  "map r_Domain (compileRules sgs ups ps) = concat (map sg_Domains (filter sg_Enabled sgs))"
  by (induction sgs) (simp_all add: compileRules_def groupRule_def Let_def comp_def)

lemma compileRules_fromGroup:
  "r \<in> set (compileRules sgs ups ps) \<Longrightarrow> \<exists>sg \<in> set sgs. fromGroup sg r"
  by (auto simp: compileRules_def intro: groupRule_fromGroup)

lemma edits_rules_shape:
  assumes "edits rm0 rm" "rm_rules rm0 = compileRules (rm_siteGroups rm0) (rm_upstreams rm0) (rm_echProfiles rm0)"
  shows "\<exists>ups ps. rm_rules rm = compileRules (rm_siteGroups rm) ups ps"
  using assms
proof (induction rule: edits.induct)
  case (step rm e io)
  then show ?case using applyEdit_rules [of io e rm] applyEdit_siteGroups [of e io rm]
    by (cases "rebuilds e") (auto simp: Let_def)
qed blast

text \<open>C12. After any sequence of edits on a freshly compiled manager, the rules are in step with the
  site groups: their domains are the domains of the enabled groups in order, and every rule carries
  the mode, SNI, DNS, ECH and certificate settings of a present, enabled group.\<close>

theorem rules_track_site_groups:
  assumes "edits rm0 rm"
    and "rm_rules rm0 = compileRules (rm_siteGroups rm0) (rm_upstreams rm0) (rm_echProfiles rm0)"
  shows "map r_Domain (rm_rules rm) = concat (map sg_Domains (filter sg_Enabled (rm_siteGroups rm)))
    \<and> (\<forall>r \<in> set (rm_rules rm). \<exists>sg \<in> set (rm_siteGroups rm). fromGroup sg r)"
  using edits_rules_shape [OF assms] compileRules_domains compileRules_fromGroup by auto

theorem edits_keep_ids_distinct_witness:
  "idsDistinct (snd (AddSiteGroup (Some ''disk full'') ''2'' exampleGroup
     (snd (DeleteUpstream None ''7'' exampleManager))))"
proof -
  have "edits exampleManager (snd (applyEdit None (EditDeleteUpstream ''7'') exampleManager))"
    by (intro edits.intros) simp
  then have "edits exampleManager (snd (applyEdit (Some ''disk full'') (EditAddSiteGroup ''2'' exampleGroup)
      (snd (applyEdit None (EditDeleteUpstream ''7'') exampleManager))))"
    by (rule edits.step) (simp add: exampleManager_def exampleGroup_def)
  moreover have "idsDistinct exampleManager" by code_simp
  ultimately show ?thesis using edits_keep_ids_distinct by fastforce
qed

theorem rules_track_site_groups_witness:
  "map r_Domain (rm_rules (snd (UpdateSiteGroup None (exampleGroup\<lparr>sg_Domains := [''a.org'', ''b.org'']\<rparr>) exampleManager)))
     = [''a.org'', ''b.org'']"
proof -
  let ?rm = "snd (UpdateSiteGroup None (exampleGroup\<lparr>sg_Domains := [''a.org'', ''b.org'']\<rparr>) exampleManager)"
  have "edits exampleManager (snd (applyEdit None (EditUpdateSiteGroup
      (exampleGroup\<lparr>sg_Domains := [''a.org'', ''b.org'']\<rparr>)) exampleManager))"
    by (intro edits.intros) simp
  moreover have "rm_rules exampleManager = compileRules (rm_siteGroups exampleManager)
      (rm_upstreams exampleManager) (rm_echProfiles exampleManager)"
    by (simp add: exampleManager_def)
  ultimately have "map r_Domain (rm_rules ?rm) = concat (map sg_Domains (filter sg_Enabled (rm_siteGroups ?rm)))"
    using rules_track_site_groups by fastforce
  also have "\<dots> = [''a.org'', ''b.org'']" by (simp add: exampleManager_def exampleGroup_def)
  finally show ?thesis .
qed

section \<open>The stores as finite maps\<close>

definition siteOf :: "ruleManager \<Rightarrow> string \<Rightarrow> siteGroup option" where
  "siteOf rm k = find (\<lambda>x. sg_ID x = k) (rm_siteGroups rm)"

definition upstreamOf :: "ruleManager \<Rightarrow> string \<Rightarrow> upstream option" where
  "upstreamOf rm k = find (\<lambda>x. up_ID x = k) (rm_upstreams rm)"

definition nodeOf :: "ruleManager \<Rightarrow> string \<Rightarrow> dnsNode option" where
  "nodeOf rm k = find (\<lambda>x. dn_ID x = k) (rm_dnsNodes rm)"

lemma lookups: "siteOf = sites.lookup" "upstreamOf = ups.lookup" "nodeOf = nodes.lookup"
  by (auto simp: fun_eq_iff siteOf_def upstreamOf_def nodeOf_def sites.lookup_def ups.lookup_def nodes.lookup_def)

lemma site_map:
  assumes "distinct (map sg_ID (rm_siteGroups rm))"
  shows "siteOf rm i = None \<Longrightarrow> siteOf (snd (AddSiteGroup io i sg rm)) =
           (siteOf rm)(i \<mapsto> sg\<lparr>sg_ID := i, sg_Website := TrimSpace (sg_Website sg)\<rparr>)"
    and "siteOf (snd (UpdateSiteGroup io sg rm)) = (siteOf rm)(sg_ID sg :=
           map_option (\<lambda>_. sg\<lparr>sg_Website := TrimSpace (sg_Website sg)\<rparr>) (siteOf rm (sg_ID sg)))"
    and "siteOf (snd (DeleteSiteGroup io k rm)) = (siteOf rm)(k := None)"
  unfolding lookups fun_eq_iff
  by (auto simp: sites.lookup_add sites.lookup_upd sites.lookup_del [OF assms] sites.lookup_None)

lemma upstream_map:
  assumes "distinct (map up_ID (rm_upstreams rm))"
  shows "upstreamOf rm i = None \<Longrightarrow> upstreamOf (snd (AddUpstream io i u rm)) = (upstreamOf rm)(i \<mapsto> u\<lparr>up_ID := i\<rparr>)"
    and "upstreamOf (snd (UpdateUpstream io u rm)) =
           (upstreamOf rm)(up_ID u := map_option (\<lambda>_. u) (upstreamOf rm (up_ID u)))"
    and "upstreamOf (snd (DeleteUpstream io k rm)) = (upstreamOf rm)(k := None)"
  unfolding lookups fun_eq_iff
  by (auto simp: ups.lookup_add ups.lookup_upd ups.lookup_del [OF assms] ups.lookup_None)

lemma node_map:
  assumes "distinct (map dn_ID (rm_dnsNodes rm))"
  shows "nodeOf rm i = None \<Longrightarrow> nodeOf (snd (AddDNSNode io i n rm)) = (nodeOf rm)(i \<mapsto> n\<lparr>dn_ID := i\<rparr>)"
    and "nodeOf (snd (UpdateDNSNode io n rm)) = (nodeOf rm)(dn_ID n := map_option (\<lambda>_. n) (nodeOf rm (dn_ID n)))"
    and "nodeOf (snd (DeleteDNSNode io k rm)) = (nodeOf rm)(k := None)"
  unfolding lookups fun_eq_iff
  by (auto simp: nodes.lookup_add nodes.lookup_upd nodes.lookup_del [OF assms] nodes.lookup_None)

text \<open>C22. Site groups, upstreams and DNS nodes behave as finite maps from IDs to items: adding under
  a new ID extends the map, updating changes the item of that ID if there is one and nothing else,
  deleting removes exactly that ID.\<close>

theorem stores_are_maps:
  assumes "idsDistinct rm" "siteOf rm i = None" "upstreamOf rm i = None" "nodeOf rm i = None"
  shows "siteOf (snd (AddSiteGroup io i sg rm)) =
           (siteOf rm)(i \<mapsto> sg\<lparr>sg_ID := i, sg_Website := TrimSpace (sg_Website sg)\<rparr>) \<and>
    siteOf (snd (UpdateSiteGroup io sg rm)) = (siteOf rm)(sg_ID sg :=
           map_option (\<lambda>_. sg\<lparr>sg_Website := TrimSpace (sg_Website sg)\<rparr>) (siteOf rm (sg_ID sg))) \<and>
    siteOf (snd (DeleteSiteGroup io k rm)) = (siteOf rm)(k := None) \<and>
    upstreamOf (snd (AddUpstream io i u rm)) = (upstreamOf rm)(i \<mapsto> u\<lparr>up_ID := i\<rparr>) \<and>
    upstreamOf (snd (UpdateUpstream io u rm)) =
           (upstreamOf rm)(up_ID u := map_option (\<lambda>_. u) (upstreamOf rm (up_ID u))) \<and>
    upstreamOf (snd (DeleteUpstream io k rm)) = (upstreamOf rm)(k := None) \<and>
    nodeOf (snd (AddDNSNode io i n rm)) = (nodeOf rm)(i \<mapsto> n\<lparr>dn_ID := i\<rparr>) \<and>
    nodeOf (snd (UpdateDNSNode io n rm)) = (nodeOf rm)(dn_ID n := map_option (\<lambda>_. n) (nodeOf rm (dn_ID n))) \<and>
    nodeOf (snd (DeleteDNSNode io k rm)) = (nodeOf rm)(k := None)"
proof -
  have "distinct (map sg_ID (rm_siteGroups rm))" "distinct (map up_ID (rm_upstreams rm))"
    "distinct (map dn_ID (rm_dnsNodes rm))" using assms(1) by (simp_all add: idsDistinct_def)
  with assms(2-4) show ?thesis by (intro conjI site_map upstream_map node_map)
qed

theorem stores_are_maps_witness:
  "upstreamOf (snd (DeleteUpstream None ''7'' exampleManager)) = Map.empty"
proof -
  have "idsDistinct exampleManager" by code_simp
  moreover have "siteOf exampleManager ''9'' = None" "upstreamOf exampleManager ''9'' = None"
    "nodeOf exampleManager ''9'' = None" by code_simp+
  ultimately have "upstreamOf (snd (DeleteUpstream None ''7'' exampleManager)) = (upstreamOf exampleManager)(''7'' := None)"
    using stores_are_maps [of exampleManager "''9''" None exampleGroup "''7''" exampleUpstream] by blast
  then show ?thesis
    by (auto simp: fun_eq_iff upstreamOf_def exampleManager_def exampleUpstream_def NewRuleManager_def)
qed

section \<open>Order of the DNS nodes\<close>

lemma indexOf_first: "indexOf key k xs = Some i \<Longrightarrow> j < i \<Longrightarrow> key (xs ! j) \<noteq> k"
proof (induction xs arbitrary: i j)
  case (Cons x xs)
  then show ?case by (cases j) (auto split: if_splits)
qed simp

lemma moveTo_nth: "i < length xs \<Longrightarrow> t < length xs \<Longrightarrow> moveTo i t xs ! t = xs ! i"
  by (simp add: moveTo_def Let_def nth_append min_def)

lemma filter_take_drop: "filter P (take t ys) @ filter P (drop t ys) = filter P ys"
  by (metis append_take_drop_id filter_append)

lemma filter_moveTo:
  assumes "i < length xs" "\<not> P (xs ! i)"
  shows "filter P (moveTo i t xs) = filter P xs"
proof -
  have "filter P (moveTo i t xs) = filter P (take i xs @ drop (Suc i) xs)"
    using assms(2) filter_take_drop [of P t "take i xs @ drop (Suc i) xs"]
    by (simp add: moveTo_def Let_def del: take_append drop_append filter_append) simp
  also have "\<dots> = filter P (take i xs @ xs ! i # drop (Suc i) xs)" using assms(2) by simp
  finally show ?thesis using id_take_nth_drop [OF assms(1)] by simp
qed

definition clampIndex :: "nat \<Rightarrow> int \<Rightarrow> nat" where
  "clampIndex n t = (if t < 0 then 0 else min (nat t) (n - 1))"

text \<open>\<open>SetDNSNodePriority\<close> reports an unknown ID and changes nothing; otherwise the list it leaves
  is a permutation of the old one with the node at the target position, clamped into the list, and
  the other nodes in their old order.\<close>

theorem SetDNSNodePriority_moves:
  "case nodeOf rm i of
      None \<Rightarrow> SetDNSNodePriority io i t rm = (Some (''dns node '' @ i @ '' not found''), rm)
    | Some node \<Rightarrow>
        (let ns = rm_dnsNodes rm; ns' = rm_dnsNodes (snd (SetDNSNodePriority io i t rm)) in
          mset ns' = mset ns \<and> ns' ! clampIndex (length ns) t = node \<and>
          filter (\<lambda>n. dn_ID n \<noteq> i) ns' = filter (\<lambda>n. dn_ID n \<noteq> i) ns)"
proof (cases "nodeOf rm i")
  case None
  then have "indexOf dn_ID i (rm_dnsNodes rm) = None" by (simp add: indexOf_None lookups nodes.lookup_None)
  with None show ?thesis by (simp add: SetDNSNodePriority_def)
next
  case (Some node)
  let ?ns = "rm_dnsNodes rm" let ?t = "clampIndex (length ?ns) t"
  from Some have "indexOf dn_ID i ?ns \<noteq> None"
    unfolding indexOf_None nodeOf_def by (auto simp: find_Some_iff intro: rev_image_eqI)
  then obtain s where s: "indexOf dn_ID i ?ns = Some s" by blast
  note s' = indexOf_Some [OF s]
  have node: "?ns ! s = node"
    using Some s' indexOf_first [OF s] by (auto simp: nodeOf_def find_Some_iff) (metis linorder_neqE_nat)
  have res: "rm_dnsNodes (snd (SetDNSNodePriority io i t rm)) = (if s = ?t then ?ns else moveTo s ?t ?ns)"
    using s' by (auto simp: SetDNSNodePriority_def s Let_def clampIndex_def min_def)
  have "?t < length ?ns" using s' by (auto simp: clampIndex_def)
  then have "rm_dnsNodes (snd (SetDNSNodePriority io i t rm)) ! ?t = node"
    unfolding res using s' node moveTo_nth [of s ?ns] by auto
  moreover have "filter (\<lambda>n. dn_ID n \<noteq> i) (rm_dnsNodes (snd (SetDNSNodePriority io i t rm)))
      = filter (\<lambda>n. dn_ID n \<noteq> i) ?ns"
    unfolding res using s' filter_moveTo [of s ?ns "\<lambda>n. dn_ID n \<noteq> i"] by simp
  ultimately show ?thesis using Some by (simp add: Let_def SetDNSNodePriority_mset)
qed

end
