(* ===== verification/Rule_Restart.thy ===== *)
theory Rule_Restart
  imports Rule_Manager_Correct
begin

text \<open>
  What loading establishes and what survives a restart: the clean-up and the migrations of
  \<open>LoadConfig\<close>, the round trip of the two configuration files, ECH configurations stored as base64,
  and the cached GFW list.
\<close>

section \<open>ECH configurations\<close>

text \<open>\<open>UpdateECHProfileConfig\<close> followed by \<open>GetBinaryECHConfig\<close> returns the very bytes that were
  stored, and the binary configuration of every other profile is as before; an unknown profile is
  reported and nothing changes.\<close>

theorem ech_config_roundtrip:
  assumes "i \<noteq> ''''" "c \<noteq> []"
  shows "case find (\<lambda>p. ep_ID p = i) (rm_echProfiles rm) of
      None \<Rightarrow> UpdateECHProfileConfig io i c rm = (Some (''profile '' @ i @ '' not found''), rm)
    | Some _ \<Rightarrow> (let rm' = snd (UpdateECHProfileConfig io i c rm) in
        GetBinaryECHConfig rm' i = c \<and> (\<forall>j. j \<noteq> i \<longrightarrow> GetBinaryECHConfig rm' j = GetBinaryECHConfig rm j))"
  using assms ech_readback [of i rm c io] ech_other [of _ i io c rm]
  by (auto simp: UpdateECHProfileConfig_def Let_def split: option.split)

theorem ech_config_roundtrip_witness:
  "let rm = exampleManager\<lparr>rm_echProfiles := [zeroECHProfile\<lparr>ep_ID := ''p''\<rparr>]\<rparr>
   in GetBinaryECHConfig (snd (UpdateECHProfileConfig None ''p'' [0xFE, 0x0D, 0x00, 0x41] rm)) ''p'' = [0xFE, 0x0D, 0x00, 0x41]"
  using ech_config_roundtrip [of "''p''" "[0xFE, 0x0D, 0x00, 0x41]" None
      "exampleManager\<lparr>rm_echProfiles := [zeroECHProfile\<lparr>ep_ID := ''p''\<rparr>]\<rparr>"]
  by (simp add: Let_def)

section \<open>Migrations\<close>

definition legacyGroup :: "siteGroup \<Rightarrow> bool" where
  "legacyGroup sg \<longleftrightarrow> sg_ECHEnabled sg \<and> sg_ECHProfileID sg = '''' \<and>
     EqualFold (sg_ECHDomain sg) ''crypto.cloudflare.com''"

lemma normalizeECHProfile_idem [simp]: "normalizeECHProfile (normalizeECHProfile p) = normalizeECHProfile p"
  by (simp add: normalizeECHProfile_def)

lemma trim_constants [simp]:
  "TrimSpace ''Legacy Cloudflare'' = ''Legacy Cloudflare''"
  "TrimSpace ''crypto.cloudflare.com'' = ''crypto.cloudflare.com''"
  "TrimSpace legacyID = legacyID"
  by code_simp+

lemma legacyID_nonempty [simp]: "legacyID \<noteq> ''''"
  by (simp add: legacyID_def)

lemma fillLegacy_normal [simp]: "normalizeECHProfile (fillLegacy p) = fillLegacy p"
  by (simp add: fillLegacy_def Let_def normalizeECHProfile_def)

lemma fillLegacy_ID [simp]: "ep_ID (fillLegacy p) = TrimSpace (ep_ID p)"
  by (simp add: fillLegacy_def Let_def normalizeECHProfile_def)

lemma set_updateFirst: "x \<in> set (updateFirst key k f xs) \<Longrightarrow> x \<in> set xs \<or> (\<exists>y \<in> set xs. x = f y)"
  by (induction xs) (auto split: if_splits)

lemma normal_default:
  "normalizeECHProfile (zeroECHProfile\<lparr>ep_ID := legacyID, ep_Name := ''Legacy Cloudflare'',
     ep_DiscoveryDomain := ''crypto.cloudflare.com'', ep_AutoUpdate := True\<rparr>) =
   zeroECHProfile\<lparr>ep_ID := legacyID, ep_Name := ''Legacy Cloudflare'',
     ep_DiscoveryDomain := ''crypto.cloudflare.com'', ep_AutoUpdate := True\<rparr>"
  by (simp add: normalizeECHProfile_def zeroECHProfile_def)

lemma ensureLegacy:
  assumes "ensureLegacyCloudflareProfile ps = (i, ps')"
  shows "i = legacyID" "legacyID \<in> ep_ID ` set ps'"
    "(\<And>p. p \<in> set ps \<Longrightarrow> normalizeECHProfile p = p) \<Longrightarrow> p \<in> set ps' \<Longrightarrow> normalizeECHProfile p = p"
    "ep_ID ` set ps \<subseteq> ep_ID ` set ps'"
proof -
  have "map ep_ID (updateFirst ep_ID legacyID fillLegacy ps) = map ep_ID ps"
    by (rule updateFirst_keys) simp
  then have keys: "ep_ID ` set (updateFirst ep_ID legacyID fillLegacy ps) = ep_ID ` set ps"
    by (metis set_map)
  have found: "findECHProfileByID ps legacyID = Some p \<Longrightarrow> ep_ID p = legacyID \<and> legacyID \<in> ep_ID ` set ps" for p
    by (auto simp: findECHProfileByID_def Let_def find_Some_iff intro!: image_eqI [OF sym])
  show "i = legacyID" "legacyID \<in> ep_ID ` set ps'" "ep_ID ` set ps \<subseteq> ep_ID ` set ps'"
    using assms keys found by (auto simp: ensureLegacyCloudflareProfile_def split: option.splits)
  show "(\<And>p. p \<in> set ps \<Longrightarrow> normalizeECHProfile p = p) \<Longrightarrow> p \<in> set ps' \<Longrightarrow> normalizeECHProfile p = p"
    using assms set_updateFirst [of p ep_ID legacyID fillLegacy ps]
    by (auto simp: ensureLegacyCloudflareProfile_def normal_default split: option.splits)
qed

text \<open>The loop over the groups: every group keeps its place and all fields but the two ECH ones, no
  group is left in the legacy form, and the profiles stay normalised.\<close>

definition migratedFrom :: "siteGroup \<Rightarrow> siteGroup \<Rightarrow> bool" where
  "migratedFrom sg sg' \<longleftrightarrow> \<not> legacyGroup sg' \<and>
     sg' = sg\<lparr>sg_ECHProfileID := sg_ECHProfileID sg', sg_ECHDomain := sg_ECHDomain sg'\<rparr> \<and>
     sg_ECHProfileID sg' \<in> {TrimSpace (sg_ECHProfileID sg), legacyID} \<and>
     TrimSpace (sg_ECHDomain sg') = sg_ECHDomain sg'"

definition trimECH :: "siteGroup \<Rightarrow> siteGroup" where
  "trimECH sg = sg\<lparr>sg_ECHProfileID := TrimSpace (sg_ECHProfileID sg), sg_ECHDomain := TrimSpace (sg_ECHDomain sg)\<rparr>"

lemma migrate_step:
  "migrateLegacyECHRules (sg # sgs) ps =
     (if legacyGroup (trimECH sg)
      then (let (i, ps1) = ensureLegacyCloudflareProfile ps; (sgs', ps', _) = migrateLegacyECHRules sgs ps1
            in ((trimECH sg)\<lparr>sg_ECHProfileID := i, sg_ECHDomain := ''''\<rparr> # sgs', ps', True))
      else (let (sgs', ps', m) = migrateLegacyECHRules sgs ps in (trimECH sg # sgs', ps', m)))"
  unfolding migrateLegacyECHRules.simps(2) legacyGroup_def trimECH_def Let_def by (rule refl)

declare migrateLegacyECHRules.simps(2) [simp del]

lemma migratedFrom_legacy: "migratedFrom sg ((trimECH sg)\<lparr>sg_ECHProfileID := legacyID, sg_ECHDomain := ''''\<rparr>)"
  by (simp add: migratedFrom_def legacyGroup_def trimECH_def)

lemma migratedFrom_trim: "\<not> legacyGroup (trimECH sg) \<Longrightarrow> migratedFrom sg (trimECH sg)"
  by (simp add: migratedFrom_def trimECH_def)

lemma migrateLegacy:
  assumes "migrateLegacyECHRules sgs ps = (sgs', ps', m)"
    and "\<forall>p \<in> set ps. normalizeECHProfile p = p"
  shows "(\<forall>p \<in> set ps'. normalizeECHProfile p = p) \<and> ep_ID ` set ps \<subseteq> ep_ID ` set ps' \<and>
    (m \<longrightarrow> legacyID \<in> ep_ID ` set ps') \<and> list_all2 migratedFrom sgs sgs'"
  using assms
proof (induction sgs arbitrary: ps sgs' ps' m)
  case (Cons sg sgs)
  show ?case
  proof (cases "legacyGroup (trimECH sg)")
    case True
    obtain i ps1 where e: "ensureLegacyCloudflareProfile ps = (i, ps1)" by fastforce
    obtain sgs2 ps2 m2 where r: "migrateLegacyECHRules sgs ps1 = (sgs2, ps2, m2)" by (metis surj_pair)
    note en = ensureLegacy [OF e]
    have "\<forall>p \<in> set ps1. normalizeECHProfile p = p" using en(3) Cons.prems(2) by blast
    note IH = Cons.IH [OF r this]
    have res: "sgs' = (trimECH sg)\<lparr>sg_ECHProfileID := legacyID, sg_ECHDomain := ''''\<rparr> # sgs2" "ps' = ps2"
      using Cons.prems(1) True e r en(1) by (simp_all add: migrate_step)
    show ?thesis unfolding res list_all2_Cons using IH en(2,4) migratedFrom_legacy [of sg] by blast
  next
    case False
    obtain sgs2 ps2 m2 where r: "migrateLegacyECHRules sgs ps = (sgs2, ps2, m2)" by (metis surj_pair)
    have res: "sgs' = trimECH sg # sgs2" "ps' = ps2" "m = m2"
      using Cons.prems(1) False r by (simp_all add: migrate_step)
    show ?thesis unfolding res list_all2_Cons
      using Cons.IH [OF r Cons.prems(2)] migratedFrom_trim [OF False] by blast
  qed
qed simp

lemma migrate_fixpoint:
  "\<forall>sg \<in> set sgs. \<not> legacyGroup sg \<and> trimECH sg = sg \<Longrightarrow> migrateLegacyECHRules sgs ps = (sgs, ps, False)"
  by (induction sgs) (simp_all add: migrate_step)

section \<open>Loading\<close>

definition wellLoaded :: "ruleManager \<Rightarrow> bool" where
  "wellLoaded rm \<longleftrightarrow>
     rm_rules rm = compileRules (rm_siteGroups rm) (rm_upstreams rm) (rm_echProfiles rm) \<and>
     rm_listenPort rm \<noteq> '''' \<and> 0 < tun_MTU (rm_tunConfig rm) \<and>
     (\<forall>p \<in> set (rm_echProfiles rm). normalizeECHProfile p = p) \<and>
     (\<forall>sg \<in> set (rm_siteGroups rm). normalizeDNSMode (sg_DNSMode sg) = sg_DNSMode sg \<and>
        \<not> legacyGroup sg \<and> trimECH sg = sg)"

lemma applySettingsDefaults_ok:
  "rm_listenPort (applySettingsDefaults rm) \<noteq> ''''" "0 < tun_MTU (rm_tunConfig (applySettingsDefaults rm))"
  by (simp_all add: applySettingsDefaults_def normalizeTUNConfig_def GOOS_def Let_def)

lemma migratedFrom_facts:
  "migratedFrom sg sg' \<Longrightarrow> sg_DNSMode sg' = sg_DNSMode sg \<and> \<not> legacyGroup sg' \<and> trimECH sg' = sg'"
proof -
  assume m: "migratedFrom sg sg'"
  then have "sg_DNSMode sg' = sg_DNSMode (sg\<lparr>sg_ECHProfileID := sg_ECHProfileID sg', sg_ECHDomain := sg_ECHDomain sg'\<rparr>)"
    unfolding migratedFrom_def by (elim conjE arg_cong)
  moreover have "TrimSpace (sg_ECHProfileID sg') = sg_ECHProfileID sg'" "TrimSpace (sg_ECHDomain sg') = sg_ECHDomain sg'"
    "\<not> legacyGroup sg'" using m by (auto simp: migratedFrom_def)
  ultimately show ?thesis by (simp add: trimECH_def)
qed

lemma saveRulesConfig_settings [simp]:
  "rm_listenPort (snd (saveRulesConfig io rm)) = rm_listenPort rm"
  "rm_tunConfig (snd (saveRulesConfig io rm)) = rm_tunConfig rm"
  by (simp_all add: saveRulesConfig_def split: option.splits)

lemma wellLoaded_save [simp]: "wellLoaded (snd (saveRulesConfig io rm)) = wellLoaded rm"
  by (simp add: wellLoaded_def)

lemma list_all2_right: "list_all2 R xs ys \<Longrightarrow> y \<in> set ys \<Longrightarrow> \<exists>x \<in> set xs. R x y"
  by (induction rule: list_all2_induct) auto

lemma fillWebsite_DNSMode: "sg_DNSMode (fst (fillWebsite sg)) = sg_DNSMode sg"
  by (simp add: fillWebsite_def Let_def)

lemma finishLoad_eq:
  "finishLoad io rm =
     (let sgs = map (\<lambda>sg. sg\<lparr>sg_DNSMode := normalizeDNSMode (sg_DNSMode sg)\<rparr>) (rm_siteGroups rm);
          filled = map fillWebsite sgs;
          (sgs', profiles', m) = migrateLegacyECHRules (map fst filled) (map normalizeECHProfile (rm_echProfiles rm));
          rm2 = buildRules ((applySettingsDefaults rm)\<lparr>rm_siteGroups := sgs', rm_echProfiles := profiles'\<rparr>)
      in (None, if list_ex snd filled \<or> m then snd (saveRulesConfig io rm2) else rm2))"
  unfolding finishLoad_def migrateGroups_def Let_def by (simp split: prod.split)

lemma finishLoad_wellLoaded:
  assumes "finishLoad io rm = (err, rm')"
  shows "err = None \<and> wellLoaded rm'"
proof -
  define sgs where "sgs = map (\<lambda>sg. sg\<lparr>sg_DNSMode := normalizeDNSMode (sg_DNSMode sg)\<rparr>) (rm_siteGroups rm)"
  define filled where "filled = map fillWebsite sgs"
  define ps where "ps = map normalizeECHProfile (rm_echProfiles rm)"
  obtain sgs' ps' m where r: "migrateLegacyECHRules (map fst filled) ps = (sgs', ps', m)" by (metis surj_pair)
  define rm2 where "rm2 = buildRules ((applySettingsDefaults rm)\<lparr>rm_siteGroups := sgs', rm_echProfiles := ps'\<rparr>)"
  have "\<forall>p \<in> set ps. normalizeECHProfile p = p" by (auto simp: ps_def)
  then have mig: "\<forall>p \<in> set ps'. normalizeECHProfile p = p" "list_all2 migratedFrom (map fst filled) sgs'"
    using migrateLegacy [OF r] by blast+
  have dns: "normalizeDNSMode (sg_DNSMode sg) = sg_DNSMode sg" if "sg \<in> set (map fst filled)" for sg
    using that by (auto simp: filled_def sgs_def fillWebsite_DNSMode)
  have "normalizeDNSMode (sg_DNSMode sg) = sg_DNSMode sg \<and> \<not> legacyGroup sg \<and> trimECH sg = sg"
    if "sg \<in> set sgs'" for sg
    using list_all2_right [OF mig(2) that] migratedFrom_facts dns by metis
  then have "wellLoaded rm2" using mig(1) applySettingsDefaults_ok [of rm]
    by (simp add: rm2_def wellLoaded_def buildRules_def)
  moreover have "finishLoad io rm = (None, if list_ex snd filled \<or> m then snd (saveRulesConfig io rm2) else rm2)"
    unfolding finishLoad_eq Let_def sgs_def [symmetric] filled_def [symmetric] ps_def [symmetric] r
    by (simp add: rm2_def)
  ultimately show ?thesis using assms by (auto split: if_splits)
qed

definition fileError :: "'c configFile \<Rightarrow> io \<Rightarrow> string option" where
  "fileError f io = (case f of Missing \<Rightarrow> io | Unreadable e \<Rightarrow> Some e | Malformed e \<Rightarrow> Some e | Holds _ \<Rightarrow> None)"

lemma saveSettingsConfig_simps [simp]:
  "fst (saveSettingsConfig io rm) = io" "rm_rulesFile (snd (saveSettingsConfig io rm)) = rm_rulesFile rm"
  "rm_gfwCache (snd (saveSettingsConfig io rm)) = rm_gfwCache rm"
  "rm_autoRouter (snd (saveSettingsConfig io rm)) = rm_autoRouter rm"
  by (simp_all add: saveSettingsConfig_def split: option.splits)

lemma loadSettingsConfig_simps:
  "fst (loadSettingsConfig io rm) = fileError (rm_settingsFile rm) io"
  "rm_rulesFile (snd (loadSettingsConfig io rm)) = rm_rulesFile rm"
  by (auto simp: loadSettingsConfig_def fileError_def saveDefaultSettingsConfig_def applySettingsDefaults_def
    split: configFile.split)

lemma loadRulesConfig_err: "fst (loadRulesConfig io rm) = fileError (rm_rulesFile rm) io"
  by (auto simp: loadRulesConfig_def fileError_def saveDefaultRulesConfig_def split: configFile.split)

text \<open>C16. \<open>LoadConfig\<close> fails exactly when one of the files is unreadable or malformed, or is missing and
  its default cannot be written, and reports the first such error (a failing write of migrated
  groups is not reported). When it succeeds the manager is well loaded: the rules are compiled from
  the loaded groups, a listen port is set, the TUN MTU is positive, DNS modes and ECH profiles are
  normalised and no site group is left in the legacy ECH form.\<close>

theorem LoadConfig_outcome:
  "case LoadConfig io1 io2 io3 rm of
     (Some e, _) \<Rightarrow> fileError (rm_settingsFile rm) io1 = Some e \<or>
        fileError (rm_settingsFile rm) io1 = None \<and> fileError (rm_rulesFile rm) io2 = Some e
   | (None, rm') \<Rightarrow> fileError (rm_settingsFile rm) io1 = None \<and> fileError (rm_rulesFile rm) io2 = None \<and>
        wellLoaded rm'"
proof -
  obtain e1 rm1 where l1: "loadSettingsConfig io1 rm = (e1, rm1)" by fastforce
  obtain e2 rm2 where l2: "loadRulesConfig io2 rm1 = (e2, rm2)" by fastforce
  obtain e3 rm3 where l3: "finishLoad io3 rm2 = (e3, rm3)" by fastforce
  have "e1 = fileError (rm_settingsFile rm) io1" "e2 = fileError (rm_rulesFile rm) io2"
    using loadSettingsConfig_simps [of io1 rm] loadRulesConfig_err [of io2 rm1] l1 l2 by auto
  with finishLoad_wellLoaded [OF l3] l1 l2 l3 show ?thesis
    by (auto simp: LoadConfig_def split: option.splits)
qed

section \<open>Restart\<close>

definition websitesSet :: "ruleManager \<Rightarrow> bool" where
  "websitesSet rm \<longleftrightarrow> (\<forall>sg \<in> set (rm_siteGroups rm). sg_Website sg \<noteq> '''' \<and> TrimSpace (sg_Website sg) = sg_Website sg)"

lemma fillWebsite_id: "sg_Website sg \<noteq> '''' \<Longrightarrow> TrimSpace (sg_Website sg) = sg_Website sg \<Longrightarrow> fillWebsite sg = (sg, False)"
  by (simp add: fillWebsite_def)

lemma finishLoad_id:
  assumes "wellLoaded (buildRules rm)" "websitesSet rm"
  shows "finishLoad io rm = (None, buildRules rm)"
proof -
  let ?sgs = "rm_siteGroups rm"
  have w: "\<forall>sg \<in> set ?sgs. normalizeDNSMode (sg_DNSMode sg) = sg_DNSMode sg \<and> \<not> legacyGroup sg \<and> trimECH sg = sg"
    "\<forall>p \<in> set (rm_echProfiles rm). normalizeECHProfile p = p" "rm_listenPort rm \<noteq> ''''" "0 < tun_MTU (rm_tunConfig rm)"
    using assms(1) by (simp_all add: wellLoaded_def buildRules_def)
  have sgs: "map (\<lambda>sg. sg\<lparr>sg_DNSMode := normalizeDNSMode (sg_DNSMode sg)\<rparr>) ?sgs = ?sgs"
    using w(1) by (intro map_idI) simp
  have ps: "map normalizeECHProfile (rm_echProfiles rm) = rm_echProfiles rm" using w(2) by (intro map_idI) simp
  have fill: "map fillWebsite ?sgs = map (\<lambda>sg. (sg, False)) ?sgs"
    using assms(2) by (intro map_cong) (simp_all add: fillWebsite_id websitesSet_def)
  have "migrateLegacyECHRules ?sgs (rm_echProfiles rm) = (?sgs, rm_echProfiles rm, False)"
    by (rule migrate_fixpoint) (use w(1) in blast)
  moreover have "applySettingsDefaults rm = rm"
    using w(3,4) by (simp add: applySettingsDefaults_def normalizeTUNConfig_def GOOS_def)
  ultimately show ?thesis
    unfolding finishLoad_eq sgs ps fill Let_def by (simp add: comp_def list_ex_iff)
qed

text \<open>C11. A restart restores the state: when a well-loaded manager (with the ports set and a website
  on every group) is saved and a new manager loads the two files, the new one has the same site
  groups, upstreams, DNS nodes, profiles, compiled rules and settings, and the load writes nothing.
  Only the automatic router, which is built later, is absent.\<close>

theorem restart_restores_state:
  assumes "wellLoaded rm" "websitesSet rm" "rm_socks5Port rm \<noteq> ''''"
    and "SaveConfig None None rm = (None, rm1)"
  shows "LoadConfig io1 io2 io3 (NewRuleManager (rm_settingsFile rm1) (rm_rulesFile rm1) cache) =
    (None, rm\<lparr>rm_autoRouter := None, rm_settingsFile := rm_settingsFile rm1, rm_rulesFile := rm_rulesFile rm1,
       rm_gfwCache := cache, rm_saved := 0\<rparr>)"
proof -
  let ?new = "NewRuleManager (rm_settingsFile rm1) (rm_rulesFile rm1) cache"
  let ?goal = "rm\<lparr>rm_autoRouter := None, rm_settingsFile := rm_settingsFile rm1, rm_rulesFile := rm_rulesFile rm1,
       rm_gfwCache := cache, rm_saved := 0\<rparr>"
  have w: "rm_listenPort rm \<noteq> ''''" "0 < tun_MTU (rm_tunConfig rm)"
    "compileRules (rm_siteGroups rm) (rm_upstreams rm) (rm_echProfiles rm) = rm_rules rm"
    using assms(1) by (simp_all add: wellLoaded_def)
  have tun: "normalizeTUNConfig (rm_tunConfig rm) = rm_tunConfig rm"
    using w(2) by (simp add: normalizeTUNConfig_def GOOS_def)
  have files: "rm_settingsFile rm1 = Holds (settingsOf rm)" "rm_rulesFile rm1 = Holds (rulesConfigOf rm)"
    using assms(4) by (auto simp: SaveConfig_def saveSettingsConfig_def saveRulesConfig_def rulesConfigOf_def)
  have load: "\<exists>rm2. loadSettingsConfig io1 ?new = (None, rm2) \<and> loadRulesConfig io2 rm2 = (None, ?goal\<lparr>rm_rules := []\<rparr>)"
    using w assms(3) tun
    by (simp add: loadSettingsConfig_def loadRulesConfig_def NewRuleManager_def files settingsOf_def
      rulesConfigOf_def applySettingsDefaults_def defaultDNSNodes_def)
  have "buildRules (?goal\<lparr>rm_rules := []\<rparr>) = ?goal" using w(3) by (simp add: buildRules_def)
  then have "finishLoad io3 (?goal\<lparr>rm_rules := []\<rparr>) = (None, ?goal)"
    using finishLoad_id [of "?goal\<lparr>rm_rules := []\<rparr>" io3] assms(1,2)
    by (simp add: websitesSet_def wellLoaded_def)
  with load show ?thesis by (auto simp: LoadConfig_def)
qed

theorem restart_restores_state_witness:
  "let rm = exampleManager\<lparr>rm_listenPort := ''8080'', rm_socks5Port := ''8081'',
        rm_tunConfig := zeroTUN\<lparr>tun_MTU := 1500\<rparr>\<rparr>;
       rm1 = snd (SaveConfig None None rm);
       rm2 = snd (LoadConfig None None None (NewRuleManager (rm_settingsFile rm1) (rm_rulesFile rm1) None))
   in rm_rules rm2 = rm_rules rm \<and> rm_saved rm2 = 0"
proof -
  define rm where "rm = exampleManager\<lparr>rm_listenPort := ''8080'', rm_socks5Port := ''8081'',
        rm_tunConfig := zeroTUN\<lparr>tun_MTU := 1500\<rparr>\<rparr>"
  define rm1 where "rm1 = snd (SaveConfig None None rm)"
  have "wellLoaded rm" unfolding rm_def by code_simp
  moreover have "websitesSet rm" unfolding rm_def by code_simp
  moreover have "rm_socks5Port rm \<noteq> ''''" by (simp add: rm_def)
  moreover have "SaveConfig None None rm = (None, rm1)"
    by (simp add: rm1_def SaveConfig_def saveSettingsConfig_def saveRulesConfig_def)
  ultimately have "LoadConfig None None None (NewRuleManager (rm_settingsFile rm1) (rm_rulesFile rm1) None) =
    (None, rm\<lparr>rm_autoRouter := None, rm_settingsFile := rm_settingsFile rm1, rm_rulesFile := rm_rulesFile rm1,
       rm_gfwCache := None, rm_saved := 0\<rparr>)"
    by (rule restart_restores_state)
  then show ?thesis unfolding rm_def [symmetric] Let_def rm1_def [symmetric] by simp
qed

section \<open>The GFW list across a restart\<close>

lemma RefreshGFWList_None:
  "rm_autoRouter rm = None \<Longrightarrow>
   RefreshGFWList fetch ord now stamp io1 io2 rm = (Inl ''auto router not initialized'', rm)"
  by (simp add: RefreshGFWList_def)

lemma RefreshGFWList_Some:
  assumes "rm_autoRouter rm = Some ar"
  shows "RefreshGFWList fetch ord now stamp None io rm =
     (case LoadFromURL fetch now (if ar_GFWListURL (rm_autoRoutingConfig rm) = '''' then defaultGFWListURL
         else ar_GFWListURL (rm_autoRoutingConfig rm)) (rt_gfwList ar) of
        (res, g) \<Rightarrow>
          (case res of
             Inl e \<Rightarrow> (Inl e, rm\<lparr>rm_autoRouter := Some (ar\<lparr>rt_gfwList := g\<rparr>)\<rparr>)
           | Inr k \<Rightarrow> (Inr k, snd (saveSettingsConfig io (rm\<lparr>rm_gfwCache := Some (saveText ord),
               rm_autoRoutingConfig := (rm_autoRoutingConfig rm)\<lparr>ar_LastUpdate := stamp\<rparr>,
               rm_autoRouter := Some (UpdateConfig ((rm_autoRoutingConfig rm)\<lparr>ar_LastUpdate := stamp\<rparr>)
                 (ar\<lparr>rt_gfwList := g\<rparr>))\<rparr>)))))"
  unfolding RefreshGFWList_def Let_def SaveToFile_def assms option.case prod.case by (rule refl)

text \<open>C23. A refreshed GFW list survives a restart: when \<open>RefreshGFWList\<close> succeeds and its cache file is
  written, a manager that starts later on that cache file blocks exactly the hosts that the
  refreshed one blocks, and a host is blocked exactly when it, or the part of it after some dot, is
  a downloaded domain. The hypotheses on the environment: the scanner delivers lines without line
  feed below its 64 kB limit, and the map iteration yields the domains.\<close>

theorem gfw_refresh_survives_restart:
  assumes "RefreshGFWList fetch ord now stamp None io rm = (Inr n, rm1)"
    and lines: "\<forall>url status ls e. fetch url = Inr (status, ls, e) \<longrightarrow> scannerLines ls"
    and ord: "map_option (gfw_domains \<circ> rt_gfwList) (rm_autoRouter rm1) = Some (set ord)"
  shows "\<exists>ar1 ar2. rm_autoRouter rm1 = Some ar1 \<and>
    rm_autoRouter (InitAutoRouter now' (rm2\<lparr>rm_gfwCache := rm_gfwCache rm1\<rparr>)) = Some ar2 \<and>
    (\<forall>h. IsBlocked (rt_gfwList ar2) h = IsBlocked (rt_gfwList ar1) h) \<and>
    (\<forall>h. IsBlocked (rt_gfwList ar1) h \<longleftrightarrow> ToLower (TrimSpace h) \<noteq> '''' \<and>
       (\<exists>d \<in> gfw_domains (rt_gfwList ar1). ToLower (TrimSpace h) = d \<or> HasSuffix (ToLower (TrimSpace h)) (''.'' @ d)))"
proof -
  obtain ar where ar: "rm_autoRouter rm = Some ar"
    using assms(1) RefreshGFWList_None [of rm fetch ord now stamp None io] by fastforce
  define url where "url = (if ar_GFWListURL (rm_autoRoutingConfig rm) = '''' then defaultGFWListURL
    else ar_GFWListURL (rm_autoRoutingConfig rm))"
  obtain res g where g: "LoadFromURL fetch now url (rt_gfwList ar) = (res, g)" by fastforce
  note ref = RefreshGFWList_Some [OF ar, of fetch ord now stamp io, folded url_def, unfolded g prod.case]
  have res: "res = Inr n" using assms(1) unfolding ref by (cases res) simp_all
  have rm1: "rm_gfwCache rm1 = Some (saveText ord)" "map_option rt_gfwList (rm_autoRouter rm1) = Some g"
    using assms(1) unfolding ref res by (auto simp: UpdateConfig_def)
  obtain url' ls where f: "fetch url' = Inr (200, ls, None)"
      and load: "LoadFromReader now (ls, None) (rt_gfwList ar) = (Inr n, g)"
    using LoadFromURL_ok [OF g [unfolded res]] by (elim exE conjE)
  note ls = load lines [rule_format, OF f]
  obtain ar1 where ar1: "rm_autoRouter rm1 = Some ar1" "rt_gfwList ar1 = g" using rm1(2) by blast
  have s: "set ord = gfw_domains g" using ord by (simp add: ar1)
  have "gfw_domains (snd (LoadFromFile now' (rm_gfwCache rm1) NewGFWList)) = gfw_domains g"
    unfolding rm1(1) save_load [OF ls s, of now' None NewGFWList, unfolded SaveToFile_def option.case snd_conv]
    by simp
  then obtain ar2 where ar2: "rm_autoRouter (InitAutoRouter now' (rm2\<lparr>rm_gfwCache := rm_gfwCache rm1\<rparr>)) = Some ar2"
      "gfw_domains (rt_gfwList ar2) = gfw_domains g"
    by (cases "LoadFromFile now' (rm_gfwCache rm1) NewGFWList") (simp add: InitAutoRouter_def)
  show ?thesis
  proof (intro exI conjI allI)
    show "rm_autoRouter rm1 = Some ar1" by (rule ar1)
    show "rm_autoRouter (InitAutoRouter now' (rm2\<lparr>rm_gfwCache := rm_gfwCache rm1\<rparr>)) = Some ar2" by (rule ar2)
    show "IsBlocked (rt_gfwList ar2) h = IsBlocked (rt_gfwList ar1) h" for h
      by (rule IsBlocked_cong) (simp add: ar1 ar2)
  qed (rule IsBlocked_iff [unfolded Let_def])
qed

theorem gfw_refresh_survives_restart_witness:
  "let rm = InitAutoRouter 0 exampleManager;
       fetch = (\<lambda>_. Inr (200, [''# list'', ''Blocked.org'', ''x.net''], None));
       (r, rm1) = RefreshGFWList fetch [''x.net'', ''blocked.org''] 5 ''t'' None None rm;
       rm2 = InitAutoRouter 9 (exampleManager\<lparr>rm_gfwCache := rm_gfwCache rm1\<rparr>)
   in r = Inr 2 \<and> (\<exists>ar2. rm_autoRouter rm2 = Some ar2 \<and> IsBlocked (rt_gfwList ar2) ''www.blocked.org'')"
proof -
  define rm where "rm = InitAutoRouter 0 exampleManager"
  define fetch :: http_fetch where "fetch = (\<lambda>_. Inr (200, [''# list'', ''Blocked.org'', ''x.net''], None))"
  have scan: "scanLines [''# list'', ''Blocked.org'', ''x.net''] ({}, 0) = ({''blocked.org'', ''x.net''}, 2)"
    by code_simp
  obtain r rm1 where ref: "RefreshGFWList fetch [''x.net'', ''blocked.org''] 5 ''t'' None None rm = (r, rm1)" by fastforce
  define ar where "ar = NewAutoRouter (rm_autoRoutingConfig exampleManager)"
  have ar: "rm_autoRouter rm = Some ar" "rt_gfwList ar = NewGFWList"
    by (simp_all add: rm_def InitAutoRouter_def ar_def LoadFromFile_def exampleManager_def NewRuleManager_def buildRules_def)
  have load: "LoadFromURL fetch 5 url NewGFWList = (Inr 2, NewGFWList\<lparr>gfw_domains := {''blocked.org'', ''x.net''},
      gfw_count := 2, gfw_lastLoad := 5\<rparr>)" for url
    by (simp add: LoadFromURL_def fetch_def LoadFromReader_def scan del: scanLines.simps)
  have r: "r = Inr 2" and d: "map_option (gfw_domains \<circ> rt_gfwList) (rm_autoRouter rm1) = Some {''blocked.org'', ''x.net''}"
    using ref unfolding RefreshGFWList_def Let_def ar option.case load by (auto simp: SaveToFile_def UpdateConfig_def)
  have lines: "\<forall>url status ls e. fetch url = Inr (status, ls, e) \<longrightarrow> scannerLines ls"
    by (auto simp: fetch_def scannerLines_def)
  have ord: "map_option (gfw_domains \<circ> rt_gfwList) (rm_autoRouter rm1) = Some (set [''x.net'', ''blocked.org''])"
    using d by (simp add: insert_commute)
  obtain ar1 ar2 where a: "rm_autoRouter rm1 = Some ar1"
    "rm_autoRouter (InitAutoRouter 9 (exampleManager\<lparr>rm_gfwCache := rm_gfwCache rm1\<rparr>)) = Some ar2"
    "\<forall>h. IsBlocked (rt_gfwList ar2) h = IsBlocked (rt_gfwList ar1) h"
    "\<forall>h. IsBlocked (rt_gfwList ar1) h \<longleftrightarrow> ToLower (TrimSpace h) \<noteq> '''' \<and>
       (\<exists>d \<in> gfw_domains (rt_gfwList ar1). ToLower (TrimSpace h) = d \<or> HasSuffix (ToLower (TrimSpace h)) (''.'' @ d))"
    using gfw_refresh_survives_restart [where now' = 9 and ?rm2.0 = exampleManager, OF ref [unfolded r] lines ord]
    by blast
  have "ToLower (TrimSpace ''www.blocked.org'') \<noteq> ''''"
    "HasSuffix (ToLower (TrimSpace ''www.blocked.org'')) (''.'' @ ''blocked.org'')" by code_simp+
  moreover have "''blocked.org'' \<in> gfw_domains (rt_gfwList ar1)" using a(1) d by simp
  ultimately have "IsBlocked (rt_gfwList ar2) ''www.blocked.org''"
    unfolding a(3) [rule_format] a(4) [rule_format] by (intro conjI bexI disjI2)
  with r a(2) show ?thesis
    unfolding Let_def rm_def [symmetric] fetch_def [symmetric] ref prod.case by blast
qed

end
