(* ===== verification/Config_Import.thy ===== *)
theory Config_Import
  imports Rule_Edit "HOL-Library.List_Lexorder" "HOL-Library.Char_ord"
begin

text \<open>
  Export and import of rules, \<open>src/proxy/config.go\<close>. A document is modelled after its JSON has been parsed;
  the time stamp of an export is left out, since no import reads it. IDs come from a supply, the \<open>n\<close>-th
  call of \<open>generateID\<close> in an import returning \<open>ids n\<close>.
\<close>

record configRule =
  cr_Name :: string
  cr_Website :: string
  cr_Mode :: string
  cr_Enabled :: bool
  cr_Domains :: "string list"
  cr_Upstream :: string
  cr_Upstreams :: "string list"
  cr_DNSMode :: string
  cr_SniFake :: string
  cr_ConnectPolicy :: string
  cr_SniPolicy :: string
  cr_ECHEnabled :: bool
  cr_ECHProfileID :: string
  cr_ECHDomain :: string
  cr_UseCFPool :: bool
  cr_CertVerify :: certVerifyConfig

record configFileV =
  cf_Version :: string
  cf_Type :: string
  cf_Rules :: "configRule list"

record importSummary =
  is_Total :: int
  is_Added :: int
  is_Overwritten :: int
  is_Skipped :: int

section \<open>Export\<close>

definition exportRule :: "siteGroup \<Rightarrow> configRule" where
  "exportRule sg = \<lparr>cr_Name = sg_Name sg, cr_Website = sg_Website sg, cr_Mode = sg_Mode sg, cr_Enabled = sg_Enabled sg,
     cr_Domains = sg_Domains sg, cr_Upstream = sg_Upstream sg, cr_Upstreams = sg_Upstreams sg, cr_DNSMode = sg_DNSMode sg,
     cr_SniFake = sg_SniFake sg, cr_ConnectPolicy = sg_ConnectPolicy sg, cr_SniPolicy = sg_SniPolicy sg,
     cr_ECHEnabled = sg_ECHEnabled sg, cr_ECHProfileID = sg_ECHProfileID sg, cr_ECHDomain = sg_ECHDomain sg,
     cr_UseCFPool = sg_UseCFPool sg, cr_CertVerify = sg_CertVerify sg\<rparr>"

text \<open>The two parts of an exported document, absent when empty.\<close>

record exportDoc =
  ed_mitm :: "configFileV option"
  ed_transparent :: "configFileV option"

definition exportPart :: "string \<Rightarrow> siteGroup list \<Rightarrow> configFileV option" where
  "exportPart typ sgs = (if sgs = [] then None else Some \<lparr>cf_Version = ''1.0'', cf_Type = typ, cf_Rules = map exportRule sgs\<rparr>)"

definition ExportConfig :: "ruleManager \<Rightarrow> exportDoc" where
  "ExportConfig rm =
     \<lparr>ed_mitm = exportPart ''mitm'' (filter (\<lambda>sg. sg_Mode sg = ''mitm'') (rm_siteGroups rm)),
      ed_transparent = exportPart ''transparent'' (filter (\<lambda>sg. sg_Mode sg \<noteq> ''mitm'') (rm_siteGroups rm))\<rparr>"

section \<open>Import\<close>

fun dedupeNames :: "string list \<Rightarrow> string list \<Rightarrow> string list" where
  "dedupeNames [] out = out"
| "dedupeNames (d # ds) out =
     (let n = ToLower (TrimSpace d) in
      if n = '''' \<or> n \<in> set out then dedupeNames ds out else dedupeNames ds (out @ [n]))"

definition normalizeDomainsForKey :: "string list \<Rightarrow> string" where
  "normalizeDomainsForKey domains = (if domains = [] then '''' else Join (sort (dedupeNames domains [])) '','')"

definition importMergeKey :: "siteGroup \<Rightarrow> string" where
  "importMergeKey sg = ToLower (TrimSpace (sg_Mode sg)) @ ''|'' @ normalizeDomainsForKey (sg_Domains sg)"

definition importModes :: "string list" where
  "importModes = [''mitm'', ''transparent'', ''server'', ''tls-rf'', ''quic'', ''warp'']"

text \<open>One rule of a document: \<open>None\<close> when it is skipped. Every imported rule is enabled.\<close>

definition importRule :: "string \<Rightarrow> string \<Rightarrow> configRule \<Rightarrow> siteGroup option" where
  "importRule mode i rule =
     (let m = ToLower (TrimSpace (cr_Mode rule)); ruleMode = (if m = '''' then mode else m) in
      if cr_Domains rule = [] \<or> ruleMode \<notin> set importModes then None
      else
        let name = TrimSpace (cr_Name rule) in
        Some \<lparr>sg_ID = i, sg_Name = (if name = '''' then hd (cr_Domains rule) else name), sg_Website = TrimSpace (cr_Website rule),
          sg_Domains = cr_Domains rule, sg_Mode = ruleMode, sg_Upstream = TrimSpace (cr_Upstream rule),
          sg_Upstreams = cr_Upstreams rule, sg_DNSMode = normalizeDNSMode (cr_DNSMode rule),
          sg_SniFake = TrimSpace (cr_SniFake rule), sg_ConnectPolicy = ToLower (TrimSpace (cr_ConnectPolicy rule)),
          sg_SniPolicy = ToLower (TrimSpace (cr_SniPolicy rule)), sg_Enabled = True, sg_ECHEnabled = cr_ECHEnabled rule,
          sg_ECHProfileID = cr_ECHProfileID rule, sg_ECHDomain = cr_ECHDomain rule, sg_UseCFPool = cr_UseCFPool rule,
          sg_CertVerify = cr_CertVerify rule\<rparr>)"

text \<open>The rules of a payload, with the number of IDs used so far and of rules skipped.\<close>

fun importRules :: "(nat \<Rightarrow> string) \<Rightarrow> string \<Rightarrow> configRule list \<Rightarrow> nat \<Rightarrow> siteGroup list \<times> nat \<times> int" where
  "importRules ids mode [] n = ([], n, 0)"
| "importRules ids mode (r # rs) n =
     (case importRule mode (ids n) r of
        None \<Rightarrow> (let (sgs, n', k) = importRules ids mode rs n in (sgs, n', k + 1))
      | Some sg \<Rightarrow> (let (sgs, n', k) = importRules ids mode rs (n + 1) in (sg # sgs, n', k)))"

definition parseConfigPayload :: "(nat \<Rightarrow> string) \<Rightarrow> string \<Rightarrow> configFileV option \<Rightarrow> nat \<Rightarrow> (siteGroup list \<times> nat \<times> int) option" where
  "parseConfigPayload ids forcedType payload n =
     (case payload of
        None \<Rightarrow> None
      | Some cfg \<Rightarrow>
          let t = ToLower (TrimSpace (cf_Type cfg)); mode = (if t = '''' then ToLower (TrimSpace forcedType) else t) in
          if mode \<noteq> ''mitm'' \<and> mode \<noteq> ''transparent'' then None else Some (importRules ids mode (cf_Rules cfg) n))"

text \<open>A document to import: blank; or the parts under the two keys of the wrapper object (each absent,
  malformed or a file), and the document read as one file.\<close>

record importDoc =
  imd_blank :: bool
  imd_mitm :: "configFileV option option"
  imd_transparent :: "configFileV option option"
  imd_self :: "configFileV option"

definition importPart :: "(nat \<Rightarrow> string) \<Rightarrow> string \<Rightarrow> configFileV option option \<Rightarrow> nat \<Rightarrow> siteGroup list \<times> nat \<times> int" where
  "importPart ids key part n =
     (case part of
        None \<Rightarrow> ([], n, 0)
      | Some payload \<Rightarrow> (case parseConfigPayload ids key payload n of None \<Rightarrow> ([], n, 0) | Some r \<Rightarrow> r))"

definition importedGroups :: "(nat \<Rightarrow> string) \<Rightarrow> importDoc \<Rightarrow> siteGroup list \<times> int" where
  "importedGroups ids doc =
     (let (sg1, n1, k1) = importPart ids ''mitm'' (imd_mitm doc) 0;
          (sg2, n2, k2) = importPart ids ''transparent'' (imd_transparent doc) n1
      in if sg1 @ sg2 \<noteq> [] then (sg1 @ sg2, k1 + k2)
         else (case parseConfigPayload ids '''' (imd_self doc) n2 of
                 None \<Rightarrow> ([], k1 + k2)
               | Some (sg3, _, k3) \<Rightarrow> (sg3, k1 + k2 + k3)))"

text \<open>The merge: \<open>index\<close> maps the key of a group to its last position.\<close>

definition buildIndex :: "siteGroup list \<Rightarrow> (string \<rightharpoonup> nat)" where
  "buildIndex sgs = fold (\<lambda>(i, sg) index. if importMergeKey sg = ''|'' then index else index(importMergeKey sg \<mapsto> i))
     (enumerate 0 sgs) Map.empty"

record mergeState =
  ms_merged :: "siteGroup list"
  ms_index :: "string \<rightharpoonup> nat"
  ms_added :: int
  ms_overwritten :: int
  ms_skipped :: int

definition mergeOne :: "siteGroup \<Rightarrow> mergeState \<Rightarrow> mergeState" where
  "mergeOne sg ms =
     (let key = importMergeKey sg in
      if key = ''|'' then ms\<lparr>ms_skipped := ms_skipped ms + 1\<rparr>
      else case ms_index ms key of
             Some idx \<Rightarrow> ms\<lparr>ms_merged := (ms_merged ms)[idx := sg\<lparr>sg_ID := sg_ID (ms_merged ms ! idx)\<rparr>],
                            ms_overwritten := ms_overwritten ms + 1\<rparr>
           | None \<Rightarrow> ms\<lparr>ms_merged := ms_merged ms @ [sg], ms_index := (ms_index ms)(key \<mapsto> length (ms_merged ms)),
                        ms_added := ms_added ms + 1\<rparr>)"

definition ImportConfigWithSummary ::
    "io \<Rightarrow> (nat \<Rightarrow> string) \<Rightarrow> importDoc \<Rightarrow> ruleManager \<Rightarrow> (string + importSummary) \<times> ruleManager" where
  "ImportConfigWithSummary io ids doc rm =
     (if imd_blank doc then (Inl ''empty config content'', rm)
      else
        let (imported, skipped) = importedGroups ids doc; total = int (length imported) + skipped in
        if imported = [] then (Inl ''no valid rules found'', rm)
        else
          let ms = fold mergeOne imported \<lparr>ms_merged = rm_siteGroups rm, ms_index = buildIndex (rm_siteGroups rm),
                     ms_added = 0, ms_overwritten = 0, ms_skipped = skipped\<rparr>;
              (err, rm') = saveRulesConfig io (buildRules (rm\<lparr>rm_siteGroups := ms_merged ms\<rparr>))
          in (case err of
                Some e \<Rightarrow> (Inl e, rm')
              | None \<Rightarrow> (Inr \<lparr>is_Total = (if total = 0 then int (length imported) + ms_skipped ms else total), is_Added = ms_added ms,
                     is_Overwritten = ms_overwritten ms, is_Skipped = ms_skipped ms\<rparr>, rm')))"

definition ImportConfig :: "io \<Rightarrow> (nat \<Rightarrow> string) \<Rightarrow> importDoc \<Rightarrow> ruleManager \<Rightarrow> rmResult" where
  "ImportConfig io ids doc rm =
     (case ImportConfigWithSummary io ids doc rm of (Inl e, rm') \<Rightarrow> (Some e, rm') | (Inr _, rm') \<Rightarrow> (None, rm'))"

text \<open>An exported document as the importer reads it: read as one file it has no type.\<close>

definition readBack :: "exportDoc \<Rightarrow> importDoc" where
  "readBack d = \<lparr>imd_blank = False, imd_mitm = map_option Some (ed_mitm d), imd_transparent = map_option Some (ed_transparent d),
     imd_self = Some \<lparr>cf_Version = '''', cf_Type = '''', cf_Rules = []\<rparr>\<rparr>"

end
