(* ===== verification/Config_Import_Correct.thy ===== *)
theory Config_Import_Correct
  imports Config_Import Rule_Manager_Correct
begin

text \<open>
  Export followed by import: what comes back, what is changed and what is lost.
\<close>

section \<open>Imported rules\<close>

text \<open>A group in the form an import gives its groups (the state in which the user interface keeps them).\<close>

definition tidyGroup :: "siteGroup \<Rightarrow> bool" where
  "tidyGroup sg \<longleftrightarrow> sg_Domains sg \<noteq> [] \<and> sg_Mode sg \<noteq> '''' \<and> ToLower (TrimSpace (sg_Mode sg)) = sg_Mode sg \<and>
     TrimSpace (sg_Name sg) = sg_Name sg \<and> sg_Name sg \<noteq> '''' \<and> TrimSpace (sg_Website sg) = sg_Website sg \<and>
     TrimSpace (sg_Upstream sg) = sg_Upstream sg \<and> normalizeDNSMode (sg_DNSMode sg) = sg_DNSMode sg \<and>
     TrimSpace (sg_SniFake sg) = sg_SniFake sg \<and> ToLower (TrimSpace (sg_ConnectPolicy sg)) = sg_ConnectPolicy sg \<and>
     ToLower (TrimSpace (sg_SniPolicy sg)) = sg_SniPolicy sg"

definition importable :: "siteGroup \<Rightarrow> bool" where
  "importable sg \<longleftrightarrow> sg_Mode sg \<in> set importModes"

lemma importRule_export:
  assumes "tidyGroup sg"
  shows "importRule mode i (exportRule sg) = (if importable sg then Some (sg\<lparr>sg_ID := i, sg_Enabled := True\<rparr>) else None)"
  using assms by (cases sg) (simp add: tidyGroup_def importable_def importRule_def exportRule_def Let_def)

text \<open>A group with another ID and enabled.\<close>

definition sameRule :: "siteGroup \<Rightarrow> siteGroup \<Rightarrow> bool" where
  "sameRule sg sg' \<longleftrightarrow> sg' = sg\<lparr>sg_ID := sg_ID sg', sg_Enabled := True\<rparr>"

lemma sameRule_upd [simp]: "sameRule sg (sg\<lparr>sg_ID := i, sg_Enabled := True\<rparr>)"
  by (simp add: sameRule_def)

lemma importRules_export:
  assumes "\<forall>sg\<in>set sgs. tidyGroup sg"
  shows "\<exists>out n'. importRules ids mode (map exportRule sgs) n = (out, n', int (length (filter (\<lambda>sg. \<not> importable sg) sgs))) \<and>
    list_all2 sameRule (filter importable sgs) out"
  using assms
proof (induction sgs arbitrary: n)
  case (Cons sg sgs)
  have t: "tidyGroup sg" "\<forall>sg\<in>set sgs. tidyGroup sg" using Cons.prems by simp_all
  show ?case
  proof (cases "importable sg")
    case True
    from Cons.IH [OF t(2), of "n + 1"] obtain out n' where "importRules ids mode (map exportRule sgs) (n + 1) =
        (out, n', int (length (filter (\<lambda>sg. \<not> importable sg) sgs)))" "list_all2 sameRule (filter importable sgs) out" by blast
    then show ?thesis using True by (simp add: importRule_export [OF t(1)])
  next
    case False
    from Cons.IH [OF t(2), of n] obtain out n' where "importRules ids mode (map exportRule sgs) n =
        (out, n', int (length (filter (\<lambda>sg. \<not> importable sg) sgs)))" "list_all2 sameRule (filter importable sgs) out" by blast
    then show ?thesis using False by (simp add: importRule_export [OF t(1)])
  qed
qed simp

lemma importPart_export:
  assumes "\<forall>sg\<in>set sgs. tidyGroup sg" "key = ''mitm'' \<or> key = ''transparent''"
  shows "\<exists>out n'. importPart ids key (map_option Some (exportPart key sgs)) n =
      (out, n', int (length (filter (\<lambda>sg. \<not> importable sg) sgs))) \<and> list_all2 sameRule (filter importable sgs) out"
proof (cases "sgs = []")
  case True
  then show ?thesis by (simp add: exportPart_def importPart_def)
next
  case False
  have k: "ToLower (TrimSpace key) = key" "key \<noteq> ''''" using assms(2) by (auto, code_simp+)
  show ?thesis using importRules_export [OF assms(1), of ids key n] False assms(2)
    by (auto simp: exportPart_def importPart_def parseConfigPayload_def k Let_def)
qed

text \<open>The groups an import of an export finds: the importable ones, those in MITM mode first.\<close>

definition exportOrder :: "siteGroup list \<Rightarrow> siteGroup list" where
  "exportOrder sgs = filter (\<lambda>sg. sg_Mode sg = ''mitm'') sgs @ filter (\<lambda>sg. sg_Mode sg \<noteq> ''mitm'') sgs"

lemma filter_exportOrder_length: "length (filter P (exportOrder sgs)) = length (filter P sgs)"
  by (induction sgs) (auto simp: exportOrder_def)

lemma importedGroups_export:
  assumes "\<forall>sg\<in>set (rm_siteGroups rm). tidyGroup sg"
  shows "\<exists>out. importedGroups ids (readBack (ExportConfig rm)) =
      (out, int (length (filter (\<lambda>sg. \<not> importable sg) (rm_siteGroups rm)))) \<and>
    list_all2 sameRule (filter importable (exportOrder (rm_siteGroups rm))) out"
proof -
  let ?m = "filter (\<lambda>sg. sg_Mode sg = ''mitm'') (rm_siteGroups rm)" and ?t = "filter (\<lambda>sg. sg_Mode sg \<noteq> ''mitm'') (rm_siteGroups rm)"
  let ?k = "\<lambda>sgs. int (length (filter (\<lambda>sg. \<not> importable sg) sgs))"
  from importPart_export [of ?m "''mitm''" ids 0] assms obtain o1 n1 where
    p1: "importPart ids ''mitm'' (map_option Some (exportPart ''mitm'' ?m)) 0 = (o1, n1, ?k ?m)"
    and l1: "list_all2 sameRule (filter importable ?m) o1" by auto
  from importPart_export [of ?t "''transparent''" ids n1] assms obtain o2 n2 where
    p2: "importPart ids ''transparent'' (map_option Some (exportPart ''transparent'' ?t)) n1 = (o2, n2, ?k ?t)"
    and l2: "list_all2 sameRule (filter importable ?t) o2" by auto
  have self: "parseConfigPayload ids '''' (Some \<lparr>cf_Version = '''', cf_Type = '''', cf_Rules = []\<rparr>) n2 = None" by code_simp
  have "importedGroups ids (readBack (ExportConfig rm)) = (o1 @ o2, ?k ?m + ?k ?t)"
    by (simp add: importedGroups_def readBack_def ExportConfig_def p1 p2 self)
  moreover have "?k ?m + ?k ?t = ?k (rm_siteGroups rm)"
    using filter_exportOrder_length [of "\<lambda>sg. \<not> importable sg" "rm_siteGroups rm"] by (simp add: exportOrder_def)
  ultimately show ?thesis using l1 l2 by (auto simp: exportOrder_def intro!: list_all2_appendI)
qed

section \<open>Merging\<close>

lemma importMergeKey_upd [simp]:
  "importMergeKey (sg\<lparr>sg_ID := i\<rparr>) = importMergeKey sg" "importMergeKey (sg\<lparr>sg_Enabled := b\<rparr>) = importMergeKey sg"
  by (simp_all add: importMergeKey_def)

lemma sameRule_key: "sameRule sg sg' \<Longrightarrow> importMergeKey sg' = importMergeKey sg"
  by (metis sameRule_def importMergeKey_upd)

lemma sameRule_put_ID: "sameRule sg sg' \<Longrightarrow> sg'\<lparr>sg_ID := sg_ID sg\<rparr> = sg\<lparr>sg_Enabled := True\<rparr>"
  by (cases sg; cases sg') (simp add: sameRule_def)

lemma tidyGroup_key: "tidyGroup sg \<Longrightarrow> importMergeKey sg \<noteq> ''|''"
  by (auto simp: tidyGroup_def importMergeKey_def append_eq_Cons_conv)

lemma buildIndex_from:
  "distinct (map importMergeKey sgs) \<Longrightarrow> importMergeKey (sgs ! i) \<noteq> ''|'' \<Longrightarrow> i < length sgs \<Longrightarrow>
   fold (\<lambda>(i, sg) index. if importMergeKey sg = ''|'' then index else index(importMergeKey sg \<mapsto> i)) (enumerate n sgs) m
     (importMergeKey (sgs ! i)) = Some (n + i)"
proof (induction sgs arbitrary: i n m rule: rev_induct)
  case (snoc sg sgs)
  show ?case
  proof (cases "i = length sgs")
    case False
    then have "i < length sgs" using snoc.prems by simp
    moreover have "importMergeKey (sgs ! i) \<noteq> importMergeKey sg" using snoc.prems(1) nth_mem [OF calculation]
      by (metis distinct_append map_append image_eqI list.set_map disjoint_iff list.set_intros(1) list.simps(9))
    ultimately show ?thesis using snoc by (simp add: enumerate_append_eq nth_append)
  qed (use snoc.prems in \<open>simp add: enumerate_append_eq\<close>)
qed simp

lemma buildIndex_nth:
  assumes "distinct (map importMergeKey sgs)" "i < length sgs" "importMergeKey (sgs ! i) \<noteq> ''|''"
  shows "buildIndex sgs (importMergeKey (sgs ! i)) = Some i"
  using buildIndex_from [OF assms(1,3,2), of 0] by (simp add: buildIndex_def)

text \<open>The groups of a set enabled, all others as they were.\<close>

definition enableIn :: "siteGroup set \<Rightarrow> siteGroup \<Rightarrow> siteGroup" where
  "enableIn D sg = (if sg \<in> D then sg\<lparr>sg_Enabled := True\<rparr> else sg)"

lemma enableIn_insert:
  assumes "distinct sgs" "i < length sgs"
  shows "(map (enableIn D) sgs)[i := (sgs ! i)\<lparr>sg_Enabled := True\<rparr>] = map (enableIn (insert (sgs ! i) D)) sgs"
  using assms by (auto simp: list_eq_iff_nth_eq nth_list_update enableIn_def nth_eq_iff_index_eq)

lemma merge_enables:
  assumes d: "distinct (map importMergeKey sgs)" and t: "\<forall>sg\<in>set sgs. tidyGroup sg"
  shows "list_all2 sameRule xs out \<Longrightarrow> distinct xs \<Longrightarrow> set xs \<subseteq> set sgs \<Longrightarrow> set xs \<inter> D = {} \<Longrightarrow>
    ms_merged ms = map (enableIn D) sgs \<Longrightarrow> ms_index ms = buildIndex sgs \<Longrightarrow>
    fold mergeOne out ms = ms\<lparr>ms_merged := map (enableIn (D \<union> set xs)) sgs, ms_overwritten := ms_overwritten ms + int (length xs)\<rparr>"
proof (induction xs arbitrary: out D ms)
  case (Cons x xs)
  from Cons.prems(1) obtain y out' where out: "out = y # out'" and y: "sameRule x y" and r: "list_all2 sameRule xs out'"
    by (auto simp: list_all2_Cons1)
  from Cons.prems(3) obtain i where i: "i < length sgs" and x: "x = sgs ! i" by (auto simp: in_set_conv_nth)
  have key: "importMergeKey y = importMergeKey x" "importMergeKey x \<noteq> ''|''"
    using sameRule_key [OF y] x tidyGroup_key t i by auto
  have idx: "buildIndex sgs (importMergeKey x) = Some i" using buildIndex_nth [OF d i] key(2) x by simp
  have m: "map (enableIn D) sgs ! i = x" using Cons.prems(4,5) i x by (simp add: enableIn_def)
  have "mergeOne y ms = ms\<lparr>ms_merged := map (enableIn (insert x D)) sgs, ms_overwritten := ms_overwritten ms + 1\<rparr>"
    using enableIn_insert [OF distinct_map [THEN iffD1, THEN conjunct1, OF d] i, of D] Cons.prems(5,6) sameRule_put_ID [OF y]
    by (simp add: mergeOne_def Let_def key idx m x [symmetric])
  moreover have "fold mergeOne out' (ms\<lparr>ms_merged := map (enableIn (insert x D)) sgs, ms_overwritten := ms_overwritten ms + 1\<rparr>) =
    ms\<lparr>ms_merged := map (enableIn (insert x D \<union> set xs)) sgs, ms_overwritten := ms_overwritten ms + 1 + int (length xs)\<rparr>"
    using Cons.IH [OF r, of "insert x D" "ms\<lparr>ms_merged := map (enableIn (insert x D)) sgs, ms_overwritten := ms_overwritten ms + 1\<rparr>"]
      Cons.prems(2,3,4,6) by auto
  ultimately show ?case by (simp add: out Un_insert_left algebra_simps)
qed simp

text \<open>C19. Importing an export into the manager it came from. For groups in the form an import gives them, with
  pairwise different merge keys, and a write that succeeds: no group is added or moved and no ID changes; every group
  of an importable mode is overwritten by itself, enabled (also one the user had switched off); the groups in the
  other modes (direct, block, ...), which were exported, are counted as skipped; and the compiled rules are those of
  the result. When no group has an importable mode the import is refused and nothing changes.\<close>

theorem import_of_export:
  assumes "\<forall>sg\<in>set (rm_siteGroups rm). tidyGroup sg" "distinct (map importMergeKey (rm_siteGroups rm))"
  shows "ImportConfigWithSummary None ids (readBack (ExportConfig rm)) rm =
    (if filter importable (rm_siteGroups rm) = [] then (Inl ''no valid rules found'', rm)
     else (Inr \<lparr>is_Total = int (length (rm_siteGroups rm)), is_Added = 0,
                is_Overwritten = int (length (filter importable (rm_siteGroups rm))),
                is_Skipped = int (length (filter (\<lambda>sg. \<not> importable sg) (rm_siteGroups rm)))\<rparr>,
           snd (saveRulesConfig None (buildRules (rm\<lparr>rm_siteGroups :=
             map (\<lambda>sg. if importable sg then sg\<lparr>sg_Enabled := True\<rparr> else sg) (rm_siteGroups rm)\<rparr>)))))"
proof -
  let ?gs = "rm_siteGroups rm" and ?xs = "filter importable (exportOrder (rm_siteGroups rm))"
  from importedGroups_export [OF assms(1), of ids] obtain out where
    imp: "importedGroups ids (readBack (ExportConfig rm)) = (out, int (length (filter (\<lambda>sg. \<not> importable sg) ?gs)))"
    and out: "list_all2 sameRule ?xs out" by blast
  have len: "length out = length (filter importable ?gs)"
    using list_all2_lengthD [OF out] by (simp add: filter_exportOrder_length)
  have gs: "distinct ?gs" using assms(2) by (simp add: distinct_map)
  have xs: "distinct ?xs" "set ?xs = {sg \<in> set ?gs. importable sg}" using gs by (auto simp: exportOrder_def)
  have total: "int (length out) + int (length (filter (\<lambda>sg. \<not> importable sg) ?gs)) = int (length ?gs)"
    using sum_length_filter_compl [of importable ?gs] len by simp
  have start: "map (enableIn {}) ?gs = ?gs" by (simp add: enableIn_def map_idI)
  have eq: "map (enableIn {sg \<in> set ?gs. importable sg}) ?gs = map (\<lambda>sg. if importable sg then sg\<lparr>sg_Enabled := True\<rparr> else sg) ?gs"
    by (simp add: enableIn_def)
  have merged: "fold mergeOne out \<lparr>ms_merged = ?gs, ms_index = buildIndex ?gs, ms_added = 0, ms_overwritten = 0, ms_skipped = k\<rparr> =
    \<lparr>ms_merged = map (\<lambda>sg. if importable sg then sg\<lparr>sg_Enabled := True\<rparr> else sg) ?gs, ms_index = buildIndex ?gs, ms_added = 0,
      ms_overwritten = int (length out), ms_skipped = k\<rparr>" for k
    using merge_enables [OF assms(2,1) out xs(1), of "{}"
      "\<lparr>ms_merged = ?gs, ms_index = buildIndex ?gs, ms_added = 0, ms_overwritten = 0, ms_skipped = k\<rparr>"]
      list_all2_lengthD [OF out] xs(2) by (simp add: start eq)
  have empty: "out = [] \<longleftrightarrow> filter importable ?gs = []" using len by (metis length_0_conv)
  show ?thesis
  proof (cases "out = []")
    case True
    then show ?thesis using imp empty by (simp add: ImportConfigWithSummary_def readBack_def)
  next
    case False
    then show ?thesis using empty len total
      by (simp add: ImportConfigWithSummary_def imp merged saveRulesConfig_def)
        (simp add: readBack_def)
  qed
qed

text \<open>A switched-off MITM rule comes back switched on, and a blocking rule is skipped.\<close>

definition exportedManager :: ruleManager where
  "exportedManager = exampleManager\<lparr>rm_siteGroups :=
     [exampleGroup\<lparr>sg_Mode := ''block''\<rparr>, exampleGroup\<lparr>sg_ID := ''b'', sg_Mode := ''mitm'', sg_Enabled := False\<rparr>]\<rparr>"

theorem import_of_export_witness:
  "(let (res, rm') = ImportConfigWithSummary None (\<lambda>n. ''new'') (readBack (ExportConfig exportedManager)) exportedManager
    in res = Inr \<lparr>is_Total = 2, is_Added = 0, is_Overwritten = 1, is_Skipped = 1\<rparr> \<and>
       map (\<lambda>sg. (sg_ID sg, sg_Enabled sg)) (rm_siteGroups rm') = [(sg_ID exampleGroup, sg_Enabled exampleGroup), (''b'', True)])"
proof -
  have tidy: "\<forall>sg\<in>set (rm_siteGroups exportedManager). tidyGroup sg" by code_simp
  have keys: "distinct (map importMergeKey (rm_siteGroups exportedManager))" by code_simp
  have modes: "map importable (rm_siteGroups exportedManager) = [False, True]" by code_simp
  show ?thesis unfolding import_of_export [OF tidy keys, of "\<lambda>n. ''new''"]
    using modes by (simp add: exportedManager_def saveRulesConfig_def buildRules_def)
qed

end
