(* ===== verification/Cf_Pool.thy ===== *)
theory Cf_Pool
  imports Go_Prelude "HOL-Library.Multiset"
begin

text \<open>
  The pool of Cloudflare addresses, \<open>src/proxy/cf_pool.go\<close>. Statistics are shared objects: the map
  \<open>allIPs\<close> and the list \<open>activeIPs\<close> hold pointers to them, so the pool is modelled with an explicit
  heap. Each section of the code that runs under the mutex is one operation; the goroutines that an
  operation starts are recorded. The iteration order of a Go map is an argument \<open>ord\<close>;
  \<open>sort.Slice\<close>, which does not fix the order of equal elements, is a stable sort of an input whose
  order is arbitrary for that reason. The two printed fields of \<open>IPStats\<close> are kept as the values
  they print, \<open>None\<close> for the empty string.
\<close>

record ipStats =
  st_IP :: string
  st_Latency :: "int option"
  st_Failures :: int
  st_LastCheck :: "int option"
  st_latencyVal :: int
  st_lastCheckTime :: int

datatype cfTask = TaskCheckAll | TaskCheckIncremental | TaskHealthCheckLoop

record cfPool =
  cp_heap :: "nat \<rightharpoonup> ipStats"
  cp_next :: nat
  cp_allIPs :: "string \<rightharpoonup> nat"
  cp_activeIPs :: "nat list"
  cp_running :: bool
  cp_stopClosed :: bool
  cp_spawned :: "cfTask list"

definition newStats :: "string \<Rightarrow> ipStats" where
  "newStats ip = \<lparr>st_IP = ip, st_Latency = None, st_Failures = 0, st_LastCheck = None, st_latencyVal = 0,
     st_lastCheckTime = 0\<rparr>"

text \<open>The statistics behind a pointer (a dangling pointer, which does not occur, reads as fresh
  statistics).\<close>

definition statsAt :: "cfPool \<Rightarrow> nat \<Rightarrow> ipStats" where
  "statsAt p a = (case cp_heap p a of Some s \<Rightarrow> s | None \<Rightarrow> newStats '''')"

definition healthy :: "ipStats \<Rightarrow> bool" where
  "healthy s \<longleftrightarrow> 0 < st_latencyVal s \<and> st_Failures s < 3"

definition rebuildActiveIPs :: "string list \<Rightarrow> cfPool \<Rightarrow> cfPool" where
  "rebuildActiveIPs ord p = p\<lparr>cp_activeIPs :=
     sort_key (\<lambda>a. st_latencyVal (statsAt p a))
       (filter (\<lambda>a. healthy (statsAt p a)) (List.map_filter (cp_allIPs p) ord))\<rparr>"

text \<open>The loop of \<open>UpdateIPs\<close> that fills the new map.\<close>

fun updateLoop :: "(string \<rightharpoonup> nat) \<Rightarrow> string list \<Rightarrow> (nat \<rightharpoonup> ipStats) \<times> nat \<times> (string \<rightharpoonup> nat)
    \<Rightarrow> (nat \<rightharpoonup> ipStats) \<times> nat \<times> (string \<rightharpoonup> nat)" where
  "updateLoop old [] st = st"
| "updateLoop old (ip0 # ips) (heap, next, newMap) =
     (let ip = TrimSpace ip0 in
      if ip = '''' then updateLoop old ips (heap, next, newMap)
      else case old ip of
        Some a \<Rightarrow> updateLoop old ips (heap, next, newMap(ip \<mapsto> a))
      | None \<Rightarrow> updateLoop old ips (heap(next \<mapsto> newStats ip), next + 1, newMap(ip \<mapsto> next)))"

definition UpdateIPs :: "string list \<Rightarrow> string list \<Rightarrow> cfPool \<Rightarrow> cfPool" where
  "UpdateIPs ord ips p =
     (let (heap, next, newMap) = updateLoop (cp_allIPs p) ips (cp_heap p, cp_next p, Map.empty);
          p1 = p\<lparr>cp_heap := heap, cp_next := next, cp_allIPs := newMap\<rparr>
      in (rebuildActiveIPs ord p1)\<lparr>cp_spawned := cp_spawned p @ [TaskCheckAll]\<rparr>)"

definition NewCloudflarePool :: "string list \<Rightarrow> string list \<Rightarrow> cfPool" where
  "NewCloudflarePool ord ips = UpdateIPs ord ips
     \<lparr>cp_heap = Map.empty, cp_next = 0, cp_allIPs = Map.empty, cp_activeIPs = [], cp_running = False,
      cp_stopClosed = False, cp_spawned = []\<rparr>"

text \<open>\<open>Start\<close> and \<open>Stop\<close>; closing a closed channel would panic (\<open>None\<close>).\<close>

definition Start :: "cfPool \<Rightarrow> cfPool" where
  "Start p = (if cp_running p then p
     else p\<lparr>cp_running := True, cp_stopClosed := False, cp_spawned := cp_spawned p @ [TaskHealthCheckLoop]\<rparr>)"

definition Stop :: "cfPool \<Rightarrow> cfPool option" where
  "Stop p = (if \<not> cp_running p then Some p
     else if cp_stopClosed p then None
     else Some (p\<lparr>cp_running := False, cp_stopClosed := True\<rparr>))"

definition healthCheckLoop :: "cfPool \<Rightarrow> cfPool" where
  "healthCheckLoop p = p\<lparr>cp_spawned := cp_spawned p @ [TaskCheckAll]\<rparr>"

definition TriggerHealthCheck :: "cfPool \<Rightarrow> cfPool" where
  "TriggerHealthCheck p = p\<lparr>cp_spawned := cp_spawned p @ [TaskCheckAll]\<rparr>"

text \<open>\<open>GetTopIPs\<close>: the loop of the fallback adds an address before it tests the limit.\<close>

definition GetTopIPs :: "string list \<Rightarrow> nat \<Rightarrow> cfPool \<Rightarrow> string list" where
  "GetTopIPs ord n p =
     (if cp_activeIPs p = [] then take (if n = 0 then 1 else n) ord
      else map (\<lambda>a. st_IP (statsAt p a)) (take n (cp_activeIPs p)))"

definition GetAllIPsWithStats :: "string list \<Rightarrow> cfPool \<Rightarrow> ipStats list" where
  "GetAllIPsWithStats ord p =
     (let stats = map (statsAt p) (List.map_filter (cp_allIPs p) ord) in
      sort_key st_latencyVal (filter (\<lambda>s. st_latencyVal s \<noteq> 0) stats) @
      filter (\<lambda>s. st_latencyVal s = 0) stats)"

text \<open>\<open>RemoveInvalidIPs\<close>: the first critical section deletes, the second one rebuilds.\<close>

definition deleteInvalid :: "string list \<Rightarrow> cfPool \<Rightarrow> nat \<times> cfPool" where
  "deleteInvalid ord p =
     (let bad = filter (\<lambda>ip. case cp_allIPs p ip of Some a \<Rightarrow> 3 \<le> st_Failures (statsAt p a) | None \<Rightarrow> False) ord
      in (length bad, p\<lparr>cp_allIPs := (cp_allIPs p) |` (- set bad)\<rparr>))"

definition RemoveInvalidIPs :: "string list \<Rightarrow> string list \<Rightarrow> cfPool \<Rightarrow> nat \<times> cfPool" where
  "RemoveInvalidIPs ord ord' p =
     (let (count, p') = deleteInvalid ord p in
      (count, if 0 < count then rebuildActiveIPs ord' p' else p'))"

text \<open>\<open>ReportFailure\<close>: one failure more and one second of penalty, then a rebuild.\<close>

definition markFailure :: "string \<Rightarrow> cfPool \<Rightarrow> cfPool" where
  "markFailure ip p =
     (case cp_allIPs p ip of
        None \<Rightarrow> p
      | Some a \<Rightarrow>
          let s = statsAt p a; lat = st_latencyVal s + 1000000000;
              s' = s\<lparr>st_Failures := st_Failures s + 1, st_latencyVal := lat, st_Latency := Some lat\<rparr>
          in p\<lparr>cp_heap := (cp_heap p)(a \<mapsto> s'),
               cp_spawned := (if 2 \<le> st_Failures s' then cp_spawned p @ [TaskCheckIncremental] else cp_spawned p)\<rparr>)"

definition ReportFailure :: "string list \<Rightarrow> string \<Rightarrow> cfPool \<Rightarrow> cfPool" where
  "ReportFailure ord ip p = rebuildActiveIPs ord (markFailure ip p)"

definition ReportSuccess :: "string \<Rightarrow> cfPool \<Rightarrow> cfPool" where
  "ReportSuccess ip p =
     (case cp_allIPs p ip of
        None \<Rightarrow> p
      | Some a \<Rightarrow>
          let s = statsAt p a in
          if 0 < st_Failures s
          then p\<lparr>cp_heap := (cp_heap p)(a \<mapsto> s\<lparr>st_Failures := st_Failures s - 1\<rparr>)\<rparr> else p)"

text \<open>Health checks: the choice of the addresses, the update with the outcome of one probe
  (\<open>None\<close>: the dial failed), and a whole round in which the probes finish in the order of the
  list.\<close>

definition incrementalIPs :: "string list \<Rightarrow> int \<Rightarrow> cfPool \<Rightarrow> string list" where
  "incrementalIPs ord now p = filter (\<lambda>ip. case cp_allIPs p ip of
     Some a \<Rightarrow> 2 \<le> st_Failures (statsAt p a) \<or> 30 * 60 * 1000000000 < now - st_lastCheckTime (statsAt p a)
   | None \<Rightarrow> False) ord"

definition applyCheck :: "int \<Rightarrow> string \<Rightarrow> int option \<Rightarrow> cfPool \<Rightarrow> cfPool" where
  "applyCheck now ip outcome p =
     (case cp_allIPs p ip of
        None \<Rightarrow> p
      | Some a \<Rightarrow>
          let s = (statsAt p a)\<lparr>st_LastCheck := Some now, st_lastCheckTime := now\<rparr>;
              s' = (case outcome of
                 None \<Rightarrow> s\<lparr>st_Failures := st_Failures s + 1, st_latencyVal := 0, st_Latency := None\<rparr>
               | Some latency \<Rightarrow> s\<lparr>st_Failures := 0, st_latencyVal := latency, st_Latency := Some latency\<rparr>)
          in p\<lparr>cp_heap := (cp_heap p)(a \<mapsto> s')\<rparr>)"

definition checkIPs :: "string list \<Rightarrow> (string \<times> int \<times> int option) list \<Rightarrow> cfPool \<Rightarrow> cfPool" where
  "checkIPs ord results p =
     (if results = [] then p
      else rebuildActiveIPs ord (fold (\<lambda>(ip, now, outcome). applyCheck now ip outcome) results p))"

section \<open>The API\<close>

record cfApiResponse =
  api_Status :: bool
  api_Code :: int
  api_Msg :: string
  api_Info :: "(string \<times> string list) list"

text \<open>\<open>FetchCloudflareIPs\<close> on the outcome of the request: a transport error, an undecodable body, or
  the decoded response (with \<open>Info\<close> in iteration order).\<close>

datatype cfApiOutcome = ApiTransportError string | ApiMalformed string | ApiResponse cfApiResponse

definition FetchCloudflareIPs :: "(string \<Rightarrow> cfApiOutcome) \<Rightarrow> string \<Rightarrow> string + string list" where
  "FetchCloudflareIPs get apiKey0 =
     (let apiKey = (if apiKey0 = '''' then ''o1zrmHAF'' else apiKey0);
          url = ''https://www.wetest.vip/api/cf2dns/get_cloudflare_ip?key='' @ apiKey @ ''&type=v4''
      in case get url of
           ApiTransportError e \<Rightarrow> Inl e
         | ApiMalformed e \<Rightarrow> Inl (''failed to parse API response: '' @ e)
         | ApiResponse r \<Rightarrow>
             if \<not> api_Status r \<or> api_Code r \<noteq> 200
             then Inl (''API error: '' @ api_Msg r @ '' (code '' @ ItoaInt (api_Code r) @ '')'')
             else Inr (filter (\<lambda>ip. ip \<noteq> '''') (concat (map snd (api_Info r)))))"

end
