(* ===== verification/Cf_Pool_Correct.thy ===== *)
theory Cf_Pool_Correct
  imports Cf_Pool
begin

text \<open>
  Properties of the Cloudflare pool: the invariant of its pointers under every interleaving of the
  critical sections, what \<open>GetTopIPs\<close> returns, and the effect of failures.
\<close>

definition iterOrder :: "cfPool \<Rightarrow> string list \<Rightarrow> bool" where
  "iterOrder p ord \<longleftrightarrow> distinct ord \<and> set ord = dom (cp_allIPs p)"

definition ptrsOK :: "(nat \<rightharpoonup> ipStats) \<Rightarrow> (string \<rightharpoonup> nat) \<Rightarrow> bool" where
  "ptrsOK heap m \<longleftrightarrow> (\<forall>ip a. m ip = Some a \<longrightarrow> ip \<noteq> '''' \<and> (\<exists>s. heap a = Some s \<and> st_IP s = ip))"

definition heapOK :: "(nat \<rightharpoonup> ipStats) \<Rightarrow> nat \<Rightarrow> bool" where
  "heapOK heap n \<longleftrightarrow> (\<forall>a s. heap a = Some s \<longrightarrow> a < n \<and> st_IP s \<noteq> '''' \<and> 0 \<le> st_Failures s \<and> 0 \<le> st_latencyVal s)"

definition cfInv :: "cfPool \<Rightarrow> bool" where
  "cfInv p \<longleftrightarrow> ptrsOK (cp_heap p) (cp_allIPs p) \<and> heapOK (cp_heap p) (cp_next p) \<and>
     set (cp_activeIPs p) \<subseteq> dom (cp_heap p) \<and> (cp_running p \<longrightarrow> \<not> cp_stopClosed p)"

text \<open>The critical sections of the pool, as the goroutines of the program interleave them.\<close>

inductive cfStep :: "cfPool \<Rightarrow> cfPool \<Rightarrow> bool" where
  update: "cfStep p (UpdateIPs ord ips p)"
| rebuild: "cfStep p (rebuildActiveIPs ord p)"
| mark: "cfStep p (markFailure ip p)"
| success: "cfStep p (ReportSuccess ip p)"
| check: "(\<forall>l. outcome = Some l \<longrightarrow> 0 \<le> l) \<Longrightarrow> cfStep p (applyCheck now ip outcome p)"
| delete: "cfStep p (snd (deleteInvalid ord p))"
| start: "cfStep p (Start p)"
| stop: "Stop p = Some p' \<Longrightarrow> cfStep p p'"
| trigger: "cfStep p (TriggerHealthCheck p)"

lemma ptrsOK_D: "ptrsOK heap m \<Longrightarrow> m ip = Some a \<Longrightarrow> ip \<noteq> '''' \<and> (\<exists>s. heap a = Some s \<and> st_IP s = ip)"
  by (simp add: ptrsOK_def)

lemma ptrsOK_update: "ptrsOK heap m \<Longrightarrow> heap a = Some s0 \<Longrightarrow> st_IP s = st_IP s0 \<Longrightarrow> ptrsOK (heap(a \<mapsto> s)) m"
  unfolding ptrsOK_def by (metis fun_upd_apply option.inject)

lemma heapOK_update:
  "heapOK heap n \<Longrightarrow> heap a = Some s0 \<Longrightarrow> st_IP s = st_IP s0 \<Longrightarrow> 0 \<le> st_Failures s \<Longrightarrow> 0 \<le> st_latencyVal s
     \<Longrightarrow> heapOK (heap(a \<mapsto> s)) n"
  by (auto simp: heapOK_def)

lemma cfInv_heap_update:
  assumes "cfInv p" "cp_allIPs p ip = Some a" "st_IP s = st_IP (statsAt p a)" "0 \<le> st_Failures s" "0 \<le> st_latencyVal s"
  shows "cfInv (p\<lparr>cp_heap := (cp_heap p)(a \<mapsto> s)\<rparr>)"
proof -
  obtain s0 where s0: "cp_heap p a = Some s0" using assms(1,2) ptrsOK_D unfolding cfInv_def by metis
  with assms(3) have "st_IP s = st_IP s0" by (simp add: statsAt_def)
  with assms s0 show ?thesis by (auto simp: cfInv_def ptrsOK_update heapOK_update)
qed

lemma cfInv_spawned [simp]: "cfInv (p\<lparr>cp_spawned := t\<rparr>) = cfInv p"
  by (simp add: cfInv_def)

lemma statsAt_nonneg: "cfInv p \<Longrightarrow> 0 \<le> st_Failures (statsAt p a) \<and> 0 \<le> st_latencyVal (statsAt p a)"
  by (auto simp: cfInv_def heapOK_def statsAt_def newStats_def split: option.split)

lemma set_map_filter: "set (List.map_filter f xs) = {y. \<exists>x \<in> set xs. f x = Some y}"
  by (induction xs) (auto simp: List.map_filter_simps split: option.split)

lemma cfInv_rebuild: "cfInv p \<Longrightarrow> cfInv (rebuildActiveIPs ord p)"
  by (force simp: cfInv_def rebuildActiveIPs_def set_map_filter ptrsOK_def)

lemma ptrsOK_alloc: "ptrsOK heap m \<Longrightarrow> heap n = None \<Longrightarrow> ptrsOK (heap(n \<mapsto> s)) m"
  by (force simp: ptrsOK_def)

lemma updateLoop_inv:
  assumes "updateLoop old ips (heap, n, m) = (heap', n', m')"
    and "ptrsOK heap old" "ptrsOK heap m" "heapOK heap n"
  shows "ptrsOK heap' m' \<and> heapOK heap' n' \<and> heap \<subseteq>\<^sub>m heap'"
  using assms
proof (induction ips arbitrary: heap n m)
  case (Cons ip0 ips)
  let ?ip = "TrimSpace ip0"
  consider "?ip = ''''" | a where "?ip \<noteq> ''''" "old ?ip = Some a" | "?ip \<noteq> ''''" "old ?ip = None" by fastforce
  then show ?case
  proof cases
    case 1
    then show ?thesis using Cons by simp
  next
    case (2 a)
    with Cons.prems(2,3) have "ptrsOK heap (m(?ip \<mapsto> a))" by (auto simp: ptrsOK_def)
    moreover have "updateLoop old ips (heap, n, m(?ip \<mapsto> a)) = (heap', n', m')" using Cons.prems(1) 2 by simp
    ultimately show ?thesis using Cons.IH Cons.prems(2,4) by blast
  next
    case 3
    have fresh: "heap n = None" using Cons.prems(4) by (auto simp: heapOK_def) (metis less_irrefl not_None_eq)
    let ?heap = "heap(n \<mapsto> newStats ?ip)"
    have "ptrsOK ?heap (m(?ip \<mapsto> n))" using ptrsOK_alloc [OF Cons.prems(3) fresh] 3(1)
      by (auto simp: ptrsOK_def newStats_def)
    moreover have "heapOK ?heap (n + 1)" using Cons.prems(4) 3(1) by (auto simp: heapOK_def newStats_def less_Suc_eq)
    moreover have "ptrsOK ?heap old" by (rule ptrsOK_alloc [OF Cons.prems(2) fresh])
    moreover have "heap \<subseteq>\<^sub>m ?heap" using fresh by (auto simp: map_le_def)
    moreover have "updateLoop old ips (?heap, n + 1, m(?ip \<mapsto> n)) = (heap', n', m')" using Cons.prems(1) 3 by (simp add: Let_def)
    ultimately show ?thesis using Cons.IH map_le_trans by blast
  qed
qed simp

lemma cfInv_UpdateIPs: assumes "cfInv p" shows "cfInv (UpdateIPs ord ips p)"
proof -
  obtain heap n m where u: "updateLoop (cp_allIPs p) ips (cp_heap p, cp_next p, Map.empty) = (heap, n, m)"
    by (metis surj_pair)
  have "ptrsOK heap m \<and> heapOK heap n \<and> cp_heap p \<subseteq>\<^sub>m heap"
    using updateLoop_inv [OF u] assms by (auto simp: cfInv_def ptrsOK_def)
  then have "cfInv (p\<lparr>cp_heap := heap, cp_next := n, cp_allIPs := m\<rparr>)"
    using assms map_le_implies_dom_le by (fastforce simp: cfInv_def)
  then show ?thesis by (simp add: UpdateIPs_def u cfInv_rebuild)
qed

lemma cfInv_deleteInvalid: "cfInv p \<Longrightarrow> cfInv (snd (deleteInvalid ord p))"
  by (auto simp: cfInv_def deleteInvalid_def Let_def ptrsOK_def restrict_map_def)

lemma cfInv_markFailure: "cfInv p \<Longrightarrow> cfInv (markFailure ip p)"
  using statsAt_nonneg [of p] by (auto simp: markFailure_def Let_def intro!: cfInv_heap_update split: option.split)

lemma cfInv_ReportSuccess: "cfInv p \<Longrightarrow> cfInv (ReportSuccess ip p)"
  using statsAt_nonneg [of p] by (auto simp: ReportSuccess_def Let_def intro!: cfInv_heap_update split: option.split)

lemma cfInv_applyCheck: "cfInv p \<Longrightarrow> (\<forall>l. outcome = Some l \<longrightarrow> 0 \<le> l) \<Longrightarrow> cfInv (applyCheck now ip outcome p)"
  using statsAt_nonneg [of p] by (auto simp: applyCheck_def Let_def intro!: cfInv_heap_update split: option.split)

lemma cfInv_step: "cfStep p p' \<Longrightarrow> cfInv p \<Longrightarrow> cfInv p'"
proof (induction rule: cfStep.induct)
  case (stop p p')
  then show ?case by (auto simp: Stop_def cfInv_def split: if_splits)
qed (simp_all add: cfInv_UpdateIPs cfInv_rebuild cfInv_markFailure cfInv_ReportSuccess cfInv_applyCheck
      cfInv_deleteInvalid Start_def TriggerHealthCheck_def, simp add: cfInv_def)

lemma cfInv_New: "cfInv (NewCloudflarePool ord ips)"
  unfolding NewCloudflarePool_def by (rule cfInv_UpdateIPs) (simp add: cfInv_def ptrsOK_def heapOK_def)

interpretation cfpool: step_system cfStep "\<lambda>p. \<exists>ord ips. p = NewCloudflarePool ord ips" cfInv
  by unfold_locales (auto intro: cfInv_New cfInv_step)

interpretation cftask: background_task Start Stop cp_running cfInv
  by unfold_locales (auto simp: Start_def Stop_def cfInv_def)



section \<open>The best addresses\<close>

definition latencyOf :: "cfPool \<Rightarrow> string \<Rightarrow> int" where
  "latencyOf p ip = st_latencyVal (statsAt p (the (cp_allIPs p ip)))"

definition healthyIP :: "cfPool \<Rightarrow> string \<Rightarrow> bool" where
  "healthyIP p ip \<longleftrightarrow> (\<exists>a. cp_allIPs p ip = Some a \<and> healthy (statsAt p a))"

lemma cfInv_ip: "cfInv p \<Longrightarrow> cp_allIPs p ip = Some a \<Longrightarrow> st_IP (statsAt p a) = ip"
  using ptrsOK_D unfolding cfInv_def by (force simp: statsAt_def)

lemma map_filter_dom: "set ord \<subseteq> dom m \<Longrightarrow> List.map_filter m ord = map (\<lambda>ip. the (m ip)) ord"
  by (induction ord) (auto simp: List.map_filter_simps)

lemma sort_key_map: "sort_key f (map g xs) = map g (sort_key (\<lambda>x. f (g x)) xs)"
proof -
  have "insort_key f (g x) (map g ys) = map g (insort_key (\<lambda>x. f (g x)) x ys)" for x ys by (induction ys) auto
  then show ?thesis by (induction xs) simp_all
qed

text \<open>Seen through the addresses, a rebuild sorts the healthy addresses by latency.\<close>

lemma rebuild_ips:
  assumes "cfInv p" "iterOrder p ord"
  shows "map (\<lambda>a. st_IP (statsAt p a)) (cp_activeIPs (rebuildActiveIPs ord p)) =
    sort_key (latencyOf p) (filter (healthyIP p) ord)"
proof -
  let ?ptr = "\<lambda>ip. the (cp_allIPs p ip)"
  have d: "\<And>ip. ip \<in> set ord \<Longrightarrow> cp_allIPs p ip = Some (?ptr ip)" using assms(2) by (auto simp: iterOrder_def)
  have "filter (\<lambda>a. healthy (statsAt p a)) (map ?ptr ord) = map ?ptr (filter (healthyIP p) ord)"
    using d by (induction ord) (auto simp: healthyIP_def)
  moreover have "List.map_filter (cp_allIPs p) ord = map ?ptr ord"
    using assms(2) by (intro map_filter_dom) (simp add: iterOrder_def)
  moreover have "sort_key (\<lambda>a. st_latencyVal (statsAt p a)) (map ?ptr xs) = map ?ptr (sort_key (latencyOf p) xs)" for xs
    unfolding latencyOf_def by (rule sort_key_map)
  moreover have "map (\<lambda>a. st_IP (statsAt p a)) (map ?ptr xs) = xs" if "set xs \<subseteq> set ord" for xs
    using that cfInv_ip [OF assms(1) d] by (induction xs) auto
  ultimately show ?thesis by (simp add: rebuildActiveIPs_def)
qed

lemma statsAt_rebuild [simp]: "statsAt (rebuildActiveIPs ord p) = statsAt p"
  by (simp add: fun_eq_iff statsAt_def rebuildActiveIPs_def)

lemma GetTopIPs_rebuild:
  assumes "cfInv p" "iterOrder p ord"
  shows "GetTopIPs ord' n (rebuildActiveIPs ord p) =
    (if \<exists>ip. healthyIP p ip then take n (sort_key (latencyOf p) (filter (healthyIP p) ord))
     else take (if n = 0 then 1 else n) ord')"
proof -
  have act: "map (\<lambda>a. st_IP (statsAt p a)) (cp_activeIPs (rebuildActiveIPs ord p)) =
    sort_key (latencyOf p) (filter (healthyIP p) ord)" by (rule rebuild_ips [OF assms])
  have "cp_activeIPs (rebuildActiveIPs ord p) = [] \<longleftrightarrow> filter (healthyIP p) ord = []"
    using arg_cong [OF act, of length] by (auto simp: length_0_conv [symmetric] simp del: length_0_conv)
  also have "\<dots> \<longleftrightarrow> (\<nexists>ip. healthyIP p ip)"
    using assms(2) by (auto simp: filter_empty_conv iterOrder_def healthyIP_def)
  finally show ?thesis unfolding GetTopIPs_def using act by (auto simp: take_map [symmetric])
qed

lemma sorted_take_drop_le:
  "sorted (map f xs) \<Longrightarrow> x \<in> set (take n xs) \<Longrightarrow> y \<in> set (drop n xs) \<Longrightarrow> f x \<le> f y"
  proof -
  assume "sorted (map f xs)" and x: "x \<in> set (take n xs)" and y: "y \<in> set (drop n xs)"
  then have "sorted (map f (take n xs) @ map f (drop n xs))" by (simp flip: map_append)
  with x y show "f x \<le> f y" unfolding sorted_append by simp
qed

text \<open>Right after a rebuild, \<open>GetTopIPs n\<close> returns the best addresses: when some address is healthy
  (probed, with fewer than three failures) it returns \<open>min n\<close> (number of healthy addresses) distinct
  healthy addresses in order of latency, none slower than a healthy address it leaves out; when none
  is healthy it falls back to addresses of the pool.\<close>

theorem GetTopIPs_best:
  assumes "cfInv p" "iterOrder p ord" "iterOrder p ord'"
  shows "let best = GetTopIPs ord' n (rebuildActiveIPs ord p) in if \<exists>ip. healthyIP p ip
    then distinct best \<and> length best = min n (card {ip. healthyIP p ip}) \<and> sorted (map (latencyOf p) best) \<and>
      (\<forall>ip \<in> set best. healthyIP p ip \<and> (\<forall>ip'. healthyIP p ip' \<and> ip' \<notin> set best \<longrightarrow> latencyOf p ip \<le> latencyOf p ip'))
    else set best \<subseteq> dom (cp_allIPs p)"
proof (cases "\<exists>ip. healthyIP p ip")
  case True
  define best where "best = GetTopIPs ord' n (rebuildActiveIPs ord p)"
  let ?xs = "sort_key (latencyOf p) (filter (healthyIP p) ord)"
  have best: "best = take n ?xs" using True by (simp add: best_def GetTopIPs_rebuild [OF assms(1,2)])
  have "set (filter (healthyIP p) ord) = {ip. healthyIP p ip}"
    using assms(2) by (auto simp: iterOrder_def healthyIP_def)
  then have set: "set ?xs = {ip. healthyIP p ip}" by simp
  have dist: "distinct ?xs" using assms(2) by (simp add: iterOrder_def)
  have len: "length ?xs = card {ip. healthyIP p ip}" using distinct_card [OF dist] unfolding set by (rule sym)
  have le: "latencyOf p ip \<le> latencyOf p ip'" if "ip \<in> set best" "healthyIP p ip'" "ip' \<notin> set best" for ip ip'
  proof (rule sorted_take_drop_le [of _ ?xs])
    show "sorted (map (latencyOf p) ?xs)" by simp
    show "ip \<in> set (take n ?xs)" using that(1) best by simp
    have "ip' \<in> set (take n ?xs @ drop n ?xs)" unfolding append_take_drop_id set using that(2) by (rule CollectI)
    then show "ip' \<in> set (drop n ?xs)" using that(3) unfolding best set_append by blast
  qed
  have mem: "healthyIP p ip" if "ip \<in> set best" for ip
  proof -
    have "ip \<in> set ?xs" using that unfolding best by (rule in_set_takeD)
    then show ?thesis unfolding set by (rule CollectD)
  qed
  have "sorted (map (latencyOf p) best)" unfolding best take_map [symmetric] by (rule sorted_wrt_take) simp
  moreover have "distinct best" unfolding best using dist by (rule distinct_take)
  moreover have "length best = min n (card {ip. healthyIP p ip})"
    unfolding best length_take len [symmetric] by (rule min.commute)
  ultimately show ?thesis
    unfolding best_def [symmetric] Let_def if_P [OF True] using le mem by blast
next
  case False
  have "set (take k ord') \<subseteq> dom (cp_allIPs p)" for k
    using assms(3) set_take_subset [of k ord'] by (simp add: iterOrder_def)
  then show ?thesis unfolding Let_def GetTopIPs_rebuild [OF assms(1,2)] if_not_P [OF False] by blast
qed

definition examplePool :: cfPool where
  "examplePool = \<lparr>cp_heap = [0 \<mapsto> (newStats ''a'')\<lparr>st_latencyVal := 30\<rparr>, 1 \<mapsto> (newStats ''b'')\<lparr>st_latencyVal := 10\<rparr>,
      2 \<mapsto> newStats ''c''], cp_next = 3, cp_allIPs = [''a'' \<mapsto> 0, ''b'' \<mapsto> 1, ''c'' \<mapsto> 2],
     cp_activeIPs = [], cp_running = True, cp_stopClosed = False, cp_spawned = []\<rparr>"

theorem GetTopIPs_best_witness:
  "let best = GetTopIPs [''a'', ''b'', ''c''] 5 (rebuildActiveIPs [''c'', ''a'', ''b''] examplePool)
   in distinct best \<and> sorted (map (latencyOf examplePool) best) \<and> best = [''b'', ''a'']"
proof -
  have inv: "cfInv examplePool"
    by (auto simp: cfInv_def examplePool_def ptrsOK_def heapOK_def newStats_def split: if_splits)
  have ord: "iterOrder examplePool [''c'', ''a'', ''b'']" "iterOrder examplePool [''a'', ''b'', ''c'']"
    by (auto simp: iterOrder_def examplePool_def)
  have "healthyIP examplePool ''a''" by (simp add: healthyIP_def examplePool_def statsAt_def healthy_def newStats_def)
  then have ex: "\<exists>ip. healthyIP examplePool ip" ..
  have "GetTopIPs [''a'', ''b'', ''c''] 5 (rebuildActiveIPs [''c'', ''a'', ''b''] examplePool) = [''b'', ''a'']"
    by (simp add: GetTopIPs_def rebuildActiveIPs_def examplePool_def statsAt_def healthy_def newStats_def List.map_filter_simps)
  with GetTopIPs_best [OF inv ord, of 5] ex show ?thesis by (simp add: Let_def)
qed

text \<open>A failure report makes an unprobed address look healthy: an address of the pool that has no
  measured latency (never probed, or its last probe failed) and at most one failure gets the penalty
  of one second as its latency, so that \<open>ReportFailure\<close> puts it on the active list.\<close>

theorem ReportFailure_activates_unprobed:
  assumes "cfInv p" "iterOrder p ord" "cp_allIPs p ip = Some a"
    and "st_latencyVal (statsAt p a) = 0" "st_Failures (statsAt p a) \<le> 1"
  shows "\<not> healthyIP p ip \<and> a \<in> set (cp_activeIPs (ReportFailure ord ip p))"
proof -
  have "ip \<in> set ord" using assms(2,3) by (auto simp: iterOrder_def)
  moreover have "cp_allIPs (markFailure ip p) = cp_allIPs p" "healthy (statsAt (markFailure ip p) a)"
    using assms by (auto simp: markFailure_def Let_def statsAt_def healthy_def split: option.split)
  ultimately show ?thesis using assms
    by (auto simp: ReportFailure_def rebuildActiveIPs_def set_map_filter healthyIP_def healthy_def)
qed

theorem ReportFailure_activates_unprobed_witness:
  "let p = NewCloudflarePool [''104.16.0.1''] [''104.16.0.1'']
   in cp_activeIPs p = [] \<and> 0 \<in> set (cp_activeIPs (ReportFailure [''104.16.0.1''] ''104.16.0.1'' p))"
proof -
  let ?p = "NewCloudflarePool [''104.16.0.1''] [''104.16.0.1'']"
  have t: "TrimSpace ''104.16.0.1'' = ''104.16.0.1''" by code_simp
  have p: "?p = \<lparr>cp_heap = [0 \<mapsto> newStats ''104.16.0.1''], cp_next = 1, cp_allIPs = [''104.16.0.1'' \<mapsto> 0],
      cp_activeIPs = [], cp_running = False, cp_stopClosed = False, cp_spawned = [TaskCheckAll]\<rparr>"
    by (simp add: NewCloudflarePool_def UpdateIPs_def t rebuildActiveIPs_def List.map_filter_simps statsAt_def
      healthy_def newStats_def Let_def)
  have "iterOrder ?p [''104.16.0.1'']" "cp_allIPs ?p ''104.16.0.1'' = Some 0"
    "st_latencyVal (statsAt ?p 0) = 0" "st_Failures (statsAt ?p 0) \<le> 1"
    by (simp_all add: p iterOrder_def statsAt_def newStats_def)
  from ReportFailure_activates_unprobed [OF cfInv_New this]
  have "0 \<in> set (cp_activeIPs (ReportFailure [''104.16.0.1''] ''104.16.0.1'' ?p))" by blast
  then show ?thesis unfolding Let_def by (simp add: p)
qed

end
