(* ===== verification/Mitm_Cert.thy ===== *)
theory Mitm_Cert
  imports Addresses
begin

text \<open>
  Certificates: the CA of \<open>src/cert/cert.go\<close> (creation, storage, loading and the cached install
  status) and the cache of leaf certificates of \<open>src/proxy/proxy.go\<close> (\<open>generateCert\<close>,
  \<open>makeMITMTLSConfig\<close>). Key generation, signing, PEM and DER are Go's crypto packages and are
  parameters; the two files of the CA are an explicit store.
\<close>

section \<open>The CA manager\<close>

text \<open>A certificate is its DER bytes, a private key a number.\<close>

record caTemplate =
  ct_SerialNumber :: int
  ct_Organization :: "string list"
  ct_CommonName :: string
  ct_NotBefore :: int
  ct_NotAfter :: int
  ct_IsCA :: bool

text \<open>The crypto packages. \<open>cl_genKey n\<close> is the outcome of the \<open>n\<close>-th key generation.\<close>

record cryptoLib =
  cl_genKey :: "nat \<Rightarrow> string + nat"
  cl_createCert :: "caTemplate \<Rightarrow> nat \<Rightarrow> string + bytes"
  cl_parseCert :: "bytes \<Rightarrow> string + bytes"
  cl_marshalKey :: "nat \<Rightarrow> bytes"
  cl_parseKey :: "bytes \<Rightarrow> string + nat"
  cl_pemEncode :: "string \<Rightarrow> bytes \<Rightarrow> bytes"
  cl_pemDecode :: "bytes \<Rightarrow> bytes option"

text \<open>The file system: \<open>dk_createErr\<close> is the error of creating a file, \<open>dk_writeErr\<close> the error of
  writing it with the number of bytes that were written, \<open>dk_readErr\<close> the error of reading an
  existing file.\<close>

record disk =
  dk_files :: "string \<rightharpoonup> bytes"
  dk_createErr :: "string \<Rightarrow> string option"
  dk_writeErr :: "string \<Rightarrow> (string \<times> nat) option"
  dk_readErr :: "string \<Rightarrow> string option"

record caInstallStatus =
  cs_Installed :: bool
  cs_Platform :: string
  cs_CertPath :: string
  cs_InstallHelp :: string

text \<open>\<open>cm_gens\<close> counts the key generations.\<close>

record certManager =
  cm_caCert :: "bytes option"
  cm_caKey :: "nat option"
  cm_caPath :: string
  cm_keyPath :: string
  cm_lastStatus :: caInstallStatus
  cm_lastCheck :: "int option"
  cm_gens :: nat

definition NewCertManager :: "string \<Rightarrow> string \<Rightarrow> certManager" where
  "NewCertManager caPath keyPath =
     \<lparr>cm_caCert = None, cm_caKey = None, cm_caPath = caPath, cm_keyPath = keyPath,
      cm_lastStatus = \<lparr>cs_Installed = False, cs_Platform = '''', cs_CertPath = '''', cs_InstallHelp = ''''\<rparr>,
      cm_lastCheck = None, cm_gens = 0\<rparr>"

text \<open>Creating a file (truncating it) and writing one PEM block to it.\<close>

definition writeFile :: "string \<Rightarrow> bytes \<Rightarrow> disk \<Rightarrow> string option \<times> disk" where
  "writeFile path content d =
     (case dk_createErr d path of
        Some e \<Rightarrow> (Some e, d)
      | None \<Rightarrow>
          (case dk_writeErr d path of
             Some (e, n) \<Rightarrow> (Some e, d\<lparr>dk_files := (dk_files d)(path \<mapsto> take n content)\<rparr>)
           | None \<Rightarrow> (None, d\<lparr>dk_files := (dk_files d)(path \<mapsto> content)\<rparr>)))"

text \<open>\<open>saveCA\<close> is called only with a certificate and a key in place; the error of the first file
  leaves the second untouched.\<close>

definition saveCA :: "cryptoLib \<Rightarrow> bytes \<Rightarrow> nat \<Rightarrow> certManager \<Rightarrow> disk \<Rightarrow> string option \<times> disk" where
  "saveCA lib caCert caKey cm d =
     (case writeFile (cm_caPath cm) (cl_pemEncode lib ''CERTIFICATE'' caCert) d of
        (Some e, d1) \<Rightarrow> (Some e, d1)
      | (None, d1) \<Rightarrow> writeFile (cm_keyPath cm) (cl_pemEncode lib ''RSA PRIVATE KEY'' (cl_marshalKey lib caKey)) d1)"

definition hourNs :: int where "hourNs = 3600000000000"

definition caTemplateAt :: "int \<Rightarrow> caTemplate" where
  "caTemplateAt now = \<lparr>ct_SerialNumber = 1, ct_Organization = [''SniShaper''], ct_CommonName = ''SniShaper CA'',
     ct_NotBefore = now, ct_NotAfter = now + 10 * 365 * 24 * hourNs, ct_IsCA = True\<rparr>"

definition generateCAUnlocked :: "cryptoLib \<Rightarrow> int \<Rightarrow> certManager \<Rightarrow> disk \<Rightarrow> string option \<times> certManager \<times> disk" where
  "generateCAUnlocked lib now cm d =
     (let cm1 = cm\<lparr>cm_gens := cm_gens cm + 1\<rparr> in
      case cl_genKey lib (cm_gens cm) of
        Inl e \<Rightarrow> (Some (''failed to generate CA private key: '' @ e), cm1, d)
      | Inr privateKey \<Rightarrow>
          (case cl_createCert lib (caTemplateAt now) privateKey of
             Inl e \<Rightarrow> (Some (''failed to create CA certificate: '' @ e), cm1, d)
           | Inr certDER \<Rightarrow>
               (case cl_parseCert lib certDER of
                  Inl e \<Rightarrow> (Some e, cm1, d)
                | Inr cert \<Rightarrow>
                    let (err, d1) = saveCA lib cert privateKey cm1 d
                    in (err, cm1\<lparr>cm_caCert := Some cert, cm_caKey := Some privateKey\<rparr>, d1))))"

definition GenerateCA :: "cryptoLib \<Rightarrow> int \<Rightarrow> certManager \<Rightarrow> disk \<Rightarrow> string option \<times> certManager \<times> disk" where
  "GenerateCA lib now cm d = generateCAUnlocked lib now cm d"

text \<open>\<open>os.ReadFile\<close>: \<open>Inl None\<close> when the file does not exist.\<close>

definition readFile :: "string \<Rightarrow> disk \<Rightarrow> string option + bytes" where
  "readFile path d =
     (case dk_files d path of
        None \<Rightarrow> Inl None
      | Some content \<Rightarrow> (case dk_readErr d path of Some e \<Rightarrow> Inl (Some e) | None \<Rightarrow> Inr content))"

definition readErrText :: "string option \<Rightarrow> string" where
  "readErrText e = (case e of None \<Rightarrow> ''no such file or directory'' | Some t \<Rightarrow> t)"

definition LoadCA :: "cryptoLib \<Rightarrow> int \<Rightarrow> certManager \<Rightarrow> disk \<Rightarrow> string option \<times> certManager \<times> disk" where
  "LoadCA lib now cm d =
     (case readFile (cm_caPath cm) d of
        Inl None \<Rightarrow> generateCAUnlocked lib now cm d
      | Inl (Some e) \<Rightarrow> (Some e, cm, d)
      | Inr caData \<Rightarrow>
          (case cl_pemDecode lib caData of
             None \<Rightarrow> (Some ''failed to decode PEM block from CA certificate'', cm, d)
           | Some block \<Rightarrow>
               (case cl_parseCert lib block of
                  Inl e \<Rightarrow> (Some e, cm, d)
                | Inr cert \<Rightarrow>
                    (case readFile (cm_keyPath cm) d of
                       Inl e \<Rightarrow> (Some (readErrText e), cm, d)
                     | Inr keyData \<Rightarrow>
                         (case cl_pemDecode lib keyData of
                            None \<Rightarrow> (Some ''failed to decode PEM block from CA key'', cm, d)
                          | Some keyBlock \<Rightarrow>
                              (case cl_parseKey lib keyBlock of
                                 Inl e \<Rightarrow> (Some e, cm, d)
                               | Inr key \<Rightarrow> (None, cm\<lparr>cm_caCert := Some cert, cm_caKey := Some key\<rparr>, d)))))))"

definition GetCACert :: "certManager \<Rightarrow> bytes option" where
  "GetCACert cm = cm_caCert cm"

text \<open>\<open>GetCAKey\<close> returns an interface that holds the key pointer, so it is never nil, even without a
  key: the outer option is the interface.\<close>

definition GetCAKey :: "certManager \<Rightarrow> nat option option" where
  "GetCAKey cm = Some (cm_caKey cm)"

text \<open>\<open>GetCAInstallStatus\<close>: the status is asked of the system (\<open>probe\<close>) at most once in five
  minutes.\<close>

definition GetCAInstallStatus :: "caInstallStatus \<Rightarrow> int \<Rightarrow> certManager \<Rightarrow> caInstallStatus \<times> certManager" where
  "GetCAInstallStatus probe now cm =
     (case cm_lastCheck cm of
        Some t \<Rightarrow> if now - t < 5 * 60 * 1000000000 then (cm_lastStatus cm, cm)
                  else (probe, cm\<lparr>cm_lastStatus := probe, cm_lastCheck := Some now\<rparr>)
      | None \<Rightarrow> (probe, cm\<lparr>cm_lastStatus := probe, cm_lastCheck := Some now\<rparr>))"

definition IsCAInstalled :: "caInstallStatus \<Rightarrow> int \<Rightarrow> certManager \<Rightarrow> bool \<times> certManager" where
  "IsCAInstalled probe now cm = (let (status, cm') = GetCAInstallStatus probe now cm in (cs_Installed status, cm'))"

definition ExportCert :: "cryptoLib \<Rightarrow> certManager \<Rightarrow> string + bytes" where
  "ExportCert lib cm =
     (case cm_caCert cm of
        None \<Rightarrow> Inl ''no CA certificate available''
      | Some raw \<Rightarrow> Inr (cl_pemEncode lib ''CERTIFICATE'' raw))"

definition GetCACertPEM :: "cryptoLib \<Rightarrow> certManager \<Rightarrow> bytes" where
  "GetCACertPEM lib cm = (case cm_caCert cm of None \<Rightarrow> [] | Some raw \<Rightarrow> cl_pemEncode lib ''CERTIFICATE'' raw)"

text \<open>\<open>RegenerateCA\<close>: \<open>uninstalled\<close> tells which installed certificates are found (\<open>None\<close>: the query
  failed), \<open>install\<close> is the outcome of installing the new CA. The second component of the result is
  the list of tokens that were uninstalled.\<close>

definition RegenerateCA ::
    "cryptoLib \<Rightarrow> int \<Rightarrow> string list option \<Rightarrow> (certManager \<Rightarrow> string option) \<Rightarrow> certManager \<Rightarrow> disk
       \<Rightarrow> string option \<times> string list \<times> certManager \<times> disk" where
  "RegenerateCA lib now installed install cm d =
     (let removed = (case installed of None \<Rightarrow> [] | Some tokens \<Rightarrow> tokens) in
      case generateCAUnlocked lib now cm d of
        (Some e, cm1, d1) \<Rightarrow> (Some e, removed, cm1, d1)
      | (None, cm1, d1) \<Rightarrow> (install cm1, removed, cm1, d1))"

text \<open>\<open>InitCertManager\<close>: when the files cannot be loaded they are removed and a new CA is made.\<close>

definition InitCertManager :: "cryptoLib \<Rightarrow> int \<Rightarrow> string \<Rightarrow> disk \<Rightarrow> (string + certManager) \<times> disk" where
  "InitCertManager lib now certDir d =
     (let cm = NewCertManager (certDir @ ''/ca.crt'') (certDir @ ''/ca.key'') in
      case LoadCA lib now cm d of
        (None, cm1, d1) \<Rightarrow> (Inr cm1, d1)
      | (Some err, cm1, d1) \<Rightarrow>
          let d2 = d1\<lparr>dk_files := (dk_files d1)(cm_caPath cm1 := None, cm_keyPath cm1 := None)\<rparr> in
          (case GenerateCA lib now cm1 d2 of
             (Some genErr, _, d3) \<Rightarrow>
               (Inl (''load existing CA failed: '' @ err @ ''; regenerate failed: '' @ genErr), d3)
           | (None, cm2, d3) \<Rightarrow> (Inr cm2, d3)))"

section \<open>Leaf certificates\<close>

record leafTemplate =
  lt_SerialNumber :: int
  lt_CommonName :: string
  lt_NotBefore :: int
  lt_NotAfter :: int
  lt_DNSNames :: "string list"

record mitmCert =
  mc_template :: leafTemplate
  mc_chain :: bytes

type_synonym certCache = "string \<rightharpoonup> mitmCert"

text \<open>\<open>sign\<close> stands for key generation, signing with the CA and loading the pair; it fails when the CA
  is missing.\<close>

type_synonym leaf_signer = "leafTemplate \<Rightarrow> string + bytes"

definition leafTemplateAt :: "int \<Rightarrow> string \<Rightarrow> leafTemplate" where
  "leafTemplateAt now host = \<lparr>lt_SerialNumber = now, lt_CommonName = host, lt_NotBefore = now,
     lt_NotAfter = now + 24 * hourNs, lt_DNSNames = [host]\<rparr>"

definition generateCert :: "leaf_signer \<Rightarrow> int \<Rightarrow> string \<Rightarrow> certCache \<Rightarrow> (string + mitmCert) \<times> certCache" where
  "generateCert sign now host0 cache =
     (let host = normalizeHost host0 in
      case cache host of
        Some cert \<Rightarrow> (Inr cert, cache)
      | None \<Rightarrow>
          (let template = leafTemplateAt now host in
           case sign template of
             Inl e \<Rightarrow> (Inl e, cache)
           | Inr der \<Rightarrow>
               let cert = \<lparr>mc_template = template, mc_chain = der\<rparr>
               in (Inr cert, cache(host \<mapsto> cert))))"

definition ClearCertCache :: "certCache \<Rightarrow> certCache" where
  "ClearCertCache _ = Map.empty"

text \<open>\<open>makeMITMTLSConfig\<close>: the protocols offered to the client and its certificate callback.\<close>

record mitmTLSConfig =
  mt_NextProtos :: "string list"
  mt_GetCertificate :: "int \<Rightarrow> string \<Rightarrow> certCache \<Rightarrow> (string + mitmCert) \<times> certCache"

definition makeMITMTLSConfig :: "leaf_signer \<Rightarrow> string \<Rightarrow> string list \<Rightarrow> mitmTLSConfig" where
  "makeMITMTLSConfig sign connectHost0 nextProtos =
     (let connectHost = normalizeHost connectHost0 in
      \<lparr>mt_NextProtos = nextProtos,
       mt_GetCertificate = (\<lambda>now serverName cache.
         let clientSNI = normalizeHost serverName;
             certHost = (if clientSNI \<noteq> '''' then clientSNI else connectHost)
         in generateCert sign now certHost cache)\<rparr>)"

end
