(* ===== verification/Mitm_Cert_Correct.thy ===== *)
theory Mitm_Cert_Correct
  imports Mitm_Cert
begin

text \<open>
  Properties of the certificates: a CA that was created is loaded again unchanged, and a leaf
  certificate stays in the cache after its validity has ended.
\<close>

section \<open>The CA on disk\<close>

lemma writeFile_ok:
  assumes "writeFile path content d = (None, d')"
  shows "d' = d\<lparr>dk_files := (dk_files d)(path \<mapsto> content)\<rparr>"
  using assms by (auto simp: writeFile_def split: option.splits)

lemma saveCA_ok:
  assumes "saveCA lib caCert caKey cm d = (None, d')"
  shows "d' = d\<lparr>dk_files := (dk_files d)
           (cm_caPath cm \<mapsto> cl_pemEncode lib ''CERTIFICATE'' caCert,
            cm_keyPath cm \<mapsto> cl_pemEncode lib ''RSA PRIVATE KEY'' (cl_marshalKey lib caKey))\<rparr>"
  using assms by (auto simp: saveCA_def split: prod.splits option.splits dest!: writeFile_ok)

text \<open>What a successful creation leaves: a parsed certificate and a key, both on disk.\<close>

lemma generateCAUnlocked_ok:
  assumes "generateCAUnlocked lib now cm d = (None, cm', d')"
  obtains der caCert caKey where "cl_parseCert lib der = Inr caCert"
    "cm' = cm\<lparr>cm_gens := cm_gens cm + 1, cm_caCert := Some caCert, cm_caKey := Some caKey\<rparr>"
    "saveCA lib caCert caKey (cm\<lparr>cm_gens := cm_gens cm + 1\<rparr>) d = (None, d')"
  using assms by (auto simp: generateCAUnlocked_def Let_def split: sum.splits prod.splits)

lemma readFile_Inr: "dk_files d path = Some c \<Longrightarrow> dk_readErr d path = None \<Longrightarrow> readFile path d = Inr c"
  by (simp add: readFile_def)

lemma LoadCA_reads:
  assumes "readFile (cm_caPath cm) d = Inr caData" "cl_pemDecode lib caData = Some block" "cl_parseCert lib block = Inr cert"
    and "readFile (cm_keyPath cm) d = Inr keyData" "cl_pemDecode lib keyData = Some keyBlock" "cl_parseKey lib keyBlock = Inr key"
  shows "LoadCA lib now cm d = (None, cm\<lparr>cm_caCert := Some cert, cm_caKey := Some key\<rparr>, d)"
  using assms by (simp add: LoadCA_def)

lemma InitCertManager_loads:
  assumes "LoadCA lib now (NewCertManager (dir @ ''/ca.crt'') (dir @ ''/ca.key'')) d = (None, cm, d')"
  shows "InitCertManager lib now dir d = (Inr cm, d')"
  using assms by (simp add: InitCertManager_def)

text \<open>The files written by a successful creation are loaded back.\<close>

lemma saved_CA_loads:
  assumes pem: "\<forall>t b. cl_pemDecode lib (cl_pemEncode lib t b) = Some b"
    and key: "\<forall>k. cl_parseKey lib (cl_marshalKey lib k) = Inr k"
    and "cl_parseCert lib caCert = Inr caCert" "\<forall>p. dk_readErr d p = None"
    and "saveCA lib caCert caKey cm0 d = (None, d')" "cm_caPath cm0 \<noteq> cm_keyPath cm0"
    and "cm_caPath cm = cm_caPath cm0" "cm_keyPath cm = cm_keyPath cm0"
  shows "LoadCA lib now cm d' = (None, cm\<lparr>cm_caCert := Some caCert, cm_caKey := Some caKey\<rparr>, d')"
  by (rule LoadCA_reads [where caData = "cl_pemEncode lib ''CERTIFICATE'' caCert"
        and keyData = "cl_pemEncode lib ''RSA PRIVATE KEY'' (cl_marshalKey lib caKey)"])
    (use assms saveCA_ok [OF assms(5)] in \<open>auto intro!: readFile_Inr\<close>)

lemma LoadCA_outcome:
  assumes "LoadCA lib now cm d = (None, cm', d')"
  shows "(generateCAUnlocked lib now cm d = (None, cm', d')) \<or>
    (d' = d \<and> (\<exists>caCert caKey. cm' = cm\<lparr>cm_caCert := Some caCert, cm_caKey := Some caKey\<rparr> \<and>
       (\<forall>now2. LoadCA lib now2 cm d = (None, cm', d))))"
  using assms by (auto simp: LoadCA_def split: sum.splits option.splits)

lemma generateCAUnlocked_disk:
  "generateCAUnlocked lib now cm d = (err, cm', d') \<Longrightarrow> dk_readErr d' = dk_readErr d \<and>
     cm_caPath cm' = cm_caPath cm \<and> cm_keyPath cm' = cm_keyPath cm"
  by (auto simp: generateCAUnlocked_def saveCA_def writeFile_def Let_def split: sum.splits prod.splits option.splits)

lemma LoadCA_disk:
  "LoadCA lib now cm d = (err, cm', d') \<Longrightarrow> dk_readErr d' = dk_readErr d \<and>
     cm_caPath cm' = cm_caPath cm \<and> cm_keyPath cm' = cm_keyPath cm"
  by (auto simp: LoadCA_def dest: generateCAUnlocked_disk split: sum.splits option.splits)

text \<open>What a successful start leaves: the loaded CA, or a new one on disk.\<close>

lemma InitCertManager_outcome:
  fixes dir d lib
  defines "cm0 \<equiv> NewCertManager (dir @ ''/ca.crt'') (dir @ ''/ca.key'')"
  assumes "InitCertManager lib now dir d = (Inr cm, d')"
  obtains (loaded) caCert caKey where "d' = d" "cm = cm0\<lparr>cm_caCert := Some caCert, cm_caKey := Some caKey\<rparr>"
      "\<And>now2. LoadCA lib now2 cm0 d = (None, cm, d)"
  | (made) cm1 d1 where "generateCAUnlocked lib now cm1 d1 = (None, cm, d')" "dk_readErr d1 = dk_readErr d"
      "cm_caPath cm1 = cm_caPath cm0" "cm_keyPath cm1 = cm_keyPath cm0"
proof -
  obtain err cm1 d1 where l: "LoadCA lib now cm0 d = (err, cm1, d1)" by (metis prod.exhaust)
  note ld = LoadCA_disk [OF l]
  show ?thesis
  proof (cases err)
    case None
    with l assms have e: "cm1 = cm" "d1 = d'" by (auto simp: InitCertManager_def Let_def)
    show ?thesis using LoadCA_outcome [OF l [unfolded None e]] loaded made [of cm0 d] by auto
  next
    case (Some m)
    with l assms show ?thesis using ld
      by (auto simp: InitCertManager_def Let_def GenerateCA_def split: prod.splits option.splits intro!: made)
  qed
qed

text \<open>C25. The CA survives a restart: after a successful \<open>InitCertManager\<close> (which loads the CA or makes a
  new one) a CA certificate and its key are present, and the next \<open>InitCertManager\<close> on the same files
  returns the same certificate and key and leaves the files alone. The hypotheses are the documented
  behaviour of Go's PEM and DER codecs and that existing files can be read.\<close>

theorem ca_survives_restart:
  assumes pem: "\<forall>t b. cl_pemDecode lib (cl_pemEncode lib t b) = Some b"
    and key: "\<forall>k. cl_parseKey lib (cl_marshalKey lib k) = Inr k"
    and cert: "\<forall>b c. cl_parseCert lib b = Inr c \<longrightarrow> cl_parseCert lib c = Inr c"
    and readable: "\<forall>p. dk_readErr d p = None"
    and init: "InitCertManager lib now dir d = (Inr cm, d')"
  shows "\<exists>cm'. InitCertManager lib now' dir d' = (Inr cm', d') \<and> cm_caCert cm' = cm_caCert cm \<and>
    cm_caKey cm' = cm_caKey cm \<and> cm_caCert cm \<noteq> None \<and> cm_caKey cm \<noteq> None"
  using init
proof (cases rule: InitCertManager_outcome)
  case (loaded caCert caKey)
  then show ?thesis using InitCertManager_loads by auto
next
  case (made cm1 d1)
  let ?cm0 = "NewCertManager (dir @ ''/ca.crt'') (dir @ ''/ca.key'')"
  from made(1) obtain der caCert caKey where g: "cl_parseCert lib der = Inr caCert"
      "cm = cm1\<lparr>cm_gens := cm_gens cm1 + 1, cm_caCert := Some caCert, cm_caKey := Some caKey\<rparr>"
      "saveCA lib caCert caKey (cm1\<lparr>cm_gens := cm_gens cm1 + 1\<rparr>) d1 = (None, d')"
    by (rule generateCAUnlocked_ok)
  have "LoadCA lib now' ?cm0 d' = (None, ?cm0\<lparr>cm_caCert := Some caCert, cm_caKey := Some caKey\<rparr>, d')"
    by (rule saved_CA_loads [OF pem key _ _ g(3)])
      (use made cert g(1) readable in \<open>auto simp: NewCertManager_def\<close>)
  then show ?thesis using g(2) by (simp add: InitCertManager_loads)
qed

definition exampleCrypto :: cryptoLib where
  "exampleCrypto = \<lparr>cl_genKey = (\<lambda>n. Inr (n + 7)), cl_createCert = (\<lambda>_ k. Inr [of_nat k]), cl_parseCert = Inr,
     cl_marshalKey = (\<lambda>k. replicate k 0), cl_parseKey = (\<lambda>b. Inr (length b)), cl_pemEncode = (\<lambda>_ b. 45 # b),
     cl_pemDecode = (\<lambda>b. case b of [] \<Rightarrow> None | _ # r \<Rightarrow> Some r)\<rparr>"

definition emptyDisk :: disk where
  "emptyDisk = \<lparr>dk_files = Map.empty, dk_createErr = (\<lambda>_. None), dk_writeErr = (\<lambda>_. None), dk_readErr = (\<lambda>_. None)\<rparr>"

theorem ca_survives_restart_witness:
  "\<exists>cm d' cm'. InitCertManager exampleCrypto 0 ''cert'' emptyDisk = (Inr cm, d') \<and>
     InitCertManager exampleCrypto 5 ''cert'' d' = (Inr cm', d') \<and> cm_caCert cm' = Some [7] \<and> cm_caKey cm' = Some 7"
proof -
  obtain cm d' where i: "InitCertManager exampleCrypto 0 ''cert'' emptyDisk = (Inr cm, d')"
    and c: "cm_caCert cm = Some [7]" "cm_caKey cm = Some 7"
    by (simp add: InitCertManager_def LoadCA_def readFile_def generateCAUnlocked_def saveCA_def writeFile_def
        exampleCrypto_def emptyDisk_def NewCertManager_def Let_def)
  have "\<exists>cm'. InitCertManager exampleCrypto 5 ''cert'' d' = (Inr cm', d') \<and> cm_caCert cm' = cm_caCert cm \<and>
    cm_caKey cm' = cm_caKey cm \<and> cm_caCert cm \<noteq> None \<and> cm_caKey cm \<noteq> None"
    by (rule ca_survives_restart [OF _ _ _ _ i]) (simp_all add: exampleCrypto_def emptyDisk_def)
  with i c show ?thesis by auto
qed

section \<open>Leaf certificates\<close>

lemma generateCert_cached:
  "cache (normalizeHost host) = Some c \<Longrightarrow> generateCert sign now host cache = (Inr c, cache)"
  by (simp add: generateCert_def)

text \<open>A leaf certificate is issued for 24 hours but cached for the life of the process: a certificate
  issued for a host at one time is handed out again at any later time, also when its validity has
  ended; only clearing the cache makes the proxy issue a new, valid one.\<close>

theorem cached_leaf_outlives_validity:
  assumes "cache (normalizeHost host) = None" "sign (leafTemplateAt now (normalizeHost host)) = Inr der"
    and "generateCert sign now host cache = (r, cache')"
    and "now + 24 * hourNs < later" "sign (leafTemplateAt later (normalizeHost host)) = Inr der2"
  shows "\<exists>c. r = Inr c \<and> generateCert sign later host cache' = (Inr c, cache') \<and>
      lt_NotAfter (mc_template c) < later \<and> lt_DNSNames (mc_template c) = [normalizeHost host] \<and>
      (case generateCert sign later host (ClearCertCache cache') of
         (Inr c2, _) \<Rightarrow> later < lt_NotAfter (mc_template c2) | (Inl _, _) \<Rightarrow> False)"
proof -
  let ?c = "\<lparr>mc_template = leafTemplateAt now (normalizeHost host), mc_chain = der\<rparr>"
  have r: "r = Inr ?c" "cache' = cache(normalizeHost host \<mapsto> ?c)"
    using assms(1-3) by (auto simp: generateCert_def Let_def)
  then have "generateCert sign later host cache' = (Inr ?c, cache')" by (simp add: generateCert_cached)
  then show ?thesis using r assms(4,5)
    by (intro exI [of _ ?c]) (simp add: leafTemplateAt_def generateCert_def ClearCertCache_def Let_def hourNs_def)
qed

theorem cached_leaf_outlives_validity_witness:
  "\<exists>c cache'. generateCert (\<lambda>t. Inr [1]) 0 ''example.org'' Map.empty = (Inr c, cache') \<and>
     generateCert (\<lambda>t. Inr [1]) (25 * hourNs) ''example.org'' cache' = (Inr c, cache') \<and> lt_NotAfter (mc_template c) < 25 * hourNs"
proof -
  obtain r cache' where g: "generateCert (\<lambda>t. Inr [1]) 0 ''example.org'' Map.empty = (r, cache')" by fastforce
  have "0 + 24 * hourNs < 25 * hourNs" by (simp add: hourNs_def)
  from cached_leaf_outlives_validity [OF _ _ g this] g show ?thesis by auto
qed

end
