(* ===== verification/Dialing.thy ===== *)
theory Dialing
  imports Rule_Edit Cf_Pool
begin

text \<open>
  From a rule to the addresses that are dialled and the server name that is sent (\<open>src/proxy/proxy.go\<close>):
  upstream templates, candidate lists, the DNS mode, the Cloudflare pool, the two stages of rule
  matching before a CONNECT is served. The DoH resolver is a parameter (\<open>None\<close>: no resolver; the
  resolver returns \<open>None\<close> on an error).
\<close>

section \<open>net.IP.String\<close>

fun hexDigits :: "nat \<Rightarrow> string" where
  "hexDigits n = (let d = n mod 16; c = char_of (if d < 10 then 48 + d else 87 + d) in
     if n < 16 then [c] else hexDigits (n div 16) @ [c])"

declare hexDigits.simps [simp del]

fun groups16 :: "nat list \<Rightarrow> nat list" where
  "groups16 (a # b # rest) = (256 * a + b) # groups16 rest"
| "groups16 _ = []"

definition zeroRun :: "nat list \<Rightarrow> nat \<Rightarrow> nat" where
  "zeroRun gs i = length (takeWhile (\<lambda>g. g = 0) (drop i gs))"

text \<open>The first longest run of at least two zero groups, as start and end.\<close>

definition longestZeros :: "nat list \<Rightarrow> (nat \<times> nat) option" where
  "longestZeros gs = fold (\<lambda>i best.
      let l = zeroRun gs i; m = (case best of None \<Rightarrow> 0 | Some (s, e) \<Rightarrow> e - s) in
      if 2 \<le> l \<and> m < l then Some (i, i + l) else best) [0..<8] None"

definition ip6String :: "nat list \<Rightarrow> string" where
  "ip6String gs =
     (case longestZeros gs of
        None \<Rightarrow> Join (map hexDigits gs) '':''
      | Some (s, e) \<Rightarrow> Join (map hexDigits (take s gs)) '':'' @ ''::'' @ Join (map hexDigits (drop e gs)) '':'')"

definition IPString :: "ip \<Rightarrow> string" where
  "IPString a =
     (if a = [] then ''<nil>''
      else case To4 a of
        Some v4 \<Rightarrow> Join (map Itoa v4) ''.''
      | None \<Rightarrow> if length a = 16 then ip6String (groups16 a) else ''?'' @ concat (map (\<lambda>b. (if b < 16 then ''0'' else '''') @ hexDigits b) a))"

section \<open>Upstream templates and candidates\<close>

definition resolveUpstreamHost :: "string \<Rightarrow> string \<Rightarrow> string" where
  "resolveUpstreamHost targetHost upstream0 =
     (let upstream = TrimSpace upstream0 in
      if upstream = '''' then ''''
      else if Contains upstream ''$1'' then
        let firstLabel = (case Index targetHost ''.'' of
              Some i \<Rightarrow> if 0 < i then take i targetHost else targetHost | None \<Rightarrow> targetHost)
        in ReplaceAll upstream ''$1'' firstLabel
      else upstream)"

definition resolveRuleUpstream :: "string \<Rightarrow> rule \<Rightarrow> string" where
  "resolveRuleUpstream targetHost rule =
     (let resolved = resolveUpstreamHost targetHost (r_Upstream rule); trimmed = TrimSpace resolved in
      if trimmed = '''' \<and> r_Upstreams rule \<noteq> [] then Join (r_Upstreams rule) '',''
      else
        let low = ToLower trimmed in
        if HasPrefix low ''$backend_ip'' \<or> HasPrefix low ''$upstream_host'' \<or> HasPrefix trimmed ''$'' then
          if r_Upstreams rule \<noteq> [] then Join (r_Upstreams rule) '','' else JoinHostPort targetHost ''443''
        else resolved)"

text \<open>The loop of \<open>splitUpstreamCandidates\<close> and of \<open>dedupeDialCandidates\<close>: the nonempty addresses, each
  once, in order of first occurrence.\<close>

fun dedupeLoop :: "string list \<Rightarrow> string list \<Rightarrow> string list" where
  "dedupeLoop [] out = out"
| "dedupeLoop (addr # rest) out =
     (if addr = '''' \<or> addr \<in> set out then dedupeLoop rest out else dedupeLoop rest (out @ [addr]))"

definition splitUpstreamCandidates :: "string \<Rightarrow> string \<Rightarrow> string \<Rightarrow> string list" where
  "splitUpstreamCandidates targetHost upstream defaultPort =
     (let resolved = resolveUpstreamHost targetHost upstream in
      if resolved = '''' then []
      else dedupeLoop (map (\<lambda>p. ensureAddrWithPort (TrimSpace p) defaultPort) (Split (CHR '','') resolved)) [])"

definition firstUpstreamHost :: "string \<Rightarrow> string \<Rightarrow> string" where
  "firstUpstreamHost targetHost upstream =
     (case splitUpstreamCandidates targetHost upstream ''443'' of
        [] \<Rightarrow> ''''
      | c # _ \<Rightarrow> (case SplitHostPort c of None \<Rightarrow> normalizeHost c | Some (host, _) \<Rightarrow> normalizeHost host))"

definition dedupeDialCandidates :: "string list \<Rightarrow> string list" where
  "dedupeDialCandidates candidates = dedupeLoop (map TrimSpace candidates) []"

text \<open>A nil address is the empty byte list.\<close>

definition reorderIPsByDNSMode :: "ip list \<Rightarrow> string \<Rightarrow> ip list" where
  "reorderIPsByDNSMode ips mode0 =
     (let mode = normalizeDNSMode mode0 in
      if mode = '''' then ips
      else
        let present = filter (\<lambda>a. a \<noteq> []) ips;
            v4s = filter (\<lambda>a. To4 a \<noteq> None) present; v6s = filter (\<lambda>a. To4 a = None) present in
        if mode = ''prefer_ipv4'' then v4s @ v6s
        else if mode = ''prefer_ipv6'' then v6s @ v4s
        else if mode = ''ipv4_only'' then v4s
        else if mode = ''ipv6_only'' then v6s
        else ips)"

definition resolveDomainCandidates :: "ip_resolver option \<Rightarrow> string \<Rightarrow> string \<Rightarrow> string \<Rightarrow> string list" where
  "resolveDomainCandidates resolver host0 port dnsMode =
     (let host = normalizeHost host0 in
      if host = '''' \<or> isLiteralIP host then []
      else case resolver of
        None \<Rightarrow> []
      | Some res \<Rightarrow>
          (case res host of
             None \<Rightarrow> []
           | Some ips \<Rightarrow>
               dedupeDialCandidates (map (\<lambda>a. JoinHostPort (IPString a) port) (reorderIPsByDNSMode ips dnsMode))))"

text \<open>\<open>pool\<close> is the answer of \<open>cfPool.GetTopIPs(5)\<close>, \<open>None\<close> when there is no pool.\<close>

definition buildDialCandidates ::
    "ip_resolver option \<Rightarrow> string list option \<Rightarrow> string \<Rightarrow> string \<Rightarrow> rule \<Rightarrow> string \<Rightarrow> string list" where
  "buildDialCandidates resolver pool targetHost targetAddr rule effectiveMode =
     (let resolvedUpstream = resolveRuleUpstream targetHost rule;
          isWarpRoute = EqualFold (TrimSpace (r_Upstream rule)) ''warp'';
          direct = resolveDomainCandidates resolver targetHost ''443'' (r_DNSMode rule);
          orTarget = (\<lambda>cs. if cs \<noteq> [] then cs else [targetAddr])
      in
      if isWarpRoute then orTarget direct
      else if effectiveMode \<in> {''mitm'', ''transparent'', ''tls-rf'', ''quic''} then
        if TrimSpace resolvedUpstream \<noteq> '''' then
          let upstreamCandidates = splitUpstreamCandidates targetHost resolvedUpstream ''443'' in
          if upstreamCandidates = [] then [targetAddr]
          else
            let firstHost = firstUpstreamHost targetHost resolvedUpstream;
                resolved = (if firstHost \<noteq> '''' \<and> \<not> isLiteralIP firstHost
                            then resolveDomainCandidates resolver firstHost ''443'' (r_DNSMode rule) else [])
            in if resolved \<noteq> [] then resolved else upstreamCandidates
        else
          let topIPs = (if r_UseCFPool rule then (case pool of Some ips \<Rightarrow> ips | None \<Rightarrow> []) else []) in
          if topIPs \<noteq> [] then dedupeDialCandidates (map (\<lambda>ip. JoinHostPort ip ''443'') topIPs)
          else orTarget direct
      else [targetAddr])"

section \<open>The server name sent upstream\<close>

definition chooseUpstreamSNI :: "string \<Rightarrow> rule \<Rightarrow> string" where
  "chooseUpstreamSNI targetHost0 rule =
     (let targetHost = normalizeHost targetHost0;
          token = TrimSpace (ReplaceAll (ReplaceAll (Trim targetHost ''[]'') ''.'' ''-'') '':'' ''-'');
          hostAsToken = (if token = '''' then ''g-cn'' else token);
          resolvedUpstream = resolveRuleUpstream targetHost rule;
          policy = ToLower (TrimSpace (r_SniPolicy rule));
          upstreamHost = firstUpstreamHost targetHost resolvedUpstream
      in
      if policy = ''none'' then ''''
      else if policy = ''original'' then targetHost
      else if policy = ''fake'' then
        (if TrimSpace (r_SniFake rule) \<noteq> '''' then r_SniFake rule
         else if r_ECHEnabled rule then targetHost else hostAsToken)
      else if policy = ''upstream'' then
        (if upstreamHost \<noteq> '''' \<and> \<not> isLiteralIP upstreamHost then upstreamHost else targetHost)
      else if TrimSpace (r_SniFake rule) \<noteq> '''' then r_SniFake rule
      else if resolvedUpstream \<noteq> '''' \<and> upstreamHost \<noteq> '''' \<and> \<not> isLiteralIP upstreamHost
              \<and> upstreamHost \<noteq> targetHost then upstreamHost
      else targetHost)"

section \<open>Preparing a CONNECT\<close>

record connectResult =
  cr_conn :: "string option"
  cr_dialCandidates :: "string list"
  cr_dialAddr :: string
  cr_effectiveMode :: string
  cr_targetHost :: string
  cr_targetAddr :: string
  cr_rule :: rule

text \<open>The matcher of the rule manager with its environment fixed: the rule for a host and a mode, and
  the router afterwards.\<close>

type_synonym matcher = "autoRouter option \<Rightarrow> string \<Rightarrow> string \<Rightarrow> rule \<times> (string \<times> string) \<times> autoRouter option"

definition policyMode :: "rule \<Rightarrow> string" where
  "policyMode rule =
     (let policy = ToLower (TrimSpace (r_ConnectPolicy rule)) in
      if policy = ''tunnel_origin'' \<or> policy = ''tunnel_upstream'' then ''transparent''
      else if policy = ''mitm'' then ''mitm''
      else if policy = ''direct'' then ''direct''
      else r_Mode rule)"

definition policyUpstream :: "string \<Rightarrow> rule \<Rightarrow> string" where
  "policyUpstream targetHost rule =
     (let policy = ToLower (TrimSpace (r_ConnectPolicy rule)) in
      if policy = ''tunnel_origin'' \<or> policy = ''direct'' then '''' else resolveRuleUpstream targetHost rule)"

definition prepareConnect ::
    "matcher \<Rightarrow> autoRouter option \<Rightarrow> string \<Rightarrow> string \<Rightarrow> rule
       \<Rightarrow> connectResult \<times> (string \<times> string) list \<times> autoRouter option" where
  "prepareConnect match router targetHost targetAddr rule =
     (let effectiveMode = policyMode rule; resolvedUpstream = policyUpstream targetHost rule;
          result = (\<lambda>r. \<lparr>cr_conn = None, cr_dialCandidates = [], cr_dialAddr = '''', cr_effectiveMode = effectiveMode,
             cr_targetHost = targetHost, cr_targetAddr = targetAddr, cr_rule = r\<rparr>)
      in
      if (effectiveMode = ''mitm'' \<or> effectiveMode = ''transparent'') \<and> TrimSpace resolvedUpstream \<noteq> '''' then
        let upHost = firstUpstreamHost targetHost resolvedUpstream in
        if upHost \<noteq> '''' then
          let (upRule, ev, router') = match router upHost effectiveMode in
          (result (if r_SiteID upRule \<noteq> '''' then mergeRule rule upRule else rule), [ev], router')
        else (result rule, [], router)
      else (result rule, [], router))"

text \<open>\<open>dial\<close> gives the error of a TCP connection to an address, \<open>None\<close> when it succeeds. The loop over
  more than one candidate reports to the Cloudflare pool, the one over a single candidate does not.
  The third component lists the pool reports.\<close>

datatype poolReport = PoolFailure string | PoolSuccess string

definition reportFor :: "(string \<Rightarrow> poolReport) \<Rightarrow> bool \<Rightarrow> rule \<Rightarrow> string \<Rightarrow> poolReport list" where
  "reportFor kind hasPool rule addr =
     (if r_UseCFPool rule \<and> hasPool then
        (case SplitHostPort addr of Some (host, _) \<Rightarrow> if host \<noteq> '''' then [kind host] else [] | None \<Rightarrow> [])
      else [])"

fun dialLoop :: "(string \<Rightarrow> string option) \<Rightarrow> bool \<Rightarrow> rule \<Rightarrow> string list \<Rightarrow> string option
    \<Rightarrow> (string + string) \<times> poolReport list" where
  "dialLoop dial hasPool rule [] lastErr = (Inl (case lastErr of Some e \<Rightarrow> e | None \<Rightarrow> ''''), [])"
| "dialLoop dial hasPool rule (addr # rest) lastErr =
     (case dial addr of
        None \<Rightarrow> (Inr addr, reportFor PoolSuccess hasPool rule addr)
      | Some e \<Rightarrow>
          let (res, reports) = dialLoop dial hasPool rule rest (Some e)
          in (res, reportFor PoolFailure hasPool rule addr @ reports))"

definition dialUpstream ::
    "ip_resolver option \<Rightarrow> string list option \<Rightarrow> (string \<Rightarrow> string option) \<Rightarrow> connectResult
       \<Rightarrow> string option \<times> connectResult \<times> poolReport list" where
  "dialUpstream resolver pool dial cr =
     (let cands0 = buildDialCandidates resolver pool (cr_targetHost cr) (cr_targetAddr cr) (cr_rule cr) (cr_effectiveMode cr);
          cands = (if cands0 = [] then [cr_targetAddr cr] else cands0);
          cr1 = cr\<lparr>cr_dialCandidates := cands, cr_dialAddr := hd cands\<rparr>
      in
      if 1 < length cands then
        (case dialLoop dial (pool \<noteq> None) (cr_rule cr) cands None of
           (Inr addr, reports) \<Rightarrow> (None, cr1\<lparr>cr_dialAddr := addr, cr_conn := Some addr\<rparr>, reports)
         | (Inl e, reports) \<Rightarrow> (Some e, cr1, reports))
      else
        (case dial (hd cands) of
           None \<Rightarrow> (None, cr1\<lparr>cr_dialAddr := hd cands, cr_conn := Some (hd cands)\<rparr>, [])
         | Some e \<Rightarrow> (Some (''all upstream connect attempts failed: ['' @ Join cands '' '' @ '']''), cr1, [])))"

end
