(* ===== verification/Upstream_TLS.thy ===== *)
theory Upstream_TLS
  imports Dialing
begin

text \<open>
  The TLS side of an upstream connection (\<open>src/proxy/proxy.go\<close>): the client configuration with fake
  SNI, ECH and certificate checks, the ECH configuration of a rule, the loop that dials and shakes
  hands with each candidate, and its fallback. The uTLS library is a parameter: a handshake maps an
  address and a client configuration to its outcome. The ECH lookups of the DoH resolver
  (\<open>ResolveECH\<close> and \<open>ResolveECHSafe\<close>, theory \<open>Doh\<close>) are parameters too.
\<close>

section \<open>Client configurations\<close>

datatype clientHelloID = HelloFirefox_120 | HelloChrome_120

definition chooseUTLSClientHelloID :: "string \<Rightarrow> clientHelloID" where
  "chooseUTLSClientHelloID alpn = (if EqualFold (TrimSpace alpn) ''http/1.1'' then HelloFirefox_120 else HelloChrome_120)"

definition nextProtosForNegotiatedALPN :: "string \<Rightarrow> string list" where
  "nextProtosForNegotiatedALPN alpn = (if EqualFold (TrimSpace alpn) ''h2'' then [''h2''] else [''http/1.1''])"

text \<open>A ClientHello template: its extensions, of which only ALPN matters here. A nil template stays
  as it is.\<close>

datatype helloExt = ALPNExtension "string list" | OtherExtension nat

fun rewriteALPNExts :: "helloExt list \<Rightarrow> string list \<Rightarrow> helloExt list" where
  "rewriteALPNExts [] nextProtos = [ALPNExtension nextProtos]"
| "rewriteALPNExts (ALPNExtension _ # exts) nextProtos = ALPNExtension nextProtos # exts"
| "rewriteALPNExts (OtherExtension n # exts) nextProtos = OtherExtension n # rewriteALPNExts exts nextProtos"

definition rewriteUTLSALPN :: "helloExt list option \<Rightarrow> string list \<Rightarrow> helloExt list option" where
  "rewriteUTLSALPN spec nextProtos = map_option (\<lambda>exts. rewriteALPNExts exts nextProtos) spec"

text \<open>The configuration that \<open>GetUConn\<close> hands to uTLS. \<open>uc_preset\<close> is the template applied
  (\<open>Inl\<close>: the template with rewritten ALPN, \<open>Inr\<close>: the plain named template).\<close>

type_synonym conn_verifier = "x509Cert list \<Rightarrow> verifyError option"

record uconnConfig =
  uc_ServerName :: string
  uc_InsecureSkipVerify :: bool
  uc_ECHConfigList :: bytes
  uc_NextProtos :: "string list"
  uc_VerifyConnection :: "conn_verifier option"
  uc_InsecureServerNameToVerify :: string
  uc_preset :: "helloExt list + clientHelloID"

text \<open>\<open>idToSpec\<close> is \<open>utls.UTLSIdToSpec\<close>, \<open>applies\<close> tells whether \<open>ApplyPreset\<close> succeeds; the key hash and
  the x509 chain verification are the parameters of \<open>buildVerifyConnection\<close>.\<close>

record utlsLib =
  ul_idToSpec :: "clientHelloID \<Rightarrow> helloExt list option"
  ul_applies :: "helloExt list \<Rightarrow> bool"
  ul_spkiHash :: "bytes \<Rightarrow> string"
  ul_chain :: chain_verifier

definition GetUConn ::
    "utlsLib \<Rightarrow> (string \<Rightarrow> bool) \<Rightarrow> string \<Rightarrow> string \<Rightarrow> rule \<Rightarrow> bool \<Rightarrow> string \<Rightarrow> bytes \<Rightarrow> uconnConfig" where
  "GetUConn lib certBypass sni verifyName rule allowInsecure alpn echConfig =
     (let nextProtos = (if EqualFold (TrimSpace alpn) ''http/1.1'' then [''http/1.1''] else [''h2'', ''http/1.1'']);
          verifyConn = buildVerifyConnection (ul_spkiHash lib) (ul_chain lib) verifyName (r_CertVerify rule);
          serverName = (if echConfig \<noteq> [] then verifyName else if sni = '''' then verifyName else sni);
          skip1 = (if cv_Mode (r_CertVerify rule) \<noteq> '''' then True else allowInsecure);
          (skip2, verify2) = (if certBypass (normalizeHost verifyName) then (True, None) else (skip1, verifyConn));
          (skip3, verify3) = (if echConfig \<noteq> [] then (False, None) else (skip2, verify2));
          helloID = chooseUTLSClientHelloID alpn;
          preset = (case ul_idToSpec lib helloID of
             None \<Rightarrow> Inr helloID
           | Some exts \<Rightarrow> (let spec = rewriteALPNExts exts nextProtos in
                if ul_applies lib spec then Inl spec else Inr helloID))
      in \<lparr>uc_ServerName = serverName, uc_InsecureSkipVerify = skip3, uc_ECHConfigList = echConfig,
          uc_NextProtos = nextProtos, uc_VerifyConnection = verify3,
          uc_InsecureServerNameToVerify = (if echConfig \<noteq> [] then ''*'' else ''''), uc_preset = preset\<rparr>)"

section \<open>ECH configuration of a rule\<close>

text \<open>\<open>fetch\<close> is the DoH resolver's ECH lookup (\<open>None\<close>: no resolver; \<open>Inl\<close>: an error). The rule
  manager changes when a fetched configuration is stored in the rule's profile; \<open>io\<close> is the outcome
  of that write.\<close>

type_synonym ech_fetch = "(string \<Rightarrow> string + bytes) option"

definition FetchECH :: "ech_fetch \<Rightarrow> string \<Rightarrow> string + bytes" where
  "FetchECH fetch domain =
     (case fetch of
        None \<Rightarrow> Inl ''no DoH resolver available''
      | Some f \<Rightarrow> f domain)"

definition resolveRuleECHConfig :: "ech_fetch \<Rightarrow> io \<Rightarrow> string \<Rightarrow> rule \<Rightarrow> ruleManager \<Rightarrow> bytes \<times> ruleManager" where
  "resolveRuleECHConfig fetch io host rule rm =
     (if \<not> r_ECHEnabled rule then ([], rm)
      else
        let manual = (if r_ECHProfileID rule \<noteq> '''' then GetBinaryECHConfig rm (r_ECHProfileID rule) else []) in
        if manual \<noteq> [] then (manual, rm)
        else if r_ECHAutoUpdate rule then
          let d = TrimSpace (r_ECHDiscoveryDomain rule); lookupDomain = (if d = '''' then host else d) in
          (case FetchECH fetch lookupDomain of
             Inl _ \<Rightarrow> ([], rm)
           | Inr c \<Rightarrow>
               if c = [] then ([], rm)
               else (c, if r_ECHProfileID rule \<noteq> '''' then snd (UpdateECHProfileConfig io (r_ECHProfileID rule) c rm) else rm))
        else ([], rm))"

section \<open>Establishing the connection\<close>

text \<open>The network: the outcome of the \<open>n\<close>-th dial of the call and of the handshake on it. A rejected
  ECH carries the server's retry configurations, which the code does not use.\<close>

datatype handshake = HandshakeOK string | HandshakeErr string | ECHRejected string bytes

record upstreamNet =
  un_dial :: "nat \<Rightarrow> string \<Rightarrow> string option"
  un_handshake :: "nat \<Rightarrow> string \<Rightarrow> uconnConfig \<Rightarrow> handshake"
  un_lib :: utlsLib
  un_certBypass :: "string \<Rightarrow> bool"
  un_fetchECH :: ech_fetch
  un_fetchECHSafe :: "string \<Rightarrow> bytes option"
  un_io :: io
  un_hasPool :: bool

text \<open>What the call leaves behind: the number of dials so far, the rule manager, the pool reports, the
  raw connections that were opened and not closed, and the configurations offered.\<close>

record upState =
  us_dials :: nat
  us_rules :: ruleManager
  us_reports :: "poolReport list"
  us_open :: "string list"
  us_offered :: "(string \<times> uconnConfig) list"

datatype attemptResult = Connected string string | NextCandidate string | RetrySame

text \<open>One attempt on an address: \<open>retryAllowed\<close> holds for the first one.\<close>

definition tryAddr ::
    "upstreamNet \<Rightarrow> string \<Rightarrow> rule \<Rightarrow> string \<Rightarrow> string \<Rightarrow> string \<Rightarrow> bool \<Rightarrow> upState \<Rightarrow> attemptResult \<times> upState" where
  "tryAddr net host rule sniHost alpn addr retryAllowed st =
     (let (echConfig, rm) = (if r_ECHEnabled rule
             then resolveRuleECHConfig (un_fetchECH net) (un_io net) host rule (us_rules st) else ([], us_rules st));
          n = us_dials st;
          st1 = st\<lparr>us_rules := rm, us_dials := n + 1\<rparr>;
          failed = (\<lambda>s. s\<lparr>us_reports := us_reports s @ reportFor PoolFailure (un_hasPool net) rule addr\<rparr>)
      in case un_dial net n addr of
           Some e \<Rightarrow> (NextCandidate (addr @ '' dial: '' @ e), failed st1)
         | None \<Rightarrow>
             let cfg = GetUConn (un_lib net) (un_certBypass net) sniHost host rule (echConfig = []) alpn echConfig;
                 st2 = st1\<lparr>us_offered := us_offered st @ [(addr, cfg)]\<rparr>
             in case un_handshake net n addr cfg of
                  HandshakeOK proto \<Rightarrow>
                    (Connected addr proto, st2\<lparr>us_open := us_open st @ [addr],
                       us_reports := us_reports st @ reportFor PoolSuccess (un_hasPool net) rule addr\<rparr>)
                | HandshakeErr e \<Rightarrow> (NextCandidate (addr @ '' utls: '' @ e), failed st2)
                | ECHRejected e _ \<Rightarrow>
                    let lookupDomain = (if r_ECHDiscoveryDomain rule = '''' then host else r_ECHDiscoveryDomain rule);
                        refreshed = (if retryAllowed \<and> r_ECHEnabled rule then
                           (case un_fetchECH net of None \<Rightarrow> None | Some _ \<Rightarrow> un_fetchECHSafe net lookupDomain) else None)
                    in case refreshed of
                         Some c \<Rightarrow>
                           if c \<noteq> [] then
                             (RetrySame, st2\<lparr>us_rules :=
                                (if r_ECHProfileID rule \<noteq> ''''
                                 then snd (UpdateECHProfileConfig (un_io net) (r_ECHProfileID rule) c rm) else rm)\<rparr>)
                           else (NextCandidate (addr @ '' utls: '' @ e), failed st2)
                       | None \<Rightarrow> (NextCandidate (addr @ '' utls: '' @ e), failed st2))"

text \<open>The loop over the candidates, with at most two attempts on each. When the second attempt is not
  the last word (it always is) the loop would move on without an error.\<close>

fun candidateLoop ::
    "upstreamNet \<Rightarrow> string \<Rightarrow> rule \<Rightarrow> string \<Rightarrow> string \<Rightarrow> string list \<Rightarrow> string list \<Rightarrow> upState
       \<Rightarrow> (string list + string \<times> string) \<times> upState" where
  "candidateLoop net host rule sniHost alpn [] errs st = (Inl errs, st)"
| "candidateLoop net host rule sniHost alpn (addr # rest) errs st =
     (case tryAddr net host rule sniHost alpn addr True st of
        (Connected a proto, st') \<Rightarrow> (Inr (a, proto), st')
      | (NextCandidate e, st') \<Rightarrow> candidateLoop net host rule sniHost alpn rest (errs @ [e]) st'
      | (RetrySame, st') \<Rightarrow>
          (case tryAddr net host rule sniHost alpn addr False st' of
             (Connected a proto, st'') \<Rightarrow> (Inr (a, proto), st'')
           | (NextCandidate e, st'') \<Rightarrow> candidateLoop net host rule sniHost alpn rest (errs @ [e]) st''
           | (RetrySame, st'') \<Rightarrow> candidateLoop net host rule sniHost alpn rest errs st''))"

definition fallbackOf :: "rule \<Rightarrow> string" where
  "fallbackOf rule = ToLower (TrimSpace (r_FallbackMode rule))"

text \<open>\<open>establishUpstreamConn\<close>: on failure it calls itself for the fallback mode; the measure is
  whether a fallback is left.\<close>

function establishUpstreamConn ::
    "upstreamNet \<Rightarrow> string \<Rightarrow> rule \<Rightarrow> string list \<Rightarrow> string \<Rightarrow> upState
       \<Rightarrow> (string + string \<times> string) \<times> upState" where
  "establishUpstreamConn net host rule dialCandidates initialALPN st =
     (let ordered = (if dialCandidates = [] then [JoinHostPort host ''443''] else dialCandidates);
          sniHost = chooseUpstreamSNI host rule;
          alpn = (if initialALPN = '''' then ''h2_h1'' else initialALPN)
      in case candidateLoop net host rule sniHost alpn ordered [] st of
           (Inr ok, st') \<Rightarrow> (Inr ok, st')
         | (Inl errs, st') \<Rightarrow>
             if errs = [] then (Inl ''all candidates failed with unknown error'', st')
             else if (fallbackOf rule = ''tls-rf'' \<or> fallbackOf rule = ''quic'') \<and> fallbackOf rule \<noteq> r_Mode rule then
               establishUpstreamConn net host (rule\<lparr>r_Mode := fallbackOf rule, r_ECHEnabled := False\<rparr>)
                 dialCandidates initialALPN st'
             else (Inl (''all candidates failed: '' @ Join errs ''; ''), st'))"
  by pat_completeness auto
termination
  by (relation "measure (\<lambda>(_, _, rule, _). if fallbackOf rule = r_Mode rule then 0 else 1)")
    (auto simp: fallbackOf_def)

declare establishUpstreamConn.simps [simp del]

section \<open>HTTP/3\<close>

text \<open>The configuration of the HTTP/3 transport: candidates, TLS settings and whether the certificate
  callback is installed.\<close>

record quicTransport =
  qt_candidates :: "string list"
  qt_ServerName :: string
  qt_NextProtos :: "string list"
  qt_InsecureSkipVerify :: bool
  qt_ECHConfigList :: bytes
  qt_VerifyConnection :: "conn_verifier option"

definition newQUICRoundTripper ::
    "utlsLib \<Rightarrow> ip_resolver option \<Rightarrow> string list option \<Rightarrow> ech_fetch \<Rightarrow> io \<Rightarrow> string \<Rightarrow> rule \<Rightarrow> ruleManager
       \<Rightarrow> quicTransport \<times> ruleManager" where
  "newQUICRoundTripper lib resolver pool fetch io host rule rm =
     (let targetAddr = JoinHostPort host ''443'';
          cands0 = buildDialCandidates resolver pool host targetAddr rule ''quic'';
          cands = (if cands0 = [] then [targetAddr] else cands0);
          sni0 = chooseUpstreamSNI host rule;
          sniHost = (if sni0 = '''' then host else sni0);
          (echConfig, rm') = (if r_ECHEnabled rule then resolveRuleECHConfig fetch io host rule rm else ([], rm));
          innerSNI = (if echConfig = [] then sniHost else host);
          verifyConn = buildVerifyConnection (ul_spkiHash lib) (ul_chain lib) host (r_CertVerify rule)
      in (\<lparr>qt_candidates = cands, qt_ServerName = innerSNI, qt_NextProtos = [''h3'', ''h3-29'', ''h3-32''],
           qt_InsecureSkipVerify = (echConfig = []), qt_ECHConfigList = echConfig,
           qt_VerifyConnection = (if echConfig = [] then verifyConn else None)\<rparr>, rm'))"

text \<open>The dial function of the transport: the first candidate that answers.\<close>

fun quicDial :: "(string \<Rightarrow> string option) \<Rightarrow> string \<Rightarrow> string list \<Rightarrow> string list \<Rightarrow> string + string" where
  "quicDial dial host [] errs =
     (if errs = [] then Inl (''no QUIC dial candidates for '' @ host)
      else Inl (''all QUIC dial candidates failed for '' @ host @ '': '' @ Join errs ''; ''))"
| "quicDial dial host (c # cs) errs =
     (case dial c of None \<Rightarrow> Inr c | Some e \<Rightarrow> quicDial dial host cs (errs @ [c @ '': '' @ e]))"

end
