(* ===== verification/Upstream_TLS_Correct.thy ===== *)
theory Upstream_TLS_Correct
  imports Upstream_TLS Rule_Manager_Correct
begin

text \<open>
  Properties of the upstream connection loop: it leaks no connection and dials a bounded number of
  times, a rejected ECH configuration is replaced and the fresh one is offered, and what the
  fallback really offers.
\<close>

section \<open>Configurations\<close>

lemma GetUConn_ech:
  assumes "ech \<noteq> []"
  shows "uc_ServerName (GetUConn lib bp sni name rule ins alpn ech) = name"
    "\<not> uc_InsecureSkipVerify (GetUConn lib bp sni name rule ins alpn ech)"
    "uc_ECHConfigList (GetUConn lib bp sni name rule ins alpn ech) = ech"
    "uc_InsecureServerNameToVerify (GetUConn lib bp sni name rule ins alpn ech) = ''*''"
  using assms by (simp_all add: GetUConn_def Let_def)

lemma GetUConn_plain:
  "uc_ServerName (GetUConn lib bp sni name rule True alpn []) = (if sni = '''' then name else sni)"
  "uc_InsecureSkipVerify (GetUConn lib bp sni name rule True alpn [])"
  "uc_ECHConfigList (GetUConn lib bp sni name rule True alpn []) = []"
  by (simp_all add: GetUConn_def Let_def)


section \<open>One attempt\<close>

lemma tryAddr_cases:
  assumes "tryAddr net host rule sni alpn addr retry st = (r, st')"
  shows "us_open st' = us_open st @ (case r of Connected a _ \<Rightarrow> [a] | _ \<Rightarrow> []) \<and>
    us_dials st' = Suc (us_dials st) \<and> (\<forall>a proto. r = Connected a proto \<longrightarrow> a = addr) \<and>
    (r = RetrySame \<longrightarrow> retry \<and> r_ECHEnabled rule)"
  using assms
  by (auto simp: tryAddr_def Let_def case_prod_beta split: option.splits handshake.splits if_splits)

text \<open>An offer without ECH and without the library's certificate check.\<close>

definition plainOffer :: "string \<Rightarrow> string \<Rightarrow> string \<times> uconnConfig \<Rightarrow> bool" where
  "plainOffer host sni offer \<longleftrightarrow> uc_ECHConfigList (snd offer) = [] \<and> uc_InsecureSkipVerify (snd offer) \<and>
     uc_ServerName (snd offer) = (if sni = '''' then host else sni)"

lemma tryAddr_offers:
  assumes "tryAddr net host rule sni alpn addr retry st = (r, st')" "\<not> r_ECHEnabled rule"
  shows "\<exists>new. us_offered st' = us_offered st @ new \<and> list_all (plainOffer host sni) new"
  using assms
  by (auto simp: plainOffer_def tryAddr_def Let_def GetUConn_plain split: option.splits handshake.splits if_splits)

section \<open>The loop\<close>

lemma candidateLoop_props:
  assumes "candidateLoop net host rule sni alpn cands errs st = (res, st')"
  shows "us_open st' = us_open st @ (case res of Inr (a, _) \<Rightarrow> [a] | Inl _ \<Rightarrow> []) \<and>
    us_dials st' \<le> us_dials st + (if r_ECHEnabled rule then 2 else 1) * length cands \<and>
    (case res of Inr (a, _) \<Rightarrow> a \<in> set cands | Inl es \<Rightarrow> length es = length errs + length cands)"
  using assms
proof (induction cands arbitrary: errs st)
  case (Cons addr rest)
  obtain r1 st1 where t1: "tryAddr net host rule sni alpn addr True st = (r1, st1)" by fastforce
  note p1 = tryAddr_cases [OF t1]
  show ?case
  proof (cases r1)
    case (Connected a proto)
    with Cons.prems t1 p1 show ?thesis by auto
  next
    case (NextCandidate e)
    with Cons.prems t1 have "candidateLoop net host rule sni alpn rest (errs @ [e]) st1 = (res, st')" by simp
    from Cons.IH [OF this] p1 NextCandidate show ?thesis by (auto split: sum.splits)
  next
    case RetrySame
    obtain r2 st2 where t2: "tryAddr net host rule sni alpn addr False st1 = (r2, st2)" by fastforce
    note p2 = tryAddr_cases [OF t2]
    from p1 RetrySame have ech: "r_ECHEnabled rule" by simp
    show ?thesis
    proof (cases r2)
      case (Connected a proto)
      with Cons.prems t1 RetrySame t2 p1 p2 ech show ?thesis by auto
    next
      case (NextCandidate e)
      with Cons.prems t1 RetrySame t2 have "candidateLoop net host rule sni alpn rest (errs @ [e]) st2 = (res, st')" by simp
      from Cons.IH [OF this] p1 p2 RetrySame NextCandidate ech show ?thesis by (auto split: sum.splits)
    next
      case RetrySame
      with p2 show ?thesis by simp
    qed
  qed
qed auto

lemma candidateLoop_offers:
  assumes "candidateLoop net host rule sni alpn cands errs st = (res, st')" "\<not> r_ECHEnabled rule"
  shows "\<exists>new. us_offered st' = us_offered st @ new \<and> list_all (plainOffer host sni) new"
  using assms(1)
proof (induction cands arbitrary: errs st)
  case (Cons addr rest)
  obtain r1 st1 where t1: "tryAddr net host rule sni alpn addr True st = (r1, st1)" by fastforce
  obtain new1 where n1: "us_offered st1 = us_offered st @ new1" "list_all (plainOffer host sni) new1"
    using tryAddr_offers [OF t1 assms(2)] by blast
  show ?case
  proof (cases r1)
    case (Connected a proto)
    with Cons.prems t1 n1 show ?thesis by auto
  next
    case (NextCandidate e)
    with Cons.prems t1 have "candidateLoop net host rule sni alpn rest (errs @ [e]) st1 = (res, st')" by simp
    from Cons.IH [OF this] obtain new2 where "us_offered st' = us_offered st1 @ new2" "list_all (plainOffer host sni) new2"
      by blast
    with n1 show ?thesis by (intro exI [of _ "new1 @ new2"]) simp
  next
    case RetrySame
    with tryAddr_cases [OF t1] assms(2) show ?thesis by simp
  qed
qed auto

section \<open>The whole connection\<close>

abbreviation orderedCands :: "string \<Rightarrow> string list \<Rightarrow> string list" where
  "orderedCands host cands \<equiv> (if cands = [] then [JoinHostPort host ''443''] else cands)"

definition takesFallback :: "rule \<Rightarrow> bool" where
  "takesFallback rule \<longleftrightarrow> (fallbackOf rule = ''tls-rf'' \<or> fallbackOf rule = ''quic'') \<and> fallbackOf rule \<noteq> r_Mode rule"

definition fallbackRule :: "rule \<Rightarrow> rule" where
  "fallbackRule rule = rule\<lparr>r_Mode := fallbackOf rule, r_ECHEnabled := False\<rparr>"

lemma takesFallback_once: "\<not> takesFallback (fallbackRule rule)"
  by (simp add: takesFallback_def fallbackRule_def fallbackOf_def)

lemma establish_step:
  "establishUpstreamConn net host rule cands alpn st =
     (case candidateLoop net host rule (chooseUpstreamSNI host rule) (if alpn = '''' then ''h2_h1'' else alpn)
             (orderedCands host cands) [] st of
        (Inr ok, st') \<Rightarrow> (Inr ok, st')
      | (Inl errs, st') \<Rightarrow>
          if errs = [] then (Inl ''all candidates failed with unknown error'', st')
          else if takesFallback rule then establishUpstreamConn net host (fallbackRule rule) cands alpn st'
          else (Inl (''all candidates failed: '' @ Join errs ''; ''), st'))"
  by (subst establishUpstreamConn.simps) (simp only: Let_def takesFallback_def fallbackRule_def)

text \<open>One round: the candidate loop with its last resort replaced by a given continuation.\<close>

lemma establish_round:
  assumes "candidateLoop net host rule (chooseUpstreamSNI host rule) (if alpn = '''' then ''h2_h1'' else alpn)
      (orderedCands host cands) [] st = (res, st1)"
  shows "establishUpstreamConn net host rule cands alpn st =
    (case res of
       Inr ok \<Rightarrow> (Inr ok, st1)
     | Inl errs \<Rightarrow> if takesFallback rule then establishUpstreamConn net host (fallbackRule rule) cands alpn st1
         else (Inl (''all candidates failed: '' @ Join errs ''; ''), st1))"
proof -
  have "res = Inl [] \<Longrightarrow> False" using candidateLoop_props [OF assms] by (auto split: if_splits)
  then show ?thesis by (subst establish_step) (auto simp: assms split: sum.splits)
qed

text \<open>C9. \<open>establishUpstreamConn\<close> terminates, leaks no connection and dials a bounded number of times:
  exactly one raw connection is left open when it succeeds, and it goes to one of the candidates;
  none is left open when it fails. It dials at most three times as often as there are candidates
  (twice each in the first round, once each after the fallback).\<close>

theorem establishUpstreamConn_resources:
  "case establishUpstreamConn net host rule cands alpn st of
     (res, st') \<Rightarrow>
       us_dials st' \<le> us_dials st + 3 * length (orderedCands host cands) \<and>
       (case res of
          Inr (a, _) \<Rightarrow> us_open st' = us_open st @ [a] \<and> a \<in> set (orderedCands host cands)
        | Inl _ \<Rightarrow> us_open st' = us_open st)"
proof -
  let ?al = "if alpn = '''' then ''h2_h1'' else alpn" and ?oc = "orderedCands host cands"
  obtain res st1 where r1: "candidateLoop net host rule (chooseUpstreamSNI host rule) ?al ?oc [] st = (res, st1)" by fastforce
  obtain res2 st2 where r2: "candidateLoop net host (fallbackRule rule) (chooseUpstreamSNI host (fallbackRule rule)) ?al ?oc [] st1 = (res2, st2)"
    by fastforce
  note p1 = candidateLoop_props [OF r1] and p2 = candidateLoop_props [OF r2]
  have ech: "\<not> r_ECHEnabled (fallbackRule rule)" by (simp add: fallbackRule_def)
  have d1: "us_dials st1 \<le> us_dials st + 2 * length ?oc" using p1 by (auto split: if_splits)
  have d2: "us_dials st2 \<le> us_dials st1 + length ?oc" using p2 ech by (simp split: if_splits)
  show ?thesis
  proof (cases res)
    case (Inr ok)
    then have e: "establishUpstreamConn net host rule cands alpn st = (Inr ok, st1)" by (simp add: establish_round [OF r1])
    show ?thesis unfolding e using p1 d1 Inr by (cases ok) auto
  next
    case (Inl errs)
    show ?thesis
    proof (cases "takesFallback rule")
      case False
      then have e: "establishUpstreamConn net host rule cands alpn st = (Inl (''all candidates failed: '' @ Join errs ''; ''), st1)"
        using Inl by (simp add: establish_round [OF r1])
      show ?thesis unfolding e using p1 d1 Inl by auto
    next
      case True
      then have e: "establishUpstreamConn net host rule cands alpn st =
          (case res2 of Inr ok \<Rightarrow> (Inr ok, st2) | Inl es \<Rightarrow> (Inl (''all candidates failed: '' @ Join es ''; ''), st2))"
        using Inl takesFallback_once [of rule] by (cases res2) (simp_all add: establish_round [OF r1] establish_round [OF r2])
      have "us_open st1 = us_open st" using p1 Inl by simp
      then show ?thesis unfolding e using p2 d1 d2 by (cases res2) (auto split: sum.splits)
    qed
  qed
qed

section \<open>What the fallback offers\<close>

text \<open>The fallback repeats the same TLS connection without protection: when no candidate accepts the
  rule's own handshake and the rule names the fallback mode \<open>tls-rf\<close> or \<open>quic\<close>, every further
  handshake is an ordinary one, without ECH, without a certificate check by the library and with the
  chosen SNI (or the host itself) in the clear. Neither fragmentation nor QUIC takes place, since the
  mode of the fallback rule is not consulted.\<close>

theorem fallback_offers_plain_tls:
  assumes "candidateLoop net host rule (chooseUpstreamSNI host rule) (if alpn = '''' then ''h2_h1'' else alpn)
      (orderedCands host cands) [] st = (Inl errs, st1)"
    and "takesFallback rule"
    and "establishUpstreamConn net host rule cands alpn st = (res, st')"
  shows "\<exists>new. us_offered st' = us_offered st1 @ new \<and>
    list_all (plainOffer host (chooseUpstreamSNI host (fallbackRule rule))) new"
proof -
  let ?al = "if alpn = '''' then ''h2_h1'' else alpn" and ?oc = "orderedCands host cands"
  obtain res2 st2 where r2: "candidateLoop net host (fallbackRule rule) (chooseUpstreamSNI host (fallbackRule rule)) ?al ?oc [] st1 = (res2, st2)"
    by fastforce
  have "establishUpstreamConn net host (fallbackRule rule) cands alpn st1 = (res, st')"
    using assms(2,3) by (simp add: establish_round [OF assms(1)])
  then have "st' = st2" using takesFallback_once [of rule]
    by (cases res2) (simp_all add: establish_round [OF r2])
  with candidateLoop_offers [OF r2] show ?thesis by (simp add: fallbackRule_def)
qed

definition exampleNet :: upstreamNet where
  "exampleNet = \<lparr>un_dial = (\<lambda>_ _. None),
     un_handshake = (\<lambda>_ _ cfg. if uc_ECHConfigList cfg \<noteq> [] then HandshakeErr ''reset'' else HandshakeOK ''h2''),
     un_lib = \<lparr>ul_idToSpec = (\<lambda>_. None), ul_applies = (\<lambda>_. True), ul_spkiHash = (\<lambda>_. ''''), ul_chain = (\<lambda>_ _. None)\<rparr>,
     un_certBypass = (\<lambda>_. False), un_fetchECH = None, un_fetchECHSafe = (\<lambda>_. None), un_io = None, un_hasPool = False\<rparr>"

definition exampleECHRule :: rule where
  "exampleECHRule = zeroRule\<lparr>r_Mode := ''mitm'', r_FallbackMode := ''tls-rf'', r_ECHEnabled := True, r_ECHProfileID := ''p'',
     r_SniPolicy := ''original''\<rparr>"

definition exampleUpState :: upState where
  "exampleUpState = \<lparr>us_dials = 0, us_rules = (NewRuleManager Missing Missing None)\<lparr>rm_echProfiles :=
     [zeroECHProfile\<lparr>ep_ID := ''p'', ep_Config := ''AAEC''\<rparr>]\<rparr>, us_reports = [], us_open = [], us_offered = []\<rparr>"

theorem fallback_offers_plain_tls_witness:
  "let (res, st') = establishUpstreamConn exampleNet ''example.org'' exampleECHRule [''192.0.2.7:443''] '''' exampleUpState
   in res = Inr (''192.0.2.7:443'', ''h2'') \<and>
      plainOffer ''example.org'' (chooseUpstreamSNI ''example.org'' (fallbackRule exampleECHRule)) (last (us_offered st')) \<and>
      length (us_offered st') = 2"
proof -
  let ?sni = "chooseUpstreamSNI ''example.org''"
  have dec: "DecodeString ''AAEC'' = Some [0, 1, 2]" by code_simp
  have ech: "GetBinaryECHConfig (us_rules exampleUpState) ''p'' = [0, 1, 2]"
    by (simp add: exampleUpState_def GetBinaryECHConfig_def dec)
  have fb: "takesFallback exampleECHRule" by code_simp
  obtain st1 where r1: "candidateLoop exampleNet ''example.org'' exampleECHRule (?sni exampleECHRule) ''h2_h1''
      [''192.0.2.7:443''] [] exampleUpState = (Inl [''192.0.2.7:443 utls: reset''], st1)"
    and o1: "length (us_offered st1) = 1"
    using ech by (simp add: tryAddr_def Let_def exampleNet_def exampleECHRule_def resolveRuleECHConfig_def GetUConn_ech
      reportFor_def zeroRule_def) (simp add: exampleUpState_def)
  obtain st2 cfg where r2: "candidateLoop exampleNet ''example.org'' (fallbackRule exampleECHRule) (?sni (fallbackRule exampleECHRule))
      ''h2_h1'' [''192.0.2.7:443''] [] st1 = (Inr (''192.0.2.7:443'', ''h2''), st2)"
    and o2: "us_offered st2 = us_offered st1 @ [(''192.0.2.7:443'', cfg)]"
    by (simp add: tryAddr_def Let_def exampleNet_def exampleECHRule_def fallbackRule_def GetUConn_plain reportFor_def zeroRule_def)
  have e: "establishUpstreamConn exampleNet ''example.org'' exampleECHRule [''192.0.2.7:443''] '''' exampleUpState
      = (Inr (''192.0.2.7:443'', ''h2''), st2)"
    using fb establish_round [of exampleNet "''example.org''" exampleECHRule "''''" "[''192.0.2.7:443'']" exampleUpState]
      establish_round [of exampleNet "''example.org''" "fallbackRule exampleECHRule" "''''" "[''192.0.2.7:443'']" st1] r1 r2
    by simp
  have "\<exists>new. us_offered st2 = us_offered st1 @ new \<and> list_all (plainOffer ''example.org'' (?sni (fallbackRule exampleECHRule))) new"
    by (rule fallback_offers_plain_tls [of exampleNet "''example.org''" exampleECHRule "''''" "[''192.0.2.7:443'']" exampleUpState, OF _ fb e])
      (use r1 in simp)
  with o2 have "plainOffer ''example.org'' (?sni (fallbackRule exampleECHRule)) (''192.0.2.7:443'', cfg)" by auto
  then show ?thesis unfolding e Let_def by (simp add: o1 o2)
qed

section \<open>Renewal of a rejected ECH configuration\<close>

lemma resolve_manual:
  "r_ECHEnabled rule \<Longrightarrow> r_ECHProfileID rule \<noteq> '''' \<Longrightarrow> GetBinaryECHConfig rm (r_ECHProfileID rule) = c \<Longrightarrow> c \<noteq> [] \<Longrightarrow>
   resolveRuleECHConfig fetch io host rule rm = (c, rm)"
  by (simp add: resolveRuleECHConfig_def)

lemma find_by_id: "find (\<lambda>p. ep_ID p = i) ps \<noteq> None \<longleftrightarrow> i \<in> set (map ep_ID ps)"
  by (auto simp: find_None_iff)

lemma resolve_keys:
  "map ep_ID (rm_echProfiles (snd (resolveRuleECHConfig fetch io host rule rm))) = map ep_ID (rm_echProfiles rm)"
  by (auto simp: resolveRuleECHConfig_def Let_def UpdateECHProfileConfig_keys split: sum.split)

text \<open>A rejected ECH configuration is renewed: when the first attempt on an address ends with the
  decision to retry it, the safe resolver has returned a new configuration, and for a rule with an
  existing profile the second attempt offers exactly this configuration, with the real host as inner
  name and the certificate chain verified.\<close>

theorem ech_retry_offers_fresh_config:
  assumes "tryAddr net host rule sni alpn addr True st = (RetrySame, st1)"
    and "r_ECHProfileID rule \<in> set (map ep_ID (rm_echProfiles (us_rules st)))" "r_ECHProfileID rule \<noteq> ''''"
    and "un_dial net (us_dials st1) addr = None"
    and "tryAddr net host rule sni alpn addr False st1 = (r, st2)"
  shows "\<exists>c cfg. un_fetchECHSafe net (if r_ECHDiscoveryDomain rule = '''' then host else r_ECHDiscoveryDomain rule) = Some c \<and>
    c \<noteq> [] \<and> us_offered st2 = us_offered st1 @ [(addr, cfg)] \<and> uc_ECHConfigList cfg = c \<and>
    uc_ServerName cfg = host \<and> \<not> uc_InsecureSkipVerify cfg"
proof -
  have ech: "r_ECHEnabled rule" using tryAddr_cases [OF assms(1)] by simp
  obtain rm c0 where rm: "resolveRuleECHConfig (un_fetchECH net) (un_io net) host rule (us_rules st) = (c0, rm)" by fastforce
  from assms(1) ech rm obtain c where c: "un_fetchECHSafe net (if r_ECHDiscoveryDomain rule = '''' then host else r_ECHDiscoveryDomain rule) = Some c"
      "c \<noteq> []" and st1: "us_rules st1 = snd (UpdateECHProfileConfig (un_io net) (r_ECHProfileID rule) c rm)"
    using assms(3) by (auto simp: tryAddr_def Let_def split: option.splits handshake.splits if_splits)
  have "r_ECHProfileID rule \<in> set (map ep_ID (rm_echProfiles rm))"
    using assms(2) resolve_keys [of "un_fetchECH net" "un_io net" host rule "us_rules st"] rm by simp
  then have "GetBinaryECHConfig (us_rules st1) (r_ECHProfileID rule) = c"
    unfolding st1 using ech_readback find_by_id assms(3) c(2) by blast
  then have res: "resolveRuleECHConfig (un_fetchECH net) (un_io net) host rule (us_rules st1) = (c, us_rules st1)"
    using resolve_manual [OF ech assms(3)] c(2) by blast
  let ?cfg = "GetUConn (un_lib net) (un_certBypass net) sni host rule (c = []) alpn c"
  have "us_offered st2 = us_offered st1 @ [(addr, ?cfg)]"
    using assms(4,5) ech res by (auto simp: tryAddr_def Let_def split: handshake.splits)
  then show ?thesis using c by (intro exI [of _ c] exI [of _ ?cfg] conjI) (simp_all add: GetUConn_ech)
qed

definition rejectingNet :: upstreamNet where
  "rejectingNet = exampleNet\<lparr>un_handshake := (\<lambda>_ _ cfg. if uc_ECHConfigList cfg = [7] then HandshakeOK ''h2'' else ECHRejected ''stale'' []),
     un_fetchECH := Some (\<lambda>_. Inl ''''), un_fetchECHSafe := (\<lambda>_. Some [7])\<rparr>"

theorem ech_retry_offers_fresh_config_witness:
  "let (r1, st1) = tryAddr rejectingNet ''example.org'' exampleECHRule ''example.org'' ''h2_h1'' ''192.0.2.7:443'' True exampleUpState;
       (r2, st2) = tryAddr rejectingNet ''example.org'' exampleECHRule ''example.org'' ''h2_h1'' ''192.0.2.7:443'' False st1
   in r1 = RetrySame \<and> uc_ECHConfigList (snd (last (us_offered st2))) = [7]"
proof -
  have dec: "DecodeString ''AAEC'' = Some [0, 1, 2]" by code_simp
  have ech: "GetBinaryECHConfig (us_rules exampleUpState) ''p'' = [0, 1, 2]"
    by (simp add: exampleUpState_def GetBinaryECHConfig_def dec)
  obtain st1 where t1: "tryAddr rejectingNet ''example.org'' exampleECHRule ''example.org'' ''h2_h1'' ''192.0.2.7:443'' True exampleUpState
      = (RetrySame, st1)"
    using ech by (simp add: tryAddr_def Let_def rejectingNet_def exampleNet_def exampleECHRule_def resolveRuleECHConfig_def
      GetUConn_ech zeroRule_def)
  obtain r2 st2 where t2: "tryAddr rejectingNet ''example.org'' exampleECHRule ''example.org'' ''h2_h1'' ''192.0.2.7:443'' False st1 = (r2, st2)"
    by fastforce
  have "r_ECHProfileID exampleECHRule \<in> set (map ep_ID (rm_echProfiles (us_rules exampleUpState)))"
    "r_ECHProfileID exampleECHRule \<noteq> ''''"
    by (simp_all add: exampleECHRule_def exampleUpState_def)
  moreover have "un_dial rejectingNet (us_dials st1) ''192.0.2.7:443'' = None" by (simp add: rejectingNet_def exampleNet_def)
  ultimately obtain c cfg where "un_fetchECHSafe rejectingNet (if r_ECHDiscoveryDomain exampleECHRule = '''' then ''example.org''
        else r_ECHDiscoveryDomain exampleECHRule) = Some c"
      "us_offered st2 = us_offered st1 @ [(''192.0.2.7:443'', cfg)]" "uc_ECHConfigList cfg = c"
    using ech_retry_offers_fresh_config [OF t1 _ _ _ t2] by blast
  then show ?thesis unfolding t1 t2 Let_def prod.case by (simp add: rejectingNet_def)
qed

end
