(* ===== verification/Handlers.thy ===== *)
theory Handlers
  imports Upstream_TLS TLS_Fragment Mitm_Cert
begin

text \<open>
  The CONNECT handlers of \<open>src/proxy/proxy.go\<close> and \<open>src/proxy/socks5.go\<close>: HTTP and SOCKS5 CONNECT
  and the direct, transparent, MITM, server and QUIC modes. A handler maps the state it shares (the
  automatic router, the state of the upstream connections and the certificate cache) to the list of
  events it causes and the state afterwards. A tunnel runs until both directions are copied and then
  closes both ends. What the client's connection does and the outcomes of dialling are inputs.
\<close>

text \<open>An upstream connection: the one \<open>dialUpstream\<close> or \<open>directConnect\<close> opened, the TLS connection of
  \<open>establishUpstreamConn\<close>, the connection to the fallback server.\<close>

datatype upConn = RawConn string | TlsConn string | FallbackUp

datatype event =
    HttpError nat string
  | Established
  | SocksReply bool
  | RouteEvent string string
  | OpenUp upConn
  | CloseUp upConn
  | CloseClient
  | TunnelUp upConn
  | TunnelSelf
  | SendUp upConn netEvent
  | DialServer string
  | HandlerPanic
  | Serve upConn
  | ServeQUIC quicTransport

text \<open>The client's side: whether the response writer can be hijacked, the errors of the hijack and of
  the answer, the server name of the client's ClientHello and whether its handshake succeeds once a
  certificate is there, and the bytes the client sends.\<close>

record clientIO =
  ci_hijackable :: bool
  ci_hijackErr :: bool
  ci_writeErr :: bool
  ci_flushErr :: bool
  ci_serverName :: string
  ci_tlsHandshake :: bool
  ci_bytes :: bytes

text \<open>The \<open>CertGenerator\<close> of the server: whether \<open>GetCACert\<close> and \<open>GetCAKey\<close> return something, and the
  signing of leaf certificates with them.\<close>

record certGen =
  cg_hasCert :: bool
  cg_hasKey :: bool
  cg_sign :: leaf_signer

record proxyEnv =
  pe_match :: matcher
  pe_resolver :: "ip_resolver option"
  pe_pool :: "string list option"
  pe_dial :: "string \<Rightarrow> string option"
  pe_certGen :: "certGen option"
  pe_now :: int
  pe_net :: upstreamNet
  pe_upstreamConn :: "string \<Rightarrow> connection"
  pe_probe :: "byte option"
  pe_dialServer :: "string \<Rightarrow> connection option"
  pe_h2OK :: bool

record handlerState =
  hs_router :: "autoRouter option"
  hs_up :: upState
  hs_certs :: certCache

type_synonym handler = "handlerState \<Rightarrow> event list \<times> handlerState"

definition emit :: "event list \<Rightarrow> handler" where
  "emit evs st = (evs, st)"

definition andThen :: "event list \<Rightarrow> handler \<Rightarrow> handler" where
  "andThen evs k st = (let (evs', st') = k st in (evs @ evs', st'))"

section \<open>Tunnels and hijacking\<close>

definition directTunnel :: "upConn \<Rightarrow> event list" where
  "directTunnel up = [TunnelUp up, CloseUp up, CloseClient]"

definition handleTransparent :: "upConn \<Rightarrow> event list" where
  "handleTransparent up = directTunnel up"

text \<open>Hijacking the client connection and answering 200: on failure the upstream connections in
  \<open>ups\<close> are closed.\<close>

definition hijackThen :: "clientIO \<Rightarrow> upConn list \<Rightarrow> handler \<Rightarrow> handler" where
  "hijackThen io ups k st =
     (if \<not> ci_hijackable io then emit (HttpError 500 ''Hijack not supported'' # map CloseUp ups) st
      else if ci_hijackErr io then emit (map CloseUp ups) st
      else if ci_writeErr io \<or> ci_flushErr io then emit (CloseClient # map CloseUp ups) st
      else andThen [Established] k st)"

definition directConnect :: "proxyEnv \<Rightarrow> clientIO \<Rightarrow> string \<Rightarrow> handler" where
  "directConnect env io authority st =
     (let targetAddr = ensureAddrWithPort authority ''443''; up = RawConn targetAddr in
      case pe_dial env targetAddr of
        Some _ \<Rightarrow> emit [HttpError 502 ''Failed to connect''] st
      | None \<Rightarrow> andThen [OpenUp up] (hijackThen io [up] (emit (directTunnel up))) st)"

section \<open>MITM, server and QUIC modes\<close>

text \<open>The TLS handshake with the client: the certificate is chosen by the callback of
  \<open>makeMITMTLSConfig\<close>.\<close>

definition clientHandshake :: "proxyEnv \<Rightarrow> certGen \<Rightarrow> clientIO \<Rightarrow> string \<Rightarrow> string list \<Rightarrow> handlerState
    \<Rightarrow> bool \<times> handlerState" where
  "clientHandshake env cg io host protos st =
     (let cfg = makeMITMTLSConfig (cg_sign cg) host protos;
          (cert, certs) = mt_GetCertificate cfg (pe_now env) (ci_serverName io) (hs_certs st)
      in (case cert of Inl _ \<Rightarrow> False | Inr _ \<Rightarrow> ci_tlsHandshake io, st\<lparr>hs_certs := certs\<rparr>))"

text \<open>The candidates of \<open>handleMITM\<close>: the address that was dialled first comes first.\<close>

definition mitmCandidates :: "string list \<Rightarrow> string \<Rightarrow> string list" where
  "mitmCandidates dialCandidates initialDialAddr =
     (if TrimSpace initialDialAddr \<noteq> '''' then [initialDialAddr] else []) @
     filter (\<lambda>c. \<not> (TrimSpace c = '''' \<or> c = initialDialAddr)) dialCandidates"

definition handleMITM :: "proxyEnv \<Rightarrow> clientIO \<Rightarrow> string \<Rightarrow> rule \<Rightarrow> string list \<Rightarrow> string \<Rightarrow> handler" where
  "handleMITM env io host rule dialCandidates initialDialAddr st =
     (case pe_certGen env of
        None \<Rightarrow> emit [TunnelSelf, CloseClient] st
      | Some cg \<Rightarrow>
          if \<not> cg_hasCert cg \<or> \<not> cg_hasKey cg then emit [CloseClient] st
          else
            (case establishUpstreamConn (pe_net env) host rule (mitmCandidates dialCandidates initialDialAddr) '''' (hs_up st) of
               (Inl _, up') \<Rightarrow> emit [CloseClient] (st\<lparr>hs_up := up'\<rparr>)
             | (Inr (a, proto), up') \<Rightarrow>
                 let up = TlsConn a;
                     (ok, st1) = clientHandshake env cg io host (nextProtosForNegotiatedALPN proto) (st\<lparr>hs_up := up'\<rparr>)
                 in emit (OpenUp up # (if \<not> ok then [CloseClient, CloseUp up, CloseUp up]
                    else directTunnel up @ [CloseUp up])) st1))"

definition serverCandidates :: "string list option \<Rightarrow> rule \<Rightarrow> string \<Rightarrow> string list" where
  "serverCandidates pool rule serverHost =
     (let tops = (if r_UseCFPool rule then (case pool of Some ips \<Rightarrow> ips | None \<Rightarrow> []) else []);
          cands = dedupeLoop (map (\<lambda>ip. JoinHostPort ip ''443'') tops) [];
          serverAddr = JoinHostPort serverHost ''443''
      in if serverAddr \<in> set cands then cands else cands @ [serverAddr])"

text \<open>\<open>handleServerMITM\<close> asks neither whether the CA certificate is there nor the key; without them no
  leaf certificate is signed. \<open>Serve\<close> stands for the HTTP server on the client's connection.\<close>

definition handleServerMITM :: "proxyEnv \<Rightarrow> clientIO \<Rightarrow> string \<Rightarrow> rule \<Rightarrow> handler" where
  "handleServerMITM env io host rule st =
     (case pe_certGen env of
        None \<Rightarrow> emit [CloseClient] st
      | Some cg \<Rightarrow>
          let (ok, st1) = clientHandshake env cg io host [''http/1.1''] st;
              serverHost = rm_serverHost (us_rules (hs_up st1))
          in if \<not> ok then emit [CloseClient] st1
          else if serverHost = '''' then emit [CloseClient] st1
          else
            (case establishUpstreamConn (pe_net env) serverHost rule (serverCandidates (pe_pool env) rule serverHost) ''''
                    (hs_up st1) of
               (Inl _, up') \<Rightarrow> emit [CloseClient] (st1\<lparr>hs_up := up'\<rparr>)
             | (Inr (a, proto), up') \<Rightarrow>
                 let up = TlsConn a in
                 emit (OpenUp up # (if proto = ''h2'' \<and> \<not> pe_h2OK env then [CloseUp up, CloseClient]
                    else [Serve up, CloseUp up, CloseClient])) (st1\<lparr>hs_up := up'\<rparr>)))"

definition handleQUICMITM :: "proxyEnv \<Rightarrow> clientIO \<Rightarrow> string \<Rightarrow> rule \<Rightarrow> handler" where
  "handleQUICMITM env io host rule st =
     (case pe_certGen env of
        None \<Rightarrow> emit [CloseClient] st
      | Some cg \<Rightarrow>
          let (ok, st1) = clientHandshake env cg io host [''http/1.1''] st in
          if \<not> ok then emit [CloseClient] st1
          else
            let (qt, rm) = newQUICRoundTripper (un_lib (pe_net env)) (pe_resolver env) (pe_pool env) (un_fetchECH (pe_net env))
                  (un_io (pe_net env)) host rule (us_rules (hs_up st1))
            in emit [ServeQUIC qt, CloseClient] (st1\<lparr>hs_up := (hs_up st1)\<lparr>us_rules := rm\<rparr>\<rparr>))"

text \<open>\<open>handleTLSFragment\<close> on the connection that was dialled: its actions as events.\<close>

fun endpointConn :: "upConn \<Rightarrow> endpoint \<Rightarrow> upConn" where
  "endpointConn up FallbackConn = FallbackUp"
| "endpointConn up _ = up"

fun actionEvents :: "upConn \<Rightarrow> action \<Rightarrow> event list" where
  "actionEvents up (Send e ev) = [SendUp (endpointConn up e) ev]"
| "actionEvents up (Close Client) = [CloseClient]"
| "actionEvents up (Close e) = [CloseUp (endpointConn up e)]"
| "actionEvents up (Dial addr) = [DialServer addr]"
| "actionEvents up (Tunnel _ e _) = directTunnel (endpointConn up e)"
| "actionEvents up Panicked = [HandlerPanic]"

definition fragmentEvents :: "proxyEnv \<Rightarrow> clientIO \<Rightarrow> string \<Rightarrow> rule \<Rightarrow> handler" where
  "fragmentEvents env io addr rule st =
     emit (concat (map (actionEvents (RawConn addr)) (handleTLSFragment
        \<lparr>fe_clientBytes = ci_bytes io, fe_upstream = pe_upstreamConn env addr, fe_probe = pe_probe env,
         fe_serverHost = rm_serverHost (us_rules (hs_up st)), fe_dialServer = pe_dialServer env\<rparr> rule))) st"

section \<open>CONNECT\<close>

text \<open>\<open>prepareConnect\<close> and \<open>dialUpstream\<close> on the handler state; the pool reports are collected.\<close>

definition prepare :: "proxyEnv \<Rightarrow> string \<Rightarrow> string \<Rightarrow> rule \<Rightarrow> handlerState \<Rightarrow> connectResult \<times> event list \<times> handlerState" where
  "prepare env targetHost targetAddr rule st =
     (let (cr, evs, router) = prepareConnect (pe_match env) (hs_router st) targetHost targetAddr rule
      in (cr, map (\<lambda>(d, m). RouteEvent d m) evs, st\<lparr>hs_router := router\<rparr>))"

definition dialFor :: "proxyEnv \<Rightarrow> connectResult \<Rightarrow> handlerState \<Rightarrow> string option \<times> connectResult \<times> handlerState" where
  "dialFor env cr st =
     (let (err, cr', reports) = dialUpstream (pe_resolver env) (pe_pool env) (pe_dial env) cr
      in (err, cr', st\<lparr>hs_up := (hs_up st)\<lparr>us_reports := us_reports (hs_up st) @ reports\<rparr>\<rparr>))"

definition runMode :: "proxyEnv \<Rightarrow> clientIO \<Rightarrow> connectResult \<Rightarrow> handler" where
  "runMode env io cr =
     (if cr_effectiveMode cr = ''mitm'' then handleMITM env io (cr_targetHost cr) (cr_rule cr) (cr_dialCandidates cr) (cr_dialAddr cr)
      else if cr_effectiveMode cr = ''tls-rf'' then fragmentEvents env io (cr_dialAddr cr) (cr_rule cr)
      else emit (handleTransparent (RawConn (cr_dialAddr cr))))"

definition handleConnect :: "proxyEnv \<Rightarrow> clientIO \<Rightarrow> string \<Rightarrow> string \<Rightarrow> rule \<Rightarrow> handler" where
  "handleConnect env io urlHost reqHost rule st =
     (let authority = (if urlHost = '''' then reqHost else urlHost);
          targetHost = normalizeHost authority;
          targetAddr = ensureAddrWithPort authority ''443'';
          (cr, evs, st1) = prepare env targetHost targetAddr rule st;
          mode = cr_effectiveMode cr
      in andThen evs
      (if mode = ''direct'' then directConnect env io authority
       else if mode = ''block'' \<or> mode = ''reject'' then emit [HttpError 403 ''Blocked by rule'']
       else if mode = ''server'' then hijackThen io [] (handleServerMITM env io (cr_targetHost cr) (cr_rule cr))
       else if mode = ''quic'' then hijackThen io [] (handleQUICMITM env io (cr_targetHost cr) (cr_rule cr))
       else (\<lambda>st1.
        (case dialFor env cr st1 of
           (Some _, _, st2) \<Rightarrow> emit [HttpError 502 ''Failed to connect to upstream''] st2
         | (None, cr', st2) \<Rightarrow>
             let up = RawConn (cr_dialAddr cr')
             in andThen [OpenUp up] (hijackThen io [up] (runMode env io cr')) st2))) st1)"

section \<open>SOCKS5 CONNECT\<close>

text \<open>\<open>fqdn\<close> and \<open>ipText\<close> are the two forms of the destination, \<open>tracked\<close> tells whether the tracker
  knows the client connection, \<open>mode\<close> is the mode of the server. The deferred close of the upstream
  connection comes last, also after a panic.\<close>

definition handleSocks5Connect ::
    "proxyEnv \<Rightarrow> clientIO \<Rightarrow> string \<Rightarrow> string \<Rightarrow> string \<Rightarrow> nat \<Rightarrow> bool \<Rightarrow> handler" where
  "handleSocks5Connect env io proxyMode fqdn ipText port tracked st =
     (let host = (if fqdn = '''' then ipText else fqdn);
          targetAddr = host @ '':'' @ Itoa port;
          matchHost = normalizeHost host;
          (rule, (d, m), router) = pe_match env (hs_router st) matchHost proxyMode;
          st0 = st\<lparr>hs_router := router\<rparr>
      in if \<not> tracked then emit [RouteEvent d m, SocksReply False] st0
      else
        let (cr, evs, st1) = prepare env matchHost targetAddr rule st0;
            mode = cr_effectiveMode cr
        in andThen (RouteEvent d m # evs)
        (if mode = ''direct'' then
           (case pe_dial env targetAddr of
              Some _ \<Rightarrow> emit [SocksReply False]
            | None \<Rightarrow> emit ([OpenUp (RawConn targetAddr), SocksReply True] @ directTunnel (RawConn targetAddr) @
                [CloseUp (RawConn targetAddr)]))
         else if mode = ''server'' then andThen [SocksReply True] (handleServerMITM env io (cr_targetHost cr) (cr_rule cr))
         else if mode = ''quic'' then andThen [SocksReply True] (handleQUICMITM env io (cr_targetHost cr) (cr_rule cr))
         else (\<lambda>st1.
          (case dialFor env cr st1 of
             (Some _, _, st2) \<Rightarrow> emit [SocksReply False] st2
           | (None, cr', st2) \<Rightarrow>
               let up = RawConn (cr_dialAddr cr'); (evs2, st3) = runMode env io cr' st2
               in ([OpenUp up, SocksReply True] @ evs2 @ [CloseUp up], st3)))) st1)"

end
