(* ===== verification/Dialing_Correct.thy ===== *)
theory Dialing_Correct
  imports Dialing "HOL-Library.Multiset"
begin

text \<open>
  Properties of the choice of addresses and server names: candidate lists are never empty and hold
  no address twice, the first candidate that answers is used, the DNS mode orders the addresses, the
  camouflage name hides the labels of the host.
\<close>

section \<open>Candidate lists\<close>

lemma dedupeLoop_props:
  "distinct out \<Longrightarrow> distinct (dedupeLoop xs out) \<and> set (dedupeLoop xs out) = set out \<union> (set xs - {''''})"
  by (induction xs out rule: dedupeLoop.induct) auto

lemma distinct_dedupeLoop [simp]: "distinct (dedupeLoop xs [])"
  and set_dedupeLoop [simp]: "set (dedupeLoop xs []) = set xs - {''''}"
  using dedupeLoop_props [of "[]" xs] by auto

lemma distinct_dedupe [simp]: "distinct (dedupeDialCandidates cs)"
  and set_dedupe [simp]: "set (dedupeDialCandidates cs) = TrimSpace ` set cs - {''''}"
  by (simp_all add: dedupeDialCandidates_def)

lemma distinct_splitUpstream [simp]: "distinct (splitUpstreamCandidates t u p)"
  by (simp add: splitUpstreamCandidates_def Let_def)

lemma distinct_resolve [simp]: "distinct (resolveDomainCandidates res h p m)"
  by (auto simp: resolveDomainCandidates_def Let_def split: option.split)

lemma TrimSpace_ne: "c \<in> set s \<Longrightarrow> \<not> is_space c \<Longrightarrow> TrimSpace s \<noteq> ''''"
proof
  assume c: "c \<in> set s" "\<not> is_space c" and "TrimSpace s = ''''"
  then have "dropWhile is_space (rev (dropWhile is_space s)) = []" by (simp add: TrimSpace_def trim_where_def)
  then have "\<forall>x \<in> set (dropWhile is_space s). is_space x" by (simp add: dropWhile_eq_Nil_conv)
  moreover have "\<forall>x \<in> set (takeWhile is_space s). is_space x" by (auto dest: set_takeWhileD)
  ultimately have "\<forall>x \<in> set (takeWhile is_space s @ dropWhile is_space s). is_space x"
    unfolding set_append by blast
  then show False using c unfolding takeWhile_dropWhile_id by blast
qed

lemma colon_JoinHostPort: "CHR '':'' \<in> set (JoinHostPort h p)"
  by (simp add: JoinHostPort_def)

lemma TrimSpace_JoinHostPort: "TrimSpace (JoinHostPort h p) \<noteq> ''''"
  using TrimSpace_ne [OF colon_JoinHostPort] by (simp add: is_space_def)

lemma dedupe_nonempty: "cs \<noteq> [] \<Longrightarrow> dedupeDialCandidates (map (\<lambda>x. JoinHostPort (f x) p) cs) \<noteq> []"
proof -
  assume "cs \<noteq> []"
  then obtain x where x: "x \<in> set cs" by (cases cs) auto
  have "TrimSpace (JoinHostPort (f x) p) \<in> set (dedupeDialCandidates (map (\<lambda>x. JoinHostPort (f x) p) cs))"
    using x TrimSpace_JoinHostPort by auto
  then show ?thesis by force
qed

lemma candidates_ok:
  "buildDialCandidates res pool h a r m \<noteq> [] \<and> distinct (buildDialCandidates res pool h a r m)"
  by (auto simp: buildDialCandidates_def Let_def dedupe_nonempty)

section \<open>Dialling\<close>

text \<open>The reference: the first address that accepts.\<close>

definition firstAccepting :: "(string \<Rightarrow> string option) \<Rightarrow> string list \<Rightarrow> string option" where
  "firstAccepting dial cands = find (\<lambda>a. dial a = None) cands"

lemma dialLoop_Inr: "firstAccepting dial cands = Some a \<Longrightarrow> fst (dialLoop dial hp r cands e) = Inr a"
  by (induction cands arbitrary: e) (auto simp: firstAccepting_def Let_def case_prod_beta split: option.splits if_splits)

lemma dialLoop_Inl: "firstAccepting dial cands = None \<Longrightarrow> \<exists>m. fst (dialLoop dial hp r cands e) = Inl m"
  by (induction cands arbitrary: e) (auto simp: firstAccepting_def Let_def case_prod_beta split: option.splits if_splits)

lemma dialLoop_reports:
  "snd (dialLoop dial hp r cands e) =
     concat (map (reportFor PoolFailure hp r) (takeWhile (\<lambda>a. dial a \<noteq> None) cands)) @
     (case firstAccepting dial cands of Some a \<Rightarrow> reportFor PoolSuccess hp r a | None \<Rightarrow> [])"
  by (induction cands arbitrary: e) (auto simp: firstAccepting_def Let_def case_prod_beta split: option.split)

text \<open>C13. \<open>dialUpstream\<close> always has a candidate to dial and no candidate twice; it connects to the first
  candidate that accepts and fails only when every candidate refuses. With several candidates and
  the Cloudflare pool in use it reports a failure for each candidate before the accepting one and a
  success for that one; a single candidate is not reported.\<close>

theorem dialUpstream_first_success:
  "case dialUpstream res pool dial cr of
     (err, cr', reports) \<Rightarrow>
       let cands = cr_dialCandidates cr' in
       cands \<noteq> [] \<and> distinct cands \<and>
       (case firstAccepting dial cands of
          Some a \<Rightarrow> err = None \<and> cr_conn cr' = Some a \<and> cr_dialAddr cr' = a \<and> a \<in> set cands
        | None \<Rightarrow> err \<noteq> None \<and> cr_conn cr' = cr_conn cr) \<and>
       reports = (if length cands = 1 then [] else
          concat (map (reportFor PoolFailure (pool \<noteq> None) (cr_rule cr)) (takeWhile (\<lambda>a. dial a \<noteq> None) cands)) @
          (case firstAccepting dial cands of
             Some a \<Rightarrow> reportFor PoolSuccess (pool \<noteq> None) (cr_rule cr) a | None \<Rightarrow> []))"
proof -
  define cands where "cands = buildDialCandidates res pool (cr_targetHost cr) (cr_targetAddr cr) (cr_rule cr) (cr_effectiveMode cr)"
  have ok: "cands \<noteq> []" "distinct cands" using candidates_ok unfolding cands_def by blast+
  have mem: "a \<in> set cands" if "firstAccepting dial cands = Some a" for a
    using that by (auto simp: firstAccepting_def find_Some_iff)
  show ?thesis
  proof (cases "1 < length cands")
    case True
    note rep = dialLoop_reports [of dial "pool \<noteq> None" "cr_rule cr" cands None]
    show ?thesis
    proof (cases "firstAccepting dial cands")
      case None
      then obtain m where "dialLoop dial (pool \<noteq> None) (cr_rule cr) cands None =
          (Inl m, snd (dialLoop dial (pool \<noteq> None) (cr_rule cr) cands None))"
        using dialLoop_Inl [of dial cands "pool \<noteq> None" "cr_rule cr" None] by (metis prod.collapse)
      with None True ok rep show ?thesis
        unfolding dialUpstream_def cands_def [symmetric] Let_def by simp
    next
      case (Some a)
      then have "dialLoop dial (pool \<noteq> None) (cr_rule cr) cands None =
          (Inr a, snd (dialLoop dial (pool \<noteq> None) (cr_rule cr) cands None))"
        using dialLoop_Inr [of dial cands a "pool \<noteq> None" "cr_rule cr" None] by (metis prod.collapse)
      with Some True ok rep mem show ?thesis
        unfolding dialUpstream_def cands_def [symmetric] Let_def by simp
    qed
  next
    case False
    with ok obtain a where a: "cands = [a]" by (cases cands) auto
    show ?thesis unfolding dialUpstream_def cands_def [symmetric] Let_def
      by (simp add: a firstAccepting_def split: option.split)
  qed
qed

section \<open>The DNS mode\<close>

definition isV4 :: "ip \<Rightarrow> bool" where
  "isV4 a \<longleftrightarrow> To4 a \<noteq> None"

lemma mset_filters: "mset (filter P xs @ filter (\<lambda>x. \<not> P x) xs) = mset xs"
  by (induction xs) auto

text \<open>The DNS mode orders or filters the resolved addresses as it says: without a mode the list is
  kept, the two preferences keep every address (nil entries apart) and put one family before the
  other without changing the order inside a family, and the two exclusive modes keep exactly the
  addresses of their family.\<close>

theorem dns_mode_order:
  "let out = reorderIPsByDNSMode ips mode; m = normalizeDNSMode mode; present = filter (\<lambda>a. a \<noteq> []) ips in
   (if m = '''' then out = ips
    else if m = ''prefer_ipv4'' then
      mset out = mset present \<and> (\<exists>k. list_all isV4 (take k out) \<and> list_all (\<lambda>a. \<not> isV4 a) (drop k out)) \<and>
      filter isV4 out = filter isV4 present \<and> filter (\<lambda>a. \<not> isV4 a) out = filter (\<lambda>a. \<not> isV4 a) present
    else if m = ''prefer_ipv6'' then
      mset out = mset present \<and> (\<exists>k. list_all (\<lambda>a. \<not> isV4 a) (take k out) \<and> list_all isV4 (drop k out)) \<and>
      filter isV4 out = filter isV4 present \<and> filter (\<lambda>a. \<not> isV4 a) out = filter (\<lambda>a. \<not> isV4 a) present
    else if m = ''ipv4_only'' then out = filter isV4 present
    else m = ''ipv6_only'' \<and> out = filter (\<lambda>a. \<not> isV4 a) present)"
proof -
  define present where "present = filter (\<lambda>a. a \<noteq> ([] :: nat list)) ips"
  let ?v4 = "filter isV4 present" let ?v6 = "filter (\<lambda>a. \<not> isV4 a) present"
  have modes: "normalizeDNSMode mode \<in> {'''', ''prefer_ipv4'', ''prefer_ipv6'', ''ipv4_only'', ''ipv6_only''}"
    by (auto simp: normalizeDNSMode_def Let_def)
  have out: "reorderIPsByDNSMode ips mode =
      (if normalizeDNSMode mode = '''' then ips else if normalizeDNSMode mode = ''prefer_ipv4'' then ?v4 @ ?v6
       else if normalizeDNSMode mode = ''prefer_ipv6'' then ?v6 @ ?v4
       else if normalizeDNSMode mode = ''ipv4_only'' then ?v4
       else if normalizeDNSMode mode = ''ipv6_only'' then ?v6 else ips)"
    by (simp add: reorderIPsByDNSMode_def Let_def isV4_def [abs_def] present_def)
  have v4first: "\<exists>k. list_all isV4 (take k (?v4 @ ?v6)) \<and> list_all (\<lambda>a. \<not> isV4 a) (drop k (?v4 @ ?v6))"
    by (intro exI [of _ "length ?v4"]) (simp add: list_all_iff)
  have v6first: "\<exists>k. list_all (\<lambda>a. \<not> isV4 a) (take k (?v6 @ ?v4)) \<and> list_all isV4 (drop k (?v6 @ ?v4))"
    by (intro exI [of _ "length ?v6"]) (simp add: list_all_iff)
  have m: "mset (?v4 @ ?v6) = mset present" "mset (?v6 @ ?v4) = mset present"
    using mset_filters [of isV4 present] by (simp_all add: union_commute)
  show ?thesis unfolding Let_def present_def [symmetric] out using modes m v4first v6first by auto
qed

section \<open>The port of resolved candidates\<close>

lemma TrimSpace_443: "HasSuffix (TrimSpace (JoinHostPort h ''443'')) '':443''"
proof -
  have "JoinHostPort h ''443'' = (if CHR '':'' \<in> set h then ''['' @ h @ '']'' else h) @ '':443''" by (simp add: JoinHostPort_def)
  then obtain pre where j: "JoinHostPort h ''443'' = pre @ '':443''" by blast
  have drop: "\<exists>pre'. dropWhile is_space (pre @ '':443'') = pre' @ '':443''"
    by (induction pre) (auto simp: is_space_def)
  then show ?thesis unfolding j TrimSpace_def trim_where_def HasSuffix_def by (auto simp: is_space_def)
qed

lemma resolved_443: "list_all (\<lambda>c. HasSuffix c '':443'') (resolveDomainCandidates res host ''443'' mode)"
  by (auto simp: resolveDomainCandidates_def Let_def list_all_iff TrimSpace_443 split: option.split)

text \<open>The port of the request is lost when its host is resolved: for a rule without upstream and
  pool, in the modes that plan candidates, the addresses dialled are the resolved ones with port 443,
  whatever address and port the client asked for. A CONNECT to another port, and a plain HTTP request
  to port 80, reach port 443 of the host.\<close>

theorem resolved_candidates_ignore_port:
  assumes "cr_effectiveMode cr \<in> {''mitm'', ''transparent'', ''tls-rf'', ''quic''}"
    and "TrimSpace (resolveRuleUpstream (cr_targetHost cr) (cr_rule cr)) = ''''"
    and "\<not> r_UseCFPool (cr_rule cr)" "\<not> EqualFold (TrimSpace (r_Upstream (cr_rule cr))) ''warp''"
    and "resolveDomainCandidates res (cr_targetHost cr) ''443'' (r_DNSMode (cr_rule cr)) \<noteq> []"
  shows "let cands = cr_dialCandidates (fst (snd (dialUpstream res pool dial cr))) in
    cands = resolveDomainCandidates res (cr_targetHost cr) ''443'' (r_DNSMode (cr_rule cr)) \<and>
    list_all (\<lambda>c. HasSuffix c '':443'') cands"
proof -
  have "buildDialCandidates res pool (cr_targetHost cr) (cr_targetAddr cr) (cr_rule cr) (cr_effectiveMode cr) =
      resolveDomainCandidates res (cr_targetHost cr) ''443'' (r_DNSMode (cr_rule cr))"
    using assms by (simp add: buildDialCandidates_def Let_def)
  then show ?thesis using assms(5) resolved_443 [of res "cr_targetHost cr" "r_DNSMode (cr_rule cr)"]
    by (auto simp: dialUpstream_def Let_def split: prod.split sum.split option.split)
qed

theorem resolved_candidates_ignore_port_witness:
  "let cr = \<lparr>cr_conn = None, cr_dialCandidates = [], cr_dialAddr = '''', cr_effectiveMode = ''tls-rf'',
        cr_targetHost = ''example.org'', cr_targetAddr = ''example.org:8443'', cr_rule = zeroRule\<rparr>
   in cr_dialCandidates (fst (snd (dialUpstream (Some (\<lambda>_. Some [[192, 0, 2, 7]])) None (\<lambda>_. None) cr))) = [''192.0.2.7:443'']"
proof -
  have r: "resolveDomainCandidates (Some (\<lambda>_. Some [[192, 0, 2, 7]])) ''example.org'' ''443'' '''' = [''192.0.2.7:443'']" by code_simp
  have u: "TrimSpace (resolveRuleUpstream ''example.org'' zeroRule) = ''''" by code_simp
  have w: "\<not> EqualFold (TrimSpace (r_Upstream zeroRule)) ''warp''" by code_simp
  have z: "r_DNSMode zeroRule = ''''" "\<not> r_UseCFPool zeroRule" by (simp_all add: zeroRule_def)
  show ?thesis
    using resolved_candidates_ignore_port [of "\<lparr>cr_conn = None, cr_dialCandidates = [], cr_dialAddr = '''',
        cr_effectiveMode = ''tls-rf'', cr_targetHost = ''example.org'', cr_targetAddr = ''example.org:8443'', cr_rule = zeroRule\<rparr>"
        "Some (\<lambda>_. Some [[192, 0, 2, 7]])" None "\<lambda>_. None"]
    by (simp add: r u w z Let_def)
qed

section \<open>Connect policies\<close>

text \<open>The connect policy \<open>tunnel_origin\<close> does not tunnel to the origin: the candidates dialled for
  such a rule are those of a transparent rule with the same upstream, so a rule whose upstream is a
  literal address connects to that address and not to the target of the request.\<close>

theorem tunnel_origin_dials_upstream:
  assumes "ToLower (TrimSpace (r_ConnectPolicy rule)) = ''tunnel_origin''"
    and "resolveRuleUpstream host rule = JoinHostPort up port"
    and "splitUpstreamCandidates host (JoinHostPort up port) ''443'' = [JoinHostPort up port]"
    and "isLiteralIP (firstUpstreamHost host (JoinHostPort up port))"
    and "\<not> EqualFold (TrimSpace (r_Upstream rule)) ''warp''"
  shows "let (cr, _, _) = prepareConnect match router host addr rule
    in cr_dialCandidates (fst (snd (dialUpstream res pool dial cr))) = [JoinHostPort up port]"
proof -
  have cr: "prepareConnect match router host addr rule =
      (\<lparr>cr_conn = None, cr_dialCandidates = [], cr_dialAddr = '''', cr_effectiveMode = ''transparent'',
         cr_targetHost = host, cr_targetAddr = addr, cr_rule = rule\<rparr>, [], router)"
    using assms(1) by (simp add: prepareConnect_def policyMode_def policyUpstream_def Let_def)
  have "buildDialCandidates res pool host addr rule ''transparent'' = [JoinHostPort up port]"
    unfolding buildDialCandidates_def Let_def assms(2,3) using assms(4,5) TrimSpace_JoinHostPort by simp
  then show ?thesis unfolding cr Let_def prod.case
    by (simp add: dialUpstream_def Let_def split: option.split)
qed

theorem tunnel_origin_dials_upstream_witness:
  "let rule = zeroRule\<lparr>r_ConnectPolicy := ''tunnel_origin'', r_Upstream := ''192.0.2.7:443'', r_Mode := ''mitm''\<rparr>;
       (cr, _, _) = prepareConnect (\<lambda>ro _ _. (zeroRule, ('''', ''''), ro)) None ''example.org'' ''example.org:443'' rule
   in cr_dialCandidates (fst (snd (dialUpstream None None (\<lambda>_. None) cr))) = [''192.0.2.7:443'']"
proof -
  let ?rule = "zeroRule\<lparr>r_ConnectPolicy := ''tunnel_origin'', r_Upstream := ''192.0.2.7:443'', r_Mode := ''mitm''\<rparr>"
  have j: "JoinHostPort ''192.0.2.7'' ''443'' = ''192.0.2.7:443''" by code_simp
  have "ToLower (TrimSpace (r_ConnectPolicy ?rule)) = ''tunnel_origin''" by code_simp
  moreover have "resolveRuleUpstream ''example.org'' ?rule = JoinHostPort ''192.0.2.7'' ''443''" by code_simp
  moreover have "splitUpstreamCandidates ''example.org'' (JoinHostPort ''192.0.2.7'' ''443'') ''443'' = [JoinHostPort ''192.0.2.7'' ''443'']" by code_simp
  moreover have "isLiteralIP (firstUpstreamHost ''example.org'' (JoinHostPort ''192.0.2.7'' ''443''))" by code_simp
  moreover have "\<not> EqualFold (TrimSpace (r_Upstream ?rule)) ''warp''" by code_simp
  ultimately show ?thesis
    using tunnel_origin_dials_upstream [of ?rule "''example.org''" "''192.0.2.7''" "''443''"
      "\<lambda>ro _ _. (zeroRule, ('''', ''''), ro)" None "''example.org:443''" None None "\<lambda>_. None"]
    unfolding j by (simp add: zeroRule_def)
qed

section \<open>Camouflage\<close>

lemma ReplaceAll_char: "ReplaceAll s [c] [d] = map (\<lambda>x. if x = c then d else x) s"
proof (induction s)
  case (Cons x s)
  then show ?case using ReplaceAll.simps [of "x # s" "[c]" "[d]"] by (cases "x = c") simp_all
qed (simp add: ReplaceAll.simps)

text \<open>With the SNI policy \<open>fake\<close>, no configured fake name and no ECH, the name sent upstream is not
  empty, and holds no dot and no colon: no domain name with two labels appears in it.\<close>

theorem fake_sni_hides_labels:
  assumes "ToLower (TrimSpace (r_SniPolicy rule)) = ''fake''" "TrimSpace (r_SniFake rule) = ''''" "\<not> r_ECHEnabled rule"
  shows "chooseUpstreamSNI host rule \<noteq> '''' \<and> CHR ''.'' \<notin> set (chooseUpstreamSNI host rule) \<and>
    CHR '':'' \<notin> set (chooseUpstreamSNI host rule)"
proof -
  let ?raw = "ReplaceAll (ReplaceAll (Trim (normalizeHost host) ''[]'') ''.'' ''-'') '':'' ''-''"
  have "CHR ''.'' \<notin> set ?raw" "CHR '':'' \<notin> set ?raw" unfolding ReplaceAll_char by auto
  then have "CHR ''.'' \<notin> set (TrimSpace ?raw)" "CHR '':'' \<notin> set (TrimSpace ?raw)"
    using set_TrimSpace [of ?raw] by blast+
  moreover have "chooseUpstreamSNI host rule = (if TrimSpace ?raw = '''' then ''g-cn'' else TrimSpace ?raw)"
    using assms by (simp add: chooseUpstreamSNI_def Let_def)
  ultimately show ?thesis by simp
qed

theorem fake_sni_hides_labels_witness:
  "chooseUpstreamSNI ''www.example.org'' (zeroRule\<lparr>r_SniPolicy := '' Fake''\<rparr>) \<noteq> ''www.example.org''"
proof -
  have "ToLower (TrimSpace (r_SniPolicy (zeroRule\<lparr>r_SniPolicy := '' Fake''\<rparr>))) = ''fake''" by code_simp
  then have "CHR ''.'' \<notin> set (chooseUpstreamSNI ''www.example.org'' (zeroRule\<lparr>r_SniPolicy := '' Fake''\<rparr>))"
    using fake_sni_hides_labels [of "zeroRule\<lparr>r_SniPolicy := '' Fake''\<rparr>" "''www.example.org''"]
    by (simp add: zeroRule_def)
  then show ?thesis by auto
qed

end
