(* ===== verification/Handlers_Correct.thy ===== *)
theory Handlers_Correct
  imports Handlers Dialing_Correct
begin

text \<open>
  Properties of the CONNECT handlers: which upstream connections are released, and where the SOCKS5
  handler departs from the HTTP one.
\<close>

text \<open>Every connection opened in a trace is closed later in it.\<close>

fun allClosed :: "event list \<Rightarrow> bool" where
  "allClosed [] = True"
| "allClosed (OpenUp u # es) = (CloseUp u \<in> set es \<and> allClosed es)"
| "allClosed (_ # es) = allClosed es"

definition noOpen :: "event list \<Rightarrow> bool" where
  "noOpen es \<longleftrightarrow> (\<forall>u. OpenUp u \<notin> set es)"

lemma allClosed_noOpen: "noOpen es \<Longrightarrow> allClosed es"
  by (induction es rule: allClosed.induct) (auto simp: noOpen_def)

lemma allClosed_append: "noOpen es \<Longrightarrow> allClosed (es @ fs) = allClosed fs"
  by (induction es rule: allClosed.induct) (auto simp: noOpen_def)

section \<open>The modes\<close>

text \<open>The actions after which the connection (the client, respectively) is closed.\<close>

fun releasesUp :: "action \<Rightarrow> bool" where
  "releasesUp Panicked = True"
| "releasesUp (Close UpstreamConn) = True"
| "releasesUp (Tunnel _ UpstreamConn _) = True"
| "releasesUp _ = False"

fun releasesClient :: "action \<Rightarrow> bool" where
  "releasesClient Panicked = True"
| "releasesClient (Close Client) = True"
| "releasesClient (Tunnel _ _ _) = True"
| "releasesClient _ = False"

lemma fallback_releases_client: "list_ex releasesClient (handleTLSRFFallback env rule rest rec)"
  by (auto simp: handleTLSRFFallback_def Let_def split: prod.split option.split)

lemma fragment_releases: "list_ex releasesUp (handleTLSFragment env rule)"
  by (auto simp: handleTLSFragment_def Let_def split: option.split prod.split sendResult.split)

lemma fragment_releases_client: "list_ex releasesClient (handleTLSFragment env rule)"
  by (auto simp: handleTLSFragment_def Let_def fallback_releases_client split: option.split prod.split sendResult.split)

lemma releasesUp_events:
  "releasesUp a \<Longrightarrow> HandlerPanic \<in> set (actionEvents up a) \<or> CloseUp up \<in> set (actionEvents up a)"
  by (cases a rule: releasesUp.cases) (simp_all add: directTunnel_def)

lemma releasesClient_events:
  "releasesClient a \<Longrightarrow> HandlerPanic \<in> set (actionEvents up a) \<or> CloseClient \<in> set (actionEvents up a)"
  by (cases a rule: releasesClient.cases) (simp_all add: directTunnel_def)

lemma actionEvents_quiet: "OpenUp u \<notin> set (actionEvents up a)" "Established \<notin> set (actionEvents up a)"
  by (cases "(up, a)" rule: actionEvents.cases; simp add: directTunnel_def)+

lemma fragmentEvents_shape:
  fixes env io addr rule st
  defines "evs \<equiv> fst (fragmentEvents env io addr rule st)"
  shows "noOpen evs" "Established \<notin> set evs" "HandlerPanic \<in> set evs \<or> CloseUp (RawConn addr) \<in> set evs"
    "HandlerPanic \<in> set evs \<or> CloseClient \<in> set evs"
proof -
  define acts where "acts = handleTLSFragment
        \<lparr>fe_clientBytes = ci_bytes io, fe_upstream = pe_upstreamConn env addr, fe_probe = pe_probe env,
         fe_serverHost = rm_serverHost (us_rules (hs_up st)), fe_dialServer = pe_dialServer env\<rparr> rule"
  have e: "set evs = (\<Union>a\<in>set acts. set (actionEvents (RawConn addr) a))"
    by (simp add: evs_def fragmentEvents_def emit_def acts_def)
  show "noOpen evs" "Established \<notin> set evs" unfolding noOpen_def e by (auto simp: actionEvents_quiet)
  have "list_ex releasesUp acts" "list_ex releasesClient acts"
    unfolding acts_def by (rule fragment_releases fragment_releases_client)+
  then obtain a c where ac: "a \<in> set acts" "releasesUp a" "c \<in> set acts" "releasesClient c"
    by (auto simp: list_ex_iff)
  show "HandlerPanic \<in> set evs \<or> CloseUp (RawConn addr) \<in> set evs"
    using releasesUp_events [OF ac(2), of "RawConn addr"] ac(1) unfolding e by blast
  show "HandlerPanic \<in> set evs \<or> CloseClient \<in> set evs"
    using releasesClient_events [OF ac(4), of "RawConn addr"] ac(3) unfolding e by blast
qed

text \<open>The terminating modes use TLS connections only and close them and the client.\<close>

definition tlsOnly :: "event list \<Rightarrow> bool" where
  "tlsOnly evs \<longleftrightarrow> allClosed evs \<and> CloseClient \<in> set evs \<and> Established \<notin> set evs \<and>
     (\<forall>a. OpenUp (RawConn a) \<notin> set evs \<and> CloseUp (RawConn a) \<notin> set evs \<and> TunnelUp (RawConn a) \<notin> set evs)"

lemma handleMITM_tlsOnly: "tlsOnly (fst (handleMITM env io host rule cands a st))"
  by (auto simp: handleMITM_def emit_def tlsOnly_def directTunnel_def Let_def split: option.split sum.split prod.split)

lemma handleServerMITM_tlsOnly: "tlsOnly (fst (handleServerMITM env io host rule st))"
  by (auto simp: handleServerMITM_def emit_def tlsOnly_def Let_def split: option.split sum.split prod.split)

lemma handleQUICMITM_tlsOnly: "tlsOnly (fst (handleQUICMITM env io host rule st))"
  by (auto simp: handleQUICMITM_def emit_def tlsOnly_def Let_def split: option.split prod.split)

section \<open>The CONNECT handler\<close>

lemma fst_andThen: "fst (andThen evs k st) = evs @ fst (k st)"
  by (simp add: andThen_def case_prod_beta)

lemma runMode_mitm: "cr_effectiveMode cr = ''mitm'' \<Longrightarrow> tlsOnly (fst (runMode env io cr st))"
  by (simp add: runMode_def handleMITM_tlsOnly)

text \<open>A handler that is given the connection \<open>u\<close> and releases it.\<close>

definition releasing :: "upConn \<Rightarrow> event list \<Rightarrow> bool" where
  "releasing u evs \<longleftrightarrow> noOpen evs \<and> Established \<notin> set evs \<and> (HandlerPanic \<in> set evs \<or> CloseUp u \<in> set evs) \<and>
     (HandlerPanic \<in> set evs \<or> CloseClient \<in> set evs)"

lemma runMode_other:
  "cr_effectiveMode cr \<noteq> ''mitm'' \<Longrightarrow> releasing (RawConn (cr_dialAddr cr)) (fst (runMode env io cr st))"
  using fragmentEvents_shape [of env io "cr_dialAddr cr" "cr_rule cr" st]
  by (auto simp: runMode_def releasing_def emit_def handleTransparent_def directTunnel_def noOpen_def)

lemma direct_releasing: "releasing u (directTunnel u)"
  by (simp add: releasing_def directTunnel_def noOpen_def)

definition hijackOK :: "clientIO \<Rightarrow> bool" where
  "hijackOK io \<longleftrightarrow> ci_hijackable io \<and> \<not> ci_hijackErr io \<and> \<not> ci_writeErr io \<and> \<not> ci_flushErr io"

lemma hijackThen_ok: "hijackOK io \<Longrightarrow> fst (hijackThen io ups k st) = Established # fst (k st)"
  by (simp add: hijackOK_def hijackThen_def fst_andThen)

lemma hijackThen_failed:
  "\<not> hijackOK io \<Longrightarrow> noOpen (fst (hijackThen io ups k st)) \<and> Established \<notin> set (fst (hijackThen io ups k st)) \<and>
     (\<forall>u\<in>set ups. CloseUp u \<in> set (fst (hijackThen io ups k st)))"
  by (auto simp: hijackOK_def hijackThen_def emit_def noOpen_def)

lemma routes_quiet:
  "noOpen (map (\<lambda>(d, m). RouteEvent d m) evs)" "Established \<notin> set (map (\<lambda>(d, m). RouteEvent d m) evs)"
  "CloseUp u \<notin> set (map (\<lambda>(d, m). RouteEvent d m) evs)" "TunnelUp u \<notin> set (map (\<lambda>(d, m). RouteEvent d m) evs)"
  by (auto simp: noOpen_def)

lemma prepareConnect_mode: "cr_effectiveMode (fst (prepareConnect match router h a rule)) = policyMode rule"
  by (simp add: prepareConnect_def Let_def case_prod_beta)

text \<open>A trace that opens a connection and hands it to a releasing handler, or to one that ignores it.\<close>

lemma opened_released:
  assumes "releasing u evs"
  shows "HandlerPanic \<in> set (OpenUp u # Established # evs) \<or> allClosed (OpenUp u # Established # evs)"
    "HandlerPanic \<in> set (OpenUp u # Established # evs) \<or> CloseClient \<in> set (OpenUp u # Established # evs)"
  using assms allClosed_noOpen by (auto simp: releasing_def)

lemma opened_failed:
  "\<not> hijackOK io \<Longrightarrow> allClosed (OpenUp u # fst (hijackThen io [u] k st)) \<and>
     Established \<notin> set (OpenUp u # fst (hijackThen io [u] k st))"
  using hijackThen_failed [of io "[u]" k st] allClosed_noOpen by simp

text \<open>What the handler does after \<open>prepareConnect\<close>, as a property of its trace and the mode.\<close>

definition connectTrace :: "string \<Rightarrow> event list \<Rightarrow> bool" where
  "connectTrace mode evs \<longleftrightarrow>
     (if mode = ''mitm'' \<and> Established \<in> set evs
      then \<exists>a. OpenUp (RawConn a) \<in> set evs \<and> CloseUp (RawConn a) \<notin> set evs \<and> TunnelUp (RawConn a) \<notin> set evs
      else HandlerPanic \<in> set evs \<or> allClosed evs) \<and>
     (if Established \<in> set evs then HandlerPanic \<in> set evs \<or> CloseClient \<in> set evs else True)"

lemma connectTrace_opened:
  assumes "mode = ''mitm'' \<Longrightarrow> tlsOnly (fst (k st))" "mode \<noteq> ''mitm'' \<Longrightarrow> releasing (RawConn a) (fst (k st))"
  shows "connectTrace mode (fst (andThen [OpenUp (RawConn a)] (hijackThen io [RawConn a] k) st))"
proof (cases "hijackOK io")
  case True
  then show ?thesis unfolding connectTrace_def
    using assms opened_released [of "RawConn a" "fst (k st)"]
    by (auto simp: fst_andThen hijackThen_ok tlsOnly_def)
next
  case False
  then show ?thesis using opened_failed [of io "RawConn a" k st] by (simp add: connectTrace_def fst_andThen)
qed

lemma connectTrace_tls:
  assumes "mode \<noteq> ''mitm''" "tlsOnly (fst (k st))"
  shows "connectTrace mode (fst (hijackThen io [] k st))"
proof (cases "hijackOK io")
  case True
  then show ?thesis using assms by (simp add: connectTrace_def hijackThen_ok tlsOnly_def)
next
  case False
  then show ?thesis using hijackThen_failed [of io "[]" k st] allClosed_noOpen by (simp add: connectTrace_def)
qed

lemma connectTrace_prefix:
  "connectTrace mode evs \<Longrightarrow> connectTrace mode (map (\<lambda>(d, m). RouteEvent d m) rs @ evs)"
  unfolding connectTrace_def by (auto simp: allClosed_append [OF routes_quiet(1)])

lemma handleConnect_trace:
  "connectTrace (policyMode rule) (fst (handleConnect env io urlHost reqHost rule st))"
proof -
  define authority where "authority = (if urlHost = '''' then reqHost else urlHost)"
  let ?th = "normalizeHost authority" and ?ta = "ensureAddrWithPort authority ''443''"
  obtain cr rs router where p: "prepareConnect (pe_match env) (hs_router st) ?th ?ta rule = (cr, rs, router)"
    by (metis prod.exhaust)
  define st1 where "st1 = st\<lparr>hs_router := router\<rparr>"
  have m: "cr_effectiveMode cr = policyMode rule" using prepareConnect_mode p by (metis fst_conv)
  have prep: "prepare env ?th ?ta rule st = (cr, map (\<lambda>(d, m). RouteEvent d m) rs, st1)"
    by (simp add: prepare_def p st1_def)
  obtain err cr' st2 where d: "dialFor env cr st1 = (err, cr', st2)" by (metis prod.exhaust)
  have m': "cr_effectiveMode cr' = policyMode rule"
    using d m by (auto simp: dialFor_def dialUpstream_def Let_def split: prod.splits option.splits sum.splits if_splits)
  have direct: "connectTrace ''direct'' (fst (directConnect env io authority st1))"
  proof (cases "pe_dial env ?ta")
    case None
    then show ?thesis unfolding directConnect_def Let_def
      by (simp add: connectTrace_opened [where mode = "''direct''", simplified] emit_def direct_releasing)
  qed (simp add: directConnect_def emit_def connectTrace_def)
  show ?thesis
    unfolding handleConnect_def Let_def authority_def [symmetric] prep prod.case m fst_andThen
    using direct
    by (cases err) (auto intro!: connectTrace_prefix connectTrace_tls connectTrace_opened
          simp: d emit_def m' handleServerMITM_tlsOnly handleQUICMITM_tlsOnly runMode_mitm runMode_other connectTrace_def [of _ "[_]"])
qed


section \<open>SOCKS5\<close>

lemma dialUpstream_all_accept:
  assumes "\<forall>a. dial a = None" "dialUpstream res pool dial cr = (err, cr', reps)"
  shows "err = None \<and> cr_effectiveMode cr' = cr_effectiveMode cr"
proof -
  obtain c cs where "buildDialCandidates res pool (cr_targetHost cr) (cr_targetAddr cr) (cr_rule cr) (cr_effectiveMode cr) = c # cs"
    using candidates_ok by (metis neq_Nil_conv)
  with assms show ?thesis by (auto simp: dialUpstream_def Let_def split: if_splits)
qed

text \<open>The SOCKS5 handler does not enforce blocking: for a rule in the mode \<open>block\<close> or \<open>reject\<close> the HTTP
  handler answers 403 and opens nothing, while the SOCKS5 handler for the same host and rule dials
  the target and tunnels to it as soon as a dial succeeds.\<close>

theorem socks5_ignores_block:
  assumes "pe_match env (hs_router st) (normalizeHost fqdn) proxyMode = (rule, ev, router)" "fqdn \<noteq> ''''"
    and "policyMode rule = ''block'' \<or> policyMode rule = ''reject''" and "\<forall>a. pe_dial env a = None"
  shows "fst (handleConnect env io fqdn reqHost rule st) = [HttpError 403 ''Blocked by rule''] \<and>
    (\<exists>a. TunnelUp (RawConn a) \<in> set (fst (handleSocks5Connect env io proxyMode fqdn ipText port True st)))"
proof -
  have prep: "prepare env h a rule s = (\<lparr>cr_conn = None, cr_dialCandidates = [], cr_dialAddr = '''',
      cr_effectiveMode = policyMode rule, cr_targetHost = h, cr_targetAddr = a, cr_rule = rule\<rparr>, [], s)" for h a s
    using assms(3) by (auto simp: prepare_def prepareConnect_def Let_def)
  have dial: "\<exists>cr' st2. dialFor env cr s = (None, cr', st2) \<and> cr_effectiveMode cr' = cr_effectiveMode cr" for cr s
  proof -
    obtain err cr' reps where d: "dialUpstream (pe_resolver env) (pe_pool env) (pe_dial env) cr = (err, cr', reps)"
      by (metis prod.exhaust)
    then show ?thesis using dialUpstream_all_accept [OF assms(4) d] by (simp add: dialFor_def)
  qed
  obtain cr' st2 where d: "dialFor env \<lparr>cr_conn = None, cr_dialCandidates = [], cr_dialAddr = '''',
      cr_effectiveMode = policyMode rule, cr_targetHost = normalizeHost fqdn, cr_targetAddr = fqdn @ '':'' @ Itoa port,
      cr_rule = rule\<rparr> (st\<lparr>hs_router := router\<rparr>) = (None, cr', st2)" "cr_effectiveMode cr' = policyMode rule"
    using dial by (metis connectResult.select_convs(4))
  have "fst (handleConnect env io fqdn reqHost rule st) = [HttpError 403 ''Blocked by rule'']"
    unfolding handleConnect_def Let_def prep prod.case using assms(2,3) by (auto simp: fst_andThen emit_def)
  moreover have "TunnelUp (RawConn (cr_dialAddr cr')) \<in> set (fst (handleSocks5Connect env io proxyMode fqdn ipText port True st))"
    using assms(2,3) d
    by (auto simp: handleSocks5Connect_def assms(1) prep Let_def fst_andThen runMode_def emit_def handleTransparent_def directTunnel_def
        split: prod.split)
  ultimately show ?thesis by blast
qed

definition exampleEnv :: "matcher \<Rightarrow> proxyEnv" where
  "exampleEnv match = \<lparr>pe_match = match, pe_resolver = None, pe_pool = None,
     pe_dial = (\<lambda>a. if SplitHostPort a = None then Some ''too many colons in address'' else None),
     pe_certGen = None, pe_now = 0,
     pe_net = \<lparr>un_dial = (\<lambda>_ _. None), un_handshake = (\<lambda>_ _ _. HandshakeOK ''h2''),
       un_lib = \<lparr>ul_idToSpec = (\<lambda>_. None), ul_applies = (\<lambda>_. True), ul_spkiHash = (\<lambda>_. ''''), ul_chain = (\<lambda>_ _. None)\<rparr>,
       un_certBypass = (\<lambda>_. False), un_fetchECH = None, un_fetchECHSafe = (\<lambda>_. None), un_io = None, un_hasPool = False\<rparr>,
     pe_upstreamConn = (\<lambda>_ _ _. None), pe_probe = None, pe_dialServer = (\<lambda>_. None), pe_h2OK = True\<rparr>"

definition exampleIO :: clientIO where
  "exampleIO = \<lparr>ci_hijackable = True, ci_hijackErr = False, ci_writeErr = False, ci_flushErr = False,
     ci_serverName = '''', ci_tlsHandshake = True, ci_bytes = []\<rparr>"

definition exampleState :: handlerState where
  "exampleState = \<lparr>hs_router = None, hs_up = \<lparr>us_dials = 0, us_rules = NewRuleManager Missing Missing None, us_reports = [],
     us_open = [], us_offered = []\<rparr>, hs_certs = Map.empty\<rparr>"

theorem socks5_ignores_block_witness:
  "let rule = zeroRule\<lparr>r_Mode := ''block''\<rparr>; env = (exampleEnv (\<lambda>r h m. (rule, (h, ''block''), r)))\<lparr>pe_dial := (\<lambda>_. None)\<rparr> in
   fst (handleConnect env exampleIO ''ads.example:443'' '''' rule exampleState) = [HttpError 403 ''Blocked by rule''] \<and>
   (\<exists>a. TunnelUp (RawConn a) \<in> set (fst (handleSocks5Connect env exampleIO ''mitm'' ''ads.example:443'' '''' 443 True exampleState)))"
proof -
  have m: "policyMode (zeroRule\<lparr>r_Mode := ''block''\<rparr>) = ''block''" by code_simp
  show ?thesis unfolding Let_def
    by (rule socks5_ignores_block) (simp_all add: exampleEnv_def m)
qed

text \<open>A direct SOCKS5 CONNECT to an IPv6 address always fails: the handler joins address and port with
  a colon and no brackets, which is not an address that can be dialled. The hypothesis on the dial is
  the documented behaviour of \<open>net.DialTimeout\<close>: an address that \<open>net.SplitHostPort\<close> rejects is an
  error.\<close>

theorem socks5_ipv6_direct_fails:
  assumes "\<forall>a. SplitHostPort a = None \<longrightarrow> pe_dial env a \<noteq> None"
    and "CHR '':'' \<in> set ipText" "hd ipText \<noteq> CHR ''[''"
    and "pe_match env (hs_router st) (normalizeHost ipText) proxyMode = (rule, (d, m), router)" "policyMode rule = ''direct''"
  shows "fst (handleSocks5Connect env io proxyMode '''' ipText port True st) = [RouteEvent d m, SocksReply False]"
proof -
  have "pe_dial env (ipText @ '':'' @ Itoa port) \<noteq> None"
    using assms(1) SplitHostPort_two_colons [OF assms(2,3) Itoa_no_colon] by blast
  moreover have "prepareConnect (pe_match env) router (normalizeHost ipText) (ipText @ '':'' @ Itoa port) rule =
      (\<lparr>cr_conn = None, cr_dialCandidates = [], cr_dialAddr = '''', cr_effectiveMode = ''direct'',
        cr_targetHost = normalizeHost ipText, cr_targetAddr = ipText @ '':'' @ Itoa port, cr_rule = rule\<rparr>, [], router)"
    by (simp add: prepareConnect_def assms(5) Let_def)
  ultimately show ?thesis
    by (auto simp: handleSocks5Connect_def assms(4) prepare_def Let_def fst_andThen emit_def)
qed

theorem socks5_ipv6_direct_fails_witness:
  "fst (handleSocks5Connect (exampleEnv (\<lambda>r h m. (zeroRule\<lparr>r_Mode := ''direct''\<rparr>, (h, ''direct''), r))) exampleIO ''mitm'' ''''
     ''2001:db8::1'' 443 True exampleState) = [RouteEvent (normalizeHost ''2001:db8::1'') ''direct'', SocksReply False]"
proof -
  have m: "policyMode (zeroRule\<lparr>r_Mode := ''direct''\<rparr>) = ''direct''" by code_simp
  show ?thesis by (rule socks5_ipv6_direct_fails [where rule = "zeroRule\<lparr>r_Mode := ''direct''\<rparr>" and router = None])
    (simp_all add: exampleEnv_def exampleState_def m)
qed

end
