(* ===== verification/Http_Forward.thy ===== *)
theory Http_Forward
  imports Handlers
begin

text \<open>
  The HTTP side of \<open>src/proxy/proxy.go\<close>: headers and their hop-by-hop filter, the forwarder of plain
  HTTP requests (\<open>handleHTTP\<close>), the request rewriting inside the server and QUIC modes, and the
  dispatcher \<open>handleRequest\<close>. Transports of \<open>net/http\<close> are parameters that get the request and, where
  the code replaces it, the dial function.
\<close>

section \<open>Headers\<close>

text \<open>\<open>http.Header\<close>: a map from canonical keys to values. \<open>CanonicalHeaderKey\<close> leaves a key with a byte
  that is no token character alone.\<close>

type_synonym header = "string \<rightharpoonup> string list"

definition upper_char :: "char \<Rightarrow> char" where
  "upper_char c = (if 97 \<le> (of_char c :: nat) \<and> (of_char c :: nat) \<le> 122
     then char_of ((of_char c :: nat) - 32) else c)"

definition tokenChar :: "char \<Rightarrow> bool" where
  "tokenChar c \<longleftrightarrow> (let n = (of_char c :: nat) in
     48 \<le> n \<and> n \<le> 57 \<or> 65 \<le> n \<and> n \<le> 90 \<or> 97 \<le> n \<and> n \<le> 122 \<or> c \<in> set ''!#$%&*+-.^_`|~'' \<or> n = 39)"

fun canonicalFrom :: "bool \<Rightarrow> string \<Rightarrow> string" where
  "canonicalFrom up [] = []"
| "canonicalFrom up (c # cs) = (if up then upper_char c else lower_char c) # canonicalFrom (c = CHR ''-'') cs"

definition CanonicalHeaderKey :: "string \<Rightarrow> string" where
  "CanonicalHeaderKey s = (if list_all tokenChar s then canonicalFrom True s else s)"

definition headerGet :: "header \<Rightarrow> string \<Rightarrow> string" where
  "headerGet h key = (case h (CanonicalHeaderKey key) of Some (v # _) \<Rightarrow> v | _ \<Rightarrow> '''')"

definition headerDel :: "string \<Rightarrow> header \<Rightarrow> header" where
  "headerDel key h = h(CanonicalHeaderKey key := None)"

definition headerAdd :: "string \<Rightarrow> string \<Rightarrow> header \<Rightarrow> header" where
  "headerAdd key v h = h(CanonicalHeaderKey key \<mapsto> (case h (CanonicalHeaderKey key) of Some vs \<Rightarrow> vs | None \<Rightarrow> []) @ [v])"

text \<open>The copy loops over a header, in the order \<open>ks\<close> in which the map is iterated.\<close>

definition copyHeader :: "string list \<Rightarrow> header \<Rightarrow> header \<Rightarrow> header" where
  "copyHeader ks src dst = fold (\<lambda>k d. fold (headerAdd k) (case src k of Some vs \<Rightarrow> vs | None \<Rightarrow> []) d) ks dst"

definition hopByHopHeaders :: "string list" where
  "hopByHopHeaders = [''Proxy-Connection'', ''Keep-Alive'', ''Proxy-Authenticate'', ''Proxy-Authorization'', ''Te'',
     ''Trailer'', ''Transfer-Encoding'']"

text \<open>\<open>textproto.TrimString\<close> trims the four ASCII white-space bytes.\<close>

definition TrimString :: "string \<Rightarrow> string" where
  "TrimString s = trim_where (\<lambda>c. c \<in> {CHR '' '', CHR 0x09, CHR 0x0A, CHR 0x0D}) s"

text \<open>The headers named by a \<open>Connection\<close> value, \<open>Upgrade\<close> apart.\<close>

definition connectionNames :: "string \<Rightarrow> string list" where
  "connectionNames c = (if c = '''' then [] else
     filter (\<lambda>name. name \<noteq> '''' \<and> \<not> EqualFold name ''Upgrade'') (map TrimString (Split (CHR '','') c)))"

definition removeHopByHopHeaders :: "header \<Rightarrow> header" where
  "removeHopByHopHeaders h =
     fold headerDel hopByHopHeaders (fold headerDel (connectionNames (headerGet h ''Connection'')) h)"

section \<open>Requests\<close>

text \<open>The parts of a request that the handlers use; its URL carries no
  user information.\<close>

record httpReq =
  rq_Method :: string
  rq_Scheme :: string
  rq_URLHost :: string
  rq_Host :: string
  rq_EscapedPath :: string
  rq_RawQuery :: string
  rq_TLS :: bool
  rq_Header :: header
  rq_Body :: bytes

record httpResp =
  rp_StatusCode :: nat
  rp_Header :: header
  rp_Body :: bytes

datatype httpResult = HttpFailed nat string | Redirected nat string | Answered httpResp

definition withQuery :: "string \<Rightarrow> string \<Rightarrow> string" where
  "withQuery url rawQuery = (if rawQuery \<noteq> '''' then url @ ''?'' @ rawQuery else url)"

definition urlString :: "string \<Rightarrow> string \<Rightarrow> httpReq \<Rightarrow> string" where
  "urlString scheme host r = withQuery (scheme @ ''://'' @ host @ rq_EscapedPath r) (rq_RawQuery r)"

section \<open>Plain HTTP\<close>

text \<open>The clone of the request, with scheme and hosts filled in.\<close>

definition cloneRequest :: "httpReq \<Rightarrow> httpReq" where
  "cloneRequest req =
     (let scheme = (if rq_Scheme req = '''' then (if rq_TLS req then ''https'' else ''http'') else rq_Scheme req);
          urlHost = (if rq_URLHost req = '''' then rq_Host req else rq_URLHost req);
          host = (if rq_Host req = '''' then urlHost else rq_Host req)
      in req\<lparr>rq_Scheme := scheme, rq_URLHost := urlHost, rq_Host := host,
             rq_Header := headerDel ''Proxy-Connection'' (rq_Header req)\<rparr>)"

text \<open>The dial function of the cloned transport: the first candidate that answers.\<close>

fun transportDial :: "(string \<Rightarrow> string option) \<Rightarrow> string list \<Rightarrow> string option \<Rightarrow> string + string" where
  "transportDial dial [] lastErr = Inl (case lastErr of Some e \<Rightarrow> e | None \<Rightarrow> '''')"
| "transportDial dial (c # cs) lastErr =
     (case dial c of None \<Rightarrow> Inr c | Some e \<Rightarrow> transportDial dial cs (Some e))"

text \<open>A transport: the dial function it uses instead of its own, and the request. The response's header
  is copied to the client.\<close>

type_synonym transport = "(string + string) option \<Rightarrow> httpReq \<Rightarrow> string + httpResp"

definition relay :: "string list \<Rightarrow> string \<Rightarrow> string + httpResp \<Rightarrow> httpResult" where
  "relay ks failure outcome =
     (case outcome of
        Inl _ \<Rightarrow> HttpFailed 502 failure
      | Inr resp \<Rightarrow> Answered (resp\<lparr>rp_Header := copyHeader ks (rp_Header resp) Map.empty\<rparr>))"

definition handleHTTP ::
    "proxyEnv \<Rightarrow> transport \<Rightarrow> string list \<Rightarrow> httpReq \<Rightarrow> rule \<Rightarrow> httpResult" where
  "handleHTTP env roundTrip ks req rule =
     (let newReq = cloneRequest req; mode = r_Mode rule in
      if (mode = ''mitm'' \<or> mode = ''quic'') \<and> rq_Scheme newReq = ''http'' then
        Redirected 301 (urlString ''https'' (if rq_URLHost newReq = '''' then rq_Host req else rq_URLHost newReq) newReq)
      else if mode = ''block'' \<or> mode = ''reject'' then HttpFailed 403 ''Blocked by rule''
      else if mode = ''direct'' then relay ks ''Failed to proxy'' (roundTrip None newReq)
      else
        let defaultPort = (if EqualFold (rq_Scheme newReq) ''https'' then ''443'' else ''80'');
            targetAddr = ensureAddrWithPort (rq_URLHost newReq) defaultPort;
            candidates = buildDialCandidates (pe_resolver env) (pe_pool env) (normalizeHost (rq_Host newReq)) targetAddr rule mode
        in if r_Upstream rule \<noteq> '''' then
             relay ks ''Failed to connect to upstream''
               (roundTrip None (if candidates \<noteq> [] then newReq\<lparr>rq_URLHost := hd candidates\<rparr> else newReq))
           else if candidates \<noteq> [] \<and> hd candidates \<noteq> targetAddr then
             relay ks ''Failed to connect to upstream''
               (roundTrip (Some (transportDial (pe_dial env) (dedupeDialCandidates candidates) None)) newReq)
           else relay ks ''Failed to connect to upstream'' (roundTrip None newReq))"

section \<open>Requests inside the server and QUIC modes\<close>

definition rootedPath :: "string \<Rightarrow> string" where
  "rootedPath path = (if path = '''' \<or> \<not> HasPrefix path ''/'' then ''/'' @ TrimPrefix path ''/'' else path)"

definition workerURL :: "string \<Rightarrow> string \<Rightarrow> string \<Rightarrow> httpReq \<Rightarrow> string" where
  "workerURL serverHost serverAuth host req =
     withQuery (''https://'' @ serverHost @ ''/'' @ serverAuth @ ''/'' @ host @ rootedPath (rq_EscapedPath req)) (rq_RawQuery req)"

definition quicTargetURL :: "string \<Rightarrow> httpReq \<Rightarrow> string" where
  "quicTargetURL host req = withQuery (''https://'' @ host @ rootedPath (rq_EscapedPath req)) (rq_RawQuery req)"

text \<open>The request sent upstream. \<open>valid\<close> tells whether \<open>http.NewRequest\<close> accepts method and URL.\<close>

record outRequest =
  or_Method :: string
  or_URL :: string
  or_Host :: string
  or_Header :: header
  or_Body :: bytes

definition forwardTo ::
    "(string \<Rightarrow> string \<Rightarrow> bool) \<Rightarrow> (outRequest \<Rightarrow> string + httpResp) \<Rightarrow> string list \<Rightarrow> (header \<Rightarrow> string list) \<Rightarrow> string \<Rightarrow> string
       \<Rightarrow> httpReq \<Rightarrow> httpResult" where
  "forwardTo valid doReq ks respKeys url host req =
     (if \<not> valid (rq_Method req) url then HttpFailed 500 ''Bad request''
      else
        let out = \<lparr>or_Method = rq_Method req, or_URL = url, or_Host = host,
              or_Header = removeHopByHopHeaders (copyHeader ks (rq_Header req) Map.empty), or_Body = rq_Body req\<rparr>
        in case doReq out of
             Inl _ \<Rightarrow> HttpFailed 502 ''Proxy error''
           | Inr resp \<Rightarrow>
               let h = removeHopByHopHeaders (rp_Header resp)
               in Answered (resp\<lparr>rp_Header := copyHeader (respKeys h) h Map.empty\<rparr>))"

definition serverForward ::
    "(string \<Rightarrow> string \<Rightarrow> bool) \<Rightarrow> (outRequest \<Rightarrow> string + httpResp) \<Rightarrow> string list \<Rightarrow> (header \<Rightarrow> string list)
       \<Rightarrow> string \<Rightarrow> string \<Rightarrow> string \<Rightarrow> httpReq \<Rightarrow> httpResult" where
  "serverForward valid doReq ks respKeys serverHost serverAuth host req =
     forwardTo valid doReq ks respKeys (workerURL serverHost serverAuth host req) serverHost req"

definition quicForward ::
    "(string \<Rightarrow> string \<Rightarrow> bool) \<Rightarrow> (outRequest \<Rightarrow> string + httpResp) \<Rightarrow> string list \<Rightarrow> (header \<Rightarrow> string list)
       \<Rightarrow> string \<Rightarrow> httpReq \<Rightarrow> httpResult" where
  "quicForward valid doReq ks respKeys host req = forwardTo valid doReq ks respKeys (quicTargetURL host req) host req"

section \<open>Dispatch\<close>

datatype requestResult = ConnectDone "event list" | HttpDone httpResult

definition handleRequest ::
    "proxyEnv \<Rightarrow> clientIO \<Rightarrow> transport \<Rightarrow> string list \<Rightarrow> string \<Rightarrow> httpReq \<Rightarrow> handlerState
       \<Rightarrow> requestResult \<times> (string \<times> string) \<times> handlerState" where
  "handleRequest env io roundTrip ks proxyMode req st =
     (let host = (if rq_Host req = '''' then rq_URLHost req else rq_Host req);
          (rule, ev, router) = pe_match env (hs_router st) (normalizeHost host) proxyMode;
          st1 = st\<lparr>hs_router := router\<rparr>
      in if rq_Method req = ''CONNECT'' then
           (let (evs, st2) = handleConnect env io (rq_URLHost req) (rq_Host req) rule st1 in (ConnectDone evs, ev, st2))
         else (HttpDone (handleHTTP env roundTrip ks req rule), ev, st1))"

end
