(* ===== verification/Http_Forward_Correct.thy ===== *)
theory Http_Forward_Correct
  imports Http_Forward Dialing_Correct
begin

text \<open>
  Properties of the HTTP side: which headers pass the proxy, and the port a request is sent to.
\<close>

section \<open>Headers\<close>

text \<open>A header as \<open>net/http\<close> parses it, with the order in which it is iterated: canonical keys, each with
  at least one value.\<close>

definition iterates :: "string list \<Rightarrow> header \<Rightarrow> bool" where
  "iterates ks h \<longleftrightarrow> distinct ks \<and> set ks = dom h \<and> (\<forall>k. h k \<noteq> None \<longrightarrow> CanonicalHeaderKey k = k \<and> h k \<noteq> Some [])"

lemma fold_headerAdd: "CanonicalHeaderKey k = k \<Longrightarrow> d k = Some ws \<Longrightarrow> fold (headerAdd k) vs d = d(k \<mapsto> ws @ vs)"
  by (induction vs arbitrary: d ws) (auto simp: headerAdd_def fun_upd_idem)

lemma fold_headerAdd_fresh:
  "CanonicalHeaderKey k = k \<Longrightarrow> d k = None \<Longrightarrow> fold (headerAdd k) (v # vs) d = d(k \<mapsto> v # vs)"
  using fold_headerAdd [of k "d(k \<mapsto> [v])" "[v]" vs] by (simp add: headerAdd_def)

lemma copyHeader_fresh:
  assumes "distinct ks" "\<forall>k\<in>set ks. CanonicalHeaderKey k = k \<and> (\<exists>v vs. src k = Some (v # vs))" "\<forall>k\<in>set ks. dst k = None"
  shows "copyHeader ks src dst = (\<lambda>k. if k \<in> set ks then src k else dst k)"
  using assms
proof (induction ks arbitrary: dst)
  case Nil
  then show ?case by (simp add: copyHeader_def)
next
  case (Cons k ks)
  then obtain v vs where k: "src k = Some (v # vs)" "CanonicalHeaderKey k = k" "dst k = None" by auto
  then have "copyHeader (k # ks) src dst = copyHeader ks src (dst(k \<mapsto> v # vs))"
    using fold_headerAdd_fresh [of k dst v vs] by (simp add: copyHeader_def)
  also have "\<dots> = (\<lambda>k'. if k' \<in> set ks then src k' else (dst(k \<mapsto> v # vs)) k')"
    using Cons.prems by (intro Cons.IH) auto
  finally show ?case using k by (auto simp: fun_eq_iff)
qed

lemma copyHeader_id: "iterates ks h \<Longrightarrow> copyHeader ks h Map.empty = h"
proof -
  assume h: "iterates ks h"
  have "copyHeader ks h Map.empty = (\<lambda>k. if k \<in> set ks then h k else None)"
  proof (rule copyHeader_fresh)
    show "\<forall>k\<in>set ks. CanonicalHeaderKey k = k \<and> (\<exists>v vs. h k = Some (v # vs))"
    proof
      fix k assume "k \<in> set ks"
      with h obtain vs where "h k = Some vs" "vs \<noteq> []" "CanonicalHeaderKey k = k" by (auto simp: iterates_def)
      then show "CanonicalHeaderKey k = k \<and> (\<exists>v vs. h k = Some (v # vs))" by (cases vs) auto
    qed
  qed (use h in \<open>auto simp: iterates_def\<close>)
  then show ?thesis using h by (auto simp: iterates_def fun_eq_iff domIff)
qed

lemma fold_headerDel:
  "fold headerDel names h = (\<lambda>k. if k \<in> CanonicalHeaderKey ` set names then None else h k)"
  by (induction names arbitrary: h) (auto simp: headerDel_def fun_eq_iff)

text \<open>The end-to-end part of a header: without the hop-by-hop headers and without the ones that the first
  \<open>Connection\<close> value names.\<close>

definition endToEnd :: "header \<Rightarrow> header" where
  "endToEnd h = (\<lambda>k. if k \<in> CanonicalHeaderKey ` (set hopByHopHeaders \<union> set (connectionNames (headerGet h ''Connection'')))
     then None else h k)"

lemma removeHopByHopHeaders_eq: "removeHopByHopHeaders h = endToEnd h"
  by (auto simp: removeHopByHopHeaders_def fold_headerDel endToEnd_def fun_eq_iff)



end
