(* ===== verification/Server_Lifecycle.thy ===== *)
theory Server_Lifecycle
  imports Cf_Pool Addresses
begin

text \<open>
  The life cycle of the \<open>ProxyServer\<close> of \<open>src/proxy/proxy.go\<close>: \<open>Start\<close>, \<open>Stop\<close>, the goroutine that
  serves, the SOCKS5 listener, the settings that may change in between, and the small connection
  wrappers. \<open>Start\<close> holds the lock in two sections with the \<open>net.Listen\<close> between them, so it is three
  operations here and other calls may come in between; every \<open>http.Server\<close> has a number.
\<close>

section \<open>State\<close>

text \<open>\<open>ps_starting\<close>: the servers of the \<open>Start\<close> calls that wait for \<open>net.Listen\<close>, with the address;
  \<open>ps_listening\<close>: those whose listener is open and that wait for the lock; \<open>ps_serving\<close>: the servers with a
  running goroutine; \<open>ps_closed\<close>: the servers on which \<open>Close\<close> was called; \<open>ps_bound\<close>: the open listeners
  with their servers; \<open>ps_socksBound\<close>: the addresses of the open SOCKS5 listeners.\<close>

record proxyServer =
  ps_listenAddr :: string
  ps_socks5Addr :: string
  ps_socks5Enabled :: bool
  ps_mode :: string
  ps_running :: bool
  ps_Server :: "nat option"
  ps_cfPool :: cfPool
  ps_recentIngress :: "string list"
  ps_next :: nat
  ps_starting :: "(nat \<times> string) list"
  ps_listening :: "nat list"
  ps_serving :: "nat list"
  ps_closed :: "nat list"
  ps_bound :: "(nat \<times> string) list"
  ps_socksBound :: "string list"

definition NewProxyServer :: "string \<Rightarrow> proxyServer" where
  "NewProxyServer addr = \<lparr>ps_listenAddr = addr, ps_socks5Addr = '''', ps_socks5Enabled = False, ps_mode = ''mitm'',
     ps_running = False, ps_Server = None, ps_cfPool = NewCloudflarePool [] [], ps_recentIngress = [], ps_next = 0,
     ps_starting = [], ps_listening = [], ps_serving = [], ps_closed = [], ps_bound = [], ps_socksBound = []\<rparr>"

section \<open>Settings\<close>

definition SetListenAddr :: "string \<Rightarrow> proxyServer \<Rightarrow> string option \<times> proxyServer" where
  "SetListenAddr addr p =
     (if ps_running p then (Some ''cannot change address while proxy is running'', p)
      else (None, p\<lparr>ps_listenAddr := addr\<rparr>))"

definition SetMode :: "string \<Rightarrow> proxyServer \<Rightarrow> string option \<times> proxyServer" where
  "SetMode mode0 p =
     (let mode = ToLower (TrimSpace mode0) in
      if mode \<noteq> ''mitm'' \<and> mode \<noteq> ''transparent'' \<and> mode \<noteq> ''tls-rf'' \<and> mode \<noteq> ''quic''
      then (Some (''invalid proxy mode: '' @ mode), p)
      else (None, p\<lparr>ps_mode := mode\<rparr>))"

definition GetMode :: "proxyServer \<Rightarrow> string" where
  "GetMode p = ps_mode p"

definition SetSocks5Addr :: "string \<Rightarrow> proxyServer \<Rightarrow> proxyServer" where
  "SetSocks5Addr addr p = p\<lparr>ps_socks5Addr := addr\<rparr>"

definition SetSocks5EnabledPS :: "bool \<Rightarrow> proxyServer \<Rightarrow> proxyServer" where
  "SetSocks5EnabledPS enabled p = p\<lparr>ps_socks5Enabled := enabled\<rparr>"

definition UpdateCloudflareIPPool :: "string list \<Rightarrow> string list \<Rightarrow> proxyServer \<Rightarrow> proxyServer" where
  "UpdateCloudflareIPPool ord ips p = p\<lparr>ps_cfPool := UpdateIPs ord ips (ps_cfPool p)\<rparr>"

definition trackAccepted :: "string \<Rightarrow> proxyServer \<Rightarrow> proxyServer" where
  "trackAccepted remote p =
     (let recent = (if 10 \<le> length (ps_recentIngress p) then drop 1 (ps_recentIngress p) else ps_recentIngress p)
      in p\<lparr>ps_recentIngress := recent @ [remote]\<rparr>)"

definition IsRunning :: "proxyServer \<Rightarrow> bool" where
  "IsRunning p = ps_running p"

section \<open>Start and Stop\<close>

text \<open>The entries of the server \<open>i\<close> are taken out.\<close>

definition unbind :: "nat \<Rightarrow> (nat \<times> string) list \<Rightarrow> (nat \<times> string) list" where
  "unbind i bound = filter (\<lambda>b. fst b \<noteq> i) bound"

text \<open>The first locked section of \<open>Start\<close>; the pool is started twice.\<close>

definition startBegin :: "proxyServer \<Rightarrow> proxyServer" where
  "startBegin p =
     (if ps_running p then p
      else p\<lparr>ps_cfPool := Cf_Pool.Start (Cf_Pool.Start (ps_cfPool p)), ps_starting := (ps_next p, ps_listenAddr p) # ps_starting p,
             ps_next := ps_next p + 1\<rparr>)"

text \<open>\<open>net.Listen\<close> for the server \<open>i\<close>: it fails when the address is taken (or for another reason, \<open>\<not> ok\<close>),
  and then the pool is stopped. Closing a closed channel would be a panic (\<open>None\<close>).\<close>

definition startListen :: "bool \<Rightarrow> nat \<times> string \<Rightarrow> proxyServer \<Rightarrow> proxyServer option" where
  "startListen ok srv p =
     (let p1 = p\<lparr>ps_starting := unbind (fst srv) (ps_starting p)\<rparr> in
      if ok \<and> snd srv \<notin> snd ` set (ps_bound p)
      then Some (p1\<lparr>ps_listening := fst srv # ps_listening p, ps_bound := srv # ps_bound p\<rparr>)
      else map_option (\<lambda>pool. p1\<lparr>ps_cfPool := pool\<rparr>) (Cf_Pool.Stop (ps_cfPool p)))"

text \<open>\<open>startSocks5\<close>: a failing \<open>net.Listen\<close> is logged only.\<close>

definition startSocks5 :: "bool \<Rightarrow> proxyServer \<Rightarrow> proxyServer" where
  "startSocks5 ok p =
     (if ok \<and> ps_socks5Addr p \<notin> set (ps_socksBound p) then p\<lparr>ps_socksBound := ps_socks5Addr p # ps_socksBound p\<rparr> else p)"

text \<open>The second locked section, the goroutine and the SOCKS5 listener.\<close>

definition startCommit :: "bool \<Rightarrow> nat \<Rightarrow> proxyServer \<Rightarrow> proxyServer" where
  "startCommit socksOK i p =
     (let p1 = p\<lparr>ps_listening := removeAll i (ps_listening p)\<rparr> in
      if ps_running p then p1\<lparr>ps_bound := unbind i (ps_bound p)\<rparr>
      else
        let p2 = p1\<lparr>ps_Server := Some i, ps_running := True, ps_serving := i # ps_serving p\<rparr>
        in if ps_socks5Enabled p then startSocks5 socksOK p2 else p2)"

text \<open>The end of the goroutine of the server \<open>i\<close>, after \<open>Close\<close> or a fatal error of its listener, which is
  closed with it.\<close>

definition serveExit :: "nat \<Rightarrow> proxyServer \<Rightarrow> proxyServer" where
  "serveExit i p =
     (let p1 = p\<lparr>ps_serving := removeAll i (ps_serving p), ps_bound := unbind i (ps_bound p)\<rparr>
      in if ps_Server p = Some i then p1\<lparr>ps_running := False\<rparr> else p1)"

text \<open>\<open>Stop\<close>: \<open>tracked\<close> tells whether the goroutine has handed its listener to the server yet, so that
  \<open>Close\<close> closes it at once.\<close>

definition StopPS :: "bool \<Rightarrow> proxyServer \<Rightarrow> proxyServer option" where
  "StopPS tracked p =
     (if \<not> ps_running p then Some p
      else map_option (\<lambda>pool.
        let p1 = p\<lparr>ps_running := False, ps_cfPool := pool\<rparr> in
        case ps_Server p of
          None \<Rightarrow> p1
        | Some i \<Rightarrow> p1\<lparr>ps_closed := i # ps_closed p,
            ps_bound := (if tracked then unbind i (ps_bound p) else ps_bound p)\<rparr>) (Cf_Pool.Stop (ps_cfPool p)))"

section \<open>Connection wrappers\<close>

text \<open>\<open>statConn\<close>: the counters are 64-bit integers and wrap around.\<close>

definition countBytes :: "nat \<Rightarrow> 64 word \<Rightarrow> 64 word" where
  "countBytes n counter = (if 0 < n then counter + word_of_nat n else counter)"

text \<open>\<open>singleConnListener\<close>: the connection is accepted once; a second \<open>Accept\<close> waits until the connection or
  the listener is closed.\<close>

datatype acceptResult = AcceptConn | AcceptBlocks | AcceptEOF

record singleConnListener =
  sl_accepted :: bool
  sl_done :: bool

definition acceptSingle :: "singleConnListener \<Rightarrow> acceptResult \<times> singleConnListener" where
  "acceptSingle l =
     (if \<not> sl_accepted l then (AcceptConn, l\<lparr>sl_accepted := True\<rparr>)
      else (if sl_done l then AcceptEOF else AcceptBlocks, l))"

definition closeSingle :: "singleConnListener \<Rightarrow> singleConnListener" where
  "closeSingle l = l\<lparr>sl_done := True\<rparr>"

text \<open>\<open>socks5ConnTracker\<close>: the connections by remote address.\<close>

type_synonym connTracker = "string \<rightharpoonup> nat"

definition trackerAccept :: "string \<Rightarrow> nat \<Rightarrow> connTracker \<Rightarrow> connTracker" where
  "trackerAccept remote conn t = t(remote \<mapsto> conn)"

definition trackerUnregister :: "string \<Rightarrow> connTracker \<Rightarrow> connTracker" where
  "trackerUnregister remote t = t(remote := None)"

definition trackerGetConn :: "string \<Rightarrow> connTracker \<Rightarrow> nat option" where
  "trackerGetConn remote t = t remote"

text \<open>\<open>wrapHijackedConn\<close>: the bytes the server has buffered come before the ones of the connection.\<close>

definition wrapHijackedConn :: "bytes option \<Rightarrow> bytes \<Rightarrow> bytes" where
  "wrapHijackedConn buffered stream = (case buffered of None \<Rightarrow> stream | Some b \<Rightarrow> b @ stream)"

end
