(* ===== verification/Server_Lifecycle_Correct.thy ===== *)
theory Server_Lifecycle_Correct
  imports Server_Lifecycle Cf_Pool_Correct
begin

text \<open>
  The life cycle under interleaved calls: the steps are the locked sections of \<open>Start\<close> and \<open>Stop\<close>, the
  listening in between, the end of a serving goroutine, the setters and the work of the pool.
\<close>

inductive lifeStep :: "proxyServer \<Rightarrow> proxyServer \<Rightarrow> bool" where
  start: "lifeStep p (startBegin p)"
| listen: "srv \<in> set (ps_starting p) \<Longrightarrow> startListen ok srv p = Some p' \<Longrightarrow> lifeStep p p'"
| commit: "i \<in> set (ps_listening p) \<Longrightarrow> lifeStep p (startCommit ok i p)"
| stop: "StopPS tracked p = Some p' \<Longrightarrow> lifeStep p p'"
| exit: "i \<in> set (ps_serving p) \<Longrightarrow> lifeStep p (serveExit i p)"
| setAddr: "lifeStep p (snd (SetListenAddr a p))"
| setMode: "lifeStep p (snd (SetMode m p))"
| setSocksAddr: "lifeStep p (SetSocks5Addr a p)"
| setSocks: "lifeStep p (SetSocks5EnabledPS b p)"
| accepted: "lifeStep p (trackAccepted r p)"
| pool: "cfStep (ps_cfPool p) pool' \<Longrightarrow> lifeStep p (p\<lparr>ps_cfPool := pool'\<rparr>)"

section \<open>The invariant\<close>

text \<open>What holds of a server: it is in one phase at a time, its number was given out, it serves without having
  been closed exactly when it is the current server of a running proxy, and it holds a listener from
  \<open>net.Listen\<close> until it is closed, at most until its goroutine ends.\<close>

definition phaseOK :: "bool \<Rightarrow> bool \<Rightarrow> bool \<Rightarrow> bool \<Rightarrow> bool \<Rightarrow> bool \<Rightarrow> bool \<Rightarrow> bool \<Rightarrow> bool" where
  "phaseOK starting listening serving closed bound current running known \<longleftrightarrow>
     (starting \<or> listening \<or> serving \<or> closed \<or> bound \<or> current \<longrightarrow> known) \<and>
     \<not> (starting \<and> listening) \<and> \<not> (starting \<and> serving) \<and> \<not> (listening \<and> serving) \<and>
     (current \<or> closed \<longrightarrow> \<not> starting \<and> \<not> listening) \<and>
     (serving \<and> \<not> closed \<longleftrightarrow> running \<and> current) \<and>
     (listening \<or> serving \<and> \<not> closed \<longrightarrow> bound) \<and> (bound \<longrightarrow> listening \<or> serving)"

definition srvOK :: "proxyServer \<Rightarrow> nat \<Rightarrow> bool" where
  "srvOK p i = phaseOK (i \<in> fst ` set (ps_starting p)) (i \<in> set (ps_listening p)) (i \<in> set (ps_serving p))
     (i \<in> set (ps_closed p)) (i \<in> fst ` set (ps_bound p)) (ps_Server p = Some i) (ps_running p) (i < ps_next p)"

definition lifeInv :: "proxyServer \<Rightarrow> bool" where
  "lifeInv p \<longleftrightarrow> (\<forall>i. srvOK p i) \<and> (ps_running p \<longrightarrow> ps_Server p \<noteq> None) \<and>
     distinct (map snd (ps_bound p)) \<and> cfInv (ps_cfPool p) \<and> length (ps_recentIngress p) \<le> 10"

lemma fst_unbind: "fst ` set (unbind i bound) = fst ` set bound - {i}"
  by (auto simp: unbind_def)

lemma distinct_unbind: "distinct (map snd bound) \<Longrightarrow> distinct (map snd (unbind i bound))"
  by (induction bound) (auto simp: unbind_def)

text \<open>The phases, one lemma per step of the server itself.\<close>

lemma phase_fresh: "phaseOK a b c d e f r False \<longleftrightarrow> \<not> a \<and> \<not> b \<and> \<not> c \<and> \<not> d \<and> \<not> e \<and> \<not> f"
  unfolding phaseOK_def by blast

lemma phase_steps:
  "phaseOK True l s c b u r k \<Longrightarrow> phaseOK False True s c True u r k"
  "phaseOK st l s c b u r k \<Longrightarrow> phaseOK False l s c b u r k"
  "phaseOK st True s c b u r k \<Longrightarrow> phaseOK st False s c False u r k"
  "phaseOK st True s c b u r k \<Longrightarrow> phaseOK st False True c b True True k"
  "phaseOK st l True c b True r k \<Longrightarrow> phaseOK st l False c False True False k"
  "phaseOK st l True c b False r k \<Longrightarrow> phaseOK st l False c False False r k"
  "phaseOK st l s c b True True k \<Longrightarrow> phaseOK st l s True (b \<and> \<not> tracked) True False k"
  unfolding phaseOK_def by blast+

lemma phase_others:
  "phaseOK st l s c b u False k \<Longrightarrow> phaseOK st l s c b False True k"
  "phaseOK st l s c b False r k \<Longrightarrow> phaseOK st l s c b False r' k"
  "phaseOK st l s c b u r k \<Longrightarrow> k' \<Longrightarrow> phaseOK st l s c b u r k'"
  unfolding phaseOK_def by blast+

lemma srvOK_start: "srvOK p j \<Longrightarrow> 
    srvOK (p\<lparr>ps_cfPool := c, ps_starting := (ps_next p, a) # ps_starting p, ps_next := Suc (ps_next p)\<rparr>) j"
proof (cases "j = ps_next p")
  case True
  assume "srvOK p j"
  with True show ?thesis by (simp add: srvOK_def phase_fresh) (simp add: phaseOK_def)
next
  case False
  assume "srvOK p j"
  with False show ?thesis by (cases "j < ps_next p") (simp_all add: srvOK_def phase_fresh less_Suc_eq)
qed

lemma srvOK_listen: "i \<in> fst ` set (ps_starting p) \<Longrightarrow> srvOK p j \<Longrightarrow>
    srvOK (p\<lparr>ps_starting := unbind i (ps_starting p), ps_listening := i # ps_listening p, ps_bound := (i, a) # ps_bound p\<rparr>) j"
  by (cases "j = i") (simp_all add: srvOK_def fst_unbind phase_steps(1))

lemma srvOK_listenErr: "srvOK p j \<Longrightarrow> srvOK (p\<lparr>ps_starting := unbind i (ps_starting p), ps_cfPool := c\<rparr>) j"
  by (cases "j = i") (simp_all add: srvOK_def fst_unbind phase_steps(2))

lemma srvOK_giveUp: "i \<in> set (ps_listening p) \<Longrightarrow> srvOK p j \<Longrightarrow>
    srvOK (p\<lparr>ps_listening := removeAll i (ps_listening p), ps_bound := unbind i (ps_bound p)\<rparr>) j"
  by (cases "j = i") (simp_all add: srvOK_def fst_unbind phase_steps(3))

lemma srvOK_run: "i \<in> set (ps_listening p) \<Longrightarrow> srvOK p j \<Longrightarrow> \<not> ps_running p \<Longrightarrow>
    srvOK (p\<lparr>ps_listening := removeAll i (ps_listening p), ps_Server := Some i, ps_running := True, ps_serving := i # ps_serving p\<rparr>) j"
  by (cases "j = i") (simp_all add: srvOK_def phase_steps(4) phase_others(1))

lemma srvOK_exit: "i \<in> set (ps_serving p) \<Longrightarrow> srvOK p j \<Longrightarrow> srvOK (serveExit i p) j"
  by (cases "j = i"; cases "ps_Server p = Some i") (auto simp: srvOK_def fst_unbind serveExit_def Let_def phase_others(2) intro: phase_steps(5,6))

lemma srvOK_stop: "ps_Server p = Some i \<Longrightarrow> ps_running p \<Longrightarrow> srvOK p j \<Longrightarrow>
    srvOK (p\<lparr>ps_running := False, ps_cfPool := c, ps_closed := i # ps_closed p,
       ps_bound := (if tracked then unbind i (ps_bound p) else ps_bound p)\<rparr>) j"
  using phase_steps(7) [where tracked = tracked]
  by (cases "j = i"; cases tracked) (auto simp: srvOK_def fst_unbind phase_others(2))

section \<open>Every step keeps the invariant\<close>

lemma lifeInv_New: "lifeInv (NewProxyServer a)"
  by (simp add: lifeInv_def srvOK_def NewProxyServer_def cfInv_New phaseOK_def)

lemma lifeInv_start: "lifeInv p \<Longrightarrow> lifeInv (startBegin p)"
  by (simp add: lifeInv_def startBegin_def cftask.start_ok srvOK_start)

lemma lifeInv_listen:
  assumes "lifeInv p" "srv \<in> set (ps_starting p)" "startListen ok srv p = Some p'"
  shows "lifeInv p'"
proof (cases "ok \<and> snd srv \<notin> snd ` set (ps_bound p)")
  case True
  have i: "fst srv \<in> fst ` set (ps_starting p)" using assms(2) by (rule imageI)
  have "p' = p\<lparr>ps_starting := unbind (fst srv) (ps_starting p), ps_listening := fst srv # ps_listening p, ps_bound := srv # ps_bound p\<rparr>"
    using assms(3) True by (simp add: startListen_def Let_def)
  then show ?thesis using assms(1) True srvOK_listen [OF i, of _ "snd srv"] by (simp add: lifeInv_def)
next
  case False
  have "cfInv (ps_cfPool p)" using assms(1) by (simp add: lifeInv_def)
  then obtain c where c: "Cf_Pool.Stop (ps_cfPool p) = Some c" "cfInv c" by (rule cftask.stop_cases)
  then have "p' = p\<lparr>ps_starting := unbind (fst srv) (ps_starting p), ps_cfPool := c\<rparr>"
    using assms(3) False unfolding startListen_def Let_def by (simp only: if_False option.map option.inject)
  then show ?thesis using assms(1) c srvOK_listenErr by (simp add: lifeInv_def)
qed

lemma lifeInv_socks: "lifeInv p \<Longrightarrow> lifeInv (startSocks5 ok p)"
  by (simp add: lifeInv_def startSocks5_def srvOK_def)

lemma lifeInv_commit:
  assumes "lifeInv p" "i \<in> set (ps_listening p)"
  shows "lifeInv (startCommit ok i p)"
proof (cases "ps_running p")
  case True
  then show ?thesis using assms srvOK_giveUp [OF assms(2)] by (simp add: startCommit_def lifeInv_def distinct_unbind)
next
  case False
  let ?q = "p\<lparr>ps_listening := removeAll i (ps_listening p), ps_Server := Some i, ps_running := True, ps_serving := i # ps_serving p\<rparr>"
  have "lifeInv ?q" using assms(1) False srvOK_run [OF assms(2)] by (simp add: lifeInv_def)
  then show ?thesis using False lifeInv_socks [of ?q ok] by (simp add: startCommit_def Let_def)
qed

lemma lifeInv_stop:
  assumes "lifeInv p" "StopPS tracked p = Some p'"
  shows "lifeInv p'"
proof (cases "ps_running p")
  case True
  have "cfInv (ps_cfPool p)" using assms(1) by (simp add: lifeInv_def)
  then obtain c where c: "Cf_Pool.Stop (ps_cfPool p) = Some c" "cfInv c" by (rule cftask.stop_cases)
  obtain i where i: "ps_Server p = Some i" using assms(1) True by (auto simp: lifeInv_def)
  have "p' = p\<lparr>ps_running := False, ps_cfPool := c, ps_closed := i # ps_closed p,
       ps_bound := (if tracked then unbind i (ps_bound p) else ps_bound p)\<rparr>"
    using assms(2) True c i by (simp add: StopPS_def Let_def)
  then show ?thesis using assms(1) c srvOK_stop [OF i True] by (simp add: lifeInv_def distinct_unbind)
next
  case False
  then show ?thesis using assms by (simp add: StopPS_def)
qed

lemma lifeInv_exit: "lifeInv p \<Longrightarrow> i \<in> set (ps_serving p) \<Longrightarrow> lifeInv (serveExit i p)"
  using srvOK_exit [of i p] by (simp add: lifeInv_def) (simp add: serveExit_def Let_def distinct_unbind)

lemma lifeInv_setters:
  assumes "lifeInv p"
  shows "lifeInv (snd (SetListenAddr a p))" "lifeInv (snd (SetMode m p))" "lifeInv (SetSocks5Addr a p)"
    "lifeInv (SetSocks5EnabledPS b p)" "lifeInv (trackAccepted r p)"
proof -
  have s: "srvOK (p\<lparr>ps_listenAddr := x\<rparr>) i = srvOK p i" "srvOK (p\<lparr>ps_mode := x\<rparr>) i = srvOK p i" "srvOK (p\<lparr>ps_socks5Addr := x\<rparr>) i = srvOK p i"
    "srvOK (p\<lparr>ps_socks5Enabled := y\<rparr>) i = srvOK p i" "srvOK (p\<lparr>ps_recentIngress := z\<rparr>) i = srvOK p i" for x y z i
    by (simp_all add: srvOK_def)
  show "lifeInv (snd (SetListenAddr a p))" "lifeInv (snd (SetMode m p))" "lifeInv (SetSocks5Addr a p)" "lifeInv (SetSocks5EnabledPS b p)"
    using assms by (simp_all add: SetListenAddr_def SetMode_def SetSocks5Addr_def SetSocks5EnabledPS_def Let_def lifeInv_def s)
  show "lifeInv (trackAccepted r p)" using assms by (auto simp: trackAccepted_def Let_def lifeInv_def s)
qed

lemma lifeInv_pool: "cfStep (ps_cfPool p) c \<Longrightarrow> lifeInv p \<Longrightarrow> lifeInv (p\<lparr>ps_cfPool := c\<rparr>)"
  using cfInv_step by (simp add: lifeInv_def srvOK_def)

lemma lifeInv_step: "lifeStep p p' \<Longrightarrow> lifeInv p \<Longrightarrow> lifeInv p'"
  by (induction rule: lifeStep.induct)
    (blast intro: lifeInv_start lifeInv_listen lifeInv_commit lifeInv_stop lifeInv_exit lifeInv_setters lifeInv_pool)+

interpretation life: step_system lifeStep "\<lambda>p. \<exists>a. p = NewProxyServer a" lifeInv
  by unfold_locales (auto intro: lifeInv_New lifeInv_step)

section \<open>Properties\<close>

lemma srvOK_D:
  assumes "srvOK p i"
  shows "i \<in> set (ps_serving p) \<and> i \<notin> set (ps_closed p) \<longleftrightarrow> ps_running p \<and> ps_Server p = Some i"
    "ps_running p \<and> ps_Server p = Some i \<Longrightarrow> i \<in> fst ` set (ps_bound p)"
  using assms by (simp_all add: srvOK_def phaseOK_def)



text \<open>Two calls of \<open>Start\<close> at once: the second one fails to listen and stops the pool of the first.\<close>

definition doubleStart :: "string \<Rightarrow> proxyServer option" where
  "doubleStart addr =
     (let p = startBegin (startBegin (NewProxyServer addr)) in
      Option.bind (startListen True (0, addr) p) (\<lambda>p1.
      Option.bind (startListen True (1, addr) p1) (\<lambda>p2. Some (startCommit True 0 p2))))"

lemma doubleStart_eq: "\<exists>p. doubleStart addr = Some p \<and> ps_running p \<and> \<not> cp_running (ps_cfPool p) \<and> lifeStep\<^sup>*\<^sup>* (NewProxyServer addr) p"
proof -
  let ?p0 = "NewProxyServer addr" let ?p1 = "startBegin ?p0" let ?p2 = "startBegin ?p1"
  have st: "set (ps_starting ?p2) = {(1, addr), (0, addr)}" "ps_bound ?p2 = []" "ps_listening ?p2 = []" "\<not> ps_running ?p2"
    by (simp_all add: startBegin_def NewProxyServer_def)
  have cf: "cfInv (ps_cfPool ?p2)" using lifeInv_start [OF lifeInv_start [OF lifeInv_New [of addr]]] by (simp add: lifeInv_def)
  obtain p3 where p3: "startListen True (0, addr) ?p2 = Some p3" "ps_bound p3 = [(0, addr)]" "ps_listening p3 = [0]" "\<not> ps_running p3"
      "(1, addr) \<in> set (ps_starting p3)" "ps_cfPool p3 = ps_cfPool ?p2"
    using st by (simp add: startListen_def Let_def unbind_def)
  from cf obtain c where c: "Cf_Pool.Stop (ps_cfPool p3) = Some c" "\<not> cp_running c" unfolding p3(6) by (rule cftask.stop_cases)
  obtain p4 where p4: "startListen True (1, addr) p3 = Some p4" "ps_listening p4 = [0]" "\<not> ps_running p4" "ps_cfPool p4 = c"
    using p3 c by (simp add: startListen_def Let_def)
  have "ps_running (startCommit True 0 p4)" "ps_cfPool (startCommit True 0 p4) = c"
    using p4 by (simp_all add: startCommit_def startSocks5_def Let_def)
  moreover have "lifeStep\<^sup>*\<^sup>* ?p0 (startCommit True 0 p4)"
  proof -
    have "lifeStep ?p0 ?p1" "lifeStep ?p1 ?p2" by (rule lifeStep.start)+
    moreover have "lifeStep ?p2 p3" by (rule lifeStep.listen [OF _ p3(1)]) (simp add: st(1))
    moreover have "lifeStep p3 p4" by (rule lifeStep.listen [OF p3(5) p4(1)])
    moreover have "lifeStep p4 (startCommit True 0 p4)" by (rule lifeStep.commit) (simp add: p4)
    ultimately show ?thesis by (meson r_into_rtranclp rtranclp.rtrancl_into_rtrancl)
  qed
  ultimately show ?thesis using c p3(1) p4(1) by (simp add: doubleStart_def Let_def)
qed

text \<open>Two concurrent calls of \<open>Start\<close> can leave the proxy running with its address pool stopped for good:
  the call that finds the address taken stops the pool that the other call has started.\<close>

theorem concurrent_start_stops_pool:
  "\<exists>p. lifeStep\<^sup>*\<^sup>* (NewProxyServer addr) p \<and> IsRunning p \<and> \<not> cp_running (ps_cfPool p) \<and> startBegin p = p"
  using doubleStart_eq [of addr] by (auto simp: IsRunning_def startBegin_def)

text \<open>The SOCKS5 listener is never closed: once it is open on an address it stays open in every later state,
  after \<open>Stop\<close> and after disabling SOCKS5 as well.\<close>

theorem socks5_listener_stays_open:
  assumes "lifeStep\<^sup>*\<^sup>* p q" "a \<in> set (ps_socksBound p)"
  shows "a \<in> set (ps_socksBound q)"
  using assms
proof (induction rule: rtranclp_induct)
  case (step q r)
  from step(2) have "set (ps_socksBound q) \<subseteq> set (ps_socksBound r)"
    by (cases rule: lifeStep.cases)
      (auto simp: startBegin_def startListen_def startCommit_def startSocks5_def serveExit_def StopPS_def SetListenAddr_def
        SetMode_def SetSocks5Addr_def SetSocks5EnabledPS_def trackAccepted_def Let_def split: if_splits option.splits)
  with step show ?case by blast
qed

theorem socks5_listener_stays_open_witness:
  "let p = startSocks5 True (SetSocks5Addr ''127.0.0.1:1080'' (SetSocks5EnabledPS True (NewProxyServer ''127.0.0.1:8080'')))
   in ''127.0.0.1:1080'' \<in> set (ps_socksBound (SetSocks5EnabledPS False p))"
proof -
  define p where "p = startSocks5 True (SetSocks5Addr ''127.0.0.1:1080'' (SetSocks5EnabledPS True (NewProxyServer ''127.0.0.1:8080'')))"
  have "lifeStep\<^sup>*\<^sup>* p (SetSocks5EnabledPS False p)" by (rule r_into_rtranclp, rule lifeStep.setSocks)
  moreover have "''127.0.0.1:1080'' \<in> set (ps_socksBound p)"
    by (simp add: p_def startSocks5_def SetSocks5Addr_def SetSocks5EnabledPS_def NewProxyServer_def)
  ultimately show ?thesis unfolding p_def [symmetric] Let_def by (rule socks5_listener_stays_open)
qed

text \<open>The three parts of an undisturbed \<open>Start\<close>.\<close>

lemma start_runs:
  assumes "lifeInv p" "\<not> ps_running p" "ps_listenAddr p \<notin> snd ` set (ps_bound p)"
  obtains q where "startListen True (ps_next p, ps_listenAddr p) (startBegin p) = Some q"
    "lifeStep\<^sup>*\<^sup>* p (startCommit True (ps_next p) q)" "ps_running (startCommit True (ps_next p) q)"
    "ps_Server (startCommit True (ps_next p) q) = Some (ps_next p)" "cp_running (ps_cfPool (startCommit True (ps_next p) q))"
    "ps_bound (startCommit True (ps_next p) q) = (ps_next p, ps_listenAddr p) # ps_bound p"
proof -
  let ?i = "ps_next p" and ?b = "startBegin p"
  have b: "ps_bound ?b = ps_bound p" "\<not> ps_running ?b" "(?i, ps_listenAddr p) \<in> set (ps_starting ?b)" "cp_running (ps_cfPool ?b)"
    using assms(2) by (simp_all add: startBegin_def cftask.start_running)
  obtain q where q: "startListen True (?i, ps_listenAddr p) ?b = Some q" "?i \<in> set (ps_listening q)" "\<not> ps_running q"
      "ps_cfPool q = ps_cfPool ?b" "ps_bound q = (?i, ps_listenAddr p) # ps_bound p"
    using b assms(3) by (simp add: startListen_def Let_def)
  have "lifeStep p ?b" by (rule lifeStep.start)
  moreover have "lifeStep ?b q" by (rule lifeStep.listen [OF b(3) q(1)])
  moreover have "lifeStep q (startCommit True ?i q)" by (rule lifeStep.commit [OF q(2)])
  ultimately have "lifeStep\<^sup>*\<^sup>* p (startCommit True ?i q)" by (meson r_into_rtranclp rtranclp.rtrancl_into_rtrancl)
  with q b that show ?thesis by (simp add: startCommit_def startSocks5_def Let_def)
qed

text \<open>The proxy can always be started again: from every reachable state in which it does not run and its
  address is free, an undisturbed \<open>Start\<close> leads to a state in which it runs with a new server on that
  address and a running pool; whatever goroutines of older servers end afterwards, it keeps running.\<close>

theorem start_reaches_running:
  assumes "lifeStep\<^sup>*\<^sup>* (NewProxyServer addr) p" "\<not> IsRunning p" "ps_listenAddr p \<notin> snd ` set (ps_bound p)"
  shows "\<exists>q. lifeStep\<^sup>*\<^sup>* p q \<and> IsRunning q \<and> ps_Server q = Some (ps_next p) \<and> cp_running (ps_cfPool q) \<and>
    (ps_next p, ps_listenAddr p) \<in> set (ps_bound q) \<and> (\<forall>i. i < ps_next p \<longrightarrow> IsRunning (serveExit i q))"
proof -
  have "lifeInv p" using life.reachable_inv [OF _ assms(1)] by blast
  then obtain q where q: "lifeStep\<^sup>*\<^sup>* p (startCommit True (ps_next p) q)" "ps_running (startCommit True (ps_next p) q)"
    "ps_Server (startCommit True (ps_next p) q) = Some (ps_next p)" "cp_running (ps_cfPool (startCommit True (ps_next p) q))"
    "ps_bound (startCommit True (ps_next p) q) = (ps_next p, ps_listenAddr p) # ps_bound p"
    using assms(2,3) start_runs [of p] unfolding IsRunning_def by metis
  then show ?thesis by (intro exI [of _ "startCommit True (ps_next p) q"]) (auto simp: IsRunning_def serveExit_def Let_def)
qed

theorem start_reaches_running_witness:
  "\<exists>q. lifeStep\<^sup>*\<^sup>* (NewProxyServer ''127.0.0.1:8080'') q \<and> IsRunning q \<and> (0, ''127.0.0.1:8080'') \<in> set (ps_bound q)"
  using start_reaches_running [of "''127.0.0.1:8080''" "NewProxyServer ''127.0.0.1:8080''"]
  by (auto simp: IsRunning_def NewProxyServer_def)

end
