(* ===== verification/Tun_Flow.thy ===== *)
theory Tun_Flow
  imports Dialing_Correct
begin

text \<open>
  The planning of TUN flows, \<open>src/proxy/tun_flow.go\<close>: how a flow that was captured from the network
  interface is matched to a rule and where it is sent.
\<close>

record tunFlow =
  tf_Protocol :: string
  tf_Host :: string
  tf_SNI :: string
  tf_DestAddr :: string
  tf_DestPort :: int

record tunFlowPlan =
  tp_Protocol :: string
  tp_Host :: string
  tp_MatchHost :: string
  tp_RuleMode :: string
  tp_EffectiveMode :: string
  tp_Upstream :: string
  tp_DialCandidates :: "string list"
  tp_UDPStrategy :: string
  tp_CanMITM :: bool
  tp_NeedsSniffing :: bool
  tp_Notes :: "string list"

definition flowProtocol :: "tunFlow \<Rightarrow> string" where
  "flowProtocol flow = (let p = ToLower (TrimSpace (tf_Protocol flow)) in if p = '''' then ''tcp'' else p)"

definition flowHost :: "tunFlow \<Rightarrow> string" where
  "flowHost flow =
     (let h = normalizeHost (tf_Host flow); s = normalizeHost (tf_SNI flow)
      in if h \<noteq> '''' then h else if s \<noteq> '''' then s else normalizeHost (tf_DestAddr flow))"

definition flowPort :: "tunFlow \<Rightarrow> int" where
  "flowPort flow = (if tf_DestPort flow \<le> 0 \<or> 65535 < tf_DestPort flow then 443 else tf_DestPort flow)"

text \<open>The treatment of a mode by protocol: the effective mode, the UDP strategy, whether TLS may be
  terminated, and the notes.\<close>

definition flowTreatment :: "string \<Rightarrow> string \<Rightarrow> string \<times> string \<times> bool \<times> string list" where
  "flowTreatment protocol mode =
     (if protocol = ''udp'' then
        if mode = ''mitm'' \<or> mode = ''tls-rf'' \<or> mode = ''server'' then
          (''transparent'', '''', False,
           [mode @ '' is TCP-oriented in the current TUN path; downgrade UDP handling to transparent passthrough''])
        else if mode = ''quic'' then
          (mode, ''native-quic'', False, [''QUIC-specific UDP handling can be attached here later''])
        else if mode = ''warp'' then
          (mode, ''warp'', False, [''Warp-selected UDP will need a dedicated UDP associate path''])
        else (mode, ''passthrough'', False,
          if mode = ''direct'' then [''Direct UDP flow will bypass HTTP proxy semantics and use transparent forwarding''] else [])
      else if protocol = ''tcp'' then
        if mode = ''quic'' then
          (mode, '''', True, [''QUIC mode selected for TCP flow; preserve rule but dataplane may remap it later''])
        else if mode = ''transparent'' then
          (mode, '''', False, [''Transparent TCP flow can reuse existing upstream dial logic without TLS termination''])
        else if mode = ''direct'' then (mode, '''', False, [])
        else (mode, '''', True, [''TCP flow can reuse existing rule matching and upstream candidate selection''])
      else (''direct'', '''', False, [''Unknown protocol; treating as direct'']))"

definition flowTarget :: "tunFlow \<Rightarrow> string \<Rightarrow> string \<Rightarrow> string" where
  "flowTarget flow targetHost port =
     (let a = (if TrimSpace (tf_DestAddr flow) = '''' then
                 (if targetHost \<noteq> '''' then JoinHostPort targetHost port else tf_DestAddr flow)
               else tf_DestAddr flow)
      in if a = '''' then JoinHostPort ''0.0.0.0'' port else a)"

definition PlanTUNFlow ::
    "matcher \<Rightarrow> ip_resolver option \<Rightarrow> string list option \<Rightarrow> autoRouter option \<Rightarrow> tunFlow
       \<Rightarrow> tunFlowPlan \<times> (string \<times> string) \<times> autoRouter option" where
  "PlanTUNFlow match resolver pool router flow =
     (let protocol = flowProtocol flow; host = flowHost flow; port = ItoaInt (flowPort flow);
          matchMode = (if protocol = ''udp'' then ''transparent'' else ''mitm'');
          (rule, ev, router') = match router host matchMode;
          mode0 = ToLower (TrimSpace (r_Mode rule));
          (effectiveMode, udpStrategy, canMITM, notes) =
            flowTreatment protocol (if mode0 = '''' then ''direct'' else mode0);
          notes' = (if host = '''' then notes @ [''No host/SNI available yet; dataplane should sniff TLS or correlate DNS before advanced routing'']
                    else notes);
          targetAddr = flowTarget flow host port;
          cands0 = buildDialCandidates resolver pool host (ensureAddrWithPort targetAddr port) rule effectiveMode;
          cands = (if protocol = ''udp'' \<and> cands0 = [] \<and> targetAddr \<noteq> '''' then [ensureAddrWithPort targetAddr port] else cands0)
      in (\<lparr>tp_Protocol = protocol, tp_Host = host, tp_MatchHost = host, tp_RuleMode = r_Mode rule,
           tp_EffectiveMode = effectiveMode, tp_Upstream = resolveRuleUpstream host rule, tp_DialCandidates = cands,
           tp_UDPStrategy = udpStrategy, tp_CanMITM = canMITM, tp_NeedsSniffing = (host = ''''), tp_Notes = notes'\<rparr>, ev, router'))"

section \<open>Properties\<close>

lemma flowTreatment_sound:
  "case flowTreatment protocol mode of (m, strategy, can, notes) \<Rightarrow>
     (if can then protocol = ''tcp'' \<and> m = mode \<and> m \<noteq> ''transparent'' \<and> m \<noteq> ''direct'' else True) \<and>
     (if protocol = ''udp'' then m \<noteq> ''mitm'' \<and> m \<noteq> ''tls-rf'' \<and> m \<noteq> ''server'' else strategy = '''') \<and>
     (if protocol = ''udp'' \<or> protocol = ''tcp'' then True else m = ''direct'')"
  by (simp add: flowTreatment_def)

text \<open>C37. Every flow gets a plan that can be carried out: there is at least one candidate and none twice; the
  modes that need TCP are never planned for UDP, TLS is terminated only for TCP flows whose mode is
  neither transparent nor direct, and a flow of an unknown protocol is planned as direct. The
  flow needs sniffing exactly when no host is known.\<close>

theorem PlanTUNFlow_executable:
  "case PlanTUNFlow match resolver pool router flow of (plan, _, _) \<Rightarrow>
     tp_DialCandidates plan \<noteq> [] \<and> distinct (tp_DialCandidates plan) \<and>
     (if tp_Protocol plan = ''udp''
      then \<not> tp_CanMITM plan \<and> tp_EffectiveMode plan \<notin> {''mitm'', ''tls-rf'', ''server''} else tp_UDPStrategy plan = '''') \<and>
     (if tp_CanMITM plan then tp_Protocol plan = ''tcp'' \<and> tp_EffectiveMode plan \<notin> {''transparent'', ''direct''} else True) \<and>
     (if tp_Protocol plan \<in> {''udp'', ''tcp''} then True else tp_EffectiveMode plan = ''direct'') \<and>
     tp_NeedsSniffing plan = (tp_Host plan = '''')"
proof -
  obtain rule ev router' where m: "match router (flowHost flow)
      (if flowProtocol flow = ''udp'' then ''transparent'' else ''mitm'') = (rule, ev, router')" by (metis prod.exhaust)
  let ?mode = "if ToLower (TrimSpace (r_Mode rule)) = '''' then ''direct'' else ToLower (TrimSpace (r_Mode rule))"
  obtain e u c n where t: "flowTreatment (flowProtocol flow) ?mode = (e, u, c, n)" by (metis prod.exhaust)
  note s = flowTreatment_sound [of "flowProtocol flow" ?mode, unfolded t prod.case]
  show ?thesis unfolding PlanTUNFlow_def Let_def m prod.case t
    using s candidates_ok by (auto split: if_splits)
qed

end
