(* ===== verification/Doh.thy ===== *)
theory Doh
  imports Upstream_TLS
begin

text \<open>
  The resolver of \<open>src/proxy/doh.go\<close>: DNS over HTTPS with failover between the configured nodes and the
  system resolver. Asking a node may itself need the resolver (for the node's ECH configuration or for
  the address of a QUIC node), so \<open>exchange\<close> calls itself. The recursion is bounded by a nesting depth:
  the value \<open>None\<close> means that the depth does not suffice, and a query that is \<open>None\<close> for every depth never
  returns. The program bounds the waiting of each single level by a timeout, but the nested lookups run
  on contexts of their own; time is not modelled.
\<close>

section \<open>Messages and environment\<close>

datatype qtype = TypeA | TypeAAAA | TypeHTTPS

datatype svcbOption = ECHConfigOption bytes | OtherOption nat

datatype dnsRR = RR_A ip | RR_AAAA ip | RR_HTTPS "svcbOption list" | RR_Other nat

type_synonym dnsQuery = "string \<times> qtype"
type_synonym dnsAnswer = "dnsRR list"

text \<open>The outcome of the POST request: a transport error, or the status with the result of reading the
  body and of unpacking the message.\<close>

datatype postOutcome = PostErr string | PostStatus nat "string + (string + dnsAnswer)"

text \<open>\<open>de_parseURL\<close> gives host name and port of a URL, \<open>de_packErr\<close> and \<open>de_requestErr\<close> the errors of packing
  the message and of building the request; \<open>de_post\<close> is the exchange on a TLS connection (address, TLS
  configuration, URL and \<open>Host\<close> header), \<open>de_quicPost\<close> the one over HTTP/3; \<open>de_order\<close> is the order in which
  the racing nodes answer, \<open>de_aFirst\<close> whether the A lookup finishes first, \<open>de_io\<close> the outcome of saving
  the rules.\<close>

record dohEnv =
  de_parseURL :: "string \<Rightarrow> (string \<times> string) option"
  de_packErr :: "dnsQuery \<Rightarrow> string option"
  de_requestErr :: "string \<Rightarrow> string option"
  de_dial :: "string \<Rightarrow> string option"
  de_handshake :: "string \<Rightarrow> uconnConfig \<Rightarrow> string option"
  de_post :: "string \<Rightarrow> uconnConfig \<Rightarrow> string \<Rightarrow> string \<Rightarrow> dnsQuery \<Rightarrow> postOutcome"
  de_quicPost :: "quicTransport \<Rightarrow> string \<Rightarrow> string \<Rightarrow> dnsQuery \<Rightarrow> postOutcome"
  de_lib :: utlsLib
  de_certBypass :: "string \<Rightarrow> bool"
  de_lookupIP :: "string \<Rightarrow> ip list option"
  de_order :: "dnsNode list \<Rightarrow> dnsNode list"
  de_aFirst :: bool
  de_io :: io

text \<open>The state: the rule manager (whose profiles get renewed ECH configurations) and the addresses dialled
  so far.\<close>

record dohState =
  ds_rules :: ruleManager
  ds_dials :: "string list"

type_synonym 'a resolution = "((string + 'a) \<times> dohState) option"
type_synonym exchanger = "dnsQuery \<Rightarrow> dohState \<Rightarrow> dnsAnswer resolution"

definition Fqdn :: "string \<Rightarrow> string" where
  "Fqdn s = (if HasSuffix s ''.'' then s else s @ ''.'')"

definition GetDNSNodes :: "ruleManager \<Rightarrow> dnsNode list" where
  "GetDNSNodes rm = rm_dnsNodes rm"

section \<open>Lookups on top of an exchange\<close>

fun firstECHOption :: "svcbOption list \<Rightarrow> bytes option" where
  "firstECHOption [] = None"
| "firstECHOption (ECHConfigOption c # _) = Some c"
| "firstECHOption (_ # os) = firstECHOption os"

fun firstECH :: "dnsAnswer \<Rightarrow> bytes option" where
  "firstECH [] = None"
| "firstECH (RR_HTTPS os # rs) = (case firstECHOption os of Some c \<Rightarrow> Some c | None \<Rightarrow> firstECH rs)"
| "firstECH (_ # rs) = firstECH rs"

definition ResolveECH :: "exchanger \<Rightarrow> string \<Rightarrow> dohState \<Rightarrow> bytes resolution" where
  "ResolveECH ex domain st =
     (case ex (Fqdn domain, TypeHTTPS) st of
        None \<Rightarrow> None
      | Some (Inl e, st') \<Rightarrow> Some (Inl e, st')
      | Some (Inr ans, st') \<Rightarrow>
          Some (case firstECH ans of None \<Rightarrow> Inl (''no ECH config found for '' @ domain) | Some c \<Rightarrow> Inr c, st'))"

fun answerIPs :: "dnsAnswer \<Rightarrow> ip list" where
  "answerIPs [] = []"
| "answerIPs (RR_A a # rs) = a # answerIPs rs"
| "answerIPs (RR_AAAA a # rs) = a # answerIPs rs"
| "answerIPs (_ # rs) = answerIPs rs"

definition isDoHNode :: "dohEnv \<Rightarrow> string \<Rightarrow> ruleManager \<Rightarrow> bool" where
  "isDoHNode env domain rm =
     list_ex (\<lambda>n. case de_parseURL env (dn_URL n) of None \<Rightarrow> False
       | Some (h, _) \<Rightarrow> EqualFold h domain \<or> EqualFold h (TrimSuffix domain ''.'')) (GetDNSNodes rm)"

text \<open>The two lookups of \<open>ResolveIPAddrs\<close> run in parallel and append to one list; \<open>de_aFirst\<close> tells which
  one comes first.\<close>

definition ResolveIPAddrs :: "exchanger \<Rightarrow> dohEnv \<Rightarrow> string \<Rightarrow> dohState \<Rightarrow> (ip list) resolution" where
  "ResolveIPAddrs ex env domain st =
     (case (if isDoHNode env domain (ds_rules st) then de_lookupIP env domain else None) of
        Some (ip # ips) \<Rightarrow> Some (Inr (ip # ips), st)
      | _ \<Rightarrow>
          let (q1, q2) = (if de_aFirst env then (TypeA, TypeAAAA) else (TypeAAAA, TypeA)) in
          (case ex (Fqdn domain, q1) st of
             None \<Rightarrow> None
           | Some (r1, st1) \<Rightarrow>
               (case ex (Fqdn domain, q2) st1 of
                  None \<Rightarrow> None
                | Some (r2, st2) \<Rightarrow>
                    let ipsOf = (\<lambda>r. case r of Inl _ \<Rightarrow> [] | Inr ans \<Rightarrow> answerIPs ans);
                        errOf = (\<lambda>r. case r of Inl e \<Rightarrow> [e] | Inr _ \<Rightarrow> []);
                        ips = ipsOf r1 @ ipsOf r2; errs = errOf r1 @ errOf r2
                    in Some (if ips \<noteq> [] then Inr ips
                             else if errs \<noteq> [] then Inl (hd errs)
                             else Inl (''no IP records found for '' @ domain), st2))))"

definition ResolveIPs :: "exchanger \<Rightarrow> dohEnv \<Rightarrow> string \<Rightarrow> dohState \<Rightarrow> (string list) resolution" where
  "ResolveIPs ex env domain st =
     (case ResolveIPAddrs ex env domain st of
        None \<Rightarrow> None
      | Some (Inl e, st') \<Rightarrow> Some (Inl e, st')
      | Some (Inr ips, st') \<Rightarrow> Some (Inr (map IPString (filter (\<lambda>a. a \<noteq> []) ips)), st'))"

section \<open>One node\<close>

definition nodeRule :: "dnsNode \<Rightarrow> string \<Rightarrow> rule" where
  "nodeRule node host =
     (let r = zeroRule\<lparr>r_SniFake := dn_SNI node, r_ECHEnabled := dn_ECHEnabled node, r_ECHProfileID := dn_ECHProfileID node,
            r_CertVerify := dn_CertVerify node, r_ECHAutoUpdate := dn_ECHAutoUpdate node\<rparr>
      in if dn_SNI node = '''' then r\<lparr>r_SniFake := host, r_SniPolicy := ''upstream''\<rparr> else r\<lparr>r_SniPolicy := ''fake''\<rparr>)"

text \<open>Whether \<open>resolveRuleECHConfig\<close> has to look the configuration up, and the lookup.\<close>

definition needsECHLookup :: "rule \<Rightarrow> ruleManager \<Rightarrow> bool" where
  "needsECHLookup rule rm \<longleftrightarrow> r_ECHEnabled rule \<and>
     (if r_ECHProfileID rule \<noteq> '''' then GetBinaryECHConfig rm (r_ECHProfileID rule) else []) = [] \<and> r_ECHAutoUpdate rule"

definition lookupECH :: "exchanger \<Rightarrow> string \<Rightarrow> rule \<Rightarrow> dohState \<Rightarrow> bytes resolution" where
  "lookupECH ex host rule st =
     (if needsECHLookup rule (ds_rules st) then ResolveECH ex host st else Some (Inl '''', st))"

text \<open>The dial loop of the transport; the addresses tried are recorded.\<close>

fun dialNode :: "dohEnv \<Rightarrow> string list \<Rightarrow> string option \<Rightarrow> dohState \<Rightarrow> (string + string) \<times> dohState" where
  "dialNode env [] err st = (Inl (''all dial candidates failed: '' @ (case err of None \<Rightarrow> ''<nil>'' | Some e \<Rightarrow> e)), st)"
| "dialNode env (c # cs) err st =
     (let st' = st\<lparr>ds_dials := ds_dials st @ [c]\<rparr> in
      case de_dial env c of None \<Rightarrow> (Inr c, st') | Some e \<Rightarrow> dialNode env cs (Some e) st')"

definition nodeCandidates :: "dnsNode \<Rightarrow> string \<Rightarrow> string \<Rightarrow> string list" where
  "nodeCandidates node host port0 =
     (let port = (if port0 = '''' then ''443'' else port0) in
      if dn_IPs node \<noteq> [] then map (\<lambda>ip. JoinHostPort ip port) (dn_IPs node) else [JoinHostPort host port])"

definition hostHeader :: "dnsNode \<Rightarrow> string \<Rightarrow> string" where
  "hostHeader node host = (if dn_SNI node \<noteq> '''' \<and> isLiteralIP host then dn_SNI node else host)"

definition tlsExchange ::
    "exchanger \<Rightarrow> dohEnv \<Rightarrow> dnsNode \<Rightarrow> string \<Rightarrow> string \<Rightarrow> dnsQuery \<Rightarrow> dohState \<Rightarrow> (postOutcome \<times> dohState) option" where
  "tlsExchange ex env node host port q st =
     (let rule = nodeRule node host in
      case dialNode env (nodeCandidates node host port) None st of
        (Inl e, st1) \<Rightarrow> Some (PostErr e, st1)
      | (Inr addr, st1) \<Rightarrow>
          (case lookupECH ex host rule st1 of
             None \<Rightarrow> None
           | Some (fetched, st2) \<Rightarrow>
               let (ech, rm) = resolveRuleECHConfig (Some (\<lambda>_. fetched)) (de_io env) host rule (ds_rules st2);
                   st3 = st2\<lparr>ds_rules := rm\<rparr>;
                   verifyName = (if r_SniFake rule \<noteq> '''' then r_SniFake rule else host);
                   cfg = GetUConn (de_lib env) (de_certBypass env) (r_SniFake rule) verifyName rule
                           (cv_AllowUnknownAuthority (dn_CertVerify node)) ''http/1.1'' ech
               in Some (case de_handshake env addr cfg of
                          Some e \<Rightarrow> PostErr e
                        | None \<Rightarrow> de_post env addr cfg (dn_URL node) (hostHeader node host) q, st3)))"

text \<open>The transport of a QUIC node is built before the request: \<open>buildDialCandidates\<close> resolves the node's
  own host with this resolver; the node's static addresses are not used.\<close>

definition quicClient ::
    "exchanger \<Rightarrow> dohEnv \<Rightarrow> dnsNode \<Rightarrow> string \<Rightarrow> dohState \<Rightarrow> (quicTransport \<times> dohState) option" where
  "quicClient ex env node host st =
     (let rule = nodeRule node host; h = normalizeHost host;
          resolved = (if h = '''' \<or> isLiteralIP h then Some (Inl '''', st) else ResolveIPAddrs ex env h st)
      in case resolved of
           None \<Rightarrow> None
         | Some (ips, st1) \<Rightarrow>
             (case lookupECH ex host rule st1 of
                None \<Rightarrow> None
              | Some (fetched, st2) \<Rightarrow>
                  let (qt, rm) = newQUICRoundTripper (de_lib env) (Some (\<lambda>_. case ips of Inl _ \<Rightarrow> None | Inr l \<Rightarrow> Some l)) None
                        (Some (\<lambda>_. fetched)) (de_io env) host rule (ds_rules st2)
                  in Some (qt, st2\<lparr>ds_rules := rm\<rparr>)))"

text \<open>The client's request: packing, building, sending.\<close>

definition sendQuery ::
    "exchanger \<Rightarrow> dohEnv \<Rightarrow> dnsNode \<Rightarrow> string \<Rightarrow> string \<Rightarrow> dnsQuery \<Rightarrow> dohState \<Rightarrow> ((string + postOutcome) \<times> dohState) option" where
  "sendQuery ex env node host port q st =
     (let guarded = (\<lambda>st k. case de_packErr env q of Some e \<Rightarrow> Some (Inl e, st)
            | None \<Rightarrow> (case de_requestErr env (dn_URL node) of Some e \<Rightarrow> Some (Inl e, st) | None \<Rightarrow> k st))
      in if dn_QUIC node then
           (case quicClient ex env node host st of
              None \<Rightarrow> None
            | Some (qt, st1) \<Rightarrow>
                guarded st1 (\<lambda>st1. Some (Inr (de_quicPost env qt (dn_URL node) (hostHeader node host) q), st1)))
         else guarded st (\<lambda>st. map_option (apfst Inr) (tlsExchange ex env node host port q st)))"

definition readReply :: "postOutcome \<Rightarrow> string + dnsAnswer" where
  "readReply outcome =
     (case outcome of
        PostErr e \<Rightarrow> Inl e
      | PostStatus code body \<Rightarrow>
          if code \<noteq> 200 then Inl (''DoH server returned status '' @ Itoa code)
          else (case body of Inl e \<Rightarrow> Inl e | Inr r \<Rightarrow> r))"

text \<open>\<open>exchangeNodeWithRetry\<close> without the permission to retry.\<close>

definition exchangeNodeOnce :: "exchanger \<Rightarrow> dohEnv \<Rightarrow> dnsNode \<Rightarrow> dnsQuery \<Rightarrow> dohState \<Rightarrow> dnsAnswer resolution" where
  "exchangeNodeOnce ex env node q st =
     (case de_parseURL env (dn_URL node) of
        None \<Rightarrow> Some (Inl ''invalid node URL'', st)
      | Some (host, port) \<Rightarrow>
          (case sendQuery ex env node host port q st of
             None \<Rightarrow> None
           | Some (Inl e, st1) \<Rightarrow> Some (Inl e, st1)
           | Some (Inr outcome, st1) \<Rightarrow> Some (readReply outcome, st1)))"

text \<open>\<open>exchangeSafe\<close>: the enabled nodes without ECH, in order.\<close>

fun trySafe :: "exchanger \<Rightarrow> dohEnv \<Rightarrow> dnsNode list \<Rightarrow> dnsQuery \<Rightarrow> dohState \<Rightarrow> dnsAnswer resolution" where
  "trySafe ex env [] q st = Some (Inl ''all safe DNS resolution attempts failed'', st)"
| "trySafe ex env (n # ns) q st =
     (case exchangeNodeOnce ex env n q st of
        None \<Rightarrow> None
      | Some (Inr r, st') \<Rightarrow> Some (Inr r, st')
      | Some (Inl _, st') \<Rightarrow> trySafe ex env ns q st')"

definition exchangeSafe :: "exchanger \<Rightarrow> dohEnv \<Rightarrow> dnsQuery \<Rightarrow> dohState \<Rightarrow> dnsAnswer resolution" where
  "exchangeSafe ex env q st =
     (let safeNodes = filter (\<lambda>n. dn_Enabled n \<and> \<not> dn_ECHEnabled n) (GetDNSNodes (ds_rules st)) in
      if safeNodes = [] then Some (Inl ''no safe (non-ECH) DNS nodes available for fallback'', st)
      else trySafe ex env safeNodes q st)"

definition ResolveECHSafe :: "exchanger \<Rightarrow> dohEnv \<Rightarrow> string \<Rightarrow> dohState \<Rightarrow> bytes resolution" where
  "ResolveECHSafe ex env domain st =
     (case exchangeSafe ex env (Fqdn domain, TypeHTTPS) st of
        None \<Rightarrow> None
      | Some (Inl e, st') \<Rightarrow> Some (Inl e, st')
      | Some (Inr ans, st') \<Rightarrow>
          Some (case firstECH ans of None \<Rightarrow> Inl (''no ECH config found via safe source for '' @ domain) | Some c \<Rightarrow> Inr c, st'))"

text \<open>\<open>exchangeNode\<close>: one retry after a transport error, when a safe node delivers a new configuration.\<close>

definition exchangeNode :: "exchanger \<Rightarrow> dohEnv \<Rightarrow> dnsNode \<Rightarrow> dnsQuery \<Rightarrow> dohState \<Rightarrow> dnsAnswer resolution" where
  "exchangeNode ex env node q st =
     (case de_parseURL env (dn_URL node) of
        None \<Rightarrow> Some (Inl ''invalid node URL'', st)
      | Some (host, port) \<Rightarrow>
          (case sendQuery ex env node host port q st of
             None \<Rightarrow> None
           | Some (Inl e, st1) \<Rightarrow> Some (Inl e, st1)
           | Some (Inr (PostErr e), st1) \<Rightarrow>
               if dn_ECHEnabled node \<and> dn_ECHAutoUpdate node then
                 (case ResolveECHSafe ex env host st1 of
                    None \<Rightarrow> None
                  | Some (Inl _, st2) \<Rightarrow> Some (Inl e, st2)
                  | Some (Inr c, st2) \<Rightarrow>
                      if c = [] then Some (Inl e, st2)
                      else
                        let rm = (if dn_ECHProfileID node \<noteq> ''''
                                  then snd (UpdateECHProfileConfig (de_io env) (dn_ECHProfileID node) c (ds_rules st2))
                                  else ds_rules st2)
                        in exchangeNodeOnce ex env node q (st2\<lparr>ds_rules := rm\<rparr>))
               else Some (Inl e, st1)
           | Some (Inr outcome, st1) \<Rightarrow> Some (readReply outcome, st1)))"

definition TestNode :: "exchanger \<Rightarrow> dohEnv \<Rightarrow> dnsNode \<Rightarrow> dohState \<Rightarrow> (string list) resolution" where
  "TestNode ex env node st =
     (case exchangeNode ex env node (Fqdn ''cloudflare.com'', TypeA) st of
        None \<Rightarrow> None
      | Some (Inl e, st') \<Rightarrow> Some (Inl e, st')
      | Some (Inr ans, st') \<Rightarrow>
          (let ips = List.map_filter (\<lambda>rr. case rr of RR_A a \<Rightarrow> Some (IPString a) | _ \<Rightarrow> None) ans in
           Some (if ips = [] then Inl ''no A records returned'' else Inr ips, st')))"

section \<open>Failover\<close>

text \<open>The system resolver as the last resort. An IPv4 address passes the test for AAAA as well, since
  \<open>To16\<close> maps it.\<close>

definition To16 :: "ip \<Rightarrow> ip option" where
  "To16 a = (if length a = 4 then Some (replicate 10 0 @ [255, 255] @ a) else if length a = 16 then Some a else None)"

fun systemRR :: "qtype \<Rightarrow> ip \<Rightarrow> dnsRR list" where
  "systemRR TypeA a = (case To4 a of Some v4 \<Rightarrow> [RR_A v4] | None \<Rightarrow> [])"
| "systemRR TypeAAAA a = (case To16 a of Some v6 \<Rightarrow> [RR_AAAA v6] | None \<Rightarrow> [])"
| "systemRR TypeHTTPS a = []"

definition systemFallback :: "dohEnv \<Rightarrow> nat \<Rightarrow> dnsQuery \<Rightarrow> string + dnsAnswer" where
  "systemFallback env active q =
     (let failed = Inl (''all DNS resolution attempts failed (tried '' @ Itoa active @ '' active nodes and system DNS)'') in
      if snd q = TypeHTTPS then failed
      else case de_lookupIP env (TrimSuffix (fst q) ''.'') of
             Some (ip # ips) \<Rightarrow> Inr (concat (map (systemRR (snd q)) (ip # ips)))
           | _ \<Rightarrow> failed)"

text \<open>The race of the remaining nodes, in the order in which they answer.\<close>

fun race :: "exchanger \<Rightarrow> dohEnv \<Rightarrow> dnsNode list \<Rightarrow> dnsQuery \<Rightarrow> dohState \<Rightarrow> (dnsAnswer option \<times> dohState) option" where
  "race ex env [] q st = Some (None, st)"
| "race ex env (n # ns) q st =
     (case exchangeNode ex env n q st of
        None \<Rightarrow> None
      | Some (Inr r, st') \<Rightarrow> Some (Some r, st')
      | Some (Inl _, st') \<Rightarrow> race ex env ns q st')"

definition exchangeWith :: "exchanger \<Rightarrow> dohEnv \<Rightarrow> exchanger" where
  "exchangeWith ex env q st =
     (let active = filter dn_Enabled (GetDNSNodes (ds_rules st));
          system = (\<lambda>st. Some (systemFallback env (length active) q, st))
      in case active of
           [] \<Rightarrow> system st
         | primary # others \<Rightarrow>
             (case exchangeNode ex env primary q st of
                None \<Rightarrow> None
              | Some (Inr r, st1) \<Rightarrow> Some (Inr r, st1)
              | Some (Inl _, st1) \<Rightarrow>
                  (case race ex env (de_order env others) q st1 of
                     None \<Rightarrow> None
                   | Some (Some r, st2) \<Rightarrow> Some (Inr r, st2)
                   | Some (None, st2) \<Rightarrow> system st2)))"

text \<open>\<open>exchange\<close> with at most \<open>n\<close> levels of nesting.\<close>

fun exchange :: "nat \<Rightarrow> dohEnv \<Rightarrow> exchanger" where
  "exchange 0 env = (\<lambda>q st. None)"
| "exchange (Suc n) env = exchangeWith (exchange n env) env"

end
