(* ===== verification/Doh_Correct.thy ===== *)
theory Doh_Correct
  imports Doh
begin

text \<open>
  Properties of the resolver: the failover between nodes that do not depend on the resolver, and the
  queries that never return because a node does.
\<close>

section \<open>Nodes that do not depend on the resolver\<close>

text \<open>A node is settled when asking it needs no lookup: no ECH configuration is fetched for it, and the
  system resolver knows the address of a QUIC node.\<close>

definition settledNode :: "dohEnv \<Rightarrow> ruleManager \<Rightarrow> dnsNode \<Rightarrow> bool" where
  "settledNode env rm n \<longleftrightarrow> \<not> (dn_ECHEnabled n \<and> dn_ECHAutoUpdate n) \<and>
     (dn_QUIC n \<longrightarrow> (case de_parseURL env (dn_URL n) of None \<Rightarrow> True
        | Some (host, _) \<Rightarrow> let h = normalizeHost host in h = '''' \<or> isLiteralIP h \<or>
            isDoHNode env h rm \<and> (\<exists>ip ips. de_lookupIP env h = Some (ip # ips))))"

text \<open>The answer of one node alone.\<close>

definition nodeAnswer :: "dohEnv \<Rightarrow> dnsNode \<Rightarrow> dnsQuery \<Rightarrow> ruleManager \<Rightarrow> string + dnsAnswer" where
  "nodeAnswer env n q rm =
     (case exchangeNode (\<lambda>_ _. None) env n q \<lparr>ds_rules = rm, ds_dials = []\<rparr> of Some (r, _) \<Rightarrow> r | None \<Rightarrow> Inl '''')"

lemma dialNode_state:
  "\<exists>d. dialNode env cs err st = (fst (dialNode env cs err \<lparr>ds_rules = ds_rules st, ds_dials = []\<rparr>), st\<lparr>ds_dials := d\<rparr>)"
proof -
  have "\<exists>r d. \<forall>st. dialNode env cs err st = (r, st\<lparr>ds_dials := ds_dials st @ d\<rparr>)"
  proof (induction cs arbitrary: err)
    case Nil
    show ?case by (rule exI, rule exI [of _ "[]"]) simp
  next
    case (Cons c cs)
    show ?case
    proof (cases "de_dial env c")
      case None
      then show ?thesis by (intro exI [of _ "Inr c"] exI [of _ "[c]"]) simp
    next
      case (Some e)
      from Cons.IH [of "Some e"] obtain r d where "\<forall>st. dialNode env cs (Some e) st = (r, st\<lparr>ds_dials := ds_dials st @ d\<rparr>)" by blast
      with Some show ?thesis by (intro exI [of _ r] exI [of _ "c # d"]) simp
    qed
  qed
  then obtain r d where rd: "\<And>st. dialNode env cs err st = (r, st\<lparr>ds_dials := ds_dials st @ d\<rparr>)" by blast
  show ?thesis by (rule exI [of _ "ds_dials st @ d"]) (simp add: rd)
qed

lemma nodeRule_ech [simp]:
  "r_ECHEnabled (nodeRule n host) = dn_ECHEnabled n" "r_ECHAutoUpdate (nodeRule n host) = dn_ECHAutoUpdate n"
  "r_ECHProfileID (nodeRule n host) = dn_ECHProfileID n"
  by (simp_all add: nodeRule_def Let_def)

lemma settled_lookupECH: "settledNode env rm n \<Longrightarrow> lookupECH ex host (nodeRule n host) st = Some (Inl '''', st)"
  by (auto simp: settledNode_def lookupECH_def needsECHLookup_def)

lemma resolve_failed_rules: "snd (resolveRuleECHConfig (Some (\<lambda>_. Inl e)) io host rule rm) = rm"
  by (simp add: resolveRuleECHConfig_def Let_def FetchECH_def)

lemma settled_tls:
  assumes "settledNode env (ds_rules st) n"
  shows "\<exists>d. tlsExchange ex env n host port q st =
    Some (fst (the (tlsExchange (\<lambda>_ _. None) env n host port q \<lparr>ds_rules = ds_rules st, ds_dials = []\<rparr>)), st\<lparr>ds_dials := d\<rparr>)"
proof -
  let ?cs = "nodeCandidates n host port" let ?st0 = "\<lparr>ds_rules = ds_rules st, ds_dials = []\<rparr>"
  obtain d where d: "dialNode env ?cs None st = (fst (dialNode env ?cs None ?st0), st\<lparr>ds_dials := d\<rparr>)" using dialNode_state by blast
  obtain d0 where d0: "dialNode env ?cs None ?st0 = (fst (dialNode env ?cs None ?st0), ?st0\<lparr>ds_dials := d0\<rparr>)"
    using dialNode_state [of env ?cs None ?st0] by auto
  obtain r where r: "fst (dialNode env ?cs None ?st0) = r" by blast
  obtain ech where ech: "resolveRuleECHConfig (Some (\<lambda>_. Inl '''')) (de_io env) host (nodeRule n host) (ds_rules st) = (ech, ds_rules st)"
    using resolve_failed_rules by (metis prod.collapse)
  show ?thesis
    by (cases r) (auto simp: tlsExchange_def Let_def d [unfolded r] d0 [unfolded r] settled_lookupECH [OF assms] ech)
qed

lemma settled_quic:
  assumes "settledNode env (ds_rules st) n" "dn_QUIC n" "de_parseURL env (dn_URL n) = Some (host, port)"
  shows "\<exists>qt. \<forall>ex d. quicClient ex env n host (st\<lparr>ds_dials := d\<rparr>) = Some (qt, st\<lparr>ds_dials := d\<rparr>)"
proof -
  let ?h = "normalizeHost host"
  have "\<exists>ips. \<forall>ex d. (if ?h = '''' \<or> isLiteralIP ?h then Some (Inl '''', st\<lparr>ds_dials := d\<rparr>) else ResolveIPAddrs ex env ?h (st\<lparr>ds_dials := d\<rparr>)) =
      Some (ips, st\<lparr>ds_dials := d\<rparr>)"
    using assms by (cases "?h = '''' \<or> isLiteralIP ?h") (auto simp: settledNode_def Let_def ResolveIPAddrs_def)
  then obtain ips where ips: "\<And>ex d. (if ?h = '''' \<or> isLiteralIP ?h then Some (Inl '''', st\<lparr>ds_dials := d\<rparr>)
      else ResolveIPAddrs ex env ?h (st\<lparr>ds_dials := d\<rparr>)) = Some (ips, st\<lparr>ds_dials := d\<rparr>)" by blast
  obtain qt where qt: "newQUICRoundTripper (de_lib env) (Some (\<lambda>_. case ips of Inl _ \<Rightarrow> None | Inr l \<Rightarrow> Some l)) None
      (Some (\<lambda>_. Inl '''')) (de_io env) host (nodeRule n host) (ds_rules st) = (qt, ds_rules st)"
    using resolve_failed_rules [of "''''" "de_io env" host "nodeRule n host" "ds_rules st"]
    by (simp add: newQUICRoundTripper_def Let_def case_prod_beta)
  have "quicClient ex env n host (st\<lparr>ds_dials := d\<rparr>) = Some (qt, st\<lparr>ds_dials := d\<rparr>)" for ex d
    unfolding quicClient_def Let_def ips by (simp add: settled_lookupECH [OF assms(1)] qt)
  then show ?thesis by blast
qed

lemma settled_sendQuery:
  assumes "settledNode env (ds_rules st) n" "de_parseURL env (dn_URL n) = Some (host, port)"
  shows "\<exists>d. sendQuery ex env n host port q st =
    Some (fst (the (sendQuery (\<lambda>_ _. None) env n host port q \<lparr>ds_rules = ds_rules st, ds_dials = []\<rparr>)), st\<lparr>ds_dials := d\<rparr>)"
proof (cases "dn_QUIC n")
  case True
  let ?st0 = "\<lparr>ds_rules = ds_rules st, ds_dials = []\<rparr>"
  obtain qt where qt: "\<And>ex d. quicClient ex env n host (st\<lparr>ds_dials := d\<rparr>) = Some (qt, st\<lparr>ds_dials := d\<rparr>)"
    using settled_quic [OF assms(1) True assms(2)] by blast
  have st: "quicClient ex env n host st = Some (qt, st)" using qt [of ex "ds_dials st"] by simp
  have s0: "st\<lparr>ds_dials := []\<rparr> = ?st0" by (cases st) simp
  have "quicClient (\<lambda>_ _. None) env n host ?st0 = Some (qt, ?st0)" using qt [of "\<lambda>_ _. None" "[]"] unfolding s0 .
  with True st show ?thesis
    by (intro exI [of _ "ds_dials st"]) (simp add: sendQuery_def Let_def split: option.split)
next
  case False
  let ?st0 = "\<lparr>ds_rules = ds_rules st, ds_dials = []\<rparr>"
  define r where "r = fst (the (tlsExchange (\<lambda>_ _. None) env n host port q ?st0))"
  obtain d where d: "tlsExchange ex env n host port q st = Some (r, st\<lparr>ds_dials := d\<rparr>)"
    using settled_tls [OF assms(1)] unfolding r_def by blast
  obtain d0 where d0: "tlsExchange (\<lambda>_ _. None) env n host port q ?st0 = Some (r, ?st0\<lparr>ds_dials := d0\<rparr>)"
    using settled_tls [of env ?st0 n "\<lambda>_ _. None" host port q] assms(1) unfolding r_def by auto
  show ?thesis
  proof (cases "de_packErr env q = None \<and> de_requestErr env (dn_URL n) = None")
    case True
    with False d d0 show ?thesis by (intro exI [of _ d]) (simp add: sendQuery_def)
  next
    case e: False
    with False show ?thesis
      by (intro exI [of _ "ds_dials st"]) (auto simp: sendQuery_def Let_def split: option.split)
  qed
qed

lemma settled_exchangeNode:
  assumes "settledNode env (ds_rules st) n"
  shows "\<exists>d. exchangeNode ex env n q st = Some (nodeAnswer env n q (ds_rules st), st\<lparr>ds_dials := d\<rparr>)"
proof (cases "de_parseURL env (dn_URL n)")
  case None
  then show ?thesis by (intro exI [of _ "ds_dials st"]) (simp add: exchangeNode_def nodeAnswer_def)
next
  case (Some hp)
  obtain host port where u: "de_parseURL env (dn_URL n) = Some (host, port)" using Some by (cases hp) simp
  let ?st0 = "\<lparr>ds_rules = ds_rules st, ds_dials = []\<rparr>"
  define r where "r = fst (the (sendQuery (\<lambda>_ _. None) env n host port q ?st0))"
  obtain d where d: "sendQuery ex env n host port q st = Some (r, st\<lparr>ds_dials := d\<rparr>)"
    using settled_sendQuery [OF assms u] unfolding r_def by blast
  obtain d0 where d0: "sendQuery (\<lambda>_ _. None) env n host port q ?st0 = Some (r, ?st0\<lparr>ds_dials := d0\<rparr>)"
    using settled_sendQuery [of env ?st0 n host port "\<lambda>_ _. None" q] assms u unfolding r_def by auto
  have e: "(dn_ECHEnabled n \<and> dn_ECHAutoUpdate n) = False" using assms by (simp add: settledNode_def)
  show ?thesis
    by (rule exI [of _ d]) (simp only: exchangeNode_def nodeAnswer_def u d d0 e readReply_def option.case prod.case if_False split: sum.split postOutcome.split, simp)
qed

section \<open>Failover\<close>

definition answers :: "dohEnv \<Rightarrow> dnsQuery \<Rightarrow> ruleManager \<Rightarrow> dnsNode \<Rightarrow> bool" where
  "answers env q rm n \<longleftrightarrow> (case nodeAnswer env n q rm of Inr _ \<Rightarrow> True | Inl _ \<Rightarrow> False)"

lemma settled_race:
  "\<forall>n\<in>set ns. settledNode env rm n \<Longrightarrow> ds_rules st = rm \<Longrightarrow>
   \<exists>d. race ex env ns q st = Some (case filter (answers env q rm) ns of [] \<Rightarrow> None
       | n # _ \<Rightarrow> (case nodeAnswer env n q rm of Inr r \<Rightarrow> Some r | Inl _ \<Rightarrow> None), st\<lparr>ds_dials := d\<rparr>)"
proof (induction ns arbitrary: st)
  case Nil
  show ?case by (rule exI [of _ "ds_dials st"]) simp
next
  case (Cons n ns)
  obtain d where d: "exchangeNode ex env n q st = Some (nodeAnswer env n q rm, st\<lparr>ds_dials := d\<rparr>)"
    using settled_exchangeNode [of env st n ex q] Cons.prems by auto
  show ?case
  proof (cases "nodeAnswer env n q rm")
    case (Inl e)
    have "race ex env (n # ns) q st = race ex env ns q (st\<lparr>ds_dials := d\<rparr>)" using d Inl by simp
    then show ?thesis using Cons.IH [of "st\<lparr>ds_dials := d\<rparr>"] Cons.prems Inl by (simp add: answers_def [of env q rm n])
  next
    case (Inr r)
    with d show ?thesis by (intro exI [of _ d]) (simp add: answers_def [of env q rm n])
  qed
qed

text \<open>The failover as the code's comments describe it: the first enabled node, then the remaining ones as
  they answer, then the system resolver.\<close>

definition failoverAnswer :: "dohEnv \<Rightarrow> dnsQuery \<Rightarrow> ruleManager \<Rightarrow> string + dnsAnswer" where
  "failoverAnswer env q rm =
     (let active = filter dn_Enabled (GetDNSNodes rm);
          asked = (case active of [] \<Rightarrow> [] | primary # others \<Rightarrow> primary # de_order env others)
      in case filter (answers env q rm) asked of
           n # _ \<Rightarrow> nodeAnswer env n q rm
         | [] \<Rightarrow> systemFallback env (length active) q)"


definition exampleDoh :: dohEnv where
  "exampleDoh = \<lparr>de_parseURL = (\<lambda>u. if u = '''' then None else Some (u, '''')), de_packErr = (\<lambda>_. None), de_requestErr = (\<lambda>_. None),
     de_dial = (\<lambda>_. None), de_handshake = (\<lambda>_ _. None),
     de_post = (\<lambda>_ _ url _ _. if url = ''one.example'' then PostStatus 503 (Inl '''') else PostStatus 200 (Inr (Inr [RR_A [192, 0, 2, 1]]))),
     de_quicPost = (\<lambda>_ _ _ _. PostErr ''''),
     de_lib = \<lparr>ul_idToSpec = (\<lambda>_. None), ul_applies = (\<lambda>_. True), ul_spkiHash = (\<lambda>_. ''''), ul_chain = (\<lambda>_ _. None)\<rparr>,
     de_certBypass = (\<lambda>_. False), de_lookupIP = (\<lambda>_. None), de_order = (\<lambda>ns. ns), de_aFirst = True, de_io = None\<rparr>"

definition exampleNode :: "string \<Rightarrow> dnsNode" where
  "exampleNode url = \<lparr>dn_ID = url, dn_Name = url, dn_URL = url, dn_SNI = '''', dn_IPs = [], dn_ECHEnabled = False,
     dn_ECHProfileID = '''', dn_ECHAutoUpdate = False, dn_QUIC = False,
     dn_CertVerify = \<lparr>cv_Mode = '''', cv_Names = [], cv_Suffixes = [], cv_SPKISHA256 = [], cv_AllowUnknownAuthority = False\<rparr>,
     dn_Enabled = True\<rparr>"

definition exampleDohState :: "dnsNode list \<Rightarrow> dohState" where
  "exampleDohState nodes = \<lparr>ds_rules = (NewRuleManager Missing Missing None)\<lparr>rm_dnsNodes := nodes\<rparr>, ds_dials = []\<rparr>"


section \<open>Nodes that depend on the resolver\<close>

text \<open>A node that cannot be asked without asking the resolver: a TLS node that can be dialled but has no ECH
  configuration yet and is told to fetch it, or a QUIC node whose host the system resolver does not know.\<close>

definition selfDependent :: "dohEnv \<Rightarrow> ruleManager \<Rightarrow> dnsNode \<Rightarrow> bool" where
  "selfDependent env rm n \<longleftrightarrow>
     (case de_parseURL env (dn_URL n) of
        None \<Rightarrow> False
      | Some (host, port) \<Rightarrow>
          if dn_QUIC n then
            let h = normalizeHost host in h \<noteq> '''' \<and> \<not> isLiteralIP h \<and> (de_lookupIP env h = None \<or> de_lookupIP env h = Some [])
          else needsECHLookup (nodeRule n host) rm \<and> de_requestErr env (dn_URL n) = None \<and>
            list_ex (\<lambda>c. de_dial env c = None) (nodeCandidates n host port))"

lemma dialNode_connects: "list_ex (\<lambda>c. de_dial env c = None) cs \<Longrightarrow>
    \<exists>a st'. dialNode env cs err st = (Inr a, st') \<and> ds_rules st' = ds_rules st"
proof (induction cs arbitrary: err st)
  case (Cons c cs)
  show ?case
  proof (cases "de_dial env c")
    case None
    then show ?thesis by simp
  next
    case (Some e)
    with Cons.IH [of "Some e" "st\<lparr>ds_dials := ds_dials st @ [c]\<rparr>"] Cons.prems show ?thesis by simp
  qed
qed simp

lemma selfDependent_stuck:
  assumes "selfDependent env (ds_rules st) n" "\<forall>q. de_packErr env q = None"
    and stuck: "\<And>q st'. ds_rules st' = ds_rules st \<Longrightarrow> ex q st' = None"
  shows "exchangeNode ex env n q st = None"
proof -
  obtain host port where u: "de_parseURL env (dn_URL n) = Some (host, port)"
    using assms(1) by (auto simp: selfDependent_def split: option.splits)
  have "sendQuery ex env n host port q st = None"
  proof (cases "dn_QUIC n")
    case True
    let ?h = "normalizeHost host"
    have h: "?h \<noteq> ''''" "\<not> isLiteralIP ?h" "de_lookupIP env ?h = None \<or> de_lookupIP env ?h = Some []"
      using assms(1) u True by (simp_all add: selfDependent_def Let_def)
    then have "ResolveIPAddrs ex env ?h st = None"
      by (auto simp: ResolveIPAddrs_def stuck Let_def split: prod.split)
    then show ?thesis using True h by (simp add: sendQuery_def quicClient_def Let_def)
  next
    case False
    then have s: "needsECHLookup (nodeRule n host) (ds_rules st)" "de_requestErr env (dn_URL n) = None"
        "list_ex (\<lambda>c. de_dial env c = None) (nodeCandidates n host port)"
      using assms(1) u by (simp_all add: selfDependent_def)
    obtain a st' where d: "dialNode env (nodeCandidates n host port) None st = (Inr a, st')" "ds_rules st' = ds_rules st"
      using dialNode_connects [OF s(3)] by blast
    then have "lookupECH ex host (nodeRule n host) st' = None"
      using s(1) by (simp add: lookupECH_def ResolveECH_def stuck)
    then have t: "tlsExchange ex env n host port q st = None" by (simp add: tlsExchange_def d)
    have "de_packErr env q = None" using assms(2) by blast
    then show ?thesis using False s(2) by (simp add: sendQuery_def t)
  qed
  then show ?thesis by (simp add: exchangeNode_def u)
qed

text \<open>The resolver does not break the loop of a node that depends on it: when the first enabled node is such
  a node, no query for any name or type ever returns, however deep the lookups nest. The hypothesis says
  that queries can be packed.\<close>

theorem doh_self_dependent_node_never_answers:
  assumes "filter dn_Enabled (GetDNSNodes (ds_rules st)) = primary # others"
    and "selfDependent env (ds_rules st) primary" "\<forall>q. de_packErr env q = None"
  shows "exchange k env q st = None"
  using assms(1,2)
proof (induction k arbitrary: q st)
  case (Suc k)
  have "exchangeNode (exchange k env) env primary q st = None"
    by (rule selfDependent_stuck [OF Suc.prems(2) assms(3)]) (rule Suc.IH, use Suc.prems in simp_all)
  with Suc.prems(1) show ?case by (simp add: exchangeWith_def)
qed simp

theorem doh_self_dependent_node_never_answers_witness:
  "\<forall>k q. exchange k exampleDoh q
     (exampleDohState [(exampleNode ''doh.example'')\<lparr>dn_ECHEnabled := True, dn_ECHAutoUpdate := True\<rparr>, exampleNode ''two.example'']) = None"
proof (intro allI)
  fix k q
  let ?n = "(exampleNode ''doh.example'')\<lparr>dn_ECHEnabled := True, dn_ECHAutoUpdate := True\<rparr>"
  show "exchange k exampleDoh q (exampleDohState [?n, exampleNode ''two.example'']) = None"
    by (rule doh_self_dependent_node_never_answers [where primary = ?n and others = "[exampleNode ''two.example'']"])
      (simp_all add: exampleDohState_def GetDNSNodes_def exampleNode_def exampleDoh_def selfDependent_def needsECHLookup_def nodeCandidates_def Let_def)
qed

end
