(* ===== verification/Cert_Verify_Correct.thy ===== *)
theory Cert_Verify_Correct
  imports Cert_Verify
begin

text \<open>
  What the certificate callback of \<open>src/proxy/cert_verify.go\<close> accepts, as a policy over the names a certificate
  carries and the patterns of the configuration, free of the loops and of the repeated folding of the code.
\<close>

definition foldName :: "string \<Rightarrow> string" where
  "foldName n = ToLower (TrimSpace n)"

definition certifiedNames :: "x509Cert \<Rightarrow> string set" where
  "certifiedNames cert = {n \<in> foldName ` set (x_CommonName cert # x_DNSNames cert). n \<noteq> ''''}"

definition covers :: "string \<Rightarrow> string \<Rightarrow> bool" where
  "covers pat host \<longleftrightarrow> pat = host \<or> (\<exists>base labels. pat = ''*.'' @ base \<and> host = labels @ ''.'' @ base)"

definition endsIn :: "string \<Rightarrow> string \<Rightarrow> bool" where
  "endsIn n s \<longleftrightarrow> (\<exists>front. n = front @ s)"

definition effectiveMode :: "certVerifyConfig \<Rightarrow> string" where
  "effectiveMode cfg =
     (let mode = TrimSpace (cv_Mode cfg) in
      if mode \<noteq> '''' then mode
      else if cv_Names cfg \<noteq> [] then ''allow_names'' else if cv_Suffixes cfg \<noteq> [] then ''allow_suffixes''
      else if cv_SPKISHA256 cfg \<noteq> [] then ''allow_spki'' else '''')"

definition leafAllowed :: "(bytes \<Rightarrow> string) \<Rightarrow> certVerifyConfig \<Rightarrow> x509Cert \<Rightarrow> bool" where
  "leafAllowed spki_hash cfg leaf =
     (if effectiveMode cfg = ''allow_names'' then
        \<exists>n \<in> certifiedNames leaf. \<exists>a \<in> normalizeHost ` set (cv_Names cfg). foldName a \<noteq> '''' \<and> (covers n (foldName a) \<or> covers (foldName a) n)
      else if effectiveMode cfg = ''allow_suffixes'' then
        \<exists>n \<in> certifiedNames leaf. \<exists>s \<in> foldName ` set (cv_Suffixes cfg). s \<noteq> '''' \<and> endsIn n s
      else if effectiveMode cfg = ''allow_spki'' then
        \<exists>k \<in> set (cv_SPKISHA256 cfg). foldName k = ToLower (spki_hash (x_RawSPKI leaf))
      else effectiveMode cfg = ''strict_real'' \<or> effectiveMode cfg = ''chain_only'')"

definition chainAccepted :: "certVerifyConfig \<Rightarrow> verifyError option \<Rightarrow> bool" where
  "chainAccepted cfg err \<longleftrightarrow> err = None \<or> err = Some UnknownAuthority \<and> cv_AllowUnknownAuthority cfg"

section \<open>The parts of the callback\<close>

lemma foldName_idem [simp]: "foldName (foldName n) = foldName n"
  by (simp add: foldName_def)

lemma fold_folded [simp]: "ToLower (foldName n) = foldName n" "TrimSpace (foldName n) = foldName n"
  by (simp_all add: foldName_def)

lemma HasSuffix_endsIn: "HasSuffix n s \<longleftrightarrow> endsIn n s"
  by (simp add: HasSuffix_def endsIn_def suffix_to_prefix [symmetric] suffix_def)

lemma HasPrefix_iff: "HasPrefix s p \<longleftrightarrow> (\<exists>r. s = p @ r)"
  by (simp add: HasPrefix_def prefix_def)

lemma appendNames_set: "set (appendNames out vs) = set out \<union> {n \<in> foldName ` set vs. n \<noteq> ''''}"
  by (induction out vs rule: appendNames.induct) (auto simp: Let_def foldName_def)

lemma certNames_set: "set (certNames cert) = certifiedNames cert"
  by (simp only: certNames_def appendNames_set certifiedNames_def) simp

text \<open>The count of dots in \<open>dnsMatch\<close> adds nothing to the test of the suffix.\<close>

lemma dnsMatch_iff: "dnsMatch a b \<longleftrightarrow> foldName a \<noteq> '''' \<and> foldName b \<noteq> '''' \<and> covers (foldName a) (foldName b)"
  unfolding dnsMatch_def foldName_def [symmetric] covers_def
  by (auto simp: Let_def HasPrefix_iff HasSuffix_endsIn endsIn_def TrimPrefix_def Count_byte_def)

lemma matchesAllowedNames_iff:
  "matchesAllowedNames cert names \<longleftrightarrow>
     (\<exists>n \<in> certifiedNames cert. \<exists>a \<in> set names. foldName a \<noteq> '''' \<and> (covers n (foldName a) \<or> covers (foldName a) n))"
proof -
  have folded: "n \<in> certifiedNames cert \<Longrightarrow> foldName n = n \<and> n \<noteq> ''''" for n by (auto simp: certifiedNames_def)
  show ?thesis unfolding matchesAllowedNames_def foldName_def [symmetric]
    by (auto simp: list_ex_iff Let_def certNames_set dnsMatch_iff folded)
qed

lemma matchesAllowedSuffixes_iff:
  "matchesAllowedSuffixes cert sfxs \<longleftrightarrow>
     (\<exists>n \<in> certifiedNames cert. \<exists>s \<in> foldName ` set sfxs. s \<noteq> '''' \<and> endsIn n s)"
proof -
  have folded: "n \<in> certifiedNames cert \<Longrightarrow> ToLower n = n" for n by (auto simp: certifiedNames_def)
  have wild: "HasPrefix n ''*.'' \<and> (TrimPrefix n ''*'' = s \<or> endsIn (TrimPrefix n ''*'') s) \<Longrightarrow> endsIn n s" for n s
    by (auto simp: HasPrefix_iff TrimPrefix_def endsIn_def intro: exI [of _ "''*'' @ _"])
  have "n = s \<or> endsIn n s \<or> HasPrefix n ''*.'' \<and> (TrimPrefix n ''*'' = s \<or> endsIn (TrimPrefix n ''*'') s) \<longleftrightarrow> endsIn n s" for n s
    using wild [of n s] by (auto simp: endsIn_def)
  then show ?thesis unfolding matchesAllowedSuffixes_def foldName_def [symmetric]
    by (auto simp: list_ex_iff Let_def certNames_set HasSuffix_endsIn folded)
qed

lemma normalized_mode: "cv_Mode (normalizeCertVerifyConfig cfg name) = effectiveMode cfg"
  by (simp add: normalizeCertVerifyConfig_def effectiveMode_def Let_def)

lemma verifyConnection_accepts:
  "verifyConnection spki_hash chain realName cfg certs = None \<longleftrightarrow>
     certs \<noteq> [] \<and>
     maybeIgnoreUnknownAuthority (chain certs (if cv_Mode cfg = ''strict_real'' \<and> realName \<noteq> '''' then Some realName else None)) cfg = None \<and>
     (if cv_Mode cfg = ''allow_names'' then matchesAllowedNames (hd certs) (cv_Names cfg)
      else if cv_Mode cfg = ''allow_suffixes'' then matchesAllowedSuffixes (hd certs) (cv_Suffixes cfg)
      else if cv_Mode cfg = ''allow_spki'' then matchesSPKI spki_hash (hd certs) (cv_SPKISHA256 cfg)
      else cv_Mode cfg = ''strict_real'' \<or> cv_Mode cfg = ''chain_only'')"
  by (cases certs) (simp_all add: verifyConnection_def Let_def del: not_None_eq)

section \<open>The policy\<close>

text \<open>C21. The callback built for a certificate policy accepts a peer exactly when the policy allows it. Without a mode
  and without a list there is no callback. Otherwise the peer must present a certificate; its chain must verify, for
  the real name in the mode \<open>strict_real\<close> (any name when that is empty) and for no name in the others, where an unknown
  authority is forgiven if the policy says so; and its leaf must meet the mode: a certified name and an allowed name
  cover each other (equal, or one is a wildcard and the other any number of labels under it), a certified name ends
  in an allowed suffix, or the hash of its key is listed, up to case. Every other mode rejects.\<close>

theorem verify_accepts_iff:
  "case buildVerifyConnection spki_hash chain realName cfg of
     None \<Rightarrow> effectiveMode cfg = ''''
   | Some f \<Rightarrow> effectiveMode cfg \<noteq> '''' \<and>
       (f certs = None \<longleftrightarrow>
          certs \<noteq> [] \<and> leafAllowed spki_hash cfg (hd certs) \<and>
          chainAccepted cfg (chain certs (if effectiveMode cfg = ''strict_real'' \<and> realName \<noteq> '''' then Some realName else None)))"
proof -
  let ?cfg = "normalizeCertVerifyConfig cfg realName"
  have lists: "effectiveMode cfg = ''allow_names'' \<Longrightarrow> cv_Names ?cfg = map normalizeHost (cv_Names cfg)"
    "cv_Suffixes ?cfg = map foldName (cv_Suffixes cfg)" "cv_SPKISHA256 ?cfg = map TrimSpace (cv_SPKISHA256 cfg)"
    using normalized_mode [of cfg realName] by (auto simp: normalizeCertVerifyConfig_def Let_def foldName_def)
  have ignore: "maybeIgnoreUnknownAuthority err ?cfg = None \<longleftrightarrow> chainAccepted cfg err" for err
    by (auto simp: maybeIgnoreUnknownAuthority_def chainAccepted_def normalizeCertVerifyConfig_def Let_def)
  have spki: "matchesSPKI spki_hash leaf (map TrimSpace ks) \<longleftrightarrow> (\<exists>k \<in> set ks. foldName k = ToLower (spki_hash (x_RawSPKI leaf)))" for leaf ks
    by (simp add: matchesSPKI_def list_ex_iff EqualFold_def foldName_def)
  have "leafAllowed spki_hash cfg leaf \<longleftrightarrow>
     (if effectiveMode cfg = ''allow_names'' then matchesAllowedNames leaf (cv_Names ?cfg)
      else if effectiveMode cfg = ''allow_suffixes'' then matchesAllowedSuffixes leaf (cv_Suffixes ?cfg)
      else if effectiveMode cfg = ''allow_spki'' then matchesSPKI spki_hash leaf (cv_SPKISHA256 ?cfg)
      else effectiveMode cfg = ''strict_real'' \<or> effectiveMode cfg = ''chain_only'')" for leaf
    by (simp add: leafAllowed_def lists spki matchesAllowedNames_iff matchesAllowedSuffixes_iff image_image)
  then show ?thesis
    by (auto simp: buildVerifyConnection_def Let_def normalized_mode verifyConnection_accepts ignore)
qed

text \<open>Suffixes are compared without a label boundary.\<close>

lemma suffix_without_boundary:
  "matchesAllowedSuffixes \<lparr>x_CommonName = ''evilexample.com'', x_DNSNames = [], x_RawSPKI = []\<rparr> [''example.com'']"
  by code_simp

end
