(* ===== verification/Ring_Log.thy ===== *)
theory Ring_Log
  imports Go_Prelude
begin

text \<open>
  The log buffers and the event buffer of \<open>src/core_runtime.go\<close> and \<open>src/log_writer.go\<close>: a writer that
  keeps the last lines of a byte stream, the route events the dashboard polls, and the writer that
  copies to several others.
\<close>

section \<open>The ring writer\<close>

record ringLogWriter =
  rw_lines :: "string list"
  rw_pending :: string
  rw_max :: nat

definition newRingLogWriter :: "int \<Rightarrow> ringLogWriter" where
  "newRingLogWriter m = \<lparr>rw_lines = [], rw_pending = '''', rw_max = (if m \<le> 0 then 1000 else nat m)\<rparr>"

text \<open>The last \<open>n\<close> elements. Whether the code copies them to a new array or takes a slice changes the
  memory only.\<close>

definition lastN :: "nat \<Rightarrow> 'a list \<Rightarrow> 'a list" where
  "lastN n xs = drop (length xs - n) xs"

definition pushLine :: "nat \<Rightarrow> string list \<Rightarrow> string \<Rightarrow> string list" where
  "pushLine m ls line = (if m < length (ls @ [line]) then lastN m (ls @ [line]) else ls @ [line])"

definition newline :: char where "newline = CHR 0x0A"

definition unixText :: "string \<Rightarrow> string" where
  "unixText p = ReplaceAll p [CHR 0x0D, CHR 0x0A] [CHR 0x0A]"

fun pushLines :: "nat \<Rightarrow> string list \<Rightarrow> string list \<Rightarrow> string list" where
  "pushLines m [] ls = ls"
| "pushLines m (line # parts) ls = pushLines m parts (if line = '''' then ls else pushLine m ls line)"

definition Write :: "string \<Rightarrow> ringLogWriter \<Rightarrow> ringLogWriter" where
  "Write p w =
     (let parts = Split newline (rw_pending w @ unixText p)
      in w\<lparr>rw_pending := last parts, rw_lines := pushLines (rw_max w) (butlast parts) (rw_lines w)\<rparr>)"

definition Snapshot :: "int \<Rightarrow> ringLogWriter \<Rightarrow> string list" where
  "Snapshot limit0 w =
     (let limit1 = (if limit0 \<le> 0 then 200 else nat limit0); total = length (rw_lines w) in
      if total = 0 then (if rw_pending w \<noteq> '''' then [rw_pending w] else [])
      else
        let limit = (if total < limit1 then total else limit1); out = drop (total - limit) (rw_lines w)
        in if rw_pending w \<noteq> '''' then
             (let out' = out @ [rw_pending w] in if limit < length out' then drop 1 out' else out')
           else out)"

definition Clear :: "ringLogWriter \<Rightarrow> ringLogWriter" where
  "Clear w = w\<lparr>rw_lines := [], rw_pending := ''''\<rparr>"

definition AppendLine :: "string \<Rightarrow> ringLogWriter \<Rightarrow> ringLogWriter" where
  "AppendLine line w = (if line = '''' then w else w\<lparr>rw_lines := pushLine (rw_max w) (rw_lines w) line\<rparr>)"

text \<open>\<open>bestEffortMultiWriter\<close>: every writer gets the bytes, whatever the others return; nil writers are
  left out when it is made.\<close>

definition newBestEffortMultiWriter :: "(string \<Rightarrow> 'w \<Rightarrow> 'w) option list \<Rightarrow> (string \<Rightarrow> 'w \<Rightarrow> 'w) list" where
  "newBestEffortMultiWriter ws = map the (filter (\<lambda>w. w \<noteq> None) ws)"

definition writeAll :: "(string \<Rightarrow> 'w \<Rightarrow> 'w) list \<Rightarrow> string \<Rightarrow> 'w \<Rightarrow> 'w" where
  "writeAll ws p s = fold (\<lambda>w. w p) ws s"

section \<open>Route events\<close>

type_synonym routeEvent = "string \<times> string"

definition recordEvent :: "routeEvent \<Rightarrow> routeEvent list \<Rightarrow> routeEvent list" where
  "recordEvent e es = (let es' = es @ [e] in if 200 < length es' then drop (length es' - 100) es' else es')"

definition popRouteEvents :: "routeEvent list \<Rightarrow> routeEvent list \<times> routeEvent list" where
  "popRouteEvents es = (es, [])"

section \<open>Properties\<close>

lemma length_lastN [simp]: "length (lastN n xs) = min n (length xs)"
  by (simp add: lastN_def min_def)

lemma lastN_all [simp]: "length xs \<le> n \<Longrightarrow> lastN n xs = xs"
  by (simp add: lastN_def)

lemma lastN_append_lastN: "lastN n (lastN n xs @ ys) = lastN n (xs @ ys)"
  by (cases "n \<le> length xs") (simp_all add: lastN_def drop_append add.commute)

lemma pushLine_lastN: "0 < m \<Longrightarrow> pushLine m (lastN m ls) line = lastN m (ls @ [line])"
  using lastN_append_lastN [of m ls "[line]"] by (auto simp: pushLine_def)

lemma pushLines_lastN: "0 < m \<Longrightarrow> pushLines m parts (lastN m ls) = lastN m (ls @ filter (\<lambda>l. l \<noteq> '''') parts)"
  by (induction parts arbitrary: ls) (auto simp: pushLine_lastN)

text \<open>The unbounded log: all lines since the last \<open>Clear\<close>, and the unfinished line.\<close>

datatype logOp = WriteOp string | AppendOp string | ClearOp

record fullLog =
  fl_lines :: "string list"
  fl_part :: string

fun logStep :: "logOp \<Rightarrow> fullLog \<Rightarrow> fullLog" where
  "logStep (WriteOp p) l =
     (let parts = Split newline (fl_part l @ unixText p)
      in l\<lparr>fl_lines := fl_lines l @ filter (\<lambda>s. s \<noteq> '''') (butlast parts), fl_part := last parts\<rparr>)"
| "logStep (AppendOp line) l = l\<lparr>fl_lines := fl_lines l @ filter (\<lambda>s. s \<noteq> '''') [line]\<rparr>"
| "logStep ClearOp l = \<lparr>fl_lines = [], fl_part = ''''\<rparr>"

fun ringStep :: "logOp \<Rightarrow> ringLogWriter \<Rightarrow> ringLogWriter" where
  "ringStep (WriteOp p) w = Write p w"
| "ringStep (AppendOp line) w = AppendLine line w"
| "ringStep ClearOp w = Clear w"

definition ringOf :: "nat \<Rightarrow> fullLog \<Rightarrow> ringLogWriter" where
  "ringOf m l = \<lparr>rw_lines = lastN m (fl_lines l), rw_pending = fl_part l, rw_max = m\<rparr>"

interpretation ring: simulation ringStep logStep "\<lambda>l w. 0 < rw_max w \<and> w = ringOf (rw_max w) l"
proof
  fix l w op
  assume r: "0 < rw_max w \<and> w = ringOf (rw_max w) l"
  then have w: "0 < rw_max w" "rw_lines w = lastN (rw_max w) (fl_lines l)" "rw_pending w = fl_part l"
    by (auto simp: ringOf_def dest: arg_cong [where f = rw_lines] arg_cong [where f = rw_pending])
  show "0 < rw_max (ringStep op w) \<and> ringStep op w = ringOf (rw_max (ringStep op w)) (logStep op l)"
    using w by (cases op; cases w) (simp_all add: ringOf_def Write_def AppendLine_def Clear_def pushLines_lastN pushLine_lastN Let_def)
qed

text \<open>Consecutive writes are one write of the whole text: the splitting into chunks does not matter.\<close>

lemma Split_append_last:
  "Split c (s @ t) = butlast (Split c s) @ Split c (last (Split c s) @ t)"
proof (induction s)
  case (Cons x s)
  show ?case
  proof (cases "x = c")
    case False
    obtain y ys where y: "Split c s = y # ys" by (cases "Split c s") auto
    show ?thesis
    proof (cases ys)
      case Nil
      then show ?thesis using False Cons y by simp
    next
      case (Cons z zs)
      then show ?thesis using False Cons.IH y by simp
    qed
  qed (use Cons in simp)
qed simp

lemma writes_join:
  "fold logStep (map WriteOp ps) l =
     (let parts = Split newline (fl_part l @ concat (map unixText ps))
      in if ps = [] then l else l\<lparr>fl_lines := fl_lines l @ filter (\<lambda>s. s \<noteq> '''') (butlast parts), fl_part := last parts\<rparr>)"
proof (induction ps arbitrary: l)
  case (Cons p ps)
  show ?case
  proof (cases "ps = []")
    case False
    then show ?thesis using Cons [of "logStep (WriteOp p) l"]
        Split_append_last [of newline "fl_part l @ unixText p" "concat (map unixText ps)"]
      by (simp add: Let_def butlast_append)
  qed (simp add: Let_def)
qed simp

lemma Snapshot_lastN:
  "Snapshot limit w = lastN (if rw_lines w = [] then 1 else min (length (rw_lines w)) (if limit \<le> 0 then 200 else nat limit))
     (rw_lines w @ (if rw_pending w = '''' then [] else [rw_pending w]))"
  by (auto simp: Snapshot_def Let_def lastN_def min_def Suc_diff_le drop_Suc drop_append drop_tl)

text \<open>C38. The ring writer implements an unbounded log. After any sequence of writes, appended lines and clears
  it holds the last lines (at most its maximum) of everything logged since the last clear, and the unfinished
  line; consecutive writes act as one write of the joined text, so it does not matter how the stream was cut
  into chunks (line ends being normalised in each chunk); and a snapshot of a buffer that holds complete lines
  shows the last entries, as many as there are complete lines at most, so an unfinished line displaces the oldest.\<close>

theorem ring_log_refines:
  "let w = fold ringStep ops (newRingLogWriter m); l = fold logStep ops \<lparr>fl_lines = [], fl_part = ''''\<rparr>;
       k = (if m \<le> 0 then 1000 else nat m); t = concat (map unixText (p # ps));
       w' = fold ringStep (map WriteOp (p # ps)) (newRingLogWriter m)
   in rw_lines w = lastN k (fl_lines l) \<and> rw_pending w = fl_part l \<and> length (rw_lines w) \<le> k \<and>
      w' = \<lparr>rw_lines = lastN k (filter (\<lambda>s. s \<noteq> '''') (butlast (Split newline t))), rw_pending = last (Split newline t), rw_max = k\<rparr> \<and>
      Snapshot limit w = lastN (if rw_lines w = [] then 1 else min (length (rw_lines w)) (if limit \<le> 0 then 200 else nat limit))
        (rw_lines w @ (if fl_part l = '''' then [] else [fl_part l]))"
proof -
  let ?k = "if m \<le> 0 then 1000 else nat m" and ?e = "\<lparr>fl_lines = [], fl_part = ''''\<rparr>"
  have "0 < rw_max (newRingLogWriter m) \<and> newRingLogWriter m = ringOf (rw_max (newRingLogWriter m)) ?e"
    by (simp add: newRingLogWriter_def ringOf_def)
  note run = ring.run_sim [OF this]
  have max: "rw_max (fold ringStep os w) = rw_max w" for os w
  proof (induction os arbitrary: w)
    case (Cons x os)
    have "rw_max (ringStep x w) = rw_max w" by (cases x) (simp_all add: Write_def AppendLine_def Clear_def Let_def)
    with Cons show ?case by simp
  qed simp
  have w: "fold ringStep os (newRingLogWriter m) = ringOf ?k (fold logStep os ?e)" for os
    using run [of os] by (simp add: max newRingLogWriter_def)
  have w': "fold ringStep (map WriteOp (p # ps)) (newRingLogWriter m) = ringOf ?k (fold logStep (map WriteOp (p # ps)) ?e)"
    by (rule w)
  show ?thesis unfolding Let_def w' writes_join w [of ops]
    by (simp add: ringOf_def Snapshot_lastN)
qed

text \<open>The event buffer keeps the newest events.\<close>

datatype eventOp = RecordOp routeEvent | PopOp

fun eventStep :: "eventOp \<Rightarrow> routeEvent list \<Rightarrow> routeEvent list" where
  "eventStep (RecordOp e) es = recordEvent e es"
| "eventStep PopOp es = snd (popRouteEvents es)"

fun allEvents :: "eventOp \<Rightarrow> routeEvent list \<Rightarrow> routeEvent list" where
  "allEvents (RecordOp e) es = es @ [e]"
| "allEvents PopOp es = []"

definition keptEvents :: "routeEvent list \<Rightarrow> routeEvent list \<Rightarrow> bool" where
  "keptEvents all es \<longleftrightarrow> es = lastN (length es) all \<and> length es \<le> 200 \<and> length es \<le> length all \<and> (length es = length all \<or> 100 \<le> length es)"

lemma lastN_snoc: "n \<le> length xs \<Longrightarrow> lastN (Suc n) (xs @ [x]) = lastN n xs @ [x]"
  by (simp add: lastN_def)

lemma lastN_lastN: "k \<le> n \<Longrightarrow> lastN k (lastN n xs) = lastN k xs"
  by (cases "n \<le> length xs") (auto simp: lastN_def intro!: arg_cong [where f = "\<lambda>i. drop i xs"])

lemma recordEvent_lastN: "recordEvent e es = (if 199 < length es then lastN 100 (es @ [e]) else es @ [e])"
  by (simp add: recordEvent_def lastN_def Let_def)

interpretation events: simulation eventStep allEvents keptEvents
proof
  fix all es op
  assume k: "keptEvents all es"
  show "keptEvents (allEvents op all) (eventStep op es)"
  proof (cases op)
    case (RecordOp e)
    have e: "es @ [e] = lastN (Suc (length es)) (all @ [e])" using k lastN_snoc by (metis keptEvents_def)
    show ?thesis
    proof (cases "199 < length es")
      case True
      have "eventStep op es = lastN 100 (all @ [e])"
        unfolding RecordOp eventStep.simps recordEvent_lastN e using True by (simp add: lastN_lastN)
      then show ?thesis using k True RecordOp by (simp add: keptEvents_def)
    next
      case False
      then show ?thesis using k e RecordOp by (auto simp: keptEvents_def recordEvent_lastN)
    qed
  qed (simp add: keptEvents_def popRouteEvents_def)
qed

text \<open>The event buffer the dashboard polls: after any sequence of recorded events and polls it holds the newest
  events since the last poll, in order; never more than 200, all of them as long as nothing was dropped, and
  at least the newest 100 otherwise. A poll returns them and empties the buffer.\<close>

theorem route_events_newest:
  "let all = fold allEvents ops []; es = fold eventStep ops [] in
     es = lastN (length es) all \<and> length es \<le> 200 \<and> (if length es = length all then es = all else 100 \<le> length es) \<and>
     popRouteEvents es = (es, [])"
proof -
  have "keptEvents (fold allEvents ops []) (fold eventStep ops [])"
    by (rule events.run_sim) (simp add: keptEvents_def)
  then show ?thesis by (auto simp: keptEvents_def popRouteEvents_def Let_def lastN_def)
qed

end
