(* ===== verification/Port_Manager.thy ===== *)
theory Port_Manager
  imports Go_Prelude
begin

text \<open>
  The port manager of \<open>src/proxy/port_manager_linux.go\<close>: which process holds a port, and the search for
  a port to listen on. The files under \<open>/proc\<close>, the output of \<open>ss\<close>, signals and sockets are parameters;
  a file of text is the list of its lines.
\<close>

section \<open>Standard library\<close>

definition hexDigit :: "nat \<Rightarrow> char" where
  "hexDigit n = (if n < 10 then char_of (48 + n) else char_of (55 + n))"

fun hexOf :: "nat \<Rightarrow> string" where
  "hexOf n = (if n < 16 then [hexDigit n] else hexOf (n div 16) @ [hexDigit (n mod 16)])"

declare hexOf.simps [simp del]

text \<open>\<open>fmt.Sprintf("%04X", n)\<close>: the sign counts for the width.\<close>

definition zeros :: "nat \<Rightarrow> string \<Rightarrow> string" where
  "zeros w s = replicate (w - length s) (CHR ''0'') @ s"

definition sprintf04X :: "int \<Rightarrow> string" where
  "sprintf04X n = (if n < 0 then CHR ''-'' # zeros 3 (hexOf (nat (- n))) else zeros 4 (hexOf (nat n)))"

text \<open>\<open>strings.Fields\<close>: the parts between runs of white space.\<close>

function Fields :: "string \<Rightarrow> string list" where
  "Fields s =
     (let t = dropWhile is_space s in
      if t = [] then [] else takeWhile (\<lambda>c. \<not> is_space c) t # Fields (dropWhile (\<lambda>c. \<not> is_space c) t))"
  by pat_completeness auto
termination
proof (relation "measure length")
  fix s t
  assume t: "t = dropWhile is_space s" "t \<noteq> []"
  then have "\<not> is_space (hd t)" by (simp add: hd_dropWhile)
  then have "length (dropWhile (\<lambda>c. \<not> is_space c) t) < length t"
    using t(2) by (cases t) (auto simp: less_Suc_eq_le length_dropWhile_le)
  also have "\<dots> \<le> length s" using t(1) by (simp add: length_dropWhile_le)
  finally show "(dropWhile (\<lambda>c. \<not> is_space c) t, s) \<in> measure length" by simp
qed simp

declare Fields.simps [simp del]

text \<open>\<open>strconv.Atoi\<close> on a 64-bit platform.\<close>

definition digitsValue :: "string \<Rightarrow> nat" where
  "digitsValue s = fold (\<lambda>c n. 10 * n + (of_char c - 48)) s 0"

definition Atoi :: "string \<Rightarrow> int option" where
  "Atoi s =
     (let signed = (s \<noteq> [] \<and> (hd s = CHR ''-'' \<or> hd s = CHR ''+'')); ds = (if signed then tl s else s);
          v = (if s \<noteq> [] \<and> hd s = CHR ''-'' then - int (digitsValue ds) else int (digitsValue ds))
      in if ds = [] \<or> list_ex (\<lambda>c. (of_char c :: nat) < 48 \<or> 57 < (of_char c :: nat)) ds \<or> v < - (2 ^ 63) \<or> 2 ^ 63 - 1 < v
         then None else Some v)"

text \<open>\<open>strings.IndexAny\<close>.\<close>

definition IndexAny :: "string \<Rightarrow> string \<Rightarrow> nat option" where
  "IndexAny s chars =
     (let n = length (takeWhile (\<lambda>c. c \<notin> set chars) s) in if n < length s then Some n else None)"

section \<open>Who holds a port\<close>

text \<open>An entry of \<open>/proc\<close>: its name, whether it is a directory, and the links of its \<open>fd\<close> directory (the
  directory or a single link may be unreadable).\<close>

record procEntry =
  pr_name :: string
  pr_isDir :: bool
  pr_fds :: "string option list option"

record osView =
  os_tcp :: "string list option"
  os_ss :: "string + string list"
  os_proc :: "string + procEntry list"
  os_comm :: "int \<Rightarrow> string option"
  os_kill :: "int \<Rightarrow> string option"
  os_listen :: "int \<Rightarrow> string option"

definition holdsInode :: "string \<Rightarrow> procEntry \<Rightarrow> bool" where
  "holdsInode inode e \<longleftrightarrow> (case pr_fds e of None \<Rightarrow> False
     | Some links \<Rightarrow> list_ex (\<lambda>l. case l of None \<Rightarrow> False | Some link \<Rightarrow> Contains link (''socket:['' @ inode @ '']'')) links)"

fun scanProc :: "string \<Rightarrow> procEntry list \<Rightarrow> int" where
  "scanProc inode [] = 0"
| "scanProc inode (e # es) =
     (if \<not> pr_isDir e then scanProc inode es
      else case Atoi (pr_name e) of
             None \<Rightarrow> scanProc inode es
           | Some pid \<Rightarrow> if pid \<le> 0 then scanProc inode es
                         else if holdsInode inode e then pid else scanProc inode es)"

definition findPIDByInode :: "osView \<Rightarrow> string \<Rightarrow> string + int" where
  "findPIDByInode os inode = (case os_proc os of Inl e \<Rightarrow> Inl e | Inr es \<Rightarrow> Inr (scanProc inode es))"

fun scanTCP :: "osView \<Rightarrow> string \<Rightarrow> string list \<Rightarrow> int" where
  "scanTCP os hexPort [] = 0"
| "scanTCP os hexPort (line # lines) =
     (let parts = Fields line in
      if length parts < 10 then scanTCP os hexPort lines
      else
        let addrParts = Split (CHR '':'') (parts ! 1) in
        if length addrParts \<noteq> 2 then scanTCP os hexPort lines
        else if EqualFold (addrParts ! 1) hexPort then
          (case findPIDByInode os (parts ! 9) of
             Inl _ \<Rightarrow> scanTCP os hexPort lines
           | Inr pid \<Rightarrow> if 0 < pid then pid else scanTCP os hexPort lines)
        else scanTCP os hexPort lines)"

fun scanSS :: "string \<Rightarrow> string list \<Rightarrow> int" where
  "scanSS portStr [] = 0"
| "scanSS portStr (line # lines) =
     (if \<not> Contains line portStr then scanSS portStr lines
      else case Index line ''pid='' of
             None \<Rightarrow> scanSS portStr lines
           | Some idx \<Rightarrow>
               let rest = drop (idx + 4) line in
               (case IndexAny rest '',)'' of
                  None \<Rightarrow> scanSS portStr lines
                | Some endIdx \<Rightarrow>
                    (case Atoi (take endIdx rest) of None \<Rightarrow> scanSS portStr lines | Some pid \<Rightarrow> pid)))"

definition findProcessByPortSS :: "osView \<Rightarrow> int \<Rightarrow> string + int" where
  "findProcessByPortSS os port =
     (case os_ss os of Inl e \<Rightarrow> Inl e | Inr out \<Rightarrow> Inr (scanSS ('':'' @ ItoaInt port) out))"

definition FindProcessByPort :: "osView \<Rightarrow> int \<Rightarrow> string + int" where
  "FindProcessByPort os port =
     (case os_tcp os of
        None \<Rightarrow> findProcessByPortSS os port
      | Some lines \<Rightarrow> Inr (scanTCP os (sprintf04X port) lines))"

definition GetProcessNameByPID :: "osView \<Rightarrow> int \<Rightarrow> string + string" where
  "GetProcessNameByPID os pid =
     (case os_comm os pid of None \<Rightarrow> Inl (''process not found: '' @ ItoaInt pid) | Some data \<Rightarrow> Inr (TrimSpace data))"

definition KillProcessByPID :: "osView \<Rightarrow> int \<Rightarrow> string option" where
  "KillProcessByPID os pid = os_kill os pid"

section \<open>A free port\<close>

text \<open>The result is the port, the error and the processes that got a signal.\<close>

definition isSelf :: "osView \<Rightarrow> string list \<Rightarrow> int \<Rightarrow> bool" where
  "isSelf os selfNames pid =
     (let name = (case GetProcessNameByPID os pid of Inl _ \<Rightarrow> '''' | Inr n \<Rightarrow> n)
      in list_ex (\<lambda>self. EqualFold name self) selfNames)"

fun ensureLoop :: "osView \<Rightarrow> string list \<Rightarrow> nat \<Rightarrow> int \<Rightarrow> (int \<times> int list) option" where
  "ensureLoop os selfNames 0 port = None"
| "ensureLoop os selfNames (Suc n) port =
     (case FindProcessByPort os port of
        Inl _ \<Rightarrow> if os_listen os port = None then Some (port, []) else ensureLoop os selfNames n (port + 1)
      | Inr pid \<Rightarrow>
          if pid = 0 then (if os_listen os port = None then Some (port, []) else ensureLoop os selfNames n (port + 1))
          else if isSelf os selfNames pid \<and> KillProcessByPID os pid = None then Some (port, [pid])
          else ensureLoop os selfNames n (port + 1))"

definition EnsurePortAvailable :: "osView \<Rightarrow> int \<Rightarrow> string list \<Rightarrow> int \<times> string option \<times> int list" where
  "EnsurePortAvailable os startPort selfNames =
     (case ensureLoop os selfNames 10 startPort of
        Some (port, killed) \<Rightarrow> (port, None, killed)
      | None \<Rightarrow> (startPort, Some (''could not find available port after 10 attempts''), []))"

section \<open>Properties\<close>

text \<open>What makes a port usable: nobody is known to hold it and listening works, or one of our own processes
  holds it and takes the signal.\<close>

definition holder :: "osView \<Rightarrow> int \<Rightarrow> int option" where
  "holder os port = (case FindProcessByPort os port of Inl _ \<Rightarrow> None | Inr pid \<Rightarrow> if pid = 0 then None else Some pid)"

definition usablePort :: "osView \<Rightarrow> string list \<Rightarrow> int \<Rightarrow> bool" where
  "usablePort os selfNames port \<longleftrightarrow>
     (case holder os port of
        None \<Rightarrow> os_listen os port = None
      | Some pid \<Rightarrow> isSelf os selfNames pid \<and> KillProcessByPID os pid = None)"

lemma ensureLoop_find:
  "ensureLoop os selfNames n port =
     map_option (\<lambda>p. (p, case holder os p of None \<Rightarrow> [] | Some pid \<Rightarrow> [pid]))
       (find (usablePort os selfNames) (map (\<lambda>i. port + int i) [0..<n]))"
proof (induction n arbitrary: port)
  case (Suc n)
  have "map (\<lambda>i. port + int i) [0..<Suc n] = port # map (\<lambda>i. port + 1 + int i) [0..<n]"
    by (subst map_upt_Suc) (simp add: ac_simps)
  moreover have "ensureLoop os selfNames (Suc n) port =
    (if usablePort os selfNames port then Some (port, case holder os port of None \<Rightarrow> [] | Some pid \<Rightarrow> [pid])
     else ensureLoop os selfNames n (port + 1))"
    by (cases "FindProcessByPort os port") (auto simp: usablePort_def holder_def)
  ultimately show ?case by (simp add: Suc del: ensureLoop.simps upt_Suc)
qed simp

text \<open>The port search tries ten consecutive ports in order and takes the first usable one, signalling its
  holder when that is one of our processes and nobody else; so it returns a port between the start and the start plus nine
  without an error, or the start itself with one when none of the ten is usable. No process with another
  name ever gets a signal.\<close>

theorem EnsurePortAvailable_first_usable:
  "EnsurePortAvailable os start selfNames =
     (case find (usablePort os selfNames) (map (\<lambda>i. start + int i) [0..<10]) of
        None \<Rightarrow> (start, Some ''could not find available port after 10 attempts'', [])
      | Some p \<Rightarrow> (p, None, case holder os p of None \<Rightarrow> [] | Some pid \<Rightarrow> [pid])) \<and>
   (case EnsurePortAvailable os start selfNames of (p, e, killed) \<Rightarrow>
      start \<le> p \<and> p \<le> start + 9 \<and> list_all (isSelf os selfNames) killed)"
proof -
  have eq: "EnsurePortAvailable os start selfNames =
     (case find (usablePort os selfNames) (map (\<lambda>i. start + int i) [0..<10]) of
        None \<Rightarrow> (start, Some ''could not find available port after 10 attempts'', [])
      | Some p \<Rightarrow> (p, None, case holder os p of None \<Rightarrow> [] | Some pid \<Rightarrow> [pid]))"
    by (simp add: EnsurePortAvailable_def ensureLoop_find split: option.split)
  show ?thesis
  proof (cases "find (usablePort os selfNames) (map (\<lambda>i. start + int i) [0..<10])")
    case (Some p)
    then have "p \<in> set (map (\<lambda>i. start + int i) [0..<10])" "usablePort os selfNames p"
      by (auto simp: find_Some_iff in_set_conv_nth)
    then show ?thesis using Some by (auto simp: eq usablePort_def split: option.splits)
  qed (simp add: eq)
qed

end
