(* ===== verification/Mihomo.thy ===== *)
theory Mihomo
  imports Ring_Log Port_Manager Rule_Data
begin

text \<open>
  The manager of the external TUN process, \<open>src/external_mihomo.go\<close>. The process table, the files and what
  the process prints are parameters or explicit state: \<open>mh_pidFile\<close> and \<open>mh_config\<close> are the contents of the two
  files, \<open>mh_procs\<close> the live processes. An error made by \<open>fmt.Errorf\<close> from a log line is that line (for lines
  without a percent sign).
\<close>

record tunStatus =
  ts_Supported :: bool
  ts_Enabled :: bool
  ts_Running :: bool
  ts_Driver :: string
  ts_Message :: string

record mihomo =
  mh_log :: ringLogWriter
  mh_pidFile :: "string option"
  mh_config :: "string option"
  mh_procs :: "int list"

text \<open>\<open>me_spawn\<close> is the outcome of \<open>cmd.Start\<close>; \<open>me_output\<close> the lines read from the process when \<open>Start\<close> stops
  waiting; \<open>me_preferReady\<close> which channel the \<open>select\<close> takes when both have a message; \<open>me_killable\<close> whether a
  process may be killed; \<open>me_pidWritten\<close> whether writing the PID file works.\<close>

record mihomoEnv =
  me_coreExists :: bool
  me_corePath :: string
  me_mkdirErr :: "string option"
  me_writeErr :: "string option"
  me_exeName :: "string option"
  me_spawn :: "string + int"
  me_pidWritten :: bool
  me_output :: "string list"
  me_preferReady :: bool
  me_killable :: "int \<Rightarrow> bool"

definition newExternalMihomoManager :: "string option \<Rightarrow> string option \<Rightarrow> int list \<Rightarrow> mihomo" where
  "newExternalMihomoManager pidFile config procs =
     \<lparr>mh_log = newRingLogWriter 50, mh_pidFile = pidFile, mh_config = config, mh_procs = procs\<rparr>"

section \<open>Log lines\<close>

definition isFatalMihomoMessage :: "string \<Rightarrow> bool" where
  "isFatalMihomoMessage message =
     (let msg = ToLower (TrimSpace message) in
      msg \<noteq> '''' \<and> (Contains msg ''start tun listening error:'' \<or> Contains msg ''access is denied'' \<or>
                    Contains msg ''configure tun interface''))"

definition fatalMihomoLine :: "string \<Rightarrow> string" where
  "fatalMihomoLine line0 =
     (let line = TrimSpace line0; lower = ToLower line in
      if line = '''' then ''''
      else case Index lower ''start tun listening error:'' of
             Some idx \<Rightarrow> TrimSpace (drop idx line)
           | None \<Rightarrow>
               if Contains lower ''access is denied'' \<or> Contains lower ''configure tun interface'' \<or> Contains lower ''failed to start tun''
               then line else '''')"

definition isReadyMihomoLine :: "string \<Rightarrow> bool" where
  "isReadyMihomoLine line =
     (let lower = ToLower (TrimSpace line) in
      lower \<noteq> '''' \<and> (Contains lower ''tun adapter listening at'' \<or> Contains lower ''[tcp]'' \<or> Contains lower ''[udp]'' \<or>
        Contains lower ''match using proxy['' \<or> Contains lower ''start initial compatible provider''))"

section \<open>Files and status\<close>

definition readPID :: "mihomo \<Rightarrow> int" where
  "readPID m = (case mh_pidFile m of None \<Rightarrow> 0
     | Some data \<Rightarrow> (case Atoi (TrimSpace data) of None \<Rightarrow> 0 | Some pid \<Rightarrow> if pid \<le> 0 then 0 else pid))"

definition processRunning :: "int \<Rightarrow> mihomo \<Rightarrow> bool" where
  "processRunning pid m \<longleftrightarrow> 0 < pid \<and> pid \<in> set (mh_procs m)"

definition recentLogLines :: "int \<Rightarrow> mihomo \<Rightarrow> string list" where
  "recentLogLines limit m = Snapshot limit (mh_log m)"

text \<open>The scan from the newest line to the oldest.\<close>

fun scanStatus :: "string list \<Rightarrow> string" where
  "scanStatus [] = ''External Mihomo process is starting''"
| "scanStatus (l # ls) =
     (let line = TrimSpace l in
      if fatalMihomoLine line \<noteq> '''' then fatalMihomoLine line
      else if isReadyMihomoLine line then ''External Mihomo TUN is running'' else scanStatus ls)"

definition statusMessage :: "mihomo \<Rightarrow> (string \<times> int) \<times> mihomo" where
  "statusMessage m =
     (let pid = readPID m in
      if pid = 0 then ((''External Mihomo TUN is configured but not running'', 0), m)
      else if \<not> processRunning pid m then ((''External Mihomo process is not running'', 0), m\<lparr>mh_pidFile := None\<rparr>)
      else ((scanStatus (rev (recentLogLines 200 m)), pid), m))"

definition runningState :: "mihomo \<Rightarrow> (bool \<times> string) \<times> mihomo" where
  "runningState m =
     (let ((message, pid), m') = statusMessage m in
      if pid = 0 then ((False, message), m')
      else if list_ex isReadyMihomoLine (recentLogLines 200 m') then ((True, ''External Mihomo TUN is running''), m')
      else ((False, message), m'))"

definition StatusM :: "mihomoEnv \<Rightarrow> mihomo \<Rightarrow> tunStatus \<times> mihomo" where
  "StatusM env m =
     (let status = \<lparr>ts_Supported = True, ts_Enabled = False, ts_Running = False, ts_Driver = ''mihomo'',
            ts_Message = ''External Mihomo TUN is configured but not running''\<rparr>
      in if \<not> me_coreExists env then (status\<lparr>ts_Message := ''Mihomo core not found: '' @ me_corePath env\<rparr>, m)
         else let ((running, message), m') = runningState m
              in (status\<lparr>ts_Running := running, ts_Enabled := running,
                    ts_Message := (if TrimSpace message \<noteq> '''' then message else ts_Message status)\<rparr>, m'))"

section \<open>Configuration\<close>

definition mihomoConfigTemplate :: string where
  "mihomoConfigTemplate = Join
    [''mixed-port: 7890'', ''allow-lan: false'', ''mode: rule'', ''log-level: info'', ''ipv6: true'',
     ''find-process-mode: always'', ''unified-delay: false'', ''tcp-concurrent: true'', '''', ''profile:'',
     ''  store-selected: true'', ''  store-fake-ip: true'', '''', ''proxies:'', ''  - name: snishaper-local'',
     ''    type: http'', ''    server: 127.0.0.1'', ''    port: __SNISHAPER_PORT__'', '''', ''proxy-groups:'',
     ''  - name: PROXY'', ''    type: select'', ''    proxies:'', ''      - snishaper-local'', ''      - DIRECT'',
     '''', ''rules:'', ''  - PROCESS-NAME,__APP_PROCESS__,DIRECT'', ''  - PROCESS-NAME,mihomo,DIRECT'',
     ''  - DOMAIN-SUFFIX,local,DIRECT'', ''  - DOMAIN-SUFFIX,lan,DIRECT'',
     ''  - IP-CIDR,127.0.0.0/8,DIRECT,no-resolve'', ''  - IP-CIDR,10.0.0.0/8,DIRECT,no-resolve'',
     ''  - IP-CIDR,100.64.0.0/10,DIRECT,no-resolve'', ''  - IP-CIDR,172.16.0.0/12,DIRECT,no-resolve'',
     ''  - IP-CIDR,192.168.0.0/16,DIRECT,no-resolve'', ''  - IP-CIDR,198.18.0.0/16,DIRECT,no-resolve'',
     ''  - IP-CIDR,224.0.0.0/4,DIRECT,no-resolve'', ''  - IP-CIDR6,::1/128,DIRECT,no-resolve'',
     ''  - IP-CIDR6,fc00::/7,DIRECT,no-resolve'', ''  - IP-CIDR6,fe80::/10,DIRECT,no-resolve'', ''  - MATCH,PROXY'',
     '''', ''tun:'', ''  enable: true'', ''  stack: gvisor'', ''  auto-route: true'',
     ''  auto-detect-interface: true'', ''  dns-hijack:'', ''    - any:53'', ''    - tcp://any:53'', '''', ''dns:'',
     ''  enable: true'', ''  ipv6: true'', ''  listen: 127.0.0.1:1053'', ''  enhanced-mode: fake-ip'',
     ''  fake-ip-range: 198.18.0.1/16'', ''''] [newline]"

definition ensureConfig :: "mihomoEnv \<Rightarrow> string \<Rightarrow> mihomo \<Rightarrow> string option \<times> mihomo" where
  "ensureConfig env listenPort0 m =
     (let listenPort = TrimSpace listenPort0;
          appProcess = (case me_exeName env of None \<Rightarrow> ''snishaper''
            | Some base \<Rightarrow> if TrimSpace base = '''' then ''snishaper'' else TrimSpace base)
      in if listenPort = '''' then (Some ''proxy listen port is empty'', m)
         else case me_mkdirErr env of
           Some e \<Rightarrow> (Some e, m)
         | None \<Rightarrow>
             if \<not> me_coreExists env then (Some (''mihomo core not found: '' @ me_corePath env), m)
             else case me_writeErr env of
                    Some e \<Rightarrow> (Some e, m)
                  | None \<Rightarrow> (None, m\<lparr>mh_config := Some
                      (ReplaceAll (ReplaceAll mihomoConfigTemplate ''__SNISHAPER_PORT__'' listenPort) ''__APP_PROCESS__'' appProcess)\<rparr>))"

section \<open>Starting and stopping\<close>

definition stopLocked :: "mihomoEnv \<Rightarrow> mihomo \<Rightarrow> mihomo" where
  "stopLocked env m =
     (let pid = readPID m in
      if pid = 0 then m\<lparr>mh_pidFile := None\<rparr>
      else m\<lparr>mh_procs := (if me_killable env pid then removeAll pid (mh_procs m) else mh_procs m), mh_pidFile := None\<rparr>)"

definition StopM :: "mihomoEnv \<Rightarrow> mihomo \<Rightarrow> string option \<times> mihomo" where
  "StopM env m = (None, stopLocked env m)"

text \<open>What the goroutines that read the pipes do with a line.\<close>

definition drainLine :: "string \<Rightarrow> mihomo \<Rightarrow> mihomo" where
  "drainLine line m = m\<lparr>mh_log := Write (line @ [newline]) (mh_log m)\<rparr>"

text \<open>The first message of each channel.\<close>

definition fatalMessages :: "string list \<Rightarrow> string list" where
  "fatalMessages ls = filter (\<lambda>f. f \<noteq> '''') (map fatalMihomoLine (filter (\<lambda>l. \<not> isReadyMihomoLine l) ls))"

definition StartM :: "mihomoEnv \<Rightarrow> string \<Rightarrow> mihomo \<Rightarrow> string option \<times> mihomo" where
  "StartM env listenPort0 m =
     (let listenPort = TrimSpace listenPort0 in
      if listenPort = '''' then (Some ''proxy listen port is empty'', m)
      else case ensureConfig env listenPort m of
        (Some e, m1) \<Rightarrow> (Some e, m1)
      | (None, m1) \<Rightarrow>
          let m2 = (stopLocked env m1)\<lparr>mh_log := Clear (mh_log m1)\<rparr> in
          (case me_spawn env of
             Inl e \<Rightarrow> (Some e, m2)
           | Inr pid \<Rightarrow>
               let m3 = m2\<lparr>mh_procs := pid # mh_procs m2,
                     mh_pidFile := (if me_pidWritten env then Some (ItoaInt pid) else mh_pidFile m2)\<rparr>;
                   m4 = fold drainLine (me_output env) m3;
                   ready = list_ex isReadyMihomoLine (me_output env); fatals = fatalMessages (me_output env)
               in if ready \<and> (fatals = [] \<or> me_preferReady env) then (None, m4)
                  else if fatals \<noteq> [] then (Some (hd fatals), m4)
                  else (let ((_, message), m5) = runningState m4 in
                        (Some (if TrimSpace message \<noteq> '''' then message
                               else ''external mihomo TUN did not enter running state within 12s''), m5))))"

definition RestartIfRunning :: "mihomoEnv \<Rightarrow> string \<Rightarrow> mihomo \<Rightarrow> string option \<times> mihomo" where
  "RestartIfRunning env listenPort m =
     (let ((_, pid), m') = statusMessage m in if 0 < pid then StartM env listenPort m' else (None, m'))"

section \<open>Properties\<close>

text \<open>The lines a \<open>bufio.Scanner\<close> delivers.\<close>

definition plainLine :: "string \<Rightarrow> bool" where
  "plainLine l \<longleftrightarrow> newline \<notin> set l \<and> CHR 0x0D \<notin> set l"

lemma ReplaceAll_absent: "c \<notin> set s \<Longrightarrow> ReplaceAll s (c # old) new = s"
proof (induction s)
  case (Cons x s)
  then show ?case by (subst ReplaceAll.simps) simp
qed (simp add: ReplaceAll.simps)

lemma Write_line:
  assumes "plainLine l" "rw_pending w = ''''"
  shows "Write (l @ [newline]) w = AppendLine l w"
proof -
  have "unixText (l @ [newline]) = l @ [newline]"
    using assms(1) by (auto simp: unixText_def plainLine_def newline_def intro!: ReplaceAll_absent)
  moreover have "Split newline (l @ [newline]) = [l, []]"
    using assms(1) Split_append_sep [of newline l "[]"] by (simp add: plainLine_def)
  ultimately show ?thesis using assms(2) by (cases w) (simp add: Write_def AppendLine_def)
qed

lemma drain_lines:
  assumes "list_all plainLine ls" "rw_pending (mh_log m) = ''''" "0 < rw_max (mh_log m)"
    "rw_lines (mh_log m) = lastN (rw_max (mh_log m)) before"
  shows "fold drainLine ls m = m\<lparr>mh_log := (mh_log m)\<lparr>rw_lines :=
    lastN (rw_max (mh_log m)) (before @ filter (\<lambda>l. l \<noteq> '''') ls)\<rparr>\<rparr>"
  using assms
proof (induction ls arbitrary: m before)
  case (Cons l ls)
  have w: "Write (l @ [newline]) (mh_log m) = AppendLine l (mh_log m)" using Cons.prems by (simp add: Write_line)
  show ?case
  proof (cases "l = ''''")
    case True
    then have "drainLine l m = m" using w by (simp add: drainLine_def AppendLine_def)
    then show ?thesis using Cons True by simp
  next
    case False
    have "drainLine l m = m\<lparr>mh_log := (mh_log m)\<lparr>rw_lines := lastN (rw_max (mh_log m)) (before @ [l])\<rparr>\<rparr>"
      using w False Cons.prems by (simp add: drainLine_def AppendLine_def pushLine_lastN)
    then show ?thesis using Cons.IH [of "drainLine l m" "before @ [l]"] Cons.prems False by simp
  qed
qed (cases m, cases "mh_log m", simp)

lemma Snapshot_complete: "rw_pending w = '''' \<Longrightarrow> length (rw_lines w) \<le> 200 \<Longrightarrow> Snapshot 200 w = rw_lines w"
  by (simp add: Snapshot_lastN)

lemma status_running:
  assumes "list_all plainLine ls" "mh_log m = newRingLogWriter 50"
  shows "ts_Running (fst (StatusM env (fold drainLine ls m))) \<longleftrightarrow>
    me_coreExists env \<and> processRunning (readPID m) m \<and> list_ex isReadyMihomoLine (lastN 50 (filter (\<lambda>l. l \<noteq> '''') ls))"
proof -
  let ?ls = "lastN 50 (filter (\<lambda>l. l \<noteq> '''') ls)"
  let ?m = "m\<lparr>mh_log := (mh_log m)\<lparr>rw_lines := ?ls\<rparr>\<rparr>"
  have m: "fold drainLine ls m = ?m"
    using drain_lines [OF assms(1), of m "[]"] assms(2) by (simp add: newRingLogWriter_def)
  have s: "recentLogLines 200 ?m = ?ls"
    using Snapshot_complete [of "mh_log ?m"] assms(2) by (simp add: recentLogLines_def newRingLogWriter_def)
  have p: "readPID ?m = readPID m" "processRunning pid ?m = processRunning pid m" for pid
    by (simp_all add: readPID_def processRunning_def)
  show ?thesis unfolding m
    by (auto simp: StatusM_def runningState_def statusMessage_def Let_def p s processRunning_def split: if_splits)
qed

text \<open>C28. What the TUN status reports. A manager whose log was empty and that has since read the lines \<open>ls\<close> reports a
  running TUN exactly if the core exists, the PID file names a live process and one of the last fifty
  nonempty lines is a readiness message. So a manager that has not itself read the output (\<open>snishaper tun status\<close>
  makes a new one) never reports a running TUN, and neither does one that has read fifty other lines
  since the last such message, although the process is alive.\<close>

theorem tun_status_running:
  assumes "list_all plainLine ls" "mh_log m = newRingLogWriter 50"
  shows "ts_Running (fst (StatusM env (fold drainLine ls m))) \<longleftrightarrow>
    me_coreExists env \<and> processRunning (readPID m) m \<and> list_ex isReadyMihomoLine (lastN 50 (filter (\<lambda>l. l \<noteq> '''') ls))"
  using assms by (rule status_running)

theorem tun_status_running_witness:
  "let m = newExternalMihomoManager (Some ''4711'') None [4711];
       env = \<lparr>me_coreExists = True, me_corePath = '''', me_mkdirErr = None, me_writeErr = None, me_exeName = None,
              me_spawn = Inr 4711, me_pidWritten = True, me_output = [], me_preferReady = True, me_killable = (\<lambda>_. True)\<rparr>
   in \<not> ts_Running (fst (StatusM env m)) \<and> ts_Running (fst (StatusM env (drainLine ''[TUN] Tun adapter listening at: utun'' m)))"
proof -
  let ?m = "newExternalMihomoManager (Some ''4711'') None [4711]"
  have log: "mh_log ?m = newRingLogWriter 50" by (simp add: newExternalMihomoManager_def)
  have plain: "list_all plainLine [''[TUN] Tun adapter listening at: utun'']" by code_simp
  have ready: "list_ex isReadyMihomoLine (lastN 50 (filter (\<lambda>l. l \<noteq> '''') [''[TUN] Tun adapter listening at: utun'']))" by code_simp
  have pid: "processRunning (readPID ?m) ?m" by code_simp
  show ?thesis unfolding Let_def
    using tun_status_running [OF plain log] tun_status_running [of "[]", OF _ log] ready pid by simp
qed

lemma fold_drain_procs [simp]: "mh_procs (fold drainLine ls m) = mh_procs m"
  by (induction ls arbitrary: m) (simp_all add: drainLine_def)

lemma runningState_procs [simp]: "mh_procs (snd (runningState m)) = mh_procs m"
  by (simp add: runningState_def statusMessage_def Let_def)

text \<open>A start of the TUN process that got as far as the process itself leaves that process alive, whether the start then
  succeeds, meets a fatal message or times out: after an error nothing stops it. The process of the earlier
  start has been killed, if the system allows it.\<close>

theorem tun_start_leaves_process:
  assumes "TrimSpace port \<noteq> ''''" "fst (ensureConfig env (TrimSpace port) m) = None" "me_spawn env = Inr pid"
  shows "mh_procs (snd (StartM env port m)) =
    pid # (if readPID m \<noteq> 0 \<and> me_killable env (readPID m) then removeAll (readPID m) (mh_procs m) else mh_procs m)"
proof -
  obtain m1 where m1: "ensureConfig env (TrimSpace port) m = (None, m1)" using assms(2) by (metis prod.exhaust_sel)
  then have eq: "readPID m1 = readPID m" "mh_procs m1 = mh_procs m"
    by (auto simp: ensureConfig_def readPID_def Let_def split: option.splits if_splits)
  show ?thesis using assms(1,3) m1 eq
    by (simp add: StartM_def Let_def case_prod_beta stopLocked_def)
qed

theorem tun_start_leaves_process_witness:
  "let env = \<lparr>me_coreExists = True, me_corePath = '''', me_mkdirErr = None, me_writeErr = None, me_exeName = None,
              me_spawn = Inr 12, me_pidWritten = True, me_output = [''configure tun interface: operation not permitted''],
              me_preferReady = True, me_killable = (\<lambda>_. True)\<rparr>;
       (err, m') = StartM env ''8080'' (newExternalMihomoManager None None [])
   in err \<noteq> None \<and> mh_procs m' = [12]"
proof -
  let ?env = "\<lparr>me_coreExists = True, me_corePath = '''', me_mkdirErr = None, me_writeErr = None, me_exeName = None,
              me_spawn = Inr 12, me_pidWritten = True, me_output = [''configure tun interface: operation not permitted''],
              me_preferReady = True, me_killable = (\<lambda>_. True)\<rparr>"
  let ?m = "newExternalMihomoManager None None []"
  have port: "TrimSpace ''8080'' = ''8080''" by code_simp
  have fatal: "fatalMessages [''configure tun interface: operation not permitted''] = [''configure tun interface: operation not permitted'']"
    by code_simp
  have cfg: "fst (ensureConfig ?env (TrimSpace ''8080'') ?m) = None" by (simp add: ensureConfig_def port)
  have ready: "\<not> isReadyMihomoLine ''configure tun interface: operation not permitted''" by code_simp
  have "fst (StartM ?env ''8080'' ?m) \<noteq> None"
    using ready by (simp add: StartM_def ensureConfig_def port fatal Let_def)
  moreover have "mh_procs (snd (StartM ?env ''8080'' ?m)) = [12]"
    using tun_start_leaves_process [OF _ cfg, of 12] by (simp add: port newExternalMihomoManager_def)
  ultimately show ?thesis by (simp add: case_prod_beta)
qed

end
