(* ===== verification/Core_Runtime.thy ===== *)
theory Core_Runtime
  imports Mihomo Server_Lifecycle Rule_Edit Mitm_Cert
begin

text \<open>
  The runtime that ties the parts together, \<open>src/core_runtime.go\<close>: it loads the configuration, owns the proxy
  server, the TUN process, the certificate manager, the log and the route events, and carries out the
  commands of the dashboard and of the command line. Files, the clock, sockets and processes are in
  the environment \<open>coreEnv\<close>. The value \<open>None\<close> of an operation is a run-time panic.
\<close>

text \<open>\<open>ce_stamp\<close> is the time that is printed before a message; \<open>ce_listenErr\<close> and \<open>ce_socksOK\<close> are the outcomes of
  \<open>net.Listen\<close>, \<open>ce_waitErr\<close> that of \<open>waitForListen\<close>, \<open>ce_closeErr\<close> that of closing the HTTP server; \<open>ce_ord\<close> is an order
  of map iteration and \<open>ce_tracked\<close> tells whether the serving goroutine has registered its listener.\<close>

record coreEnv =
  ce_os :: osView
  ce_selfPID :: int
  ce_lib :: cryptoLib
  ce_now :: int
  ce_stamp :: "string \<Rightarrow> string"
  ce_ioSettings :: io
  ce_ioRules :: io
  ce_ioLoad :: io
  ce_listenErr :: "string \<Rightarrow> string option"
  ce_socksOK :: bool
  ce_waitErr :: "string \<Rightarrow> string option"
  ce_closeErr :: "string option"
  ce_ord :: "string list"
  ce_tracked :: bool
  ce_tun :: mihomoEnv

text \<open>\<open>co_certGen\<close> is the certificate manager the proxy server has been given, \<open>co_leafs\<close> its certificate cache;
  \<open>co_signalled\<close>: the program has sent the termination signal to itself.\<close>

record coreRuntime =
  co_execDir :: string
  co_rules :: ruleManager
  co_proxy :: proxyServer
  co_certGen :: "certManager option"
  co_leafs :: certCache
  co_tun :: "mihomo option"
  co_cert :: "certManager option"
  co_disk :: disk
  co_log :: ringLogWriter
  co_capture :: bool
  co_tunStarting :: bool
  co_tunErr :: string
  co_events :: "routeEvent list"
  co_signalled :: bool

type_synonym rtResult = "(string option \<times> coreRuntime) option"

section \<open>Log and events\<close>

definition appendLog :: "coreEnv \<Rightarrow> string \<Rightarrow> coreRuntime \<Rightarrow> coreRuntime" where
  "appendLog env message r =
     (let trimmed = TrimSpace message in
      if trimmed = '''' then r
      else r\<lparr>co_log := Write (ce_stamp env message @ '' '' @ trimmed @ [newline]) (co_log r)\<rparr>)"

definition startLogCapture :: "coreEnv \<Rightarrow> coreRuntime \<Rightarrow> coreRuntime" where
  "startLogCapture env r =
     appendLog env ''[core] log capture started'' (r\<lparr>co_capture := True, co_log := Clear (co_log r)\<rparr>)"

definition stopLogCapture :: "coreEnv \<Rightarrow> coreRuntime \<Rightarrow> coreRuntime" where
  "stopLogCapture env r = (appendLog env ''[core] log capture stopping'' r)\<lparr>co_capture := False\<rparr>"

definition recentLogs :: "int \<Rightarrow> coreRuntime \<Rightarrow> string" where
  "recentLogs limit r = Join (Snapshot limit (co_log r)) [newline]"

definition clearLogs :: "coreEnv \<Rightarrow> coreRuntime \<Rightarrow> coreRuntime" where
  "clearLogs env r = appendLog env ''[core] logs cleared'' (r\<lparr>co_log := Clear (co_log r)\<rparr>)"

definition routeEventCallback :: "string \<Rightarrow> string \<Rightarrow> coreRuntime \<Rightarrow> coreRuntime" where
  "routeEventCallback domain mode r = r\<lparr>co_events := recordEvent (domain, mode) (co_events r)\<rparr>"

section \<open>Ports\<close>

text \<open>\<open>fmt.Sscanf(addr, "127.0.0.1:%d", &port)\<close>: the port is 0 when the text does not match.\<close>

definition scanPort :: "string \<Rightarrow> int" where
  "scanPort addr =
     (let pre = ''127.0.0.1:''; rest = dropWhile (\<lambda>c. c = CHR '' '') (drop (length pre) addr);
          sign = takeWhile (\<lambda>c. c = CHR ''-'' \<or> c = CHR ''+'') (take 1 rest);
          digits = takeWhile (\<lambda>c. 48 \<le> (of_char c :: nat) \<and> (of_char c :: nat) \<le> 57) (drop (length sign) rest)
      in if \<not> HasPrefix addr pre then 0 else case Atoi (sign @ digits) of None \<Rightarrow> 0 | Some n \<Rightarrow> n)"

definition getListenPort :: "coreRuntime \<Rightarrow> int" where
  "getListenPort r = scanPort (ps_listenAddr (co_proxy r))"

definition currentListenPort :: "coreRuntime \<Rightarrow> string" where
  "currentListenPort r =
     (let addr = TrimSpace (ps_listenAddr (co_proxy r)); saved = TrimSpace (rm_listenPort (co_rules r)) in
      if addr = '''' then saved
      else case SplitHostPort addr of
             None \<Rightarrow> saved
           | Some (_, port) \<Rightarrow> if TrimSpace port \<noteq> '''' then TrimSpace port else saved)"

definition setListenPort :: "coreEnv \<Rightarrow> int \<Rightarrow> coreRuntime \<Rightarrow> string option \<times> coreRuntime" where
  "setListenPort env port r =
     (if port < 1 \<or> 65535 < port then (Some (''invalid port number: '' @ ItoaInt port), r)
      else case SetListenAddr (''127.0.0.1:'' @ ItoaInt port) (co_proxy r) of
             (Some e, _) \<Rightarrow> (Some e, r)
           | (None, p) \<Rightarrow>
               let (err, rm) = SaveConfig (ce_ioSettings env) (ce_ioRules env) (SetListenPort (ItoaInt port) (co_rules r))
               in (err, r\<lparr>co_proxy := p, co_rules := rm\<rparr>))"

section \<open>The proxy server\<close>

text \<open>\<open>ProxyServer.Start\<close> without another call in between: the sections of \<open>Start\<close> one after the other.\<close>

definition StartPS :: "coreEnv \<Rightarrow> proxyServer \<Rightarrow> (string option \<times> proxyServer) option" where
  "StartPS env p =
     (if ps_running p then Some (None, p)
      else
        let i = ps_next p; addr = ps_listenAddr p; ok = (ce_listenErr env addr = None) in
        case startListen ok (i, addr) (startBegin p) of
          None \<Rightarrow> None
        | Some q \<Rightarrow>
            if i \<in> set (ps_listening q) then Some (None, startCommit (ce_socksOK env) i q)
            else Some (Some (''failed to listen on '' @ addr @ '': '' @
              (case ce_listenErr env addr of Some e \<Rightarrow> e | None \<Rightarrow> ''listen tcp '' @ addr @ '': bind: address already in use'')), q))"

text \<open>The two halves of \<open>startProxy\<close>: the choice of the port, and the start with the wait for the listener.\<close>

definition choosePort :: "coreEnv \<Rightarrow> coreRuntime \<Rightarrow> string option \<times> coreRuntime" where
  "choosePort env r =
     (let originalPort = (if getListenPort r = 0 then 8080 else getListenPort r);
          (found, err, killed) = EnsurePortAvailable (ce_os env) originalPort [''snishaper''];
          availablePort = (if err = None then found else originalPort);
          r1 = r\<lparr>co_signalled := co_signalled r \<or> ce_selfPID env \<in> set killed\<rparr>
      in if availablePort \<noteq> originalPort then setListenPort env availablePort r1 else (None, r1))"

definition startAndWait :: "coreEnv \<Rightarrow> coreRuntime \<Rightarrow> rtResult" where
  "startAndWait env r =
     (case StartPS env (co_proxy r) of
        None \<Rightarrow> None
      | Some (Some e, p) \<Rightarrow> Some (Some e, r\<lparr>co_proxy := p\<rparr>)
      | Some (None, p) \<Rightarrow>
          let addr = ps_listenAddr p; r1 = r\<lparr>co_proxy := p\<rparr> in
          (case ce_waitErr env addr of
             None \<Rightarrow> Some (None, appendLog env ''[core] proxy started'' r1)
           | Some e \<Rightarrow> map_option (\<lambda>q. (Some (''proxy started but not listening on '' @ addr @ '': '' @ e), r1\<lparr>co_proxy := q\<rparr>))
               (StopPS (ce_tracked env) p)))"

definition startProxy :: "coreEnv \<Rightarrow> coreRuntime \<Rightarrow> rtResult" where
  "startProxy env r =
     (case choosePort env r of
        (Some e, r1) \<Rightarrow> Some (Some e, r1)
      | (None, r1) \<Rightarrow> startAndWait env r1)"

definition stopProxy :: "coreEnv \<Rightarrow> coreRuntime \<Rightarrow> rtResult" where
  "stopProxy env r =
     map_option (\<lambda>p.
       if ps_running (co_proxy r) \<and> ps_Server (co_proxy r) \<noteq> None \<and> ce_closeErr env \<noteq> None
       then (ce_closeErr env, r\<lparr>co_proxy := p\<rparr>)
       else (None, appendLog env ''[core] proxy stopped'' (r\<lparr>co_proxy := p\<rparr>))) (StopPS (ce_tracked env) (co_proxy r))"

section \<open>TUN\<close>

definition setTUNStartState :: "bool \<Rightarrow> string option \<Rightarrow> coreRuntime \<Rightarrow> coreRuntime" where
  "setTUNStartState starting err r =
     r\<lparr>co_tunStarting := starting,
       co_tunErr := (if starting then '''' else case err of Some e \<Rightarrow> TrimSpace e | None \<Rightarrow> '''')\<rparr>"

definition failTUNStart :: "coreEnv \<Rightarrow> string \<Rightarrow> string option \<Rightarrow> coreRuntime \<Rightarrow> coreRuntime" where
  "failTUNStart env stack err r =
     (let r1 = setTUNStartState False err r in
      case err of None \<Rightarrow> r1 | Some e \<Rightarrow> appendLog env stack (appendLog env (''[core] TUN panic: '' @ e) r1))"

text \<open>The body of \<open>startTUN\<close>; the deferred function records the outcome.\<close>

definition startTUNBody :: "coreEnv \<Rightarrow> coreRuntime \<Rightarrow> rtResult" where
  "startTUNBody env r =
     (let started = (if IsRunning (co_proxy r) then Some (None, r)
                     else startProxy env (appendLog env ''[core] proxy not running, starting proxy before TUN'' r))
      in case started of
           None \<Rightarrow> None
         | Some (Some e, r1) \<Rightarrow> Some (Some (''start proxy before TUN: '' @ e), r1)
         | Some (None, r1) \<Rightarrow>
             Some (case co_tun r1 of
                     None \<Rightarrow> (Some ''external mihomo manager is not initialized'', r1)
                   | Some m \<Rightarrow>
                       let listenPort = currentListenPort r1 in
                       if listenPort = '''' then (Some ''proxy listen port is empty'', r1)
                       else case StartM (ce_tun env) listenPort m of
                              (Some e, m') \<Rightarrow> (Some e, r1\<lparr>co_tun := Some m'\<rparr>)
                            | (None, m') \<Rightarrow> (None, appendLog env ''[core] external mihomo tun started''
                                (appendLog env ''[mihomo] external TUN started'' (r1\<lparr>co_tun := Some m'\<rparr>)))))"

definition startTUN :: "coreEnv \<Rightarrow> coreRuntime \<Rightarrow> rtResult" where
  "startTUN env r =
     map_option (\<lambda>(err, r'). (err, setTUNStartState False err r')) (startTUNBody env (setTUNStartState True None r))"

definition stopTUN :: "coreEnv \<Rightarrow> coreRuntime \<Rightarrow> string option \<times> coreRuntime" where
  "stopTUN env r0 =
     (let r = setTUNStartState False None r0 in
      case co_tun r of
        None \<Rightarrow> (Some ''external mihomo manager is not initialized'', r)
      | Some m \<Rightarrow>
          let (err, m') = StopM (ce_tun env) m;
              r1 = (if readPID m \<noteq> 0 then appendLog env ''[mihomo] external TUN stopped'' r else r)\<lparr>co_tun := Some m'\<rparr>
          in case err of Some e \<Rightarrow> (Some e, r1) | None \<Rightarrow> (None, appendLog env ''[core] external mihomo tun stopped'' r1))"

definition getTUNStatus :: "coreEnv \<Rightarrow> coreRuntime \<Rightarrow> tunStatus \<times> coreRuntime" where
  "getTUNStatus env r =
     (let (status, r1) = (case co_tun r of
            Some m \<Rightarrow> (let (s, m') = StatusM (ce_tun env) m in (s, r\<lparr>co_tun := Some m'\<rparr>))
          | None \<Rightarrow> (\<lparr>ts_Supported = False, ts_Enabled = False, ts_Running = False, ts_Driver = '''',
                       ts_Message = ''External Mihomo TUN is not initialized''\<rparr>, r));
          startErr = TrimSpace (co_tunErr r)
      in (if ts_Running status then status\<lparr>ts_Enabled := True\<rparr>
          else if co_tunStarting r then
            (if TrimSpace (ts_Message status) = '''' \<or> Contains (ToLower (ts_Message status)) ''selected'' \<or>
                Contains (ToLower (ts_Message status)) ''not running''
             then status\<lparr>ts_Enabled := False, ts_Message := ''TUN startup in progress''\<rparr> else status\<lparr>ts_Enabled := False\<rparr>)
          else if startErr \<noteq> '''' then status\<lparr>ts_Enabled := False, ts_Message := startErr\<rparr>
          else status\<lparr>ts_Enabled := False\<rparr>, r1))"

section \<open>Set-up, reload and shutdown\<close>

definition SetRuleManager :: "string list \<Rightarrow> ruleManager \<Rightarrow> proxyServer \<Rightarrow> proxyServer" where
  "SetRuleManager ord rm p = UpdateCloudflareIPPool ord (cf_PreferredIPs (rm_cloudflareConfig rm)) p"

text \<open>What \<open>start\<close> and \<open>reloadConfig\<close> hand to the proxy server: the rules, the Cloudflare addresses (a second time), the
  certificate manager and the SOCKS5 switch.\<close>

definition applyConfig :: "coreEnv \<Rightarrow> coreRuntime \<Rightarrow> coreRuntime" where
  "applyConfig env r =
     (let rm = co_rules r; ips = cf_PreferredIPs (rm_cloudflareConfig rm);
          p = SetSocks5EnabledPS (rm_socks5Enabled rm)
                (UpdateCloudflareIPPool (ce_ord env) ips (SetRuleManager (ce_ord env) rm (co_proxy r)))
      in r\<lparr>co_proxy := p, co_certGen := co_cert r, co_rules := InitAutoRouter (ce_now env) rm\<rparr>)"

definition startRuntime :: "coreEnv \<Rightarrow> coreRuntime \<Rightarrow> coreRuntime" where
  "startRuntime env r =
     (let (cm, d) = InitCertManager (ce_lib env) (ce_now env) (co_execDir r @ ''/cert'') (co_disk r);
          r1 = (case cm of
                  Inl e \<Rightarrow> appendLog env (''[core] Failed to init cert manager: '' @ e) (r\<lparr>co_cert := None, co_disk := d\<rparr>)
                | Inr m \<Rightarrow> r\<lparr>co_cert := Some m, co_disk := d\<rparr>)
      in appendLog env ''[core] runtime ready'' ((applyConfig env r1)\<lparr>co_capture := True\<rparr>))"

definition portOr :: "string \<Rightarrow> string \<Rightarrow> string" where
  "portOr dflt port = (if port = '''' then dflt else port)"

definition newCoreRuntimeForDir :: "coreEnv \<Rightarrow> string \<Rightarrow> mihomo \<Rightarrow> disk \<Rightarrow> ruleManager \<Rightarrow> string + coreRuntime" where
  "newCoreRuntimeForDir env execDir tun d rm0 =
     (case LoadConfig (ce_ioSettings env) (ce_ioRules env) (ce_ioLoad env) rm0 of
        (Some e, _) \<Rightarrow> Inl e
      | (None, rm) \<Rightarrow>
          let p = SetSocks5Addr (''127.0.0.1:'' @ portOr ''8081'' (rm_socks5Port rm))
                    (NewProxyServer (''127.0.0.1:'' @ portOr ''8080'' (rm_listenPort rm)))
          in Inr (startRuntime env \<lparr>co_execDir = execDir, co_rules = rm, co_proxy = p, co_certGen = None, co_leafs = Map.empty,
               co_tun = Some tun, co_cert = None, co_disk = d, co_log = newRingLogWriter 5000, co_capture = False,
               co_tunStarting = False, co_tunErr = '''', co_events = [], co_signalled = False\<rparr>))"

definition shutdown :: "coreEnv \<Rightarrow> coreRuntime \<Rightarrow> coreRuntime option" where
  "shutdown env r =
     (let r1 = r\<lparr>co_tun := map_option (\<lambda>m. snd (StopM (ce_tun env) m)) (co_tun r)\<rparr> in
      map_option (\<lambda>p. appendLog env ''[core] runtime stopped'' (r1\<lparr>co_proxy := p\<rparr>)) (StopPS (ce_tracked env) (co_proxy r1)))"

definition restartTUN :: "coreEnv \<Rightarrow> coreRuntime \<Rightarrow> coreRuntime" where
  "restartTUN env r =
     (case co_tun r of
        None \<Rightarrow> r
      | Some m \<Rightarrow>
          if snd (fst (statusMessage m)) \<le> 0 then r\<lparr>co_tun := Some (snd (statusMessage m))\<rparr>
          else
            let r1 = appendLog env ''[mihomo] reloading external TUN config'' r;
                (err, m') = RestartIfRunning (ce_tun env) (currentListenPort r) m;
                r2 = r1\<lparr>co_tun := Some m'\<rparr>
            in if err = None then appendLog env ''[mihomo] external TUN started'' r2 else r2)"

definition reloadConfig :: "coreEnv \<Rightarrow> coreRuntime \<Rightarrow> string option \<times> coreRuntime" where
  "reloadConfig env r =
     (case LoadConfig (ce_ioSettings env) (ce_ioRules env) (ce_ioLoad env) (co_rules r) of
        (Some e, rm) \<Rightarrow> (Some e, r\<lparr>co_rules := rm\<rparr>)
      | (None, rm) \<Rightarrow>
          (case SetListenAddr (''127.0.0.1:'' @ portOr ''8080'' (rm_listenPort rm)) (co_proxy r) of
             (Some e, _) \<Rightarrow> (Some e, r\<lparr>co_rules := rm\<rparr>)
           | (None, p) \<Rightarrow>
               (None, appendLog env ''[core] config reloaded'' (restartTUN env (applyConfig env (r\<lparr>co_rules := rm, co_proxy := p\<rparr>))))))"

definition reloadCertificate :: "coreEnv \<Rightarrow> coreRuntime \<Rightarrow> string option \<times> coreRuntime" where
  "reloadCertificate env r =
     (case InitCertManager (ce_lib env) (ce_now env) (co_execDir r @ ''/cert'') (co_disk r) of
        (Inl e, d) \<Rightarrow> (Some e, r\<lparr>co_disk := d\<rparr>)
      | (Inr cm, d) \<Rightarrow>
          (None, appendLog env ''[core] certificate reloaded''
             (r\<lparr>co_cert := Some cm, co_certGen := Some cm, co_leafs := ClearCertCache (co_leafs r), co_disk := d\<rparr>)))"

definition errorsJoin :: "string option list \<Rightarrow> string option" where
  "errorsJoin errs =
     (let filtered = map the (filter (\<lambda>e. e \<noteq> None) errs) in
      if filtered = [] then None else if length filtered = 1 then Some (hd filtered) else Some (Join filtered ''; ''))"

end
