(* ===== verification/Web_Api.thy ===== *)
theory Web_Api
  imports Core_Runtime Doh Config_Import
begin

text \<open>
  The HTTP interface of the dashboard, \<open>src/web.go\<close>, and the commands of \<open>src/cli.go\<close> that change files. A handler
  gets the method, the decoded body (\<open>Inl\<close>: the decoder's error) and the query parameters, and returns the
  response with the new runtime. The value \<open>None\<close> is a panic, or a DNS query that never returns.
  JSON is not modelled: a response carries the value that is encoded.
\<close>

record statusView =
  sv_version :: string
  sv_proxyRunning :: bool
  sv_listenAddr :: string
  sv_proxyMode :: string
  sv_tun :: tunStatus
  sv_certInstalled :: bool
  sv_socks5Enabled :: bool

record configView =
  cw_listenPort :: string
  cw_socks5Port :: string
  cw_socks5Enabled :: bool
  cw_proxyMode :: string
  cw_tun :: tunConfig
  cw_autoRouting :: autoRoutingConfig
  cw_cloudflare :: cloudflareConfig
  cw_serverHost :: string
  cw_serverAuth :: string
  cw_language :: string
  cw_theme :: string

datatype apiData =
    DStatus statusView
  | DBytes "64 word" "64 word"
  | DConfig configView
  | DCertStatus caInstallStatus
  | DPEM bytes
  | DSiteGroups "siteGroup list"
  | DUpstreams "upstream list"
  | DNodes "dnsNode list"
  | DProfiles "echProfile list"
  | DTUN tunStatus
  | DDiagnostics string bool
  | DMessage string
  | DFlag bool
  | DHits
  | DLogs string
  | DEvents "routeEvent list"
  | DRouting autoRoutingConfig
  | DCount nat
  | DRoutingStatus gfwListStatus
  | DServer string string
  | DIPs "string list"
  | DECHConfig bytes
  | DCloudflare cloudflareConfig
  | DPoolStats "ipStats list"
  | DExport exportDoc
  | DImport importSummary

datatype apiResp = JsonError nat string | JsonStatus string | JsonData apiData

text \<open>\<open>we_probe\<close>, \<open>we_install\<close> and \<open>we_installed\<close> stand for the system's certificate store, whose code is not in the
  repository; \<open>we_stats\<close> are the traffic counters; \<open>we_fetch\<close>, \<open>we_gfwOrd\<close> and \<open>we_gfwStamp\<close> are the arguments of a GFW list refresh.\<close>

record webEnv =
  we_core :: coreEnv
  we_probe :: caInstallStatus
  we_install :: "certManager \<Rightarrow> string option"
  we_installed :: "string + string list"
  we_newID :: "nat \<Rightarrow> string"
  we_cfGet :: "string \<Rightarrow> cfApiOutcome"
  we_doh :: dohEnv
  we_depth :: nat
  we_fetch :: http_fetch
  we_gfwOrd :: "string list"
  we_gfwStamp :: string
  we_stats :: "64 word \<times> 64 word"

type_synonym apiResult = "apiResp \<times> coreRuntime"

section \<open>Helpers\<close>

definition methodNotAllowed :: "coreRuntime \<Rightarrow> apiResult" where
  "methodNotAllowed r = (JsonError 405 ''Method not allowed'', r)"

definition decoded :: "string + 'b \<Rightarrow> ('b \<Rightarrow> apiResult) \<Rightarrow> coreRuntime \<Rightarrow> apiResult" where
  "decoded body k r = (case body of Inl e \<Rightarrow> (JsonError 400 (''invalid JSON: '' @ e), r) | Inr x \<Rightarrow> k x)"

text \<open>The reply to an operation of the rule manager.\<close>

definition rmReply :: "string \<Rightarrow> coreRuntime \<Rightarrow> rmResult \<Rightarrow> apiResult" where
  "rmReply status r res =
     ((case fst res of Some e \<Rightarrow> JsonError 500 e | None \<Rightarrow> JsonStatus status), r\<lparr>co_rules := snd res\<rparr>)"

definition errReply :: "string \<Rightarrow> string option \<times> coreRuntime \<Rightarrow> apiResult" where
  "errReply status res = ((case fst res of Some e \<Rightarrow> JsonError 500 e | None \<Rightarrow> JsonStatus status), snd res)"

text \<open>A new certificate manager for the request; loading it may create the CA.\<close>

definition withCert :: "webEnv \<Rightarrow> coreRuntime \<Rightarrow> (certManager \<Rightarrow> coreRuntime \<Rightarrow> apiResult) \<Rightarrow> apiResult" where
  "withCert env r k =
     (case InitCertManager (ce_lib (we_core env)) (ce_now (we_core env)) (co_execDir r @ ''/cert'') (co_disk r) of
        (Inl e, d) \<Rightarrow> (JsonError 500 e, r\<lparr>co_disk := d\<rparr>)
      | (Inr cm, d) \<Rightarrow> k cm (r\<lparr>co_disk := d\<rparr>))"

section \<open>Status, proxy and settings\<close>

definition handleStatus :: "webEnv \<Rightarrow> coreRuntime \<Rightarrow> apiResult" where
  "handleStatus env r =
     (let (tun, r1) = getTUNStatus (we_core env) r;
          (cm, d) = InitCertManager (ce_lib (we_core env)) (ce_now (we_core env)) (co_execDir r @ ''/cert'') (co_disk r1);
          installed = (case cm of Inl _ \<Rightarrow> False | Inr m \<Rightarrow> fst (IsCAInstalled (we_probe env) (ce_now (we_core env)) m))
      in (JsonData (DStatus \<lparr>sv_version = ''1.0.0'', sv_proxyRunning = IsRunning (co_proxy r), sv_listenAddr = ps_listenAddr (co_proxy r),
            sv_proxyMode = GetMode (co_proxy r), sv_tun = tun, sv_certInstalled = installed, sv_socks5Enabled = ps_socks5Enabled (co_proxy r)\<rparr>),
          r1\<lparr>co_disk := d\<rparr>))"

definition handleProxyStart :: "webEnv \<Rightarrow> string \<Rightarrow> coreRuntime \<Rightarrow> apiResult option" where
  "handleProxyStart env meth r =
     (if meth \<noteq> ''POST'' then Some (methodNotAllowed r)
      else map_option (errReply ''started'') (startProxy (we_core env) r))"

definition handleProxyStop :: "webEnv \<Rightarrow> string \<Rightarrow> coreRuntime \<Rightarrow> apiResult option" where
  "handleProxyStop env meth r =
     (if meth \<noteq> ''POST'' then Some (methodNotAllowed r)
      else map_option (errReply ''stopped'') (stopProxy (we_core env) r))"

definition handleProxyStats :: "webEnv \<Rightarrow> coreRuntime \<Rightarrow> apiResult" where
  "handleProxyStats env r = (JsonData (DBytes (fst (we_stats env)) (snd (we_stats env))), r)"

record configPatch =
  pa_ListenPort :: "string option"
  pa_Socks5Port :: "string option"
  pa_Socks5Enabled :: "bool option"
  pa_ProxyMode :: "string option"
  pa_Language :: "string option"
  pa_Theme :: "string option"

definition optionally :: "'a option \<Rightarrow> ('a \<Rightarrow> 's \<Rightarrow> 's) \<Rightarrow> 's \<Rightarrow> 's" where
  "optionally x f s = (case x of None \<Rightarrow> s | Some v \<Rightarrow> f v s)"

definition patchRules :: "coreEnv \<Rightarrow> configPatch \<Rightarrow> ruleManager \<Rightarrow> ruleManager" where
  "patchRules env pa rm =
     (let rm1 = optionally (pa_Socks5Enabled pa) SetSocks5Enabled
            (optionally (pa_Socks5Port pa) SetSocks5Port (optionally (pa_ListenPort pa) SetListenPort rm));
          rm2 = optionally (pa_Theme pa) (\<lambda>t m. snd (SetTheme (ce_ioSettings env) t m))
            (optionally (pa_Language pa) (\<lambda>l m. snd (SetLanguage (ce_ioSettings env) l m)) rm1)
      in snd (SaveConfig (ce_ioSettings env) (ce_ioRules env) rm2))"

definition patchProxy :: "configPatch \<Rightarrow> proxyServer \<Rightarrow> proxyServer" where
  "patchProxy pa p =
     optionally (pa_ProxyMode pa) (\<lambda>m q. snd (SetMode m q)) (optionally (pa_Socks5Enabled pa) SetSocks5EnabledPS p)"

definition handleConfig :: "webEnv \<Rightarrow> string \<Rightarrow> string + configPatch \<Rightarrow> coreRuntime \<Rightarrow> apiResult" where
  "handleConfig env meth body r =
     (if meth = ''GET'' then
        (let rm = co_rules r in
         (JsonData (DConfig \<lparr>cw_listenPort = currentListenPort r, cw_socks5Port = rm_socks5Port rm, cw_socks5Enabled = rm_socks5Enabled rm,
            cw_proxyMode = GetMode (co_proxy r), cw_tun = GetTUNConfig rm, cw_autoRouting = rm_autoRoutingConfig rm,
            cw_cloudflare = rm_cloudflareConfig rm, cw_serverHost = rm_serverHost rm, cw_serverAuth = rm_serverAuth rm,
            cw_language = rm_language rm, cw_theme = GetTheme rm\<rparr>), r))
      else if meth = ''POST'' then
        decoded body (\<lambda>pa. (JsonStatus ''saved'',
          r\<lparr>co_rules := patchRules (we_core env) pa (co_rules r), co_proxy := patchProxy pa (co_proxy r)\<rparr>)) r
      else methodNotAllowed r)"

section \<open>Certificates\<close>

definition handleCertStatus :: "webEnv \<Rightarrow> coreRuntime \<Rightarrow> apiResult" where
  "handleCertStatus env r =
     withCert env r (\<lambda>cm r1. (JsonData (DCertStatus (fst (GetCAInstallStatus (we_probe env) (ce_now (we_core env)) cm))), r1))"

definition handleCertInstall :: "webEnv \<Rightarrow> string \<Rightarrow> coreRuntime \<Rightarrow> apiResult" where
  "handleCertInstall env meth r =
     (if meth \<noteq> ''POST'' then methodNotAllowed r
      else withCert env r (\<lambda>cm r1. errReply ''installed'' (we_install env cm, r1)))"

definition handleCertUninstall :: "webEnv \<Rightarrow> string \<Rightarrow> coreRuntime \<Rightarrow> apiResult" where
  "handleCertUninstall env meth r =
     (if meth \<noteq> ''POST'' then methodNotAllowed r
      else withCert env r (\<lambda>cm r1.
        case we_installed env of Inl e \<Rightarrow> (JsonError 500 e, r1) | Inr _ \<Rightarrow> (JsonStatus ''uninstalled'', r1)))"

definition handleCertRegenerate :: "webEnv \<Rightarrow> string \<Rightarrow> coreRuntime \<Rightarrow> apiResult" where
  "handleCertRegenerate env meth r =
     (if meth \<noteq> ''POST'' then methodNotAllowed r
      else withCert env r (\<lambda>cm r1.
        let (err, _, _, d) = RegenerateCA (ce_lib (we_core env)) (ce_now (we_core env))
              (case we_installed env of Inl _ \<Rightarrow> None | Inr ts \<Rightarrow> Some ts) (we_install env) cm (co_disk r1)
        in errReply ''regenerated'' (err, r1\<lparr>co_disk := d\<rparr>)))"

definition handleCertExport :: "webEnv \<Rightarrow> coreRuntime \<Rightarrow> apiResult" where
  "handleCertExport env r = withCert env r (\<lambda>cm r1. (JsonData (DPEM (GetCACertPEM (ce_lib (we_core env)) cm)), r1))"

section \<open>Lists of the rule manager\<close>

text \<open>The four list handlers have the same shape; \<open>add\<close>, \<open>upd\<close> and \<open>del\<close> are operations of the rule manager.\<close>

definition listHandler ::
    "apiData \<Rightarrow> (string \<times> ('b \<Rightarrow> ruleManager \<Rightarrow> rmResult)) \<Rightarrow> ('b \<Rightarrow> ruleManager \<Rightarrow> rmResult) option
       \<Rightarrow> (string \<Rightarrow> ruleManager \<Rightarrow> rmResult) \<Rightarrow> string \<Rightarrow> string + 'b \<Rightarrow> string \<Rightarrow> coreRuntime \<Rightarrow> apiResult" where
  "listHandler shown add upd del meth body i r =
     (if meth = ''GET'' then (JsonData shown, r)
      else if meth = ''POST'' then decoded body (\<lambda>x. rmReply (fst add) r (snd add x (co_rules r))) r
      else if meth = ''PUT'' \<and> upd \<noteq> None then decoded body (\<lambda>x. rmReply ''updated'' r (the upd x (co_rules r))) r
      else if meth = ''DELETE'' then
        (if i = '''' then (JsonError 400 ''missing id'', r) else rmReply ''deleted'' r (del i (co_rules r)))
      else methodNotAllowed r)"

definition handleRules :: "webEnv \<Rightarrow> string \<Rightarrow> string + siteGroup \<Rightarrow> string \<Rightarrow> coreRuntime \<Rightarrow> apiResult" where
  "handleRules env meth body i r =
     (let io = ce_ioRules (we_core env) in
      listHandler (DSiteGroups (rm_siteGroups (co_rules r))) (''added'', AddSiteGroup io (we_newID env 0))
        (Some (UpdateSiteGroup io)) (DeleteSiteGroup io) meth body i r)"

definition handleUpstreams :: "webEnv \<Rightarrow> string \<Rightarrow> string + upstream \<Rightarrow> string \<Rightarrow> coreRuntime \<Rightarrow> apiResult" where
  "handleUpstreams env meth body i r =
     (let io = ce_ioRules (we_core env) in
      listHandler (DUpstreams (rm_upstreams (co_rules r))) (''added'', AddUpstream io (we_newID env 0))
        (Some (UpdateUpstream io)) (DeleteUpstream io) meth body i r)"

definition handleDNSNodes :: "webEnv \<Rightarrow> string \<Rightarrow> string + dnsNode \<Rightarrow> string \<Rightarrow> coreRuntime \<Rightarrow> apiResult" where
  "handleDNSNodes env meth body i r =
     (let io = ce_ioRules (we_core env) in
      listHandler (DNodes (GetDNSNodes (co_rules r))) (''added'', AddDNSNode io (we_newID env 0))
        (Some (UpdateDNSNode io)) (DeleteDNSNode io) meth body i r)"

definition handleECHProfiles :: "webEnv \<Rightarrow> string \<Rightarrow> string + echProfile \<Rightarrow> string \<Rightarrow> coreRuntime \<Rightarrow> apiResult" where
  "handleECHProfiles env meth body i r =
     (let io = ce_ioRules (we_core env) in
      listHandler (DProfiles (rm_echProfiles (co_rules r))) (''saved'', UpsertECHProfile io (we_newID env 0))
        None (DeleteECHProfile io) meth body i r)"

definition handleDNSPriority :: "webEnv \<Rightarrow> string \<Rightarrow> string + string \<times> int \<Rightarrow> coreRuntime \<Rightarrow> apiResult" where
  "handleDNSPriority env meth body r =
     (if meth \<noteq> ''POST'' then methodNotAllowed r
      else decoded body (\<lambda>(i, t). rmReply ''updated'' r (SetDNSNodePriority (ce_ioRules (we_core env)) i t (co_rules r))) r)"

section \<open>TUN, diagnostics and logs\<close>

definition handleTUNStatus :: "webEnv \<Rightarrow> coreRuntime \<Rightarrow> apiResult" where
  "handleTUNStatus env r = (let (s, r1) = getTUNStatus (we_core env) r in (JsonData (DTUN s), r1))"

definition handleTUNStart :: "webEnv \<Rightarrow> string \<Rightarrow> coreRuntime \<Rightarrow> apiResult option" where
  "handleTUNStart env meth r =
     (if meth \<noteq> ''POST'' then Some (methodNotAllowed r)
      else map_option (errReply ''started'') (startTUN (we_core env) r))"

definition handleTUNStop :: "webEnv \<Rightarrow> string \<Rightarrow> coreRuntime \<Rightarrow> apiResult" where
  "handleTUNStop env meth r =
     (if meth \<noteq> ''POST'' then methodNotAllowed r else errReply ''stopped'' (stopTUN (we_core env) r))"

definition handleProxyDiagnostics :: "coreRuntime \<Rightarrow> apiResult" where
  "handleProxyDiagnostics r = (JsonData (DDiagnostics (ps_listenAddr (co_proxy r)) (IsRunning (co_proxy r))), r)"

definition handleProxySelfCheck :: "string \<Rightarrow> coreRuntime \<Rightarrow> apiResult" where
  "handleProxySelfCheck meth r =
     (if meth \<noteq> ''POST'' then methodNotAllowed r
      else if \<not> IsRunning (co_proxy r) then (JsonError 400 ''proxy not running'', r)
      else (JsonData (DMessage (''proxy is running on '' @ ps_listenAddr (co_proxy r))), r))"

definition handleLogCapture :: "webEnv \<Rightarrow> string \<Rightarrow> string + bool \<Rightarrow> coreRuntime \<Rightarrow> apiResult" where
  "handleLogCapture env meth body r =
     (if meth = ''GET'' then (JsonData (DFlag (co_capture r)), r)
      else if meth = ''POST'' then
        decoded body (\<lambda>enabled. (JsonStatus ''updated'',
          if enabled then startLogCapture (we_core env) r else stopLogCapture (we_core env) r)) r
      else methodNotAllowed r)"

definition handleRuleHits :: "coreRuntime \<Rightarrow> apiResult" where
  "handleRuleHits r = (JsonData DHits, r)"

definition handleLogs :: "string \<Rightarrow> coreRuntime \<Rightarrow> apiResult" where
  "handleLogs l r =
     (let limit = (case Atoi l of Some n \<Rightarrow> if l \<noteq> '''' \<and> 0 < n then n else 200 | None \<Rightarrow> 200)
      in (JsonData (DLogs (recentLogs limit r)), r))"

definition handleLogsClear :: "webEnv \<Rightarrow> string \<Rightarrow> coreRuntime \<Rightarrow> apiResult" where
  "handleLogsClear env meth r =
     (if meth \<noteq> ''POST'' then methodNotAllowed r else (JsonStatus ''cleared'', clearLogs (we_core env) r))"

definition handleRouteEvents :: "coreRuntime \<Rightarrow> apiResult" where
  "handleRouteEvents r = (let (es, rest) = popRouteEvents (co_events r) in (JsonData (DEvents es), r\<lparr>co_events := rest\<rparr>))"

section \<open>Routing, server, DNS and Cloudflare\<close>

definition handleRoutingConfig :: "webEnv \<Rightarrow> string \<Rightarrow> string + autoRoutingConfig \<Rightarrow> coreRuntime \<Rightarrow> apiResult" where
  "handleRoutingConfig env meth body r =
     (if meth = ''GET'' then (JsonData (DRouting (rm_autoRoutingConfig (co_rules r))), r)
      else if meth = ''POST'' then
        decoded body (\<lambda>cfg. rmReply ''saved'' r (UpdateAutoRoutingConfig (ce_ioSettings (we_core env)) cfg (co_rules r))) r
      else methodNotAllowed r)"

definition handleGFWListRefresh :: "webEnv \<Rightarrow> string \<Rightarrow> coreRuntime \<Rightarrow> apiResult" where
  "handleGFWListRefresh env meth r =
     (if meth \<noteq> ''POST'' then methodNotAllowed r
      else case RefreshGFWList (we_fetch env) (we_gfwOrd env) (ce_now (we_core env)) (we_gfwStamp env) (ce_ioRules (we_core env))
                  (ce_ioSettings (we_core env)) (co_rules r) of
             (Inl e, rm) \<Rightarrow> (JsonError 500 e, r\<lparr>co_rules := rm\<rparr>)
           | (Inr n, rm) \<Rightarrow> (JsonData (DCount n), r\<lparr>co_rules := rm\<rparr>))"

definition handleRoutingStatus :: "coreRuntime \<Rightarrow> apiResult" where
  "handleRoutingStatus r = (JsonData (DRoutingStatus (GetAutoRoutingStatus (co_rules r))), r)"

definition handleServerConfig :: "webEnv \<Rightarrow> string \<Rightarrow> string + string \<times> string \<Rightarrow> coreRuntime \<Rightarrow> apiResult" where
  "handleServerConfig env meth body r =
     (if meth = ''GET'' then (JsonData (DServer (rm_serverHost (co_rules r)) (rm_serverAuth (co_rules r))), r)
      else if meth = ''POST'' then
        decoded body (\<lambda>(host, auth). rmReply ''saved'' r (UpdateServerConfig (ce_ioSettings (we_core env)) host auth (co_rules r))) r
      else methodNotAllowed r)"

definition getDNSNodeByID :: "ruleManager \<Rightarrow> string \<Rightarrow> dnsNode option" where
  "getDNSNodeByID rm i = find (\<lambda>n. dn_ID n = i) (GetDNSNodes rm)"

definition dohStateOf :: "coreRuntime \<Rightarrow> dohState" where
  "dohStateOf r = \<lparr>ds_rules = co_rules r, ds_dials = []\<rparr>"

text \<open>The reply to a query of the resolver, which may have renewed ECH configurations of the rule manager.\<close>

definition dohReply :: "('a \<Rightarrow> apiData) \<Rightarrow> coreRuntime \<Rightarrow> (string + 'a) \<times> dohState \<Rightarrow> apiResult" where
  "dohReply shown r res =
     ((case fst res of Inl e \<Rightarrow> JsonError 500 e | Inr x \<Rightarrow> JsonData (shown x)), r\<lparr>co_rules := ds_rules (snd res)\<rparr>)"

definition handleDNSTest :: "webEnv \<Rightarrow> string \<Rightarrow> string + string \<Rightarrow> coreRuntime \<Rightarrow> apiResult option" where
  "handleDNSTest env meth body r =
     (if meth \<noteq> ''POST'' then Some (methodNotAllowed r)
      else case body of
        Inl e \<Rightarrow> Some (JsonError 400 (''invalid JSON: '' @ e), r)
      | Inr i \<Rightarrow>
          (case getDNSNodeByID (co_rules r) i of
             None \<Rightarrow> Some (JsonError 404 ''DNS node not found'', r)
           | Some node \<Rightarrow>
               map_option (dohReply DIPs r) (TestNode (exchange (we_depth env) (we_doh env)) (we_doh env) node (dohStateOf r))))"

definition handleECHFetch :: "webEnv \<Rightarrow> string \<Rightarrow> string + string \<times> string \<Rightarrow> coreRuntime \<Rightarrow> apiResult option" where
  "handleECHFetch env meth body r =
     (if meth \<noteq> ''POST'' then Some (methodNotAllowed r)
      else case body of
        Inl e \<Rightarrow> Some (JsonError 400 (''invalid JSON: '' @ e), r)
      | Inr (domain, dohURL) \<Rightarrow>
          map_option (\<lambda>(res, st). dohReply DECHConfig r (FetchECH (Some (\<lambda>_. res)) domain, st))
            (ResolveECH (exchange (we_depth env) (we_doh env)) domain (dohStateOf r)))"

definition handleCFConfig :: "webEnv \<Rightarrow> string \<Rightarrow> string + cloudflareConfig \<Rightarrow> coreRuntime \<Rightarrow> apiResult" where
  "handleCFConfig env meth body r =
     (if meth = ''GET'' then (JsonData (DCloudflare (rm_cloudflareConfig (co_rules r))), r)
      else if meth = ''POST'' then
        decoded body (\<lambda>cfg. rmReply ''saved'' r (UpdateCloudflareConfig (ce_ioSettings (we_core env)) cfg (co_rules r))) r
      else methodNotAllowed r)"

definition handleCFFetch :: "webEnv \<Rightarrow> string \<Rightarrow> coreRuntime \<Rightarrow> apiResult" where
  "handleCFFetch env meth r =
     (if meth \<noteq> ''POST'' then methodNotAllowed r
      else case FetchCloudflareIPs (we_cfGet env) '''' of
             Inl e \<Rightarrow> (JsonError 500 e, r)
           | Inr ips \<Rightarrow> (JsonData (DIPs ips),
               r\<lparr>co_rules := snd (UpdateCloudflareConfig (ce_ioSettings (we_core env))
                      \<lparr>cf_PreferredIPs = ips, cf_AutoUpdate = True, cf_APIKey = ''''\<rparr> (co_rules r)),
                 co_proxy := UpdateCloudflareIPPool (ce_ord (we_core env)) ips (co_proxy r)\<rparr>))"

definition handleCFHealthCheck :: "string \<Rightarrow> coreRuntime \<Rightarrow> apiResult" where
  "handleCFHealthCheck meth r =
     (if meth \<noteq> ''POST'' then methodNotAllowed r
      else (JsonStatus ''triggered'', r\<lparr>co_proxy := (co_proxy r)\<lparr>ps_cfPool := TriggerHealthCheck (ps_cfPool (co_proxy r))\<rparr>\<rparr>))"

definition handleCFStats :: "webEnv \<Rightarrow> coreRuntime \<Rightarrow> apiResult" where
  "handleCFStats env r = (JsonData (DPoolStats (GetAllIPsWithStats (ce_ord (we_core env)) (ps_cfPool (co_proxy r)))), r)"

definition handleConfigExport :: "string \<Rightarrow> coreRuntime \<Rightarrow> apiResult" where
  "handleConfigExport meth r =
     (if meth \<noteq> ''POST'' then methodNotAllowed r else (JsonData (DExport (ExportConfig (co_rules r))), r))"

definition handleConfigImport :: "webEnv \<Rightarrow> string \<Rightarrow> string + importDoc \<Rightarrow> coreRuntime \<Rightarrow> apiResult" where
  "handleConfigImport env meth body r =
     (if meth \<noteq> ''POST'' then methodNotAllowed r
      else decoded body (\<lambda>doc.
        case ImportConfigWithSummary (ce_ioRules (we_core env)) (we_newID env) doc (co_rules r) of
          (Inl e, rm) \<Rightarrow> (JsonError 500 e, r\<lparr>co_rules := rm\<rparr>)
        | (Inr s, rm) \<Rightarrow> (JsonData (DImport s), r\<lparr>co_rules := rm\<rparr>)) r)"

section \<open>The routes\<close>

datatype apiCall =
    Status | ProxyStart | ProxyStop | ProxyStats | Config "string + configPatch"
  | CertStatus | CertInstall | CertUninstall | CertRegenerate | CertExport
  | Rules "string + siteGroup" string | Upstreams "string + upstream" string | DNSNodes "string + dnsNode" string
  | ECHProfiles "string + echProfile" string | DNSPriority "string + string \<times> int"
  | TUNStatus | TUNStart | TUNStop | ProxyDiagnostics | ProxySelfCheck
  | LogCapture "string + bool" | RuleHits | Logs string | LogsClear | RouteEvents
  | RoutingConfig "string + autoRoutingConfig" | GFWListRefresh | RoutingStatus | ServerConfig "string + string \<times> string"
  | DNSTest "string + string" | ECHFetch "string + string \<times> string"
  | CFConfig "string + cloudflareConfig" | CFFetch | CFHealthCheck | CFStats
  | ConfigExport | ConfigImport "string + importDoc"

fun serve :: "webEnv \<Rightarrow> string \<Rightarrow> apiCall \<Rightarrow> coreRuntime \<Rightarrow> apiResult option" where
  "serve env m Status r = Some (handleStatus env r)"
| "serve env m ProxyStart r = handleProxyStart env m r"
| "serve env m ProxyStop r = handleProxyStop env m r"
| "serve env m ProxyStats r = Some (handleProxyStats env r)"
| "serve env m (Config b) r = Some (handleConfig env m b r)"
| "serve env m CertStatus r = Some (handleCertStatus env r)"
| "serve env m CertInstall r = Some (handleCertInstall env m r)"
| "serve env m CertUninstall r = Some (handleCertUninstall env m r)"
| "serve env m CertRegenerate r = Some (handleCertRegenerate env m r)"
| "serve env m CertExport r = Some (handleCertExport env r)"
| "serve env m (Rules b i) r = Some (handleRules env m b i r)"
| "serve env m (Upstreams b i) r = Some (handleUpstreams env m b i r)"
| "serve env m (DNSNodes b i) r = Some (handleDNSNodes env m b i r)"
| "serve env m (ECHProfiles b i) r = Some (handleECHProfiles env m b i r)"
| "serve env m (DNSPriority b) r = Some (handleDNSPriority env m b r)"
| "serve env m TUNStatus r = Some (handleTUNStatus env r)"
| "serve env m TUNStart r = handleTUNStart env m r"
| "serve env m TUNStop r = Some (handleTUNStop env m r)"
| "serve env m ProxyDiagnostics r = Some (handleProxyDiagnostics r)"
| "serve env m ProxySelfCheck r = Some (handleProxySelfCheck m r)"
| "serve env m (LogCapture b) r = Some (handleLogCapture env m b r)"
| "serve env m RuleHits r = Some (handleRuleHits r)"
| "serve env m (Logs l) r = Some (handleLogs l r)"
| "serve env m LogsClear r = Some (handleLogsClear env m r)"
| "serve env m RouteEvents r = Some (handleRouteEvents r)"
| "serve env m (RoutingConfig b) r = Some (handleRoutingConfig env m b r)"
| "serve env m GFWListRefresh r = Some (handleGFWListRefresh env m r)"
| "serve env m RoutingStatus r = Some (handleRoutingStatus r)"
| "serve env m (ServerConfig b) r = Some (handleServerConfig env m b r)"
| "serve env m (DNSTest b) r = handleDNSTest env m b r"
| "serve env m (ECHFetch b) r = handleECHFetch env m b r"
| "serve env m (CFConfig b) r = Some (handleCFConfig env m b r)"
| "serve env m CFFetch r = Some (handleCFFetch env m r)"
| "serve env m CFHealthCheck r = Some (handleCFHealthCheck m r)"
| "serve env m CFStats r = Some (handleCFStats env r)"
| "serve env m ConfigExport r = Some (handleConfigExport m r)"
| "serve env m (ConfigImport b) r = Some (handleConfigImport env m b r)"

end
