(* ===== verification/Core_Runtime_Correct.thy ===== *)
theory Core_Runtime_Correct
  imports Core_Runtime Server_Lifecycle_Correct
begin

text \<open>
  Properties of the runtime: the listen port is what was set, a start leads to a running proxy on the
  port that was found, and what a start of a running proxy does.
\<close>

section \<open>Printing and reading numbers\<close>

lemma digitsValue_snoc: "digitsValue (s @ [c]) = 10 * digitsValue s + (of_char c - 48)"
  by (simp add: digitsValue_def)

lemma of_char_digit: "k < 10 \<Longrightarrow> (of_char (char_of (48 + k) :: char) :: nat) = 48 + k"
  by simp

lemma digitsValue_Itoa [simp]: "digitsValue (Itoa n) = n"
proof (induction n rule: Itoa.induct)
  case (1 n)
  show ?case
  proof (cases "n < 10")
    case True
    then show ?thesis by (subst Itoa.simps) (simp add: digitsValue_def)
  next
    case False
    then show ?thesis using 1 by (subst Itoa.simps) (simp add: digitsValue_snoc)
  qed
qed

lemma Itoa_digits: "c \<in> set (Itoa n) \<Longrightarrow> 48 \<le> (of_char c :: nat) \<and> (of_char c :: nat) \<le> 57"
proof (induction n arbitrary: c rule: Itoa.induct)
  case (1 n)
  show ?case
  proof (cases "n < 10")
    case True
    then show ?thesis using 1(2) by (subst (asm) Itoa.simps) simp
  next
    case False
    then show ?thesis using 1 by (subst (asm) (2) Itoa.simps) (auto simp: of_char_digit)
  qed
qed

lemma Itoa_neq_Nil [simp]: "Itoa n \<noteq> []"
  by (subst Itoa.simps) simp

lemma Itoa_hd: "hd (Itoa n) \<noteq> CHR ''-''" "hd (Itoa n) \<noteq> CHR ''+''" "hd (Itoa n) \<noteq> CHR '' ''"
  using Itoa_digits [of "hd (Itoa n)" n] by (auto simp: hd_in_set)

lemma Atoi_Itoa: "n < 2 ^ 63 \<Longrightarrow> Atoi (Itoa n) = Some (int n)"
  using Itoa_hd [of n] Itoa_digits [of _ n]
  by (auto simp: Atoi_def Let_def list_ex_iff not_less)

lemma takeWhile_all: "(\<And>c. c \<in> set s \<Longrightarrow> P c) \<Longrightarrow> takeWhile P s = s"
  by (simp add: takeWhile_eq_all_conv)

lemma scanPort_Itoa:
  assumes "n < 2 ^ 63"
  shows "scanPort (''127.0.0.1:'' @ Itoa n) = int n"
proof -
  obtain c cs where c: "Itoa n = c # cs" by (cases "Itoa n") simp_all
  have d: "takeWhile (\<lambda>c. 48 \<le> (of_char c :: nat) \<and> (of_char c :: nat) \<le> 57) cs = cs"
    using Itoa_digits [of _ n] unfolding c by (intro takeWhile_all) simp
  have h: "c \<noteq> CHR '' ''" "c \<noteq> CHR ''-''" "c \<noteq> CHR ''+''" "48 \<le> (of_char c :: nat)" "(of_char c :: nat) \<le> 57"
    using Itoa_hd [of n] Itoa_digits [of c n] by (simp_all add: c)
  show ?thesis using Atoi_Itoa [OF assms] by (simp add: scanPort_def HasPrefix_def c d h)
qed

section \<open>The listen port\<close>

lemma Itoa_not: "of_char c < (48 :: nat) \<or> 57 < (of_char c :: nat) \<Longrightarrow> c \<notin> set (Itoa n)"
  using Itoa_digits [of c n] by auto

lemma SplitHostPort_local: "SplitHostPort (''127.0.0.1:'' @ Itoa n) = Some (''127.0.0.1'', Itoa n)"
  using SplitHostPort_JoinHostPort [of "''127.0.0.1''" "Itoa n"] by (simp add: JoinHostPort_def Itoa_not)

lemma space_not_digit: "is_space c \<Longrightarrow> of_char c < (48 :: nat)"
  by (auto simp: is_space_def)

lemma TrimSpace_Itoa [simp]: "TrimSpace (Itoa n) = Itoa n"
  unfolding TrimSpace_def using Itoa_digits [of _ n] space_not_digit by (intro trim_where_id) fastforce

lemma TrimSpace_local: "TrimSpace (''127.0.0.1:'' @ Itoa n) = ''127.0.0.1:'' @ Itoa n"
proof -
  have "\<not> is_space c" if "c \<in> set (''127.0.0.1:'' @ Itoa n)" for c
    using that Itoa_digits [of c n] space_not_digit [of c] by (auto simp: is_space_def)
  then show ?thesis unfolding TrimSpace_def by (rule trim_where_id)
qed

text \<open>What a successful \<open>setListenPort\<close> leaves behind.\<close>

definition listensOn :: "int \<Rightarrow> coreRuntime \<Rightarrow> bool" where
  "listensOn port r \<longleftrightarrow> ps_listenAddr (co_proxy r) = ''127.0.0.1:'' @ ItoaInt port \<and> getListenPort r = port \<and>
     currentListenPort r = ItoaInt port \<and> rm_listenPort (co_rules r) = ItoaInt port"

lemma listensOnI:
  assumes "ps_listenAddr (co_proxy r) = ''127.0.0.1:'' @ ItoaInt port" "rm_listenPort (co_rules r) = ItoaInt port" "1 \<le> port" "port \<le> 65535"
  shows "listensOn port r"
proof -
  obtain n where n: "port = int n" "n < 2 ^ 63"
    using assms(3,4) by (intro that [of "nat port"]) simp_all
  show ?thesis using assms(1,2) scanPort_Itoa [OF n(2)] TrimSpace_local [of n] SplitHostPort_local [of n]
    by (simp add: listensOn_def getListenPort_def currentListenPort_def n(1) ItoaInt_def Let_def)
qed

lemma setListenPort_ok:
  assumes "setListenPort env port r = (None, r')"
  shows "listensOn port r'" "co_signalled r' = co_signalled r" "1 \<le> port" "port \<le> 65535"
    "co_proxy r' = (co_proxy r)\<lparr>ps_listenAddr := ''127.0.0.1:'' @ ItoaInt port\<rparr>"
    "rm_settingsFile (co_rules r') = Holds (settingsOf (SetListenPort (ItoaInt port) (co_rules r)))"
proof -
  show p: "1 \<le> port" "port \<le> 65535" using assms by (auto simp: setListenPort_def split: if_splits)
  show "co_signalled r' = co_signalled r" "co_proxy r' = (co_proxy r)\<lparr>ps_listenAddr := ''127.0.0.1:'' @ ItoaInt port\<rparr>"
    "rm_settingsFile (co_rules r') = Holds (settingsOf (SetListenPort (ItoaInt port) (co_rules r)))"
    using assms by (auto simp: setListenPort_def SetListenAddr_def SaveConfig_def saveSettingsConfig_def saveRulesConfig_def Let_def
      split: if_splits option.splits)
  show "listensOn port r'" using assms p
    by (intro listensOnI) (auto simp: setListenPort_def SetListenAddr_def SaveConfig_def saveSettingsConfig_def saveRulesConfig_def
      SetListenPort_def Let_def split: if_splits option.splits)
qed

section \<open>Starting the proxy\<close>

lemma StartPS_runs:
  assumes "\<not> ps_running p" "ce_listenErr env (ps_listenAddr p) = None" "ps_listenAddr p \<notin> snd ` set (ps_bound p)"
  shows "\<exists>q. StartPS env p = Some (None, q) \<and> ps_running q \<and> ps_listenAddr q = ps_listenAddr p \<and>
    (ps_next p, ps_listenAddr p) \<in> set (ps_bound q) \<and> ps_next p \<in> set (ps_serving q)"
  using assms by (simp add: StartPS_def startBegin_def startListen_def startCommit_def startSocks5_def Let_def)

lemma appendLog_other [simp]:
  "co_proxy (appendLog env m r) = co_proxy r" "co_rules (appendLog env m r) = co_rules r" "co_signalled (appendLog env m r) = co_signalled r"
  "co_tun (appendLog env m r) = co_tun r" "co_disk (appendLog env m r) = co_disk r" "co_certGen (appendLog env m r) = co_certGen r"
  "co_leafs (appendLog env m r) = co_leafs r" "co_cert (appendLog env m r) = co_cert r" "co_events (appendLog env m r) = co_events r"
  by (simp_all add: appendLog_def Let_def)

lemma getListenPort_appendLog [simp]: "getListenPort (appendLog env m r) = getListenPort r"
  "currentListenPort (appendLog env m r) = currentListenPort r" "listensOn p (appendLog env m r) = listensOn p r"
  by (simp_all add: getListenPort_def currentListenPort_def listensOn_def)


text \<open>Starting the proxy while it runs. When the process table shows this process as the holder of the port, under
  the name \<open>snishaper\<close>, the search takes it for a stale instance: the call returns success, the proxy still runs,
  but the program has sent the termination signal to itself.\<close>

theorem startProxy_signals_self:
  assumes "IsRunning (co_proxy r)" "getListenPort r \<noteq> 0"
    and "FindProcessByPort (ce_os env) (getListenPort r) = Inr (ce_selfPID env)" "ce_selfPID env \<noteq> 0"
    and "isSelf (ce_os env) [''snishaper''] (ce_selfPID env)" "KillProcessByPID (ce_os env) (ce_selfPID env) = None"
    and "ce_waitErr env (ps_listenAddr (co_proxy r)) = None"
  shows "case startProxy env r of None \<Rightarrow> False
    | Some (err, r') \<Rightarrow> err = None \<and> co_signalled r' \<and> co_proxy r' = co_proxy r"
proof -
  have "EnsurePortAvailable (ce_os env) (getListenPort r) [''snishaper''] = (getListenPort r, None, [ce_selfPID env])"
    using assms(3-6) by (simp add: EnsurePortAvailable_def eval_nat_numeral)
  then show ?thesis using assms(1,2,7) by (simp add: startProxy_def choosePort_def startAndWait_def StartPS_def IsRunning_def Let_def)
qed

text \<open>A process table in which process 77, a \<open>snishaper\<close>, listens on port 8080.\<close>

definition exampleOS :: osView where
  "exampleOS = \<lparr>os_tcp = Some [''  sl  local_address rem_address   st tx_queue rx_queue tr tm->when retrnsmt   uid  timeout inode'',
       ''   0: 0100007F:1F90 00000000:0000 0A 00000000:00000000 00:00000000 00000000  1000        0 9001 1''],
     os_ss = Inr [], os_proc = Inr [\<lparr>pr_name = ''self'', pr_isDir = False, pr_fds = None\<rparr>,
       \<lparr>pr_name = ''77'', pr_isDir = True, pr_fds = Some [None, Some ''socket:[9001]'']\<rparr>],
     os_comm = (\<lambda>pid. if pid = 77 then Some (''snishaper'' @ [newline]) else None), os_kill = (\<lambda>_. None),
     os_listen = (\<lambda>p. if p = 8080 then Some ''in use'' else None)\<rparr>"

definition exampleCoreEnv :: "osView \<Rightarrow> coreEnv" where
  "exampleCoreEnv os = \<lparr>ce_os = os, ce_selfPID = 77,
     ce_lib = \<lparr>cl_genKey = (\<lambda>_. Inl ''none''), cl_createCert = (\<lambda>_ _. Inl ''none''), cl_parseCert = (\<lambda>_. Inl ''none''),
       cl_marshalKey = (\<lambda>_. []), cl_parseKey = (\<lambda>_. Inl ''none''), cl_pemEncode = (\<lambda>_ _. []), cl_pemDecode = (\<lambda>_. None)\<rparr>,
     ce_now = 0, ce_stamp = (\<lambda>_. ''now''), ce_ioSettings = None, ce_ioRules = None, ce_ioLoad = None, ce_listenErr = (\<lambda>_. None),
     ce_socksOK = True, ce_waitErr = (\<lambda>_. None), ce_closeErr = None, ce_ord = [], ce_tracked = True,
     ce_tun = \<lparr>me_coreExists = True, me_corePath = '''', me_mkdirErr = None, me_writeErr = None, me_exeName = None,
       me_spawn = Inl ''none'', me_pidWritten = True, me_output = [], me_preferReady = True, me_killable = (\<lambda>_. True)\<rparr>\<rparr>"

definition exampleRuntime :: "proxyServer \<Rightarrow> coreRuntime" where
  "exampleRuntime p = \<lparr>co_execDir = ''/opt'', co_rules = NewRuleManager Missing Missing None, co_proxy = p, co_certGen = None,
     co_leafs = Map.empty, co_tun = None, co_cert = None,
     co_disk = \<lparr>dk_files = Map.empty, dk_createErr = (\<lambda>_. None), dk_writeErr = (\<lambda>_. None), dk_readErr = (\<lambda>_. None)\<rparr>,
     co_log = newRingLogWriter 5000, co_capture = True, co_tunStarting = False, co_tunErr = '''', co_events = [], co_signalled = False\<rparr>"

lemma exampleOS_holder: "FindProcessByPort exampleOS 8080 = Inr 77" "isSelf exampleOS [''snishaper''] 77"
proof -
  have "sprintf04X 8080 = ''1F90''" by (simp add: sprintf04X_def zeros_def hexOf.simps hexDigit_def char_of_def bit_Suc_0_iff)
  moreover have "case os_tcp exampleOS of None \<Rightarrow> False | Some lines \<Rightarrow> scanTCP exampleOS ''1F90'' lines = 77" by code_simp
  ultimately show "FindProcessByPort exampleOS 8080 = Inr 77" by (simp add: FindProcessByPort_def split: option.splits)
  show "isSelf exampleOS [''snishaper''] 77" by code_simp
qed

lemma example_port: "scanPort ''127.0.0.1:8080'' = 8080"
  using scanPort_Itoa [of 8080] by (simp add: Itoa.simps char_of_def bit_Suc_0_iff)

theorem startProxy_signals_self_witness:
  "let r = exampleRuntime ((NewProxyServer ''127.0.0.1:8080'')\<lparr>ps_running := True\<rparr>)
   in case startProxy (exampleCoreEnv exampleOS) r of None \<Rightarrow> False | Some (err, r') \<Rightarrow> err = None \<and> co_signalled r'"
proof -
  let ?r = "exampleRuntime ((NewProxyServer ''127.0.0.1:8080'')\<lparr>ps_running := True\<rparr>)"
  have port: "getListenPort ?r = 8080" using example_port by (simp add: getListenPort_def exampleRuntime_def NewProxyServer_def)
  have "case startProxy (exampleCoreEnv exampleOS) ?r of None \<Rightarrow> False
    | Some (err, r') \<Rightarrow> err = None \<and> co_signalled r' \<and> co_proxy r' = co_proxy ?r"
    by (rule startProxy_signals_self)
      (simp_all add: port exampleOS_holder, simp_all add: exampleRuntime_def exampleCoreEnv_def exampleOS_def IsRunning_def KillProcessByPID_def
        exampleOS_holder [unfolded exampleOS_def])
  then show ?thesis by (auto simp: Let_def split: option.splits)
qed


end
