(* ===== verification/Web_Api_Correct.thy ===== *)
theory Web_Api_Correct
  imports Web_Api Core_Runtime_Correct Doh_Correct
begin

text \<open>
  Properties of the dashboard interface: refused requests and reads change nothing they should not, and no
  sequence of requests breaks the life cycle of the proxy server.
\<close>

section \<open>Frames of the handlers\<close>

named_theorems handler_defs "the definitions of the handlers"

declare
  handleStatus_def [handler_defs] handleProxyStart_def [handler_defs] handleProxyStop_def [handler_defs] handleProxyStats_def [handler_defs]
  handleConfig_def [handler_defs] handleCertStatus_def [handler_defs] handleCertInstall_def [handler_defs] handleCertUninstall_def [handler_defs]
  handleCertRegenerate_def [handler_defs] handleCertExport_def [handler_defs] handleRules_def [handler_defs] handleUpstreams_def [handler_defs]
  handleDNSNodes_def [handler_defs] handleECHProfiles_def [handler_defs] handleDNSPriority_def [handler_defs] handleTUNStatus_def [handler_defs]
  handleTUNStart_def [handler_defs] handleTUNStop_def [handler_defs] handleProxyDiagnostics_def [handler_defs]
  handleProxySelfCheck_def [handler_defs] handleLogCapture_def [handler_defs] handleRuleHits_def [handler_defs] handleLogs_def [handler_defs]
  handleLogsClear_def [handler_defs] handleRouteEvents_def [handler_defs] handleRoutingConfig_def [handler_defs]
  handleGFWListRefresh_def [handler_defs] handleRoutingStatus_def [handler_defs] handleServerConfig_def [handler_defs]
  handleDNSTest_def [handler_defs] handleECHFetch_def [handler_defs] handleCFConfig_def [handler_defs] handleCFFetch_def [handler_defs]
  handleCFHealthCheck_def [handler_defs] handleCFStats_def [handler_defs] handleConfigExport_def [handler_defs]
  handleConfigImport_def [handler_defs] listHandler_def [handler_defs] methodNotAllowed_def [handler_defs]

text \<open>The refusals: a reply with one of these codes leaves the runtime alone.\<close>

definition refused :: "apiResp \<Rightarrow> bool" where
  "refused resp \<longleftrightarrow> (case resp of JsonError code _ \<Rightarrow> code = 400 \<or> code = 404 \<or> code = 405 | _ \<Rightarrow> False)"

lemma refused_simps [simp]:
  "refused (JsonError code e) \<longleftrightarrow> code = 400 \<or> code = 404 \<or> code = 405" "\<not> refused (JsonStatus s)" "\<not> refused (JsonData d)"
  by (simp_all add: refused_def)

lemma not_refused [simp]: "\<not> refused (fst (rmReply s r res))" "\<not> refused (fst (errReply s res2))"
  by (simp_all add: rmReply_def errReply_def split: option.split)

lemma decoded_refused:
  "(\<And>x. body = Inr x \<Longrightarrow> refused (fst (k x)) \<Longrightarrow> snd (k x) = r) \<Longrightarrow> refused (fst (decoded body k r)) \<Longrightarrow> snd (decoded body k r) = r"
  by (simp add: decoded_def split: sum.splits)

lemma withCert_refused: "(\<And>cm r1. \<not> refused (fst (k cm r1))) \<Longrightarrow> \<not> refused (fst (withCert env r k))"
  by (simp add: withCert_def split: prod.splits sum.splits)

lemma getTUNStatus_frame [simp]:
  "co_rules (snd (getTUNStatus env r)) = co_rules r" "co_proxy (snd (getTUNStatus env r)) = co_proxy r"
  "co_certGen (snd (getTUNStatus env r)) = co_certGen r" "co_leafs (snd (getTUNStatus env r)) = co_leafs r"
  by (simp_all add: getTUNStatus_def Let_def case_prod_beta split: option.split)

lemma dohReply_not_refused: "dohReply shown r res = (resp, r') \<Longrightarrow> \<not> refused resp"
  by (auto simp: dohReply_def split: sum.splits)

text \<open>A refused request changes nothing: whenever the answer is 400 (malformed body, missing parameter, proxy not running),
  404 or 405 (method not allowed), the whole runtime is as it was before, rules, proxy server, files, logs and
  events included.\<close>

theorem refused_requests_change_nothing:
  assumes "serve env m call r = Some (resp, r')" "refused resp"
  shows "r' = r"
  using assms
  by (cases call) (auto dest: dohReply_not_refused simp: handler_defs decoded_def rmReply_def errReply_def withCert_def Let_def case_prod_beta
    split: if_splits sum.splits option.splits prod.splits)

text \<open>Reading is safe: a \<open>GET\<close> request on any route leaves the rules, the settings, the proxy server with its address pool, and the
  certificates in use as they were. (It may create a missing CA on disk, and it empties the event
  buffer.)\<close>

theorem reads_keep_state:
  assumes "serve env ''GET'' call r = Some (resp, r')"
  shows "co_rules r' = co_rules r \<and> co_proxy r' = co_proxy r \<and> co_certGen r' = co_certGen r \<and> co_leafs r' = co_leafs r"
  using assms getTUNStatus_frame [of "we_core env" r]
  by (cases call) (auto simp: handler_defs withCert_def case_prod_beta Let_def split: if_splits sum.splits)

section \<open>The life cycle under requests\<close>

lemma StartPS_steps: "StartPS env p = Some (e, q) \<Longrightarrow> lifeStep\<^sup>*\<^sup>* p q"
proof (cases "ps_running p")
  case False
  assume s: "StartPS env p = Some (e, q)"
  let ?i = "ps_next p" and ?b = "startBegin p" and ?ok = "ce_listenErr env (ps_listenAddr p) = None"
  obtain l where l: "startListen ?ok (?i, ps_listenAddr p) ?b = Some l"
    using s False by (auto simp: StartPS_def Let_def split: option.splits)
  have "(?i, ps_listenAddr p) \<in> set (ps_starting ?b)" using False by (simp add: startBegin_def)
  with l have "lifeStep ?b l" by (intro lifeStep.listen)
  moreover have "lifeStep p ?b" by (rule lifeStep.start)
  ultimately have pl: "lifeStep\<^sup>*\<^sup>* p l" by (meson r_into_rtranclp rtranclp.rtrancl_into_rtrancl)
  have q: "q = l \<or> ?i \<in> set (ps_listening l) \<and> q = startCommit (ce_socksOK env) ?i l"
    using s False l by (auto simp: StartPS_def Let_def split: if_splits)
  then show ?thesis using pl lifeStep.commit by (metis rtranclp.rtrancl_into_rtrancl)
qed (simp add: StartPS_def)

lemma setListenPort_steps: "lifeStep\<^sup>*\<^sup>* (co_proxy r) (co_proxy (snd (setListenPort env port r)))"
proof -
  have "co_proxy (snd (setListenPort env port r)) = co_proxy r \<or>
      co_proxy (snd (setListenPort env port r)) = snd (SetListenAddr (''127.0.0.1:'' @ ItoaInt port) (co_proxy r))"
    by (simp add: setListenPort_def case_prod_beta Let_def split: option.split)
  then show ?thesis using lifeStep.setAddr by (metis r_into_rtranclp rtranclp.rtrancl_refl)
qed

lemma choosePort_steps: "lifeStep\<^sup>*\<^sup>* (co_proxy r) (co_proxy (snd (choosePort env r)))"
  using setListenPort_steps [of "r\<lparr>co_signalled := s\<rparr>" for s] by (simp add: choosePort_def Let_def case_prod_beta)

lemma startAndWait_steps:
  assumes "startAndWait env r = Some (e, r')"
  shows "lifeStep\<^sup>*\<^sup>* (co_proxy r) (co_proxy r')"
proof -
  obtain e1 p where p: "StartPS env (co_proxy r) = Some (e1, p)" using assms by (auto simp: startAndWait_def split: option.splits)
  have "co_proxy r' = p \<or> StopPS (ce_tracked env) p = Some (co_proxy r')"
    using assms p by (auto simp: startAndWait_def Let_def split: option.splits)
  then show ?thesis using StartPS_steps [OF p] lifeStep.stop by (metis rtranclp.rtrancl_into_rtrancl)
qed

lemma startProxy_steps: "startProxy env r = Some (e, r') \<Longrightarrow> lifeStep\<^sup>*\<^sup>* (co_proxy r) (co_proxy r')"
  using choosePort_steps [of r env] startAndWait_steps
  by (auto simp: startProxy_def split: prod.splits option.splits intro: rtranclp_trans)

lemma stopProxy_steps: "stopProxy env r = Some (e, r') \<Longrightarrow> lifeStep\<^sup>*\<^sup>* (co_proxy r) (co_proxy r')"
proof -
  assume "stopProxy env r = Some (e, r')"
  then have "StopPS (ce_tracked env) (co_proxy r) = Some (co_proxy r')" by (auto simp: stopProxy_def split: if_splits)
  then have "lifeStep (co_proxy r) (co_proxy r')" by (rule lifeStep.stop)
  then show ?thesis by (rule r_into_rtranclp)
qed

lemma startTUN_steps:
  assumes "startTUN env r = Some (e, r')"
  shows "lifeStep\<^sup>*\<^sup>* (co_proxy r) (co_proxy r')"
proof -
  have set: "co_proxy (setTUNStartState b x y) = co_proxy y" for b x y by (simp add: setTUNStartState_def)
  obtain r1 where r1: "startTUNBody env (setTUNStartState True None r) = Some (e, r1)" "co_proxy r' = co_proxy r1"
    using assms by (auto simp: startTUN_def set)
  let ?log = "appendLog env ''[core] proxy not running, starting proxy before TUN'' (setTUNStartState True None r)"
  have "co_proxy r1 = co_proxy r \<or> (\<exists>e2 r2. startProxy env ?log = Some (e2, r2) \<and> co_proxy r1 = co_proxy r2)"
    using r1(1) by (auto simp: startTUNBody_def Let_def set split: option.splits if_splits prod.splits)
  then show ?thesis using startProxy_steps [of env ?log] r1(2) by (auto simp: set)
qed

lemma stopTUN_proxy [simp]: "co_proxy (snd (stopTUN env r)) = co_proxy r"
  by (simp add: stopTUN_def setTUNStartState_def Let_def case_prod_beta split: option.split)

lemma patchProxy_steps: "lifeStep\<^sup>*\<^sup>* p (patchProxy pa p)"
proof -
  have "lifeStep\<^sup>*\<^sup>* p (optionally (pa_Socks5Enabled pa) SetSocks5EnabledPS p)"
    by (auto simp: optionally_def intro: lifeStep.setSocks split: option.split)
  moreover have "lifeStep\<^sup>*\<^sup>* q (optionally (pa_ProxyMode pa) (\<lambda>m q. snd (SetMode m q)) q)" for q
    by (auto simp: optionally_def intro: lifeStep.setMode split: option.split)
  ultimately show ?thesis by (auto simp: patchProxy_def intro: rtranclp_trans)
qed

lemma pool_steps: "lifeStep\<^sup>*\<^sup>* p (UpdateCloudflareIPPool ord ips p)" "lifeStep\<^sup>*\<^sup>* p (p\<lparr>ps_cfPool := TriggerHealthCheck (ps_cfPool p)\<rparr>)"
  by (auto simp: UpdateCloudflareIPPool_def intro: lifeStep.pool cfStep.update cfStep.trigger)

lemma dohReply_proxy: "dohReply shown r res = (resp, r') \<Longrightarrow> co_proxy r' = co_proxy r"
  by (auto simp: dohReply_def)

lemma serve_steps:
  assumes "serve env m call r = Some (resp, r')"
  shows "lifeStep\<^sup>*\<^sup>* (co_proxy r) (co_proxy r')"
  using assms getTUNStatus_frame [of "we_core env" r] patchProxy_steps pool_steps
  by (cases call) (auto simp: handler_defs decoded_def rmReply_def errReply_def withCert_def startLogCapture_def stopLogCapture_def
      clearLogs_def Let_def case_prod_beta dest!: startProxy_steps stopProxy_steps startTUN_steps dohReply_proxy
      split: if_splits sum.splits option.splits prod.splits)

text \<open>In a good state no request panics.\<close>

lemma StopPS_total: "lifeInv p \<Longrightarrow> StopPS tracked p \<noteq> None"
  using cftask.stop_total by (simp add: lifeInv_def StopPS_def)

lemma lifeInv_steps: "lifeStep\<^sup>*\<^sup>* p q \<Longrightarrow> lifeInv p \<Longrightarrow> lifeInv q"
  by (rule life.steps_inv)

lemma StartPS_total:
  assumes "lifeInv p"
  shows "StartPS env p \<noteq> None"
proof -
  have "Cf_Pool.Stop (ps_cfPool (startBegin p)) \<noteq> None"
    using lifeInv_start [OF assms] cftask.stop_total by (simp add: lifeInv_def)
  then show ?thesis by (auto simp: StartPS_def startListen_def Let_def)
qed

lemma startProxy_total:
  assumes "lifeInv (co_proxy r)"
  shows "startProxy env r \<noteq> None"
proof -
  let ?r1 = "snd (choosePort env r)"
  have i: "lifeInv (co_proxy ?r1)" using choosePort_steps assms by (rule lifeInv_steps)
  obtain e p where p: "StartPS env (co_proxy ?r1) = Some (e, p)" using StartPS_total [OF i, of env] by auto
  have "StopPS (ce_tracked env) p \<noteq> None" by (rule StopPS_total [OF lifeInv_steps [OF StartPS_steps [OF p] i]])
  then have "startAndWait env ?r1 \<noteq> None" using p by (auto simp: startAndWait_def Let_def split: option.split)
  then show ?thesis by (cases "choosePort env r") (simp add: startProxy_def split: option.split)
qed

lemma startTUN_total:
  assumes "lifeInv (co_proxy r)"
  shows "startTUN env r \<noteq> None"
proof -
  let ?r = "setTUNStartState True None r"
  let ?log = "appendLog env ''[core] proxy not running, starting proxy before TUN'' ?r"
  have "startProxy env ?log \<noteq> None" using assms by (intro startProxy_total) (simp add: setTUNStartState_def)
  then have "startTUNBody env ?r \<noteq> None" unfolding startTUNBody_def Let_def
    by (cases "IsRunning (co_proxy ?r)"; cases "startProxy env ?log") (auto split: option.split)
  then show ?thesis by (simp add: startTUN_def)
qed

definition needsResolver :: "apiCall \<Rightarrow> bool" where
  "needsResolver call = (case call of DNSTest _ \<Rightarrow> True | ECHFetch _ \<Rightarrow> True | _ \<Rightarrow> False)"

lemma stopProxy_total: "lifeInv (co_proxy r) \<Longrightarrow> stopProxy env r \<noteq> None"
  using StopPS_total [of "co_proxy r" "ce_tracked env"] by (simp add: stopProxy_def)

lemma serve_total: "lifeInv (co_proxy r) \<Longrightarrow> \<not> needsResolver call \<Longrightarrow> serve env m call r \<noteq> None"
  using startProxy_total [of r "we_core env"] startTUN_total [of r "we_core env"] stopProxy_total [of r "we_core env"]
  by (cases call) (simp_all add: needsResolver_def handleProxyStart_def handleProxyStop_def handleTUNStart_def del: not_None_eq)

text \<open>Requests and the steps of the proxy server itself, in any order.\<close>

inductive apiStep :: "coreRuntime \<Rightarrow> coreRuntime \<Rightarrow> bool" where
  request: "serve env m call r = Some (resp, r') \<Longrightarrow> apiStep r r'"
| background: "lifeStep (co_proxy r) p \<Longrightarrow> apiStep r (r\<lparr>co_proxy := p\<rparr>)"

lemma applyConfig_steps: "lifeStep\<^sup>*\<^sup>* (co_proxy r) (co_proxy (applyConfig env r))"
  using pool_steps(1) lifeStep.setSocks
  by (simp add: applyConfig_def SetRuleManager_def Let_def) (meson rtranclp.rtrancl_into_rtrancl rtranclp_trans)

lemma newCoreRuntime_inv:
  assumes "newCoreRuntimeForDir env dir tun d rm = Inr r"
  shows "lifeInv (co_proxy r)"
proof -
  obtain addr addr2 r1 where s: "r = startRuntime env r1" "co_proxy r1 = SetSocks5Addr addr2 (NewProxyServer addr)"
    using assms by (auto simp: newCoreRuntimeForDir_def Let_def split: prod.splits option.splits)
  obtain r2 where r2: "co_proxy r = co_proxy (applyConfig env r2)" "co_proxy r2 = co_proxy r1"
    unfolding s(1) startRuntime_def Let_def
    by (cases "InitCertManager (ce_lib env) (ce_now env) (co_execDir r1 @ ''/cert'') (co_disk r1)") (auto split: sum.splits intro: that)
  then have r: "lifeStep\<^sup>*\<^sup>* (SetSocks5Addr addr2 (NewProxyServer addr)) (co_proxy r)" using applyConfig_steps [of r2 env] s(2) by simp
  have "lifeInv (SetSocks5Addr addr2 (NewProxyServer addr))" by (intro lifeInv_setters lifeInv_New)
  with r show ?thesis by (rule lifeInv_steps)
qed

interpretation api: step_system apiStep "\<lambda>r. \<exists>env dir tun d rm. newCoreRuntimeForDir env dir tun d rm = Inr r" "\<lambda>r. lifeInv (co_proxy r)"
proof
  fix r r' assume "apiStep r r'" "lifeInv (co_proxy r)"
  then show "lifeInv (co_proxy r')" 
  proof (cases rule: apiStep.cases)
    case (request env m call resp)
    then show ?thesis using serve_steps lifeInv_steps \<open>lifeInv (co_proxy r)\<close> by blast
  next
    case (background p)
    then show ?thesis using lifeInv_step \<open>lifeInv (co_proxy r)\<close> by simp
  qed
qed (auto dest: newCoreRuntime_inv)


section \<open>Examples\<close>

definition exampleWeb :: webEnv where
  "exampleWeb = \<lparr>we_core = exampleCoreEnv exampleOS,
     we_probe = \<lparr>cs_Installed = False, cs_Platform = ''linux'', cs_CertPath = '''', cs_InstallHelp = ''''\<rparr>,
     we_install = (\<lambda>_. None), we_installed = Inr [], we_newID = (\<lambda>n. Itoa n), we_cfGet = (\<lambda>_. ApiTransportError ''offline''),
     we_doh = exampleDoh, we_depth = 1, we_fetch = (\<lambda>_. Inl ''offline''), we_gfwOrd = [], we_gfwStamp = '''', we_stats = (0, 0)\<rparr>"

theorem refused_requests_change_nothing_witness:
  "serve exampleWeb ''POST'' (Rules (Inl ''EOF'') '''') (exampleRuntime (NewProxyServer ''127.0.0.1:8080'')) =
     Some (JsonError 400 ''invalid JSON: EOF'', exampleRuntime (NewProxyServer ''127.0.0.1:8080''))"
proof -
  let ?r = "exampleRuntime (NewProxyServer ''127.0.0.1:8080'')"
  obtain r' where r': "serve exampleWeb ''POST'' (Rules (Inl ''EOF'') '''') ?r = Some (JsonError 400 ''invalid JSON: EOF'', r')"
    by (simp add: handler_defs decoded_def Let_def)
  then show ?thesis using refused_requests_change_nothing [OF r'] by simp
qed

theorem reads_keep_state_witness:
  "case serve exampleWeb ''GET'' CertRegenerate (exampleRuntime (NewProxyServer ''127.0.0.1:8080'')) of
     None \<Rightarrow> False
   | Some (resp, r') \<Rightarrow> refused resp \<and> co_rules r' = NewRuleManager Missing Missing None"
proof -
  let ?r = "exampleRuntime (NewProxyServer ''127.0.0.1:8080'')"
  obtain resp r' where s: "serve exampleWeb ''GET'' CertRegenerate ?r = Some (resp, r')" "refused resp"
    by (simp add: handler_defs)
  then show ?thesis using reads_keep_state [OF s(1)] by (simp add: exampleRuntime_def)
qed


end
