(* ===== verification/Cli.thy ===== *)
theory Cli
  imports Core_Runtime Config_Import_Correct
begin

text \<open>
  The command line, \<open>src/main.go\<close>, \<open>src/cli.go\<close> and the arguments of \<open>snishaper web\<close> (\<open>src/web.go\<close>). A command
  works on the files of the configuration directory; what it prints is reduced to the values shown.
\<close>

datatype command = CmdVersion | CmdStart | CmdStop | CmdStatus | CmdWeb | CmdConfig | CmdCert | CmdTUN | CmdHelp | CmdUnknown string

text \<open>\<open>main\<close>: the command and its arguments; without arguments the usage is printed.\<close>

definition mainCommand :: "string list \<Rightarrow> command \<times> string list" where
  "mainCommand args =
     (case args of
        [] \<Rightarrow> (CmdHelp, [])
      | a # rest \<Rightarrow>
          let cmd = ToLower a in
          if cmd = ''version'' \<or> cmd = ''-v'' \<or> cmd = ''--version'' then (CmdVersion, rest)
          else if cmd = ''start'' then (CmdStart, rest) else if cmd = ''stop'' then (CmdStop, rest)
          else if cmd = ''status'' then (CmdStatus, rest) else if cmd = ''web'' then (CmdWeb, rest)
          else if cmd = ''config'' then (CmdConfig, rest) else if cmd = ''cert'' then (CmdCert, rest)
          else if cmd = ''tun'' then (CmdTUN, rest)
          else if cmd = ''help'' \<or> cmd = ''-h'' \<or> cmd = ''--help'' then (CmdHelp, rest) else (CmdUnknown cmd, rest))"

section \<open>Start and web\<close>

record webOptions =
  wo_port :: int
  wo_bind :: string
  wo_configDir :: string

definition defaultWebOptions :: webOptions where
  "defaultWebOptions = \<lparr>wo_port = 5173, wo_bind = ''127.0.0.1'', wo_configDir = ''''\<rparr>"

fun parseWebArgs :: "string list \<Rightarrow> webOptions \<Rightarrow> webOptions" where
  "parseWebArgs [] opts = opts"
| "parseWebArgs [a] opts = opts"
| "parseWebArgs (a # v # rest) opts =
     (if a = ''--port'' \<or> a = ''-p'' then
        parseWebArgs rest (case Atoi v of Some p \<Rightarrow> opts\<lparr>wo_port := p\<rparr> | None \<Rightarrow> opts)
      else if a = ''--bind'' \<or> a = ''-b'' then parseWebArgs rest (opts\<lparr>wo_bind := v\<rparr>)
      else if a = ''--config-dir'' then parseWebArgs rest (opts\<lparr>wo_configDir := v\<rparr>)
      else parseWebArgs (v # rest) opts)"

definition webAddr :: "webOptions \<Rightarrow> string" where
  "webAddr opts = wo_bind opts @ '':'' @ ItoaInt (wo_port opts)"

text \<open>Package \<open>flag\<close>: parsing stops at the first argument that is not a flag; \<open>None\<close> is the exit of a malformed or
  unknown flag (\<open>flag.ExitOnError\<close>). The values are the texts given, the defaults apply where there is none.\<close>

datatype flagKind = StringFlag | BoolFlag

definition ParseBool :: "string \<Rightarrow> bool option" where
  "ParseBool v = (if v \<in> set [''1'', ''t'', ''T'', ''TRUE'', ''true'', ''True''] then Some True
                  else if v \<in> set [''0'', ''f'', ''F'', ''FALSE'', ''false'', ''False''] then Some False else None)"

definition flagName :: "string \<Rightarrow> string" where
  "flagName name0 = hd name0 # takeWhile (\<lambda>c. c \<noteq> CHR ''='') (tl name0)"

definition flagValue :: "string \<Rightarrow> string option" where
  "flagValue name0 = (case dropWhile (\<lambda>c. c \<noteq> CHR ''='') (tl name0) of [] \<Rightarrow> None | _ # v \<Rightarrow> Some v)"

fun parseFlags :: "(string \<times> flagKind) list \<Rightarrow> string list \<Rightarrow> (string \<rightharpoonup> string) \<Rightarrow> ((string \<rightharpoonup> string) \<times> string list) option" where
  "parseFlags known [] vals = Some (vals, [])"
| "parseFlags known (s # rest) vals =
     (if length s < 2 \<or> hd s \<noteq> CHR ''-'' then Some (vals, s # rest)
      else if s = ''--'' then Some (vals, rest)
      else
        let name0 = (if s ! 1 = CHR ''-'' then drop 2 s else drop 1 s) in
        if hd name0 = CHR ''-'' \<or> hd name0 = CHR ''='' then None
        else case map_of known (flagName name0) of
               None \<Rightarrow> None
             | Some BoolFlag \<Rightarrow>
                 (let v = (case flagValue name0 of None \<Rightarrow> ''true'' | Some v \<Rightarrow> v) in
                  if ParseBool v = None then None else parseFlags known rest (vals(flagName name0 \<mapsto> v)))
             | Some StringFlag \<Rightarrow>
                 (case flagValue name0 of
                    Some v \<Rightarrow> parseFlags known rest (vals(flagName name0 \<mapsto> v))
                  | None \<Rightarrow> (case rest of [] \<Rightarrow> None | v # rest' \<Rightarrow> parseFlags known rest' (vals(flagName name0 \<mapsto> v)))))"

definition stringFlag :: "(string \<rightharpoonup> string) \<Rightarrow> string \<Rightarrow> string" where
  "stringFlag vals name = (case vals name of None \<Rightarrow> '''' | Some v \<Rightarrow> v)"

definition startFlags :: "(string \<times> flagKind) list" where
  "startFlags = [(''port'', StringFlag), (''socks5-port'', StringFlag), (''config-dir'', StringFlag), (''no-web'', BoolFlag), (''foreground'', BoolFlag)]"

text \<open>\<open>snishaper start\<close>: \<open>StartRunning rt web r'\<close> is the runtime \<open>rt\<close> that serves until the signal, with the dashboard
  when \<open>web\<close>, and \<open>r'\<close> what its shutdown leaves (\<open>None\<close>: a panic). \<open>files dir\<close> is what a configuration directory
  holds: the TUN files, the certificates and the rule manager with its files, nothing loaded.\<close>

datatype startOut = StartExit | StartFailed string | StartRunning coreRuntime bool "coreRuntime option"

definition cmdStart ::
    "coreEnv \<Rightarrow> string \<Rightarrow> (string \<Rightarrow> mihomo \<times> disk \<times> ruleManager) \<Rightarrow> string list \<Rightarrow> startOut option" where
  "cmdStart env configDir files args =
     (case parseFlags startFlags args Map.empty of
        None \<Rightarrow> Some StartExit
      | Some (vals, _) \<Rightarrow>
          let port = stringFlag vals ''port''; socks5Port = stringFlag vals ''socks5-port'';
              execDir = (if stringFlag vals ''config-dir'' = '''' then configDir else stringFlag vals ''config-dir'');
              noWeb = (ParseBool (stringFlag vals ''no-web'') = Some True);
              (tun, d, rm) = files execDir
          in case newCoreRuntimeForDir env execDir tun d rm of
               Inl e \<Rightarrow> Some (StartFailed (''Failed to initialize: '' @ e))
             | Inr rt \<Rightarrow>
                 let p1 = (if port \<noteq> '''' then snd (SetListenAddr (''127.0.0.1:'' @ port) (co_proxy rt)) else co_proxy rt);
                     p2 = (if socks5Port \<noteq> '''' then SetSocks5Addr (''127.0.0.1:'' @ socks5Port) p1 else p1)
                 in map_option (\<lambda>(err, rt'). case err of
                         Some e \<Rightarrow> StartFailed (''Failed to start proxy: '' @ e)
                       | None \<Rightarrow> StartRunning rt' (\<not> noWeb) (shutdown env rt'))
                      (startProxy env (rt\<lparr>co_proxy := p2\<rparr>)))"

section \<open>Configuration\<close>

datatype configOut =
    ConfigUsage | ConfigFailed string | ConfigShown ruleManager | ConfigExportHint | ConfigImported importSummary | ConfigUnknown string

text \<open>The rule manager is made for the command (\<open>rm\<close>: with the files of the configuration directory, nothing
  loaded); \<open>show\<close> and \<open>export\<close> load it, \<open>import\<close> does not.\<close>

definition cmdConfig ::
    "io \<Rightarrow> io \<Rightarrow> io \<Rightarrow> (nat \<Rightarrow> string) \<Rightarrow> (string \<Rightarrow> string + importDoc) \<Rightarrow> string list \<Rightarrow> ruleManager \<Rightarrow> configOut \<times> ruleManager" where
  "cmdConfig io1 io2 io3 ids readDoc args rm =
     (case args of
        [] \<Rightarrow> (ConfigUsage, rm)
      | a # rest \<Rightarrow>
          let sub = ToLower a in
          if sub = ''show'' then
            (case LoadConfig io1 io2 io3 rm of
               (Some e, rm') \<Rightarrow> (ConfigFailed (''Failed to load config: '' @ e), rm') | (None, rm') \<Rightarrow> (ConfigShown rm', rm'))
          else if sub = ''export'' then
            (case LoadConfig io1 io2 io3 rm of
               (Some e, rm') \<Rightarrow> (ConfigFailed (''Failed to load config: '' @ e), rm') | (None, rm') \<Rightarrow> (ConfigExportHint, rm'))
          else if sub = ''import'' then
            (case rest of
               [] \<Rightarrow> (ConfigFailed ''Usage: snishaper config import <file>'', rm)
             | file # _ \<Rightarrow>
                 (case readDoc file of
                    Inl e \<Rightarrow> (ConfigFailed (''Failed to read file: '' @ e), rm)
                  | Inr doc \<Rightarrow>
                      (case ImportConfigWithSummary io2 ids doc rm of
                         (Inl e, rm') \<Rightarrow> (ConfigFailed (''Import failed: '' @ e), rm')
                       | (Inr s, rm') \<Rightarrow> (ConfigImported s, rm'))))
          else (ConfigUnknown sub, rm))"

section \<open>Status and certificates\<close>

record cliStatus =
  st_httpAddr :: string
  st_socksAddr :: string
  st_cert :: "caInstallStatus option"
  st_groups :: nat
  st_enabled :: nat

definition cmdStatus :: "coreEnv \<Rightarrow> caInstallStatus \<Rightarrow> string \<Rightarrow> disk \<Rightarrow> ruleManager \<Rightarrow> cliStatus \<times> disk" where
  "cmdStatus env probe execDir d rm0 =
     (let rm = snd (LoadConfig (ce_ioSettings env) (ce_ioRules env) (ce_ioLoad env) rm0);
          (cm, d') = InitCertManager (ce_lib env) (ce_now env) (execDir @ ''/cert'') d
      in (\<lparr>st_httpAddr = ''127.0.0.1:'' @ portOr ''8080'' (rm_listenPort rm), st_socksAddr = ''127.0.0.1:'' @ portOr ''8081'' (rm_socks5Port rm),
           st_cert = (case cm of Inl _ \<Rightarrow> None | Inr m \<Rightarrow> Some (fst (GetCAInstallStatus probe (ce_now env) m))),
           st_groups = length (rm_siteGroups rm), st_enabled = length (filter sg_Enabled (rm_siteGroups rm))\<rparr>, d'))"

datatype certOut =
    CertUsage | CertExit | CertFailed string | CertShown caInstallStatus | CertInstalled | CertRemoved "string list" | CertPrinted bytes
  | CertWritten string bytes | CertRegenerated | CertUnknown string

text \<open>\<open>install password cm\<close> and \<open>installed\<close> stand for the system's certificate store.\<close>

definition cmdCert ::
    "coreEnv \<Rightarrow> caInstallStatus \<Rightarrow> (string \<Rightarrow> certManager \<Rightarrow> string option) \<Rightarrow> string + string list \<Rightarrow> (string \<Rightarrow> string option)
       \<Rightarrow> string \<Rightarrow> string list \<Rightarrow> disk \<Rightarrow> certOut \<times> disk" where
  "cmdCert env probe install installed writeErr execDir args d =
     (if args = [] then (CertUsage, d)
      else case parseFlags [(''password'', StringFlag)] args Map.empty of
        None \<Rightarrow> (CertExit, d)
      | Some (vals, pos) \<Rightarrow>
          let password = stringFlag vals ''password'' in
          if pos = [] \<or> hd pos = '''' then (CertUsage, d)
          else
            (case InitCertManager (ce_lib env) (ce_now env) (execDir @ ''/cert'') d of
               (Inl e, d1) \<Rightarrow> (CertFailed (''Failed to init cert manager: '' @ e), d1)
             | (Inr cm, d1) \<Rightarrow>
                 let sub = ToLower (hd pos) in
                 if sub = ''status'' then (CertShown (fst (GetCAInstallStatus probe (ce_now env) cm)), d1)
                 else if sub = ''install'' then
                   (case install password cm of Some e \<Rightarrow> (CertFailed (''Failed to install CA: '' @ e), d1) | None \<Rightarrow> (CertInstalled, d1))
                 else if sub = ''uninstall'' then
                   (case installed of Inl e \<Rightarrow> (CertFailed (''Failed to list installed certs: '' @ e), d1) | Inr ts \<Rightarrow> (CertRemoved ts, d1))
                 else if sub = ''export'' then
                   (let pem = GetCACertPEM (ce_lib env) cm; path = (if 1 < length pos then pos ! 1 else '''') in
                    if pem = [] then (CertFailed ''No CA certificate available'', d1)
                    else if path = '''' then (CertPrinted pem, d1)
                    else case writeErr path of Some e \<Rightarrow> (CertFailed (''Failed to write file: '' @ e), d1) | None \<Rightarrow> (CertWritten path pem, d1))
                 else if sub = ''regenerate'' then
                   (case RegenerateCA (ce_lib env) (ce_now env) (case installed of Inl _ \<Rightarrow> None | Inr ts \<Rightarrow> Some ts) (install password) cm d1 of
                      (Some e, _, _, d2) \<Rightarrow> (CertFailed (''Failed to regenerate CA: '' @ e), d2)
                    | (None, _, _, d2) \<Rightarrow> (CertRegenerated, d2))
                 else (CertUnknown sub, d1)))"

section \<open>TUN\<close>

datatype tunOut = TunUsage | TunFailed string | TunShown tunStatus | TunStarted mihomo | TunStopped | TunUnknown string

text \<open>\<open>TunStarted m\<close> is the manager while the command waits for its signal; the state returned is that after the final stop.\<close>

definition cmdTUN :: "mihomoEnv \<Rightarrow> bool \<Rightarrow> io \<Rightarrow> io \<Rightarrow> io \<Rightarrow> string list \<Rightarrow> ruleManager \<Rightarrow> mihomo \<Rightarrow> tunOut \<times> mihomo" where
  "cmdTUN env isRoot io1 io2 io3 args rm tun =
     (case args of
        [] \<Rightarrow> (TunUsage, tun)
      | a # _ \<Rightarrow>
          let sub = ToLower a in
          (case LoadConfig io1 io2 io3 rm of
             (Some e, _) \<Rightarrow> (TunFailed (''Failed to load config: '' @ e), tun)
           | (None, rm') \<Rightarrow>
               let m = newExternalMihomoManager (mh_pidFile tun) (mh_config tun) (mh_procs tun) in
               if sub = ''status'' then (let (s, m') = StatusM env m in (TunShown s, m'))
               else if sub = ''start'' then
                 (if \<not> isRoot then (TunFailed ''TUN mode requires root privileges. Use: sudo snishaper tun start'', m)
                  else case StartM env (portOr ''8080'' (rm_listenPort rm')) m of
                         (Some e, m') \<Rightarrow> (TunFailed (''Failed to start TUN: '' @ e), m') | (None, m') \<Rightarrow> (TunStarted m', snd (StopM env m')))
               else if sub = ''stop'' then (TunStopped, snd (StopM env m))
               else (TunUnknown sub, m)))"

section \<open>Properties\<close>

lemma buildRules_lists [simp]:
  "rm_siteGroups (buildRules rm) = rm_siteGroups rm" "rm_upstreams (buildRules rm) = rm_upstreams rm"
  "rm_dnsNodes (buildRules rm) = rm_dnsNodes rm" "rm_echProfiles (buildRules rm) = rm_echProfiles rm"
  by (simp_all add: buildRules_def)

text \<open>A password given after the subcommand, as the usage text has it, is not read: the flag parser stops at the subcommand.\<close>

lemma password_after_subcommand_ignored:
  "s \<noteq> '''' \<Longrightarrow> hd s \<noteq> CHR ''-'' \<Longrightarrow> parseFlags known (s # rest) Map.empty = Some (Map.empty, s # rest)"
  by simp

text \<open>A TUN status asked on the command line never shows a running TUN.\<close>

lemma cli_tun_status_not_running:
  "fst (cmdTUN env isRoot io1 io2 io3 [''status''] rm tun) = TunShown s \<Longrightarrow> \<not> ts_Running s"
proof -
  assume a: "fst (cmdTUN env isRoot io1 io2 io3 [''status''] rm tun) = TunShown s"
  have sub: "ToLower ''status'' = ''status''" by code_simp
  let ?m = "newExternalMihomoManager (mh_pidFile tun) (mh_config tun) (mh_procs tun)"
  have log: "mh_log ?m = newRingLogWriter 50" by (simp add: newExternalMihomoManager_def)
  have "s = fst (StatusM env ?m)" using a by (auto simp: cmdTUN_def sub case_prod_beta Let_def split: option.splits prod.splits)
  then show ?thesis using status_running [of "[]", OF _ log] by (simp add: lastN_def)
qed

text \<open>\<open>snishaper config import\<close> discards the rules that were there. The import works on a manager that has not loaded its files, so
  when it succeeds the rules file holds the imported site groups only: whatever the file held before, it has no
  upstreams, no DNS nodes and no ECH profiles afterwards, and its site groups are the same as if it had
  been missing.\<close>

theorem cli_import_discards_rules:
  assumes "cmdConfig io1 io2 io3 ids readDoc [''import'', file] (NewRuleManager settings (Holds before) cache) = (ConfigImported s, rm)"
  shows "\<exists>sgs. rm_rulesFile rm = Holds \<lparr>rc_SiteGroups = sgs, rc_Upstreams = [], rc_DNSNodes = [], rc_ECHProfiles = []\<rparr> \<and>
    rm_rulesFile (snd (cmdConfig io1 io2 io3 ids readDoc [''import'', file] (NewRuleManager settings Missing cache))) =
      Holds \<lparr>rc_SiteGroups = sgs, rc_Upstreams = [], rc_DNSNodes = [], rc_ECHProfiles = []\<rparr>"
proof -
  have sub: "ToLower ''import'' = ''import''" by code_simp
  obtain doc where doc: "readDoc file = Inr doc" and imp: "ImportConfigWithSummary io2 ids doc (NewRuleManager settings (Holds before) cache) = (Inr s, rm)"
    using assms by (auto simp: cmdConfig_def sub split: sum.splits prod.splits)
  obtain out skipped where out: "importedGroups ids doc = (out, skipped)" by (rule prod.exhaust)
  have ok: "\<not> imd_blank doc" "out \<noteq> []" "io2 = None"
    using imp by (auto simp: ImportConfigWithSummary_def out saveRulesConfig_def Let_def split: if_splits option.splits)
  show ?thesis using imp
    by (simp add: cmdConfig_def sub doc ImportConfigWithSummary_def out ok saveRulesConfig_def Let_def rulesConfigOf_def NewRuleManager_def) auto
qed

definition oneRuleDoc :: importDoc where
  "oneRuleDoc = \<lparr>imd_blank = False, imd_mitm = None, imd_transparent = None,
     imd_self = Some \<lparr>cf_Version = ''2.0'', cf_Type = ''mitm'', cf_Rules = [exportRule exampleGroup]\<rparr>\<rparr>"

theorem cli_import_discards_rules_witness:
  "rc_Upstreams (rulesConfigOf exampleManager) \<noteq> [] \<and>
   (case rm_rulesFile (snd (cmdConfig None None None (\<lambda>n. ''new'') (\<lambda>_. Inr oneRuleDoc) [''import'', ''rules.json'']
      (NewRuleManager Missing (Holds (rulesConfigOf exampleManager)) None))) of
      Holds c \<Rightarrow> rc_Upstreams c = []
    | _ \<Rightarrow> False)"
proof -
  let ?res = "cmdConfig None None None (\<lambda>n. ''new'') (\<lambda>_. Inr oneRuleDoc) [''import'', ''rules.json'']
      (NewRuleManager Missing (Holds (rulesConfigOf exampleManager)) None)"
  have "case fst ?res of ConfigImported _ \<Rightarrow> True | _ \<Rightarrow> False" by code_simp
  then obtain s rm where res: "?res = (ConfigImported s, rm)" by (cases ?res) (auto split: configOut.splits)
  have "rc_Upstreams (rulesConfigOf exampleManager) \<noteq> []" by code_simp
  then show ?thesis using cli_import_discards_rules [OF res] res by auto
qed

end
