(* ===== verification/Tunnel.thy ===== *)
theory Tunnel
  imports Server_Lifecycle
begin

text \<open>
  The tunnel of \<open>src/proxy/proxy.go\<close>: \<open>directTunnel\<close> with its two copying goroutines (\<open>directConnect\<close> has the same
  loop), between a client connection that the listener has wrapped in \<open>statConn\<close> and \<open>wrapHijackedConn\<close> may have wrapped in
  \<open>bufferedReadConn\<close>, and an upstream connection. The goroutines, the two peers and the network interleave freely: the
  tunnel is a step relation. The copier of a side reads there and writes to the other side; the size of a read is
  whatever the connection delivers.
\<close>

section \<open>State\<close>

datatype side = Client | Upstream

fun other :: "side \<Rightarrow> side" where
  "other Client = Upstream"
| "other Upstream = Client"

text \<open>A connection: the bytes a reader in front of it holds (\<open>bufferedReadConn\<close>), the bytes the peer has sent since, whether
  it has ended its stream, how far we have read, what we have written, whether we hold it open and whether the
  network has failed.\<close>

record endpoint =
  ep_buffered :: bytes
  ep_sent :: bytes
  ep_fin :: bool
  ep_read :: nat
  ep_out :: bytes
  ep_open :: bool
  ep_reset :: bool

text \<open>A copier between two calls of \<open>io.CopyBuffer\<close>; \<open>Ended failed\<close> after it has returned and the goroutine has closed the
  destination.\<close>

datatype phase = Reading | Writing bytes | Ended bool

record tunnel =
  tn_end :: "side \<Rightarrow> endpoint"
  tn_copy :: "side \<Rightarrow> phase"
  tn_bytesUp :: "64 word"
  tn_bytesDown :: "64 word"

definition stream :: "endpoint \<Rightarrow> bytes" where
  "stream e = wrapHijackedConn (Some (ep_buffered e)) (ep_sent e)"

definition newEndpoint :: "bytes \<Rightarrow> endpoint" where
  "newEndpoint buffered = \<lparr>ep_buffered = buffered, ep_sent = [], ep_fin = False, ep_read = 0, ep_out = [], ep_open = True, ep_reset = False\<rparr>"

definition newTunnel :: "(side \<Rightarrow> bytes) \<Rightarrow> 64 word \<Rightarrow> 64 word \<Rightarrow> tunnel" where
  "newTunnel buffered up down =
     \<lparr>tn_end = (\<lambda>s. newEndpoint (buffered s)), tn_copy = (\<lambda>_. Reading), tn_bytesUp = up, tn_bytesDown = down\<rparr>"

definition setEnd :: "side \<Rightarrow> (endpoint \<Rightarrow> endpoint) \<Rightarrow> tunnel \<Rightarrow> tunnel" where
  "setEnd s f t = t\<lparr>tn_end := (tn_end t)(s := f (tn_end t s))\<rparr>"

definition setCopy :: "side \<Rightarrow> phase \<Rightarrow> tunnel \<Rightarrow> tunnel" where
  "setCopy s ph t = t\<lparr>tn_copy := (tn_copy t)(s := ph)\<rparr>"

section \<open>Operations\<close>

text \<open>How many bytes one read may return: first those in front, then those of the connection while it is open.\<close>

definition readable :: "endpoint \<Rightarrow> nat" where
  "readable e =
     (if ep_read e < length (ep_buffered e) then length (ep_buffered e) - ep_read e
      else if ep_open e then length (stream e) - ep_read e else 0)"

text \<open>\<open>Read\<close> of \<open>n\<close> bytes: those that come from the connection of the client count as \<open>bytesUp\<close>.\<close>

definition connRead :: "side \<Rightarrow> nat \<Rightarrow> tunnel \<Rightarrow> bytes \<times> tunnel" where
  "connRead s n t =
     (let e = tn_end t s; chunk = take n (drop (ep_read e) (stream e));
          counted = (s = Client \<and> length (ep_buffered e) \<le> ep_read e);
          t1 = (if counted then t\<lparr>tn_bytesUp := countBytes n (tn_bytesUp t)\<rparr> else t)
      in (chunk, setEnd s (\<lambda>e. e\<lparr>ep_read := ep_read e + n\<rparr>) t1))"

text \<open>\<open>Write\<close> that gets \<open>bs\<close> out: on the client's connection they count as \<open>bytesDown\<close>.\<close>

definition connWrite :: "side \<Rightarrow> bytes \<Rightarrow> tunnel \<Rightarrow> tunnel" where
  "connWrite d bs t =
     (let t1 = (if d = Client then t\<lparr>tn_bytesDown := countBytes (length bs) (tn_bytesDown t)\<rparr> else t)
      in setEnd d (\<lambda>e. e\<lparr>ep_out := ep_out e @ bs\<rparr>) t1)"

text \<open>The end of a goroutine: \<open>upstreamConn.Close()\<close> or \<open>clientConn.Close()\<close>, the whole connection and not its sending half.\<close>

definition finish :: "side \<Rightarrow> bool \<Rightarrow> tunnel \<Rightarrow> tunnel" where
  "finish s failed t = setCopy s (Ended failed) (setEnd (other s) (\<lambda>e. e\<lparr>ep_open := False\<rparr>) t)"

definition copyRead :: "side \<Rightarrow> nat \<Rightarrow> tunnel \<Rightarrow> tunnel" where
  "copyRead s n t = (let (chunk, t1) = connRead s n t in setCopy s (Writing chunk) t1)"

definition copyWrite :: "side \<Rightarrow> bytes \<Rightarrow> tunnel \<Rightarrow> tunnel" where
  "copyWrite s chunk t = setCopy s Reading (connWrite (other s) chunk t)"

definition broken :: "endpoint \<Rightarrow> bool" where
  "broken e \<longleftrightarrow> \<not> ep_open e \<or> ep_reset e"

text \<open>A step of a copier: a read, the end of the stream, an error of the read, a write, a write that fails after some bytes.\<close>

inductive copyStep :: "tunnel \<Rightarrow> tunnel \<Rightarrow> bool" where
  chunk_read: "tn_copy t s = Reading \<Longrightarrow> 0 < n \<Longrightarrow> n \<le> readable (tn_end t s) \<Longrightarrow> copyStep t (copyRead s n t)"
| stream_end: "tn_copy t s = Reading \<Longrightarrow> ep_fin (tn_end t s) \<Longrightarrow> ep_open (tn_end t s) \<Longrightarrow>
    ep_read (tn_end t s) = length (stream (tn_end t s)) \<Longrightarrow> copyStep t (finish s False t)"
| read_fails: "tn_copy t s = Reading \<Longrightarrow> length (ep_buffered (tn_end t s)) \<le> ep_read (tn_end t s) \<Longrightarrow>
    broken (tn_end t s) \<Longrightarrow> copyStep t (finish s True t)"
| chunk_written: "tn_copy t s = Writing chunk \<Longrightarrow> ep_open (tn_end t (other s)) \<Longrightarrow> copyStep t (copyWrite s chunk t)"
| write_fails: "tn_copy t s = Writing chunk \<Longrightarrow> broken (tn_end t (other s)) \<Longrightarrow> n < length chunk \<Longrightarrow>
    (ep_open (tn_end t (other s)) \<or> n = 0) \<Longrightarrow> copyStep t (finish s True (connWrite (other s) (take n chunk) t))"

text \<open>What the peers and the network may do at any time.\<close>

inductive peerStep :: "tunnel \<Rightarrow> tunnel \<Rightarrow> bool" where
  peer_sends: "\<not> ep_fin (tn_end t s) \<Longrightarrow> peerStep t (setEnd s (\<lambda>e. e\<lparr>ep_sent := ep_sent e @ bs\<rparr>) t)"
| peer_ends: "peerStep t (setEnd s (\<lambda>e. e\<lparr>ep_fin := True\<rparr>) t)"
| peer_resets: "peerStep t (setEnd s (\<lambda>e. e\<lparr>ep_reset := True\<rparr>) t)"

definition tunnelStep :: "tunnel \<Rightarrow> tunnel \<Rightarrow> bool" where
  "tunnelStep t t' \<longleftrightarrow> copyStep t t' \<or> peerStep t t'"

section \<open>The invariant\<close>

definition copied :: "tunnel \<Rightarrow> side \<Rightarrow> bool" where
  "copied t s =
     (let e = tn_end t s; written = ep_out (tn_end t (other s)) in
      ep_read e \<le> length (stream e) \<and>
      (case tn_copy t s of
         Reading \<Rightarrow> written = take (ep_read e) (stream e)
       | Writing chunk \<Rightarrow> chunk \<noteq> [] \<and> written @ chunk = take (ep_read e) (stream e)
       | Ended failed \<Rightarrow> prefix written (take (ep_read e) (stream e)) \<and> \<not> ep_open (tn_end t (other s)) \<and>
           (failed \<or> ep_fin e \<and> written = stream e)))"

definition counted :: "64 word \<Rightarrow> 64 word \<Rightarrow> tunnel \<Rightarrow> bool" where
  "counted up down t \<longleftrightarrow>
     tn_bytesUp t = up + word_of_nat (ep_read (tn_end t Client) - length (ep_buffered (tn_end t Client))) \<and>
     tn_bytesDown t = down + word_of_nat (length (ep_out (tn_end t Client)))"

definition tunnelInv :: "64 word \<Rightarrow> 64 word \<Rightarrow> tunnel \<Rightarrow> bool" where
  "tunnelInv up down t \<longleftrightarrow> copied t Client \<and> copied t Upstream \<and> counted up down t"

lemma other_simps [simp]: "other (other s) = s" "other s \<noteq> s" "s \<noteq> other s"
  by (cases s; simp)+

lemma other_cases: "P Client \<and> P Upstream \<longleftrightarrow> P s \<and> P (other s)"
  by (cases s) auto

lemma stream_eq: "stream e = ep_buffered e @ ep_sent e"
  by (simp add: stream_def wrapHijackedConn_def)

lemma stream_keep [simp]:
  "stream (e\<lparr>ep_read := n\<rparr>) = stream e" "stream (e\<lparr>ep_out := bs\<rparr>) = stream e" "stream (e\<lparr>ep_open := b\<rparr>) = stream e"
  "stream (e\<lparr>ep_fin := b\<rparr>) = stream e" "stream (e\<lparr>ep_reset := b\<rparr>) = stream e"
  by (simp_all add: stream_eq)

lemmas tunnel_ops = setEnd_def setCopy_def connRead_def connWrite_def finish_def copyRead_def copyWrite_def Let_def

lemma readable_le: "ep_read e \<le> length (stream e) \<Longrightarrow> n \<le> readable e \<Longrightarrow> ep_read e + n \<le> length (stream e)"
  by (auto simp: readable_def stream_eq split: if_splits)

lemma take_chunk: "take r xs @ take n (drop r xs) = take (r + n) xs"
  by (simp add: take_add)

lemma copied_other:
  assumes "copied t (other s)"
  shows "copied (copyRead s n t) (other s)" "copied (finish s failed t) (other s)" "copied (connWrite (other s) bs t) (other s)"
    "copied (copyWrite s chunk t) (other s)"
  using assms by (cases s; auto simp: copied_def tunnel_ops split: phase.splits)+

lemma copied_read:
  assumes "copied t s" "tn_copy t s = Reading" "0 < n" "n \<le> readable (tn_end t s)"
  shows "copied (copyRead s n t) s"
  using assms readable_le [of "tn_end t s" n]
  by (auto simp: copied_def tunnel_ops take_chunk [symmetric])

lemma copied_written:
  assumes "copied t s" "tn_copy t s = Writing chunk"
  shows "copied (copyWrite s chunk t) s"
  using assms by (auto simp: copied_def tunnel_ops)

lemma copied_ends:
  assumes "copied t s" "tn_copy t s = Reading"
  shows "copied (finish s True t) s"
    "ep_fin (tn_end t s) \<Longrightarrow> ep_read (tn_end t s) = length (stream (tn_end t s)) \<Longrightarrow> copied (finish s False t) s"
  using assms by (auto simp: copied_def tunnel_ops)

lemma prefix_chunk: "w @ chunk = xs \<Longrightarrow> prefix (w @ take n chunk) xs"
  using take_is_prefix [of n chunk] by auto

lemma copied_write_fails:
  assumes "copied t s" "tn_copy t s = Writing chunk"
  shows "copied (finish s True (connWrite (other s) (take n chunk) t)) s"
  using assms by (auto simp: copied_def tunnel_ops intro: prefix_chunk)

lemma counted_ops:
  assumes "counted up down t"
  shows "n \<le> readable (tn_end t s) \<Longrightarrow> counted up down (copyRead s n t)" "counted up down (finish s failed t)"
    "counted up down (connWrite (other s) bs t)" "counted up down (copyWrite s bs t)"
proof -
  show "counted up down (connWrite (other s) bs t)" "counted up down (copyWrite s bs t)" "counted up down (finish s failed t)"
    using assms by (cases s; auto simp: counted_def tunnel_ops countBytes_def of_nat_add)+
  assume n: "n \<le> readable (tn_end t s)"
  show "counted up down (copyRead s n t)"
  proof (cases "length (ep_buffered (tn_end t s)) \<le> ep_read (tn_end t s)")
    case True
    then have "ep_read (tn_end t s) + n - length (ep_buffered (tn_end t s)) = (ep_read (tn_end t s) - length (ep_buffered (tn_end t s))) + n" by simp
    then show ?thesis using True assms by (cases s) (auto simp: counted_def tunnel_ops countBytes_def)
  next
    case False
    then show ?thesis using n assms by (cases s) (auto simp: counted_def tunnel_ops readable_def)
  qed
qed

lemma copyStep_inv: "copyStep t t' \<Longrightarrow> tunnelInv up down t \<Longrightarrow> tunnelInv up down t'"
proof (induction rule: copyStep.induct)
  case (chunk_read t s n)
  then show ?case unfolding tunnelInv_def conj_assoc [symmetric] other_cases [of "copied _" s]
    by (simp add: copied_other copied_read counted_ops)
next
  case (stream_end t s)
  then show ?case unfolding tunnelInv_def conj_assoc [symmetric] other_cases [of "copied _" s]
    by (simp add: copied_other copied_ends counted_ops)
next
  case (read_fails t s)
  then show ?case unfolding tunnelInv_def conj_assoc [symmetric] other_cases [of "copied _" s]
    by (simp add: copied_other copied_ends counted_ops)
next
  case (chunk_written t s chunk)
  then show ?case unfolding tunnelInv_def conj_assoc [symmetric] other_cases [of "copied _" s]
    by (simp add: copied_other copied_written counted_ops)
next
  case (write_fails t s chunk n)
  then show ?case unfolding tunnelInv_def conj_assoc [symmetric] other_cases [of "copied _" s]
    by (simp add: copied_other copied_write_fails counted_ops)
qed

lemma copied_peer:
  assumes "copied t s'"
  shows "\<not> ep_fin (tn_end t s) \<Longrightarrow> copied (setEnd s (\<lambda>e. e\<lparr>ep_sent := ep_sent e @ bs\<rparr>) t) s'"
    "copied (setEnd s (\<lambda>e. e\<lparr>ep_fin := True\<rparr>) t) s'" "copied (setEnd s (\<lambda>e. e\<lparr>ep_reset := True\<rparr>) t) s'"
proof -
  have more: "stream (e\<lparr>ep_sent := ep_sent e @ bs\<rparr>) = stream e @ bs" for e by (simp add: stream_eq)
  have cases: "s' = s \<or> other s' = s" by (cases s; cases s') simp_all
  show "copied (setEnd s (\<lambda>e. e\<lparr>ep_fin := True\<rparr>) t) s'" "copied (setEnd s (\<lambda>e. e\<lparr>ep_reset := True\<rparr>) t) s'"
    using assms cases by (auto simp: copied_def setEnd_def Let_def split: phase.splits)
  assume "\<not> ep_fin (tn_end t s)"
  then show "copied (setEnd s (\<lambda>e. e\<lparr>ep_sent := ep_sent e @ bs\<rparr>) t) s'"
    using assms cases by (auto simp: copied_def setEnd_def Let_def more split: phase.splits)
qed

lemma peerStep_inv: "peerStep t t' \<Longrightarrow> tunnelInv up down t \<Longrightarrow> tunnelInv up down t'"
  by (induction rule: peerStep.induct) (simp_all add: tunnelInv_def copied_peer, simp_all add: counted_def setEnd_def)

interpretation tunnel: step_system tunnelStep "(=) (newTunnel buffered up down)" "tunnelInv up down" for buffered up down
proof
  show "(=) (newTunnel buffered up down) t \<Longrightarrow> tunnelInv up down t" for t
    by (auto simp: tunnelInv_def copied_def counted_def newTunnel_def newEndpoint_def stream_eq)
  show "tunnelStep t t' \<Longrightarrow> tunnelInv up down t \<Longrightarrow> tunnelInv up down t'" for t t'
    by (auto simp: tunnelStep_def intro: copyStep_inv peerStep_inv)
qed

section \<open>Properties\<close>

lemma copied_prefix: "copied t s \<Longrightarrow> prefix (ep_out (tn_end t (other s))) (take (ep_read (tn_end t s)) (stream (tn_end t s)))"
  by (auto simp: copied_def Let_def split: phase.splits) (metis prefixI)

text \<open>C28. Whatever the interleaving, the tunnel loses, repeats and reorders nothing: what either side has been sent is the first
  part of what the other side's peer sent, the bytes the server had already buffered at the hijack first; when
  a copier has ended without an error its peer's whole stream has been delivered. The counters of the server have
  grown, modulo \<open>2^64\<close>, by the bytes read from the client's connection and the bytes written to it.\<close>

theorem tunnel_relays:
  assumes "tunnelStep\<^sup>*\<^sup>* (newTunnel buffered up down) t"
  shows "prefix (ep_out (tn_end t (other s))) (stream (tn_end t s)) \<and>
    (tn_copy t s = Ended False \<longrightarrow> ep_out (tn_end t (other s)) = stream (tn_end t s)) \<and>
    tn_bytesUp t = up + word_of_nat (ep_read (tn_end t Client) - length (ep_buffered (tn_end t Client))) \<and>
    tn_bytesDown t = down + word_of_nat (length (ep_out (tn_end t Client)))"
proof -
  have inv: "tunnelInv up down t" by (rule tunnel.reachable_inv [OF refl assms])
  then have "copied t s" using other_cases [of "copied t" s] by (simp add: tunnelInv_def)
  then have "prefix (ep_out (tn_end t (other s))) (stream (tn_end t s)) \<and>
      (tn_copy t s = Ended False \<longrightarrow> ep_out (tn_end t (other s)) = stream (tn_end t s))"
    using prefix_order.trans [OF copied_prefix take_is_prefix] by (auto simp: copied_def Let_def)
  then show ?thesis using inv by (simp add: tunnelInv_def counted_def)
qed

text \<open>Termination: the work left of a copier falls with each of its steps, and a copier whose source has been closed is never stuck.\<close>

definition workLeft :: "tunnel \<Rightarrow> side \<Rightarrow> nat" where
  "workLeft t s =
     (let unread = length (stream (tn_end t s)) - ep_read (tn_end t s) in
      case tn_copy t s of Reading \<Rightarrow> 2 * unread + 1 | Writing _ \<Rightarrow> 2 * unread + 2 | Ended _ \<Rightarrow> 0)"

lemma workLeft_other:
  "workLeft (copyRead s n t) (other s) = workLeft t (other s)" "workLeft (copyWrite s chunk t) (other s) = workLeft t (other s)"
  "workLeft (finish s failed t) (other s) = workLeft t (other s)" "workLeft (connWrite (other s) bs t) (other s) = workLeft t (other s)"
  by (auto simp: workLeft_def tunnel_ops split: phase.split)

lemma readable_unread: "readable e \<le> length (stream e) - ep_read e"
  by (auto simp: readable_def stream_eq)

lemma copyStep_work: "copyStep t t' \<Longrightarrow> workLeft t' Client + workLeft t' Upstream < workLeft t Client + workLeft t Upstream"
proof (induction rule: copyStep.induct)
  case (chunk_read t s n)
  have "workLeft (copyRead s n t) s < workLeft t s"
    using chunk_read readable_unread [of "tn_end t s"] by (auto simp: workLeft_def tunnel_ops)
  then show ?case using workLeft_other(1) [of s n t] by (cases s) simp_all
next
  case (stream_end t s)
  then show ?case using workLeft_other(3) [of s False t] by (cases s) (simp_all add: workLeft_def finish_def setCopy_def)
next
  case (read_fails t s)
  then show ?case using workLeft_other(3) [of s True t] by (cases s) (simp_all add: workLeft_def finish_def setCopy_def)
next
  case (chunk_written t s chunk)
  have "workLeft (copyWrite s chunk t) s < workLeft t s" using chunk_written by (auto simp: workLeft_def tunnel_ops)
  then show ?case using workLeft_other(2) [of s chunk t] by (cases s) simp_all
next
  case (write_fails t s chunk n)
  let ?t = "finish s True (connWrite (other s) (take n chunk) t)"
  have "workLeft ?t s < workLeft t s" "workLeft ?t (other s) = workLeft t (other s)"
    using write_fails by (simp_all add: workLeft_other, auto simp: workLeft_def finish_def setCopy_def)
  then show ?case by (cases s) simp_all
qed

lemma copy_progress:
  assumes "copied t s" "\<not> ep_open (tn_end t s)" "\<nexists>failed. tn_copy t s = Ended failed"
  shows "\<exists>t'. copyStep t t'"
proof (cases "tn_copy t s")
  case Reading
  show ?thesis
  proof (cases "ep_read (tn_end t s) < length (ep_buffered (tn_end t s))")
    case True
    then have "copyStep t (copyRead s 1 t)" by (intro copyStep.chunk_read [OF Reading]) (auto simp: readable_def)
    then show ?thesis by blast
  next
    case False
    then show ?thesis using copyStep.read_fails [OF Reading] assms by (auto simp: broken_def)
  qed
next
  case (Writing chunk)
  then have "chunk \<noteq> []" using assms(1) by (simp add: copied_def Let_def)
  then show ?thesis using Writing copyStep.chunk_written [OF Writing] copyStep.write_fails [OF Writing, of 0]
    by (cases "ep_open (tn_end t (other s))") (auto simp: broken_def)
qed (use assms in auto)

lemma ended_step: "tunnelStep t t' \<Longrightarrow> tn_copy t s = Ended failed \<Longrightarrow> tn_copy t' s = Ended failed"
  by (auto simp: tunnelStep_def tunnel_ops elim!: copyStep.cases peerStep.cases)

lemma ended_steps: "tunnelStep\<^sup>*\<^sup>* t t' \<Longrightarrow> tn_copy t s = Ended failed \<Longrightarrow> tn_copy t' s = Ended failed"
  by (induction rule: rtranclp_induct) (auto intro: ended_step)


definition halted :: "nat \<Rightarrow> tunnel \<Rightarrow> bool" where
  "halted r t \<longleftrightarrow> (\<exists>failed. tn_copy t Client = Ended failed) \<and> \<not> ep_open (tn_end t Upstream) \<and>
     length (ep_buffered (tn_end t Upstream)) \<le> ep_read (tn_end t Upstream) \<and> ep_read (tn_end t Upstream) = r"

lemma halted_step: "tunnelStep t t' \<Longrightarrow> halted r t \<Longrightarrow> halted r t'"
  unfolding tunnelStep_def
proof (elim disjE)
  show "copyStep t t' \<Longrightarrow> halted r t \<Longrightarrow> halted r t'"
  proof (induction rule: copyStep.induct)
    case (chunk_read t s n)
    then show ?case by (cases s) (simp_all add: halted_def readable_def)
  next
    case (stream_end t s)
    then show ?case by (cases s) (simp_all add: halted_def)
  next
    case (read_fails t s)
    then show ?case by (cases s) (simp_all add: halted_def tunnel_ops)
  next
    case (chunk_written t s chunk)
    then show ?case by (cases s) (simp_all add: halted_def tunnel_ops)
  next
    case (write_fails t s chunk n)
    then show ?case by (cases s) (simp_all add: halted_def tunnel_ops)
  qed
  show "peerStep t t' \<Longrightarrow> halted r t \<Longrightarrow> halted r t'"
    by (induction rule: peerStep.induct) (simp_all add: halted_def setEnd_def)
qed

text \<open>C39. The tunnel does not pass a half-close on. When a client has ended its sending side and the copier towards the upstream
  is done, the upstream connection is closed as a whole: nothing the upstream sends from then on reaches
  the client, only what had been read before.\<close>

theorem half_close_cuts_answer:
  assumes "tunnelStep\<^sup>*\<^sup>* (newTunnel buffered up down) t" "tn_copy t Client = Ended failed"
    and "length (ep_buffered (tn_end t Upstream)) \<le> ep_read (tn_end t Upstream)" "tunnelStep\<^sup>*\<^sup>* t t'"
  shows "prefix (ep_out (tn_end t' Client)) (take (ep_read (tn_end t Upstream)) (stream (tn_end t' Upstream)))"
proof -
  have inv: "tunnelInv up down u" if "tunnelStep\<^sup>*\<^sup>* t u" for u
    by (rule tunnel.reachable_inv [OF refl rtranclp_trans [OF assms(1) that]])
  have "halted (ep_read (tn_end t Upstream)) t"
    using inv [OF rtranclp.rtrancl_refl] assms(2,3) by (auto simp: halted_def tunnelInv_def copied_def Let_def)
  with assms(4) have "halted (ep_read (tn_end t Upstream)) t'"
    by (induction rule: rtranclp_induct) (auto intro: halted_step)
  then show ?thesis using copied_prefix [of t' Upstream] inv [OF assms(4)] by (simp add: halted_def tunnelInv_def)
qed

text \<open>A concrete run: the client sends a request and ends its stream, the copier passes both on, then the upstream answers.\<close>

definition exampleStart :: tunnel where
  "exampleStart = newTunnel (\<lambda>_. []) 0 0"

definition exampleAsked :: tunnel where
  "exampleAsked = setEnd Client (\<lambda>e. e\<lparr>ep_fin := True\<rparr>)
     (copyWrite Client [7, 7] (copyRead Client 2 (setEnd Client (\<lambda>e. e\<lparr>ep_sent := ep_sent e @ [7, 7]\<rparr>) exampleStart)))"

definition exampleEnded :: tunnel where
  "exampleEnded = finish Client False exampleAsked"

definition exampleAnswered :: tunnel where
  "exampleAnswered = setEnd Upstream (\<lambda>e. e\<lparr>ep_sent := ep_sent e @ [9]\<rparr>) exampleEnded"

lemmas example_defs = exampleAnswered_def exampleEnded_def exampleAsked_def exampleStart_def newTunnel_def newEndpoint_def stream_eq

lemma example_run: "tunnelStep\<^sup>*\<^sup>* exampleStart exampleEnded" "tunnelStep\<^sup>*\<^sup>* exampleEnded exampleAnswered"
proof -
  let ?t1 = "setEnd Client (\<lambda>e. e\<lparr>ep_sent := ep_sent e @ [7, 7]\<rparr>) exampleStart"
  have 1: "tunnelStep exampleStart ?t1" unfolding tunnelStep_def
    by (rule disjI2, rule peerStep.peer_sends) (simp add: example_defs)
  have 2: "tunnelStep ?t1 (copyRead Client 2 ?t1)" unfolding tunnelStep_def
    by (rule disjI1, rule copyStep.chunk_read) (simp_all add: example_defs setEnd_def readable_def)
  have 3: "tunnelStep (copyRead Client 2 ?t1) (copyWrite Client [7, 7] (copyRead Client 2 ?t1))" unfolding tunnelStep_def
    by (rule disjI1, rule copyStep.chunk_written) (simp_all add: example_defs tunnel_ops)
  have 4: "tunnelStep (copyWrite Client [7, 7] (copyRead Client 2 ?t1)) exampleAsked" unfolding tunnelStep_def exampleAsked_def
    by (rule disjI2, rule peerStep.peer_ends)
  have 5: "tunnelStep exampleAsked exampleEnded" unfolding tunnelStep_def exampleEnded_def
    by (rule disjI1, rule copyStep.stream_end) (simp_all add: example_defs tunnel_ops)
  show "tunnelStep\<^sup>*\<^sup>* exampleStart exampleEnded"
    using r_into_rtranclp [of tunnelStep, OF 1] 2 3 4 5 by (auto dest: rtranclp.rtrancl_into_rtrancl)
  show "tunnelStep\<^sup>*\<^sup>* exampleEnded exampleAnswered" unfolding exampleAnswered_def
    by (rule r_into_rtranclp, unfold tunnelStep_def, rule disjI2, rule peerStep.peer_sends) (simp add: example_defs tunnel_ops)
qed

lemma example_state:
  "tn_copy exampleEnded Client = Ended False" "ep_read (tn_end exampleEnded Upstream) = 0"
  "ep_buffered (tn_end exampleEnded Upstream) = []" "stream (tn_end exampleEnded Client) = [7, 7]"
  "stream (tn_end exampleAnswered Upstream) = [9]"
  by (simp_all add: example_defs tunnel_ops)

theorem tunnel_relays_witness:
  "ep_out (tn_end exampleEnded Upstream) = [7, 7]"
  using tunnel_relays [OF example_run(1) [unfolded exampleStart_def], of Client] by (simp add: example_state)

lemma example_last: "copyStep exampleEnded (finish Upstream True exampleEnded)" "\<not> copyStep (finish Upstream True exampleEnded) t"
proof -
  show "copyStep exampleEnded (finish Upstream True exampleEnded)"
    by (rule copyStep.read_fails) (simp_all add: example_defs tunnel_ops broken_def)
  have "tn_copy (finish Upstream True exampleEnded) s = Ended (s = Upstream)" for s
    by (cases s) (simp_all add: example_defs tunnel_ops)
  then show "\<not> copyStep (finish Upstream True exampleEnded) t" by (auto elim: copyStep.cases)
qed


theorem half_close_cuts_answer_witness:
  "stream (tn_end exampleAnswered Upstream) = [9] \<and> ep_out (tn_end exampleAnswered Client) = []"
  using half_close_cuts_answer [OF example_run(1) [unfolded exampleStart_def] example_state(1) _ example_run(2)]
  by (simp add: example_state)

end
