(* ===== verification/Utls_Bytes.thy ===== *)
theory Utls_Bytes
  imports Addresses
begin

text \<open>
  What the theories on \<open>src/utls\<close> share: 16-bit numbers in network order, the bytes of a string, the name a client
  may send (\<open>hostnameInSNI\<close> of \<open>src/utls/handshake_client.go\<close>), and the reader \<open>golang.org/x/crypto/cryptobyte\<close>. That package
  is not part of the repository: its operations are the fields of a record, and the locale states what its
  documentation says of them.
\<close>

type_synonym u16 = "16 word"

unbundle bit_operations_syntax

section \<open>Encoding\<close>

text \<open>\<open>byte(n >> 8), byte(n)\<close>: the number modulo \<open>2^16\<close>.\<close>

definition be16 :: "nat \<Rightarrow> bytes" where
  "be16 n = [word_of_nat (n div 256), word_of_nat n]"

definition be16w :: "u16 \<Rightarrow> bytes" where
  "be16w w = be16 (unat w)"

definition strBytes :: "string \<Rightarrow> bytes" where
  "strBytes s = map (\<lambda>c. word_of_nat (of_char c)) s"

definition bytesStr :: "bytes \<Rightarrow> string" where
  "bytesStr bs = map (\<lambda>b. char_of (unat b)) bs"

text \<open>A number read back: two bytes, and the 16-bit word they are.\<close>

definition val16 :: "byte \<Rightarrow> byte \<Rightarrow> u16" where
  "val16 a b = word_of_nat (256 * unat a + unat b)"

text \<open>The same for 32 bits.\<close>

definition be32w :: "32 word \<Rightarrow> bytes" where
  "be32w w = [ucast (drop_bit 24 w), ucast (drop_bit 16 w), ucast (drop_bit 8 w), ucast w]"

definition val32 :: "byte \<Rightarrow> byte \<Rightarrow> byte \<Rightarrow> byte \<Rightarrow> 32 word" where
  "val32 a b c d = push_bit 24 (ucast a) OR push_bit 16 (ucast b) OR push_bit 8 (ucast c) OR ucast d"

lemma length_be32 [simp]: "length (be32w w) = 4"
  by (simp add: be32w_def)

lemma val32_be32: "be32w w = [a, b, c, d] \<Longrightarrow> val32 a b c d = w"
proof (rule bit_word_eqI)
  fix n assume "be32w w = [a, b, c, d]" and "n < LENGTH(32)"
  then show "bit (val32 a b c d) n = bit w n"
    by (cases "n < 16"; cases "n < 24")
      (auto simp: be32w_def val32_def bit_or_iff bit_push_bit_iff bit_drop_bit_eq bit_ucast_iff possible_bit_def not_le not_less)
qed

lemma length_be16 [simp]: "length (be16 n) = 2" "length (be16w w) = 2"
  by (simp_all add: be16_def be16w_def)

lemma be16_nonempty [simp]: "be16 n \<noteq> []" "be16w w \<noteq> []"
  by (simp_all add: be16_def be16w_def)

lemma length_strBytes [simp]: "length (strBytes s) = length s" "strBytes s = [] \<longleftrightarrow> s = []" "length (bytesStr bs) = length bs"
  by (simp_all add: strBytes_def bytesStr_def)

lemma bytesStr_strBytes [simp]: "bytesStr (strBytes s) = s"
proof -
  have "char_of (unat (word_of_nat (of_char c) :: byte)) = c" for c :: char
  proof -
    have "(of_char c :: nat) < 256" by (rule nat_of_char_less_256)
    then have "unat (word_of_nat (of_char c) :: byte) = of_char c" by (simp add: unat_of_nat take_bit_nat_eq_self_iff)
    then show ?thesis by simp
  qed
  then show ?thesis by (simp add: strBytes_def bytesStr_def map_idI)
qed

lemma val16_be16: "be16 n = [a, b] \<Longrightarrow> val16 a b = word_of_nat n"
proof -
  assume "be16 n = [a, b]"
  then have "256 * unat a + unat b = 256 * (n div 256 mod 256) + n mod 256"
    by (auto simp: be16_def unat_of_nat take_bit_eq_mod)
  also have "\<dots> = n mod 65536" using mod_mult2_eq [of n 256 256] by (simp add: ac_simps)
  finally show ?thesis
    by (simp add: val16_def word_of_nat_eq_iff take_bit_eq_mod)
qed

section \<open>Reading\<close>

text \<open>A reader returns what it read and the rest, \<open>None\<close> when the input is too short. A builder writes the length of some
  bytes in front of them and fails when it does not fit.\<close>

record cryptobyte =
  cb_ReadUint8 :: "bytes \<Rightarrow> (byte \<times> bytes) option"
  cb_ReadUint16 :: "bytes \<Rightarrow> (u16 \<times> bytes) option"
  cb_ReadUint24 :: "bytes \<Rightarrow> (nat \<times> bytes) option"
  cb_ReadUint32 :: "bytes \<Rightarrow> (32 word \<times> bytes) option"
  cb_ReadBytes :: "nat \<Rightarrow> bytes \<Rightarrow> (bytes \<times> bytes) option"
  cb_ReadUint8LengthPrefixed :: "bytes \<Rightarrow> (bytes \<times> bytes) option"
  cb_ReadUint16LengthPrefixed :: "bytes \<Rightarrow> (bytes \<times> bytes) option"
  cb_ReadUint24LengthPrefixed :: "bytes \<Rightarrow> (bytes \<times> bytes) option"
  cb_Skip :: "nat \<Rightarrow> bytes \<Rightarrow> bytes option"
  cb_AddUint8LengthPrefixed :: "bytes \<Rightarrow> bytes option"
  cb_AddUint16LengthPrefixed :: "bytes \<Rightarrow> bytes option"
  cb_AddUint24LengthPrefixed :: "bytes \<Rightarrow> bytes option"

definition takeBytes :: "nat \<Rightarrow> bytes \<Rightarrow> (bytes \<times> bytes) option" where
  "takeBytes n s = (if n \<le> length s then Some (take n s, drop n s) else None)"

text \<open>A number of three bytes.\<close>

definition be24 :: "nat \<Rightarrow> bytes" where
  "be24 n = [word_of_nat (n div 65536), word_of_nat (n div 256), word_of_nat n]"

definition val24 :: "byte \<Rightarrow> byte \<Rightarrow> byte \<Rightarrow> nat" where
  "val24 a b c = 65536 * unat a + 256 * unat b + unat c"

lemma val24_be24: "be24 n = [a, b, c] \<Longrightarrow> n < 16777216 \<Longrightarrow> val24 a b c = n"
proof -
  assume *: "be24 n = [a, b, c]" "n < 16777216"
  then have "n div 65536 < 256" by simp
  then have "val24 a b c = 65536 * (n div 65536) + 256 * (n div 256 mod 256) + n mod 256"
    using * by (auto simp: be24_def val24_def unat_of_nat take_bit_eq_mod)
  moreover have "256 * (n div 256 mod 256) + n mod 256 = n mod 65536" using mod_mult2_eq [of n 256 256] by simp
  ultimately show ?thesis using mult_div_mod_eq [of 65536 n] by linarith
qed

lemma length_be24 [simp]: "length (be24 n) = 3"
  by (simp add: be24_def)

definition cryptobyteRef :: cryptobyte where
  "cryptobyteRef =
     \<lparr>cb_ReadUint8 = (\<lambda>s. case s of a # r \<Rightarrow> Some (a, r) | _ \<Rightarrow> None),
      cb_ReadUint16 = (\<lambda>s. case s of a # b # r \<Rightarrow> Some (val16 a b, r) | _ \<Rightarrow> None),
      cb_ReadUint24 = (\<lambda>s. case s of a # b # c # r \<Rightarrow> Some (val24 a b c, r) | _ \<Rightarrow> None),
      cb_ReadUint32 = (\<lambda>s. case s of a # b # c # d # r \<Rightarrow> Some (val32 a b c d, r) | _ \<Rightarrow> None),
      cb_ReadBytes = takeBytes,
      cb_ReadUint8LengthPrefixed = (\<lambda>s. case s of a # r \<Rightarrow> takeBytes (unat a) r | _ \<Rightarrow> None),
      cb_ReadUint16LengthPrefixed = (\<lambda>s. case s of a # b # r \<Rightarrow> takeBytes (unat (val16 a b)) r | _ \<Rightarrow> None),
      cb_ReadUint24LengthPrefixed = (\<lambda>s. case s of a # b # c # r \<Rightarrow> takeBytes (val24 a b c) r | _ \<Rightarrow> None),
      cb_Skip = (\<lambda>n s. if n \<le> length s then Some (drop n s) else None),
      cb_AddUint8LengthPrefixed = (\<lambda>s. if length s < 256 then Some (word_of_nat (length s) # s) else None),
      cb_AddUint16LengthPrefixed = (\<lambda>s. if length s < 65536 then Some (be16 (length s) @ s) else None),
      cb_AddUint24LengthPrefixed = (\<lambda>s. if length s < 16777216 then Some (be24 (length s) @ s) else None)\<rparr>"

text \<open>The documented behaviour: numbers in network order, and byte strings of a given or a prefixed length.\<close>

locale cryptobyte_reader =
  fixes cb :: cryptobyte
  assumes ReadUint8: "cb_ReadUint8 cb s = (case s of a # r \<Rightarrow> Some (a, r) | _ \<Rightarrow> None)"
    and ReadUint16: "cb_ReadUint16 cb s = (case s of a # b # r \<Rightarrow> Some (val16 a b, r) | _ \<Rightarrow> None)"
    and ReadUint24: "cb_ReadUint24 cb s = (case s of a # b # c # r \<Rightarrow> Some (val24 a b c, r) | _ \<Rightarrow> None)"
    and ReadUint32: "cb_ReadUint32 cb s = (case s of a # b # c # d # r \<Rightarrow> Some (val32 a b c d, r) | _ \<Rightarrow> None)"
    and ReadBytes: "cb_ReadBytes cb n s = takeBytes n s"
    and ReadUint8LengthPrefixed:
      "cb_ReadUint8LengthPrefixed cb s = (case cb_ReadUint8 cb s of None \<Rightarrow> None | Some (n, r) \<Rightarrow> takeBytes (unat n) r)"
    and ReadUint16LengthPrefixed:
      "cb_ReadUint16LengthPrefixed cb s = (case cb_ReadUint16 cb s of None \<Rightarrow> None | Some (n, r) \<Rightarrow> takeBytes (unat n) r)"
    and ReadUint24LengthPrefixed:
      "cb_ReadUint24LengthPrefixed cb s = (case s of a # b # c # r \<Rightarrow> takeBytes (val24 a b c) r | _ \<Rightarrow> None)"
    and Skip: "cb_Skip cb n s = (if n \<le> length s then Some (drop n s) else None)"
    and AddUint8LengthPrefixed:
      "cb_AddUint8LengthPrefixed cb s = (if length s < 256 then Some (word_of_nat (length s) # s) else None)"
    and AddUint16LengthPrefixed:
      "cb_AddUint16LengthPrefixed cb s = (if length s < 65536 then Some (be16 (length s) @ s) else None)"
    and AddUint24LengthPrefixed:
      "cb_AddUint24LengthPrefixed cb s = (if length s < 16777216 then Some (be24 (length s) @ s) else None)"
begin

lemma ReadUint8_Cons [simp]: "cb_ReadUint8 cb (a # r) = Some (a, r)" "cb_ReadUint8 cb [] = None"
  by (simp_all add: ReadUint8)

lemma ReadUint16_be16 [simp]: "cb_ReadUint16 cb (be16 n @ r) = Some (word_of_nat n, r)"
  using val16_be16 [of n] by (simp add: ReadUint16 be16_def)

lemma ReadUint16_be16w [simp]: "cb_ReadUint16 cb (be16w w @ r) = Some (w, r)"
  by (simp add: be16w_def)

lemma ReadUint8_prefixed [simp]: "length bs < 256 \<Longrightarrow> cb_ReadUint8LengthPrefixed cb (word_of_nat (length bs) # bs @ r) = Some (bs, r)"
  by (simp add: ReadUint8LengthPrefixed takeBytes_def unat_of_nat take_bit_nat_eq_self_iff)

lemma ReadUint16_prefixed [simp]: "length bs < 65536 \<Longrightarrow> cb_ReadUint16LengthPrefixed cb (be16 (length bs) @ bs @ r) = Some (bs, r)"
  by (simp add: ReadUint16LengthPrefixed takeBytes_def unat_of_nat take_bit_nat_eq_self_iff)

lemma ReadUint16_prefixed' [simp]:
  "n = length bs \<Longrightarrow> n < 65536 \<Longrightarrow> cb_ReadUint16LengthPrefixed cb (be16 n @ bs @ r) = Some (bs, r)"
  "n = length bs \<Longrightarrow> n < 65536 \<Longrightarrow> cb_ReadUint16LengthPrefixed cb (be16 n @ bs) = Some (bs, [])"
  using ReadUint16_prefixed [of bs r] ReadUint16_prefixed [of bs "[]"] by simp_all

lemma ReadUint8_prefixed' [simp]:
  "n = length bs \<Longrightarrow> n < 256 \<Longrightarrow> cb_ReadUint8LengthPrefixed cb (word_of_nat n # bs @ r) = Some (bs, r)"
  "n = length bs \<Longrightarrow> n < 256 \<Longrightarrow> cb_ReadUint8LengthPrefixed cb (word_of_nat n # bs) = Some (bs, [])"
  using ReadUint8_prefixed [of bs r] ReadUint8_prefixed [of bs "[]"] by simp_all

lemma ReadUint24_prefixed [simp]:
  "n = length bs \<Longrightarrow> n < 16777216 \<Longrightarrow> cb_ReadUint24LengthPrefixed cb (be24 n @ bs @ r) = Some (bs, r)"
  "n = length bs \<Longrightarrow> n < 16777216 \<Longrightarrow> cb_ReadUint24LengthPrefixed cb (be24 n @ bs) = Some (bs, [])"
  using val24_be24 [of n] by (simp_all add: ReadUint24LengthPrefixed takeBytes_def be24_def)

lemma ReadUint24_be24 [simp]: "n < 16777216 \<Longrightarrow> cb_ReadUint24 cb (be24 n @ r) = Some (n, r)"
  using val24_be24 [of n] by (simp add: ReadUint24 be24_def)

lemma ReadUint16_zeros [simp]:
  "cb_ReadUint16LengthPrefixed cb (0 # 0 # r) = Some ([], r)"
  using ReadUint16_prefixed [of "[]" r] by (simp add: be16_def)

lemma ReadUint16_be16w_only [simp]: "cb_ReadUint16 cb (be16w w) = Some (w, [])"
  using ReadUint16_be16w [of w "[]"] by simp

lemma ReadUint32_be32 [simp]: "cb_ReadUint32 cb (be32w w @ r) = Some (w, r)"
  using val32_be32 [of w] by (auto simp: ReadUint32 be32w_def)

lemma ReadBytes_app [simp]: "n = length bs \<Longrightarrow> cb_ReadBytes cb n (bs @ r) = Some (bs, r)"
  by (simp add: ReadBytes takeBytes_def)

lemma ReadUint16_shorter: "cb_ReadUint16 cb s = Some (w, r) \<Longrightarrow> length s = length r + 2"
  by (auto simp: ReadUint16 split: list.splits)

lemma prefixed_shorter:
  "cb_ReadUint8LengthPrefixed cb s = Some (x, r) \<Longrightarrow> length r < length s"
  "cb_ReadUint16LengthPrefixed cb s = Some (x, r) \<Longrightarrow> length r < length s"
  by (auto simp: ReadUint8LengthPrefixed ReadUint16LengthPrefixed ReadUint8 ReadUint16 takeBytes_def split: option.splits list.splits if_splits)

end

interpretation ref: cryptobyte_reader cryptobyteRef
  by unfold_locales (auto simp: cryptobyteRef_def split: list.split)

section \<open>Loops\<close>

text \<open>\<open>for !s.Empty() { ... }\<close> with one reader: \<open>None\<close> when a read fails. Each read shortens the input, so a round
  for every byte is enough.\<close>

fun readAll :: "(bytes \<Rightarrow> ('a \<times> bytes) option) \<Rightarrow> nat \<Rightarrow> bytes \<Rightarrow> 'a list option" where
  "readAll rd fuel [] = Some []"
| "readAll rd 0 (b # s) = None"
| "readAll rd (Suc fuel) (b # s) =
     (case rd (b # s) of None \<Rightarrow> None | Some (x, r) \<Rightarrow> map_option ((#) x) (readAll rd fuel r))"

lemma readAll_concat:
  assumes "\<And>x r. x \<in> set xs \<Longrightarrow> rd (enc x @ r) = Some (f x, r) \<and> enc x \<noteq> []"
  shows "length (concat (map enc xs)) \<le> fuel \<Longrightarrow> readAll rd fuel (concat (map enc xs)) = Some (map f xs)"
  using assms
proof (induction xs arbitrary: fuel)
  case (Cons x xs)
  obtain b s where bs: "enc x = b # s" using Cons.prems(2) [of x] by (cases "enc x") auto
  obtain n where n: "fuel = Suc n" using Cons.prems(1) bs by (cases fuel) auto
  have "rd (b # s @ concat (map enc xs)) = Some (f x, concat (map enc xs))" using Cons.prems(2) [of x] bs by simp
  moreover have "readAll rd n (concat (map enc xs)) = Some (map f xs)"
    using Cons.prems bs n by (intro Cons.IH) auto
  ultimately show ?case by (simp add: bs n)
qed simp

lemma readAll_back:
  assumes "\<And>x r. x \<in> set xs \<Longrightarrow> rd (enc x @ r) = Some (x, r)" "\<And>x. x \<in> set xs \<Longrightarrow> enc x \<noteq> []"
  shows "readAll rd (length (concat (map enc xs))) (concat (map enc xs)) = Some xs"
  using readAll_concat [of xs rd enc "\<lambda>x. x" "length (concat (map enc xs))"] assms by simp

section \<open>Names\<close>

text \<open>\<open>hostnameInSNI\<close>: no IP literals (brackets and zones stripped for the test), no trailing dots.\<close>

definition beforeZone :: "string \<Rightarrow> string" where
  "beforeZone host =
     (if CHR ''%'' \<in> set host \<and> 0 < length host - 1 - length (takeWhile (\<lambda>c. c \<noteq> CHR ''%'') (rev host))
      then take (length host - 1 - length (takeWhile (\<lambda>c. c \<noteq> CHR ''%'') (rev host))) host else host)"

definition hostnameInSNI :: "string \<Rightarrow> string" where
  "hostnameInSNI name =
     (let host = (if name \<noteq> '''' \<and> hd name = CHR ''['' \<and> last name = CHR '']'' then take (length name - 2) (tl name) else name)
      in if ParseIP (beforeZone host) \<noteq> None then '''' else rev (dropWhile (\<lambda>c. c = CHR ''.'') (rev name)))"

end
