(* ===== verification/Utls_Extensions.thy ===== *)
theory Utls_Extensions
  imports Utls_Bytes
begin

text \<open>
  The ClientHello extensions of the uTLS fork, \<open>src/utls/u_tls_extensions.go\<close>, \<open>src/utls/u_session_ticket.go\<close> and the GREASE ECH
  extension of \<open>src/utls/u_ech.go\<close>: for each its length, the bytes it writes, and how it is recovered from such bytes.
  \<open>ext_Read\<close> fills a buffer of \<open>avail\<close> zero bytes, as its callers pass (\<open>make\<close>, \<open>bufio.NewWriterSize\<close>); the bytes it leaves
  alone are the zeros below. Lengths are naturals.
\<close>

section \<open>Data\<close>

abbreviation extensionServerName :: u16 where "extensionServerName \<equiv> 0"
abbreviation extensionStatusRequest :: u16 where "extensionStatusRequest \<equiv> 5"
abbreviation extensionSupportedCurves :: u16 where "extensionSupportedCurves \<equiv> 10"
abbreviation extensionSupportedPoints :: u16 where "extensionSupportedPoints \<equiv> 11"
abbreviation extensionSignatureAlgorithms :: u16 where "extensionSignatureAlgorithms \<equiv> 13"
abbreviation extensionALPN :: u16 where "extensionALPN \<equiv> 16"
abbreviation extensionStatusRequestV2 :: u16 where "extensionStatusRequestV2 \<equiv> 17"
abbreviation extensionSCT :: u16 where "extensionSCT \<equiv> 18"
abbreviation utlsExtensionPadding :: u16 where "utlsExtensionPadding \<equiv> 21"
abbreviation extensionExtendedMasterSecret :: u16 where "extensionExtendedMasterSecret \<equiv> 23"
abbreviation fakeExtensionTokenBinding :: u16 where "fakeExtensionTokenBinding \<equiv> 24"
abbreviation utlsExtensionCompressCertificate :: u16 where "utlsExtensionCompressCertificate \<equiv> 27"
abbreviation fakeRecordSizeLimit :: u16 where "fakeRecordSizeLimit \<equiv> 28"
abbreviation fakeExtensionDelegatedCredentials :: u16 where "fakeExtensionDelegatedCredentials \<equiv> 34"
abbreviation extensionSessionTicket :: u16 where "extensionSessionTicket \<equiv> 35"
abbreviation extensionPreSharedKey :: u16 where "extensionPreSharedKey \<equiv> 41"
abbreviation extensionSupportedVersions :: u16 where "extensionSupportedVersions \<equiv> 43"
abbreviation extensionCookie :: u16 where "extensionCookie \<equiv> 44"
abbreviation extensionPSKModes :: u16 where "extensionPSKModes \<equiv> 45"
abbreviation extensionSignatureAlgorithmsCert :: u16 where "extensionSignatureAlgorithmsCert \<equiv> 50"
abbreviation extensionKeyShare :: u16 where "extensionKeyShare \<equiv> 51"
abbreviation extensionQUICTransportParameters :: u16 where "extensionQUICTransportParameters \<equiv> 57"
abbreviation extensionNextProtoNeg :: u16 where "extensionNextProtoNeg \<equiv> 13172"
abbreviation utlsExtensionApplicationSettings :: u16 where "utlsExtensionApplicationSettings \<equiv> 17513"
abbreviation utlsExtensionApplicationSettingsNew :: u16 where "utlsExtensionApplicationSettingsNew \<equiv> 17613"
abbreviation fakeOldExtensionChannelID :: u16 where "fakeOldExtensionChannelID \<equiv> 30031"
abbreviation fakeExtensionChannelID :: u16 where "fakeExtensionChannelID \<equiv> 30032"
abbreviation utlsExtensionECH :: u16 where "utlsExtensionECH \<equiv> 0xfe0d"
abbreviation extensionRenegotiationInfo :: u16 where "extensionRenegotiationInfo \<equiv> 0xff01"

abbreviation GREASE_PLACEHOLDER :: u16 where "GREASE_PLACEHOLDER \<equiv> 0x0a0a"

record keyShare =
  ks_Group :: u16
  ks_Data :: bytes

record hpkeSuite =
  hs_KdfId :: u16
  hs_AeadId :: u16

text \<open>\<open>ge_done\<close> is the state of \<open>initOnce\<close>.\<close>

record greaseECH =
  ge_CandidateCipherSuites :: "hpkeSuite list"
  ge_cipherSuite :: hpkeSuite
  ge_CandidateConfigIds :: bytes
  ge_configId :: byte
  ge_EncapsulatedKey :: bytes
  ge_CandidatePayloadLens :: "u16 list"
  ge_payload :: bytes
  ge_done :: bool

datatype renegotiation = RenegotiateNever | RenegotiateOnceAsClient | RenegotiateFreelyAsClient

text \<open>The marshalled transport parameters are the content of the QUIC extension. A session ticket extension
  carries its ticket; the functor of the padding extension is \<open>None\<close> when nil.\<close>

datatype tlsExtension =
    SNIExtension string
  | StatusRequestExtension
  | SupportedCurvesExtension "u16 list"
  | SupportedPointsExtension bytes
  | SignatureAlgorithmsExtension "u16 list"
  | StatusRequestV2Extension
  | SignatureAlgorithmsCertExtension "u16 list"
  | ALPNExtension "string list"
  | ApplicationSettingsExtension "string list"
  | ApplicationSettingsExtensionNew "string list"
  | SCTExtension
  | GenericExtension u16 bytes
  | ExtendedMasterSecretExtension
  | UtlsGREASEExtension u16 bytes
  | UtlsPaddingExtension nat bool "(nat \<Rightarrow> nat \<times> bool) option"
  | UtlsCompressCertExtension "u16 list"
  | KeyShareExtension "keyShare list"
  | QUICTransportParametersExtension bytes
  | PSKKeyExchangeModesExtension bytes
  | SupportedVersionsExtension "u16 list"
  | CookieExtension bytes
  | NPNExtension "string list"
  | RenegotiationInfoExtension renegotiation bytes
  | FakeChannelIDExtension bool
  | FakeRecordSizeLimitExtension u16
  | FakeTokenBindingExtension byte byte bytes
  | FakeDelegatedCredentialsExtension "u16 list"
  | SessionTicketExtension bytes
  | GREASEEncryptedClientHelloExtension greaseECH
  | FakePreSharedKeyExtension "(bytes \<times> 32 word) list" "bytes list" bool

section \<open>GREASE\<close>

unbundle bit_operations_syntax

definition isGREASEUint16 :: "u16 \<Rightarrow> bool" where
  "isGREASEUint16 v \<longleftrightarrow> drop_bit 8 v = v AND 0xff \<and> v AND 0xf = 0xa"

definition unGREASEUint16 :: "u16 \<Rightarrow> u16" where
  "unGREASEUint16 v = (if isGREASEUint16 v then GREASE_PLACEHOLDER else v)"

text \<open>\<open>GetBoringGREASEValue\<close>; the array of seeds has five places, an index beyond panics.\<close>

definition GetBoringGREASEValue :: "u16 list \<Rightarrow> nat \<Rightarrow> u16 option" where
  "GetBoringGREASEValue greaseSeed index =
     (if index < length greaseSeed
      then let ret = ((greaseSeed ! index) AND 0xf0) OR 0x0a in Some (ret OR push_bit 8 ret) else None)"

text \<open>The random choices of the GREASE ECH extension: a configuration id, indices into the candidate lists, a key
  made for the dummy public key, the payload.\<close>

record greaseRandom =
  gr_configId :: byte
  gr_index :: "nat \<Rightarrow> nat"
  gr_key :: bytes
  gr_bytes :: "nat \<Rightarrow> bytes"

text \<open>\<open>cipherLen\<close> panics on an unknown AEAD.\<close>

definition cipherLen :: "u16 \<Rightarrow> nat \<Rightarrow> nat option" where
  "cipherLen aead mLen = (if aead \<in> {1, 2, 3} then Some (mLen + 16) else None)"

definition defaultSuite :: hpkeSuite where
  "defaultSuite = \<lparr>hs_KdfId = 1, hs_AeadId = 1\<rparr>"

definition pick :: "greaseRandom \<Rightarrow> nat \<Rightarrow> 'a list \<Rightarrow> 'a" where
  "pick rnd k xs = xs ! (gr_index rnd k mod length xs)"

definition randomizePayload :: "greaseRandom \<Rightarrow> u16 \<Rightarrow> nat \<Rightarrow> bytes option" where
  "randomizePayload rnd aead encodedHelloInnerLen = map_option (gr_bytes rnd) (cipherLen aead encodedHelloInnerLen)"

definition initGreaseECH :: "greaseRandom \<Rightarrow> greaseECH \<Rightarrow> greaseECH option" where
  "initGreaseECH rnd g =
     (if ge_done g then Some g
      else
        let configId = (if ge_CandidateConfigIds g = [] then gr_configId rnd else pick rnd 0 (ge_CandidateConfigIds g));
            suite = (if ge_CandidateCipherSuites g = [] then defaultSuite else pick rnd 1 (ge_CandidateCipherSuites g));
            key = (if ge_EncapsulatedKey g = [] then gr_key rnd else ge_EncapsulatedKey g);
            lens = (if ge_CandidatePayloadLens g = [] then [128] else ge_CandidatePayloadLens g);
            g1 = g\<lparr>ge_configId := configId, ge_cipherSuite := suite, ge_EncapsulatedKey := key, ge_done := True\<rparr>
        in if ge_payload g \<noteq> [] then Some g1
           else map_option (\<lambda>p. g1\<lparr>ge_CandidatePayloadLens := lens, ge_payload := p\<rparr>)
                  (randomizePayload rnd (hs_AeadId suite) (unat (pick rnd 2 lens))))"

definition BoringGREASEECH :: greaseECH where
  "BoringGREASEECH =
     \<lparr>ge_CandidateCipherSuites = [\<lparr>hs_KdfId = 1, hs_AeadId = 1\<rparr>], ge_cipherSuite = \<lparr>hs_KdfId = 0, hs_AeadId = 0\<rparr>, ge_CandidateConfigIds = [],
      ge_configId = 0, ge_EncapsulatedKey = [], ge_CandidatePayloadLens = [128, 160, 192, 224], ge_payload = [], ge_done = False\<rparr>"

section \<open>Padding\<close>

definition BoringPaddingStyle :: "nat \<Rightarrow> nat \<times> bool" where
  "BoringPaddingStyle unpaddedLen =
     (if 0xff < unpaddedLen \<and> unpaddedLen < 0x200 then
        let paddingLen = 0x200 - unpaddedLen in (if 4 + 1 \<le> paddingLen then paddingLen - 4 else 1, True)
      else (0, False))"

definition AlwaysPadToLen :: "nat \<Rightarrow> nat \<Rightarrow> nat \<times> bool" where
  "AlwaysPadToLen padToLen unpaddedLen =
     (if unpaddedLen < padToLen then
        let paddingLen = padToLen - unpaddedLen in (if 4 + 1 \<le> paddingLen then paddingLen - 4 else 1, True)
      else (0, False))"

definition padding_Update :: "nat \<Rightarrow> nat \<times> bool \<Rightarrow> (nat \<Rightarrow> nat \<times> bool) option \<Rightarrow> nat \<times> bool" where
  "padding_Update clientHelloUnpaddedLen old getPaddingLen =
     (case getPaddingLen of None \<Rightarrow> old | Some f \<Rightarrow> f clientHelloUnpaddedLen)"

section \<open>Lengths\<close>

definition sizes :: "string list \<Rightarrow> nat" where
  "sizes ss = sum_list (map (\<lambda>s. 1 + length s) ss)"

definition SNI_Len :: "string \<Rightarrow> nat" where
  "SNI_Len serverName =
     (let hostName = hostnameInSNI serverName in if hostName = '''' then 0 else 4 + 2 + 1 + 2 + length hostName)"

definition ALPN_Len :: "string list \<Rightarrow> nat" where
  "ALPN_Len protocols = 2 + 2 + 2 + sizes protocols"

definition applicationSettings_Len :: "string list \<Rightarrow> nat" where
  "applicationSettings_Len protocols = 2 + 2 + 2 + sizes protocols"

definition padding_Len :: "nat \<Rightarrow> bool \<Rightarrow> nat" where
  "padding_Len paddingLen willPad = (if willPad then 4 + paddingLen else 0)"

definition keySharesLen :: "keyShare list \<Rightarrow> nat" where
  "keySharesLen shares = sum_list (map (\<lambda>ks. 4 + length (ks_Data ks)) shares)"

definition greaseECH_Len :: "greaseECH \<Rightarrow> nat" where
  "greaseECH_Len g = 2 + 2 + 1 + 4 + 1 + 2 + length (ge_EncapsulatedKey g) + 2 + length (ge_payload g)"

definition pskExtLen :: "(bytes \<times> 32 word) list \<Rightarrow> bytes list \<Rightarrow> nat" where
  "pskExtLen identities binders =
     (if identities = [] \<or> binders = [] then 0
      else 4 + 2 + sum_list (map (\<lambda>(label, age). 2 + length label + 4) identities) + 2 + sum_list (map (\<lambda>b. length b + 1) binders))"

fun ext_Len :: "tlsExtension \<Rightarrow> nat" where
  "ext_Len (SNIExtension n) = SNI_Len n"
| "ext_Len StatusRequestExtension = 9"
| "ext_Len (SupportedCurvesExtension cs) = 6 + 2 * length cs"
| "ext_Len (SupportedPointsExtension ps) = 5 + length ps"
| "ext_Len (SignatureAlgorithmsExtension as) = 6 + 2 * length as"
| "ext_Len StatusRequestV2Extension = 13"
| "ext_Len (SignatureAlgorithmsCertExtension as) = 6 + 2 * length as"
| "ext_Len (ALPNExtension ps) = ALPN_Len ps"
| "ext_Len (ApplicationSettingsExtension ps) = applicationSettings_Len ps"
| "ext_Len (ApplicationSettingsExtensionNew ps) = applicationSettings_Len ps"
| "ext_Len SCTExtension = 4"
| "ext_Len (GenericExtension i d) = 4 + length d"
| "ext_Len ExtendedMasterSecretExtension = 4"
| "ext_Len (UtlsGREASEExtension v b) = 4 + length b"
| "ext_Len (UtlsPaddingExtension n w f) = padding_Len n w"
| "ext_Len (UtlsCompressCertExtension as) = 4 + 1 + 2 * length as"
| "ext_Len (KeyShareExtension kss) = 4 + 2 + keySharesLen kss"
| "ext_Len (QUICTransportParametersExtension r) = 4 + length r"
| "ext_Len (PSKKeyExchangeModesExtension ms) = 4 + 1 + length ms"
| "ext_Len (SupportedVersionsExtension vs) = 4 + 1 + 2 * length vs"
| "ext_Len (CookieExtension c) = 6 + length c"
| "ext_Len (NPNExtension ps) = 4"
| "ext_Len (RenegotiationInfoExtension r c) = 5 + length c"
| "ext_Len (FakeChannelIDExtension b) = 4"
| "ext_Len (FakeRecordSizeLimitExtension l) = 6"
| "ext_Len (FakeTokenBindingExtension a b ks) = 2 + 2 + 2 + 1 + length ks"
| "ext_Len (FakeDelegatedCredentialsExtension as) = 6 + 2 * length as"
| "ext_Len (SessionTicketExtension t) = 4 + length t"
| "ext_Len (GREASEEncryptedClientHelloExtension g) = greaseECH_Len g"
| "ext_Len (FakePreSharedKeyExtension ids bs omit) = pskExtLen ids bs"

section \<open>Writing an extension\<close>

datatype readErr = ShortBuffer | TooManyMethods | TooManyModes | TooManyVersions | EmptyPsk | InvalidBinder

definition u16s :: "u16 list \<Rightarrow> bytes" where
  "u16s ws = concat (map be16w ws)"

definition protoList :: "string list \<Rightarrow> bytes" where
  "protoList ss = concat (map (\<lambda>s. word_of_nat (length s) # strBytes s) ss)"

definition emptyExt :: "u16 \<Rightarrow> bytes" where
  "emptyExt ty = be16w ty @ [0, 0]"

definition SNI_Read :: "string \<Rightarrow> bytes" where
  "SNI_Read serverName =
     (let hostName = hostnameInSNI serverName; n = length hostName in
      if hostName = '''' then []
      else be16w extensionServerName @ be16 (n + 5) @ be16 (n + 3) @ [0] @ be16 n @ strBytes hostName)"

definition StatusRequest_Read :: bytes where
  "StatusRequest_Read = be16w extensionStatusRequest @ [0, 5] @ [1] @ [0, 0] @ [0, 0]"

definition SupportedCurves_Read :: "u16 list \<Rightarrow> bytes" where
  "SupportedCurves_Read curves =
     be16w extensionSupportedCurves @ be16 (2 + 2 * length curves) @ be16 (2 * length curves) @ u16s curves"

definition SupportedPoints_Read :: "bytes \<Rightarrow> bytes" where
  "SupportedPoints_Read points =
     be16w extensionSupportedPoints @ be16 (1 + length points) @ [word_of_nat (length points)] @ points"

definition SignatureAlgorithms_Read :: "u16 list \<Rightarrow> bytes" where
  "SignatureAlgorithms_Read algs =
     be16w extensionSignatureAlgorithms @ be16 (2 + 2 * length algs) @ be16 (2 * length algs) @ u16s algs"

definition StatusRequestV2_Read :: bytes where
  "StatusRequestV2_Read = be16w extensionStatusRequestV2 @ [0, 9] @ [0, 7] @ [2] @ [0, 4] @ [0, 0] @ [0, 0]"

definition SignatureAlgorithmsCert_Read :: "u16 list \<Rightarrow> bytes" where
  "SignatureAlgorithmsCert_Read algs =
     be16w extensionSignatureAlgorithmsCert @ be16 (2 + 2 * length algs) @ be16 (2 * length algs) @ u16s algs"

definition ALPN_Read :: "string list \<Rightarrow> bytes" where
  "ALPN_Read protocols =
     be16w extensionALPN @ be16 (sizes protocols + 2) @ be16 (sizes protocols) @ protoList protocols"

definition applicationSettings_Read :: "u16 \<Rightarrow> string list \<Rightarrow> bytes" where
  "applicationSettings_Read codePoint protocols =
     be16w codePoint @ be16 (sizes protocols + 2) @ be16 (sizes protocols) @ protoList protocols"

definition Generic_Read :: "u16 \<Rightarrow> bytes \<Rightarrow> bytes" where
  "Generic_Read i d = be16w i @ be16 (length d) @ d"

definition UtlsGREASE_Read :: "u16 \<Rightarrow> bytes \<Rightarrow> bytes" where
  "UtlsGREASE_Read v body = be16w v @ be16 (length body) @ body"

definition padding_Read :: "nat \<Rightarrow> bool \<Rightarrow> bytes" where
  "padding_Read paddingLen willPad =
     (if willPad then be16w utlsExtensionPadding @ be16 paddingLen @ replicate paddingLen 0 else [])"

definition CompressCert_Read :: "u16 list \<Rightarrow> readErr + bytes" where
  "CompressCert_Read algs =
     (let extLen = 2 * length algs in
      if 255 < extLen then Inl TooManyMethods
      else Inr (be16w utlsExtensionCompressCertificate @ be16 (extLen + 1) @ [word_of_nat extLen] @ u16s algs))"

definition KeyShare_Read :: "keyShare list \<Rightarrow> bytes" where
  "KeyShare_Read shares =
     be16w extensionKeyShare @ be16 (keySharesLen shares + 2) @ be16 (keySharesLen shares) @
     concat (map (\<lambda>ks. be16w (ks_Group ks) @ be16 (length (ks_Data ks)) @ ks_Data ks) shares)"

definition QUIC_Read :: "bytes \<Rightarrow> bytes" where
  "QUIC_Read marshalResult = be16w extensionQUICTransportParameters @ be16 (length marshalResult) @ marshalResult"

definition PSKModes_Read :: "bytes \<Rightarrow> readErr + bytes" where
  "PSKModes_Read modes =
     (if 255 < length modes then Inl TooManyModes
      else Inr (be16w extensionPSKModes @ be16 (length modes + 1) @ [word_of_nat (length modes)] @ modes))"

definition SupportedVersions_Read :: "u16 list \<Rightarrow> readErr + bytes" where
  "SupportedVersions_Read versions =
     (let extLen = 2 * length versions in
      if 255 < extLen then Inl TooManyVersions
      else Inr (be16w extensionSupportedVersions @ be16 (extLen + 1) @ [word_of_nat extLen] @ u16s versions))"

definition Cookie_Read :: "bytes \<Rightarrow> bytes" where
  "Cookie_Read cookie = be16w extensionCookie @ be16 (2 + length cookie) @ be16 (length cookie) @ cookie"

definition RenegotiationInfo_Read :: "bytes \<Rightarrow> bytes" where
  "RenegotiationInfo_Read conn =
     be16w extensionRenegotiationInfo @ be16 (1 + length conn) @ [word_of_nat (length conn)] @ conn"

definition ChannelID_Read :: "bool \<Rightarrow> bytes" where
  "ChannelID_Read oldExtensionID = emptyExt (if oldExtensionID then fakeOldExtensionChannelID else fakeExtensionChannelID)"

definition RecordSizeLimit_Read :: "u16 \<Rightarrow> bytes" where
  "RecordSizeLimit_Read limit = be16w fakeRecordSizeLimit @ [0, 2] @ be16w limit"

definition TokenBinding_Read :: "byte \<Rightarrow> byte \<Rightarrow> bytes \<Rightarrow> bytes" where
  "TokenBinding_Read major minor params =
     be16w fakeExtensionTokenBinding @ be16 (3 + length params) @ [major, minor, word_of_nat (length params)] @ params"

definition DelegatedCredentials_Read :: "u16 list \<Rightarrow> bytes" where
  "DelegatedCredentials_Read algs =
     be16w fakeExtensionDelegatedCredentials @ be16 (2 + 2 * length algs) @ be16 (2 * length algs) @ u16s algs"

definition SessionTicket_Read :: "bytes \<Rightarrow> bytes" where
  "SessionTicket_Read ticket = be16w extensionSessionTicket @ be16 (length ticket) @ ticket"

definition greaseECH_Read :: "greaseECH \<Rightarrow> bytes" where
  "greaseECH_Read g =
     be16w utlsExtensionECH @ be16 (greaseECH_Len g - 4) @ [0] @ be16w (hs_KdfId (ge_cipherSuite g)) @ be16w (hs_AeadId (ge_cipherSuite g)) @
     [ge_configId g] @ be16 (length (ge_EncapsulatedKey g)) @ ge_EncapsulatedKey g @ be16 (length (ge_payload g)) @ ge_payload g"

definition readPskIntoBytes :: "(bytes \<times> 32 word) list \<Rightarrow> bytes list \<Rightarrow> bytes" where
  "readPskIntoBytes identities binders =
     (if pskExtLen identities binders = 0 then []
      else be16w extensionPreSharedKey @ be16 (pskExtLen identities binders - 4) @
        be16 (sum_list (map (\<lambda>(label, age). 2 + length label + 4) identities)) @
        concat (map (\<lambda>(label, age). be16 (length label) @ label @ be32w age) identities) @
        be16 (sum_list (map (\<lambda>b. length b + 1) binders)) @ concat (map (\<lambda>b. word_of_nat (length b) # b) binders))"

definition FakePreSharedKey_Read :: "(bytes \<times> 32 word) list \<Rightarrow> bytes list \<Rightarrow> bool \<Rightarrow> readErr + bytes" where
  "FakePreSharedKey_Read identities binders omitEmptyPsk =
     (if \<not> omitEmptyPsk \<and> pskExtLen identities binders = 0 then Inl EmptyPsk
      else if list_ex (\<lambda>b. length b \<noteq> 32 \<and> length b \<noteq> 48) binders then Inl InvalidBinder
      else Inr (readPskIntoBytes identities binders))"

text \<open>The bytes of an extension that fits its buffer, or the error of one that cannot be encoded.\<close>

fun encode :: "tlsExtension \<Rightarrow> readErr + bytes" where
  "encode (SNIExtension n) = Inr (SNI_Read n)"
| "encode StatusRequestExtension = Inr StatusRequest_Read"
| "encode (SupportedCurvesExtension cs) = Inr (SupportedCurves_Read cs)"
| "encode (SupportedPointsExtension ps) = Inr (SupportedPoints_Read ps)"
| "encode (SignatureAlgorithmsExtension as) = Inr (SignatureAlgorithms_Read as)"
| "encode StatusRequestV2Extension = Inr StatusRequestV2_Read"
| "encode (SignatureAlgorithmsCertExtension as) = Inr (SignatureAlgorithmsCert_Read as)"
| "encode (ALPNExtension ps) = Inr (ALPN_Read ps)"
| "encode (ApplicationSettingsExtension ps) = Inr (applicationSettings_Read utlsExtensionApplicationSettings ps)"
| "encode (ApplicationSettingsExtensionNew ps) = Inr (applicationSettings_Read utlsExtensionApplicationSettingsNew ps)"
| "encode SCTExtension = Inr (emptyExt extensionSCT)"
| "encode (GenericExtension i d) = Inr (Generic_Read i d)"
| "encode ExtendedMasterSecretExtension = Inr (emptyExt extensionExtendedMasterSecret)"
| "encode (UtlsGREASEExtension v b) = Inr (UtlsGREASE_Read v b)"
| "encode (UtlsPaddingExtension n w f) = Inr (padding_Read n w)"
| "encode (UtlsCompressCertExtension as) = CompressCert_Read as"
| "encode (KeyShareExtension kss) = Inr (KeyShare_Read kss)"
| "encode (QUICTransportParametersExtension r) = Inr (QUIC_Read r)"
| "encode (PSKKeyExchangeModesExtension ms) = PSKModes_Read ms"
| "encode (SupportedVersionsExtension vs) = SupportedVersions_Read vs"
| "encode (CookieExtension c) = Inr (Cookie_Read c)"
| "encode (NPNExtension ps) = Inr (emptyExt extensionNextProtoNeg)"
| "encode (RenegotiationInfoExtension r c) = Inr (RenegotiationInfo_Read c)"
| "encode (FakeChannelIDExtension b) = Inr (ChannelID_Read b)"
| "encode (FakeRecordSizeLimitExtension l) = Inr (RecordSizeLimit_Read l)"
| "encode (FakeTokenBindingExtension a b ks) = Inr (TokenBinding_Read a b ks)"
| "encode (FakeDelegatedCredentialsExtension as) = Inr (DelegatedCredentials_Read as)"
| "encode (SessionTicketExtension t) = Inr (SessionTicket_Read t)"
| "encode (GREASEEncryptedClientHelloExtension g) = Inr (greaseECH_Read g)"
| "encode (FakePreSharedKeyExtension ids bs omit) = FakePreSharedKey_Read ids bs omit"

text \<open>\<open>ext_Read\<close>: an extension compares the buffer with \<open>ext_Len\<close> before it does anything, a pre-shared key after its other checks.\<close>

definition ext_Read :: "tlsExtension \<Rightarrow> nat \<Rightarrow> readErr + bytes" where
  "ext_Read e avail =
     (case e of
        FakePreSharedKeyExtension _ _ _ \<Rightarrow>
          (case encode e of Inl err \<Rightarrow> Inl err | Inr bs \<Rightarrow> if avail < ext_Len e then Inl ShortBuffer else Inr bs)
      | _ \<Rightarrow> if avail < ext_Len e then Inl ShortBuffer else encode e)"

section \<open>Recovering an extension\<close>

definition emptyGreaseECH :: greaseECH where
  "emptyGreaseECH =
     \<lparr>ge_CandidateCipherSuites = [], ge_cipherSuite = \<lparr>hs_KdfId = 0, hs_AeadId = 0\<rparr>, ge_CandidateConfigIds = [], ge_configId = 0,
      ge_EncapsulatedKey = [], ge_CandidatePayloadLens = [], ge_payload = [], ge_done = False\<rparr>"

definition ExtensionFromID :: "u16 \<Rightarrow> tlsExtension option" where
  "ExtensionFromID i =
     (if i = extensionServerName then Some (SNIExtension '''')
      else if i = extensionStatusRequest then Some StatusRequestExtension
      else if i = extensionSupportedCurves then Some (SupportedCurvesExtension [])
      else if i = extensionSupportedPoints then Some (SupportedPointsExtension [])
      else if i = extensionSignatureAlgorithms then Some (SignatureAlgorithmsExtension [])
      else if i = extensionALPN then Some (ALPNExtension [])
      else if i = extensionStatusRequestV2 then Some StatusRequestV2Extension
      else if i = extensionSCT then Some SCTExtension
      else if i = utlsExtensionPadding then Some (UtlsPaddingExtension 0 False None)
      else if i = extensionExtendedMasterSecret then Some ExtendedMasterSecretExtension
      else if i = fakeExtensionTokenBinding then Some (FakeTokenBindingExtension 0 0 [])
      else if i = utlsExtensionCompressCertificate then Some (UtlsCompressCertExtension [])
      else if i = fakeRecordSizeLimit then Some (FakeRecordSizeLimitExtension 0)
      else if i = fakeExtensionDelegatedCredentials then Some (FakeDelegatedCredentialsExtension [])
      else if i = extensionSessionTicket then Some (SessionTicketExtension [])
      else if i = extensionPreSharedKey then Some (FakePreSharedKeyExtension [] [] False)
      else if i = extensionSupportedVersions then Some (SupportedVersionsExtension [])
      else if i = extensionPSKModes then Some (PSKKeyExchangeModesExtension [])
      else if i = extensionSignatureAlgorithmsCert then Some (SignatureAlgorithmsCertExtension [])
      else if i = extensionKeyShare then Some (KeyShareExtension [])
      else if i = extensionQUICTransportParameters then Some (QUICTransportParametersExtension [])
      else if i = extensionNextProtoNeg then Some (NPNExtension [])
      else if i = utlsExtensionApplicationSettings then Some (ApplicationSettingsExtension [])
      else if i = utlsExtensionApplicationSettingsNew then Some (ApplicationSettingsExtensionNew [])
      else if i = fakeOldExtensionChannelID then Some (FakeChannelIDExtension True)
      else if i = fakeExtensionChannelID then Some (FakeChannelIDExtension False)
      else if i = utlsExtensionECH then Some (GREASEEncryptedClientHelloExtension emptyGreaseECH)
      else if i = extensionRenegotiationInfo then Some (RenegotiationInfoExtension RenegotiateNever [])
      else if isGREASEUint16 i then Some (UtlsGREASEExtension 0 []) else None)"

text \<open>The decoders; \<open>Inl\<close> is the error. The name of a server is checked and dropped.\<close>

fun sniNames :: "cryptobyte \<Rightarrow> nat \<Rightarrow> string \<Rightarrow> bytes \<Rightarrow> string option" where
  "sniNames cb fuel serverName [] = None"
| "sniNames cb 0 serverName (b # s) = Some ''unable to read server name extension data''"
| "sniNames cb (Suc fuel) serverName (b # s) =
     (case cb_ReadUint8 cb (b # s) of
        None \<Rightarrow> Some ''unable to read server name extension data''
      | Some (nameType, s1) \<Rightarrow>
          (case cb_ReadUint16LengthPrefixed cb s1 of
             None \<Rightarrow> Some ''unable to read server name extension data''
           | Some (name, s2) \<Rightarrow>
               if name = [] then Some ''unable to read server name extension data''
               else if nameType \<noteq> 0 then sniNames cb fuel serverName s2
               else if serverName \<noteq> '''' then Some ''multiple names of the same name_type in server name extension are prohibited''
               else if HasSuffix (bytesStr name) ''.'' then Some ''SNI value may not include a trailing dot''
               else sniNames cb fuel (bytesStr name) s2))"

definition SNI_Write :: "cryptobyte \<Rightarrow> bytes \<Rightarrow> string + tlsExtension" where
  "SNI_Write cb b =
     (case cb_ReadUint16LengthPrefixed cb b of
        None \<Rightarrow> Inl ''unable to read server name extension data''
      | Some (nameList, _) \<Rightarrow>
          if nameList = [] then Inl ''unable to read server name extension data''
          else case sniNames cb (length nameList) '''' nameList of Some e \<Rightarrow> Inl e | None \<Rightarrow> Inr (SNIExtension ''''))"

definition StatusRequest_Write :: "cryptobyte \<Rightarrow> bytes \<Rightarrow> string + tlsExtension" where
  "StatusRequest_Write cb b =
     (case cb_ReadUint8 cb b of
        None \<Rightarrow> Inl ''unable to read status request extension data''
      | Some (statusType, s1) \<Rightarrow>
          (case cb_ReadUint16LengthPrefixed cb s1 of
             None \<Rightarrow> Inl ''unable to read status request extension data''
           | Some (_, s2) \<Rightarrow>
               (case cb_ReadUint16LengthPrefixed cb s2 of
                  None \<Rightarrow> Inl ''unable to read status request extension data''
                | Some _ \<Rightarrow> if statusType \<noteq> 1 then Inl ''status request extension statusType is not statusTypeOCSP(1)''
                    else Inr StatusRequestExtension)))"

text \<open>A list of 16-bit numbers behind a 16-bit length, not empty: the code repeats this in four decoders.\<close>

definition readU16List :: "cryptobyte \<Rightarrow> string \<Rightarrow> bytes \<Rightarrow> string + u16 list" where
  "readU16List cb msg b =
     (case cb_ReadUint16LengthPrefixed cb b of
        None \<Rightarrow> Inl msg
      | Some (list, _) \<Rightarrow>
          if list = [] then Inl msg
          else case readAll (cb_ReadUint16 cb) (length list) list of None \<Rightarrow> Inl msg | Some ws \<Rightarrow> Inr ws)"

definition SupportedCurves_Write :: "cryptobyte \<Rightarrow> bytes \<Rightarrow> string + tlsExtension" where
  "SupportedCurves_Write cb b =
     (case readU16List cb ''unable to read supported curves extension data'' b of
        Inl e \<Rightarrow> Inl e | Inr ws \<Rightarrow> Inr (SupportedCurvesExtension (map unGREASEUint16 ws)))"

definition SupportedPoints_Write :: "cryptobyte \<Rightarrow> bytes \<Rightarrow> string + tlsExtension" where
  "SupportedPoints_Write cb b =
     (case cb_ReadUint8LengthPrefixed cb b of
        None \<Rightarrow> Inl ''unable to read supported points extension data''
      | Some (ps, _) \<Rightarrow> if ps = [] then Inl ''unable to read supported points extension data'' else Inr (SupportedPointsExtension ps))"

definition SignatureAlgorithms_Write :: "cryptobyte \<Rightarrow> bytes \<Rightarrow> string + tlsExtension" where
  "SignatureAlgorithms_Write cb b =
     (case readU16List cb ''unable to read signature algorithms extension data'' b of
        Inl e \<Rightarrow> Inl e | Inr ws \<Rightarrow> Inr (SignatureAlgorithmsExtension ws))"

definition StatusRequestV2_Write :: "cryptobyte \<Rightarrow> bytes \<Rightarrow> string + tlsExtension" where
  "StatusRequestV2_Write cb b =
     (case cb_ReadUint16LengthPrefixed cb b of
        None \<Rightarrow> Inl ''unable to read status request v2 extension data''
      | Some (ignored, _) \<Rightarrow>
          (case cb_ReadUint8 cb ignored of
             None \<Rightarrow> Inl ''unable to read status request v2 extension data''
           | Some (statusType, _) \<Rightarrow>
               if statusType \<noteq> 2 then Inl ''status request v2 extension statusType is not statusV2TypeOCSP(2)''
               else Inr StatusRequestV2Extension))"

definition SignatureAlgorithmsCert_Write :: "cryptobyte \<Rightarrow> bytes \<Rightarrow> string + tlsExtension" where
  "SignatureAlgorithmsCert_Write cb b =
     (case readU16List cb ''unable to read signature algorithms extension data'' b of
        Inl e \<Rightarrow> Inl e | Inr ws \<Rightarrow> Inr (SignatureAlgorithmsCertExtension ws))"

text \<open>A list of protocols, each not empty.\<close>

definition readProto :: "cryptobyte \<Rightarrow> bytes \<Rightarrow> (string \<times> bytes) option" where
  "readProto cb s =
     (case cb_ReadUint8LengthPrefixed cb s of
        None \<Rightarrow> None | Some (p, r) \<Rightarrow> if p = [] then None else Some (bytesStr p, r))"

definition readProtoList :: "cryptobyte \<Rightarrow> bytes \<Rightarrow> string + string list" where
  "readProtoList cb b =
     (case cb_ReadUint16LengthPrefixed cb b of
        None \<Rightarrow> Inl ''unable to read ALPN extension data''
      | Some (list, _) \<Rightarrow>
          if list = [] then Inl ''unable to read ALPN extension data''
          else case readAll (readProto cb) (length list) list of
                 None \<Rightarrow> Inl ''unable to read ALPN extension data'' | Some ps \<Rightarrow> Inr ps)"

definition ALPN_Write :: "cryptobyte \<Rightarrow> bytes \<Rightarrow> string + tlsExtension" where
  "ALPN_Write cb b = (case readProtoList cb b of Inl e \<Rightarrow> Inl e | Inr ps \<Rightarrow> Inr (ALPNExtension ps))"

definition CompressCert_Write :: "cryptobyte \<Rightarrow> bytes \<Rightarrow> string + tlsExtension" where
  "CompressCert_Write cb b =
     (case cb_ReadUint8LengthPrefixed cb b of
        None \<Rightarrow> Inl ''unable to read cert compression algorithms extension data''
      | Some (methodsRaw, _) \<Rightarrow>
          (case readAll (cb_ReadUint16 cb) (length methodsRaw) methodsRaw of
             None \<Rightarrow> Inl ''unable to read cert compression algorithms extension data''
           | Some ws \<Rightarrow> Inr (UtlsCompressCertExtension ws)))"

definition readKeyShare :: "cryptobyte \<Rightarrow> bytes \<Rightarrow> (keyShare \<times> bytes) option" where
  "readKeyShare cb s =
     (case cb_ReadUint16 cb s of
        None \<Rightarrow> None
      | Some (grp, s1) \<Rightarrow>
          (case cb_ReadUint16LengthPrefixed cb s1 of
             None \<Rightarrow> None
           | Some (data, s2) \<Rightarrow>
               if data = [] then None
               else let g = unGREASEUint16 grp in
                    Some (\<lparr>ks_Group = g, ks_Data = (if g \<noteq> GREASE_PLACEHOLDER then [] else data)\<rparr>, s2)))"

definition KeyShare_Write :: "cryptobyte \<Rightarrow> bytes \<Rightarrow> string + tlsExtension" where
  "KeyShare_Write cb b =
     (case cb_ReadUint16LengthPrefixed cb b of
        None \<Rightarrow> Inl ''unable to read key share extension data''
      | Some (clientShares, _) \<Rightarrow>
          (case readAll (readKeyShare cb) (length clientShares) clientShares of
             None \<Rightarrow> Inl ''unable to read key share extension data'' | Some kss \<Rightarrow> Inr (KeyShareExtension kss)))"

definition PSKModes_Write :: "cryptobyte \<Rightarrow> bytes \<Rightarrow> string + tlsExtension" where
  "PSKModes_Write cb b =
     (case cb_ReadUint8LengthPrefixed cb b of
        None \<Rightarrow> Inl ''unable to read PSK extension data'' | Some (ms, _) \<Rightarrow> Inr (PSKKeyExchangeModesExtension ms))"

definition SupportedVersions_Write :: "cryptobyte \<Rightarrow> bytes \<Rightarrow> string + tlsExtension" where
  "SupportedVersions_Write cb b =
     (case cb_ReadUint8LengthPrefixed cb b of
        None \<Rightarrow> Inl ''unable to read supported versions extension data''
      | Some (versList, _) \<Rightarrow>
          if versList = [] then Inl ''unable to read supported versions extension data''
          else case readAll (cb_ReadUint16 cb) (length versList) versList of
                 None \<Rightarrow> Inl ''unable to read supported versions extension data''
               | Some ws \<Rightarrow> Inr (SupportedVersionsExtension (map unGREASEUint16 ws)))"

definition RecordSizeLimit_Write :: "cryptobyte \<Rightarrow> bytes \<Rightarrow> string + tlsExtension" where
  "RecordSizeLimit_Write cb b =
     (case cb_ReadUint16 cb b of
        None \<Rightarrow> Inl ''unable to read record size limit extension data'' | Some (l, _) \<Rightarrow> Inr (FakeRecordSizeLimitExtension l))"

definition TokenBinding_Write :: "cryptobyte \<Rightarrow> bytes \<Rightarrow> string + tlsExtension" where
  "TokenBinding_Write cb b =
     (case cb_ReadUint8 cb b of
        None \<Rightarrow> Inl ''unable to read token binding extension data''
      | Some (major, s1) \<Rightarrow>
          (case cb_ReadUint8 cb s1 of
             None \<Rightarrow> Inl ''unable to read token binding extension data''
           | Some (minor, s2) \<Rightarrow>
               (case cb_ReadUint8LengthPrefixed cb s2 of
                  None \<Rightarrow> Inl ''unable to read token binding extension data''
                | Some (ks, _) \<Rightarrow> Inr (FakeTokenBindingExtension major minor ks))))"

definition DelegatedCredentials_Write :: "cryptobyte \<Rightarrow> bytes \<Rightarrow> string + tlsExtension" where
  "DelegatedCredentials_Write cb b =
     (case readU16List cb ''unable to read signature algorithms extension data'' b of
        Inl e \<Rightarrow> Inl e | Inr ws \<Rightarrow> Inr (FakeDelegatedCredentialsExtension ws))"

text \<open>The GREASE ECH decoder keeps the shape and draws a new key of the same length; the length of a payload shorter
  than a tag wraps around, as the conversion to \<open>uint16\<close> does.\<close>

definition greaseECH_Write :: "greaseRandom \<Rightarrow> cryptobyte \<Rightarrow> bytes \<Rightarrow> string + tlsExtension" where
  "greaseECH_Write rnd cb b =
     (case cb_ReadUint8 cb b of
        None \<Rightarrow> Inl ''bad Client Hello type, expected 0, got 0''
      | Some (chType, s1) \<Rightarrow>
          if chType \<noteq> 0 then Inl (''bad Client Hello type, expected 0, got '' @ Itoa (unat chType))
          else case cb_ReadUint16 cb s1 of
            None \<Rightarrow> Inl ''bad cipher suite''
          | Some (kdf, s2) \<Rightarrow>
              (case cb_ReadUint16 cb s2 of
                 None \<Rightarrow> Inl ''bad cipher suite''
               | Some (aead, s3) \<Rightarrow>
                   if kdf \<notin> {1, 2, 3} then Inl (''bad KDF ID: '' @ Itoa (unat kdf))
                   else if aead \<notin> {1, 2, 3} then Inl (''bad AEAD ID: '' @ Itoa (unat aead))
                   else case cb_ReadUint8 cb s3 of
                     None \<Rightarrow> Inl ''bad config ID''
                   | Some (configId, s4) \<Rightarrow>
                       (case cb_ReadUint16LengthPrefixed cb s4 of
                          None \<Rightarrow> Inl ''bad encapsulated key''
                        | Some (key, s5) \<Rightarrow>
                            (case cb_ReadUint16LengthPrefixed cb s5 of
                               None \<Rightarrow> Inl ''bad payload''
                             | Some (payload, _) \<Rightarrow>
                                 Inr (GREASEEncryptedClientHelloExtension (emptyGreaseECH\<lparr>
                                   ge_cipherSuite := \<lparr>hs_KdfId = kdf, hs_AeadId = aead\<rparr>,
                                   ge_CandidateCipherSuites := [\<lparr>hs_KdfId = kdf, hs_AeadId = aead\<rparr>], ge_configId := configId,
                                   ge_EncapsulatedKey := gr_bytes rnd (length key),
                                   ge_CandidatePayloadLens := [word_of_int (int (length payload) - 16)]\<rparr>))))))"

text \<open>The decoder of pre-shared keys counts the declared lengths down in 16 bits; a label may end one byte before the
  count does, which then wraps. Each round reads at least six bytes (two for a binder).\<close>

fun pskIdentities :: "cryptobyte \<Rightarrow> nat \<Rightarrow> u16 \<Rightarrow> bytes \<Rightarrow> ((bytes \<times> 32 word) list \<times> bytes) option" where
  "pskIdentities cb fuel n s =
     (if n = 0 then Some ([], s)
      else case fuel of
        0 \<Rightarrow> None
      | Suc fuel' \<Rightarrow> do {
          (identityLength, s1) \<leftarrow> cb_ReadUint16 cb s;
          let n1 = n - 2;
          if n1 < identityLength then None
          else do {
            (label, s2) \<leftarrow> cb_ReadBytes cb (unat identityLength) s1;
            (age, s3) \<leftarrow> cb_ReadUint32 cb s2;
            (rest, s4) \<leftarrow> pskIdentities cb fuel' (n1 - identityLength - 4) s3;
            Some ((label, age) # rest, s4)
          }
        })"

fun pskBinders :: "cryptobyte \<Rightarrow> nat \<Rightarrow> u16 \<Rightarrow> bytes \<Rightarrow> (bytes list \<times> bytes) option" where
  "pskBinders cb fuel n s =
     (if n = 0 then Some ([], s)
      else case fuel of
        0 \<Rightarrow> None
      | Suc fuel' \<Rightarrow> do {
          (binderLength, s1) \<leftarrow> cb_ReadUint8 cb s;
          let n1 = n - 1;
          if n1 < ucast binderLength then None
          else do {
            (binder, s2) \<leftarrow> cb_ReadBytes cb (unat binderLength) s1;
            (rest, s3) \<leftarrow> pskBinders cb fuel' (n1 - ucast binderLength) s2;
            Some (binder # rest, s3)
          }
        })"

declare pskIdentities.simps [simp del] pskBinders.simps [simp del]

definition FakePreSharedKey_Write :: "cryptobyte \<Rightarrow> bytes \<Rightarrow> string + tlsExtension" where
  "FakePreSharedKey_Write cb b =
     (case do {
        (identitiesLength, s1) \<leftarrow> cb_ReadUint16 cb b;
        (ids, s2) \<leftarrow> pskIdentities cb (length s1) identitiesLength s1;
        (bindersLength, s3) \<leftarrow> cb_ReadUint16 cb s2;
        (bs, _) \<leftarrow> pskBinders cb (length s3) bindersLength s3;
        Some (FakePreSharedKeyExtension ids bs False)
      } of None \<Rightarrow> Inl ''tls: invalid PSK extension'' | Some e \<Rightarrow> Inr e)"

text \<open>\<open>ext_Write\<close> of the extension \<open>ExtensionFromID\<close> made; \<open>None\<close> for the types without a decoder.\<close>

fun ext_Write :: "greaseRandom \<Rightarrow> cryptobyte \<Rightarrow> tlsExtension \<Rightarrow> bytes \<Rightarrow> (string + tlsExtension) option" where
  "ext_Write rnd cb (SNIExtension _) b = Some (SNI_Write cb b)"
| "ext_Write rnd cb StatusRequestExtension b = Some (StatusRequest_Write cb b)"
| "ext_Write rnd cb (SupportedCurvesExtension _) b = Some (SupportedCurves_Write cb b)"
| "ext_Write rnd cb (SupportedPointsExtension _) b = Some (SupportedPoints_Write cb b)"
| "ext_Write rnd cb (SignatureAlgorithmsExtension _) b = Some (SignatureAlgorithms_Write cb b)"
| "ext_Write rnd cb StatusRequestV2Extension b = Some (StatusRequestV2_Write cb b)"
| "ext_Write rnd cb (SignatureAlgorithmsCertExtension _) b = Some (SignatureAlgorithmsCert_Write cb b)"
| "ext_Write rnd cb (ALPNExtension _) b = Some (ALPN_Write cb b)"
| "ext_Write rnd cb (ApplicationSettingsExtension _) b =
     Some (case readProtoList cb b of Inl e \<Rightarrow> Inl e | Inr ps \<Rightarrow> Inr (ApplicationSettingsExtension ps))"
| "ext_Write rnd cb (ApplicationSettingsExtensionNew _) b =
     Some (case readProtoList cb b of Inl e \<Rightarrow> Inl e | Inr ps \<Rightarrow> Inr (ApplicationSettingsExtensionNew ps))"
| "ext_Write rnd cb SCTExtension b = Some (Inr SCTExtension)"
| "ext_Write rnd cb (GenericExtension _ _) b = None"
| "ext_Write rnd cb ExtendedMasterSecretExtension b = Some (Inr ExtendedMasterSecretExtension)"
| "ext_Write rnd cb (UtlsGREASEExtension _ _) b = Some (Inr (UtlsGREASEExtension GREASE_PLACEHOLDER b))"
| "ext_Write rnd cb (UtlsPaddingExtension n w _) b = Some (Inr (UtlsPaddingExtension n w (Some BoringPaddingStyle)))"
| "ext_Write rnd cb (UtlsCompressCertExtension _) b = Some (CompressCert_Write cb b)"
| "ext_Write rnd cb (KeyShareExtension _) b = Some (KeyShare_Write cb b)"
| "ext_Write rnd cb (QUICTransportParametersExtension _) b = None"
| "ext_Write rnd cb (PSKKeyExchangeModesExtension _) b = Some (PSKModes_Write cb b)"
| "ext_Write rnd cb (SupportedVersionsExtension _) b = Some (SupportedVersions_Write cb b)"
| "ext_Write rnd cb (CookieExtension _) b = None"
| "ext_Write rnd cb (NPNExtension ps) b = Some (Inr (NPNExtension ps))"
| "ext_Write rnd cb (RenegotiationInfoExtension _ c) b = Some (Inr (RenegotiationInfoExtension RenegotiateOnceAsClient c))"
| "ext_Write rnd cb (FakeChannelIDExtension o1) b = Some (Inr (FakeChannelIDExtension o1))"
| "ext_Write rnd cb (FakeRecordSizeLimitExtension _) b = Some (RecordSizeLimit_Write cb b)"
| "ext_Write rnd cb (FakeTokenBindingExtension _ _ _) b = Some (TokenBinding_Write cb b)"
| "ext_Write rnd cb (FakeDelegatedCredentialsExtension _) b = Some (DelegatedCredentials_Write cb b)"
| "ext_Write rnd cb (SessionTicketExtension t) b = Some (Inr (SessionTicketExtension t))"
| "ext_Write rnd cb (GREASEEncryptedClientHelloExtension _) b = Some (greaseECH_Write rnd cb b)"
| "ext_Write rnd cb (FakePreSharedKeyExtension _ _ _) b = Some (FakePreSharedKey_Write cb b)"

text \<open>\<open>ReadTLSExtensions\<close> without real pre-shared keys (one message without its number). An unknown type is kept as it is under blunt mimicry.\<close>

fun ReadTLSExtensions :: "greaseRandom \<Rightarrow> cryptobyte \<Rightarrow> bool \<Rightarrow> nat \<Rightarrow> bytes \<Rightarrow> string + tlsExtension list" where
  "ReadTLSExtensions rnd cb blunt fuel [] = Inr []"
| "ReadTLSExtensions rnd cb blunt 0 (x # s) = Inl ''unable to read extension ID''"
| "ReadTLSExtensions rnd cb blunt (Suc fuel) (x # s) =
     (case cb_ReadUint16 cb (x # s) of
        None \<Rightarrow> Inl ''unable to read extension ID''
      | Some (extension, s1) \<Rightarrow>
          (case cb_ReadUint16LengthPrefixed cb s1 of
             None \<Rightarrow> Inl ''unable to read data for extension''
           | Some (extData, s2) \<Rightarrow>
               (case Option.bind (ExtensionFromID extension) (\<lambda>e. ext_Write rnd cb e extData) of
                  Some (Inl err) \<Rightarrow> Inl err
                | Some (Inr e) \<Rightarrow>
                    (case ReadTLSExtensions rnd cb blunt fuel s2 of Inl err \<Rightarrow> Inl err | Inr es \<Rightarrow> Inr (e # es))
                | None \<Rightarrow>
                    if \<not> blunt then Inl (''unsupported extension '' @ Itoa (unat extension))
                    else case ReadTLSExtensions rnd cb blunt fuel s2 of
                           Inl err \<Rightarrow> Inl err | Inr es \<Rightarrow> Inr (GenericExtension extension extData # es))))"

end
