(* ===== verification/Utls_Extensions_Correct.thy ===== *)
theory Utls_Extensions_Correct
  imports Utls_Extensions
begin

text \<open>
  The extensions of \<open>Utls_Extensions\<close>: what they write is as long as they say and carries its length, and what is written
  can be read back.
\<close>

section \<open>Shape\<close>

fun typeOf :: "tlsExtension \<Rightarrow> u16" where
  "typeOf (SNIExtension _) = extensionServerName"
| "typeOf StatusRequestExtension = extensionStatusRequest"
| "typeOf (SupportedCurvesExtension _) = extensionSupportedCurves"
| "typeOf (SupportedPointsExtension _) = extensionSupportedPoints"
| "typeOf (SignatureAlgorithmsExtension _) = extensionSignatureAlgorithms"
| "typeOf StatusRequestV2Extension = extensionStatusRequestV2"
| "typeOf (SignatureAlgorithmsCertExtension _) = extensionSignatureAlgorithmsCert"
| "typeOf (ALPNExtension _) = extensionALPN"
| "typeOf (ApplicationSettingsExtension _) = utlsExtensionApplicationSettings"
| "typeOf (ApplicationSettingsExtensionNew _) = utlsExtensionApplicationSettingsNew"
| "typeOf SCTExtension = extensionSCT"
| "typeOf (GenericExtension i _) = i"
| "typeOf ExtendedMasterSecretExtension = extensionExtendedMasterSecret"
| "typeOf (UtlsGREASEExtension v _) = v"
| "typeOf (UtlsPaddingExtension _ _ _) = utlsExtensionPadding"
| "typeOf (UtlsCompressCertExtension _) = utlsExtensionCompressCertificate"
| "typeOf (KeyShareExtension _) = extensionKeyShare"
| "typeOf (QUICTransportParametersExtension _) = extensionQUICTransportParameters"
| "typeOf (PSKKeyExchangeModesExtension _) = extensionPSKModes"
| "typeOf (SupportedVersionsExtension _) = extensionSupportedVersions"
| "typeOf (CookieExtension _) = extensionCookie"
| "typeOf (NPNExtension _) = extensionNextProtoNeg"
| "typeOf (RenegotiationInfoExtension _ _) = extensionRenegotiationInfo"
| "typeOf (FakeChannelIDExtension b) = (if b then fakeOldExtensionChannelID else fakeExtensionChannelID)"
| "typeOf (FakeRecordSizeLimitExtension _) = fakeRecordSizeLimit"
| "typeOf (FakeTokenBindingExtension _ _ _) = fakeExtensionTokenBinding"
| "typeOf (FakeDelegatedCredentialsExtension _) = fakeExtensionDelegatedCredentials"
| "typeOf (SessionTicketExtension _) = extensionSessionTicket"
| "typeOf (GREASEEncryptedClientHelloExtension _) = utlsExtensionECH"
| "typeOf (FakePreSharedKeyExtension _ _ _) = extensionPreSharedKey"

lemma length_u16s [simp]: "length (u16s ws) = 2 * length ws"
  by (induction ws) (simp_all add: u16s_def)

lemma u16s_empty [simp]: "u16s ws = [] \<longleftrightarrow> ws = []"
  using length_u16s [of ws] by (cases ws) (auto simp: u16s_def be16w_def be16_def)

lemma length_protoList [simp]: "length (protoList ss) = sizes ss"
  by (induction ss) (simp_all add: protoList_def sizes_def)

lemma length_keyShares [simp]:
  "length (concat (map (\<lambda>ks. be16w (ks_Group ks) @ be16 (length (ks_Data ks)) @ ks_Data ks) shares)) = keySharesLen shares"
  by (induction shares) (simp_all add: keySharesLen_def)

lemma length_identities [simp]:
  "length (concat (map (\<lambda>(label, age). be16 (length label) @ label @ be32w age) ids)) = sum_list (map (\<lambda>(label, age). 2 + length label + 4) ids)"
  by (induction ids) auto

lemma length_binders [simp]:
  "length (concat (map (\<lambda>b. word_of_nat (length b) # b) bs)) = sum_list (map (\<lambda>b. length b + 1) bs)"
  by (induction bs) auto

lemma drop4_header [simp]: "drop 4 (be16w w @ be16 n @ xs) = xs"
  by (simp add: be16w_def be16_def)

lemmas read_defs = SNI_Read_def StatusRequest_Read_def SupportedCurves_Read_def SupportedPoints_Read_def SignatureAlgorithms_Read_def
  StatusRequestV2_Read_def SignatureAlgorithmsCert_Read_def ALPN_Read_def applicationSettings_Read_def Generic_Read_def UtlsGREASE_Read_def
  padding_Read_def CompressCert_Read_def KeyShare_Read_def QUIC_Read_def PSKModes_Read_def SupportedVersions_Read_def Cookie_Read_def
  RenegotiationInfo_Read_def ChannelID_Read_def RecordSizeLimit_Read_def TokenBinding_Read_def DelegatedCredentials_Read_def
  SessionTicket_Read_def greaseECH_Read_def FakePreSharedKey_Read_def readPskIntoBytes_def emptyExt_def

lemmas len_defs = SNI_Len_def ALPN_Len_def applicationSettings_Len_def padding_Len_def greaseECH_Len_def pskExtLen_def

definition framed :: "u16 \<Rightarrow> bytes \<Rightarrow> bool" where
  "framed ty bs \<longleftrightarrow> bs = be16w ty @ be16 (length bs - 4) @ drop 4 bs \<and> 4 \<le> length bs"

lemma framed_app [simp]: "n = length body \<Longrightarrow> framed ty (be16w ty @ be16 n @ body)"
  by (simp add: framed_def)

lemma framed_short [simp]: "unat k = length body \<Longrightarrow> framed ty (be16w ty @ 0 # k # body)"
proof -
  assume k: "unat k = length body"
  have "unat k < 2 ^ LENGTH(8)" by (rule unsigned_less)
  then have "be16 (length body) = [0, k]" by (simp add: be16_def flip: k)
  then show ?thesis using framed_app [OF refl, of ty body] by simp
qed

lemma encode_length: "encode e = Inr bs \<Longrightarrow> length bs = ext_Len e"
  by (cases e) (auto simp: read_defs len_defs Let_def split: if_splits)

lemma encode_framed: "encode e = Inr bs \<Longrightarrow> bs = [] \<or> framed (typeOf e) bs"
  by (cases e) (auto simp: read_defs len_defs Let_def split: if_splits)

section \<open>Reading back\<close>

text \<open>What the decoder makes of an extension: names, tickets and keys are dropped, GREASE values become placeholders, an
  extension without a decoder is kept as its bytes.\<close>

fun recovered :: "greaseRandom \<Rightarrow> tlsExtension \<Rightarrow> tlsExtension" where
  "recovered rnd (SNIExtension n) = SNIExtension ''''"
| "recovered rnd (SupportedCurvesExtension cs) = SupportedCurvesExtension (map unGREASEUint16 cs)"
| "recovered rnd (UtlsGREASEExtension v b) = UtlsGREASEExtension GREASE_PLACEHOLDER b"
| "recovered rnd (UtlsPaddingExtension n w f) = UtlsPaddingExtension 0 False (Some BoringPaddingStyle)"
| "recovered rnd (KeyShareExtension kss) =
     KeyShareExtension (map (\<lambda>ks. let g = unGREASEUint16 (ks_Group ks) in
                            \<lparr>ks_Group = g, ks_Data = if g = GREASE_PLACEHOLDER then ks_Data ks else []\<rparr>) kss)"
| "recovered rnd (QUICTransportParametersExtension r) = GenericExtension extensionQUICTransportParameters r"
| "recovered rnd (SupportedVersionsExtension vs) = SupportedVersionsExtension (map unGREASEUint16 vs)"
| "recovered rnd (CookieExtension c) = GenericExtension extensionCookie (be16 (length c) @ c)"
| "recovered rnd (NPNExtension ps) = NPNExtension []"
| "recovered rnd (RenegotiationInfoExtension r c) = RenegotiationInfoExtension RenegotiateOnceAsClient []"
| "recovered rnd (SessionTicketExtension t) = SessionTicketExtension []"
| "recovered rnd (GREASEEncryptedClientHelloExtension g) =
     GREASEEncryptedClientHelloExtension (emptyGreaseECH\<lparr>
       ge_cipherSuite := ge_cipherSuite g, ge_CandidateCipherSuites := [ge_cipherSuite g], ge_configId := ge_configId g,
       ge_EncapsulatedKey := gr_bytes rnd (length (ge_EncapsulatedKey g)),
       ge_CandidatePayloadLens := [word_of_int (int (length (ge_payload g)) - 16)]\<rparr>)"
| "recovered rnd (FakePreSharedKeyExtension ids bs omit) = FakePreSharedKeyExtension ids bs False"
| "recovered rnd e = e"

text \<open>The values an extension can carry: the lists the decoder wants are not empty, a length fits its field, a GREASE
  value is one, and a generic extension is not one of the known ones.\<close>

fun carries :: "tlsExtension \<Rightarrow> bool" where
  "carries (SupportedCurvesExtension cs) \<longleftrightarrow> cs \<noteq> []"
| "carries (SupportedPointsExtension ps) \<longleftrightarrow> ps \<noteq> [] \<and> length ps < 256"
| "carries (SignatureAlgorithmsExtension as) \<longleftrightarrow> as \<noteq> []"
| "carries (SignatureAlgorithmsCertExtension as) \<longleftrightarrow> as \<noteq> []"
| "carries (FakeDelegatedCredentialsExtension as) \<longleftrightarrow> as \<noteq> []"
| "carries (ALPNExtension ps) \<longleftrightarrow> ps \<noteq> [] \<and> list_all (\<lambda>p. p \<noteq> '''' \<and> length p < 256) ps"
| "carries (ApplicationSettingsExtension ps) \<longleftrightarrow> ps \<noteq> [] \<and> list_all (\<lambda>p. p \<noteq> '''' \<and> length p < 256) ps"
| "carries (ApplicationSettingsExtensionNew ps) \<longleftrightarrow> ps \<noteq> [] \<and> list_all (\<lambda>p. p \<noteq> '''' \<and> length p < 256) ps"
| "carries (GenericExtension i d) \<longleftrightarrow> ExtensionFromID i = None"
| "carries (UtlsGREASEExtension v b) \<longleftrightarrow> isGREASEUint16 v"
| "carries (KeyShareExtension kss) \<longleftrightarrow> list_all (\<lambda>ks. ks_Data ks \<noteq> []) kss"
| "carries (SupportedVersionsExtension vs) \<longleftrightarrow> vs \<noteq> []"
| "carries (FakeTokenBindingExtension a b ks) \<longleftrightarrow> length ks < 256"
| "carries (GREASEEncryptedClientHelloExtension g) \<longleftrightarrow>
     hs_KdfId (ge_cipherSuite g) \<in> {1, 2, 3} \<and> hs_AeadId (ge_cipherSuite g) \<in> {1, 2, 3}"
| "carries _ \<longleftrightarrow> True"

lemma grease_known: "isGREASEUint16 v \<Longrightarrow> ExtensionFromID v = Some (UtlsGREASEExtension 0 [])"
  by (auto simp: ExtensionFromID_def isGREASEUint16_def)

lemma cookie_no_grease: "\<not> isGREASEUint16 extensionCookie"
  by (simp add: isGREASEUint16_def)

lemma hostname_no_dot: "hostnameInSNI n \<noteq> '''' \<Longrightarrow> last (hostnameInSNI n) \<noteq> CHR ''.''"
proof -
  assume "hostnameInSNI n \<noteq> ''''"
  then have *: "hostnameInSNI n = rev (dropWhile (\<lambda>c. c = CHR ''.'') (rev n))" "dropWhile (\<lambda>c. c = CHR ''.'') (rev n) \<noteq> []"
    by (auto simp: hostnameInSNI_def Let_def split: if_splits)
  then show ?thesis using hd_dropWhile [of "\<lambda>c. c = CHR ''.''" "rev n"] by (simp add: last_rev)
qed

context cryptobyte_reader
begin

lemma readAll_u16s [simp]: "n = 2 * length ws \<Longrightarrow> readAll (cb_ReadUint16 cb) n (u16s ws) = Some ws"
proof -
  have "be16w w \<noteq> []" for w by (simp add: be16w_def be16_def)
  then have "readAll (cb_ReadUint16 cb) (length (u16s ws)) (u16s ws) = Some (map (\<lambda>w. w) ws)"
    unfolding u16s_def by (intro readAll_concat) simp_all
  moreover assume "n = 2 * length ws"
  ultimately show ?thesis by simp
qed

lemma ReadUint8_u16s [simp]:
  "2 * length ws < 256 \<Longrightarrow> cb_ReadUint8LengthPrefixed cb (2 * word_of_nat (length ws) # u16s ws) = Some (u16s ws, [])"
  using ReadUint8_prefixed' (2) [of "2 * length ws" "u16s ws"] by simp

lemma StatusRequestV2_prefix [simp]:
  "cb_ReadUint16LengthPrefixed cb [0, 7, 2, 0, 4, 0, 0, 0, 0] = Some ([2, 0, 4, 0, 0, 0, 0], [])"
  using ReadUint16_prefixed' (2) [of 7 "[2, 0, 4, 0, 0, 0, 0]"] by (simp add: be16_def)

lemma readU16List_back [simp]:
  "ws \<noteq> [] \<Longrightarrow> 2 * length ws < 65536 \<Longrightarrow> readU16List cb msg (be16 (2 * length ws) @ u16s ws) = Inr ws"
  by (simp add: readU16List_def)

lemma readProto_back:
  "p \<noteq> '''' \<Longrightarrow> length p < 256 \<Longrightarrow> readProto cb ((word_of_nat (length p) # strBytes p) @ r) = Some (p, r)"
  by (simp add: readProto_def)

lemma readProtoList_back [simp]:
  assumes "ps \<noteq> []" "list_all (\<lambda>p. p \<noteq> '''' \<and> length p < 256) ps" "sizes ps < 65536"
  shows "readProtoList cb (be16 (sizes ps) @ protoList ps) = Inr ps"
proof -
  have "readAll (readProto cb) (length (protoList ps)) (protoList ps) = Some (map (\<lambda>p. p) ps)"
    unfolding protoList_def using assms(2) by (intro readAll_concat) (simp_all add: list_all_iff readProto_back [simplified])
  moreover have "protoList ps \<noteq> []" using assms by (cases ps) (auto simp: protoList_def)
  ultimately show ?thesis using assms by (simp add: readProtoList_def)
qed

lemma readKeyShare_back:
  assumes "ks_Data ks \<noteq> []" "length (ks_Data ks) < 65536"
  shows "readKeyShare cb ((be16w (ks_Group ks) @ be16 (length (ks_Data ks)) @ ks_Data ks) @ r) =
    Some (let g = unGREASEUint16 (ks_Group ks) in \<lparr>ks_Group = g, ks_Data = if g = GREASE_PLACEHOLDER then ks_Data ks else []\<rparr>, r)"
  using assms by (simp add: readKeyShare_def Let_def)

lemma KeyShare_back:
  assumes "list_all (\<lambda>ks. ks_Data ks \<noteq> []) kss" "keySharesLen kss < 65536"
  shows "KeyShare_Write cb (be16 (keySharesLen kss) @ concat (map (\<lambda>ks. be16w (ks_Group ks) @ be16 (length (ks_Data ks)) @ ks_Data ks) kss))
    = Inr (recovered rnd (KeyShareExtension kss))"
proof -
  let ?enc = "\<lambda>ks. be16w (ks_Group ks) @ be16 (length (ks_Data ks)) @ ks_Data ks"
  have "length (ks_Data ks) < 65536" if "ks \<in> set kss" for ks
    using that assms(2) member_le_sum_list [of "4 + length (ks_Data ks)" "map (\<lambda>ks. 4 + length (ks_Data ks)) kss"]
    by (auto simp: keySharesLen_def)
  then have "readAll (readKeyShare cb) (length (concat (map ?enc kss))) (concat (map ?enc kss)) =
    Some (map (\<lambda>ks. let g = unGREASEUint16 (ks_Group ks) in \<lparr>ks_Group = g, ks_Data = if g = GREASE_PLACEHOLDER then ks_Data ks else []\<rparr>) kss)"
    using assms(1) by (intro readAll_concat) (simp_all add: list_all_iff readKeyShare_back [simplified])
  then show ?thesis using assms(2) by (simp add: KeyShare_Write_def)
qed

lemma u16_of_nat_nonzero: "0 < n \<Longrightarrow> n < 65536 \<Longrightarrow> (word_of_nat n :: u16) \<noteq> 0"
  by (auto simp: word_of_nat_eq_0_iff dest: dvd_imp_le)

lemma pskIdentities_back:
  assumes "sum_list (map (\<lambda>(label, age). 2 + length label + 4) ids) < 65536" "length ids \<le> fuel"
  shows "pskIdentities cb fuel (word_of_nat (sum_list (map (\<lambda>(label, age). 2 + length label + 4) ids)))
    (concat (map (\<lambda>(label, age). be16 (length label) @ label @ be32w age) ids) @ r) = Some (ids, r)"
  using assms
proof (induction ids arbitrary: fuel)
  case (Cons x ids)
  obtain label age where x: "x = (label, age)" by (cases x)
  obtain k where k: "fuel = Suc k" using Cons.prems(2) by (cases fuel) auto
  let ?m = "sum_list (map (\<lambda>(label, age). 2 + length label + 4) ids)"
  have n: "word_of_nat (6 + (length label + ?m)) \<noteq> (0 :: u16)"
    using u16_of_nat_nonzero [of "6 + (length label + ?m)"] Cons.prems(1) x by simp
  have le: "\<not> word_of_nat (6 + (length label + ?m)) - 2 < (word_of_nat (length label) :: u16)"
  proof -
    have "word_of_nat (6 + (length label + ?m)) - 2 = (word_of_nat (4 + (length label + ?m)) :: u16)" by simp
    then show ?thesis using Cons.prems(1) x by (simp add: word_less_nat_alt unat_of_nat take_bit_nat_eq_self_iff del: of_nat_add)
  qed
  have "pskIdentities cb k (word_of_nat ?m) (concat (map (\<lambda>(label, age). be16 (length label) @ label @ be32w age) ids) @ r) = Some (ids, r)"
    using Cons.prems k by (intro Cons.IH) (auto simp: x)
  then show ?case
    using n le Cons.prems(1)
    by (simp add: x k pskIdentities.simps [of cb "Suc k"] Let_def unat_of_nat take_bit_nat_eq_self_iff add.assoc)
qed (simp add: pskIdentities.simps)

lemma pskBinders_back:
  assumes "sum_list (map (\<lambda>b. length b + 1) bs) < 65536" "length bs \<le> fuel" "list_all (\<lambda>b. length b < 256) bs"
  shows "pskBinders cb fuel (word_of_nat (sum_list (map (\<lambda>b. length b + 1) bs))) (concat (map (\<lambda>b. word_of_nat (length b) # b) bs))
    = Some (bs, [])"
  using assms
proof (induction bs arbitrary: fuel)
  case (Cons b bs)
  obtain k where k: "fuel = Suc k" using Cons.prems(2) by (cases fuel) auto
  let ?m = "sum_list (map (\<lambda>b. length b + 1) bs)"
  have len: "ucast (word_of_nat (length b) :: byte) = (word_of_nat (length b) :: u16)" "unat (word_of_nat (length b) :: byte) = length b"
  proof -
    have "take_bit 8 (length b) = length b" using Cons.prems(3) by (simp add: take_bit_nat_eq_self_iff)
    then show "ucast (word_of_nat (length b) :: byte) = (word_of_nat (length b) :: u16)" "unat (word_of_nat (length b) :: byte) = length b"
      by (simp_all add: unsigned_of_nat unat_of_nat)
  qed
  have n: "word_of_nat (1 + (length b + ?m)) \<noteq> (0 :: u16)"
    using u16_of_nat_nonzero [of "1 + (length b + ?m)"] Cons.prems(1) by simp
  have le: "\<not> word_of_nat (1 + (length b + ?m)) - 1 < (word_of_nat (length b) :: u16)"
  proof -
    have "word_of_nat (1 + (length b + ?m)) - 1 = (word_of_nat (length b + ?m) :: u16)" by simp
    then show ?thesis using Cons.prems(1) by (simp add: word_less_nat_alt unat_of_nat take_bit_nat_eq_self_iff del: of_nat_add)
  qed
  have "pskBinders cb k (word_of_nat ?m) (concat (map (\<lambda>b. word_of_nat (length b) # b) bs)) = Some (bs, [])"
    using Cons.prems k by (intro Cons.IH) auto
  then show ?case
    using n le by (simp add: k pskBinders.simps [of cb "Suc k"] Let_def len add.assoc)
qed (simp add: pskBinders.simps)

lemma psk_back:
  assumes "pskExtLen ids bs < 65540" "ids \<noteq> []" "bs \<noteq> []" "list_all (\<lambda>b. length b = 32 \<or> length b = 48) bs"
  shows "FakePreSharedKey_Write cb (drop 4 (readPskIntoBytes ids bs)) = Inr (FakePreSharedKeyExtension ids bs False)"
proof -
  have "length ids \<le> sum_list (map (\<lambda>(label, age). 2 + length label + 4) ids)" by (induction ids) auto
  moreover have "length bs \<le> sum_list (map (\<lambda>b. length b + 1) bs)" by (induction bs) auto
  moreover have "list_all (\<lambda>b. length b < 256) bs" using assms(4) by (auto simp: list_all_iff)
  ultimately show ?thesis
    using assms by (simp add: FakePreSharedKey_Write_def readPskIntoBytes_def pskExtLen_def pskIdentities_back [simplified] pskBinders_back [simplified])
qed

lemma SNI_back: "hostnameInSNI n \<noteq> '''' \<Longrightarrow> SNI_Len n < 65540 \<Longrightarrow> SNI_Write cb (drop 4 (SNI_Read n)) = Inr (SNIExtension '''')"
proof -
  assume n: "hostnameInSNI n \<noteq> ''''" "SNI_Len n < 65540"
  let ?h = "hostnameInSNI n"
  have "cb_ReadUint16LengthPrefixed cb (be16 (length ?h + 3) @ 0 # be16 (length ?h) @ strBytes ?h) = Some (0 # be16 (length ?h) @ strBytes ?h, [])"
    using n by (intro ReadUint16_prefixed') (auto simp: SNI_Len_def)
  moreover have "\<not> HasSuffix ?h ''.''"
    using n(1) hostname_no_dot [of n] by (cases ?h rule: rev_cases) (auto simp: HasSuffix_def)
  ultimately show ?thesis using n by (simp add: SNI_Read_def SNI_Write_def SNI_Len_def Let_def)
qed

lemmas write_defs = StatusRequest_Write_def SupportedCurves_Write_def SupportedPoints_Write_def SignatureAlgorithms_Write_def
  StatusRequestV2_Write_def SignatureAlgorithmsCert_Write_def ALPN_Write_def CompressCert_Write_def PSKModes_Write_def
  SupportedVersions_Write_def RecordSizeLimit_Write_def TokenBinding_Write_def DelegatedCredentials_Write_def greaseECH_Write_def

lemma Write_back:
  assumes "encode e = Inr bs" "bs \<noteq> []" "carries e" "ext_Len e < 65540"
  shows "case Option.bind (ExtensionFromID (typeOf e)) (\<lambda>x. ext_Write rnd cb x (drop 4 bs)) of
    None \<Rightarrow> recovered rnd e = GenericExtension (typeOf e) (drop 4 bs) | Some r \<Rightarrow> r = Inr (recovered rnd e)"
proof (cases e)
  case (SNIExtension n)
  then show ?thesis using assms SNI_back [of n] by (auto simp: ExtensionFromID_def SNI_Read_def Let_def)
next
  case (FakePreSharedKeyExtension ids bs' omit)
  then show ?thesis using assms psk_back [of ids bs']
    by (auto simp: ExtensionFromID_def FakePreSharedKey_Read_def readPskIntoBytes_def pskExtLen_def list_ex_iff list_all_iff split: if_splits)
next
  case (KeyShareExtension kss)
  then show ?thesis using assms KeyShare_back [of kss rnd] by (auto simp: ExtensionFromID_def KeyShare_Read_def)
next
  case (UtlsGREASEExtension v b)
  then show ?thesis using assms by (auto simp: grease_known UtlsGREASE_Read_def)
qed (use assms cookie_no_grease in \<open>auto simp: ExtensionFromID_def read_defs write_defs len_defs Let_def split: if_splits\<close>)

lemma ReadTLSExtensions_step:
  assumes "encode e = Inr bs" "bs \<noteq> []" "carries e" "ext_Len e < 65540"
  shows "ReadTLSExtensions rnd cb True (Suc fuel) (bs @ rest) =
    (case ReadTLSExtensions rnd cb True fuel rest of Inl err \<Rightarrow> Inl err | Inr es \<Rightarrow> Inr (recovered rnd e # es))"
proof -
  have f: "framed (typeOf e) bs" using encode_framed [OF assms(1)] assms(2) by simp
  then obtain x s where xs: "bs = x # s" by (cases bs) (auto simp: framed_def)
  have l: "length bs = ext_Len e" by (rule encode_length [OF assms(1)])
  have split: "bs @ rest = be16w (typeOf e) @ be16 (length bs - 4) @ drop 4 bs @ rest"
    using f unfolding framed_def by (metis append.assoc)
  have "cb_ReadUint16 cb (x # s @ rest) = Some (typeOf e, be16 (length bs - 4) @ drop 4 bs @ rest)"
    using split xs by (metis append_Cons ReadUint16_be16w)
  moreover have "cb_ReadUint16LengthPrefixed cb (be16 (length bs - 4) @ drop 4 bs @ rest) = Some (drop 4 bs, rest)"
    using l assms(4) by (intro ReadUint16_prefixed'(1)) simp_all
  ultimately show ?thesis
    using Write_back [OF assms, of rnd] by (auto simp: xs split: option.splits sum.splits)
qed

lemma ReadTLSExtensions_back:
  assumes "list_all2 (\<lambda>e bs. encode e = Inr bs) es bss" "list_all carries es" "list_all (\<lambda>e. ext_Len e < 65540) es"
    and "length (concat bss) \<le> fuel"
  shows "ReadTLSExtensions rnd cb True fuel (concat bss) = Inr (map (recovered rnd) (filter (\<lambda>e. ext_Len e \<noteq> 0) es))"
  using assms
proof (induction arbitrary: fuel rule: list_all2_induct)
  case (Cons e es bs bss)
  have l: "length bs = ext_Len e" using Cons.hyps(1) by (rule encode_length)
  show ?case
  proof (cases "bs = []")
    case True
    then show ?thesis using Cons l by auto
  next
    case False
    then obtain k where k: "fuel = Suc k" using Cons.prems(3) by (cases fuel) auto
    have "length (concat bss) \<le> k" using Cons.prems(3) k False by (cases bs) simp_all
    then have "ReadTLSExtensions rnd cb True k (concat bss) = Inr (map (recovered rnd) (filter (\<lambda>e. ext_Len e \<noteq> 0) es))"
      using Cons.prems by (intro Cons.IH) simp_all
    moreover have "ext_Len e \<noteq> 0" using False l by (cases bs) auto
    ultimately show ?thesis
      using ReadTLSExtensions_step [OF Cons.hyps(1) False] Cons.prems by (simp add: k)
  qed
qed simp

end

section \<open>Properties\<close>



text \<open>The padding of BoringSSL: no padded ClientHello has a length between 256 and 511 bytes; one that falls in that
  range gets a padding extension with at least one byte, which makes it 512 bytes long, or up to four more.\<close>

theorem padding_bounds:
  "let (n, pad) = BoringPaddingStyle len; total = len + padding_Len n pad in
   \<not> (256 \<le> total \<and> total < 512) \<and> (pad \<longleftrightarrow> 256 \<le> len \<and> len < 512) \<and> (pad = (1 \<le> n)) \<and>
   total = (if pad then max 512 (len + 5) else len)"
  by (auto simp: BoringPaddingStyle_def padding_Len_def Let_def)

end
