(* ===== verification/Utls_Messages.thy ===== *)
theory Utls_Messages
  imports Utls_Extensions_Correct
begin

text \<open>
  The handshake messages of the uTLS fork, \<open>src/utls/handshake_messages.go\<close>: how each is written and read. A writer fails with \<open>None\<close>
  where a length does not fit (the sticky error of \<open>cryptobyte.Builder\<close>), a reader where the bytes are malformed. A slice
  whose nil value matters is an option.
\<close>

section \<open>Builders\<close>

definition bytes8 :: "cryptobyte \<Rightarrow> bytes option \<Rightarrow> bytes option" where
  "bytes8 cb x = Option.bind x (cb_AddUint8LengthPrefixed cb)"

definition bytes16 :: "cryptobyte \<Rightarrow> bytes option \<Rightarrow> bytes option" where
  "bytes16 cb x = Option.bind x (cb_AddUint16LengthPrefixed cb)"

definition bytes24 :: "cryptobyte \<Rightarrow> bytes option \<Rightarrow> bytes option" where
  "bytes24 cb x = Option.bind x (cb_AddUint24LengthPrefixed cb)"

text \<open>One write after the other, all into the same builder.\<close>

fun addAll :: "bytes option list \<Rightarrow> bytes option" where
  "addAll [] = Some []"
| "addAll (x # xs) = (case x of None \<Rightarrow> None | Some b \<Rightarrow> map_option (\<lambda>r. b @ r) (addAll xs))"

definition addWhen :: "bool \<Rightarrow> bytes option \<Rightarrow> bytes option" where
  "addWhen b x = (if b then x else Some [])"

definition addExtension :: "cryptobyte \<Rightarrow> u16 \<Rightarrow> bytes option \<Rightarrow> bytes option" where
  "addExtension cb ty body = map_option (\<lambda>b. be16w ty @ b) (bytes16 cb body)"

definition addBytesWithLength :: "bytes \<Rightarrow> nat \<Rightarrow> bytes option" where
  "addBytesWithLength v n = (if length v = n then Some v else None)"

definition addUint64 :: "64 word \<Rightarrow> bytes" where
  "addUint64 v = be32w (ucast (drop_bit 32 v)) @ be32w (ucast v)"

definition readUint64 :: "cryptobyte \<Rightarrow> bytes \<Rightarrow> (64 word \<times> bytes) option" where
  "readUint64 cb s = do {
     (hi, s1) \<leftarrow> cb_ReadUint32 cb s;
     (lo, s2) \<leftarrow> cb_ReadUint32 cb s1;
     Some (push_bit 32 (ucast hi) OR ucast lo, s2)
   }"

text \<open>A message: its type, its length in three bytes, its body.\<close>

definition message :: "cryptobyte \<Rightarrow> byte \<Rightarrow> bytes option list \<Rightarrow> bytes option" where
  "message cb ty parts = map_option ((#) ty) (bytes24 cb (addAll parts))"

section \<open>Readers\<close>

text \<open>The loop over the extensions of a message: \<open>handle\<close> gets the type, the data, whether it is the last one, and the
  message so far. With \<open>uniq\<close> no type may appear twice.\<close>

fun extensionLoop ::
    "cryptobyte \<Rightarrow> bool \<Rightarrow> (u16 \<Rightarrow> bytes \<Rightarrow> bool \<Rightarrow> 'm \<Rightarrow> 'm option) \<Rightarrow> nat \<Rightarrow> u16 list \<Rightarrow> bytes \<Rightarrow> 'm \<Rightarrow> 'm option" where
  "extensionLoop cb uniq handle fuel seen [] m = Some m"
| "extensionLoop cb uniq handle 0 seen (b # s) m = None"
| "extensionLoop cb uniq handle (Suc fuel) seen (b # s) m =
     (case cb_ReadUint16 cb (b # s) of
        None \<Rightarrow> None
      | Some (extension, s1) \<Rightarrow>
          (case cb_ReadUint16LengthPrefixed cb s1 of
             None \<Rightarrow> None
           | Some (extData, s2) \<Rightarrow>
               if uniq \<and> extension \<in> set seen then None
               else case handle extension extData (s2 = []) m of
                      None \<Rightarrow> None
                    | Some m' \<Rightarrow> extensionLoop cb uniq handle fuel (extension # seen) s2 m'))"

text \<open>A value that fills all of the data.\<close>

definition whole :: "('a \<times> bytes) option \<Rightarrow> 'a option" where
  "whole r = (case r of Some (x, []) \<Rightarrow> Some x | _ \<Rightarrow> None)"

definition nonempty :: "'a list option \<Rightarrow> 'a list option" where
  "nonempty r = (case r of Some (x # xs) \<Rightarrow> Some (x # xs) | _ \<Rightarrow> None)"

definition flagOnly :: "bytes \<Rightarrow> 'm \<Rightarrow> 'm option" where
  "flagOnly extData m = (if extData = [] then Some m else None)"

text \<open>A list behind a 16-bit length that fills the data, not empty.\<close>

definition list16 :: "cryptobyte \<Rightarrow> (bytes \<Rightarrow> ('a \<times> bytes) option) \<Rightarrow> bytes \<Rightarrow> 'a list option" where
  "list16 cb rd s = nonempty (Option.bind (whole (cb_ReadUint16LengthPrefixed cb s)) (\<lambda>l. readAll rd (length l) l))"

definition readBytes16 :: "cryptobyte \<Rightarrow> bytes \<Rightarrow> (bytes \<times> bytes) option" where
  "readBytes16 cb s = (case cb_ReadUint16LengthPrefixed cb s of Some (x # xs, r) \<Rightarrow> Some (x # xs, r) | _ \<Rightarrow> None)"

definition readBytes8 :: "cryptobyte \<Rightarrow> bytes \<Rightarrow> (bytes \<times> bytes) option" where
  "readBytes8 cb s = (case cb_ReadUint8LengthPrefixed cb s of Some (x # xs, r) \<Rightarrow> Some (x # xs, r) | _ \<Rightarrow> None)"

section \<open>ClientHello\<close>

abbreviation extensionEarlyData :: u16 where "extensionEarlyData \<equiv> 42"
abbreviation extensionCertificateAuthorities :: u16 where "extensionCertificateAuthorities \<equiv> 47"
abbreviation extensionECHOuterExtensions :: u16 where "extensionECHOuterExtensions \<equiv> 0xfd00"
abbreviation extensionEncryptedClientHello :: u16 where "extensionEncryptedClientHello \<equiv> 0xfe0d"
abbreviation VersionTLS13 :: u16 where "VersionTLS13 \<equiv> 0x304"
abbreviation scsvRenegotiation :: u16 where "scsvRenegotiation \<equiv> 0xff"

record clientHelloMsg =
  ch_original :: "bytes option"
  ch_vers :: u16
  ch_random :: bytes
  ch_sessionId :: bytes
  ch_cipherSuites :: "u16 list"
  ch_compressionMethods :: bytes
  ch_serverName :: string
  ch_ocspStapling :: bool
  ch_supportedCurves :: "u16 list"
  ch_supportedPoints :: bytes
  ch_ticketSupported :: bool
  ch_sessionTicket :: bytes
  ch_supportedSignatureAlgorithms :: "u16 list"
  ch_supportedSignatureAlgorithmsCert :: "u16 list"
  ch_secureRenegotiationSupported :: bool
  ch_secureRenegotiation :: bytes
  ch_extendedMasterSecret :: bool
  ch_alpnProtocols :: "string list"
  ch_scts :: bool
  ch_supportedVersions :: "u16 list"
  ch_cookie :: bytes
  ch_keyShares :: "keyShare list"
  ch_earlyData :: bool
  ch_pskModes :: bytes
  ch_pskIdentities :: "(bytes \<times> 32 word) list"
  ch_pskBinders :: "bytes list"
  ch_quicTransportParameters :: "bytes option"
  ch_encryptedClientHello :: bytes
  ch_extensions :: "u16 list"

definition emptyClientHello :: clientHelloMsg where
  "emptyClientHello =
     \<lparr>ch_original = None, ch_vers = 0, ch_random = [], ch_sessionId = [], ch_cipherSuites = [], ch_compressionMethods = [], ch_serverName = '''',
      ch_ocspStapling = False, ch_supportedCurves = [], ch_supportedPoints = [], ch_ticketSupported = False, ch_sessionTicket = [],
      ch_supportedSignatureAlgorithms = [], ch_supportedSignatureAlgorithmsCert = [], ch_secureRenegotiationSupported = False,
      ch_secureRenegotiation = [], ch_extendedMasterSecret = False, ch_alpnProtocols = [], ch_scts = False, ch_supportedVersions = [],
      ch_cookie = [], ch_keyShares = [], ch_earlyData = False, ch_pskModes = [], ch_pskIdentities = [], ch_pskBinders = [],
      ch_quicTransportParameters = None, ch_encryptedClientHello = [], ch_extensions = []\<rparr>"

text \<open>The extensions that an inner ClientHello refers to instead of repeating them; \<open>outerExts\<close> is nil or the types of the
  outer one, which give the order.\<close>

definition compressible :: "clientHelloMsg \<Rightarrow> u16 list option \<Rightarrow> u16 list" where
  "compressible m outerExts =
     (let pick = (\<lambda>b ty. if b then [ty] else []);
          found = pick (ch_ocspStapling m) extensionStatusRequest @ pick (ch_supportedCurves m \<noteq> []) extensionSupportedCurves @
            pick (ch_supportedSignatureAlgorithms m \<noteq> []) extensionSignatureAlgorithms @
            pick (ch_supportedSignatureAlgorithmsCert m \<noteq> []) extensionSignatureAlgorithmsCert @
            pick (ch_alpnProtocols m \<noteq> []) extensionALPN @
            pick (ch_supportedVersions m \<noteq> [] \<and> outerExts = None) extensionSupportedVersions @
            pick (ch_cookie m \<noteq> []) extensionCookie @ pick (ch_keyShares m \<noteq> []) extensionKeyShare @
            pick (ch_pskModes m \<noteq> []) extensionPSKModes
      in case outerExts of None \<Rightarrow> found | Some outer \<Rightarrow> filter (\<lambda>e. e \<in> set found) outer)"

definition keyShareBytes :: "cryptobyte \<Rightarrow> keyShare \<Rightarrow> bytes option" where
  "keyShareBytes cb ks = addAll [Some (be16w (ks_Group ks)), bytes16 cb (Some (ks_Data ks))]"

definition identityBytes :: "cryptobyte \<Rightarrow> bytes \<times> 32 word \<Rightarrow> bytes option" where
  "identityBytes cb psk = addAll [bytes16 cb (Some (fst psk)), Some (be32w (snd psk))]"

definition helloExtensionParts :: "cryptobyte \<Rightarrow> clientHelloMsg \<Rightarrow> bool \<Rightarrow> u16 list option \<Rightarrow> bytes option list" where
  "helloExtensionParts cb m echInner outerExts =
     [addWhen (ch_serverName m \<noteq> '''') (addExtension cb extensionServerName
        (bytes16 cb (addAll [Some [0], bytes16 cb (Some (strBytes (ch_serverName m)))]))),
      addWhen (ch_supportedPoints m \<noteq> [] \<and> \<not> echInner) (addExtension cb extensionSupportedPoints (bytes8 cb (Some (ch_supportedPoints m)))),
      addWhen (ch_ticketSupported m \<and> \<not> echInner) (addExtension cb extensionSessionTicket (Some (ch_sessionTicket m))),
      addWhen (ch_secureRenegotiationSupported m \<and> \<not> echInner)
        (addExtension cb extensionRenegotiationInfo (bytes8 cb (Some (ch_secureRenegotiation m)))),
      addWhen (ch_extendedMasterSecret m \<and> \<not> echInner) (Some (be16w extensionExtendedMasterSecret @ be16 0)),
      addWhen (ch_scts m) (Some (be16w extensionSCT @ be16 0)),
      addWhen (ch_earlyData m) (Some (be16w extensionEarlyData @ be16 0)),
      addWhen (ch_quicTransportParameters m \<noteq> None) (addExtension cb extensionQUICTransportParameters (ch_quicTransportParameters m)),
      addWhen (ch_encryptedClientHello m \<noteq> []) (addExtension cb extensionEncryptedClientHello (Some (ch_encryptedClientHello m))),
      addWhen (ch_ocspStapling m \<and> \<not> echInner) (addExtension cb extensionStatusRequest (Some ([1] @ be16 0 @ be16 0))),
      addWhen (ch_supportedCurves m \<noteq> [] \<and> \<not> echInner)
        (addExtension cb extensionSupportedCurves (bytes16 cb (Some (u16s (ch_supportedCurves m))))),
      addWhen (ch_supportedSignatureAlgorithms m \<noteq> [] \<and> \<not> echInner)
        (addExtension cb extensionSignatureAlgorithms (bytes16 cb (Some (u16s (ch_supportedSignatureAlgorithms m))))),
      addWhen (ch_supportedSignatureAlgorithmsCert m \<noteq> [] \<and> \<not> echInner)
        (addExtension cb extensionSignatureAlgorithmsCert (bytes16 cb (Some (u16s (ch_supportedSignatureAlgorithmsCert m))))),
      addWhen (ch_alpnProtocols m \<noteq> [] \<and> \<not> echInner)
        (addExtension cb extensionALPN (bytes16 cb (addAll (map (\<lambda>p. bytes8 cb (Some (strBytes p))) (ch_alpnProtocols m))))),
      addWhen (ch_supportedVersions m \<noteq> [] \<and> \<not> (echInner \<and> outerExts = None))
        (addExtension cb extensionSupportedVersions (bytes8 cb (Some (u16s (ch_supportedVersions m))))),
      addWhen (ch_cookie m \<noteq> [] \<and> \<not> echInner) (addExtension cb extensionCookie (bytes16 cb (Some (ch_cookie m)))),
      addWhen (ch_keyShares m \<noteq> [] \<and> \<not> echInner)
        (addExtension cb extensionKeyShare (bytes16 cb (addAll (map (keyShareBytes cb) (ch_keyShares m))))),
      addWhen (ch_pskModes m \<noteq> [] \<and> \<not> echInner) (addExtension cb extensionPSKModes (bytes8 cb (Some (ch_pskModes m)))),
      addWhen (compressible m outerExts \<noteq> [] \<and> echInner)
        (addExtension cb extensionECHOuterExtensions (bytes8 cb (Some (u16s (compressible m outerExts))))),
      addWhen (ch_pskIdentities m \<noteq> []) (addExtension cb extensionPreSharedKey
        (addAll [bytes16 cb (addAll (map (identityBytes cb) (ch_pskIdentities m))),
                 bytes16 cb (addAll (map (\<lambda>b. bytes8 cb (Some b)) (ch_pskBinders m)))]))]"

definition marshalMsgReorderOuterExts :: "cryptobyte \<Rightarrow> clientHelloMsg \<Rightarrow> bool \<Rightarrow> u16 list option \<Rightarrow> bytes option" where
  "marshalMsgReorderOuterExts cb m echInner outerExts = do {
     extBytes \<leftarrow> addAll (helloExtensionParts cb m echInner outerExts);
     message cb 1
       [Some (be16w (ch_vers m)), addBytesWithLength (ch_random m) 32, bytes8 cb (Some (if echInner then [] else ch_sessionId m)),
        bytes16 cb (Some (u16s (ch_cipherSuites m))), bytes8 cb (Some (ch_compressionMethods m)),
        addWhen (extBytes \<noteq> []) (bytes16 cb (Some extBytes))]
   }"

definition marshalMsg :: "cryptobyte \<Rightarrow> clientHelloMsg \<Rightarrow> bool \<Rightarrow> bytes option" where
  "marshalMsg cb m echInner = marshalMsgReorderOuterExts cb m echInner None"

definition clientHello_marshal :: "cryptobyte \<Rightarrow> clientHelloMsg \<Rightarrow> bytes option" where
  "clientHello_marshal cb m = (case ch_original m of Some o1 \<Rightarrow> Some o1 | None \<Rightarrow> marshalMsg cb m False)"

text \<open>The binders are cut off the end; \<open>None\<close> also when they are longer than the message, which panics.\<close>

definition marshalWithoutBinders :: "cryptobyte \<Rightarrow> clientHelloMsg \<Rightarrow> bytes option" where
  "marshalWithoutBinders cb m =
     (let bindersLen = 2 + sum_list (map (\<lambda>b. 1 + length b) (ch_pskBinders m)) in
      case clientHello_marshal cb m of
        None \<Rightarrow> None
      | Some fullMessage \<Rightarrow> if bindersLen \<le> length fullMessage then Some (take (length fullMessage - bindersLen) fullMessage) else None)"

definition updateBinders :: "bytes list \<Rightarrow> clientHelloMsg \<Rightarrow> clientHelloMsg option" where
  "updateBinders binders m =
     (if map length binders = map length (ch_pskBinders m) then Some (m\<lparr>ch_pskBinders := binders\<rparr>) else None)"

text \<open>The server name list: one name of type zero, without a dot at its end.\<close>

fun helloNames :: "cryptobyte \<Rightarrow> nat \<Rightarrow> string \<Rightarrow> bytes \<Rightarrow> string option" where
  "helloNames cb fuel serverName [] = Some serverName"
| "helloNames cb 0 serverName (b # s) = None"
| "helloNames cb (Suc fuel) serverName (b # s) =
     (case cb_ReadUint8 cb (b # s) of
        None \<Rightarrow> None
      | Some (nameType, s1) \<Rightarrow>
          (case readBytes16 cb s1 of
             None \<Rightarrow> None
           | Some (name, s2) \<Rightarrow>
               if nameType \<noteq> 0 then helloNames cb fuel serverName s2
               else if serverName \<noteq> '''' then None
               else if HasSuffix (bytesStr name) ''.'' then None
               else helloNames cb fuel (bytesStr name) s2))"

definition readShare :: "cryptobyte \<Rightarrow> bytes \<Rightarrow> (keyShare \<times> bytes) option" where
  "readShare cb s = do {
     (grp, s1) \<leftarrow> cb_ReadUint16 cb s;
     (data, s2) \<leftarrow> readBytes16 cb s1;
     Some (\<lparr>ks_Group = grp, ks_Data = data\<rparr>, s2)
   }"

definition readIdentity :: "cryptobyte \<Rightarrow> bytes \<Rightarrow> ((bytes \<times> 32 word) \<times> bytes) option" where
  "readIdentity cb s = do {
     (label, s1) \<leftarrow> readBytes16 cb s;
     (age, s2) \<leftarrow> cb_ReadUint32 cb s1;
     Some ((label, age), s2)
   }"

definition readPsk :: "cryptobyte \<Rightarrow> bytes \<Rightarrow> ((bytes \<times> 32 word) list \<times> bytes list) option" where
  "readPsk cb s = do {
     (identities, s1) \<leftarrow> cb_ReadUint16LengthPrefixed cb s;
     ids \<leftarrow> nonempty (readAll (readIdentity cb) (length identities) identities);
     binders \<leftarrow> list16 cb (readBytes8 cb) s1;
     Some (ids, binders)
   }"

text \<open>One extension of a ClientHello.\<close>

definition helloExtension :: "cryptobyte \<Rightarrow> u16 \<Rightarrow> bytes \<Rightarrow> bool \<Rightarrow> clientHelloMsg \<Rightarrow> clientHelloMsg option" where
  "helloExtension cb extension extData isLast m0 =
     (let m = m0\<lparr>ch_extensions := ch_extensions m0 @ [extension]\<rparr> in
      if extension = extensionServerName then do {
        nameList \<leftarrow> nonempty (whole (cb_ReadUint16LengthPrefixed cb extData));
        name \<leftarrow> helloNames cb (length nameList) (ch_serverName m) nameList;
        Some (m\<lparr>ch_serverName := name\<rparr>) }
      else if extension = extensionStatusRequest then do {
        (statusType, s1) \<leftarrow> cb_ReadUint8 cb extData;
        (_, s2) \<leftarrow> cb_ReadUint16LengthPrefixed cb s1;
        _ \<leftarrow> whole (cb_ReadUint16LengthPrefixed cb s2);
        Some (m\<lparr>ch_ocspStapling := (statusType = 1)\<rparr>) }
      else if extension = extensionSupportedCurves then do {
        cs \<leftarrow> list16 cb (cb_ReadUint16 cb) extData; Some (m\<lparr>ch_supportedCurves := ch_supportedCurves m @ cs\<rparr>) }
      else if extension = extensionSupportedPoints then do {
        ps \<leftarrow> nonempty (whole (cb_ReadUint8LengthPrefixed cb extData)); Some (m\<lparr>ch_supportedPoints := ps\<rparr>) }
      else if extension = extensionSessionTicket then Some (m\<lparr>ch_ticketSupported := True, ch_sessionTicket := extData\<rparr>)
      else if extension = extensionSignatureAlgorithms then do {
        as \<leftarrow> list16 cb (cb_ReadUint16 cb) extData; Some (m\<lparr>ch_supportedSignatureAlgorithms := ch_supportedSignatureAlgorithms m @ as\<rparr>) }
      else if extension = extensionSignatureAlgorithmsCert then do {
        as \<leftarrow> list16 cb (cb_ReadUint16 cb) extData;
        Some (m\<lparr>ch_supportedSignatureAlgorithmsCert := ch_supportedSignatureAlgorithmsCert m @ as\<rparr>) }
      else if extension = extensionRenegotiationInfo then do {
        r \<leftarrow> whole (cb_ReadUint8LengthPrefixed cb extData); Some (m\<lparr>ch_secureRenegotiation := r, ch_secureRenegotiationSupported := True\<rparr>) }
      else if extension = extensionExtendedMasterSecret then flagOnly extData (m\<lparr>ch_extendedMasterSecret := True\<rparr>)
      else if extension = extensionALPN then do {
        ps \<leftarrow> list16 cb (readProto cb) extData; Some (m\<lparr>ch_alpnProtocols := ch_alpnProtocols m @ ps\<rparr>) }
      else if extension = extensionSCT then flagOnly extData (m\<lparr>ch_scts := True\<rparr>)
      else if extension = extensionSupportedVersions then do {
        l \<leftarrow> whole (cb_ReadUint8LengthPrefixed cb extData);
        vs \<leftarrow> nonempty (readAll (cb_ReadUint16 cb) (length l) l);
        Some (m\<lparr>ch_supportedVersions := ch_supportedVersions m @ vs\<rparr>) }
      else if extension = extensionCookie then do {
        c \<leftarrow> nonempty (whole (cb_ReadUint16LengthPrefixed cb extData)); Some (m\<lparr>ch_cookie := c\<rparr>) }
      else if extension = extensionKeyShare then do {
        l \<leftarrow> whole (cb_ReadUint16LengthPrefixed cb extData);
        kss \<leftarrow> readAll (readShare cb) (length l) l;
        Some (m\<lparr>ch_keyShares := ch_keyShares m @ kss\<rparr>) }
      else if extension = extensionEarlyData then flagOnly extData (m\<lparr>ch_earlyData := True\<rparr>)
      else if extension = extensionPSKModes then do {
        ms \<leftarrow> whole (cb_ReadUint8LengthPrefixed cb extData); Some (m\<lparr>ch_pskModes := ms\<rparr>) }
      else if extension = extensionQUICTransportParameters then Some (m\<lparr>ch_quicTransportParameters := Some extData\<rparr>)
      else if extension = extensionPreSharedKey then
        if isLast then do {
          (ids, binders) \<leftarrow> readPsk cb extData;
          Some (m\<lparr>ch_pskIdentities := ch_pskIdentities m @ ids, ch_pskBinders := ch_pskBinders m @ binders\<rparr>) }
        else None
      else if extension = extensionEncryptedClientHello then Some (m\<lparr>ch_encryptedClientHello := extData\<rparr>)
      else Some m)"

definition clientHello_unmarshal :: "cryptobyte \<Rightarrow> bytes \<Rightarrow> clientHelloMsg option" where
  "clientHello_unmarshal cb data = do {
     s \<leftarrow> cb_Skip cb 4 data;
     (vers, s1) \<leftarrow> cb_ReadUint16 cb s;
     (random, s2) \<leftarrow> cb_ReadBytes cb 32 s1;
     (sessionId, s3) \<leftarrow> cb_ReadUint8LengthPrefixed cb s2;
     (suiteBytes, s4) \<leftarrow> cb_ReadUint16LengthPrefixed cb s3;
     suites \<leftarrow> readAll (cb_ReadUint16 cb) (length suiteBytes) suiteBytes;
     (compression, s5) \<leftarrow> cb_ReadUint8LengthPrefixed cb s4;
     let m = emptyClientHello\<lparr>ch_original := Some data, ch_vers := vers, ch_random := random, ch_sessionId := sessionId,
               ch_cipherSuites := suites, ch_secureRenegotiationSupported := (scsvRenegotiation \<in> set suites),
               ch_compressionMethods := compression\<rparr>;
     if s5 = [] then Some m
     else do {
       extensions \<leftarrow> whole (cb_ReadUint16LengthPrefixed cb s5);
       extensionLoop cb True (helloExtension cb) (length extensions) [] extensions m
     }
   }"

end
