(* ===== verification/Utls_Messages_Correct.thy ===== *)
theory Utls_Messages_Correct
  imports Utls_Messages
begin

text \<open>
  Handshake messages round-trip: what a message writes is read back as the same message. The extensions of a message are
  items of a list (whether it is there, its type, its data, and the field it sets), for which the loop of the reader is
  proved once.
\<close>

section \<open>Builders and readers\<close>

lemma addAll_Cons_Some: "addAll (x # xs) = Some bs \<longleftrightarrow> (\<exists>b r. x = Some b \<and> addAll xs = Some r \<and> bs = b @ r)"
  by (auto split: option.splits)

lemma addAll_drop_empty: "addAll (xs @ Some [] # ys) = addAll (xs @ ys)"
  by (induction xs) (auto split: option.splits simp: map_option_case)

lemma addAll_map_Some [simp]: "addAll (map (\<lambda>x. Some (f x)) xs) = Some (concat (map f xs))"
  by (induction xs) simp_all

lemma addAll_enc:
  assumes "\<And>x b. x \<in> set xs \<Longrightarrow> f x = Some b \<Longrightarrow> b = enc x" "addAll (map f xs) = Some bs"
  shows "bs = concat (map enc xs) \<and> list_all (\<lambda>x. f x = Some (enc x)) xs"
  using assms by (induction xs arbitrary: bs) (auto split: option.splits)

lemma whole_Some [simp]: "whole (Some (x, [])) = Some x" "whole None = None" "whole (Some (x, b # r)) = None"
  by (simp_all add: whole_def)

lemma nonempty_Some [simp]: "xs \<noteq> [] \<Longrightarrow> nonempty (Some xs) = Some xs"
  by (cases xs) (simp_all add: nonempty_def)

lemma flagOnly_Nil [simp]: "flagOnly [] m = Some m"
  by (simp add: flagOnly_def)

context cryptobyte_reader
begin

lemma bytes8_Some: "bytes8 cb (Some x) = (if length x < 256 then Some (word_of_nat (length x) # x) else None)"
  by (simp add: bytes8_def AddUint8LengthPrefixed)

lemma bytes16_Some: "bytes16 cb (Some x) = (if length x < 65536 then Some (be16 (length x) @ x) else None)"
  by (simp add: bytes16_def AddUint16LengthPrefixed)

lemma bytes24_Some: "bytes24 cb (Some x) = (if length x < 16777216 then Some (be24 (length x) @ x) else None)"
  by (simp add: bytes24_def AddUint24LengthPrefixed)

lemma bytes8_eq: "bytes8 cb x = Some bs \<longleftrightarrow> (\<exists>y. x = Some y \<and> length y < 256 \<and> bs = word_of_nat (length y) # y)"
  by (cases x) (auto simp: bytes8_def AddUint8LengthPrefixed)

lemma bytes16_eq: "bytes16 cb x = Some bs \<longleftrightarrow> (\<exists>y. x = Some y \<and> length y < 65536 \<and> bs = be16 (length y) @ y)"
  by (cases x) (auto simp: bytes16_def AddUint16LengthPrefixed)

lemma bytes24_eq: "bytes24 cb x = Some bs \<longleftrightarrow> (\<exists>y. x = Some y \<and> length y < 16777216 \<and> bs = be24 (length y) @ y)"
  by (cases x) (auto simp: bytes24_def AddUint24LengthPrefixed)

lemma addExtension_eq:
  "addExtension cb ty body = Some bs \<longleftrightarrow> (\<exists>y. body = Some y \<and> length y < 65536 \<and> bs = be16w ty @ be16 (length y) @ y)"
  by (auto simp: addExtension_def bytes16_eq)

lemma emptyExtension: "Some (be16w ty @ be16 0) = addExtension cb ty (Some [])"
  by (simp add: addExtension_def bytes16_Some)

lemma message_eq: "message cb ty parts = Some bs \<longleftrightarrow> (\<exists>y. addAll parts = Some y \<and> length y < 16777216 \<and> bs = ty # be24 (length y) @ y)"
  by (auto simp: message_def bytes24_eq)

lemma Skip4 [simp]: "cb_Skip cb 4 (ty # be24 n @ y) = Some y"
  by (simp add: Skip be24_def)

lemma readBytes_back [simp]:
  assumes "xs \<noteq> []"
  shows "n = length xs \<Longrightarrow> n < 65536 \<Longrightarrow> readBytes16 cb (be16 n @ xs @ r) = Some (xs, r)"
    and "n = length xs \<Longrightarrow> n < 256 \<Longrightarrow> readBytes8 cb (word_of_nat n # xs @ r) = Some (xs, r)"
proof -
  obtain y ys where xs: "xs = y # ys" using assms by (cases xs) auto
  show "n = length xs \<Longrightarrow> n < 65536 \<Longrightarrow> readBytes16 cb (be16 n @ xs @ r) = Some (xs, r)"
    using ReadUint16_prefixed'(1) [of n xs r] by (simp add: readBytes16_def xs)
  show "n = length xs \<Longrightarrow> n < 256 \<Longrightarrow> readBytes8 cb (word_of_nat n # xs @ r) = Some (xs, r)"
    using ReadUint8_prefixed'(1) [of n xs r] by (simp add: readBytes8_def xs)
qed

lemma list16_back:
  assumes "\<And>x r. x \<in> set xs \<Longrightarrow> rd (enc x @ r) = Some (x, r)" "\<And>x. x \<in> set xs \<Longrightarrow> enc x \<noteq> []" "xs \<noteq> []"
    and "n = length (concat (map enc xs))" "n < 65536"
  shows "list16 cb rd (be16 n @ concat (map enc xs)) = Some xs"
  using assms readAll_back [of xs rd enc] by (simp add: list16_def)

end

section \<open>The loop over the extensions\<close>

text \<open>An item: whether the extension is there, its type, its data, and the update of the message; \<open>mk\<close> records its type.\<close>

type_synonym 'm extItem = "bool \<times> u16 \<times> bytes option \<times> ('m \<Rightarrow> 'm)"

definition itemPart :: "cryptobyte \<Rightarrow> 'm extItem \<Rightarrow> bytes option" where
  "itemPart cb = (\<lambda>(b, ty, body, u). addWhen b (addExtension cb ty body))"

fun itemsOk :: "(u16 \<Rightarrow> bytes \<Rightarrow> bool \<Rightarrow> 'm \<Rightarrow> 'm option) \<Rightarrow> (bool \<Rightarrow> u16 \<Rightarrow> 'm \<Rightarrow> 'm) \<Rightarrow> 'm extItem list \<Rightarrow> 'm \<Rightarrow> bool" where
  "itemsOk handle mk [] m \<longleftrightarrow> True"
| "itemsOk handle mk ((b, ty, body, u) # items) m \<longleftrightarrow>
     (b \<longrightarrow> (\<forall>d l. body = Some d \<longrightarrow> (items = [] \<longrightarrow> l) \<longrightarrow> handle ty d l m = Some (mk b ty (u m)))) \<and>
     (\<not> b \<longrightarrow> mk b ty (u m) = m) \<and> itemsOk handle mk items (mk b ty (u m))"

fun itemsResult :: "(bool \<Rightarrow> u16 \<Rightarrow> 'm \<Rightarrow> 'm) \<Rightarrow> 'm extItem list \<Rightarrow> 'm \<Rightarrow> 'm" where
  "itemsResult mk [] m = m"
| "itemsResult mk ((b, ty, body, u) # items) m = itemsResult mk items (mk b ty (u m))"

abbreviation presentTypes :: "'m extItem list \<Rightarrow> u16 list" where
  "presentTypes items \<equiv> map (\<lambda>(b, ty, body, u). ty) (filter (\<lambda>(b, ty, body, u). b) items)"

context cryptobyte_reader
begin

lemma extensionLoop_step:
  assumes "handle ty d (rest = []) m = Some m'" "ty \<notin> set seen \<or> \<not> uniq" "length d < 65536"
  shows "extensionLoop cb uniq handle (Suc fuel) seen (be16w ty @ be16 (length d) @ d @ rest) m =
    extensionLoop cb uniq handle fuel (ty # seen) rest m'"
proof -
  obtain b s where bs: "be16w ty @ be16 (length d) @ d @ rest = b # s" by (simp add: be16w_def be16_def)
  then have "cb_ReadUint16 cb (b # s) = Some (ty, be16 (length d) @ d @ rest)" by (metis ReadUint16_be16w)
  then show ?thesis unfolding bs using assms by auto
qed

lemma extensionLoop_items:
  assumes "addAll (map (itemPart cb) items) = Some bs" "itemsOk handle mk items m" "distinct (presentTypes items) \<or> \<not> uniq"
    and "set seen \<inter> set (presentTypes items) = {} \<or> \<not> uniq" "length bs \<le> fuel"
  shows "extensionLoop cb uniq handle fuel seen bs m = Some (itemsResult mk items m)"
  using assms
proof (induction items arbitrary: bs m seen fuel)
  case (Cons item items)
  obtain b ty body u where item: "item = (b, ty, body, u)" by (cases item)
  obtain p rest where p: "itemPart cb item = Some p" "addAll (map (itemPart cb) items) = Some rest" "bs = p @ rest"
    using Cons.prems(1) by (auto split: option.splits)
  show ?case
  proof (cases b)
    case False
    then have "p = []" "mk b ty (u m) = m" using p(1) Cons.prems(2) by (simp_all add: item itemPart_def addWhen_def)
    then show ?thesis using Cons False p by (simp add: item)
  next
    case True
    then obtain d where d: "body = Some d" "length d < 65536" "p = be16w ty @ be16 (length d) @ d"
      using p(1) by (auto simp: item itemPart_def addWhen_def addExtension_eq)
    have last: "items = [] \<longrightarrow> rest = []" using p(2) by auto
    obtain k where k: "fuel = Suc k" using Cons.prems(5) d p by (cases fuel) auto
    have "handle ty d (rest = []) m = Some (mk b ty (u m))"
      using Cons.prems(2) True d last by (simp add: item)
    then have "extensionLoop cb uniq handle fuel seen bs m = extensionLoop cb uniq handle k (ty # seen) rest (mk b ty (u m))"
      using extensionLoop_step [of handle ty d rest m "mk b ty (u m)" seen uniq k] Cons.prems(4) d p k True by (auto simp: item)
    also have "\<dots> = Some (itemsResult mk items (mk b ty (u m)))"
      using Cons.prems p d k True by (intro Cons.IH) (auto simp: item)
    finally show ?thesis by (simp add: item)
  qed
qed simp

end

section \<open>ClientHello\<close>

definition markHello :: "bool \<Rightarrow> u16 \<Rightarrow> clientHelloMsg \<Rightarrow> clientHelloMsg" where
  "markHello b ty m = m\<lparr>ch_extensions := ch_extensions m @ (if b then [ty] else [])\<rparr>"

definition helloItems :: "cryptobyte \<Rightarrow> clientHelloMsg \<Rightarrow> clientHelloMsg extItem list" where
  "helloItems cb m =
     [(ch_serverName m \<noteq> '''', extensionServerName, bytes16 cb (addAll [Some [0], bytes16 cb (Some (strBytes (ch_serverName m)))]),
         \<lambda>x. x\<lparr>ch_serverName := ch_serverName m\<rparr>),
      (ch_supportedPoints m \<noteq> [], extensionSupportedPoints, bytes8 cb (Some (ch_supportedPoints m)),
         \<lambda>x. x\<lparr>ch_supportedPoints := ch_supportedPoints m\<rparr>),
      (ch_ticketSupported m, extensionSessionTicket, Some (ch_sessionTicket m),
         \<lambda>x. x\<lparr>ch_ticketSupported := ch_ticketSupported m, ch_sessionTicket := ch_sessionTicket m\<rparr>),
      (ch_secureRenegotiationSupported m, extensionRenegotiationInfo, bytes8 cb (Some (ch_secureRenegotiation m)),
         \<lambda>x. x\<lparr>ch_secureRenegotiation := ch_secureRenegotiation m, ch_secureRenegotiationSupported := ch_secureRenegotiationSupported m\<rparr>),
      (ch_extendedMasterSecret m, extensionExtendedMasterSecret, Some [], \<lambda>x. x\<lparr>ch_extendedMasterSecret := ch_extendedMasterSecret m\<rparr>),
      (ch_scts m, extensionSCT, Some [], \<lambda>x. x\<lparr>ch_scts := ch_scts m\<rparr>),
      (ch_earlyData m, extensionEarlyData, Some [], \<lambda>x. x\<lparr>ch_earlyData := ch_earlyData m\<rparr>),
      (ch_quicTransportParameters m \<noteq> None, extensionQUICTransportParameters, ch_quicTransportParameters m,
         \<lambda>x. x\<lparr>ch_quicTransportParameters := ch_quicTransportParameters m\<rparr>),
      (ch_encryptedClientHello m \<noteq> [], extensionEncryptedClientHello, Some (ch_encryptedClientHello m),
         \<lambda>x. x\<lparr>ch_encryptedClientHello := ch_encryptedClientHello m\<rparr>),
      (ch_ocspStapling m, extensionStatusRequest, Some ([1] @ be16 0 @ be16 0), \<lambda>x. x\<lparr>ch_ocspStapling := ch_ocspStapling m\<rparr>),
      (ch_supportedCurves m \<noteq> [], extensionSupportedCurves, bytes16 cb (Some (u16s (ch_supportedCurves m))),
         \<lambda>x. x\<lparr>ch_supportedCurves := ch_supportedCurves m\<rparr>),
      (ch_supportedSignatureAlgorithms m \<noteq> [], extensionSignatureAlgorithms, bytes16 cb (Some (u16s (ch_supportedSignatureAlgorithms m))),
         \<lambda>x. x\<lparr>ch_supportedSignatureAlgorithms := ch_supportedSignatureAlgorithms m\<rparr>),
      (ch_supportedSignatureAlgorithmsCert m \<noteq> [], extensionSignatureAlgorithmsCert,
         bytes16 cb (Some (u16s (ch_supportedSignatureAlgorithmsCert m))),
         \<lambda>x. x\<lparr>ch_supportedSignatureAlgorithmsCert := ch_supportedSignatureAlgorithmsCert m\<rparr>),
      (ch_alpnProtocols m \<noteq> [], extensionALPN, bytes16 cb (addAll (map (\<lambda>p. bytes8 cb (Some (strBytes p))) (ch_alpnProtocols m))),
         \<lambda>x. x\<lparr>ch_alpnProtocols := ch_alpnProtocols m\<rparr>),
      (ch_supportedVersions m \<noteq> [], extensionSupportedVersions, bytes8 cb (Some (u16s (ch_supportedVersions m))),
         \<lambda>x. x\<lparr>ch_supportedVersions := ch_supportedVersions m\<rparr>),
      (ch_cookie m \<noteq> [], extensionCookie, bytes16 cb (Some (ch_cookie m)), \<lambda>x. x\<lparr>ch_cookie := ch_cookie m\<rparr>),
      (ch_keyShares m \<noteq> [], extensionKeyShare, bytes16 cb (addAll (map (keyShareBytes cb) (ch_keyShares m))),
         \<lambda>x. x\<lparr>ch_keyShares := ch_keyShares m\<rparr>),
      (ch_pskModes m \<noteq> [], extensionPSKModes, bytes8 cb (Some (ch_pskModes m)), \<lambda>x. x\<lparr>ch_pskModes := ch_pskModes m\<rparr>),
      (ch_pskIdentities m \<noteq> [], extensionPreSharedKey,
         addAll [bytes16 cb (addAll (map (identityBytes cb) (ch_pskIdentities m))),
                 bytes16 cb (addAll (map (\<lambda>b. bytes8 cb (Some b)) (ch_pskBinders m)))],
         \<lambda>x. x\<lparr>ch_pskIdentities := ch_pskIdentities m, ch_pskBinders := ch_pskBinders m\<rparr>)]"

text \<open>A ClientHello that can be sent: no name with a dot at its end, no empty protocol, share, label or binder, and fields
  that an absent extension leaves at their defaults.\<close>

definition sendable :: "clientHelloMsg \<Rightarrow> bool" where
  "sendable m \<longleftrightarrow> ch_original m = None \<and> \<not> HasSuffix (ch_serverName m) ''.'' \<and> (ch_sessionTicket m \<noteq> [] \<longrightarrow> ch_ticketSupported m) \<and>
     (ch_secureRenegotiation m \<noteq> [] \<or> scsvRenegotiation \<in> set (ch_cipherSuites m) \<longrightarrow> ch_secureRenegotiationSupported m) \<and>
     list_all (\<lambda>p. p \<noteq> '''') (ch_alpnProtocols m) \<and> list_all (\<lambda>ks. ks_Data ks \<noteq> []) (ch_keyShares m) \<and>
     list_all (\<lambda>psk. fst psk \<noteq> []) (ch_pskIdentities m) \<and> list_all (\<lambda>b. b \<noteq> []) (ch_pskBinders m) \<and>
     (ch_pskIdentities m = [] \<longleftrightarrow> ch_pskBinders m = [])"

context cryptobyte_reader
begin

lemma helloItems_parts: "addAll (map (itemPart cb) (helloItems cb m)) = addAll (helloExtensionParts cb m False None)"
proof -
  have "helloExtensionParts cb m False None = map (itemPart cb) (take 18 (helloItems cb m)) @ Some [] # map (itemPart cb) (drop 18 (helloItems cb m))"
    by (simp add: helloItems_def helloExtensionParts_def itemPart_def emptyExtension addWhen_def [of False] del: addAll.simps)
  then show ?thesis by (simp add: addAll_drop_empty flip: map_append)
qed

text \<open>One handler at a time.\<close>

lemma hello_name:
  assumes "n \<noteq> ''''" "\<not> HasSuffix n ''.''" "bytes16 cb (addAll [Some [0], bytes16 cb (Some (strBytes n))]) = Some d" "ch_serverName x = ''''"
  shows "helloExtension cb extensionServerName d l x = Some (markHello True extensionServerName (x\<lparr>ch_serverName := n\<rparr>))"
proof -
  have d: "d = be16 (Suc (Suc (Suc (length n)))) @ 0 # be16 (length n) @ strBytes n" "length n < 65533"
    using assms(3) by (auto simp: bytes16_eq bytes16_Some split: if_splits option.splits)
  have "readBytes16 cb (be16 (length n) @ strBytes n) = Some (strBytes n, [])"
    using assms(1) d readBytes_back(1) [of "strBytes n" "length n" "[]"] by simp
  moreover have "cb_ReadUint16LengthPrefixed cb d = Some (0 # be16 (length n) @ strBytes n, [])"
    using d ReadUint16_prefixed'(2) [of "Suc (Suc (Suc (length n)))" "0 # be16 (length n) @ strBytes n"] by simp
  ultimately show ?thesis using assms by (simp add: helloExtension_def markHello_def Let_def)
qed

lemma hello_points:
  "ps \<noteq> [] \<Longrightarrow> length ps < 256 \<Longrightarrow> helloExtension cb extensionSupportedPoints (word_of_nat (length ps) # ps) l x =
    Some (markHello True extensionSupportedPoints (x\<lparr>ch_supportedPoints := ps\<rparr>))"
  by (simp add: helloExtension_def markHello_def)

lemma hello_simple:
  "helloExtension cb extensionSessionTicket t l x = Some (markHello True extensionSessionTicket (x\<lparr>ch_ticketSupported := True, ch_sessionTicket := t\<rparr>))"
  "helloExtension cb extensionExtendedMasterSecret [] l x = Some (markHello True extensionExtendedMasterSecret (x\<lparr>ch_extendedMasterSecret := True\<rparr>))"
  "helloExtension cb extensionSCT [] l x = Some (markHello True extensionSCT (x\<lparr>ch_scts := True\<rparr>))"
  "helloExtension cb extensionEarlyData [] l x = Some (markHello True extensionEarlyData (x\<lparr>ch_earlyData := True\<rparr>))"
  "helloExtension cb extensionQUICTransportParameters t l x =
     Some (markHello True extensionQUICTransportParameters (x\<lparr>ch_quicTransportParameters := Some t\<rparr>))"
  "helloExtension cb extensionEncryptedClientHello t l x = Some (markHello True extensionEncryptedClientHello (x\<lparr>ch_encryptedClientHello := t\<rparr>))"
  by (simp_all add: helloExtension_def markHello_def)

lemma hello_renegotiation:
  "length r < 256 \<Longrightarrow> helloExtension cb extensionRenegotiationInfo (word_of_nat (length r) # r) l x =
    Some (markHello True extensionRenegotiationInfo (x\<lparr>ch_secureRenegotiation := r, ch_secureRenegotiationSupported := True\<rparr>))"
  by (simp add: helloExtension_def markHello_def)

lemma hello_status:
  "helloExtension cb extensionStatusRequest (1 # be16 0 @ be16 0) l x = Some (markHello True extensionStatusRequest (x\<lparr>ch_ocspStapling := True\<rparr>))"
  using ReadUint16_prefixed' [of 0 "[]"] by (simp add: helloExtension_def markHello_def)

lemma list16_u16s:
  "ws \<noteq> [] \<Longrightarrow> 2 * length ws < 65536 \<Longrightarrow> list16 cb (cb_ReadUint16 cb) (be16 (2 * length ws) @ u16s ws) = Some ws"
  using list16_back [of ws "cb_ReadUint16 cb" be16w "2 * length ws"] length_u16s [of ws] by (simp add: u16s_def)

lemma hello_u16_lists:
  assumes "ws \<noteq> []" "2 * length ws < 65536"
  shows "ch_supportedCurves x = [] \<Longrightarrow> helloExtension cb extensionSupportedCurves (be16 (2 * length ws) @ u16s ws) l x =
      Some (markHello True extensionSupportedCurves (x\<lparr>ch_supportedCurves := ws\<rparr>))"
    and "ch_supportedSignatureAlgorithms x = [] \<Longrightarrow> helloExtension cb extensionSignatureAlgorithms (be16 (2 * length ws) @ u16s ws) l x =
      Some (markHello True extensionSignatureAlgorithms (x\<lparr>ch_supportedSignatureAlgorithms := ws\<rparr>))"
    and "ch_supportedSignatureAlgorithmsCert x = [] \<Longrightarrow> helloExtension cb extensionSignatureAlgorithmsCert (be16 (2 * length ws) @ u16s ws) l x =
      Some (markHello True extensionSignatureAlgorithmsCert (x\<lparr>ch_supportedSignatureAlgorithmsCert := ws\<rparr>))"
  using assms by (simp_all add: helloExtension_def markHello_def list16_u16s)

lemma hello_versions:
  "vs \<noteq> [] \<Longrightarrow> 2 * length vs < 256 \<Longrightarrow> ch_supportedVersions x = [] \<Longrightarrow>
    helloExtension cb extensionSupportedVersions (2 * word_of_nat (length vs) # u16s vs) l x =
      Some (markHello True extensionSupportedVersions (x\<lparr>ch_supportedVersions := vs\<rparr>))"
  by (simp add: helloExtension_def markHello_def)

lemma hello_cookie:
  "c \<noteq> [] \<Longrightarrow> length c < 65536 \<Longrightarrow> helloExtension cb extensionCookie (be16 (length c) @ c) l x =
    Some (markHello True extensionCookie (x\<lparr>ch_cookie := c\<rparr>))"
  by (simp add: helloExtension_def markHello_def)

lemma hello_modes:
  "length ms < 256 \<Longrightarrow> helloExtension cb extensionPSKModes (word_of_nat (length ms) # ms) l x =
    Some (markHello True extensionPSKModes (x\<lparr>ch_pskModes := ms\<rparr>))"
  by (simp add: helloExtension_def markHello_def)

lemma hello_alpn:
  assumes "ps \<noteq> []" "list_all (\<lambda>p. p \<noteq> '''') ps" "bytes16 cb (addAll (map (\<lambda>p. bytes8 cb (Some (strBytes p))) ps)) = Some d"
    and "ch_alpnProtocols x = []"
  shows "helloExtension cb extensionALPN d l x = Some (markHello True extensionALPN (x\<lparr>ch_alpnProtocols := ps\<rparr>))"
proof -
  let ?enc = "\<lambda>p. word_of_nat (length p) # strBytes p"
  obtain y where y: "addAll (map (\<lambda>p. bytes8 cb (Some (strBytes p))) ps) = Some y" "length y < 65536" "d = be16 (length y) @ y"
    using assms(3) by (auto simp: bytes16_eq)
  have enc: "y = concat (map ?enc ps)" "list_all (\<lambda>p. bytes8 cb (Some (strBytes p)) = Some (?enc p)) ps"
    using addAll_enc [OF _ y(1), of ?enc] by (auto simp: bytes8_eq)
  have "list16 cb (readProto cb) (be16 (length y) @ concat (map ?enc ps)) = Some ps"
    using assms(1, 2) enc y(2) by (intro list16_back) (auto simp: list_all_iff readProto_back [simplified] bytes8_eq)
  then show ?thesis using assms(4) y enc by (simp add: helloExtension_def markHello_def)
qed

lemma keyShareBytes_eq: "keyShareBytes cb ks = Some b \<longleftrightarrow> length (ks_Data ks) < 65536 \<and> b = be16w (ks_Group ks) @ be16 (length (ks_Data ks)) @ ks_Data ks"
  by (auto simp: keyShareBytes_def bytes16_Some)

lemma hello_shares:
  assumes "list_all (\<lambda>ks. ks_Data ks \<noteq> []) kss" "bytes16 cb (addAll (map (keyShareBytes cb) kss)) = Some d" "ch_keyShares x = []"
  shows "helloExtension cb extensionKeyShare d l x = Some (markHello True extensionKeyShare (x\<lparr>ch_keyShares := kss\<rparr>))"
proof -
  let ?enc = "\<lambda>ks. be16w (ks_Group ks) @ be16 (length (ks_Data ks)) @ ks_Data ks"
  obtain y where y: "addAll (map (keyShareBytes cb) kss) = Some y" "length y < 65536" "d = be16 (length y) @ y"
    using assms(2) by (auto simp: bytes16_eq)
  have enc: "y = concat (map ?enc kss)" "list_all (\<lambda>ks. keyShareBytes cb ks = Some (?enc ks)) kss"
    using addAll_enc [OF _ y(1), of ?enc] by (auto simp: keyShareBytes_eq)
  have "readAll (readShare cb) (length (concat (map ?enc kss))) (concat (map ?enc kss)) = Some kss"
    using assms(1) enc(2) by (intro readAll_back) (auto simp: list_all_iff readShare_def keyShareBytes_eq)
  then show ?thesis using assms(3) y enc by (simp add: helloExtension_def markHello_def)
qed

lemma identityBytes_eq: "identityBytes cb psk = Some b \<longleftrightarrow> length (fst psk) < 65536 \<and> b = be16 (length (fst psk)) @ fst psk @ be32w (snd psk)"
  by (auto simp: identityBytes_def bytes16_Some)

lemma hello_psk:
  assumes "ids \<noteq> []" "bs \<noteq> []" "list_all (\<lambda>psk. fst psk \<noteq> []) ids" "list_all (\<lambda>b. b \<noteq> []) bs"
    and "addAll [bytes16 cb (addAll (map (identityBytes cb) ids)), bytes16 cb (addAll (map (\<lambda>b. bytes8 cb (Some b)) bs))] = Some d"
    and "ch_pskIdentities x = []" "ch_pskBinders x = []"
  shows "helloExtension cb extensionPreSharedKey d True x =
    Some (markHello True extensionPreSharedKey (x\<lparr>ch_pskIdentities := ids, ch_pskBinders := bs\<rparr>))"
proof -
  let ?encI = "\<lambda>psk. be16 (length (fst psk)) @ fst psk @ be32w (snd psk)"
  let ?encB = "\<lambda>b. word_of_nat (length b) # b"
  obtain y z where y: "addAll (map (identityBytes cb) ids) = Some y" "length y < 65536"
    and z: "addAll (map (\<lambda>b. bytes8 cb (Some b)) bs) = Some z" "length z < 65536" and d: "d = be16 (length y) @ y @ be16 (length z) @ z"
    using assms(5) by (auto simp: bytes16_eq split: option.splits)
  have encI: "y = concat (map ?encI ids)" "list_all (\<lambda>i. identityBytes cb i = Some (?encI i)) ids"
    using addAll_enc [OF _ y(1), of ?encI] by (auto simp: identityBytes_eq)
  have encB: "z = concat (map ?encB bs)" "list_all (\<lambda>b. bytes8 cb (Some b) = Some (?encB b)) bs"
    using addAll_enc [OF _ z(1), of ?encB] by (auto simp: bytes8_eq)
  have "readAll (readIdentity cb) (length (concat (map ?encI ids))) (concat (map ?encI ids)) = Some ids"
    using assms(3) encI(2) by (intro readAll_back) (simp_all add: list_all_iff readIdentity_def identityBytes_eq)
  moreover have "list16 cb (readBytes8 cb) (be16 (length z) @ concat (map ?encB bs)) = Some bs"
    using assms(2, 4) encB z(2) by (intro list16_back) (auto simp: list_all_iff bytes8_eq)
  ultimately show ?thesis
    using assms(1, 6, 7) d y(2) encI(1) encB(1) by (simp add: helloExtension_def markHello_def readPsk_def)
qed

lemmas hello_handlers = hello_name hello_points hello_simple hello_renegotiation hello_status hello_u16_lists hello_versions hello_cookie
  hello_modes hello_alpn hello_shares hello_psk

lemma markHello_absent: "markHello False ty x = x"
  by (simp add: markHello_def)

lemma markHello_fields [simp]:
  "ch_serverName (markHello b ty x) = ch_serverName x" "ch_supportedCurves (markHello b ty x) = ch_supportedCurves x"
  "ch_supportedSignatureAlgorithms (markHello b ty x) = ch_supportedSignatureAlgorithms x"
  "ch_supportedSignatureAlgorithmsCert (markHello b ty x) = ch_supportedSignatureAlgorithmsCert x"
  "ch_alpnProtocols (markHello b ty x) = ch_alpnProtocols x" "ch_supportedVersions (markHello b ty x) = ch_supportedVersions x"
  "ch_keyShares (markHello b ty x) = ch_keyShares x" "ch_pskIdentities (markHello b ty x) = ch_pskIdentities x"
  "ch_pskBinders (markHello b ty x) = ch_pskBinders x" "ch_supportedPoints (markHello b ty x) = ch_supportedPoints x"
  "ch_ticketSupported (markHello b ty x) = ch_ticketSupported x" "ch_sessionTicket (markHello b ty x) = ch_sessionTicket x"
  "ch_secureRenegotiation (markHello b ty x) = ch_secureRenegotiation x"
  "ch_secureRenegotiationSupported (markHello b ty x) = ch_secureRenegotiationSupported x"
  "ch_extendedMasterSecret (markHello b ty x) = ch_extendedMasterSecret x" "ch_scts (markHello b ty x) = ch_scts x"
  "ch_earlyData (markHello b ty x) = ch_earlyData x" "ch_quicTransportParameters (markHello b ty x) = ch_quicTransportParameters x"
  "ch_encryptedClientHello (markHello b ty x) = ch_encryptedClientHello x" "ch_ocspStapling (markHello b ty x) = ch_ocspStapling x"
  "ch_cookie (markHello b ty x) = ch_cookie x" "ch_pskModes (markHello b ty x) = ch_pskModes x"
  by (simp_all add: markHello_def)

lemma markHello_items:
  assumes "list_all (\<lambda>(b, ty, body, u). \<forall>x e. u (x\<lparr>ch_extensions := e\<rparr>) = (u x)\<lparr>ch_extensions := e\<rparr> \<and> ch_extensions (u x) = ch_extensions x) items"
  shows "itemsResult markHello items x = (fold (\<lambda>(b, ty, body, u). u) items x)\<lparr>ch_extensions := ch_extensions x @ presentTypes items\<rparr>"
  using assms
proof (induction items arbitrary: x)
  case (Cons item items)
  obtain b ty body u where item: "item = (b, ty, body, u)" by (cases item)
  have keep: "fold (\<lambda>(b, ty, body, u). u) items (z\<lparr>ch_extensions := e\<rparr>) = (fold (\<lambda>(b, ty, body, u). u) items z)\<lparr>ch_extensions := e\<rparr>" for z e
    using Cons.prems by (induction items arbitrary: z) (auto simp: item)
  show ?case using Cons by (simp add: item markHello_def keep)
qed simp

lemma helloItems_keep:
  "list_all (\<lambda>(b, ty, body, u). \<forall>x e. u (x\<lparr>ch_extensions := e\<rparr>) = (u x)\<lparr>ch_extensions := e\<rparr> \<and> ch_extensions (u x) = ch_extensions x) (helloItems cb m)"
  by (simp add: helloItems_def)

lemma fold_helloItems:
  "fold (\<lambda>(b, ty, body, u). u) (helloItems cb m) x = m\<lparr>ch_original := ch_original x, ch_vers := ch_vers x, ch_random := ch_random x,
     ch_sessionId := ch_sessionId x, ch_cipherSuites := ch_cipherSuites x, ch_compressionMethods := ch_compressionMethods x,
     ch_extensions := ch_extensions x\<rparr>"
  by (cases m; cases x) (simp add: helloItems_def)

lemma helloItems_ok:
  assumes "sendable m"
  shows "itemsOk (helloExtension cb) markHello (helloItems cb m)
    (emptyClientHello\<lparr>ch_original := orig, ch_vers := v, ch_random := r, ch_sessionId := i, ch_cipherSuites := ch_cipherSuites m,
       ch_secureRenegotiationSupported := (scsvRenegotiation \<in> set (ch_cipherSuites m)), ch_compressionMethods := c\<rparr>)"
  using assms
  by (simp add: helloItems_def sendable_def hello_handlers markHello_absent bytes8_eq bytes16_eq [of "Some _"] emptyClientHello_def,
      auto simp: markHello_def)

lemma clientHello_back:
  assumes "sendable m" "clientHello_marshal cb m = Some bs"
  shows "clientHello_unmarshal cb bs = Some (m\<lparr>ch_original := Some bs, ch_extensions := presentTypes (helloItems cb m)\<rparr>)"
proof -
  obtain exts y where exts: "addAll (helloExtensionParts cb m False None) = Some exts"
    and y: "addAll [Some (be16w (ch_vers m)), addBytesWithLength (ch_random m) 32, bytes8 cb (Some (ch_sessionId m)),
        bytes16 cb (Some (u16s (ch_cipherSuites m))), bytes8 cb (Some (ch_compressionMethods m)), addWhen (exts \<noteq> []) (bytes16 cb (Some exts))] = Some y"
      "bs = 1 # be24 (length y) @ y"
    using assms by (auto simp: sendable_def clientHello_marshal_def marshalMsg_def marshalMsgReorderOuterExts_def message_eq split: bind_splits)
  let ?m = "emptyClientHello\<lparr>ch_original := Some bs, ch_vers := ch_vers m, ch_random := ch_random m, ch_sessionId := ch_sessionId m,
    ch_cipherSuites := ch_cipherSuites m, ch_secureRenegotiationSupported := (scsvRenegotiation \<in> set (ch_cipherSuites m)),
    ch_compressionMethods := ch_compressionMethods m\<rparr>"
  have d: "distinct (presentTypes (helloItems cb m))"
    by (rule distinct_map_filter) (simp add: helloItems_def)
  have loop: "extensionLoop cb True (helloExtension cb) (length exts) [] exts ?m = Some (itemsResult markHello (helloItems cb m) ?m)"
    using helloItems_ok [OF assms(1)] exts d by (intro extensionLoop_items) (simp_all add: helloItems_parts)
  have result: "itemsResult markHello (helloItems cb m) ?m = m\<lparr>ch_original := Some bs, ch_extensions := presentTypes (helloItems cb m)\<rparr>"
    by (simp add: markHello_items [OF helloItems_keep] fold_helloItems emptyClientHello_def)
  show ?thesis
    using y loop result by (auto simp: clientHello_unmarshal_def bytes8_eq bytes16_eq addBytesWithLength_def addWhen_def split: if_splits option.splits)
qed

end

end
