(* ===== verification/Utls_Hpke.thy ===== *)
theory Utls_Hpke
  imports Utls_Messages
begin

text \<open>
  Hybrid public key encryption, \<open>src/utls/internal/hpke/hpke.go\<close>: the key schedule over a Diffie-Hellman exchange, and the sealing
  and opening of messages with a nonce that counts. The primitives of the standard library (HKDF, X25519, the AEADs) are
  a parameter. An outcome \<open>None\<close> is a panic, \<open>Inl\<close> an error.
\<close>

section \<open>Primitives\<close>

record aead =
  ae_NonceSize :: nat
  ae_Seal :: "bytes \<Rightarrow> bytes \<Rightarrow> bytes \<Rightarrow> bytes"
  ae_Open :: "bytes \<Rightarrow> bytes \<Rightarrow> bytes \<Rightarrow> string + bytes"

record hpkeCrypto =
  hc_Extract :: "bytes \<Rightarrow> bytes \<Rightarrow> bytes"
  hc_Expand :: "bytes \<Rightarrow> bytes \<Rightarrow> nat \<Rightarrow> bytes"
  hc_NewPublicKey :: "bytes \<Rightarrow> string + bytes"
  hc_NewPrivateKey :: "bytes \<Rightarrow> string + bytes"
  hc_PublicKey :: "bytes \<Rightarrow> bytes"
  hc_ECDH :: "bytes \<Rightarrow> bytes \<Rightarrow> string + bytes"
  hc_NewAEAD :: "u16 \<Rightarrow> bytes \<Rightarrow> string + aead"

section \<open>Tables\<close>

abbreviation DHKEM_X25519_HKDF_SHA256 :: u16 where "DHKEM_X25519_HKDF_SHA256 \<equiv> 0x20"

definition SupportedKEMs :: "u16 list" where "SupportedKEMs = [DHKEM_X25519_HKDF_SHA256]"
definition SupportedKDFs :: "u16 list" where "SupportedKDFs = [1]"

text \<open>The sizes of key and nonce.\<close>

definition aeadTable :: "(u16 \<times> nat \<times> nat) list" where
  "aeadTable = [(1, 16, 12), (2, 32, 12), (3, 32, 12)]"

definition SupportedAEADs :: "u16 list" where "SupportedAEADs = map fst aeadTable"

section \<open>Key schedule\<close>

definition LabeledExtract :: "hpkeCrypto \<Rightarrow> bytes \<Rightarrow> bytes \<Rightarrow> string \<Rightarrow> bytes \<Rightarrow> bytes" where
  "LabeledExtract cr sid salt label inputKey = hc_Extract cr (strBytes ''HPKE-v1'' @ sid @ strBytes label @ inputKey) salt"

definition LabeledExpand :: "hpkeCrypto \<Rightarrow> bytes \<Rightarrow> bytes \<Rightarrow> string \<Rightarrow> bytes \<Rightarrow> nat \<Rightarrow> bytes" where
  "LabeledExpand cr sid randomKey label info len =
     hc_Expand cr randomKey (be16 len @ strBytes ''HPKE-v1'' @ sid @ strBytes label @ info) len"

text \<open>\<open>newDHKem\<close> gives the suite of the one mechanism: \<open>KEM\<close> and its number; its secret has 32 bytes.\<close>

definition newDHKem :: "u16 \<Rightarrow> string + bytes" where
  "newDHKem kemID = (if kemID \<in> set SupportedKEMs then Inr (strBytes ''KEM'' @ be16w kemID) else Inl ''unsupported suite ID'')"

definition ExtractAndExpand :: "hpkeCrypto \<Rightarrow> bytes \<Rightarrow> bytes \<Rightarrow> bytes \<Rightarrow> bytes" where
  "ExtractAndExpand cr kem dhKey kemContext =
     LabeledExpand cr kem (LabeledExtract cr kem [] ''eae_prk'' dhKey) ''shared_secret'' kemContext 32"

text \<open>The ephemeral private key, or why there is none, is an argument.\<close>

definition Encap :: "hpkeCrypto \<Rightarrow> bytes \<Rightarrow> string + bytes \<Rightarrow> bytes \<Rightarrow> string + bytes \<times> bytes" where
  "Encap cr kem eph pubRecipient =
     (case eph of Inl e \<Rightarrow> Inl e | Inr privEph \<Rightarrow>
      (case hc_ECDH cr privEph pubRecipient of Inl e \<Rightarrow> Inl e | Inr dhVal \<Rightarrow>
       let encPubEph = hc_PublicKey cr privEph in
       Inr (ExtractAndExpand cr kem dhVal (encPubEph @ pubRecipient), encPubEph)))"

definition Decap :: "hpkeCrypto \<Rightarrow> bytes \<Rightarrow> bytes \<Rightarrow> bytes \<Rightarrow> string + bytes" where
  "Decap cr kem encPubEph secRecipient =
     (case hc_NewPublicKey cr encPubEph of Inl e \<Rightarrow> Inl e | Inr pubEph \<Rightarrow>
      (case hc_ECDH cr secRecipient pubEph of Inl e \<Rightarrow> Inl e | Inr dhVal \<Rightarrow>
       Inr (ExtractAndExpand cr kem dhVal (encPubEph @ hc_PublicKey cr secRecipient))))"

section \<open>Sequence numbers\<close>

record uint128 =
  hi :: "64 word"
  lo :: "64 word"

definition addOne :: "uint128 \<Rightarrow> uint128" where
  "addOne u = \<lparr>hi = hi u + (if lo u + 1 = 0 then 1 else 0), lo = lo u + 1\<rparr>"

fun bitsLen :: "nat \<Rightarrow> nat" where
  "bitsLen n = (if n = 0 then 0 else Suc (bitsLen (n div 2)))"

declare bitsLen.simps [simp del]

definition bitLen :: "uint128 \<Rightarrow> nat" where
  "bitLen u = bitsLen (unat (hi u)) + bitsLen (unat (lo u))"

definition uint128_bytes :: "uint128 \<Rightarrow> bytes" where
  "uint128_bytes u = addUint64 (hi u) @ addUint64 (lo u)"

section \<open>Contexts\<close>

record hpkeContext =
  hx_aead :: aead
  hx_sharedSecret :: bytes
  hx_suiteID :: bytes
  hx_key :: bytes
  hx_baseNonce :: bytes
  hx_exporterSecret :: bytes
  hx_seqNum :: uint128

definition suiteID :: "u16 \<Rightarrow> u16 \<Rightarrow> u16 \<Rightarrow> bytes" where
  "suiteID kemID kdfID aeadID = strBytes ''HPKE'' @ be16w kemID @ be16w kdfID @ be16w aeadID"

definition newContext :: "hpkeCrypto \<Rightarrow> bytes \<Rightarrow> u16 \<Rightarrow> u16 \<Rightarrow> u16 \<Rightarrow> bytes \<Rightarrow> string + hpkeContext" where
  "newContext cr sharedSecret kemID kdfID aeadID info =
     (let sid = suiteID kemID kdfID aeadID in
      if kdfID \<notin> set SupportedKDFs then Inl ''unsupported KDF id''
      else case map_of aeadTable aeadID of
        None \<Rightarrow> Inl ''unsupported AEAD id''
      | Some (keySize, nonceSize) \<Rightarrow>
          let pskIDHash = LabeledExtract cr sid [] ''psk_id_hash'' [];
              infoHash = LabeledExtract cr sid [] ''info_hash'' info;
              ksContext = [0] @ pskIDHash @ infoHash;
              secret = LabeledExtract cr sid sharedSecret ''secret'' [];
              key = LabeledExpand cr sid secret ''key'' ksContext keySize;
              baseNonce = LabeledExpand cr sid secret ''base_nonce'' ksContext nonceSize;
              exporterSecret = LabeledExpand cr sid secret ''exp'' ksContext 32
          in case hc_NewAEAD cr aeadID key of
               Inl e \<Rightarrow> Inl e
             | Inr a \<Rightarrow> Inr \<lparr>hx_aead = a, hx_sharedSecret = sharedSecret, hx_suiteID = sid, hx_key = key, hx_baseNonce = baseNonce,
                            hx_exporterSecret = exporterSecret, hx_seqNum = \<lparr>hi = 0, lo = 0\<rparr>\<rparr>)"

definition SetupSender ::
    "hpkeCrypto \<Rightarrow> string + bytes \<Rightarrow> u16 \<Rightarrow> u16 \<Rightarrow> u16 \<Rightarrow> bytes \<Rightarrow> bytes \<Rightarrow> string + bytes \<times> hpkeContext" where
  "SetupSender cr eph kemID kdfID aeadID pub info =
     (case newDHKem kemID of Inl e \<Rightarrow> Inl e | Inr kem \<Rightarrow>
      (case Encap cr kem eph pub of Inl e \<Rightarrow> Inl e | Inr (sharedSecret, encapsulatedKey) \<Rightarrow>
       (case newContext cr sharedSecret kemID kdfID aeadID info of Inl e \<Rightarrow> Inl e | Inr ctx \<Rightarrow> Inr (encapsulatedKey, ctx))))"

definition SetupReceipient :: "hpkeCrypto \<Rightarrow> u16 \<Rightarrow> u16 \<Rightarrow> u16 \<Rightarrow> bytes \<Rightarrow> bytes \<Rightarrow> bytes \<Rightarrow> string + hpkeContext" where
  "SetupReceipient cr kemID kdfID aeadID priv info encPubEph =
     (case newDHKem kemID of Inl e \<Rightarrow> Inl e | Inr kem \<Rightarrow>
      (case Decap cr kem encPubEph priv of Inl e \<Rightarrow> Inl e | Inr sharedSecret \<Rightarrow>
       newContext cr sharedSecret kemID kdfID aeadID info))"

text \<open>The last bytes of the sequence number, combined with the base nonce.\<close>

definition nextNonce :: "hpkeContext \<Rightarrow> bytes option" where
  "nextNonce ctx =
     (let n = ae_NonceSize (hx_aead ctx); base = hx_baseNonce ctx in
      if 16 < n \<or> n < length base then None
      else let nonce = drop (16 - n) (uint128_bytes (hx_seqNum ctx)) in
           Some (map2 (XOR) (take (length base) nonce) base @ drop (length base) nonce))"

definition incrementNonce :: "hpkeContext \<Rightarrow> hpkeContext option" where
  "incrementNonce ctx =
     (if ae_NonceSize (hx_aead ctx) * 8 - 1 \<le> bitLen (hx_seqNum ctx) then None
      else Some (ctx\<lparr>hx_seqNum := addOne (hx_seqNum ctx)\<rparr>))"

definition Seal :: "hpkeContext \<Rightarrow> bytes \<Rightarrow> bytes \<Rightarrow> (bytes \<times> hpkeContext) option" where
  "Seal s aad plaintext = do {
     nonce \<leftarrow> nextNonce s;
     s' \<leftarrow> incrementNonce s;
     Some (ae_Seal (hx_aead s) nonce plaintext aad, s')
   }"

definition Open :: "hpkeContext \<Rightarrow> bytes \<Rightarrow> bytes \<Rightarrow> (string + bytes \<times> hpkeContext) option" where
  "Open r aad ciphertext = do {
     nonce \<leftarrow> nextNonce r;
     (case ae_Open (hx_aead r) nonce ciphertext aad of
        Inl e \<Rightarrow> Some (Inl e)
      | Inr plaintext \<Rightarrow> do { r' \<leftarrow> incrementNonce r; Some (Inr (plaintext, r')) })
   }"

definition ParseHPKEPublicKey :: "hpkeCrypto \<Rightarrow> u16 \<Rightarrow> bytes \<Rightarrow> string + bytes" where
  "ParseHPKEPublicKey cr kemID bs = (if kemID \<in> set SupportedKEMs then hc_NewPublicKey cr bs else Inl ''unsupported KEM id'')"

definition ParseHPKEPrivateKey :: "hpkeCrypto \<Rightarrow> u16 \<Rightarrow> bytes \<Rightarrow> string + bytes" where
  "ParseHPKEPrivateKey cr kemID bs = (if kemID \<in> set SupportedKEMs then hc_NewPrivateKey cr bs else Inl ''unsupported KEM id'')"

section \<open>Several messages\<close>

fun sealAll :: "hpkeContext \<Rightarrow> (bytes \<times> bytes) list \<Rightarrow> (bytes list \<times> hpkeContext) option" where
  "sealAll s [] = Some ([], s)"
| "sealAll s ((aad, plaintext) # ms) = do {
     (c, s') \<leftarrow> Seal s aad plaintext;
     (cs, s'') \<leftarrow> sealAll s' ms;
     Some (c # cs, s'')
   }"

fun openAll :: "hpkeContext \<Rightarrow> (bytes \<times> bytes) list \<Rightarrow> (string + bytes list \<times> hpkeContext) option" where
  "openAll r [] = Some (Inr ([], r))"
| "openAll r ((aad, ciphertext) # ms) = do {
     x \<leftarrow> Open r aad ciphertext;
     (case x of
        Inl e \<Rightarrow> Some (Inl e)
      | Inr (p, r') \<Rightarrow> do {
          y \<leftarrow> openAll r' ms;
          Some (case y of Inl e \<Rightarrow> Inl e | Inr (ps, r'') \<Rightarrow> Inr (p # ps, r'')) })
   }"

end
