(* ===== verification/Utls_Ech.thy ===== *)
theory Utls_Ech
  imports Utls_Messages_Correct Utls_Hpke
begin

text \<open>
  Encrypted ClientHello in the uTLS fork, \<open>src/utls/ech.go\<close>: the list of configurations a server publishes, the choice of one,
  the extension of the outer ClientHello and the padding of the inner one. A parser that may not return has an
  optional result, \<open>None\<close> for a loop without end; the reader and builder of \<open>cryptobyte\<close> are parameters.
\<close>

section \<open>Configurations\<close>

record echCipher =
  ech_KDFID :: u16
  ech_AEADID :: u16

record echExtension =
  ee_Type :: u16
  ee_Data :: bytes

record echConfig =
  ec_raw :: bytes
  ec_Version :: u16
  ec_Length :: u16
  ec_ConfigID :: byte
  ec_KemID :: u16
  ec_PublicKey :: bytes
  ec_SymmetricCipherSuite :: "echCipher list"
  ec_MaxNameLength :: byte
  ec_PublicName :: bytes
  ec_Extensions :: "echExtension list"

abbreviation errMalformedECHConfig :: string where "errMalformedECHConfig \<equiv> ''tls: malformed ECHConfigList''"

definition readEchCipher :: "cryptobyte \<Rightarrow> bytes \<Rightarrow> (echCipher \<times> bytes) option" where
  "readEchCipher cb s = do {
     (kdf, s1) \<leftarrow> cb_ReadUint16 cb s;
     (aead, s2) \<leftarrow> cb_ReadUint16 cb s1;
     Some (\<lparr>ech_KDFID = kdf, ech_AEADID = aead\<rparr>, s2)
   }"

definition readEchExtension :: "cryptobyte \<Rightarrow> bytes \<Rightarrow> (echExtension \<times> bytes) option" where
  "readEchExtension cb s = do {
     (ty, s1) \<leftarrow> cb_ReadUint16 cb s;
     (data, s2) \<leftarrow> cb_ReadUint16LengthPrefixed cb s1;
     Some (\<lparr>ee_Type = ty, ee_Data = data\<rparr>, s2)
   }"

text \<open>The fields after version and length.\<close>

definition parseContents :: "cryptobyte \<Rightarrow> bytes \<Rightarrow> u16 \<Rightarrow> u16 \<Rightarrow> bytes \<Rightarrow> echConfig option" where
  "parseContents cb raw version len s = do {
     (configID, s1) \<leftarrow> cb_ReadUint8 cb s;
     (kemID, s2) \<leftarrow> cb_ReadUint16 cb s1;
     (publicKey, s3) \<leftarrow> cb_ReadUint16LengthPrefixed cb s2;
     (cipherSuites, s4) \<leftarrow> cb_ReadUint16LengthPrefixed cb s3;
     suites \<leftarrow> readAll (readEchCipher cb) (length cipherSuites) cipherSuites;
     (maxNameLength, s5) \<leftarrow> cb_ReadUint8 cb s4;
     (publicName, s6) \<leftarrow> cb_ReadUint8LengthPrefixed cb s5;
     (extensions, s7) \<leftarrow> cb_ReadUint16LengthPrefixed cb s6;
     exts \<leftarrow> readAll (readEchExtension cb) (length extensions) extensions;
     Some \<lparr>ec_raw = raw, ec_Version = version, ec_Length = len, ec_ConfigID = configID, ec_KemID = kemID, ec_PublicKey = publicKey,
           ec_SymmetricCipherSuite = suites, ec_MaxNameLength = maxNameLength, ec_PublicName = publicName, ec_Extensions = exts\<rparr>
   }"

text \<open>\<open>parseECHConfig\<close>: \<open>Inr None\<close> tells to skip a configuration of another version. The slice of the raw bytes ends at
  \<open>Length + 4\<close>, a sum of 16 bits; the fields are read from all of the rest of the list.\<close>

definition parseECHConfig :: "cryptobyte \<Rightarrow> bytes \<Rightarrow> string + echConfig option" where
  "parseECHConfig cb enc =
     (case do {
        (version, s1) \<leftarrow> cb_ReadUint16 cb enc;
        (len, s2) \<leftarrow> cb_ReadUint16 cb s1;
        if length enc < unat len + 4 then None
        else if version \<noteq> extensionEncryptedClientHello then Some None
        else map_option Some (parseContents cb (take (unat (len + 4)) enc) version len s2)
      } of None \<Rightarrow> Inl errMalformedECHConfig | Some r \<Rightarrow> Inr r)"

text \<open>The loop of \<open>parseECHConfigList\<close> steps by \<open>configLen + 4\<close>, again a sum of 16 bits.\<close>

definition configLen :: "bytes \<Rightarrow> u16" where
  "configLen s = val16 (s ! 2) (s ! 3)"

partial_function (option) parseConfigs :: "cryptobyte \<Rightarrow> bytes \<Rightarrow> echConfig list \<Rightarrow> (string + echConfig list) option" where
  "parseConfigs cb s configs =
     (if s = [] then Some (Inr configs)
      else if length s < 4 then Some (Inl ''tls: malformed ECHConfig'')
      else case parseECHConfig cb s of
        Inl e \<Rightarrow> Some (Inl e)
      | Inr r \<Rightarrow> parseConfigs cb (drop (unat (configLen s + 4)) s) (case r of None \<Rightarrow> configs | Some ec \<Rightarrow> configs @ [ec]))"

declare parseConfigs.simps [code]

definition parseECHConfigList :: "cryptobyte \<Rightarrow> bytes \<Rightarrow> (string + echConfig list) option" where
  "parseECHConfigList cb data =
     (case cb_ReadUint16 cb data of
        None \<Rightarrow> Some (Inl errMalformedECHConfig)
      | Some (len, s) \<Rightarrow>
          if len \<noteq> word_of_nat (length data - 2) then Some (Inl errMalformedECHConfig) else parseConfigs cb s [])"

section \<open>Choosing a configuration\<close>

definition supportedSuite :: "echCipher \<Rightarrow> bool" where
  "supportedSuite cs \<longleftrightarrow> ech_AEADID cs \<in> set SupportedAEADs \<and> ech_KDFID cs \<in> set SupportedKDFs"

text \<open>A label: not empty, letters, digits and hyphens, no hyphen at an end. A byte outside ASCII is refused like any other.\<close>

definition hostChar :: "char \<Rightarrow> bool" where
  "hostChar c \<longleftrightarrow> is_digit c \<or> (let n = of_char c :: nat in 97 \<le> n \<and> n \<le> 122 \<or> 65 \<le> n \<and> n \<le> 90) \<or> c = CHR ''-''"

definition validLabel :: "string \<Rightarrow> bool" where
  "validLabel l \<longleftrightarrow> l \<noteq> '''' \<and> hd l \<noteq> CHR ''-'' \<and> last l \<noteq> CHR ''-'' \<and> list_all hostChar l"

definition validDNSName :: "string \<Rightarrow> bool" where
  "validDNSName name \<longleftrightarrow> length name \<le> 253 \<and> 1 < length (Split CHR ''.'' name) \<and> list_all validLabel (Split CHR ''.'' name)"

text \<open>An extension whose type has its highest bit set is mandatory, and none is supported.\<close>

definition usableConfig :: "echConfig \<Rightarrow> bool" where
  "usableConfig ec \<longleftrightarrow> ec_KemID ec \<in> set SupportedKEMs \<and> list_ex supportedSuite (ec_SymmetricCipherSuite ec) \<and>
     validDNSName (bytesStr (ec_PublicName ec)) \<and> \<not> list_ex (\<lambda>e. bit (ee_Type e) 15) (ec_Extensions ec)"

fun pickECHConfig :: "echConfig list \<Rightarrow> echConfig option" where
  "pickECHConfig [] = None"
| "pickECHConfig (ec # list) = (if usableConfig ec then Some ec else pickECHConfig list)"

fun pickECHCipherSuite :: "echCipher list \<Rightarrow> string + echCipher" where
  "pickECHCipherSuite [] = Inl ''tls: no supported symmetric ciphersuites for ECH''"
| "pickECHCipherSuite (s # suites) = (if supportedSuite s then Inr s else pickECHCipherSuite suites)"

section \<open>The extension\<close>

abbreviation errMalformedECHExt :: string where "errMalformedECHExt \<equiv> ''tls: malformed encrypted_client_hello extension''"
abbreviation errInvalidECHExt :: string where "errInvalidECHExt \<equiv> ''tls: client sent invalid encrypted_client_hello extension''"

text \<open>The content of the extension: the inner mark, or the outer one with suite, configuration, key and payload.\<close>

datatype echExt = InnerExt | OuterExt echCipher byte bytes bytes

definition parseECHExt :: "cryptobyte \<Rightarrow> bytes \<Rightarrow> string + echExt" where
  "parseECHExt cb ext =
     (case cb_ReadUint8 cb ext of
        None \<Rightarrow> Inl errMalformedECHExt
      | Some (echType, s) \<Rightarrow>
          if echType = 1 then if s \<noteq> [] then Inl errMalformedECHExt else Inr InnerExt
          else if echType \<noteq> 0 then Inl errInvalidECHExt
          else case do {
            (kdf, s1) \<leftarrow> cb_ReadUint16 cb s;
            (aead, s2) \<leftarrow> cb_ReadUint16 cb s1;
            (configID, s3) \<leftarrow> cb_ReadUint8 cb s2;
            (encap, s4) \<leftarrow> cb_ReadUint16LengthPrefixed cb s3;
            (payload, s5) \<leftarrow> cb_ReadUint16LengthPrefixed cb s4;
            Some (OuterExt \<lparr>ech_KDFID = kdf, ech_AEADID = aead\<rparr> configID encap payload)
          } of None \<Rightarrow> Inl errMalformedECHExt | Some e \<Rightarrow> Inr e)"

definition generateOuterECHExt :: "cryptobyte \<Rightarrow> byte \<Rightarrow> u16 \<Rightarrow> u16 \<Rightarrow> bytes \<Rightarrow> bytes \<Rightarrow> bytes option" where
  "generateOuterECHExt cb configID kdfID aeadID encodedKey payload = do {
     k \<leftarrow> cb_AddUint16LengthPrefixed cb encodedKey;
     p \<leftarrow> cb_AddUint16LengthPrefixed cb payload;
     Some ([0] @ be16w kdfID @ be16w aeadID @ [configID] @ k @ p)
   }"

text \<open>The padding of the encoded inner ClientHello \<open>h\<close> (its four bytes of header gone). The remainder is never negative,
  as \<open>h\<close> is not empty.\<close>

definition padInner :: "bytes \<Rightarrow> string \<Rightarrow> nat \<Rightarrow> bytes" where
  "padInner h serverName maxNameLength =
     (let paddingLen = (if serverName \<noteq> '''' then maxNameLength - length serverName else maxNameLength + 9) in
      h @ replicate (31 - (length h + paddingLen - 1) mod 32) 0)"

definition encodeInnerClientHelloReorderOuterExts :: "cryptobyte \<Rightarrow> clientHelloMsg \<Rightarrow> nat \<Rightarrow> u16 list option \<Rightarrow> bytes option" where
  "encodeInnerClientHelloReorderOuterExts cb inner maxNameLength outerExts =
     map_option (\<lambda>h. padInner (drop 4 h) (ch_serverName inner) maxNameLength) (marshalMsgReorderOuterExts cb inner True outerExts)"

definition encodeInnerClientHello :: "cryptobyte \<Rightarrow> clientHelloMsg \<Rightarrow> nat \<Rightarrow> bytes option" where
  "encodeInnerClientHello cb inner maxNameLength = encodeInnerClientHelloReorderOuterExts cb inner maxNameLength None"

text \<open>The lists a server hands out: the configurations of its keys, those marked for a retry.\<close>

record echKey =
  ek_Config :: bytes
  ek_PrivateKey :: bytes
  ek_SendAsRetry :: bool

definition marshalEncryptedClientHelloConfigList :: "cryptobyte \<Rightarrow> echKey list \<Rightarrow> bytes option" where
  "marshalEncryptedClientHelloConfigList cb configs = cb_AddUint16LengthPrefixed cb (concat (map ek_Config configs))"

text \<open>\<open>Some None\<close> is nil: there is none for a retry.\<close>

definition buildRetryConfigList :: "cryptobyte \<Rightarrow> echKey list \<Rightarrow> bytes option option" where
  "buildRetryConfigList cb keys =
     (let retry = filter ek_SendAsRetry keys in
      if retry = [] then Some None else map_option Some (cb_AddUint16LengthPrefixed cb (concat (map ek_Config retry))))"

section \<open>The inner ClientHello on the server\<close>

definition skipUint8LengthPrefixed :: "cryptobyte \<Rightarrow> bytes \<Rightarrow> bytes option" where
  "skipUint8LengthPrefixed cb s = do { (n, s1) \<leftarrow> cb_ReadUint8 cb s; cb_Skip cb (unat n) s1 }"

definition skipUint16LengthPrefixed :: "cryptobyte \<Rightarrow> bytes \<Rightarrow> bytes option" where
  "skipUint16LengthPrefixed cb s = do { (n, s1) \<leftarrow> cb_ReadUint16 cb s; cb_Skip cb (unat n) s1 }"

definition readRawExtension :: "cryptobyte \<Rightarrow> bytes \<Rightarrow> ((u16 \<times> bytes) \<times> bytes) option" where
  "readRawExtension cb s = do {
     (extension, s1) \<leftarrow> cb_ReadUint16 cb s;
     (extData, s2) \<leftarrow> cb_ReadUint16LengthPrefixed cb s1;
     Some ((extension, extData), s2)
   }"

text \<open>Errors of the decoder are \<open>None\<close>: its callers drop their text.\<close>

definition extractRawExtensions :: "cryptobyte \<Rightarrow> clientHelloMsg \<Rightarrow> (u16 \<times> bytes) list option" where
  "extractRawExtensions cb hello = do {
     s1 \<leftarrow> cb_Skip cb (4 + 2 + 32) (case ch_original hello of None \<Rightarrow> [] | Some bs \<Rightarrow> bs);
     s2 \<leftarrow> skipUint8LengthPrefixed cb s1;
     s3 \<leftarrow> skipUint16LengthPrefixed cb s2;
     s4 \<leftarrow> skipUint8LengthPrefixed cb s3;
     (extensions, s5) \<leftarrow> cb_ReadUint16LengthPrefixed cb s4;
     readAll (readRawExtension cb) (length extensions) extensions
   }"

text \<open>The extensions that the inner ClientHello refers to, taken from the outer one in its order: the position only moves
  forward, and stays at the extension that was found.\<close>

fun addOuterExtensions :: "cryptobyte \<Rightarrow> nat \<Rightarrow> (u16 \<times> bytes) list \<Rightarrow> bytes \<Rightarrow> bytes option" where
  "addOuterExtensions cb fuel raws [] = Some []"
| "addOuterExtensions cb 0 raws (b # s) = None"
| "addOuterExtensions cb (Suc fuel) raws (b # s) = do {
     (extType, s1) \<leftarrow> cb_ReadUint16 cb (b # s);
     if extType = extensionEncryptedClientHello then None
     else case dropWhile (\<lambda>r. fst r \<noteq> extType) raws of
       [] \<Rightarrow> None
     | r # raws' \<Rightarrow> addAll [addExtension cb (fst r) (Some (snd r)), addOuterExtensions cb fuel (r # raws') s1]
   }"

fun reconExtensions :: "cryptobyte \<Rightarrow> nat \<Rightarrow> (u16 \<times> bytes) list \<Rightarrow> bytes \<Rightarrow> bytes option" where
  "reconExtensions cb fuel raws [] = Some []"
| "reconExtensions cb 0 raws (b # s) = None"
| "reconExtensions cb (Suc fuel) raws (b # s) = do {
     ((extension, extData), s1) \<leftarrow> readRawExtension cb (b # s);
     addAll [if extension = extensionECHOuterExtensions
             then do { (types, _) \<leftarrow> cb_ReadUint8LengthPrefixed cb extData; addOuterExtensions cb (length types) raws types }
             else addExtension cb extension (Some extData),
             reconExtensions cb fuel raws s1]
   }"

definition decodeInnerClientHello :: "cryptobyte \<Rightarrow> clientHelloMsg \<Rightarrow> bytes \<Rightarrow> clientHelloMsg option" where
  "decodeInnerClientHello cb outer encoded = do {
     (versionAndRandom, s1) \<leftarrow> cb_ReadBytes cb 34 encoded;
     (sessionID, s2) \<leftarrow> cb_ReadUint8LengthPrefixed cb s1;
     (cipherSuites, s3) \<leftarrow> (if sessionID \<noteq> [] then None else cb_ReadUint16LengthPrefixed cb s2);
     (compressionMethods, s4) \<leftarrow> cb_ReadUint8LengthPrefixed cb s3;
     (extensions, padding) \<leftarrow> cb_ReadUint16LengthPrefixed cb s4;
     rawOuterExts \<leftarrow> (if list_ex (\<lambda>p. p \<noteq> 0) padding then None else extractRawExtensions cb outer);
     reconBytes \<leftarrow> message cb 1
       [Some versionAndRandom, bytes8 cb (Some (ch_sessionId outer)), bytes16 cb (Some cipherSuites), bytes8 cb (Some compressionMethods),
        bytes16 cb (reconExtensions cb (length extensions) rawOuterExts extensions)];
     inner \<leftarrow> clientHello_unmarshal cb reconBytes;
     if ch_encryptedClientHello inner \<noteq> [1] then None
     else if ch_supportedVersions inner \<noteq> [VersionTLS13] then None
     else Some inner
   }"

text \<open>\<open>bytes.Replace\<close> of the first occurrence.\<close>

fun replaceFirst :: "bytes \<Rightarrow> bytes \<Rightarrow> bytes \<Rightarrow> bytes" where
  "replaceFirst old new [] = (if old = [] then new else [])"
| "replaceFirst old new (b # s) =
     (if take (length old) (b # s) = old then new @ drop (length old) (b # s) else b # replaceFirst old new s)"

definition decryptECHPayload :: "hpkeContext \<Rightarrow> bytes \<Rightarrow> bytes \<Rightarrow> (string + bytes \<times> hpkeContext) option" where
  "decryptECHPayload ctx hello payload = Open ctx (replaceFirst payload (replicate (length payload) 0) (drop 4 hello)) payload"

text \<open>The outcome for the server: the alert and the error it ends with, the outer ClientHello without ECH, an inner one that came
  unencrypted, or the decrypted one with its context.\<close>

datatype echOutcome =
  EchFailed byte string
| EchOuter clientHelloMsg
| EchInnerMark clientHelloMsg
| EchAccepted clientHelloMsg hpkeContext byte echCipher

abbreviation echInfo :: "bytes \<Rightarrow> bytes" where "echInfo config \<equiv> strBytes ''tls ech'' @ [0] @ config"

fun tryKeys :: "hpkeCrypto \<Rightarrow> cryptobyte \<Rightarrow> echKey list \<Rightarrow> clientHelloMsg \<Rightarrow> echCipher \<Rightarrow> byte \<Rightarrow> bytes \<Rightarrow> bytes \<Rightarrow> echOutcome option" where
  "tryKeys cr cb [] outer suite configID encap payload = Some (EchOuter outer)"
| "tryKeys cr cb (echKey # keys) outer suite configID encap payload =
     (case parseECHConfig cb (ek_Config echKey) of
        Inl e \<Rightarrow> Some (EchFailed 80 (''tls: invalid EncryptedClientHelloKeys Config: '' @ e))
      | Inr None \<Rightarrow> Some (EchFailed 80 ''tls: invalid EncryptedClientHelloKeys Config: %!s(<nil>)'')
      | Inr (Some config) \<Rightarrow>
          (case ParseHPKEPrivateKey cr (ec_KemID config) (ek_PrivateKey echKey) of
             Inl e \<Rightarrow> Some (EchFailed 80 (''tls: invalid EncryptedClientHelloKeys PrivateKey: '' @ e))
           | Inr echPriv \<Rightarrow>
               (case SetupReceipient cr DHKEM_X25519_HKDF_SHA256 (ech_KDFID suite) (ech_AEADID suite) echPriv (echInfo (ek_Config echKey)) encap of
                  Inl e \<Rightarrow> tryKeys cr cb keys outer suite configID encap payload
                | Inr ctx \<Rightarrow>
                    (case decryptECHPayload ctx (case ch_original outer of None \<Rightarrow> [] | Some bs \<Rightarrow> bs) payload of
                       None \<Rightarrow> None
                     | Some (Inl e) \<Rightarrow> tryKeys cr cb keys outer suite configID encap payload
                     | Some (Inr (encodedInner, ctx')) \<Rightarrow>
                         (case decodeInnerClientHello cb outer encodedInner of
                            None \<Rightarrow> Some (EchFailed 47 errInvalidECHExt)
                          | Some echInner \<Rightarrow> Some (EchAccepted echInner ctx' configID suite))))))"

definition processECHClientHello :: "hpkeCrypto \<Rightarrow> cryptobyte \<Rightarrow> echKey list \<Rightarrow> clientHelloMsg \<Rightarrow> echOutcome option" where
  "processECHClientHello cr cb keys outer =
     (case parseECHExt cb (ch_encryptedClientHello outer) of
        Inl e \<Rightarrow> Some (EchFailed (if e = errInvalidECHExt then 47 else 50) errInvalidECHExt)
      | Inr InnerExt \<Rightarrow> Some (EchInnerMark outer)
      | Inr (OuterExt suite configID encap payload) \<Rightarrow> tryKeys cr cb keys outer suite configID encap payload)"

section \<open>The outer ClientHello on the client\<close>

record echClientContext =
  ecc_config :: echConfig
  ecc_hpkeContext :: hpkeContext
  ecc_encapsulatedKey :: bytes
  ecc_kdfID :: u16
  ecc_aeadID :: u16

text \<open>The part of \<open>makeClientHello\<close> that prepares ECH: the configuration, the suite, the sender. The fields of TLS 1.2 are cleared.\<close>

definition startECH ::
    "hpkeCrypto \<Rightarrow> cryptobyte \<Rightarrow> string + bytes \<Rightarrow> bytes \<Rightarrow> clientHelloMsg \<Rightarrow> (string + clientHelloMsg \<times> echClientContext) option" where
  "startECH cr cb eph configList hello =
     (case parseECHConfigList cb configList of
        None \<Rightarrow> None
      | Some (Inl e) \<Rightarrow> Some (Inl e)
      | Some (Inr echConfigs) \<Rightarrow>
          (case pickECHConfig echConfigs of
             None \<Rightarrow> Some (Inl ''tls: EncryptedClientHelloConfigList contains no valid configs'')
           | Some config \<Rightarrow>
               Some (case ParseHPKEPublicKey cr (ec_KemID config) (ec_PublicKey config) of
                  Inl e \<Rightarrow> Inl e
                | Inr echPK \<Rightarrow>
                    (case pickECHCipherSuite (ec_SymmetricCipherSuite config) of
                       Inl e \<Rightarrow> Inl e
                     | Inr suite \<Rightarrow>
                         (case SetupSender cr eph (ec_KemID config) (ech_KDFID suite) (ech_AEADID suite) echPK (echInfo (ec_raw config)) of
                            Inl e \<Rightarrow> Inl e
                          | Inr (encapsulatedKey, ctx) \<Rightarrow>
                              Inr (hello\<lparr>ch_encryptedClientHello := [1], ch_supportedPoints := [], ch_ticketSupported := False,
                                        ch_secureRenegotiationSupported := False, ch_extendedMasterSecret := False\<rparr>,
                                   \<lparr>ecc_config = config, ecc_hpkeContext = ctx, ecc_encapsulatedKey = encapsulatedKey,
                                    ecc_kdfID = ech_KDFID suite, ecc_aeadID = ech_AEADID suite\<rparr>))))))"

text \<open>\<open>None\<close> is an error, or the panic of \<open>Seal\<close>.\<close>

definition computeAndUpdateOuterECHExtension ::
    "cryptobyte \<Rightarrow> clientHelloMsg \<Rightarrow> clientHelloMsg \<Rightarrow> echClientContext \<Rightarrow> bool \<Rightarrow> (clientHelloMsg \<times> echClientContext) option" where
  "computeAndUpdateOuterECHExtension cb outer inner ech useKey =
     (let encapKey = (if useKey then ecc_encapsulatedKey ech else []); configID = ec_ConfigID (ecc_config ech) in
      do {
        encodedInner \<leftarrow> encodeInnerClientHello cb inner (unat (ec_MaxNameLength (ecc_config ech)));
        ext0 \<leftarrow> generateOuterECHExt cb configID (ecc_kdfID ech) (ecc_aeadID ech) encapKey (replicate (length encodedInner + 16) 0);
        serializedOuter \<leftarrow> clientHello_marshal cb (outer\<lparr>ch_encryptedClientHello := ext0\<rparr>);
        (encryptedInner, ctx) \<leftarrow> Seal (ecc_hpkeContext ech) (drop 4 serializedOuter) encodedInner;
        ext \<leftarrow> generateOuterECHExt cb configID (ecc_kdfID ech) (ecc_aeadID ech) encapKey encryptedInner;
        Some (outer\<lparr>ch_encryptedClientHello := ext\<rparr>, ech\<lparr>ecc_hpkeContext := ctx\<rparr>)
      })"

text \<open>The split in \<open>clientHandshake\<close>: the outer ClientHello is a copy with a public name, that of the user
  if there is one, and a new random value.\<close>

definition outerName :: "string \<Rightarrow> echConfig \<Rightarrow> string" where
  "outerName outerServerName config = (if outerServerName \<noteq> '''' then outerServerName else bytesStr (ec_PublicName config))"

definition splitHello :: "cryptobyte \<Rightarrow> string \<Rightarrow> bytes \<Rightarrow> clientHelloMsg \<Rightarrow> echClientContext \<Rightarrow> (clientHelloMsg \<times> echClientContext) option" where
  "splitHello cb outerServerName outerRandom hello ech =
     computeAndUpdateOuterECHExtension cb
       (hello\<lparr>ch_serverName := outerName outerServerName (ecc_config ech), ch_random := outerRandom\<rparr>) hello ech True"

end
