(* ===== verification/Utls_Ech_Correct.thy ===== *)
theory Utls_Ech_Correct
  imports Utls_Ech
begin

text \<open>
  What \<open>Utls_Ech\<close> guarantees: the parser reads every list a server can publish and returns on all of them, but not on every
  list a user can store; the choice of a configuration is the first usable one and leaves a usable suite; the extension
  round-trips; and the padding of the inner ClientHello does not hide the length of the server name.
\<close>

section \<open>Reading a list\<close>

text \<open>The encoding of a configuration and of a list of them, from the draft.\<close>

definition encCipher :: "echCipher \<Rightarrow> bytes" where
  "encCipher c = be16w (ech_KDFID c) @ be16w (ech_AEADID c)"

definition encExtension :: "echExtension \<Rightarrow> bytes" where
  "encExtension e = be16w (ee_Type e) @ be16 (length (ee_Data e)) @ ee_Data e"

definition encContents :: "echConfig \<Rightarrow> bytes" where
  "encContents ec =
     (let suites = concat (map encCipher (ec_SymmetricCipherSuite ec)); exts = concat (map encExtension (ec_Extensions ec)) in
      [ec_ConfigID ec] @ be16w (ec_KemID ec) @ be16 (length (ec_PublicKey ec)) @ ec_PublicKey ec @ be16 (length suites) @ suites @
      [ec_MaxNameLength ec, word_of_nat (length (ec_PublicName ec))] @ ec_PublicName ec @ be16 (length exts) @ exts)"

definition encConfig :: "echConfig \<Rightarrow> bytes" where
  "encConfig ec = be16w (ec_Version ec) @ be16 (length (encContents ec)) @ encContents ec"

text \<open>A configuration as it stands in a list: its length and raw bytes are those of its encoding.\<close>

definition published :: "echConfig \<Rightarrow> bool" where
  "published ec \<longleftrightarrow> ec_raw ec = encConfig ec \<and> ec_Length ec = word_of_nat (length (encContents ec)) \<and> length (encConfig ec) < 65536 \<and>
     length (ec_PublicName ec) < 256"

lemma encCipher_length [simp]: "length (encCipher c) = 4"
  by (simp add: encCipher_def)

lemma encConfig_length: "length (encConfig ec) = length (encContents ec) + 4"
  by (simp add: encConfig_def)

lemma encConfig_nonempty [simp]: "encConfig ec \<noteq> []"
  using encConfig_length [of ec] by (cases "encConfig ec") auto

lemma configLen_encConfig: "length (encConfig ec) < 65536 \<Longrightarrow> unat (configLen (encConfig ec @ rest) + 4) = length (encConfig ec)"
proof -
  assume "length (encConfig ec) < 65536"
  moreover have "configLen (encConfig ec @ rest) = word_of_nat (length (encContents ec))"
    using val16_be16 [of "length (encContents ec)"] by (simp add: configLen_def encConfig_def be16w_def be16_def nth_append)
  then have "configLen (encConfig ec @ rest) + 4 = word_of_nat (length (encConfig ec))" by (simp add: encConfig_length)
  ultimately show ?thesis by (simp add: unat_of_nat take_bit_nat_eq_self_iff)
qed

context cryptobyte_reader
begin

lemma readAll_suites: "readAll (readEchCipher cb) (length (concat (map encCipher cs))) (concat (map encCipher cs)) = Some cs"
  by (rule readAll_back) (simp_all add: readEchCipher_def encCipher_def)

lemma readAll_extensions:
  assumes "length (concat (map encExtension es)) < 65536"
  shows "readAll (readEchExtension cb) (length (concat (map encExtension es))) (concat (map encExtension es)) = Some es"
proof (rule readAll_back)
  fix e r assume "e \<in> set es"
  then have "length (encExtension e) \<le> length (concat (map encExtension es))"
    by (simp add: length_concat member_le_sum_list comp_def)
  then show "readEchExtension cb (encExtension e @ r) = Some (e, r)"
    using assms by (simp add: readEchExtension_def encExtension_def)
qed (simp add: encExtension_def)

lemma parseContents_back:
  assumes "length (encContents ec) < 65536" "length (ec_PublicName ec) < 256"
  shows "parseContents cb (ec_raw ec) (ec_Version ec) (ec_Length ec) (encContents ec @ rest) = Some ec"
  using assms by (simp add: parseContents_def encContents_def Let_def readAll_suites readAll_extensions)

lemma parseECHConfig_back:
  assumes "published ec"
  shows "parseECHConfig cb (encConfig ec @ rest) = Inr (if ec_Version ec = extensionEncryptedClientHello then Some ec else None)"
proof -
  let ?n = "length (encContents ec)"
  have n: "?n < 65532" using assms by (simp add: published_def encConfig_length)
  then have "unat (word_of_nat ?n :: u16) = ?n" "unat (word_of_nat ?n + 4 :: u16) = ?n + 4"
    using unat_of_nat [of "?n + 4", where ?'a = 16] by (simp_all add: unat_of_nat take_bit_nat_eq_self_iff)
  then show ?thesis
    using assms n parseContents_back [of ec rest]
    by (cases "ec_Version ec = extensionEncryptedClientHello") (simp_all add: parseECHConfig_def encConfig_def published_def)
qed

lemma parseConfigs_back:
  assumes "list_all published cs"
  shows "parseConfigs cb (concat (map encConfig cs)) acc = Some (Inr (acc @ filter (\<lambda>ec. ec_Version ec = extensionEncryptedClientHello) cs))"
  using assms
proof (induction cs arbitrary: acc)
  case (Cons ec cs)
  have l: "4 \<le> length (encConfig ec)" by (simp add: encConfig_length)
  have k: "unat (configLen (encConfig ec @ concat (map encConfig cs)) + 4) = length (encConfig ec)"
    using Cons.prems by (simp add: configLen_encConfig published_def)
  show ?case
    using Cons.prems Cons.IH l by (subst parseConfigs.simps) (simp add: parseECHConfig_back k)
qed (simp add: parseConfigs.simps)

lemma parseECHConfig_skip: "parseECHConfig cb s = Inr r \<Longrightarrow> unat (configLen s) + 4 \<le> length s"
  by (auto simp: parseECHConfig_def ReadUint16 configLen_def split: list.splits if_splits option.splits bind_splits)

lemma parseConfigs_returns:
  assumes "length s < 65536"
  shows "\<exists>r. parseConfigs cb s acc = Some r"
  using assms
proof (induction "length s" arbitrary: s acc rule: less_induct)
  case less
  show ?case
  proof (cases "s = [] \<or> length s < 4 \<or> (\<exists>e. parseECHConfig cb s = Inl e)")
    case True
    then show ?thesis by (auto simp: parseConfigs.simps [of cb s])
  next
    case False
    then obtain r where r: "parseECHConfig cb s = Inr r" by (cases "parseECHConfig cb s") auto
    have "unat (configLen s) + 4 < 65536" using parseECHConfig_skip [OF r] less.prems by simp
    then have "unat (configLen s + 4) = unat (configLen s) + 4" by (simp add: unat_word_ariths)
    then have "length (drop (unat (configLen s + 4)) s) < length s" using False by simp
    then have "\<exists>r'. parseConfigs cb (drop (unat (configLen s + 4)) s) (case r of None \<Rightarrow> acc | Some ec \<Rightarrow> acc @ [ec]) = Some r'"
      using less.prems by (intro less.hyps) simp_all
    then show ?thesis using False r by (simp add: parseConfigs.simps [of cb s])
  qed
qed

lemma parseConfigs_loops:
  assumes "configLen s = 65532" "4 \<le> length s" "parseECHConfig cb s = Inr None"
  shows "parseConfigs cb s acc = None"
proof (rule ccontr)
  assume "parseConfigs cb s acc \<noteq> None"
  then obtain r where r: "parseConfigs cb s acc = Some r" by auto
  have "cb = cb \<longrightarrow> s \<noteq> s"
  proof (rule parseConfigs.raw_induct [where P = "\<lambda>c s' acc r. c = cb \<longrightarrow> s' \<noteq> s", OF _ r])
    fix f c s' acc r
    assume IH: "\<And>c s' acc r. f c s' acc = Some r \<Longrightarrow> c = cb \<longrightarrow> s' \<noteq> s"
      and step: "(if s' = [] then Some (Inr acc)
         else if length s' < 4 then Some (Inl ''tls: malformed ECHConfig'')
         else case parseECHConfig c s' of
           Inl e \<Rightarrow> Some (Inl e)
         | Inr r \<Rightarrow> f c (drop (unat (configLen s' + 4)) s') (case r of None \<Rightarrow> acc | Some ec \<Rightarrow> acc @ [ec])) = Some r"
    show "c = cb \<longrightarrow> s' \<noteq> s"
    proof (intro impI notI)
      assume "c = cb" "s' = s"
      then have "f cb s acc = Some r" using step assms by (simp split: if_splits)
      then show False using IH by blast
    qed
  qed
  then show False by simp
qed

lemma parseECHConfigList_back:
  assumes "list_all published cs" "length (concat (map encConfig cs)) < 65536"
  shows "parseECHConfigList cb (be16 (length (concat (map encConfig cs))) @ concat (map encConfig cs)) =
    Some (Inr (filter (\<lambda>ec. ec_Version ec = extensionEncryptedClientHello) cs))"
  using assms(1) by (simp add: parseECHConfigList_def parseConfigs_back)

lemma parseECHConfigList_returns: "length data < 65538 \<Longrightarrow> \<exists>r. parseECHConfigList cb data = Some r"
  by (auto simp: parseECHConfigList_def split: option.splits dest!: ReadUint16_shorter intro!: parseConfigs_returns)

lemma parseECHConfigList_loops:
  assumes "version \<noteq> extensionEncryptedClientHello" "length body = 65532"
  shows "parseECHConfigList cb (be16 0 @ be16w version @ be16 65532 @ body) = None"
proof -
  let ?s = "be16w version @ be16 65532 @ body"
  have "configLen ?s = 65532" by (simp add: configLen_def be16w_def be16_def nth_append val16_def)
  moreover have "parseECHConfig cb ?s = Inr None" using assms by (simp add: parseECHConfig_def)
  ultimately have "parseConfigs cb ?s [] = None" using assms by (intro parseConfigs_loops) simp_all
  moreover have "(word_of_nat (length ?s) :: u16) = 0" using assms(2) by simp
  ultimately show ?thesis by (simp add: parseECHConfigList_def)
qed

lemma parseECHExt_back:
  assumes "generateOuterECHExt cb configID kdf aead key payload = Some ext"
  shows "parseECHExt cb ext = Inr (OuterExt \<lparr>ech_KDFID = kdf, ech_AEADID = aead\<rparr> configID key payload)"
  using assms by (auto simp: generateOuterECHExt_def parseECHExt_def AddUint16LengthPrefixed split: if_splits bind_splits)

end

section \<open>Choice and padding\<close>

lemma pickECHConfig_find: "pickECHConfig cs = List.find usableConfig cs"
  by (induction cs) simp_all

lemma pickECHCipherSuite_usable: "list_ex supportedSuite ss \<Longrightarrow> \<exists>s. pickECHCipherSuite ss = Inr s \<and> s \<in> set ss \<and> supportedSuite s"
  by (induction ss) auto

lemma pad_align: "0 < (n :: nat) \<Longrightarrow> (n + k + (31 - (n + k - 1) mod 32)) mod 32 = 0"
proof -
  assume "0 < n"
  then obtain m where m: "n + k = Suc m" using less_imp_Suc_add [of 0 "n + k"] by auto
  obtain q r where "m = 32 * q + r" "r < 32" by (rule that [of "m div 32" "m mod 32"]) simp_all
  then have "Suc m + (31 - m mod 32) = 32 * Suc q" by simp
  then show ?thesis by (simp add: m)
qed

lemma padInner_length: "h \<noteq> [] \<Longrightarrow> (length (padInner h name n) + (if name \<noteq> '''' then n - length name else n + 9)) mod 32 = 0"
  using pad_align [of "length h" "if name \<noteq> '''' then n - length name else n + 9"]
  by (simp add: padInner_def Let_def ac_simps)

lemma dividing_mod: "(a + (n - k)) mod 32 = 0 \<Longrightarrow> k \<le> n \<Longrightarrow> k mod 32 = (a + n) mod (32 :: nat)"
  using mod_add_left_eq [of "a + (n - k)" 32 k] by simp

context cryptobyte_reader
begin

lemma inner_nonempty: "marshalMsgReorderOuterExts cb m b outer = Some h \<Longrightarrow> drop 4 h \<noteq> []"
  by (auto simp: marshalMsgReorderOuterExts_def message_eq addAll_Cons_Some be24_def split: bind_splits simp del: addAll.simps)

lemma encodeInner_length:
  assumes "encodeInnerClientHello cb m n = Some e" "ch_serverName m \<noteq> ''''" "length (ch_serverName m) \<le> n"
  shows "length (ch_serverName m) mod 32 = (length e + n) mod 32"
proof (rule dividing_mod)
  show "(length e + (n - length (ch_serverName m))) mod 32 = 0"
    using assms(1, 2) padInner_length [OF inner_nonempty, where name = "ch_serverName m"]
    by (auto simp: encodeInnerClientHello_def encodeInnerClientHelloReorderOuterExts_def)
qed fact

end

section \<open>Properties\<close>

text \<open>C30. A list of configurations, each encoded as the draft says, is parsed into exactly those of the version the code knows, in
  their order, with every field and the raw bytes of each.\<close>

theorem ech_list_parses:
  assumes "cryptobyte_reader cb" "list_all published cs" "length (concat (map encConfig cs)) < 65536"
  shows "parseECHConfigList cb (be16 (length (concat (map encConfig cs))) @ concat (map encConfig cs)) =
    Some (Inr (filter (\<lambda>ec. ec_Version ec = extensionEncryptedClientHello) cs))"
  using assms by (intro cryptobyte_reader.parseECHConfigList_back)

text \<open>A configuration as it stands in a list, from its fields.\<close>

definition publish :: "echConfig \<Rightarrow> echConfig" where
  "publish ec = ec\<lparr>ec_raw := encConfig ec, ec_Length := word_of_nat (length (encContents ec))\<rparr>"

definition exampleConfig :: "u16 \<Rightarrow> byte \<Rightarrow> echConfig" where
  "exampleConfig version configID = publish
     \<lparr>ec_raw = [], ec_Version = version, ec_Length = 0, ec_ConfigID = configID, ec_KemID = 0x20, ec_PublicKey = [1, 2, 3],
      ec_SymmetricCipherSuite = [\<lparr>ech_KDFID = 1, ech_AEADID = 1\<rparr>, \<lparr>ech_KDFID = 1, ech_AEADID = 3\<rparr>], ec_MaxNameLength = 32,
      ec_PublicName = strBytes ''cloudflare-ech.com'', ec_Extensions = []\<rparr>"

theorem ech_list_parses_witness:
  "parseECHConfigList cryptobyteRef (be16 88 @ concat (map encConfig [exampleConfig 0xfe0a 7, exampleConfig 0xfe0d 8])) =
   Some (Inr [exampleConfig 0xfe0d 8])"
proof -
  let ?cs = "[exampleConfig 0xfe0a 7, exampleConfig 0xfe0d 8]"
  have l: "length (encConfig (exampleConfig v i)) = 44" for v i
    by (simp add: exampleConfig_def publish_def encConfig_def encContents_def encCipher_def Let_def strBytes_def)
  have p: "published (exampleConfig v i)" for v i
    using l [of v i] by (simp add: published_def)
      (simp add: exampleConfig_def publish_def encConfig_def encContents_def encCipher_def Let_def)
  show ?thesis
    using ech_list_parses [OF ref.cryptobyte_reader_axioms, of ?cs] p l by (simp add: exampleConfig_def publish_def)
qed

text \<open>C31. Every list shorter than 65538 bytes is parsed or refused after finitely many steps, whatever its bytes are; there is a
  list of 65538 bytes on which the parser never returns (its step of 65532 + 4 is zero in 16 bits).\<close>

theorem ech_list_termination:
  assumes "cryptobyte_reader cb"
  shows "(length data < 65538 \<longrightarrow> (\<exists>r. parseECHConfigList cb data = Some r)) \<and>
    (version \<noteq> extensionEncryptedClientHello \<longrightarrow> length body = 65532 \<longrightarrow>
       parseECHConfigList cb (be16 0 @ be16w version @ be16 65532 @ body) = None)"
  using cryptobyte_reader.parseECHConfigList_returns [OF assms] cryptobyte_reader.parseECHConfigList_loops [OF assms] by blast

theorem ech_list_termination_witness:
  "(\<exists>r. parseECHConfigList cryptobyteRef [0, 4, 1, 2, 0, 0] = Some r) \<and>
   parseECHConfigList cryptobyteRef (be16 0 @ be16w 0xfe0a @ be16 65532 @ replicate 65532 0) = None"
  using ech_list_termination [OF ref.cryptobyte_reader_axioms, where data = "[0, 4, 1, 2, 0, 0]" and version = "0xfe0a" and body = "replicate 65532 0"] by simp

text \<open>The configuration that is chosen has a key encapsulation, a suite and a public name that the client can use: the
  choice of its suite succeeds, and no configuration before it was usable.\<close>

theorem ech_choice:
  assumes "pickECHConfig cs = Some ec"
  shows "(\<exists>i < length cs. cs ! i = ec \<and> (\<forall>j < i. \<not> usableConfig (cs ! j))) \<and> ec_KemID ec = 0x20 \<and> validDNSName (bytesStr (ec_PublicName ec)) \<and>
    (\<exists>s. pickECHCipherSuite (ec_SymmetricCipherSuite ec) = Inr s \<and> s \<in> set (ec_SymmetricCipherSuite ec) \<and> ech_KDFID s = 1 \<and> ech_AEADID s \<in> {1, 2, 3})"
proof -
  have "\<exists>i < length cs. cs ! i = ec \<and> (\<forall>j < i. \<not> usableConfig (cs ! j))" and u: "usableConfig ec"
    using assms by (auto simp: pickECHConfig_find find_Some_iff)
  moreover have "\<exists>s. pickECHCipherSuite (ec_SymmetricCipherSuite ec) = Inr s \<and> s \<in> set (ec_SymmetricCipherSuite ec) \<and> ech_KDFID s = 1 \<and> ech_AEADID s \<in> {1, 2, 3}"
    using u pickECHCipherSuite_usable [of "ec_SymmetricCipherSuite ec"]
    by (auto simp: usableConfig_def supportedSuite_def SupportedAEADs_def aeadTable_def SupportedKDFs_def)
  ultimately show ?thesis using u by (auto simp: usableConfig_def SupportedKEMs_def)
qed

theorem ech_choice_witness:
  "pickECHConfig [(exampleConfig 0xfe0d 1)\<lparr>ec_KemID := 0x10\<rparr>, exampleConfig 0xfe0d 2] = Some (exampleConfig 0xfe0d 2) \<and>
   pickECHCipherSuite (ec_SymmetricCipherSuite (exampleConfig 0xfe0d 2)) = Inr \<lparr>ech_KDFID = 1, ech_AEADID = 1\<rparr>"
proof -
  have p: "pickECHConfig [(exampleConfig 0xfe0d 1)\<lparr>ec_KemID := 0x10\<rparr>, exampleConfig 0xfe0d 2] = Some (exampleConfig 0xfe0d 2)"
    by (simp add: usableConfig_def exampleConfig_def publish_def SupportedKEMs_def supportedSuite_def SupportedAEADs_def aeadTable_def SupportedKDFs_def
      validDNSName_def validLabel_def hostChar_def)
  from ech_choice [OF this] show ?thesis using p by (auto simp: exampleConfig_def publish_def supportedSuite_def SupportedAEADs_def aeadTable_def SupportedKDFs_def)
qed

text \<open>C36. The padding of the inner ClientHello does not hide the length of the server name: with the maximal length that the
  configuration publishes, the length of the encoded hello tells the length of the name modulo 32.\<close>

theorem ech_length_reveals_name:
  assumes "cryptobyte_reader cb" "encodeInnerClientHello cb m n = Some e" "ch_serverName m \<noteq> ''''" "length (ch_serverName m) \<le> n"
  shows "length (ch_serverName m) mod 32 = (length e + n) mod 32"
  using assms by (intro cryptobyte_reader.encodeInner_length)

theorem ech_length_reveals_name_witness:
  "\<exists>e. encodeInnerClientHello cryptobyteRef (emptyClientHello\<lparr>ch_random := replicate 32 5, ch_serverName := ''a.example''\<rparr>) 40 = Some e \<and>
     9 = (length e + 40) mod 32"
proof -
  let ?m = "emptyClientHello\<lparr>ch_random := replicate 32 5, ch_serverName := ''a.example''\<rparr>"
  obtain exts where "addAll (helloExtensionParts cryptobyteRef ?m True None) = Some exts" "length exts < 100" "exts \<noteq> []"
    by (simp add: helloExtensionParts_def compressible_def emptyClientHello_def addWhen_def addExtension_def ref.bytes16_Some)
  then obtain e where e: "encodeInnerClientHello cryptobyteRef ?m 40 = Some e"
    by (simp add: encodeInnerClientHello_def encodeInnerClientHelloReorderOuterExts_def marshalMsgReorderOuterExts_def message_def ref.bytes8_Some
      ref.bytes16_Some ref.bytes24_Some addBytesWithLength_def addWhen_def emptyClientHello_def)
  with ech_length_reveals_name [OF ref.cryptobyte_reader_axioms e] show ?thesis by (simp add: emptyClientHello_def)
qed

end
