(* ===== verification/Utls_Hpke_Correct.thy ===== *)
theory Utls_Hpke_Correct
  imports Utls_Hpke
begin

text \<open>
  HPKE: both sides derive the same context, every message that is sealed opens to itself, no nonce is used twice, and the
  exact number of messages after which sealing panics.
\<close>

section \<open>Sequence numbers\<close>

lemma bitsLen_le: "bitsLen n \<le> k \<longleftrightarrow> n < 2 ^ k"
proof (induction n arbitrary: k rule: bitsLen.induct)
  case (1 n)
  show ?case
  proof (cases "n = 0")
    case False
    then show ?thesis using 1 [of "k - 1"] by (cases k) (simp_all add: bitsLen.simps [of n], presburger?)
  qed (simp add: bitsLen.simps)
qed

definition seqVal :: "uint128 \<Rightarrow> nat" where
  "seqVal u = unat (hi u) * 2 ^ 64 + unat (lo u)"

text \<open>The number of messages a context takes with a nonce of 12 bytes.\<close>

definition messageLimit :: nat where
  "messageLimit = 2 ^ 94 + 2 ^ 63"

lemma unat64: "unat (w :: 64 word) < 2 ^ 64"
  using unsigned_less [of w, where ?'a = nat] by simp

lemma seqVal_addOne:
  assumes "seqVal u < messageLimit"
  shows "seqVal (addOne u) = Suc (seqVal u)"
proof -
  have h: "unat (hi u) < 2 ^ 31" using assms unat64 [of "lo u"] by (simp add: seqVal_def messageLimit_def)
  show ?thesis
  proof (cases "lo u + 1 = 0")
    case True
    then have "unat (lo u) = 2 ^ 64 - 1" by (simp add: unsigned_minus_1_eq_mask mask_eq_exp_minus_1 flip: eq_neg_iff_add_eq_0)
    moreover have "unat (hi u + 1) = unat (hi u) + 1" using h by (simp add: unat_word_ariths)
    ultimately show ?thesis using True by (simp add: seqVal_def addOne_def)
  next
    case False
    then have "unat (lo u + 1) = unat (lo u) + 1" by (simp add: unatSuc add.commute)
    then show ?thesis using False by (simp add: seqVal_def addOne_def)
  qed
qed

lemma bitLen_below: "seqVal u < messageLimit \<Longrightarrow> bitLen u < 95"
proof -
  assume l: "seqVal u < messageLimit"
  show ?thesis
  proof (cases "unat (hi u) < 2 ^ 30")
    case True
    then have "bitsLen (unat (hi u)) \<le> 30" "bitsLen (unat (lo u)) \<le> 64"
      using unat64 [of "lo u"] by (simp_all add: bitsLen_le del: power_numeral)
    then show ?thesis by (simp add: bitLen_def)
  next
    case False
    then have "unat (hi u) < 2 ^ 31" "unat (lo u) < 2 ^ 63" using l by (simp_all add: seqVal_def messageLimit_def)
    then have "bitsLen (unat (hi u)) \<le> 31" "bitsLen (unat (lo u)) \<le> 63" by (simp_all add: bitsLen_le del: power_numeral)
    then show ?thesis by (simp add: bitLen_def)
  qed
qed

lemma bitLen_limit: "seqVal u = messageLimit \<Longrightarrow> 95 \<le> bitLen u"
proof -
  assume l: "seqVal u = messageLimit"
  have h: "unat (hi u) = 2 ^ 30" using l unat64 [of "lo u"] by (simp add: seqVal_def messageLimit_def)
  moreover from h l have "unat (lo u) = 2 ^ 63" by (simp add: seqVal_def messageLimit_def)
  moreover have "\<not> bitsLen (2 ^ 30) \<le> 30" "\<not> bitsLen (2 ^ 63) \<le> 63" by (simp_all only: bitsLen_le)
  ultimately show ?thesis by (simp add: bitLen_def del: power_numeral)
qed

lemma be32w_inj [simp]: "be32w v = be32w w \<longleftrightarrow> v = w"
proof
  assume e: "be32w v = be32w w"
  obtain a b c d where v: "be32w v = [a, b, c, d]" by (simp add: be32w_def)
  show "v = w" using trans [OF val32_be32 [OF v, symmetric] val32_be32 [OF trans [OF e [symmetric] v]]] .
qed simp

lemma halves: "(v :: 64 word) = push_bit 32 (ucast (ucast (drop_bit 32 v) :: 32 word)) OR ucast (ucast v :: 32 word)"
  by (rule bit_word_eqI) (auto simp: bit_simps)

lemma addUint64_inj: "addUint64 v = addUint64 w \<longleftrightarrow> v = w"
  using halves [of v] halves [of w] by (auto simp: addUint64_def)

lemma small_hi: "unat v < 2 ^ 32 \<Longrightarrow> unat w < 2 ^ 32 \<Longrightarrow> (ucast v :: 32 word) = ucast w \<Longrightarrow> v = (w :: 64 word)"
proof -
  assume "unat v < 2 ^ 32" "unat w < 2 ^ 32" and e: "(ucast v :: 32 word) = ucast w"
  from this(1, 2) have "unat (ucast v :: 32 word) = unat v" "unat (ucast w :: 32 word) = unat w"
    by (simp_all add: unsigned_ucast_eq take_bit_nat_eq_self_iff)
  then show ?thesis using e by (simp add: word_unat_eq_iff)
qed

lemma uint128_bytes_inj:
  assumes "drop 4 (uint128_bytes u) = drop 4 (uint128_bytes v)" "seqVal u \<le> messageLimit" "seqVal v \<le> messageLimit"
  shows "u = v"
proof -
  have h: "unat (hi w) < 2 ^ 32" if "seqVal w \<le> messageLimit" for w
    using that unat64 [of "lo w"] by (simp add: seqVal_def messageLimit_def)
  have "(ucast (hi u) :: 32 word) = ucast (hi v)" "lo u = lo v"
    using assms(1) by (auto simp: uint128_bytes_def addUint64_def [of "hi _"] addUint64_inj)
  then show ?thesis using small_hi [OF h [OF assms(2)] h [OF assms(3)]] by simp
qed

section \<open>Contexts\<close>

text \<open>A context whose AEAD opens what it seals.\<close>

definition usable :: "hpkeContext \<Rightarrow> bool" where
  "usable ctx \<longleftrightarrow> ae_NonceSize (hx_aead ctx) = 12 \<and> length (hx_baseNonce ctx) = 12 \<and>
     (\<forall>nonce p aad. ae_Open (hx_aead ctx) nonce (ae_Seal (hx_aead ctx) nonce p aad) aad = Inr p \<and>
        length (ae_Seal (hx_aead ctx) nonce p aad) = length p + 16)"

text \<open>What the code relies on: an exchange gives both sides the same secret, the public key of a private one is valid, the
  expansion has the length asked for, the AEADs have nonces of 12 bytes, open what they
  sealed and add a tag of 16 bytes.\<close>

definition hpke_laws :: "hpkeCrypto \<Rightarrow> bool" where
  "hpke_laws cr \<longleftrightarrow>
     (\<forall>a b. hc_ECDH cr a (hc_PublicKey cr b) = hc_ECDH cr b (hc_PublicKey cr a)) \<and>
     (\<forall>a. hc_NewPublicKey cr (hc_PublicKey cr a) = Inr (hc_PublicKey cr a)) \<and>
     (\<forall>k info n. length (hc_Expand cr k info n) = n) \<and>
     (\<forall>aeadID key alg. hc_NewAEAD cr aeadID key = Inr alg \<longrightarrow> aeadID \<in> set SupportedAEADs \<longrightarrow> ae_NonceSize alg = 12) \<and>
     (\<forall>aeadID key alg nonce p aad. hc_NewAEAD cr aeadID key = Inr alg \<longrightarrow> ae_Open alg nonce (ae_Seal alg nonce p aad) aad = Inr p \<and>
        length (ae_Seal alg nonce p aad) = length p + 16)"

lemma hpke_lawsD:
  assumes "hpke_laws cr"
  shows ECDH_agree: "hc_ECDH cr a (hc_PublicKey cr b) = hc_ECDH cr b (hc_PublicKey cr a)"
    and NewPublicKey: "hc_NewPublicKey cr (hc_PublicKey cr a) = Inr (hc_PublicKey cr a)"
    and Expand_length: "length (hc_Expand cr k info n) = n"
    and NonceSize: "hc_NewAEAD cr aeadID key = Inr alg \<Longrightarrow> aeadID \<in> set SupportedAEADs \<Longrightarrow> ae_NonceSize alg = 12"
    and Open_Seal: "hc_NewAEAD cr aeadID key = Inr alg \<Longrightarrow> ae_Open alg nonce (ae_Seal alg nonce p aad) aad = Inr p"
    and Seal_length: "hc_NewAEAD cr aeadID key = Inr alg \<Longrightarrow> length (ae_Seal alg nonce p aad) = length p + 16"
  using assms by (simp_all add: hpke_laws_def)

lemma setup_agree:
  assumes "hpke_laws cr" "SetupSender cr (Inr eph) kemID kdfID aeadID (hc_PublicKey cr priv) info = Inr (enc, ctx)"
  shows "SetupReceipient cr kemID kdfID aeadID priv info enc = Inr ctx"
  using assms(2) ECDH_agree [OF assms(1), of priv eph]
  by (auto simp: SetupSender_def SetupReceipient_def Encap_def Decap_def NewPublicKey [OF assms(1)] Let_def split: sum.splits)

lemma newContext_usable:
  assumes "hpke_laws cr" "newContext cr sharedSecret kemID kdfID aeadID info = Inr ctx"
  shows "usable ctx \<and> seqVal (hx_seqNum ctx) = 0"
proof -
  obtain key a where "hc_NewAEAD cr aeadID key = Inr a" "aeadID \<in> set SupportedAEADs" "hx_aead ctx = a" "length (hx_baseNonce ctx) = 12"
      "seqVal (hx_seqNum ctx) = 0"
    using assms(2) by (auto simp: newContext_def Let_def LabeledExpand_def Expand_length [OF assms(1)] aeadTable_def SupportedAEADs_def seqVal_def split: if_splits sum.splits)
  then show ?thesis using NonceSize [OF assms(1)] Open_Seal [OF assms(1)] Seal_length [OF assms(1)] by (simp add: usable_def)
qed

lemma sender_usable: "hpke_laws cr \<Longrightarrow> SetupSender cr eph kemID kdfID aeadID pub info = Inr (enc, ctx) \<Longrightarrow> usable ctx \<and> seqVal (hx_seqNum ctx) = 0"
  by (auto simp: SetupSender_def newContext_usable split: sum.splits)

lemma nextNonce_usable:
  "usable ctx \<Longrightarrow> nextNonce ctx = Some (map2 (XOR) (drop 4 (uint128_bytes (hx_seqNum ctx))) (hx_baseNonce ctx))"
  by (simp add: nextNonce_def usable_def uint128_bytes_def addUint64_def Let_def)

lemma incrementNonce_usable:
  assumes "usable ctx" "seqVal (hx_seqNum ctx) \<le> messageLimit"
  shows "if seqVal (hx_seqNum ctx) = messageLimit then incrementNonce ctx = None
    else \<exists>ctx'. incrementNonce ctx = Some ctx' \<and> usable ctx' \<and> seqVal (hx_seqNum ctx') = Suc (seqVal (hx_seqNum ctx)) \<and> hx_baseNonce ctx' = hx_baseNonce ctx"
  using assms bitLen_below [of "hx_seqNum ctx"] bitLen_limit [of "hx_seqNum ctx"] seqVal_addOne [of "hx_seqNum ctx"]
  by (cases "seqVal (hx_seqNum ctx) = messageLimit") (simp_all add: incrementNonce_def usable_def)

lemma Seal_usable:
  assumes "usable ctx" "seqVal (hx_seqNum ctx) < messageLimit"
  obtains c ctx' where "Seal ctx aad p = Some (c, ctx')" "length c = length p + 16" "Open ctx aad c = Some (Inr (p, ctx'))" "usable ctx'"
    "seqVal (hx_seqNum ctx') = Suc (seqVal (hx_seqNum ctx))" "hx_baseNonce ctx' = hx_baseNonce ctx"
  using assms incrementNonce_usable [OF assms(1)] nextNonce_usable [OF assms(1)]
  by (auto simp: Seal_def Open_def usable_def)

lemma sealAll_limit:
  assumes "usable ctx" "seqVal (hx_seqNum ctx) \<le> messageLimit"
  shows "(\<exists>r. sealAll ctx ms = Some r) \<longleftrightarrow> seqVal (hx_seqNum ctx) + length ms \<le> messageLimit"
  using assms
proof (induction ms arbitrary: ctx)
  case (Cons m ms)
  obtain aad p where m: "m = (aad, p)" by (cases m)
  show ?case
  proof (cases "seqVal (hx_seqNum ctx) = messageLimit")
    case True
    then have "incrementNonce ctx = None" using incrementNonce_usable [OF Cons.prems] by simp
    then show ?thesis using True by (auto simp: m Seal_def nextNonce_usable [OF Cons.prems(1)])
  next
    case False
    then have "seqVal (hx_seqNum ctx) < messageLimit" using Cons.prems(2) by simp
    then obtain c ctx' where "Seal ctx aad p = Some (c, ctx')" "usable ctx'" "seqVal (hx_seqNum ctx') = Suc (seqVal (hx_seqNum ctx))"
      using Seal_usable [OF Cons.prems(1)] by metis
    then show ?thesis using Cons.IH [of ctx'] Cons.prems False by (auto simp: m split: bind_splits)
  qed
qed simp

lemma sealAll_seq:
  assumes "usable ctx" "seqVal (hx_seqNum ctx) \<le> messageLimit" "sealAll ctx ms = Some (cs, ctx')"
  shows "seqVal (hx_seqNum ctx') = seqVal (hx_seqNum ctx) + length ms \<and> usable ctx' \<and> hx_baseNonce ctx' = hx_baseNonce ctx \<and>
    seqVal (hx_seqNum ctx') \<le> messageLimit \<and> length cs = length ms \<and> openAll ctx (zip (map fst ms) cs) = Some (Inr (map snd ms, ctx'))"
  using assms
proof (induction ms arbitrary: ctx cs)
  case (Cons m ms)
  obtain aad p where m: "m = (aad, p)" by (cases m)
  have l: "seqVal (hx_seqNum ctx) < messageLimit"
    using Cons.prems sealAll_limit [OF Cons.prems(1, 2), of "m # ms"] by auto
  obtain c ctx1 where c: "Seal ctx aad p = Some (c, ctx1)" "length c = length p + 16" "Open ctx aad c = Some (Inr (p, ctx1))" "usable ctx1"
      "seqVal (hx_seqNum ctx1) = Suc (seqVal (hx_seqNum ctx))" "hx_baseNonce ctx1 = hx_baseNonce ctx"
    using Seal_usable [OF Cons.prems(1) l] by blast
  then obtain cs' where "sealAll ctx1 ms = Some (cs', ctx')" "cs = c # cs'" using Cons.prems by (auto simp: m split: bind_splits)
  then show ?case using Cons.IH [OF c(4)] c l by (auto simp: m)
qed simp

lemma xor_right_cancel: "v XOR z = w XOR z \<longleftrightarrow> v = (w :: 'a :: len word)"
  by (metis xor.assoc xor_self_eq xor.right_neutral)

lemma map2_xor_inj: "length xs = length zs \<Longrightarrow> length ys = length zs \<Longrightarrow> map2 (XOR) xs zs = map2 (XOR) ys zs \<Longrightarrow> xs = (ys :: bytes)"
proof (induction zs arbitrary: xs ys)
  case (Cons z zs)
  from Cons.prems(1, 2) obtain x xs' y ys' where "xs = x # xs'" "ys = y # ys'" by (auto simp: length_Suc_conv)
  then show ?case using Cons.prems Cons.IH [of xs' ys'] by (simp add: xor_right_cancel)
qed simp

lemma nonce_fresh:
  assumes "usable c1" "usable c2" "hx_baseNonce c1 = hx_baseNonce c2" "seqVal (hx_seqNum c1) \<le> messageLimit" "seqVal (hx_seqNum c2) \<le> messageLimit"
    "nextNonce c1 = nextNonce c2"
  shows "hx_seqNum c1 = hx_seqNum c2"
proof -
  have l: "length (drop 4 (uint128_bytes u)) = 12" for u by (simp add: uint128_bytes_def addUint64_def)
  have "map2 (XOR) (drop 4 (uint128_bytes (hx_seqNum c1))) (hx_baseNonce c2) = map2 (XOR) (drop 4 (uint128_bytes (hx_seqNum c2))) (hx_baseNonce c2)"
    using assms(6) unfolding nextNonce_usable [OF assms(1)] nextNonce_usable [OF assms(2)] assms(3) by simp
  then have "drop 4 (uint128_bytes (hx_seqNum c1)) = drop 4 (uint128_bytes (hx_seqNum c2))"
    by (rule map2_xor_inj [rotated 2]) (use assms(2) l in \<open>simp_all only: usable_def\<close>)
  then show ?thesis using assms(4, 5) by (rule uint128_bytes_inj)
qed


section \<open>Properties\<close>

text \<open>A sender with the public key of a recipient and the recipient derive the same context, and the recipient opens every
  message of the sender, in order, to what was sealed, with the same additional data.\<close>

theorem hpke_roundtrip:
  assumes "hpke_laws cr" "SetupSender cr (Inr eph) kemID kdfID aeadID (hc_PublicKey cr priv) info = Inr (enc, s)"
    "sealAll s ms = Some (cs, s')"
  shows "\<exists>r. SetupReceipient cr kemID kdfID aeadID priv info enc = Inr r \<and> openAll r (zip (map fst ms) cs) = Some (Inr (map snd ms, s'))"
  using setup_agree [OF assms(1, 2)] sender_usable [OF assms(1, 2)] sealAll_seq [OF _ _ assms(3)]
  by auto

text \<open>Primitives that satisfy the laws: a commutative exchange on the first byte of a key, a fixed expansion and a shift as cipher.\<close>

definition toyTag :: "bytes \<Rightarrow> bytes" where
  "toyTag aad = take 16 (aad @ replicate 16 0)"

definition toyAead :: "bytes \<Rightarrow> aead" where
  "toyAead key = \<lparr>ae_NonceSize = 12, ae_Seal = (\<lambda>nonce p aad. map ((+) (hd key + last nonce)) p @ toyTag aad),
     ae_Open = (\<lambda>nonce c aad. if 16 \<le> length c \<and> drop (length c - 16) c = toyTag aad
        then Inr (map (\<lambda>b. b - (hd key + last nonce)) (take (length c - 16) c)) else Inl ''authentication failed'')\<rparr>"

lemma toyTag_length [simp]: "length (toyTag aad) = 16"
  by (simp add: toyTag_def)

definition toyCrypto :: hpkeCrypto where
  "toyCrypto = \<lparr>hc_Extract = (\<lambda>secret salt. secret @ salt), hc_Expand = (\<lambda>k info n. replicate n 72),
     hc_NewPublicKey = Inr, hc_NewPrivateKey = Inr, hc_PublicKey = (\<lambda>k. map (\<lambda>b. b + 3) (take 1 k)),
     hc_ECDH = (\<lambda>k p. Inr [sum_list (take 1 k) + sum_list (map (\<lambda>b. b - 3) p)]), hc_NewAEAD = (\<lambda>_ key. Inr (toyAead key))\<rparr>"

lemma toyCrypto_laws: "hpke_laws toyCrypto"
proof -
  have "hc_ECDH toyCrypto a (hc_PublicKey toyCrypto b) = hc_ECDH toyCrypto b (hc_PublicKey toyCrypto a)" for a b
    by (cases a; cases b) (simp_all add: toyCrypto_def)
  then show ?thesis by (simp add: hpke_laws_def) (auto simp: toyCrypto_def toyAead_def comp_def)
qed

text \<open>A sender on these primitives.\<close>

definition toySender :: hpkeContext where
  "toySender = (case SetupSender toyCrypto (Inr [5]) 0x20 1 1 (hc_PublicKey toyCrypto [9]) [7] of Inr (enc, s) \<Rightarrow> s)"

lemma toySender_setup: "SetupSender toyCrypto (Inr [5]) 0x20 1 1 (hc_PublicKey toyCrypto [9]) [7] = Inr ([8], toySender)"
  by (simp add: toySender_def SetupSender_def newDHKem_def SupportedKEMs_def Encap_def toyCrypto_def newContext_def SupportedKDFs_def aeadTable_def Let_def)

theorem hpke_roundtrip_witness:
  "\<exists>r cs s'. SetupReceipient toyCrypto 0x20 1 1 [9] [7] [8] = Inr r \<and> sealAll toySender [([1], [2, 3]), ([], [4])] = Some (cs, s') \<and>
     openAll r (zip [[1], []] cs) = Some (Inr ([[2, 3], [4]], s'))"
proof -
  have "\<exists>r. sealAll toySender [([1], [2, 3]), ([], [4])] = Some r"
    using sender_usable [OF toyCrypto_laws toySender_setup] sealAll_limit [of toySender "[([1], [2, 3]), ([], [4])]"]
    by (simp add: messageLimit_def)
  then obtain cs s' where "sealAll toySender [([1], [2, 3]), ([], [4])] = Some (cs, s')" by auto
  from hpke_roundtrip [OF toyCrypto_laws toySender_setup this] this show ?thesis by auto
qed

text \<open>C6. A context seals exactly 2^94 + 2^63 messages, then it panics; before that no nonce is used twice.\<close>

theorem hpke_nonces:
  assumes "hpke_laws cr" "SetupSender cr eph kemID kdfID aeadID pub info = Inr (enc, s)"
  shows "((\<exists>r. sealAll s ms = Some r) \<longleftrightarrow> length ms \<le> 2 ^ 94 + 2 ^ 63) \<and>
    (sealAll s ms1 = Some (cs1, s1) \<longrightarrow> sealAll s ms2 = Some (cs2, s2) \<longrightarrow> length ms1 \<noteq> length ms2 \<longrightarrow> nextNonce s1 \<noteq> nextNonce s2)"
proof -
  have s: "usable s" "seqVal (hx_seqNum s) = 0" using sender_usable [OF assms] by auto
  have "nextNonce s1 \<noteq> nextNonce s2" if "sealAll s ms1 = Some (cs1, s1)" "sealAll s ms2 = Some (cs2, s2)" "length ms1 \<noteq> length ms2"
    using sealAll_seq [OF s(1) _ that(1)] sealAll_seq [OF s(1) _ that(2)] s(2) that(3) nonce_fresh [of s1 s2] by auto
  then show ?thesis using sealAll_limit [OF s(1), of ms] s(2) by (auto simp: messageLimit_def)
qed

theorem hpke_nonces_witness:
  "\<exists>cs s'. sealAll toySender [([], [])] = Some (cs, s') \<and> nextNonce toySender \<noteq> nextNonce s'"
proof -
  obtain cs s' where "sealAll toySender [([], [])] = Some (cs, s')"
    using hpke_nonces [OF toyCrypto_laws toySender_setup, THEN conjunct1, of "[([], [])]"] by auto
  with hpke_nonces [OF toyCrypto_laws toySender_setup, where ?ms1.0 = "[]" and ?ms2.0 = "[([], [])]"] show ?thesis by auto
qed

end
