(* ===== verification/Utls_Ech_Accept.thy ===== *)
theory Utls_Ech_Accept
  imports Utls_Ech_Correct Utls_Hpke_Correct "HOL-Library.Sublist"
begin

text \<open>
  Encrypted ClientHello from end to end: a server that has the key of the configuration decrypts the outer ClientHello of a client
  and rebuilds the inner one byte for byte. The reconstruction is shown on raw extensions (type and data): the encoded inner
  ClientHello has a reference in place of the extensions that the outer one repeats.
\<close>

section \<open>Raw extensions\<close>

definition encRaw :: "u16 \<times> bytes \<Rightarrow> bytes" where
  "encRaw r = be16w (fst r) @ be16 (length (snd r)) @ snd r"

definition rawsOf :: "'m extItem list \<Rightarrow> (u16 \<times> bytes) list" where
  "rawsOf items = map (\<lambda>(b, ty, body, u). (ty, the body)) (filter (\<lambda>(b, ty, body, u). b) items)"

definition fits :: "u16 \<times> bytes \<Rightarrow> bool" where
  "fits r \<longleftrightarrow> length (snd r) < 65536"

lemma addAll_two: "addAll [x, y] = do { a \<leftarrow> x; b \<leftarrow> y; Some (a @ b) }"
  by (cases x; cases y) simp_all

lemma addAll_Cons_bind: "addAll (x # xs) = do { a \<leftarrow> x; b \<leftarrow> addAll xs; Some (a @ b) }"
  by (cases x; cases "addAll xs") simp_all

lemma addAll_append_bind: "addAll (xs @ ys) = do { a \<leftarrow> addAll xs; b \<leftarrow> addAll ys; Some (a @ b) }"
  by (induction xs) (auto simp: addAll_Cons_bind simp del: addAll.simps(2) split: bind_splits)

lemma addAll_append: "addAll (xs @ ys) = Some bs \<longleftrightarrow> (\<exists>a b. addAll xs = Some a \<and> addAll ys = Some b \<and> bs = a @ b)"
  by (auto simp: addAll_append_bind split: bind_splits)

lemma rawsOf_append [simp]: "rawsOf (xs @ ys) = rawsOf xs @ rawsOf ys"
  by (simp add: rawsOf_def)

lemma fst_rawsOf: "map fst (rawsOf items) = presentTypes items"
  by (simp add: rawsOf_def comp_def split_beta)

lemma encRaw_nonempty [simp]: "encRaw r \<noteq> []"
  by (simp add: encRaw_def)

context cryptobyte_reader
begin

lemma addExtension_raw: "addExtension cb ty (Some d) = (if fits (ty, d) then Some (encRaw (ty, d)) else None)"
  by (simp add: addExtension_def bytes16_Some fits_def encRaw_def)

lemma items_raws:
  assumes "addAll (map (itemPart cb) items) = Some bs"
  shows "bs = concat (map encRaw (rawsOf items)) \<and> list_all fits (rawsOf items)"
  using assms
proof (induction items arbitrary: bs)
  case (Cons item items)
  obtain b ty body u where item: "item = (b, ty, body, u)" by (cases item)
  then obtain p rest where p: "addWhen b (addExtension cb ty body) = Some p" "addAll (map (itemPart cb) items) = Some rest" "bs = p @ rest"
    using Cons.prems by (auto simp: itemPart_def split: option.splits)
  then show ?case using Cons.IH [OF p(2)]
    by (cases b) (auto simp: item rawsOf_def addWhen_def addExtension_eq encRaw_def fits_def)
qed (simp add: rawsOf_def)

lemma readRaw_back: "fits r \<Longrightarrow> readRawExtension cb (encRaw r @ rest) = Some (r, rest)"
  by (simp add: readRawExtension_def encRaw_def fits_def)

lemma readAll_raws: "list_all fits rs \<Longrightarrow> readAll (readRawExtension cb) (length (concat (map encRaw rs))) (concat (map encRaw rs)) = Some rs"
  by (rule readAll_back) (auto simp: readRaw_back list_all_iff)

text \<open>What the reconstruction makes of one extension of the encoded inner ClientHello.\<close>

lemma recon_raws:
  assumes "list_all fits rs" "length (concat (map encRaw rs)) \<le> fuel"
  shows "reconExtensions cb fuel raws (concat (map encRaw rs)) = addAll (map (\<lambda>r. if fst r = extensionECHOuterExtensions
      then do { (types, _) \<leftarrow> cb_ReadUint8LengthPrefixed cb (snd r); addOuterExtensions cb (length types) raws types }
      else Some (encRaw r)) rs)"
  using assms
proof (induction rs arbitrary: fuel)
  case (Cons r rs)
  obtain b s where bs: "encRaw r @ concat (map encRaw rs) = b # s" by (cases "encRaw r") auto
  then have "readRawExtension cb (b # s) = Some (r, concat (map encRaw rs))" using readRaw_back [of r "concat (map encRaw rs)"] Cons.prems(1) by simp
  moreover obtain k where "fuel = Suc k" "length (concat (map encRaw rs)) \<le> k"
    using Cons.prems(2) by (cases fuel; cases "encRaw r") auto
  moreover have "addExtension cb (fst r) (Some (snd r)) = Some (encRaw r)" using Cons.prems(1) by (simp add: addExtension_raw)
  ultimately show ?case using Cons bs by (cases r) (simp add: addAll_two addAll_Cons_bind del: addAll.simps(2))
qed simp

lemma addOuter_subseq:
  assumes "subseq cs raws" "distinct (map fst raws)" "list_all fits raws" "extensionEncryptedClientHello \<notin> fst ` set cs" "length (u16s (map fst cs)) \<le> fuel"
  shows "addOuterExtensions cb fuel raws (u16s (map fst cs)) = Some (concat (map encRaw cs))"
  using assms
proof (induction cs arbitrary: raws fuel)
  case (Cons c cs)
  obtain as bs where raws: "raws = as @ c # bs" "subseq cs bs" using Cons.prems(1) by (auto dest: list_emb_ConsD)
  have "dropWhile (\<lambda>r. fst r \<noteq> fst c) (as @ c # bs) = c # bs"
    using Cons.prems(2) by (subst dropWhile_append2) (auto simp: raws image_iff)
  moreover obtain k where k: "fuel = Suc k" "length (u16s (map fst cs)) \<le> k" using Cons.prems(5) by (cases fuel) (auto simp: u16s_def)
  moreover have "addOuterExtensions cb k (c # bs) (u16s (map fst cs)) = Some (concat (map encRaw cs))"
    using Cons.prems raws k by (intro Cons.IH) auto
  moreover have "addExtension cb (fst c) (Some (snd c)) = Some (encRaw c)" using Cons.prems(3) raws by (simp add: addExtension_raw)
  moreover obtain b s where "u16s (map fst (c # cs)) = b # s" "be16w (fst c) @ u16s (map fst cs) = b # s" by (auto simp: u16s_def be16w_def be16_def)
  moreover have "cb_ReadUint16 cb (be16w (fst c) @ u16s (map fst cs)) = Some (fst c, u16s (map fst cs))" by simp
  ultimately show ?case using Cons.prems(4) raws by simp
qed (simp add: u16s_def)

end

section \<open>The encoded inner ClientHello\<close>

text \<open>The extensions before, among and after those that are compressed.\<close>

abbreviation headItems :: "cryptobyte \<Rightarrow> clientHelloMsg \<Rightarrow> clientHelloMsg extItem list" where
  "headItems cb m \<equiv> take 9 (helloItems cb m)"

abbreviation sharedItems :: "cryptobyte \<Rightarrow> clientHelloMsg \<Rightarrow> clientHelloMsg extItem list" where
  "sharedItems cb m \<equiv> take 9 (drop 9 (helloItems cb m))"

abbreviation tailItems :: "cryptobyte \<Rightarrow> clientHelloMsg \<Rightarrow> clientHelloMsg extItem list" where
  "tailItems cb m \<equiv> drop 18 (helloItems cb m)"

text \<open>A ClientHello as the code prepares it for ECH.\<close>

definition innerReady :: "clientHelloMsg \<Rightarrow> bool" where
  "innerReady m \<longleftrightarrow> sendable m \<and> ch_encryptedClientHello m = [1] \<and> ch_supportedVersions m = [VersionTLS13] \<and> ch_supportedPoints m = [] \<and>
     \<not> ch_ticketSupported m \<and> \<not> ch_secureRenegotiationSupported m \<and> \<not> ch_extendedMasterSecret m"

lemma helloItems_split: "helloItems cb m = headItems cb m @ sharedItems cb m @ tailItems cb m"
  by (simp add: helloItems_def)

lemma filter_Cons_append: "filter P (x # xs) = (if P x then [x] else []) @ filter P xs"
  by simp

lemma compressible_types: "compressible m None = presentTypes (sharedItems cb m)"
  unfolding compressible_def helloItems_def
  by (simp add: filter_Cons_append Let_def if_distrib [where f = "map _"] del: filter.simps(2))

definition outerRef :: "cryptobyte \<Rightarrow> clientHelloMsg \<Rightarrow> (u16 \<times> bytes) list" where
  "outerRef cb m = (let cs = compressible m None in if cs = [] then [] else [(extensionECHOuterExtensions, word_of_nat (length (u16s cs)) # u16s cs)])"

context cryptobyte_reader
begin

lemma inner_parts:
  assumes "innerReady m" "addAll (helloExtensionParts cb m True None) = Some exts"
  shows "exts = concat (map encRaw (rawsOf (headItems cb m) @ outerRef cb m @ rawsOf (tailItems cb m))) \<and>
    list_all fits (rawsOf (headItems cb m) @ outerRef cb m @ rawsOf (tailItems cb m))"
proof -
  let ?cs = "compressible m None"
  let ?ref = "addWhen (?cs \<noteq> []) (addExtension cb extensionECHOuterExtensions (bytes8 cb (Some (u16s ?cs))))"
  have "helloExtensionParts cb m True None =
      map (itemPart cb) (headItems cb m) @ replicate 9 (Some []) @ [?ref] @ map (itemPart cb) (tailItems cb m)"
    using assms(1) by (simp add: innerReady_def helloExtensionParts_def helloItems_def itemPart_def emptyExtension addWhen_def [of False] numeral_eq_Suc)
  moreover have "addAll (replicate k (Some []) @ ys) = addAll ys" for k ys by (induction k; cases "addAll ys") simp_all
  ultimately obtain a b c where abc: "addAll (map (itemPart cb) (headItems cb m)) = Some a" "?ref = Some b"
      "addAll (map (itemPart cb) (tailItems cb m)) = Some c" "exts = a @ b @ c"
    using assms(2) by (auto simp: addAll_append split: option.splits)
  have "b = concat (map encRaw (outerRef cb m)) \<and> list_all fits (outerRef cb m)"
    using abc(2) by (auto simp: outerRef_def addWhen_def addExtension_eq bytes8_eq encRaw_def fits_def Let_def split: if_splits)
  then show ?thesis using items_raws [OF abc(1)] items_raws [OF abc(3)] abc(4) by simp
qed

text \<open>The bytes of a ClientHello, with or without its session and with its extensions.\<close>

lemma marshal_bytes:
  assumes "marshalMsgReorderOuterExts cb m b outerExts = Some h" "addAll (helloExtensionParts cb m b outerExts) = Some exts" "exts \<noteq> []"
  defines "sid \<equiv> if b then [] else ch_sessionId m"
  shows "\<exists>y. h = 1 # be24 (length y) @ y \<and> length (ch_random m) = 32 \<and> length sid < 256 \<and> length (u16s (ch_cipherSuites m)) < 65536 \<and>
    length (ch_compressionMethods m) < 256 \<and> length exts < 65536 \<and>
    y = be16w (ch_vers m) @ ch_random m @ word_of_nat (length sid) # sid @ be16 (length (u16s (ch_cipherSuites m))) @ u16s (ch_cipherSuites m) @
      word_of_nat (length (ch_compressionMethods m)) # ch_compressionMethods m @ be16 (length exts) @ exts"
  using assms(1-3)
  by (auto simp: sid_def marshalMsgReorderOuterExts_def message_eq addAll_Cons_Some bytes8_eq bytes16_eq addBytesWithLength_def addWhen_def
    simp del: addAll.simps(2) split: if_splits)

lemma read34: "length r = 32 \<Longrightarrow> cb_ReadBytes cb 34 (be16w v @ r @ rest) = Some (be16w v @ r, rest)"
  using ReadBytes_app [of 34 "be16w v @ r" rest] by simp

lemma skip38: "length r = 32 \<Longrightarrow> cb_Skip cb (4 + 2 + 32) (1 # be24 n @ be16w v @ r @ rest) = Some rest"
  by (simp add: Skip)

lemma skip_prefixed:
  "n = length x \<Longrightarrow> n < 256 \<Longrightarrow> skipUint8LengthPrefixed cb (word_of_nat n # x @ rest) = Some rest"
  "n = length x \<Longrightarrow> n < 65536 \<Longrightarrow> skipUint16LengthPrefixed cb (be16 n @ x @ rest) = Some rest"
  by (simp_all add: skipUint8LengthPrefixed_def skipUint16LengthPrefixed_def Skip unat_of_nat take_bit_nat_eq_self_iff)

lemma ech_present: "ch_encryptedClientHello m \<noteq> [] \<Longrightarrow> rawsOf (headItems cb m) \<noteq> [] \<and> rawsOf (helloItems cb m) \<noteq> []"
proof -
  assume "ch_encryptedClientHello m \<noteq> []"
  then have "\<exists>x \<in> set (headItems cb m). fst x" by (simp add: helloItems_def)
  then have "rawsOf (headItems cb m) \<noteq> []" by (auto simp: rawsOf_def filter_empty_conv split_beta)
  then show ?thesis using rawsOf_append [of "headItems cb m" "sharedItems cb m @ tailItems cb m"] by (simp flip: helloItems_split)
qed

lemma extractRaw_back:
  assumes "clientHello_marshal cb m = Some bs" "ch_original m = None" "ch_encryptedClientHello m \<noteq> []" "ch_original x = Some bs"
  shows "extractRawExtensions cb x = Some (rawsOf (helloItems cb m)) \<and> list_all fits (rawsOf (helloItems cb m))"
proof -
  have h: "marshalMsgReorderOuterExts cb m False None = Some bs" using assms by (simp add: clientHello_marshal_def marshalMsg_def)
  then obtain exts where exts: "addAll (helloExtensionParts cb m False None) = Some exts"
    by (auto simp: marshalMsgReorderOuterExts_def split: bind_splits)
  have raws: "exts = concat (map encRaw (rawsOf (helloItems cb m)))" "list_all fits (rawsOf (helloItems cb m))"
    using exts items_raws [of "helloItems cb m" exts] by (simp_all add: helloItems_parts)
  moreover have "exts \<noteq> []" using raws(1) ech_present [OF assms(3)] by (cases "rawsOf (helloItems cb m)") simp_all
  ultimately show ?thesis using marshal_bytes [OF h exts] assms(4)
    by (auto simp: extractRawExtensions_def skip38 [simplified] skip_prefixed readAll_raws)
qed

lemma shared_short: "length (u16s (compressible m None)) < 256"
  unfolding compressible_types [of m cb] by (rule le_less_trans [of _ "2 * 9"])
    (use length_filter_le [of "\<lambda>(b, ty, body, u). b" "sharedItems cb m"] in \<open>simp_all add: helloItems_def\<close>)

lemma allTypes: "set (presentTypes items) \<subseteq> set (map (\<lambda>(b, ty, body, u). ty) items)"
  by force

lemma recon_inner:
  assumes "innerReady m" "addAll (helloExtensionParts cb m True None) = Some exts" "addAll (helloExtensionParts cb m False None) = Some full"
    "subseq (rawsOf (sharedItems cb m)) raws" "distinct (map fst raws)" "list_all fits raws"
  shows "reconExtensions cb (length exts) raws exts = Some full"
proof -
  let ?hd = "rawsOf (headItems cb m)" and ?sh = "rawsOf (sharedItems cb m)" and ?tl = "rawsOf (tailItems cb m)"
  let ?f = "\<lambda>r. if fst r = extensionECHOuterExtensions
      then do { (types, _) \<leftarrow> cb_ReadUint8LengthPrefixed cb (snd r); addOuterExtensions cb (length types) raws types } else Some (encRaw r)"
  have plain: "addAll (map ?f rs) = Some (concat (map encRaw rs))" if "extensionECHOuterExtensions \<notin> fst ` set rs" for rs
    using that by (induction rs) auto
  have "extensionECHOuterExtensions \<notin> set (map (\<lambda>(b, ty, body, u). ty) (helloItems cb m))"
      "extensionEncryptedClientHello \<notin> set (map (\<lambda>(b, ty, body, u). ty) (sharedItems cb m))"
    by (simp_all add: helloItems_def)
  then have types: "extensionECHOuterExtensions \<notin> set (presentTypes (helloItems cb m))" "extensionEncryptedClientHello \<notin> set (presentTypes (sharedItems cb m))"
    using allTypes [of "helloItems cb m"] allTypes [of "sharedItems cb m"] by blast+
  have "fst ` set (rawsOf items) = set (presentTypes items)" for items :: "clientHelloMsg extItem list"
    using arg_cong [OF fst_rawsOf [of items], of set] by simp
  moreover have "set (presentTypes (helloItems cb m)) = set (presentTypes (headItems cb m)) \<union> set (presentTypes (sharedItems cb m)) \<union>
      set (presentTypes (tailItems cb m))" by (subst helloItems_split) (simp add: Un_assoc)
  ultimately have no: "extensionECHOuterExtensions \<notin> fst ` set ?hd" "extensionECHOuterExtensions \<notin> fst ` set ?tl"
      "extensionEncryptedClientHello \<notin> fst ` set ?sh"
    using types by simp_all
  have "addAll (map ?f (outerRef cb m)) = Some (concat (map encRaw ?sh))"
  proof (cases "compressible m None = []")
    case True
    then have "?sh = []" using fst_rawsOf [of "sharedItems cb m"] by (simp add: compressible_types [of m cb])
    then show ?thesis using True by (simp add: outerRef_def)
  next
    case False
    let ?t = "u16s (compressible m None)"
    have "cb_ReadUint8LengthPrefixed cb (word_of_nat (length ?t) # ?t) = Some (?t, [])"
      using ReadUint8_prefixed [OF shared_short, of m "[]"] by (simp only: append_Nil2)
    moreover have "addOuterExtensions cb (length ?t) raws ?t = Some (concat (map encRaw ?sh))"
      using addOuter_subseq [OF assms(4-6) no(3), of "length ?t"] by (simp only: compressible_types [of m cb] fst_rawsOf)
    ultimately show ?thesis using False by (simp add: outerRef_def Let_def del: length_u16s)
  qed
  then have "addAll (map ?f (?hd @ outerRef cb m @ ?tl)) = Some (concat (map encRaw (?hd @ ?sh @ ?tl)))"
    using no by (auto simp: addAll_append plain)
  moreover have "?hd @ ?sh @ ?tl = rawsOf (helloItems cb m)" by (simp flip: rawsOf_append helloItems_split)
  moreover have "full = concat (map encRaw (rawsOf (helloItems cb m)))"
    using assms(3) items_raws [of "helloItems cb m" full] by (simp add: helloItems_parts)
  ultimately show ?thesis using inner_parts [OF assms(1, 2)] recon_raws [of "?hd @ outerRef cb m @ ?tl" "length exts" raws] by simp
qed

lemma decode_back:
  assumes "innerReady m" "encodeInnerClientHello cb m n = Some e" "clientHello_marshal cb m = Some mb"
    "extractRawExtensions cb outer = Some raws" "subseq (rawsOf (sharedItems cb m)) raws" "distinct (map fst raws)" "list_all fits raws"
    "ch_sessionId outer = ch_sessionId m"
  shows "decodeInnerClientHello cb outer e = Some (m\<lparr>ch_original := Some mb, ch_extensions := presentTypes (helloItems cb m)\<rparr>)"
proof -
  have ready: "sendable m" "ch_original m = None" "ch_encryptedClientHello m = [1]" "ch_supportedVersions m = [VersionTLS13]"
    using assms(1) by (simp_all add: innerReady_def) (simp add: sendable_def)
  obtain h k where h: "marshalMsgReorderOuterExts cb m True None = Some h" "e = drop 4 h @ replicate k 0"
    using assms(2) by (auto simp: encodeInnerClientHello_def encodeInnerClientHelloReorderOuterExts_def padInner_def Let_def)
  then obtain exts where exts: "addAll (helloExtensionParts cb m True None) = Some exts"
    by (auto simp: marshalMsgReorderOuterExts_def split: bind_splits)
  have ne: "exts \<noteq> []" using inner_parts [OF assms(1) exts] ech_present [of m] ready(3) by (cases "rawsOf (headItems cb m)") simp_all
  obtain y where y: "h = 1 # be24 (length y) @ y" "length (ch_random m) = 32" "length (u16s (ch_cipherSuites m)) < 65536"
      "length (ch_compressionMethods m) < 256" "length exts < 65536"
      "y = be16w (ch_vers m) @ ch_random m @ 0 # be16 (length (u16s (ch_cipherSuites m))) @ u16s (ch_cipherSuites m) @
        word_of_nat (length (ch_compressionMethods m)) # ch_compressionMethods m @ be16 (length exts) @ exts"
    using marshal_bytes [OF h(1) exts ne] by auto
  have e: "e = y @ replicate k 0" using h(2) y(1) by (simp add: be24_def)
  have mb: "marshalMsgReorderOuterExts cb m False None = Some mb" using assms(3) ready(2) by (simp add: clientHello_marshal_def marshalMsg_def)
  then obtain full where full: "addAll (helloExtensionParts cb m False None) = Some full"
    by (auto simp: marshalMsgReorderOuterExts_def split: bind_splits)
  have fne: "full \<noteq> []" using full items_raws [of "helloItems cb m" full] ech_present [of m] ready(3)
    by (cases "rawsOf (helloItems cb m)") (simp_all add: helloItems_parts)
  have recon: "message cb 1 [Some (be16w (ch_vers m) @ ch_random m), bytes8 cb (Some (ch_sessionId outer)), bytes16 cb (Some (u16s (ch_cipherSuites m))),
      bytes8 cb (Some (ch_compressionMethods m)), bytes16 cb (reconExtensions cb (length exts) raws exts)] = Some mb"
    using mb full fne y(2) recon_inner [OF assms(1) exts full assms(5-7)] assms(8)
    by (simp add: marshalMsgReorderOuterExts_def message_def addBytesWithLength_def addWhen_def addAll_Cons_bind bind_assoc del: addAll.simps(2))
  have session: "cb_ReadUint8LengthPrefixed cb (0 # r) = Some ([], r)" for r using ReadUint8_prefixed [of "[]" r] by simp
  show ?thesis
    using recon assms(4) clientHello_back [OF ready(1) assms(3)] ready(3, 4) y(2-5)
    by (simp add: decodeInnerClientHello_def e y(6) read34 session list_ex_iff)
qed

section \<open>The outer ClientHello\<close>

lemma ech_parts:
  "helloExtensionParts cb (m\<lparr>ch_encryptedClientHello := x\<rparr>) False None = take 8 (helloExtensionParts cb m False None) @
     [addWhen (x \<noteq> []) (addExtension cb extensionEncryptedClientHello (Some x))] @ drop 9 (helloExtensionParts cb m False None)"
  by (simp add: helloExtensionParts_def compressible_def)

lemma marshal_at_ech:
  assumes "clientHello_marshal cb (m\<lparr>ch_encryptedClientHello := x\<rparr>) = Some bx" "clientHello_marshal cb (m\<lparr>ch_encryptedClientHello := y\<rparr>) = Some by"
    "length x = length y" "x \<noteq> []" "ch_original m = None"
  shows "\<exists>p q. 4 \<le> length p \<and> bx = p @ x @ q \<and> by = p @ y @ q"
proof -
  have m: "marshalMsgReorderOuterExts cb (m\<lparr>ch_encryptedClientHello := x\<rparr>) False None = Some bx"
      "marshalMsgReorderOuterExts cb (m\<lparr>ch_encryptedClientHello := y\<rparr>) False None = Some by"
    using assms(1, 2, 5) by (simp_all add: clientHello_marshal_def marshalMsg_def)
  obtain ex ey where e: "addAll (helloExtensionParts cb (m\<lparr>ch_encryptedClientHello := x\<rparr>) False None) = Some ex"
      "addAll (helloExtensionParts cb (m\<lparr>ch_encryptedClientHello := y\<rparr>) False None) = Some ey"
    using m by (auto simp: marshalMsgReorderOuterExts_def split: bind_splits)
  have y: "y \<noteq> []" using assms(3, 4) by auto
  obtain a c where ac: "ex = a @ (be16w extensionEncryptedClientHello @ be16 (length x) @ x) @ c"
      "ey = a @ (be16w extensionEncryptedClientHello @ be16 (length y) @ y) @ c"
    using e assms(4) y unfolding ech_parts by (auto simp: addAll_append addAll_Cons_Some addWhen_def addExtension_eq simp del: addAll.simps(2))
  then have l: "length ex = length ey" "ex \<noteq> []" "ey \<noteq> []" using assms(3) by simp_all
  define p where "p = be16w (ch_vers m) @ ch_random m @ word_of_nat (length (ch_sessionId m)) # ch_sessionId m @ be16 (length (u16s (ch_cipherSuites m))) @
    u16s (ch_cipherSuites m) @ word_of_nat (length (ch_compressionMethods m)) # ch_compressionMethods m @ be16 (length ey)"
  have "bx = 1 # be24 (length (p @ ex)) @ p @ ex" "by = 1 # be24 (length (p @ ey)) @ p @ ey"
    using marshal_bytes [OF m(1) e(1) l(2)] marshal_bytes [OF m(2) e(2) l(3)] l(1) by (auto simp: p_def)
  moreover define r where "r = 1 # be24 (length (p @ ey)) @ p @ a @ be16w extensionEncryptedClientHello @ be16 (length y)"
  ultimately have "bx = r @ x @ c" "by = r @ y @ c" "4 \<le> length r" using l(1) assms(3) by (simp_all add: ac)
  then show ?thesis by blast
qed

end

text \<open>The number of positions at which a list occurs in another.\<close>

fun occurs :: "bytes \<Rightarrow> bytes \<Rightarrow> nat" where
  "occurs x [] = (if x = [] then 1 else 0)"
| "occurs x (b # s) = (if prefix x (b # s) then Suc (occurs x s) else occurs x s)"

lemma occurs_at: "1 \<le> occurs x (p @ x @ q)"
proof (induction p)
  case Nil
  show ?case by (cases "x @ q") (auto simp del: prefix_Cons, metis prefixI)
qed simp

lemma take_prefix: "take (length x) s = x \<longleftrightarrow> prefix x s"
  by (metis append_eq_conv_conj prefix_def take_is_prefix)

lemma replaceFirst_once: "occurs x (p @ x @ q) = 1 \<Longrightarrow> replaceFirst x z (p @ x @ q) = p @ z @ q"
proof (induction p)
  case Nil
  then show ?case by (cases "x @ q") (auto simp: append_eq_Cons_conv)
next
  case (Cons b p)
  then have "\<not> prefix x (b # p @ x @ q)" using occurs_at [of x p q] by (auto split: if_splits)
  then show ?case using Cons by (simp add: take_prefix del: take_Cons prefix_Cons)
qed

section \<open>Acceptance\<close>

lemma Split_end: "Split c (s @ [c]) = Split c s @ [[]]"
  by (induction s) (auto split: list.splits)

lemma validDNSName_no_dot: "validDNSName name \<Longrightarrow> \<not> HasSuffix name ''.''"
  by (auto simp: HasSuffix_iff_suffix suffix_def validDNSName_def validLabel_def Split_end)

context cryptobyte_reader
begin

text \<open>A server with the context of the client opens the payload of the outer ClientHello to the encoded inner one.\<close>

lemma payload_back:
  assumes "usable (ecc_hpkeContext ech)" "seqVal (hx_seqNum (ecc_hpkeContext ech)) = 0" "ch_original outer0 = None"
    "computeAndUpdateOuterECHExtension cb outer0 inner ech useKey = Some (outer, ech')" "clientHello_marshal cb outer = Some bs"
  obtains e payload where "encodeInnerClientHello cb inner (unat (ec_MaxNameLength (ecc_config ech))) = Some e"
    "parseECHExt cb (ch_encryptedClientHello outer) = Inr (OuterExt \<lparr>ech_KDFID = ecc_kdfID ech, ech_AEADID = ecc_aeadID ech\<rparr> (ec_ConfigID (ecc_config ech))
       (if useKey then ecc_encapsulatedKey ech else []) payload)"
    "occurs payload (drop 4 bs) = 1 \<Longrightarrow> decryptECHPayload (ecc_hpkeContext ech) bs payload = Some (Inr (e, ecc_hpkeContext ech'))"
    "outer = outer0\<lparr>ch_encryptedClientHello := ch_encryptedClientHello outer\<rparr>" "ch_encryptedClientHello outer \<noteq> []"
proof -
  let ?gen = "generateOuterECHExt cb (ec_ConfigID (ecc_config ech)) (ecc_kdfID ech) (ecc_aeadID ech) (if useKey then ecc_encapsulatedKey ech else [])"
  obtain e ext0 bs0 c ctx ext where e: "encodeInnerClientHello cb inner (unat (ec_MaxNameLength (ecc_config ech))) = Some e"
      "?gen (replicate (length e + 16) 0) = Some ext0" "clientHello_marshal cb (outer0\<lparr>ch_encryptedClientHello := ext0\<rparr>) = Some bs0"
      "Seal (ecc_hpkeContext ech) (drop 4 bs0) e = Some (c, ctx)" "?gen c = Some ext" "outer = outer0\<lparr>ch_encryptedClientHello := ext\<rparr>"
      "ech' = ech\<lparr>ecc_hpkeContext := ctx\<rparr>"
    using assms(4) by (auto simp: computeAndUpdateOuterECHExtension_def Let_def split: bind_splits)
  have c: "length c = length e + 16" "Open (ecc_hpkeContext ech) (drop 4 bs0) c = Some (Inr (e, ctx))"
    using Seal_usable [OF assms(1), of "drop 4 bs0" e] assms(2) e(4) by (auto simp: messageLimit_def)
  obtain hdr where hdr: "ext0 = hdr @ replicate (length e + 16) 0" "ext = hdr @ c"
    using e(2, 5) c(1) by (auto simp: generateOuterECHExt_def AddUint16LengthPrefixed split: if_splits)
  obtain p q where pq: "4 \<le> length p" "bs0 = p @ ext0 @ q" "bs = p @ ext @ q"
    using marshal_at_ech [OF e(3), of ext bs] assms(3, 5) e(6) hdr c(1) by auto
  have d: "drop 4 bs = (drop 4 p @ hdr) @ c @ q" "drop 4 bs0 = (drop 4 p @ hdr) @ replicate (length c) 0 @ q"
    using pq hdr c(1) by simp_all
  show ?thesis
  proof (rule that [of e c])
    show "decryptECHPayload (ecc_hpkeContext ech) bs c = Some (Inr (e, ecc_hpkeContext ech'))" if "occurs c (drop 4 bs) = 1"
      using replaceFirst_once [OF that [unfolded d(1)], of "replicate (length c) 0"] c(2) e(7) d by (simp add: decryptECHPayload_def)
    show "ch_encryptedClientHello outer \<noteq> []" using e(6) hdr c(1) by auto
  qed (use e parseECHExt_back [OF e(5)] in auto)
qed

lemma shared_subseq: "subseq (rawsOf (sharedItems cb m)) (rawsOf (helloItems cb (m\<lparr>ch_serverName := n, ch_random := r, ch_encryptedClientHello := x\<rparr>)))"
proof -
  let ?o = "m\<lparr>ch_serverName := n, ch_random := r, ch_encryptedClientHello := x\<rparr>"
  have "sharedItems cb ?o = sharedItems cb m" by (simp add: helloItems_def)
  then have "rawsOf (helloItems cb ?o) = rawsOf (headItems cb ?o) @ rawsOf (sharedItems cb m) @ rawsOf (tailItems cb ?o)"
    by (subst helloItems_split) simp
  then show ?thesis by (simp add: list_emb_append2 list_emb_prefix)
qed

lemma distinct_types: "distinct (map fst (rawsOf (helloItems cb m)))"
  unfolding fst_rawsOf by (rule distinct_map_filter) (simp add: helloItems_def)

lemma startECH_ready:
  assumes "startECH cr cb eph configList hello0 = Some (Inr (hello, ech))"
  obtains echPK where "usableConfig (ecc_config ech)" "hc_NewPublicKey cr (ec_PublicKey (ecc_config ech)) = Inr echPK"
    "SetupSender cr eph DHKEM_X25519_HKDF_SHA256 (ecc_kdfID ech) (ecc_aeadID ech) echPK (echInfo (ec_raw (ecc_config ech))) =
       Inr (ecc_encapsulatedKey ech, ecc_hpkeContext ech)"
    "ch_encryptedClientHello hello = [1]" "ch_supportedPoints hello = []" "\<not> ch_ticketSupported hello" "\<not> ch_secureRenegotiationSupported hello"
    "\<not> ch_extendedMasterSecret hello"
proof -
  obtain config echConfigs echPK and suite :: echCipher where c: "pickECHConfig echConfigs = Some config" "ParseHPKEPublicKey cr (ec_KemID config) (ec_PublicKey config) = Inr echPK"
      "SetupSender cr eph (ec_KemID config) (ech_KDFID suite) (ech_AEADID suite) echPK (echInfo (ec_raw config)) = Inr (ecc_encapsulatedKey ech, ecc_hpkeContext ech)"
      "ecc_config ech = config" "ecc_kdfID ech = ech_KDFID suite" "ecc_aeadID ech = ech_AEADID suite"
      "hello = hello0\<lparr>ch_encryptedClientHello := [1], ch_supportedPoints := [], ch_ticketSupported := False,
         ch_secureRenegotiationSupported := False, ch_extendedMasterSecret := False\<rparr>"
    using assms by (auto simp: startECH_def split: option.splits sum.splits)
  have "usableConfig config" using c(1) by (auto simp: pickECHConfig_find find_Some_iff)
  then show ?thesis using c by (intro that [of echPK]) (auto simp: usableConfig_def SupportedKEMs_def ParseHPKEPublicKey_def)
qed

lemma ech_accepted_back:
  assumes "hpke_laws cr" "startECH cr cb (Inr eph) configList hello0 = Some (Inr (hello, ech))" "splitHello cb outerServerName outerRandom hello ech = Some (outer, ech')"
    and "ec_PublicKey (ecc_config ech) = hc_PublicKey cr priv" "sendable hello" "ch_supportedVersions hello = [VersionTLS13]"
      "\<not> HasSuffix outerServerName ''.''"
    and bytes: "clientHello_marshal cb outer = Some bs" "clientHello_marshal cb hello = Some innerBytes"
    and key: "parseECHConfig cb (ek_Config echKey) = Inr (Some (ecc_config ech))" "ek_Config echKey = ec_raw (ecc_config ech)"
      "hc_NewPrivateKey cr (ek_PrivateKey echKey) = Inr priv"
    and once: "\<And>suite configID encap payload. parseECHExt cb (ch_encryptedClientHello outer) = Inr (OuterExt suite configID encap payload) \<Longrightarrow>
      occurs payload (drop 4 bs) = 1"
  shows "\<exists>received ctx suite. clientHello_unmarshal cb bs = Some received \<and> ch_serverName received = outerName outerServerName (ecc_config ech) \<and>
    processECHClientHello cr cb (echKey # keys) received = Some (EchAccepted (hello\<lparr>ch_original := Some innerBytes,
      ch_extensions := presentTypes (helloItems cb hello)\<rparr>) ctx (ec_ConfigID (ecc_config ech)) suite)"
proof -
  obtain echPK where start: "usableConfig (ecc_config ech)" "hc_NewPublicKey cr (ec_PublicKey (ecc_config ech)) = Inr echPK"
      "SetupSender cr (Inr eph) DHKEM_X25519_HKDF_SHA256 (ecc_kdfID ech) (ecc_aeadID ech) echPK (echInfo (ec_raw (ecc_config ech))) =
         Inr (ecc_encapsulatedKey ech, ecc_hpkeContext ech)"
      and ready: "innerReady hello"
    using startECH_ready [OF assms(2)] assms(5, 6) by (metis innerReady_def)
  have pk: "echPK = hc_PublicKey cr priv" using start(2) assms(4) NewPublicKey [OF assms(1), of priv] by simp
  have recipient: "SetupReceipient cr DHKEM_X25519_HKDF_SHA256 (ecc_kdfID ech) (ecc_aeadID ech) priv (echInfo (ek_Config echKey)) (ecc_encapsulatedKey ech) =
      Inr (ecc_hpkeContext ech)"
    using setup_agree [OF assms(1)] start(3) pk key(2) by metis
  let ?outer0 = "hello\<lparr>ch_serverName := outerName outerServerName (ecc_config ech), ch_random := outerRandom\<rparr>"
  have "ch_original ?outer0 = None" using assms(5) by (simp add: sendable_def)
  then obtain e payload where p: "encodeInnerClientHello cb hello (unat (ec_MaxNameLength (ecc_config ech))) = Some e"
    "parseECHExt cb (ch_encryptedClientHello outer) = Inr (OuterExt \<lparr>ech_KDFID = ecc_kdfID ech, ech_AEADID = ecc_aeadID ech\<rparr> (ec_ConfigID (ecc_config ech))
       (ecc_encapsulatedKey ech) payload)"
    "occurs payload (drop 4 bs) = 1 \<Longrightarrow> decryptECHPayload (ecc_hpkeContext ech) bs payload = Some (Inr (e, ecc_hpkeContext ech'))"
    "outer = ?outer0\<lparr>ch_encryptedClientHello := ch_encryptedClientHello outer\<rparr>" "ch_encryptedClientHello outer \<noteq> []"
    using payload_back [OF _ _ _ assms(3) [unfolded splitHello_def] bytes(1)] sender_usable [OF assms(1) start(3)] by auto
  then obtain x where outer: "outer = hello\<lparr>ch_serverName := outerName outerServerName (ecc_config ech), ch_random := outerRandom, ch_encryptedClientHello := x\<rparr>"
    by auto
  have send: "sendable outer"
    using assms(5, 7) outer start(1) validDNSName_no_dot by (auto simp: sendable_def usableConfig_def outerName_def)
  let ?received = "outer\<lparr>ch_original := Some bs, ch_extensions := presentTypes (helloItems cb outer)\<rparr>"
  have "extractRawExtensions cb ?received = Some (rawsOf (helloItems cb outer))" "list_all fits (rawsOf (helloItems cb outer))"
    using extractRaw_back [OF bytes(1) _ p(5), of ?received] send by (simp_all add: sendable_def)
  then have "decodeInnerClientHello cb ?received e = Some (hello\<lparr>ch_original := Some innerBytes, ch_extensions := presentTypes (helloItems cb hello)\<rparr>)"
    using shared_subseq distinct_types outer by (intro decode_back [OF ready p(1) bytes(2)]) auto
  then show ?thesis
    using clientHello_back [OF send bytes(1)] p(2) p(3) [OF once [OF p(2)]] key recipient outer start(1)
    by (auto simp: processECHClientHello_def ParseHPKEPrivateKey_def usableConfig_def)
qed

end

text \<open>C5. Encrypted ClientHello from end to end: a server that holds the key of the configuration the client chose sees the public name
  in the ClientHello, decrypts the payload and rebuilds the inner ClientHello exactly, byte for byte, provided
  that the ciphertext does not occur a second time in the message.\<close>

theorem ech_accepted:
  assumes "cryptobyte_reader cb" "hpke_laws cr" "startECH cr cb (Inr eph) configList hello0 = Some (Inr (hello, ech))"
    "splitHello cb outerServerName outerRandom hello ech = Some (outer, ech')" "ec_PublicKey (ecc_config ech) = hc_PublicKey cr priv" "sendable hello"
    "ch_supportedVersions hello = [VersionTLS13]" "\<not> HasSuffix outerServerName ''.''" "clientHello_marshal cb outer = Some bs"
    "clientHello_marshal cb hello = Some innerBytes"
    "parseECHConfig cb (ek_Config echKey) = Inr (Some (ecc_config ech))" "ek_Config echKey = ec_raw (ecc_config ech)"
    "hc_NewPrivateKey cr (ek_PrivateKey echKey) = Inr priv"
    "\<And>suite configID encap payload. parseECHExt cb (ch_encryptedClientHello outer) = Inr (OuterExt suite configID encap payload) \<Longrightarrow>
       occurs payload (drop 4 bs) = 1"
  shows "\<exists>received ctx suite. clientHello_unmarshal cb bs = Some received \<and> ch_serverName received = outerName outerServerName (ecc_config ech) \<and>
    processECHClientHello cr cb (echKey # keys) received = Some (EchAccepted (hello\<lparr>ch_original := Some innerBytes,
      ch_extensions := presentTypes (helloItems cb hello)\<rparr>) ctx (ec_ConfigID (ecc_config ech)) suite)"
  using assms(2-) by (rule cryptobyte_reader.ech_accepted_back [OF assms(1)])

section \<open>An example\<close>

text \<open>A client that asks for \<open>a.example\<close> behind \<open>b.c\<close>, on the primitives of \<open>toyCrypto\<close>.\<close>

definition exInner :: clientHelloMsg where
  "exInner = emptyClientHello\<lparr>ch_vers := 0x303, ch_random := replicate 32 1, ch_cipherSuites := [0x1301], ch_compressionMethods := [0],
     ch_serverName := ''a.example'', ch_supportedVersions := [VersionTLS13], ch_supportedCurves := [29], ch_encryptedClientHello := [1]\<rparr>"

definition exConfig :: echConfig where
  "exConfig = publish ((exampleConfig 0xfe0d 7)\<lparr>ec_PublicKey := [12], ec_PublicName := strBytes ''b.c''\<rparr>)"

definition exContext :: hpkeContext where
  "exContext = \<lparr>hx_aead = toyAead (replicate 16 72), hx_sharedSecret = replicate 32 72, hx_suiteID = suiteID 0x20 1 1, hx_key = replicate 16 72,
     hx_baseNonce = replicate 12 72, hx_exporterSecret = replicate 32 72, hx_seqNum = \<lparr>hi = 0, lo = 0\<rparr>\<rparr>"

definition exEch :: echClientContext where
  "exEch = \<lparr>ecc_config = exConfig, ecc_hpkeContext = exContext, ecc_encapsulatedKey = [8], ecc_kdfID = 1, ecc_aeadID = 1\<rparr>"

definition exEncoded :: bytes where
  "exEncoded = [3, 3] @ replicate 32 1 @ [0, 0, 2, 19, 1, 1, 0, 0, 32, 0, 0, 0, 14, 0, 12, 0, 0, 9, 97, 46, 101, 120, 97, 109, 112, 108, 101,
     254, 13, 0, 1, 1, 253, 0, 0, 5, 4, 0, 10, 0, 43] @ replicate 30 0"

lemmas exConfig_defs = exConfig_def publish_def exampleConfig_def encConfig_def encContents_def encCipher_def Let_def

lemma exConfig_length: "length (encConfig exConfig) = 27"
  by (simp add: exConfig_defs)

lemma exConfig_published: "published exConfig"
  using exConfig_length by (simp add: published_def) (simp add: exConfig_defs)

lemma exConfig_fields: "ec_Version exConfig = 0xfe0d" "ec_KemID exConfig = 0x20" "ec_PublicKey exConfig = [12]" "ec_ConfigID exConfig = 7" "ec_MaxNameLength exConfig = 32"
    "ec_SymmetricCipherSuite exConfig = [\<lparr>ech_KDFID = 1, ech_AEADID = 1\<rparr>, \<lparr>ech_KDFID = 1, ech_AEADID = 3\<rparr>]" "ec_PublicName exConfig = strBytes ''b.c''"
    "ec_Extensions exConfig = []"
  by (simp_all add: exConfig_defs)

lemma exSender: "SetupSender toyCrypto (Inr [5]) 0x20 1 1 [12] info = Inr ([8], exContext)"
  by (simp add: SetupSender_def newDHKem_def SupportedKEMs_def Encap_def toyCrypto_def newContext_def SupportedKDFs_def aeadTable_def Let_def
    LabeledExpand_def ExtractAndExpand_def exContext_def)

lemma exStart: "startECH toyCrypto cryptobyteRef (Inr [5]) (be16 27 @ encConfig exConfig) exInner = Some (Inr (exInner, exEch))"
proof -
  have "parseECHConfigList cryptobyteRef (be16 27 @ encConfig exConfig) = Some (Inr [exConfig])"
    using ref.parseECHConfigList_back [of "[exConfig]"] exConfig_published exConfig_length by (simp add: exConfig_fields)
  moreover have "usableConfig exConfig"
    by (simp add: usableConfig_def exConfig_fields SupportedKEMs_def supportedSuite_def SupportedAEADs_def aeadTable_def SupportedKDFs_def
      validDNSName_def validLabel_def hostChar_def)
  moreover have "pickECHCipherSuite (ec_SymmetricCipherSuite exConfig) = Inr \<lparr>ech_KDFID = 1, ech_AEADID = 1\<rparr>"
    by (simp add: exConfig_fields supportedSuite_def SupportedAEADs_def aeadTable_def SupportedKDFs_def)
  moreover have "ParseHPKEPublicKey toyCrypto (ec_KemID exConfig) (ec_PublicKey exConfig) = Inr [12]"
    by (simp add: exConfig_fields ParseHPKEPublicKey_def SupportedKEMs_def) (simp add: toyCrypto_def)
  moreover have "exInner\<lparr>ch_encryptedClientHello := [1], ch_supportedPoints := [], ch_ticketSupported := False,
      ch_secureRenegotiationSupported := False, ch_extendedMasterSecret := False\<rparr> = exInner" by (simp add: exInner_def emptyClientHello_def)
  ultimately show ?thesis
    using exSender [of "echInfo (ec_raw exConfig)"] by (simp add: startECH_def exConfig_fields(2) exEch_def)
qed

lemma exEncode: "encodeInnerClientHello cryptobyteRef exInner 32 = Some exEncoded"
proof -
  have "addAll (helloExtensionParts cryptobyteRef exInner True None) = Some [0, 0, 0, 14, 0, 12, 0, 0, 9, 97, 46, 101, 120, 97, 109, 112, 108, 101,
     254, 13, 0, 1, 1, 253, 0, 0, 5, 4, 0, 10, 0, 43]"
    by (simp add: helloExtensionParts_def compressible_def exInner_def emptyClientHello_def addWhen_def addExtension_def ref.bytes16_Some ref.bytes8_Some
      be16w_def be16_def u16s_def strBytes_def)
  then show ?thesis
    by (simp add: encodeInnerClientHello_def encodeInnerClientHelloReorderOuterExts_def marshalMsgReorderOuterExts_def message_def ref.bytes8_Some
      ref.bytes16_Some ref.bytes24_Some addBytesWithLength_def addWhen_def exInner_def emptyClientHello_def padInner_def Let_def be16w_def be16_def be24_def
      u16s_def exEncoded_def)
qed

definition exOuter :: "bytes \<Rightarrow> clientHelloMsg" where
  "exOuter x = exInner\<lparr>ch_serverName := ''b.c'', ch_random := replicate 32 2, ch_encryptedClientHello := x\<rparr>"

definition exPrefix :: bytes where
  "exPrefix = [3, 3] @ replicate 32 2 @ [0, 0, 2, 19, 1, 1, 0, 0, 163, 0, 0, 0, 8, 0, 6, 0, 0, 3, 98, 46, 99, 254, 13, 0, 132]"

definition exSuffix :: bytes where
  "exSuffix = [0, 10, 0, 4, 0, 2, 0, 29, 0, 43, 0, 3, 2, 3, 4]"

lemma exMarshal:
  assumes "length x = 132"
  shows "clientHello_marshal cryptobyteRef (exOuter x) = Some ([1, 0, 0, 206] @ exPrefix @ x @ exSuffix)"
proof -
  have "addAll (helloExtensionParts cryptobyteRef (exOuter x) False None) =
      Some ([0, 0, 0, 8, 0, 6, 0, 0, 3, 98, 46, 99, 254, 13, 0, 132] @ x @ exSuffix)"
    using assms by (auto simp: helloExtensionParts_def exOuter_def exInner_def emptyClientHello_def addWhen_def addExtension_def ref.bytes16_Some ref.bytes8_Some
      be16w_def be16_def u16s_def strBytes_def exSuffix_def)
  then show ?thesis
    using assms
    by (simp add: clientHello_marshal_def marshalMsg_def marshalMsgReorderOuterExts_def message_def ref.bytes8_Some
      ref.bytes16_Some ref.bytes24_Some addBytesWithLength_def addWhen_def exOuter_def exInner_def emptyClientHello_def be16w_def be16_def be24_def
      u16s_def exPrefix_def exSuffix_def)
qed

lemma exSeal: "\<exists>ctx. Seal exContext aad p = Some (map ((+) 144) p @ toyTag aad, ctx)"
proof -
  have "usable exContext" "seqVal (hx_seqNum exContext) = 0" using sender_usable [OF toyCrypto_laws exSender] by auto
  moreover from this(2) have "seqVal (hx_seqNum exContext) < messageLimit" by (simp add: messageLimit_def)
  ultimately obtain c ctx where c: "Seal exContext aad p = Some (c, ctx)" using Seal_usable [of exContext aad p] by metis
  moreover have "nextNonce exContext = Some (replicate 12 72)"
    using sender_usable [OF toyCrypto_laws exSender] by (simp add: nextNonce_usable) (simp add: exContext_def uint128_bytes_def addUint64_def be32w_def numeral_eq_Suc)
  ultimately have "c = map ((+) 144) p @ toyTag aad" by (auto simp: Seal_def exContext_def toyAead_def split: bind_splits)
  then show ?thesis using c by blast
qed

lemma occurs_unique:
  assumes "a \<notin> set pre" "a \<notin> set r" "a \<notin> set post"
  shows "occurs (a # a # r) (pre @ (a # a # r) @ post) = 1"
proof -
  have none: "occurs (a # a # r) s = 0" if "a \<notin> set s" for s using that by (induction s) auto
  have "\<not> prefix (a # r) (r @ post)" using assms set_mono_prefix [of "a # r" "r @ post"] by auto
  then have "occurs (a # a # r) (a # r @ post) = 0" using assms none [of "r @ post"] by simp
  then have "occurs (a # a # r) ((a # a # r) @ post) = 1" by simp
  then show ?thesis using assms(1) by (induction pre) auto
qed

definition exHeader :: bytes where
  "exHeader = [0, 0, 1, 0, 1, 7, 0, 1, 8, 0, 121]"

definition exCipher :: bytes where
  "exCipher = map ((+) 144) exEncoded @ [3, 3] @ replicate 14 2"

lemma exGenerate: "length p = 121 \<Longrightarrow> generateOuterECHExt cryptobyteRef 7 1 1 [8] p = Some (exHeader @ p)"
  by (simp add: generateOuterECHExt_def exHeader_def ref.AddUint16LengthPrefixed be16w_def be16_def)

lemma exSplit: "\<exists>ech'. splitHello cryptobyteRef '''' (replicate 32 2) exInner exEch = Some (exOuter (exHeader @ exCipher), ech')"
proof -
  have l: "length exEncoded = 105" "length exCipher = 121" by (simp_all add: exEncoded_def exCipher_def)
  have "toyTag (exPrefix @ x) = [3, 3] @ replicate 14 2" for x by (simp add: toyTag_def exPrefix_def numeral_eq_Suc)
  then obtain ctx where "Seal exContext (exPrefix @ exHeader @ replicate 121 0 @ exSuffix) exEncoded = Some (exCipher, ctx)"
    using exSeal [of "exPrefix @ exHeader @ replicate 121 0 @ exSuffix" exEncoded] by (auto simp: exCipher_def)
  moreover have "exInner\<lparr>ch_serverName := outerName '''' exConfig, ch_random := replicate 32 2, ch_encryptedClientHello := x\<rparr> = exOuter x" for x
    by (simp add: exOuter_def exConfig_fields outerName_def)
  moreover have "clientHello_marshal cryptobyteRef (exOuter (exHeader @ replicate 121 0)) = Some ([1, 0, 0, 206] @ exPrefix @ exHeader @ replicate 121 0 @ exSuffix)"
    using exMarshal [of "exHeader @ replicate 121 0"] by (simp add: exHeader_def)
  ultimately show ?thesis
    using exGenerate [of "replicate 121 0"] exGenerate [of exCipher] l
    by (simp add: splitHello_def computeAndUpdateOuterECHExtension_def exEch_def exConfig_fields exEncode)
qed

theorem ech_accepted_witness:
  "\<exists>received ctx suite innerBytes. clientHello_unmarshal cryptobyteRef ([1, 0, 0, 206] @ exPrefix @ exHeader @ exCipher @ exSuffix) = Some received \<and>
     ch_serverName received = ''b.c'' \<and>
     processECHClientHello toyCrypto cryptobyteRef [\<lparr>ek_Config = encConfig exConfig, ek_PrivateKey = [9], ek_SendAsRetry = False\<rparr>] received =
       Some (EchAccepted (exInner\<lparr>ch_original := Some innerBytes, ch_extensions := presentTypes (helloItems cryptobyteRef exInner)\<rparr>) ctx 7 suite)"
proof -
  obtain ech' where split: "splitHello cryptobyteRef '''' (replicate 32 2) exInner exEch = Some (exOuter (exHeader @ exCipher), ech')" using exSplit by blast
  have cl: "length exCipher = 121" by (simp add: exCipher_def exEncoded_def)
  then have bs: "clientHello_marshal cryptobyteRef (exOuter (exHeader @ exCipher)) = Some ([1, 0, 0, 206] @ exPrefix @ exHeader @ exCipher @ exSuffix)"
    using exMarshal [of "exHeader @ exCipher"] by (simp add: exHeader_def)
  have raw: "ec_raw exConfig = encConfig exConfig" using exConfig_published by (simp add: published_def)
  have config: "parseECHConfig cryptobyteRef (encConfig exConfig) = Inr (Some exConfig)"
    using ref.parseECHConfig_back [OF exConfig_published, of "[]"] by (simp add: exConfig_fields)
  have fields: "ecc_config exEch = exConfig" "hc_NewPrivateKey toyCrypto x = Inr x" "hc_PublicKey toyCrypto [9] = [12]" for x
    by (simp_all add: exEch_def toyCrypto_def)
  have ready: "sendable exInner" "ch_supportedVersions exInner = [VersionTLS13]"
    by (simp_all add: exInner_def emptyClientHello_def sendable_def HasSuffix_def)
  obtain innerBytes where inner: "clientHello_marshal cryptobyteRef exInner = Some innerBytes"
    by (simp add: clientHello_marshal_def marshalMsg_def marshalMsgReorderOuterExts_def message_def helloExtensionParts_def addExtension_def ref.bytes8_Some
      ref.bytes16_Some ref.bytes24_Some addBytesWithLength_def addWhen_def exInner_def emptyClientHello_def)
  have "exCipher = 147 # 147 # drop 2 exCipher" by (simp add: exCipher_def exEncoded_def)
  moreover have "147 \<notin> set (exPrefix @ exHeader)" "147 \<notin> set (drop 2 exCipher)" "147 \<notin> set exSuffix"
    by (simp_all add: exPrefix_def exHeader_def exCipher_def exEncoded_def exSuffix_def)
  ultimately have "occurs exCipher ((exPrefix @ exHeader) @ exCipher @ exSuffix) = 1" using occurs_unique by metis
  moreover have "payload = exCipher" if "parseECHExt cryptobyteRef (ch_encryptedClientHello (exOuter (exHeader @ exCipher))) = Inr (OuterExt suite configID encap payload)"
    for suite configID encap payload
    using that ref.parseECHExt_back [OF exGenerate [OF cl]] by (simp add: exOuter_def)
  ultimately have once: "occurs payload (drop 4 ([1, 0, 0, 206] @ exPrefix @ exHeader @ exCipher @ exSuffix)) = 1"
    if "parseECHExt cryptobyteRef (ch_encryptedClientHello (exOuter (exHeader @ exCipher))) = Inr (OuterExt suite configID encap payload)"
    for suite configID encap payload
    using that by fastforce
  show ?thesis
    using ech_accepted [OF ref.cryptobyte_reader_axioms toyCrypto_laws exStart split _ ready _ bs inner,
        of "[9]" "\<lparr>ek_Config = encConfig exConfig, ek_PrivateKey = [9], ek_SendAsRetry = False\<rparr>" "[]"] once config raw fields
    by (auto simp: exConfig_fields outerName_def HasSuffix_def)
qed

end
