(* ===== verification/Utls_Record.thy ===== *)
theory Utls_Record
  imports Utls_Hpke
begin

text \<open>
  The record layer of the TLS library, \<open>src/utls/conn.go\<close> and the nonces of \<open>src/utls/cipher_suites.go\<close>: one direction of a connection with its
  cipher, MAC and sequence number, sealing and opening of records, and the loops of a connection that write and read them.
  Ciphers and MACs of the standard library are values with the functions the code calls. An outcome \<open>None\<close> is a panic,
  an alert is its number.
\<close>

section \<open>Ciphers\<close>

text \<open>A wrapped AEAD: a nonce with a fixed first part, or one that a mask is combined with.\<close>

datatype recAead = PrefixNonce bytes aead nat | XorNonce bytes aead nat

fun aeadOverhead :: "recAead \<Rightarrow> nat" where
  "aeadOverhead (PrefixNonce p a n) = n"
| "aeadOverhead (XorNonce nm a n) = n"

fun aeadExplicitNonceLen :: "recAead \<Rightarrow> nat" where
  "aeadExplicitNonceLen (PrefixNonce p a n) = 8"
| "aeadExplicitNonceLen (XorNonce nm a n) = 0"

fun fullNonce :: "recAead \<Rightarrow> bytes \<Rightarrow> bytes" where
  "fullNonce (PrefixNonce p a n) nonce = p @ nonce"
| "fullNonce (XorNonce nm a n) nonce = take 4 nm @ map2 (XOR) (drop 4 nm) nonce"

fun aeadPrim :: "recAead \<Rightarrow> aead" where
  "aeadPrim (PrefixNonce p a n) = a"
| "aeadPrim (XorNonce nm a n) = a"

definition aeadSeal :: "recAead \<Rightarrow> bytes \<Rightarrow> bytes \<Rightarrow> bytes \<Rightarrow> bytes" where
  "aeadSeal c nonce plaintext ad = ae_Seal (aeadPrim c) (fullNonce c nonce) plaintext ad"

definition aeadOpen :: "recAead \<Rightarrow> bytes \<Rightarrow> bytes \<Rightarrow> bytes \<Rightarrow> string + bytes" where
  "aeadOpen c nonce ciphertext ad = ae_Open (aeadPrim c) (fullNonce c nonce) ciphertext ad"

text \<open>A block cipher in CBC mode with the vector it continues from.\<close>

record cbcMode =
  cm_BlockSize :: nat
  cm_IV :: bytes
  cm_Crypt :: "bytes \<Rightarrow> bytes \<Rightarrow> bytes"
  cm_Next :: "bytes \<Rightarrow> bytes \<Rightarrow> bytes"

text \<open>A stream cipher is its key stream and the position in it. Stream ciphers and CBC come with a MAC, AEADs without.\<close>

datatype recCipher = StreamCipher "nat \<Rightarrow> byte" nat | AeadCipher recAead | CbcCipher cbcMode

fun XORKeyStream :: "(nat \<Rightarrow> byte) \<Rightarrow> nat \<Rightarrow> bytes \<Rightarrow> bytes" where
  "XORKeyStream ks i [] = []"
| "XORKeyStream ks i (b # bs) = (b XOR ks i) # XORKeyStream ks (Suc i) bs"

record recMac =
  mc_Size :: nat
  mc_Sum :: "bytes \<Rightarrow> bytes"

definition tls10MAC :: "recMac \<Rightarrow> bytes \<Rightarrow> bytes \<Rightarrow> bytes \<Rightarrow> bytes" where
  "tls10MAC h seqn header data = mc_Sum h (seqn @ header @ data)"

section \<open>One direction\<close>

record halfConn =
  hc_version :: u16
  hc_cipher :: "recCipher option"
  hc_mac :: "recMac option"
  hc_seq :: bytes
  hc_nextCipher :: "recCipher option"
  hc_nextMac :: "recMac option"
  hc_trafficSecret :: bytes

definition newHalfConn :: halfConn where
  "newHalfConn = \<lparr>hc_version = 0, hc_cipher = None, hc_mac = None, hc_seq = replicate 8 0, hc_nextCipher = None, hc_nextMac = None,
     hc_trafficSecret = []\<rparr>"

definition prepareCipherSpec :: "u16 \<Rightarrow> recCipher \<Rightarrow> recMac option \<Rightarrow> halfConn \<Rightarrow> halfConn" where
  "prepareCipherSpec version cipher mac hc = hc\<lparr>hc_version := version, hc_nextCipher := Some cipher, hc_nextMac := mac\<rparr>"

definition changeCipherSpec :: "halfConn \<Rightarrow> byte + halfConn" where
  "changeCipherSpec hc =
     (if hc_nextCipher hc = None \<or> hc_version hc = VersionTLS13 then Inl 80
      else Inr (hc\<lparr>hc_cipher := hc_nextCipher hc, hc_mac := hc_nextMac hc, hc_nextCipher := None, hc_nextMac := None, hc_seq := replicate 8 0\<rparr>))"

text \<open>The keys of a TLS 1.3 secret are a parameter.\<close>

definition setTrafficSecret :: "(bytes \<Rightarrow> recAead) \<Rightarrow> bytes \<Rightarrow> halfConn \<Rightarrow> halfConn" where
  "setTrafficSecret keys secret hc = hc\<lparr>hc_trafficSecret := secret, hc_cipher := Some (AeadCipher (keys secret)), hc_seq := replicate 8 0\<rparr>"

text \<open>The loop of \<open>incSeq\<close> from the last byte to the first.\<close>

fun incBytes :: "bytes \<Rightarrow> bytes option" where
  "incBytes [] = None"
| "incBytes (b # bs) = (if b + 1 \<noteq> 0 then Some ((b + 1) # bs) else map_option ((#) 0) (incBytes bs))"

definition incSeq :: "halfConn \<Rightarrow> halfConn option" where
  "incSeq hc = map_option (\<lambda>s. hc\<lparr>hc_seq := rev s\<rparr>) (incBytes (rev (hc_seq hc)))"

definition explicitNonceLen :: "halfConn \<Rightarrow> nat" where
  "explicitNonceLen hc =
     (case hc_cipher hc of
        None \<Rightarrow> 0
      | Some (StreamCipher ks i) \<Rightarrow> 0
      | Some (AeadCipher c) \<Rightarrow> aeadExplicitNonceLen c
      | Some (CbcCipher c) \<Rightarrow> if 0x302 \<le> hc_version hc then cm_BlockSize c else 0)"

section \<open>Padding\<close>

text \<open>\<open>byte(int32(^t) >> 31)\<close>: all ones if bit 31 of \<open>t\<close> is clear.\<close>

definition signMask :: "64 word \<Rightarrow> byte" where
  "signMask t = (if bit t 31 then 0 else 255)"

text \<open>The constant-time loop over the last bytes, the most recent first.\<close>

fun padLoop :: "byte \<Rightarrow> nat \<Rightarrow> bytes \<Rightarrow> byte \<Rightarrow> byte" where
  "padLoop paddingLen i [] good = good"
| "padLoop paddingLen i (b # bs) good =
     (let m = signMask (ucast paddingLen - word_of_nat i) in
      padLoop paddingLen (Suc i) bs (good AND NOT ((m AND paddingLen) XOR (m AND b))))"

definition collapse :: "byte \<Rightarrow> byte" where
  "collapse good =
     (let good1 = good AND push_bit 4 good; good2 = good1 AND push_bit 2 good1; good3 = good2 AND push_bit 1 good2 in
      signed_drop_bit 7 good3)"

definition extractPadding :: "bytes \<Rightarrow> nat \<times> byte" where
  "extractPadding payload =
     (if payload = [] then (0, 0)
      else let paddingLen = last payload;
               good0 = signMask (word_of_nat (length payload - 1) - ucast paddingLen);
               good = collapse (padLoop paddingLen 0 (take 256 (rev payload)) good0)
           in (unat (paddingLen AND good) + 1, good))"

definition roundUp :: "nat \<Rightarrow> nat \<Rightarrow> nat" where
  "roundUp a b = a + (b - a mod b) mod b"

section \<open>Opening a record\<close>

abbreviation recordTypeChangeCipherSpec :: byte where "recordTypeChangeCipherSpec \<equiv> 20"
abbreviation recordTypeAlert :: byte where "recordTypeAlert \<equiv> 21"
abbreviation recordTypeHandshake :: byte where "recordTypeHandshake \<equiv> 22"
abbreviation recordTypeApplicationData :: byte where "recordTypeApplicationData \<equiv> 23"
abbreviation alertUnexpectedMessage :: byte where "alertUnexpectedMessage \<equiv> 10"
abbreviation alertBadRecordMAC :: byte where "alertBadRecordMAC \<equiv> 20"
abbreviation alertRecordOverflow :: byte where "alertRecordOverflow \<equiv> 22"
abbreviation maxPlaintext :: nat where "maxPlaintext \<equiv> 16384"

text \<open>The content of a TLS 1.3 record: zeros are stripped from the end and the byte before them is the type. An empty
  plaintext keeps the type of the record.\<close>

definition innerContent :: "byte \<Rightarrow> bytes \<Rightarrow> byte + bytes \<times> byte" where
  "innerContent typ plaintext =
     (if typ \<noteq> recordTypeApplicationData then Inl alertUnexpectedMessage
      else if maxPlaintext + 1 < length plaintext then Inl alertRecordOverflow
      else if plaintext = [] then Inr ([], typ)
      else case dropWhile ((=) 0) (rev plaintext) of
             [] \<Rightarrow> Inl alertUnexpectedMessage
           | t # r \<Rightarrow> Inr (rev r, t))"

text \<open>Undoing the cipher: the payload for the MAC, the plaintext, the length of the padding and whether it is good, and the cipher
  afterwards.\<close>

definition decryptBody :: "halfConn \<Rightarrow> bytes \<Rightarrow> bytes \<Rightarrow> byte + bytes \<times> bytes \<times> nat \<times> byte \<times> recCipher option" where
  "decryptBody hc record payload =
     (let nl = explicitNonceLen hc in
      case hc_cipher hc of
        None \<Rightarrow> Inr (payload, payload, 0, 255, None)
      | Some (StreamCipher ks i) \<Rightarrow> Inr (XORKeyStream ks i payload, [], 0, 255, Some (StreamCipher ks (i + length payload)))
      | Some (AeadCipher c) \<Rightarrow>
          if length payload < nl then Inl alertBadRecordMAC
          else let nonce = (if nl = 0 then hc_seq hc else take nl payload);
                   payload1 = drop nl payload;
                   ad = (if hc_version hc = VersionTLS13 then take 5 record
                         else hc_seq hc @ take 3 record @ be16w (word_of_nat (length payload1) - word_of_nat (aeadOverhead c)))
               in (case aeadOpen c nonce payload1 ad of
                     Inl e \<Rightarrow> Inl alertBadRecordMAC
                   | Inr plaintext \<Rightarrow> Inr (payload1, plaintext, 0, 255, Some (AeadCipher c)))
      | Some (CbcCipher c) \<Rightarrow>
          let bs = cm_BlockSize c; ms = (case hc_mac hc of None \<Rightarrow> 0 | Some m \<Rightarrow> mc_Size m) in
          if length payload mod bs \<noteq> 0 \<or> length payload < nl + roundUp (ms + 1) bs then Inl alertBadRecordMAC
          else let iv = (if nl = 0 then cm_IV c else take nl payload);
                   payload1 = drop nl payload;
                   payload2 = cm_Crypt c iv payload1;
                   (paddingLen, paddingGood) = extractPadding payload2
               in Inr (payload2, [], paddingLen, paddingGood, Some (CbcCipher (c\<lparr>cm_IV := cm_Next c iv payload1\<rparr>))))"

text \<open>Checking the MAC. A negative length counts as zero. After an error the connection is never used again, so the state it leaves
  is dropped.\<close>

definition checkMac :: "halfConn \<Rightarrow> bytes \<Rightarrow> bytes \<Rightarrow> bytes \<Rightarrow> nat \<Rightarrow> byte \<Rightarrow> byte + bytes" where
  "checkMac hc record payload plaintext paddingLen paddingGood =
     (case hc_mac hc of
        None \<Rightarrow> Inr plaintext
      | Some mac \<Rightarrow>
          let macSize = mc_Size mac in
          if length payload < macSize then Inl alertBadRecordMAC
          else let n = length payload - macSize - paddingLen;
                   remoteMAC = take macSize (drop n payload);
                   localMAC = tls10MAC mac (hc_seq hc) (take 3 record @ be16 n) (take n payload)
               in if localMAC = remoteMAC \<and> bit paddingGood 0 then Inr (take n payload) else Inl alertBadRecordMAC)"

definition decrypt :: "halfConn \<Rightarrow> bytes \<Rightarrow> (byte + bytes \<times> byte \<times> halfConn) option" where
  "decrypt hc record =
     (let typ = hd record; payload = drop 5 record in
      if hc_version hc = VersionTLS13 \<and> typ = recordTypeChangeCipherSpec then Some (Inr (payload, typ, hc))
      else case decryptBody hc record payload of
        Inl a \<Rightarrow> Some (Inl a)
      | Inr (payload1, plaintext, paddingLen, paddingGood, cipher) \<Rightarrow>
          (case if hc_version hc = VersionTLS13 \<and> hc_cipher hc \<noteq> None then innerContent typ plaintext else Inr (plaintext, typ) of
             Inl a \<Rightarrow> Some (Inl a)
           | Inr (plaintext1, typ1) \<Rightarrow>
               (case checkMac hc record payload1 plaintext1 paddingLen paddingGood of
                  Inl a \<Rightarrow> Some (Inl a)
                | Inr plaintext2 \<Rightarrow> map_option (\<lambda>hc'. Inr (plaintext2, typ1, hc')) (incSeq (hc\<lparr>hc_cipher := cipher\<rparr>)))))"

section \<open>Sealing a record\<close>

text \<open>\<open>random\<close> is what the source of randomness gives: so many bytes, or nothing.\<close>

definition encryptBody :: "halfConn \<Rightarrow> (nat \<Rightarrow> bytes option) \<Rightarrow> bytes \<Rightarrow> bytes \<Rightarrow> (bytes \<times> bytes \<times> recCipher) option" where
  "encryptBody hc random record payload =
     (let nl = explicitNonceLen hc in
      case hc_cipher hc of
        None \<Rightarrow> None
      | Some (StreamCipher ks i) \<Rightarrow>
          (let mac = (case hc_mac hc of None \<Rightarrow> [] | Some m \<Rightarrow> tls10MAC m (hc_seq hc) record payload) in
           Some (record, XORKeyStream ks i (payload @ mac), StreamCipher ks (i + length (payload @ mac))))
      | Some (AeadCipher c) \<Rightarrow>
          (let explicitNonce = (if nl = 0 then [] else take nl (hc_seq hc)); nonce = (if explicitNonce = [] then hc_seq hc else explicitNonce) in
           if hc_version hc = VersionTLS13
           then let record1 = [recordTypeApplicationData] @ take 2 (drop 1 record) @ be16 (length payload + 1 + aeadOverhead c) in
                Some (record1, aeadSeal c nonce (explicitNonce @ payload @ [hd record]) record1, AeadCipher c)
           else Some (record, explicitNonce @ aeadSeal c nonce payload (hc_seq hc @ record), AeadCipher c))
      | Some (CbcCipher c) \<Rightarrow>
          do {
            explicitNonce \<leftarrow> (if nl = 0 then Some [] else random nl);
            let mac = (case hc_mac hc of None \<Rightarrow> [] | Some m \<Rightarrow> tls10MAC m (hc_seq hc) record payload);
            let plaintextLen = length payload + length mac;
            let paddingLen = cm_BlockSize c - plaintextLen mod cm_BlockSize c;
            let dst = payload @ mac @ replicate paddingLen (word_of_nat (paddingLen - 1));
            let iv = (if explicitNonce = [] then cm_IV c else explicitNonce);
            Some (record, explicitNonce @ cm_Crypt c iv dst, CbcCipher (c\<lparr>cm_IV := cm_Next c iv dst\<rparr>))
          })"

datatype 'a outcome = Panic | Failed | Ok 'a

text \<open>\<open>encrypt\<close> on the header of a record and its payload. The only error is missing randomness.\<close>

definition encrypt :: "halfConn \<Rightarrow> (nat \<Rightarrow> bytes option) \<Rightarrow> bytes \<Rightarrow> bytes \<Rightarrow> (bytes \<times> halfConn) outcome" where
  "encrypt hc random record payload =
     (if hc_cipher hc = None then Ok (record @ payload, hc)
      else case encryptBody hc random record payload of
        None \<Rightarrow> Failed
      | Some (record1, body, cipher) \<Rightarrow>
          (case incSeq (hc\<lparr>hc_cipher := Some cipher\<rparr>) of
             None \<Rightarrow> Panic
           | Some hc' \<Rightarrow> Ok (take 3 record1 @ be16 (length body) @ body, hc')))"

section \<open>Connections\<close>

text \<open>Errors of a connection: an alert this side sent, the end of the stream, an error of the network, an alert of the peer, a bad
  record header, too many ignored records, missing randomness, and the other messages of the code.\<close>

datatype connErr =
  LocalAlert byte | EndOfFile | UnexpectedEOF | NetErr string | RemoteAlert byte | HeaderErr string | TooManyIgnored | NoRandomness | OtherErr string

text \<open>How the stream of the peer ends: closed, or with an error that is temporary or not.\<close>

datatype netEnd = NetClosed | NetFailed string bool

text \<open>What a ticket of TLS 1.3 adds to the stored session.\<close>

record ticketSession =
  ts_secret :: bytes
  ts_useBy :: int
  ts_ageAdd :: "32 word"
  ts_ticket :: bytes

text \<open>\<open>cn_rawInput\<close> holds all bytes that will arrive, \<open>cn_wire\<close> what was written to the network, \<open>cn_sessionPuts\<close> the sessions that were put into the
  cache, and \<open>cn_closed\<close> whether the connection below is closed. A connection over QUIC has no record layer and is left out.\<close>

record conn =
  cn_vers :: u16
  cn_haveVers :: bool
  cn_handshakeComplete :: bool
  cn_retryCount :: nat
  cn_hand :: bytes
  cn_input :: bytes
  cn_rawInput :: bytes
  cn_netEnd :: netEnd
  cn_in :: halfConn
  cn_inErr :: "connErr option"
  cn_out :: halfConn
  cn_outErr :: "connErr option"
  cn_wire :: bytes
  cn_bytesSent :: nat
  cn_packetsSent :: nat
  cn_buffering :: bool
  cn_sendBuf :: bytes
  cn_dynamicDisabled :: bool
  cn_closeNotifySent :: bool
  cn_closeNotifyErr :: "connErr option"
  cn_handshakes :: nat
  cn_sessionPuts :: "(string \<times> ticketSession) list"
  cn_closed :: bool

text \<open>The environment: randomness, what a write to the network takes, and whether the start of the bytes still to come has already
  arrived.\<close>

record connEnv =
  ce_random :: "nat \<Rightarrow> bytes option"
  ce_write :: "bytes \<Rightarrow> nat \<times> connErr option"
  ce_arrived :: "bytes \<Rightarrow> bool"

abbreviation VersionTLS10 :: u16 where "VersionTLS10 \<equiv> 0x301"

definition setErrorIn :: "connErr \<Rightarrow> conn \<Rightarrow> conn" where
  "setErrorIn e c = c\<lparr>cn_inErr := Some e\<rparr>"

subsection \<open>Writing\<close>

definition maxPayloadSizeForWrite :: "byte \<Rightarrow> conn \<Rightarrow> int \<times> conn" where
  "maxPayloadSizeForWrite typ c =
     (if cn_dynamicDisabled c \<or> typ \<noteq> recordTypeApplicationData then (int maxPlaintext, c)
      else if 128 * 1024 \<le> cn_bytesSent c then (int maxPlaintext, c)
      else
        let macSize = (case hc_mac (cn_out c) of None \<Rightarrow> 0 | Some m \<Rightarrow> int (mc_Size m));
            bytes0 = 1208 - 5 - int (explicitNonceLen (cn_out c));
            bytes1 = (case hc_cipher (cn_out c) of
                None \<Rightarrow> bytes0
              | Some (StreamCipher ks i) \<Rightarrow> bytes0 - macSize
              | Some (AeadCipher a) \<Rightarrow> bytes0 - int (aeadOverhead a)
              | Some (CbcCipher b) \<Rightarrow> (bytes0 AND NOT (int (cm_BlockSize b) - 1)) - 1 - macSize);
            payloadBytes = (if cn_vers c = VersionTLS13 then bytes1 - 1 else bytes1);
            pkt = cn_packetsSent c;
            c' = c\<lparr>cn_packetsSent := pkt + 1\<rparr>
        in if 1000 < pkt then (int maxPlaintext, c') else (min (payloadBytes * int (pkt + 1)) (int maxPlaintext), c'))"

definition connWriteRaw :: "connEnv \<Rightarrow> bytes \<Rightarrow> conn \<Rightarrow> connErr option \<times> conn" where
  "connWriteRaw env data c =
     (if cn_buffering c then (None, c\<lparr>cn_sendBuf := cn_sendBuf c @ data\<rparr>)
      else let (n, err) = ce_write env data in (err, c\<lparr>cn_wire := cn_wire c @ take n data, cn_bytesSent := cn_bytesSent c + n\<rparr>))"

definition flush :: "connEnv \<Rightarrow> conn \<Rightarrow> connErr option \<times> conn" where
  "flush env c =
     (if cn_sendBuf c = [] then (None, c)
      else let (n, err) = ce_write env (cn_sendBuf c) in
           (err, c\<lparr>cn_wire := cn_wire c @ take n (cn_sendBuf c), cn_bytesSent := cn_bytesSent c + n, cn_sendBuf := [], cn_buffering := False\<rparr>))"

definition recordVersion :: "u16 \<Rightarrow> u16" where
  "recordVersion vers = (if vers = 0 then VersionTLS10 else if vers = VersionTLS13 then 0x303 else vers)"

text \<open>One record of a write; \<open>m\<close> is the size of its payload.\<close>

definition writeOne :: "connEnv \<Rightarrow> byte \<Rightarrow> bytes \<Rightarrow> conn \<Rightarrow> (connErr option \<times> conn) option" where
  "writeOne env typ payload c =
     (case encrypt (cn_out c) (ce_random env) ([typ] @ be16w (recordVersion (cn_vers c)) @ be16 (length payload)) payload of
        Panic \<Rightarrow> None
      | Failed \<Rightarrow> Some (Some NoRandomness, c)
      | Ok (outBuf, hc) \<Rightarrow> Some (connWriteRaw env outBuf (c\<lparr>cn_out := hc\<rparr>)))"

text \<open>The loop of \<open>writeRecordLocked\<close>. Every round takes at least one byte, so fuel of the length of the data is enough; \<open>None\<close>
  is a panic, or a loop that never ends because no payload fits a record.\<close>

fun writeLoop :: "connEnv \<Rightarrow> byte \<Rightarrow> nat \<Rightarrow> nat \<Rightarrow> bytes \<Rightarrow> conn \<Rightarrow> (nat \<times> connErr option \<times> conn) option" where
  "writeLoop env typ fuel n [] c = Some (n, None, c)"
| "writeLoop env typ 0 n (b # data) c = None"
| "writeLoop env typ (Suc fuel) n (b # data) c =
     (let (maxPayload, c1) = maxPayloadSizeForWrite typ c; m = min (length (b # data)) (nat maxPayload) in
      if maxPayload \<le> 0 then None
      else case writeOne env typ (take m (b # data)) c1 of
        None \<Rightarrow> None
      | Some (Some e, c2) \<Rightarrow> Some (n, Some e, c2)
      | Some (None, c2) \<Rightarrow> writeLoop env typ fuel (n + m) (drop m (b # data)) c2)"

definition setErrorOut :: "connErr \<Rightarrow> conn \<Rightarrow> conn" where
  "setErrorOut e c = c\<lparr>cn_outErr := Some e\<rparr>"

text \<open>An alert is a record of two bytes, written without a change of ciphers.\<close>

definition sendAlert :: "connEnv \<Rightarrow> byte \<Rightarrow> conn \<Rightarrow> (connErr option \<times> conn) option" where
  "sendAlert env a c =
     (let level = (if a = 100 \<or> a = 0 then 1 else 2) in
      case writeLoop env recordTypeAlert 2 0 [level, a] c of
        None \<Rightarrow> None
      | Some (n, err, c') \<Rightarrow> if a = 0 then Some (err, c') else Some (Some (LocalAlert a), setErrorOut (LocalAlert a) c'))"

definition writeRecordLocked :: "connEnv \<Rightarrow> byte \<Rightarrow> bytes \<Rightarrow> conn \<Rightarrow> (nat \<times> connErr option \<times> conn) option" where
  "writeRecordLocked env typ data c =
     (case writeLoop env typ (length data) 0 data c of
        None \<Rightarrow> None
      | Some (n, Some e, c') \<Rightarrow> Some (n, Some e, c')
      | Some (n, None, c') \<Rightarrow>
          if typ = recordTypeChangeCipherSpec \<and> cn_vers c' \<noteq> VersionTLS13
          then case changeCipherSpec (cn_out c') of
                 Inl a \<Rightarrow> map_option (\<lambda>(err, c''). (n, err, c'')) (sendAlert env a c')
               | Inr hc \<Rightarrow> Some (n, None, c'\<lparr>cn_out := hc\<rparr>)
          else Some (n, None, c'))"

definition writeChangeCipherRecord :: "connEnv \<Rightarrow> conn \<Rightarrow> (connErr option \<times> conn) option" where
  "writeChangeCipherRecord env c = map_option (\<lambda>(n, err, c'). (err, c')) (writeRecordLocked env recordTypeChangeCipherSpec [1] c)"

text \<open>\<open>Write\<close> after the handshake. In TLS 1.0 the first byte goes alone when a block cipher is used.\<close>

definition connWriteData :: "connEnv \<Rightarrow> bytes \<Rightarrow> conn \<Rightarrow> (nat \<times> connErr option \<times> conn) option" where
  "connWriteData env b c =
     (if cn_outErr c \<noteq> None then Some (0, cn_outErr c, c)
      else if \<not> cn_handshakeComplete c then Some (0, Some (LocalAlert 80), c)
      else if cn_closeNotifySent c then Some (0, Some (OtherErr ''tls: protocol is shutdown''), c)
      else let whole = (\<lambda>m data c. map_option (\<lambda>(n, err, c'). (n + m, err, c'\<lparr>cn_outErr := err\<rparr>)) (writeRecordLocked env recordTypeApplicationData data c)) in
        if 1 < length b \<and> cn_vers c = VersionTLS10 \<and> (case hc_cipher (cn_out c) of Some (CbcCipher x) \<Rightarrow> True | _ \<Rightarrow> False)
        then case writeRecordLocked env recordTypeApplicationData (take 1 b) c of
               None \<Rightarrow> None
             | Some (n, Some e, c') \<Rightarrow> Some (n, Some e, setErrorOut e c')
             | Some (n, None, c') \<Rightarrow> whole 1 (drop 1 b) c'
        else whole 0 b c)"

text \<open>\<open>closeNotify\<close>: one alert, whose outcome is remembered.\<close>

definition closeNotify :: "connEnv \<Rightarrow> conn \<Rightarrow> (connErr option \<times> conn) option" where
  "closeNotify env c =
     (if cn_closeNotifySent c then Some (cn_closeNotifyErr c, c)
      else map_option (\<lambda>(err, c'). (err, c'\<lparr>cn_closeNotifyErr := err, cn_closeNotifySent := True\<rparr>)) (sendAlert env 0 c))"

subsection \<open>Reading\<close>

abbreviation maxUselessRecords :: nat where "maxUselessRecords \<equiv> 32"

text \<open>The result of one record: an error, a record to ignore, or progress.\<close>

datatype recStep = StepErr connErr conn | StepRetry conn | StepOk conn

text \<open>\<open>c.in.setErrorLocked(c.sendAlert(a))\<close>.\<close>

definition alertStep :: "connEnv \<Rightarrow> byte \<Rightarrow> conn \<Rightarrow> recStep option" where
  "alertStep env a c =
     map_option (\<lambda>(err, c'). StepErr (case err of None \<Rightarrow> EndOfFile | Some e \<Rightarrow> e) (c'\<lparr>cn_inErr := err\<rparr>)) (sendAlert env a c)"

definition headerStep :: "connEnv \<Rightarrow> byte option \<Rightarrow> string \<Rightarrow> conn \<Rightarrow> recStep option" where
  "headerStep env a msg c =
     (case a of
        None \<Rightarrow> Some (StepErr (HeaderErr msg) (setErrorIn (HeaderErr msg) c))
      | Some x \<Rightarrow> map_option (\<lambda>(err, c'). StepErr (HeaderErr msg) (setErrorIn (HeaderErr msg) c')) (sendAlert env x c))"

definition readFailed :: "bool \<Rightarrow> conn \<Rightarrow> recStep" where
  "readFailed header c =
     (case cn_netEnd c of
        NetClosed \<Rightarrow> let e = (if header \<and> cn_rawInput c = [] then EndOfFile else UnexpectedEOF) in StepErr e (setErrorIn e c)
      | NetFailed e temporary \<Rightarrow> StepErr (NetErr e) (if temporary then c else setErrorIn (NetErr e) c))"

text \<open>What a record with decrypted content does.\<close>

definition contentStep :: "connEnv \<Rightarrow> bool \<Rightarrow> byte \<Rightarrow> bytes \<Rightarrow> conn \<Rightarrow> recStep option" where
  "contentStep env expectCCS typ data c =
     (if typ = recordTypeAlert then
        if length data \<noteq> 2 then alertStep env alertUnexpectedMessage c
        else if data ! 1 = 0 then Some (StepErr EndOfFile (setErrorIn EndOfFile c))
        else if cn_vers c = VersionTLS13 then Some (StepErr (RemoteAlert (data ! 1)) (setErrorIn (RemoteAlert (data ! 1)) c))
        else if data ! 0 = 1 then Some (StepRetry c)
        else if data ! 0 = 2 then Some (StepErr (RemoteAlert (data ! 1)) (setErrorIn (RemoteAlert (data ! 1)) c))
        else alertStep env alertUnexpectedMessage c
      else if typ = recordTypeChangeCipherSpec then
        if data \<noteq> [1] then alertStep env 50 c
        else if cn_hand c \<noteq> [] then alertStep env alertUnexpectedMessage c
        else if cn_vers c = VersionTLS13 \<and> \<not> cn_handshakeComplete c then Some (StepRetry c)
        else if \<not> expectCCS then alertStep env alertUnexpectedMessage c
        else (case changeCipherSpec (cn_in c) of Inl a \<Rightarrow> alertStep env a c | Inr hc \<Rightarrow> Some (StepOk (c\<lparr>cn_in := hc\<rparr>)))
      else if typ = recordTypeApplicationData then
        if \<not> cn_handshakeComplete c \<or> expectCCS then alertStep env alertUnexpectedMessage c
        else if data = [] then Some (StepRetry c)
        else Some (StepOk (c\<lparr>cn_input := data\<rparr>))
      else if typ = recordTypeHandshake then
        if data = [] \<or> expectCCS then alertStep env alertUnexpectedMessage c else Some (StepOk (c\<lparr>cn_hand := cn_hand c @ data\<rparr>))
      else alertStep env alertUnexpectedMessage c)"

text \<open>A whole record is there: it is decrypted, and its content handled.\<close>

definition recordBody :: "connEnv \<Rightarrow> bool \<Rightarrow> bytes \<Rightarrow> conn \<Rightarrow> recStep option" where
  "recordBody env expectCCS record c =
     (case decrypt (cn_in c) record of
        None \<Rightarrow> None
      | Some (Inl a) \<Rightarrow> alertStep env a c
      | Some (Inr (data, typ, hc)) \<Rightarrow>
          let c1 = c\<lparr>cn_in := hc\<rparr> in
          if maxPlaintext < length data then alertStep env alertRecordOverflow c1
          else if hc_cipher hc = None \<and> typ = recordTypeApplicationData then alertStep env alertUnexpectedMessage c1
          else let c2 = (if typ \<noteq> recordTypeAlert \<and> typ \<noteq> recordTypeChangeCipherSpec \<and> data \<noteq> [] then c1\<lparr>cn_retryCount := 0\<rparr> else c1) in
               if cn_vers c = VersionTLS13 \<and> typ \<noteq> recordTypeHandshake \<and> cn_hand c \<noteq> [] then alertStep env alertUnexpectedMessage c2
               else contentStep env expectCCS typ data c2)"

definition recordStep :: "connEnv \<Rightarrow> bool \<Rightarrow> conn \<Rightarrow> recStep option" where
  "recordStep env expectCCS c =
     (case cn_inErr c of Some e \<Rightarrow> Some (StepErr e c) | None \<Rightarrow>
      if cn_input c \<noteq> [] then let e = OtherErr ''tls: internal error: attempted to read record with pending application data'' in Some (StepErr e (setErrorIn e c))
      else if length (cn_rawInput c) < 5 then Some (readFailed True c)
      else
        let raw = cn_rawInput c; typ = raw ! 0; vers = val16 (raw ! 1) (raw ! 2); n = unat (val16 (raw ! 3) (raw ! 4));
            expectedVers = (if cn_vers c = VersionTLS13 then 0x303 else cn_vers c) in
        if \<not> cn_handshakeComplete c \<and> typ = 0x80 then headerStep env (Some 70) ''unsupported SSLv2 handshake received'' c
        else if cn_haveVers c \<and> vers \<noteq> expectedVers then headerStep env (Some 70) ''received record with version'' c
        else if \<not> cn_haveVers c \<and> (typ \<noteq> recordTypeAlert \<and> typ \<noteq> recordTypeHandshake \<or> 0x1000 \<le> vers)
        then headerStep env None ''first record does not look like a TLS handshake'' c
        else if cn_vers c = VersionTLS13 \<and> 16384 + 256 < n \<or> 16384 + 2048 < n then headerStep env (Some alertRecordOverflow) ''oversized record received'' c
        else if length raw < 5 + n then Some (readFailed False c)
        else recordBody env expectCCS (take (5 + n) raw) (c\<lparr>cn_rawInput := drop (5 + n) raw\<rparr>))"

text \<open>\<open>readRecordOrCCS\<close> with \<open>retryReadRecord\<close>: the error, if there is one, and the connection. An ignored record takes at least five bytes, so
  fuel of the length of the input is enough.\<close>

fun readRecords :: "connEnv \<Rightarrow> bool \<Rightarrow> nat \<Rightarrow> conn \<Rightarrow> (connErr option \<times> conn) option" where
  "readRecords env expectCCS 0 c = None"
| "readRecords env expectCCS (Suc fuel) c =
     (case recordStep env expectCCS c of
        None \<Rightarrow> None
      | Some (StepErr e c') \<Rightarrow> Some (Some e, c')
      | Some (StepOk c') \<Rightarrow> Some (None, c')
      | Some (StepRetry c') \<Rightarrow>
          let c1 = c'\<lparr>cn_retryCount := cn_retryCount c' + 1\<rparr> in
          if maxUselessRecords < cn_retryCount c1
          then map_option (\<lambda>(err, c2). (Some TooManyIgnored, setErrorIn TooManyIgnored c2)) (sendAlert env alertUnexpectedMessage c1)
          else readRecords env expectCCS fuel c1)"

definition readRecordOrCCS :: "connEnv \<Rightarrow> bool \<Rightarrow> conn \<Rightarrow> (connErr option \<times> conn) option" where
  "readRecordOrCCS env expectCCS c = readRecords env expectCCS (Suc (length (cn_rawInput c))) c"

text \<open>\<open>readHandshakeBytes\<close>: records until enough of the handshake is there. Each round takes a record.\<close>

fun readHandshakeBytes :: "connEnv \<Rightarrow> nat \<Rightarrow> nat \<Rightarrow> conn \<Rightarrow> (connErr option \<times> conn) option" where
  "readHandshakeBytes env fuel n c =
     (if n \<le> length (cn_hand c) then Some (None, c)
      else case fuel of
        0 \<Rightarrow> None
      | Suc k \<Rightarrow> (case readRecordOrCCS env False c of
            None \<Rightarrow> None
          | Some (Some e, c') \<Rightarrow> Some (Some e, c')
          | Some (None, c') \<Rightarrow> readHandshakeBytes env k n c'))"

declare readHandshakeBytes.simps [simp del]

end
