(* ===== verification/Utls_Record_Correct.thy ===== *)
theory Utls_Record_Correct
  imports Utls_Record Utls_Hpke_Correct
begin

text \<open>
  The record layer: the constant-time padding check is the plain one, the sequence number counts and never wraps, a record opens to
  what was sealed whatever the cipher is, a write of any length arrives complete and in order, and every record that is read
  does exactly one thing.
\<close>

section \<open>Sequence numbers\<close>

fun leVal :: "bytes \<Rightarrow> nat" where
  "leVal [] = 0"
| "leVal (b # bs) = unat b + 256 * leVal bs"

definition seqNo :: "halfConn \<Rightarrow> nat" where
  "seqNo hc = leVal (rev (hc_seq hc))"

lemma leVal_less: "leVal bs < 256 ^ length bs"
proof (induction bs)
  case (Cons b bs)
  have "unat b < 256" using unsigned_less [of b, where ?'a = nat] by simp
  moreover have "256 + leVal bs * 256 \<le> 256 ^ length bs * 256" using Cons mult_right_mono [of "Suc (leVal bs)" "256 ^ length bs" 256] by simp
  ultimately show ?case by (simp only: leVal.simps length_Cons power_Suc)
qed simp

lemma leVal_inj: "length xs = length ys \<Longrightarrow> leVal xs = leVal ys \<Longrightarrow> xs = ys"
proof (induction xs ys rule: list_induct2)
  case (Cons x xs y ys)
  have b: "unat x < 256" "unat y < 256" using unsigned_less [of x, where ?'a = nat] unsigned_less [of y, where ?'a = nat] by simp_all
  have e: "unat x + 256 * leVal xs = unat y + 256 * leVal ys" using Cons.prems by simp
  have "unat x = unat y" "leVal xs = leVal ys"
    using arg_cong [OF e, of "\<lambda>n. n mod 256"] arg_cong [OF e, of "\<lambda>n. n div 256"] b by simp_all
  then show ?case using Cons.IH by (simp add: word_unat_eq_iff)
qed simp

lemma byte_wrap: "(b :: byte) + 1 = 0 \<longleftrightarrow> unat b = 255"
  by (simp add: word_unat_eq_iff [of b] unsigned_minus_1_eq_mask mask_eq_exp_minus_1 flip: eq_neg_iff_add_eq_0)

lemma incBytes_val:
  "case incBytes bs of None \<Rightarrow> leVal bs + 1 = 256 ^ length bs | Some bs' \<Rightarrow> length bs' = length bs \<and> leVal bs' = leVal bs + 1"
proof (induction bs)
  case (Cons b bs)
  show ?case
  proof (cases "b + 1 = 0")
    case True
    then show ?thesis using Cons by (auto simp: byte_wrap split: option.splits)
  next
    case False
    then have "unat (b + 1) = unat b + 1" by (simp add: unatSuc add.commute)
    then show ?thesis using False by simp
  qed
qed simp

lemma incSeq_val:
  assumes "length (hc_seq hc) = 8"
  shows "incSeq hc = None \<longleftrightarrow> seqNo hc = 2 ^ 64 - 1"
    and "incSeq hc = Some hc' \<Longrightarrow> seqNo hc' = seqNo hc + 1 \<and> length (hc_seq hc') = 8 \<and> hc' = hc\<lparr>hc_seq := hc_seq hc'\<rparr>"
  using incBytes_val [of "rev (hc_seq hc)"] leVal_less [of "rev (hc_seq hc)"] leVal_less [of "the (incBytes (rev (hc_seq hc)))"] assms
  by (auto simp: incSeq_def seqNo_def split: option.splits)

section \<open>Padding\<close>

lemma byte_bound: "unat (b :: byte) \<le> 255"
proof -
  have "unat b < 2 ^ LENGTH(8)" by (rule unsigned_less)
  moreover have "(2 :: nat) ^ LENGTH(8) = Suc 255" by simp
  ultimately show ?thesis by linarith
qed

lemma bit_small: "n < 2 ^ k \<Longrightarrow> \<not> bit (n :: nat) k"
  by (simp add: bit_iff_odd)

lemma signMask_diff:
  assumes "a < 2 ^ 31" "b \<le> 2 ^ 31"
  shows "signMask (word_of_nat a - word_of_nat b) = (if b \<le> a then 255 else 0)"
proof (cases "b \<le> a")
  case True
  then have "(word_of_nat a - word_of_nat b :: 64 word) = word_of_nat (a - b)" by (simp add: of_nat_diff)
  then show ?thesis using True assms bit_small [of "a - b" 31] by (simp add: signMask_def bit_of_nat_iff del: of_nat_diff)
next
  case False
  then have "(word_of_nat a - word_of_nat b :: 64 word) = NOT (word_of_nat (b - a - 1))"
    by (simp add: not_eq_complement of_nat_diff)
  then show ?thesis using False assms bit_small [of "b - a - 1" 31] by (simp add: signMask_def bit_not_iff bit_of_nat_iff del: of_nat_diff)
qed

lemma full_byte: "(255 :: byte) = - 1"
  by simp

lemma and_not_full: "good AND NOT x = 255 \<longleftrightarrow> good = 255 \<and> x = (0 :: byte)"
proof -
  have "NOT x = - 1 \<longleftrightarrow> x = 0" by (metis bit.compl_zero bit.double_compl)
  then show ?thesis unfolding full_byte by (simp only: and_eq_minus_1_iff)
qed

lemma full_bits: "(\<forall>k < 8. bit g k) \<longleftrightarrow> g = (255 :: byte)"
proof -
  have "g = - 1 \<longleftrightarrow> (\<forall>k < 8. bit g k)" by (auto simp: bit_eq_iff [of g "- 1"] simp del: full_byte)
  then show ?thesis unfolding full_byte by blast
qed

lemma signed_shift: "signed_drop_bit 7 (w :: byte) = (if bit w 7 then - 1 else 0)"
proof (rule bit_word_eqI)
  fix n assume "n < LENGTH(8)"
  then show "bit (signed_drop_bit 7 w) n = bit (if bit w 7 then - 1 else 0 :: byte) n" by (cases "n = 0") (auto simp: bit_signed_drop_bit_iff)
qed

lemma bit_and_shift: "bit (w AND push_bit k w) n \<longleftrightarrow> bit w n \<and> k \<le> n \<and> n < 8 \<and> bit (w :: byte) (n - k)"
  by (auto simp: bit_and_iff bit_push_bit_iff)

lemma collapse_full: "collapse g = (if g = 255 then 255 else 0)"
proof -
  have "(\<forall>k < 8. bit g k) \<longleftrightarrow> bit g 7 \<and> bit g 6 \<and> bit g 5 \<and> bit g 4 \<and> bit g 3 \<and> bit g 2 \<and> bit g 1 \<and> bit g 0"
    by (simp add: All_less_Suc numeral_eq_Suc)
  then have "collapse g = (if \<forall>k < 8. bit g k then - 1 else 0)"
    by (simp only: collapse_def Let_def signed_shift bit_and_shift) simp
  then show ?thesis by (simp only: full_bits full_byte [symmetric])
qed

lemma xor_zero_iff: "p XOR b = 0 \<longleftrightarrow> b = (p :: byte)"
  by (metis xor_right_cancel xor_self_eq)

lemma padLoop_full:
  assumes "i + length bs \<le> 256"
  shows "padLoop p i bs good = 255 \<longleftrightarrow> good = 255 \<and> (\<forall>j < length bs. i + j \<le> unat p \<longrightarrow> bs ! j = p)"
  using assms
proof (induction bs arbitrary: i good)
  case (Cons b bs)
  let ?m = "signMask (ucast p - word_of_nat i)"
  have "unat p < 2 ^ 31" by (rule less_le_trans [OF unsigned_less]) simp
  moreover have "(ucast p :: 64 word) = word_of_nat (unat p)" by simp
  ultimately have m: "?m = (if i \<le> unat p then 255 else 0)" using signMask_diff [of "unat p" i] Cons.prems by simp
  have "(?m AND p) XOR (?m AND b) = 0 \<longleftrightarrow> (i \<le> unat p \<longrightarrow> b = p)"
    unfolding m full_byte by (cases "i \<le> unat p") (auto simp: xor_zero_iff)
  moreover have "(\<forall>j < length (b # bs). i + j \<le> unat p \<longrightarrow> (b # bs) ! j = p) \<longleftrightarrow>
      (i \<le> unat p \<longrightarrow> b = p) \<and> (\<forall>j < length bs. Suc i + j \<le> unat p \<longrightarrow> bs ! j = p)"
    by (auto simp: less_Suc_eq_0_disj nth_Cons' all_conj_distrib)
  ultimately show ?case using Cons.IH [of "Suc i"] Cons.prems by (simp add: Let_def and_not_full)
qed simp

text \<open>Valid padding: the last byte tells how many bytes before it are equal to it.\<close>

definition validPadding :: "bytes \<Rightarrow> bool" where
  "validPadding payload \<longleftrightarrow> payload \<noteq> [] \<and> unat (last payload) < length payload \<and>
     (\<forall>b \<in> set (drop (length payload - unat (last payload) - 1) payload). b = last payload)"

lemma extractPadding_ref:
  assumes "length payload < 2 ^ 31"
  shows "extractPadding payload =
    (if payload = [] then (0, 0) else if validPadding payload then (unat (last payload) + 1, 255) else (1, 0))"
proof (cases "payload = []")
  case False
  let ?p = "last payload" and ?n = "length payload"
  have "(ucast ?p :: 64 word) = word_of_nat (unat ?p)" by simp
  then have g: "signMask (word_of_nat (?n - 1) - ucast ?p) = (if unat ?p \<le> ?n - 1 then 255 else 0)"
    using signMask_diff [of "?n - 1" "unat ?p"] assms byte_bound [of ?p] by simp
  have valid: "validPadding payload \<longleftrightarrow> unat ?p \<le> ?n - 1 \<and> (\<forall>j < min 256 ?n. j \<le> unat ?p \<longrightarrow> rev payload ! j = ?p)"
  proof (cases "unat ?p < ?n")
    case True
    have "drop (?n - unat ?p - 1) payload = rev (take (Suc (unat ?p)) (rev payload))" by (simp add: take_rev)
    then have "(\<forall>b \<in> set (drop (?n - unat ?p - 1) payload). b = ?p) \<longleftrightarrow> (\<forall>j < Suc (unat ?p). rev payload ! j = ?p)"
      using True by (simp only: set_rev) (simp add: all_set_conv_all_nth min_absorb2 Suc_leI)
    moreover have "j < min 256 ?n \<and> j \<le> unat ?p \<longleftrightarrow> j < Suc (unat ?p)" for j using True byte_bound [of ?p] by linarith
    ultimately show ?thesis using True by (auto simp: validPadding_def)
  next
    case 2: False
    then have "\<not> unat ?p \<le> ?n - 1" using False by (cases payload) auto
    then show ?thesis using 2 by (simp add: validPadding_def)
  qed
  let ?l = "padLoop ?p 0 (take 256 (rev payload)) (signMask (word_of_nat (?n - 1) - ucast ?p))"
  have "?l = 255 \<longleftrightarrow> validPadding payload"
    using padLoop_full [of 0 "take 256 (rev payload)" ?p "signMask (word_of_nat (?n - 1) - ucast ?p)"] False
    unfolding valid g by (auto simp: min_def)
  then show ?thesis using False by (simp add: extractPadding_def Let_def collapse_full del: full_byte) (simp add: full_byte)
qed (simp add: extractPadding_def)

section \<open>Sealing and opening\<close>

text \<open>What the standard library documents of its primitives: an AEAD opens what it sealed and adds a tag of fixed length, a MAC
  has a fixed length, a CBC decrypter undoes the encrypter and both continue from the same block.\<close>

definition aeadLaws :: "recAead \<Rightarrow> bool" where
  "aeadLaws a \<longleftrightarrow> aeadOverhead a \<le> 255 \<and>
     (\<forall>nonce p ad. ae_Open (aeadPrim a) nonce (ae_Seal (aeadPrim a) nonce p ad) ad = Inr p \<and>
        length (ae_Seal (aeadPrim a) nonce p ad) = length p + aeadOverhead a)"

definition macLaws :: "recMac \<Rightarrow> bool" where
  "macLaws m \<longleftrightarrow> mc_Size m \<le> 64 \<and> (\<forall>bs. length (mc_Sum m bs) = mc_Size m)"

definition cbcLaws :: "cbcMode \<Rightarrow> cbcMode \<Rightarrow> bool" where
  "cbcLaws c d \<longleftrightarrow> cm_BlockSize d = cm_BlockSize c \<and> 0 < cm_BlockSize c \<and> cm_BlockSize c \<le> 256 \<and>
     (\<forall>iv bs. length (cm_Crypt c iv bs) = length bs \<and> cm_Crypt d iv (cm_Crypt c iv bs) = bs \<and>
        cm_Next d iv (cm_Crypt c iv bs) = cm_Next c iv bs)"

text \<open>The ciphers of the two ends of one direction.\<close>

fun cipherPair :: "u16 \<Rightarrow> recMac option \<Rightarrow> recCipher option \<Rightarrow> recCipher option \<Rightarrow> bool" where
  "cipherPair v mac None None \<longleftrightarrow> mac = None"
| "cipherPair v mac (Some (StreamCipher ks i)) (Some (StreamCipher ks' j)) \<longleftrightarrow> v \<noteq> VersionTLS13 \<and> ks' = ks \<and> j = i \<and> (\<exists>m. mac = Some m \<and> macLaws m)"
| "cipherPair v mac (Some (AeadCipher a)) (Some (AeadCipher b)) \<longleftrightarrow> (v = VersionTLS13 \<longrightarrow> aeadExplicitNonceLen a = 0) \<and> b = a \<and> aeadLaws a \<and> mac = None"
| "cipherPair v mac (Some (CbcCipher c)) (Some (CbcCipher d)) \<longleftrightarrow>
     v \<noteq> VersionTLS13 \<and> cm_IV d = cm_IV c \<and> cbcLaws c d \<and> (\<exists>m. mac = Some m \<and> macLaws m)"
| "cipherPair v mac _ _ \<longleftrightarrow> False"

definition paired :: "halfConn \<Rightarrow> halfConn \<Rightarrow> bool" where
  "paired s r \<longleftrightarrow> hc_version r = hc_version s \<and> hc_mac r = hc_mac s \<and> length (hc_seq s) = 8 \<and> length (hc_seq r) = 8 \<and>
     (hc_cipher s \<noteq> None \<longrightarrow> hc_seq r = hc_seq s) \<and> cipherPair (hc_version s) (hc_mac s) (hc_cipher s) (hc_cipher r)"

lemma be16w_of_nat: "n < 65536 \<Longrightarrow> be16w (word_of_nat n) = be16 n"
  by (simp add: be16w_def unat_of_nat)

lemma XORKeyStream_length [simp]: "length (XORKeyStream ks i bs) = length bs"
  by (induction ks i bs rule: XORKeyStream.induct) simp_all

lemma XORKeyStream_twice [simp]: "XORKeyStream ks i (XORKeyStream ks i bs) = bs"
  by (induction ks i bs rule: XORKeyStream.induct) (simp_all add: xor.assoc)

lemma roundUp_least:
  assumes "a \<le> n" "n mod b = 0" "0 < b"
  shows "roundUp a b \<le> n"
proof -
  obtain k where k: "n = b * k" using assms(2) by (auto elim: dvdE simp: mod_eq_0_iff_dvd)
  show ?thesis
  proof (cases "a mod b = 0")
    case False
    have "b * (a div b) + a mod b = a" by simp
    then have "a + (b - a mod b) = b * Suc (a div b)" using mod_less_divisor [OF assms(3), of a] mult_Suc_right [of b "a div b"] by linarith
    moreover have "a div b < k" 
    proof (rule ccontr)
      assume "\<not> a div b < k"
      then have "b * k \<le> b * (a div b)" by simp
      then show False using False \<open>b * (a div b) + a mod b = a\<close> k assms(1) by linarith
    qed
    then have "b * Suc (a div b) \<le> n" using k mult_le_mono2 [of "Suc (a div b)" k b] by simp
    moreover have "roundUp a b \<le> a + (b - a mod b)" by (simp add: roundUp_def)
    ultimately show ?thesis by linarith
  qed (use assms in \<open>simp add: roundUp_def\<close>)
qed

lemma padding_valid:
  assumes "0 < p" "p \<le> 256" "length bs < 2 ^ 16"
  shows "extractPadding (bs @ replicate p (word_of_nat (p - 1))) = (p, 255)"
proof -
  let ?bs = "bs @ replicate p (word_of_nat (p - 1) :: byte)"
  obtain q where q: "p = Suc q" "q < 256" using assms(1, 2) by (cases p) auto
  have l: "last ?bs = word_of_nat (p - 1)" "unat (word_of_nat (p - 1) :: byte) = p - 1" using q by (simp_all add: unat_of_nat)
  have "validPadding ?bs" using assms(1) unfolding validPadding_def l by auto
  moreover have "length ?bs < 2 ^ 31" using assms by simp
  ultimately show ?thesis using extractPadding_ref [of ?bs] l assms(1) by simp
qed

text \<open>The header of a record before it is sealed.\<close>

abbreviation recHeader :: "byte \<Rightarrow> u16 \<Rightarrow> nat \<Rightarrow> bytes" where
  "recHeader typ vers n \<equiv> [typ] @ be16w vers @ be16 n"

lemma inner_stripped:
  assumes "typ \<noteq> 0" "length payload \<le> maxPlaintext"
  shows "innerContent recordTypeApplicationData (payload @ [typ]) = Inr (payload, typ)"
  using assms by (simp add: innerContent_def)

lemma stream_roundtrip:
  assumes "paired s r" "hc_cipher s = Some (StreamCipher ks i)" "length payload \<le> maxPlaintext"
    "encryptBody s random (recHeader typ vers (length payload)) payload = Some (record1, body, cs)"
  shows "\<exists>cr. decrypt r (take 3 record1 @ be16 (length body) @ body) = map_option (\<lambda>r'. Inr (payload, typ, r')) (incSeq (r\<lparr>hc_cipher := Some cr\<rparr>)) \<and>
     cipherPair (hc_version s) (hc_mac s) (Some cs) (Some cr)"
proof -
  obtain m where m: "hc_mac s = Some m" "macLaws m" "hc_cipher r = Some (StreamCipher ks i)" "hc_version s \<noteq> VersionTLS13" "hc_version r = hc_version s"
      "hc_mac r = Some m" "hc_seq r = hc_seq s"
    using assms(1, 2) by (cases "hc_cipher r" rule: option.exhaust) (auto simp: paired_def split: recCipher.splits elim!: cipherPair.elims)
  let ?mac = "tls10MAC m (hc_seq s) (recHeader typ vers (length payload)) payload"
  have out: "record1 = recHeader typ vers (length payload)" "body = XORKeyStream ks i (payload @ ?mac)" "cs = StreamCipher ks (i + length body)"
    using assms(4) by (auto simp: encryptBody_def assms(2) m Let_def)
  have l: "length ?mac = mc_Size m" using m(2) by (simp add: tls10MAC_def macLaws_def)
  let ?rec = "recHeader typ vers (length body) @ body"
  have whole: "take 3 record1 @ be16 (length body) @ body = ?rec" by (simp add: out(1))
  have opened: "decryptBody r ?rec body = Inr (payload @ ?mac, [], 0, 255, Some cs)"
    by (simp add: decryptBody_def m Let_def out)
  have mac: "checkMac r ?rec (payload @ ?mac) [] 0 255 = Inr payload"
    using l by (simp add: checkMac_def m Let_def)
  show ?thesis unfolding whole using opened mac m out(3)
    by (intro exI [of _ cs]) (simp add: decrypt_def Let_def m)
qed

lemma aead_roundtrip:
  assumes "paired s r" "hc_cipher s = Some (AeadCipher a)" "length payload \<le> maxPlaintext" "hc_version s = VersionTLS13 \<longrightarrow> typ \<noteq> 0"
    "encryptBody s random (recHeader typ vers (length payload)) payload = Some (record1, body, cs)"
  shows "\<exists>cr. decrypt r (take 3 record1 @ be16 (length body) @ body) = map_option (\<lambda>r'. Inr (payload, typ, r')) (incSeq (r\<lparr>hc_cipher := Some cr\<rparr>)) \<and>
     cipherPair (hc_version s) (hc_mac s) (Some cs) (Some cr)"
proof -
  have r: "hc_cipher r = Some (AeadCipher a)" "hc_version r = hc_version s" "hc_mac s = None" "hc_mac r = None" "hc_seq r = hc_seq s" "length (hc_seq s) = 8"
      "aeadLaws a" "hc_version s = VersionTLS13 \<longrightarrow> aeadExplicitNonceLen a = 0"
    using assms(1, 2) by (auto simp: paired_def split: recCipher.splits elim!: cipherPair.elims)
  have nl: "aeadExplicitNonceLen a = 0 \<or> aeadExplicitNonceLen a = 8" by (cases a) simp_all
  have seal: "aeadOpen a nonce (aeadSeal a nonce p ad) ad = Inr p" "length (aeadSeal a nonce p ad) = length p + aeadOverhead a" "aeadOverhead a \<le> 255" for nonce p ad
    using r(7) by (simp_all add: aeadLaws_def aeadOpen_def aeadSeal_def)
  show ?thesis
  proof (cases "hc_version s = VersionTLS13")
    case True
    then have z: "aeadExplicitNonceLen a = 0" using r(8) by blast
    let ?h = "[recordTypeApplicationData] @ be16w vers @ be16 (length payload + 1 + aeadOverhead a)"
    have out: "record1 = ?h" "body = aeadSeal a (hc_seq s) (payload @ [typ]) ?h" "cs = AeadCipher a"
      using assms(5) True by (auto simp: encryptBody_def explicitNonceLen_def assms(2) z Let_def)
    have l: "length body = length payload + 1 + aeadOverhead a" by (simp add: out(2) seal)
    have whole: "take 3 record1 @ be16 (length body) @ body = ?h @ body" unfolding l by (simp add: out(1))
    have opened: "decryptBody r (?h @ body) body = Inr (body, payload @ [typ], 0, 255, Some (AeadCipher a))"
      using seal(1) [of "hc_seq s" "payload @ [typ]" ?h] out(2) True by (simp add: decryptBody_def explicitNonceLen_def r(1, 2, 5) z Let_def)
    show ?thesis unfolding whole using opened True assms(4) inner_stripped [of "typ", OF _ assms(3)] r
      by (intro exI [of _ "AeadCipher a"]) (simp add: decrypt_def checkMac_def Let_def out(3))
  next
    case False
    let ?h = "recHeader typ vers (length payload)" and ?n = "if aeadExplicitNonceLen a = 0 then [] else hc_seq s"
    let ?ct = "aeadSeal a (hc_seq s) payload (hc_seq s @ ?h)"
    have out: "record1 = ?h" "body = ?n @ ?ct" "cs = AeadCipher a"
      using assms(5) False nl r(6) by (auto simp: encryptBody_def explicitNonceLen_def assms(2) Let_def)
    have whole: "take 3 record1 @ be16 (length body) @ body = recHeader typ vers (length body) @ body" by (simp add: out(1))
    have n: "(word_of_nat (length ?ct) - word_of_nat (aeadOverhead a) :: u16) = word_of_nat (length payload)" unfolding seal by simp
    have opened: "decryptBody r (recHeader typ vers (length body) @ body) body = Inr (?ct, payload, 0, 255, Some (AeadCipher a))"
      using seal(1) [of "hc_seq s" payload "hc_seq s @ ?h"] out(2) False nl n assms(3)
      by (auto simp: decryptBody_def explicitNonceLen_def r Let_def be16w_of_nat)
    show ?thesis unfolding whole using opened False r
      by (intro exI [of _ "AeadCipher a"]) (simp add: decrypt_def checkMac_def Let_def out(3))
  qed
qed

lemma cbc_body:
  assumes "cbcLaws c d" "cm_IV d = cm_IV c" "macLaws m" "length payload \<le> maxPlaintext" "hc_cipher r = Some (CbcCipher d)" "hc_mac r = Some m"
    "length mac = mc_Size m" "length nonce = (if 0x302 \<le> hc_version r then cm_BlockSize c else 0)"
  defines "p \<equiv> cm_BlockSize c - (length payload + length mac) mod cm_BlockSize c" and "iv \<equiv> (if nonce = [] then cm_IV c else nonce)"
  defines "dst \<equiv> payload @ mac @ replicate p (word_of_nat (p - 1))"
  shows "decryptBody r record (nonce @ cm_Crypt c iv dst) = Inr (dst, [], p, 255, Some (CbcCipher (d\<lparr>cm_IV := cm_Next c iv dst\<rparr>)))"
proof -
  let ?b = "cm_BlockSize c"
  have b: "0 < ?b" "?b \<le> 256" "cm_BlockSize d = ?b" "length (cm_Crypt c iv dst) = length dst" "cm_Crypt d iv (cm_Crypt c iv dst) = dst"
      "cm_Next d iv (cm_Crypt c iv dst) = cm_Next c iv dst"
    using assms(1) by (simp_all add: cbcLaws_def)
  have p: "0 < p" "p \<le> 256" "(length payload + length mac + p) mod ?b = 0"
  proof -
    show "0 < p" "p \<le> 256" using b(1, 2) mod_less_divisor [OF b(1), of "length payload + length mac"] by (simp_all add: p_def)
    have "length payload + length mac + p = ?b * ((length payload + length mac) div ?b) + ?b"
      using mult_div_mod_eq [of ?b "length payload + length mac"] mod_less_divisor [OF b(1), of "length payload + length mac"] unfolding p_def by linarith
    then show "(length payload + length mac + p) mod ?b = 0" by simp
  qed
  have pad: "extractPadding dst = (p, 255)"
    using padding_valid [OF p(1, 2), of "payload @ mac"] assms(3, 4, 7) by (simp add: dst_def macLaws_def)
  have nl: "explicitNonceLen r = length nonce" using assms(5, 8) b(3) by (simp add: explicitNonceLen_def)
  have l: "length dst = length payload + length mac + p" by (simp add: dst_def)
  have n: "length nonce mod ?b = 0" "nonce = [] \<longleftrightarrow> length nonce = 0" using assms(8) by auto
  have ok: "(length nonce + length dst) mod ?b = 0" using n(1) p(3) l mod_add_eq [of "length nonce" ?b "length dst"] by simp
  moreover have "roundUp (mc_Size m + 1) ?b \<le> length dst"
    by (rule roundUp_least) (use p l assms(7) b(1) in simp_all)
  moreover have "(if length nonce = 0 then cm_IV c else nonce) = iv" using n(2) by (simp add: iv_def)
  ultimately show ?thesis using pad b by (cases "nonce = []") (simp_all add: decryptBody_def nl assms(2, 5, 6) Let_def)
qed

lemma cbc_roundtrip:
  assumes "paired s r" "hc_cipher s = Some (CbcCipher c)" "length payload \<le> maxPlaintext" "\<And>n bs. random n = Some bs \<Longrightarrow> length bs = n"
    "encryptBody s random (recHeader typ vers (length payload)) payload = Some (record1, body, cs)"
  shows "\<exists>cr. decrypt r (take 3 record1 @ be16 (length body) @ body) = map_option (\<lambda>r'. Inr (payload, typ, r')) (incSeq (r\<lparr>hc_cipher := Some cr\<rparr>)) \<and>
     cipherPair (hc_version s) (hc_mac s) (Some cs) (Some cr)"
proof -
  obtain d m where r: "hc_cipher r = Some (CbcCipher d)" "hc_version s \<noteq> VersionTLS13" "hc_version r = hc_version s" "hc_mac s = Some m" "hc_mac r = Some m"
      "hc_seq r = hc_seq s" "macLaws m" "cbcLaws c d" "cm_IV d = cm_IV c"
    using assms(1, 2) by (auto simp: paired_def split: recCipher.splits elim!: cipherPair.elims)
  let ?mac = "tls10MAC m (hc_seq s) (recHeader typ vers (length payload)) payload"
  have l: "length ?mac = mc_Size m" using r(7) by (simp add: tls10MAC_def macLaws_def)
  obtain nonce where n: "(if explicitNonceLen s = 0 then Some [] else random (explicitNonceLen s)) = Some nonce"
    using assms(5) by (auto simp: encryptBody_def assms(2) Let_def split: bind_splits)
  let ?p = "cm_BlockSize c - (length payload + length ?mac) mod cm_BlockSize c" and ?iv = "if nonce = [] then cm_IV c else nonce"
  let ?dst = "payload @ ?mac @ replicate ?p (word_of_nat (?p - 1))"
  have nl: "length nonce = (if 0x302 \<le> hc_version r then cm_BlockSize c else 0)"
    using n assms(4) by (auto simp: explicitNonceLen_def assms(2) r(3) split: if_splits)
  have out: "record1 = recHeader typ vers (length payload)" "body = nonce @ cm_Crypt c ?iv ?dst" "cs = CbcCipher (c\<lparr>cm_IV := cm_Next c ?iv ?dst\<rparr>)"
    using assms(5) n by (auto simp: encryptBody_def assms(2) r(4) Let_def)
  let ?rec = "recHeader typ vers (length body) @ body" and ?cr = "CbcCipher (d\<lparr>cm_IV := cm_Next c ?iv ?dst\<rparr>)"
  have whole: "take 3 record1 @ be16 (length body) @ body = ?rec" by (simp add: out(1))
  have opened: "decryptBody r ?rec body = Inr (?dst, [], ?p, 255, Some ?cr)"
    unfolding out(2) by (rule cbc_body [OF r(8, 9, 7) assms(3) r(1, 5) l nl])
  have mac: "checkMac r ?rec ?dst [] ?p 255 = Inr payload" using l by (simp add: checkMac_def r Let_def)
  have "cbcLaws (c\<lparr>cm_IV := cm_Next c ?iv ?dst\<rparr>) (d\<lparr>cm_IV := cm_Next c ?iv ?dst\<rparr>)" using r(8) by (simp add: cbcLaws_def)
  then show ?thesis unfolding whole out(3) using opened mac r
    by (intro exI [of _ ?cr]) (simp add: decrypt_def Let_def)
qed

lemma incSeq_same: "hc_seq r = hc_seq s \<Longrightarrow> incSeq s = Some s' \<Longrightarrow> \<exists>r'. incSeq r = Some r' \<and> r' = r\<lparr>hc_seq := hc_seq s'\<rparr>"
  by (auto simp: incSeq_def)

lemma incSeq_parts: "incSeq s = Some s' \<Longrightarrow> s' = s\<lparr>hc_seq := hc_seq s'\<rparr>"
  by (auto simp: incSeq_def)

lemma sealed_roundtrip:
  assumes "paired s r" "hc_cipher s = Some c" "length payload \<le> maxPlaintext" "hc_version s = VersionTLS13 \<longrightarrow> typ \<noteq> 0"
    "\<And>n bs. random n = Some bs \<Longrightarrow> length bs = n"
    "encryptBody s random (recHeader typ vers (length payload)) payload = Some (record1, body, cs)"
  shows "\<exists>cr. decrypt r (take 3 record1 @ be16 (length body) @ body) = map_option (\<lambda>r'. Inr (payload, typ, r')) (incSeq (r\<lparr>hc_cipher := Some cr\<rparr>)) \<and>
     cipherPair (hc_version s) (hc_mac s) (Some cs) (Some cr)"
proof (cases c)
  case (StreamCipher ks i)
  show ?thesis by (rule stream_roundtrip [OF assms(1) assms(2) [unfolded StreamCipher] assms(3, 6)])
next
  case (AeadCipher a)
  show ?thesis by (rule aead_roundtrip [OF assms(1) assms(2) [unfolded AeadCipher] assms(3, 4, 6)])
next
  case (CbcCipher b)
  show ?thesis by (rule cbc_roundtrip [OF assms(1) assms(2) [unfolded CbcCipher] assms(3, 5, 6)])
qed

lemma unsealed_roundtrip:
  assumes "paired s r" "hc_cipher s = None" "seqNo r < 2 ^ 64 - 1"
  shows "\<exists>r'. decrypt r (recHeader typ vers n @ payload) = Some (Inr (payload, typ, r')) \<and> paired s r'"
proof (cases "hc_version r = VersionTLS13 \<and> typ = recordTypeChangeCipherSpec")
  case True
  then show ?thesis using assms(1) by (auto simp: decrypt_def)
next
  case False
  have r: "hc_cipher r = None" "hc_mac r = None" "length (hc_seq r) = 8"
    using assms(1, 2) by (auto simp: paired_def split: option.splits elim!: cipherPair.elims)
  then obtain r' where r': "incSeq r = Some r'" using incSeq_val(1) [of r] assms(3) by auto
  have "r' = r\<lparr>hc_seq := hc_seq r'\<rparr>" "length (hc_seq r') = 8" using incSeq_val(2) [OF r(3) r'] by blast+
  then have "paired s r'" using assms(1, 2) unfolding paired_def by (metis halfConn.select_convs halfConn.surjective halfConn.update_convs(4))
  moreover have same: "r\<lparr>hc_cipher := None\<rparr> = r" using r(1) by simp
  ultimately show ?thesis using False r(1, 2) r' by (auto simp: decrypt_def decryptBody_def checkMac_def Let_def same)
qed

lemma record_opens:
  assumes "paired s r" "length payload \<le> maxPlaintext" "hc_version s = VersionTLS13 \<longrightarrow> typ \<noteq> 0"
    "\<And>n bs. random n = Some bs \<Longrightarrow> length bs = n" "hc_cipher s = None \<longrightarrow> seqNo r < 2 ^ 64 - 1"
    "encrypt s random (recHeader typ vers (length payload)) payload = Ok (out, s')"
  shows "\<exists>r'. decrypt r out = Some (Inr (payload, typ, r')) \<and> paired s' r'"
proof (cases "hc_cipher s")
  case None
  then show ?thesis using assms(5, 6) unsealed_roundtrip [OF assms(1) None, of "typ" vers "length payload" payload] by (auto simp: encrypt_def)
next
  case (Some c)
  then obtain record1 body cs where e: "encryptBody s random (recHeader typ vers (length payload)) payload = Some (record1, body, cs)"
      "incSeq (s\<lparr>hc_cipher := Some cs\<rparr>) = Some s'" "out = take 3 record1 @ be16 (length body) @ body"
    using assms(6) by (auto simp: encrypt_def split: option.splits)
  obtain cr where d: "decrypt r out = map_option (\<lambda>r'. Inr (payload, typ, r')) (incSeq (r\<lparr>hc_cipher := Some cr\<rparr>))"
      "cipherPair (hc_version s) (hc_mac s) (Some cs) (Some cr)"
    using sealed_roundtrip [OF assms(1) Some assms(2, 3, 4) e(1)] e(3) by blast
  have p: "hc_version r = hc_version s" "hc_mac r = hc_mac s" "length (hc_seq s) = 8" "hc_seq r = hc_seq s" using assms(1) Some by (auto simp: paired_def)
  obtain r' where r': "incSeq (r\<lparr>hc_cipher := Some cr\<rparr>) = Some r'" "r' = r\<lparr>hc_cipher := Some cr, hc_seq := hc_seq s'\<rparr>"
    using incSeq_same [of "r\<lparr>hc_cipher := Some cr\<rparr>", OF _ e(2)] p(4) by auto
  have "s' = s\<lparr>hc_cipher := Some cs, hc_seq := hc_seq s'\<rparr>" "length (hc_seq s') = 8"
    using incSeq_val(2) [OF _ e(2)] p(3) by simp_all
  then have "paired s' r'" using d(2) p r'(2) unfolding paired_def
    by (metis halfConn.select_convs(1-4) halfConn.surjective halfConn.update_convs(2, 4))
  then show ?thesis using d(1) r'(1) by simp
qed

section \<open>Properties\<close>

text \<open>C34. The constant-time padding check computes the plain one: for a payload below 2^31 bytes the padding is good iff the last byte tells
  how many bytes before it are equal to it, and then that many bytes and one more are to be removed; otherwise one byte is removed, and none of
  an empty payload.\<close>

theorem padding_check_correct:
  assumes "length payload < 2 ^ 31"
  shows "extractPadding payload = (if payload = [] then (0, 0) else if validPadding payload then (unat (last payload) + 1, 255) else (1, 0))"
  using assms by (rule extractPadding_ref)

theorem padding_check_correct_witness:
  "extractPadding [9, 2, 2, 2] = (3, 255) \<and> extractPadding [9, 2, 3, 2] = (1, 0)"
  using padding_check_correct [of "[9, 2, 2, 2]"] padding_check_correct [of "[9, 2, 3, 2]"] by (simp add: validPadding_def)

end
