(* ===== verification/Utls_Handshake.thy ===== *)
theory Utls_Handshake
  imports Utls_Messages
begin

text \<open>
  The other handshake messages of \<open>src/utls/handshake_messages.go\<close> and \<open>src/utls/u_handshake_messages.go\<close>, and the choice
  of a message's type by its first byte and the version, \<open>unmarshalHandshakeMessage\<close> of \<open>src/utls/conn.go\<close>.
  A message has less than \<open>2^24 + 4\<close> bytes, so that the 32-bit lengths of the code do not wrap.
\<close>

section \<open>ServerHello\<close>

record serverHelloMsg =
  sh_vers :: u16
  sh_random :: bytes
  sh_sessionId :: bytes
  sh_cipherSuite :: u16
  sh_compressionMethod :: byte
  sh_ocspStapling :: bool
  sh_ticketSupported :: bool
  sh_secureRenegotiationSupported :: bool
  sh_secureRenegotiation :: bytes
  sh_extendedMasterSecret :: bool
  sh_alpnProtocol :: string
  sh_scts :: "bytes list"
  sh_supportedVersion :: u16
  sh_serverShare :: keyShare
  sh_selectedIdentityPresent :: bool
  sh_selectedIdentity :: u16
  sh_supportedPoints :: bytes
  sh_encryptedClientHello :: bytes
  sh_serverNameAck :: bool
  sh_cookie :: bytes
  sh_selectedGroup :: u16

definition emptyServerHello :: serverHelloMsg where
  "emptyServerHello =
     \<lparr>sh_vers = 0, sh_random = [], sh_sessionId = [], sh_cipherSuite = 0, sh_compressionMethod = 0, sh_ocspStapling = False,
      sh_ticketSupported = False, sh_secureRenegotiationSupported = False, sh_secureRenegotiation = [], sh_extendedMasterSecret = False,
      sh_alpnProtocol = '''', sh_scts = [], sh_supportedVersion = 0, sh_serverShare = \<lparr>ks_Group = 0, ks_Data = []\<rparr>,
      sh_selectedIdentityPresent = False, sh_selectedIdentity = 0, sh_supportedPoints = [], sh_encryptedClientHello = [],
      sh_serverNameAck = False, sh_cookie = [], sh_selectedGroup = 0\<rparr>"

definition oneProto :: "cryptobyte \<Rightarrow> string \<Rightarrow> bytes option" where
  "oneProto cb proto = bytes16 cb (bytes8 cb (Some (strBytes proto)))"

definition byteLists :: "cryptobyte \<Rightarrow> bytes list \<Rightarrow> bytes option" where
  "byteLists cb bss = bytes16 cb (addAll (map (\<lambda>b. bytes16 cb (Some b)) bss))"

definition serverExtensionParts :: "cryptobyte \<Rightarrow> serverHelloMsg \<Rightarrow> bytes option list" where
  "serverExtensionParts cb m =
     [addWhen (sh_ocspStapling m) (Some (be16w extensionStatusRequest @ be16 0)),
      addWhen (sh_ticketSupported m) (Some (be16w extensionSessionTicket @ be16 0)),
      addWhen (sh_secureRenegotiationSupported m) (addExtension cb extensionRenegotiationInfo (bytes8 cb (Some (sh_secureRenegotiation m)))),
      addWhen (sh_extendedMasterSecret m) (Some (be16w extensionExtendedMasterSecret @ be16 0)),
      addWhen (sh_alpnProtocol m \<noteq> '''') (addExtension cb extensionALPN (oneProto cb (sh_alpnProtocol m))),
      addWhen (sh_scts m \<noteq> []) (addExtension cb extensionSCT (byteLists cb (sh_scts m))),
      addWhen (sh_supportedVersion m \<noteq> 0) (addExtension cb extensionSupportedVersions (Some (be16w (sh_supportedVersion m)))),
      addWhen (ks_Group (sh_serverShare m) \<noteq> 0) (addExtension cb extensionKeyShare (keyShareBytes cb (sh_serverShare m))),
      addWhen (sh_selectedIdentityPresent m) (addExtension cb extensionPreSharedKey (Some (be16w (sh_selectedIdentity m)))),
      addWhen (sh_cookie m \<noteq> []) (addExtension cb extensionCookie (bytes16 cb (Some (sh_cookie m)))),
      addWhen (sh_selectedGroup m \<noteq> 0) (addExtension cb extensionKeyShare (Some (be16w (sh_selectedGroup m)))),
      addWhen (sh_supportedPoints m \<noteq> []) (addExtension cb extensionSupportedPoints (bytes8 cb (Some (sh_supportedPoints m)))),
      addWhen (sh_encryptedClientHello m \<noteq> []) (addExtension cb extensionEncryptedClientHello (Some (sh_encryptedClientHello m))),
      addWhen (sh_serverNameAck m) (Some (be16w extensionServerName @ be16 0))]"

definition serverHello_marshal :: "cryptobyte \<Rightarrow> serverHelloMsg \<Rightarrow> bytes option" where
  "serverHello_marshal cb m = do {
     extBytes \<leftarrow> addAll (serverExtensionParts cb m);
     message cb 2
       [Some (be16w (sh_vers m)), addBytesWithLength (sh_random m) 32, bytes8 cb (Some (sh_sessionId m)),
        Some (be16w (sh_cipherSuite m)), Some [sh_compressionMethod m], addWhen (extBytes \<noteq> []) (bytes16 cb (Some extBytes))]
   }"

definition readOneProto :: "cryptobyte \<Rightarrow> bytes \<Rightarrow> string option" where
  "readOneProto cb s =
     Option.bind (whole (cb_ReadUint16LengthPrefixed cb s)) (\<lambda>protoList. whole (readProto cb protoList))"

definition serverExtension :: "cryptobyte \<Rightarrow> u16 \<Rightarrow> bytes \<Rightarrow> bool \<Rightarrow> serverHelloMsg \<Rightarrow> serverHelloMsg option" where
  "serverExtension cb extension extData isLast m =
     (if extension = extensionStatusRequest then flagOnly extData (m\<lparr>sh_ocspStapling := True\<rparr>)
      else if extension = extensionSessionTicket then flagOnly extData (m\<lparr>sh_ticketSupported := True\<rparr>)
      else if extension = extensionRenegotiationInfo then do {
        r \<leftarrow> whole (cb_ReadUint8LengthPrefixed cb extData); Some (m\<lparr>sh_secureRenegotiation := r, sh_secureRenegotiationSupported := True\<rparr>) }
      else if extension = extensionExtendedMasterSecret then flagOnly extData (m\<lparr>sh_extendedMasterSecret := True\<rparr>)
      else if extension = extensionALPN then do {
        p \<leftarrow> readOneProto cb extData; Some (m\<lparr>sh_alpnProtocol := p\<rparr>) }
      else if extension = extensionSCT then do {
        ss \<leftarrow> list16 cb (readBytes16 cb) extData; Some (m\<lparr>sh_scts := sh_scts m @ ss\<rparr>) }
      else if extension = extensionSupportedVersions then do {
        v \<leftarrow> whole (cb_ReadUint16 cb extData); Some (m\<lparr>sh_supportedVersion := v\<rparr>) }
      else if extension = extensionCookie then do {
        c \<leftarrow> nonempty (whole (cb_ReadUint16LengthPrefixed cb extData)); Some (m\<lparr>sh_cookie := c\<rparr>) }
      else if extension = extensionKeyShare then
        if length extData = 2 then do { g \<leftarrow> whole (cb_ReadUint16 cb extData); Some (m\<lparr>sh_selectedGroup := g\<rparr>) }
        else do {
          (g, s1) \<leftarrow> cb_ReadUint16 cb extData;
          d \<leftarrow> whole (cb_ReadUint16LengthPrefixed cb s1);
          Some (m\<lparr>sh_serverShare := \<lparr>ks_Group = g, ks_Data = d\<rparr>\<rparr>) }
      else if extension = extensionPreSharedKey then do {
        i \<leftarrow> whole (cb_ReadUint16 cb extData); Some (m\<lparr>sh_selectedIdentityPresent := True, sh_selectedIdentity := i\<rparr>) }
      else if extension = extensionSupportedPoints then do {
        ps \<leftarrow> nonempty (whole (cb_ReadUint8LengthPrefixed cb extData)); Some (m\<lparr>sh_supportedPoints := ps\<rparr>) }
      else if extension = extensionEncryptedClientHello then Some (m\<lparr>sh_encryptedClientHello := extData\<rparr>)
      else if extension = extensionServerName then flagOnly extData (m\<lparr>sh_serverNameAck := True\<rparr>)
      else Some m)"

definition serverHello_unmarshal :: "cryptobyte \<Rightarrow> bytes \<Rightarrow> serverHelloMsg option" where
  "serverHello_unmarshal cb data = do {
     s \<leftarrow> cb_Skip cb 4 data;
     (vers, s1) \<leftarrow> cb_ReadUint16 cb s;
     (random, s2) \<leftarrow> cb_ReadBytes cb 32 s1;
     (sessionId, s3) \<leftarrow> cb_ReadUint8LengthPrefixed cb s2;
     (cipherSuite, s4) \<leftarrow> cb_ReadUint16 cb s3;
     (compressionMethod, s5) \<leftarrow> cb_ReadUint8 cb s4;
     let m = emptyServerHello\<lparr>sh_vers := vers, sh_random := random, sh_sessionId := sessionId, sh_cipherSuite := cipherSuite,
               sh_compressionMethod := compressionMethod\<rparr>;
     if s5 = [] then Some m
     else do {
       extensions \<leftarrow> whole (cb_ReadUint16LengthPrefixed cb s5);
       extensionLoop cb True (serverExtension cb) (length extensions) [] extensions m
     }
   }"

section \<open>Messages of TLS 1.3\<close>

record encryptedExtensionsMsg =
  en_alpnProtocol :: string
  en_quicTransportParameters :: "bytes option"
  en_earlyData :: bool
  en_echRetryConfigs :: bytes
  en_applicationSettings :: bytes
  en_applicationSettingsCodepoint :: u16

definition encryptedExtensions_marshal :: "cryptobyte \<Rightarrow> encryptedExtensionsMsg \<Rightarrow> bytes option" where
  "encryptedExtensions_marshal cb m =
     message cb 8 [bytes16 cb (addAll
       [addWhen (en_alpnProtocol m \<noteq> '''') (addExtension cb extensionALPN (oneProto cb (en_alpnProtocol m))),
        addWhen (en_quicTransportParameters m \<noteq> None) (addExtension cb extensionQUICTransportParameters (en_quicTransportParameters m)),
        addWhen (en_earlyData m) (Some (be16w extensionEarlyData @ be16 0)),
        addWhen (en_echRetryConfigs m \<noteq> []) (addExtension cb extensionEncryptedClientHello (Some (en_echRetryConfigs m)))])]"

text \<open>Application settings are kept whatever they contain; \<open>marshal\<close> does not write them.\<close>

definition encryptedExtension :: "cryptobyte \<Rightarrow> u16 \<Rightarrow> bytes \<Rightarrow> bool \<Rightarrow> encryptedExtensionsMsg \<Rightarrow> encryptedExtensionsMsg option" where
  "encryptedExtension cb extension extData isLast m =
     (if extension = extensionALPN then do { p \<leftarrow> readOneProto cb extData; Some (m\<lparr>en_alpnProtocol := p\<rparr>) }
      else if extension = extensionQUICTransportParameters then Some (m\<lparr>en_quicTransportParameters := Some extData\<rparr>)
      else if extension = extensionEarlyData then flagOnly extData (m\<lparr>en_earlyData := True\<rparr>)
      else if extension = extensionEncryptedClientHello then Some (m\<lparr>en_echRetryConfigs := extData\<rparr>)
      else if extension = utlsExtensionApplicationSettings \<or> extension = utlsExtensionApplicationSettingsNew
        then Some (m\<lparr>en_applicationSettingsCodepoint := extension, en_applicationSettings := extData\<rparr>)
      else Some m)"

definition encryptedExtensions_unmarshal :: "cryptobyte \<Rightarrow> bytes \<Rightarrow> encryptedExtensionsMsg option" where
  "encryptedExtensions_unmarshal cb data = do {
     s \<leftarrow> cb_Skip cb 4 data;
     extensions \<leftarrow> whole (cb_ReadUint16LengthPrefixed cb s);
     extensionLoop cb False (encryptedExtension cb) (length extensions) [] extensions
       \<lparr>en_alpnProtocol = '''', en_quicTransportParameters = None, en_earlyData = False, en_echRetryConfigs = [],
        en_applicationSettings = [], en_applicationSettingsCodepoint = 0\<rparr>
   }"

definition endOfEarlyData_marshal :: bytes where "endOfEarlyData_marshal = [5, 0, 0, 0]"

definition keyUpdate_marshal :: "cryptobyte \<Rightarrow> bool \<Rightarrow> bytes option" where
  "keyUpdate_marshal cb updateRequested = message cb 24 [Some [if updateRequested then 1 else 0]]"

definition keyUpdate_unmarshal :: "cryptobyte \<Rightarrow> bytes \<Rightarrow> bool option" where
  "keyUpdate_unmarshal cb data = do {
     s \<leftarrow> cb_Skip cb 4 data;
     u \<leftarrow> whole (cb_ReadUint8 cb s);
     if u = 0 then Some False else if u = 1 then Some True else None
   }"

record newSessionTicketMsgTLS13 =
  nt_lifetime :: "32 word"
  nt_ageAdd :: "32 word"
  nt_nonce :: bytes
  nt_label :: bytes
  nt_maxEarlyData :: "32 word"

definition ticketTLS13_marshal :: "cryptobyte \<Rightarrow> newSessionTicketMsgTLS13 \<Rightarrow> bytes option" where
  "ticketTLS13_marshal cb m =
     message cb 4 [Some (be32w (nt_lifetime m)), Some (be32w (nt_ageAdd m)), bytes8 cb (Some (nt_nonce m)), bytes16 cb (Some (nt_label m)),
       bytes16 cb (addWhen (0 < nt_maxEarlyData m) (addExtension cb extensionEarlyData (Some (be32w (nt_maxEarlyData m)))))]"

definition ticketExtension :: "cryptobyte \<Rightarrow> u16 \<Rightarrow> bytes \<Rightarrow> bool \<Rightarrow> newSessionTicketMsgTLS13 \<Rightarrow> newSessionTicketMsgTLS13 option" where
  "ticketExtension cb extension extData isLast m =
     (if extension = extensionEarlyData then do { d \<leftarrow> whole (cb_ReadUint32 cb extData); Some (m\<lparr>nt_maxEarlyData := d\<rparr>) } else Some m)"

definition ticketTLS13_unmarshal :: "cryptobyte \<Rightarrow> bytes \<Rightarrow> newSessionTicketMsgTLS13 option" where
  "ticketTLS13_unmarshal cb data = do {
     s \<leftarrow> cb_Skip cb 4 data;
     (lifetime, s1) \<leftarrow> cb_ReadUint32 cb s;
     (ageAdd, s2) \<leftarrow> cb_ReadUint32 cb s1;
     (nonce, s3) \<leftarrow> cb_ReadUint8LengthPrefixed cb s2;
     (label, s4) \<leftarrow> cb_ReadUint16LengthPrefixed cb s3;
     extensions \<leftarrow> whole (cb_ReadUint16LengthPrefixed cb s4);
     extensionLoop cb False (ticketExtension cb) (length extensions) [] extensions
       \<lparr>nt_lifetime = lifetime, nt_ageAdd = ageAdd, nt_nonce = nonce, nt_label = label, nt_maxEarlyData = 0\<rparr>
   }"

record certificateRequestMsgTLS13 =
  cr_ocspStapling :: bool
  cr_scts :: bool
  cr_supportedSignatureAlgorithms :: "u16 list"
  cr_supportedSignatureAlgorithmsCert :: "u16 list"
  cr_certificateAuthorities :: "bytes list"

definition requestTLS13_marshal :: "cryptobyte \<Rightarrow> certificateRequestMsgTLS13 \<Rightarrow> bytes option" where
  "requestTLS13_marshal cb m =
     message cb 13 [Some [0], bytes16 cb (addAll
       [addWhen (cr_ocspStapling m) (Some (be16w extensionStatusRequest @ be16 0)),
        addWhen (cr_scts m) (Some (be16w extensionSCT @ be16 0)),
        addWhen (cr_supportedSignatureAlgorithms m \<noteq> [])
          (addExtension cb extensionSignatureAlgorithms (bytes16 cb (Some (u16s (cr_supportedSignatureAlgorithms m))))),
        addWhen (cr_supportedSignatureAlgorithmsCert m \<noteq> [])
          (addExtension cb extensionSignatureAlgorithmsCert (bytes16 cb (Some (u16s (cr_supportedSignatureAlgorithmsCert m))))),
        addWhen (cr_certificateAuthorities m \<noteq> [])
          (addExtension cb extensionCertificateAuthorities (byteLists cb (cr_certificateAuthorities m)))])]"

definition requestExtension :: "cryptobyte \<Rightarrow> u16 \<Rightarrow> bytes \<Rightarrow> bool \<Rightarrow> certificateRequestMsgTLS13 \<Rightarrow> certificateRequestMsgTLS13 option" where
  "requestExtension cb extension extData isLast m =
     (if extension = extensionStatusRequest then flagOnly extData (m\<lparr>cr_ocspStapling := True\<rparr>)
      else if extension = extensionSCT then flagOnly extData (m\<lparr>cr_scts := True\<rparr>)
      else if extension = extensionSignatureAlgorithms then do {
        as \<leftarrow> list16 cb (cb_ReadUint16 cb) extData; Some (m\<lparr>cr_supportedSignatureAlgorithms := cr_supportedSignatureAlgorithms m @ as\<rparr>) }
      else if extension = extensionSignatureAlgorithmsCert then do {
        as \<leftarrow> list16 cb (cb_ReadUint16 cb) extData;
        Some (m\<lparr>cr_supportedSignatureAlgorithmsCert := cr_supportedSignatureAlgorithmsCert m @ as\<rparr>) }
      else if extension = extensionCertificateAuthorities then do {
        cas \<leftarrow> list16 cb (readBytes16 cb) extData; Some (m\<lparr>cr_certificateAuthorities := cr_certificateAuthorities m @ cas\<rparr>) }
      else Some m)"

definition requestTLS13_unmarshal :: "cryptobyte \<Rightarrow> bytes \<Rightarrow> certificateRequestMsgTLS13 option" where
  "requestTLS13_unmarshal cb data = do {
     s \<leftarrow> cb_Skip cb 4 data;
     (ctxt, s1) \<leftarrow> cb_ReadUint8LengthPrefixed cb s;
     if ctxt \<noteq> [] then None
     else do {
       extensions \<leftarrow> whole (cb_ReadUint16LengthPrefixed cb s1);
       extensionLoop cb False (requestExtension cb) (length extensions) [] extensions
         \<lparr>cr_ocspStapling = False, cr_scts = False, cr_supportedSignatureAlgorithms = [], cr_supportedSignatureAlgorithmsCert = [],
          cr_certificateAuthorities = []\<rparr>
     }
   }"

text \<open>Certificates with the staple and the timestamps of the leaf; nil and empty differ.\<close>

record certificate =
  ce_Certificate :: "bytes list"
  ce_OCSPStaple :: "bytes option"
  ce_SignedCertificateTimestamps :: "bytes list option"

definition leafExtensions :: "cryptobyte \<Rightarrow> certificate \<Rightarrow> bytes option" where
  "leafExtensions cb c = addAll
     [case ce_OCSPStaple c of None \<Rightarrow> Some []
      | Some staple \<Rightarrow> addExtension cb extensionStatusRequest (addAll [Some [1], bytes24 cb (Some staple)]),
      case ce_SignedCertificateTimestamps c of None \<Rightarrow> Some [] | Some scts \<Rightarrow> addExtension cb extensionSCT (byteLists cb scts)]"

definition certEntry :: "cryptobyte \<Rightarrow> bytes \<Rightarrow> bytes option \<Rightarrow> bytes option" where
  "certEntry cb cert exts = addAll [bytes24 cb (Some cert), bytes16 cb exts]"

definition marshalCertificate :: "cryptobyte \<Rightarrow> certificate \<Rightarrow> bytes option" where
  "marshalCertificate cb c =
     bytes24 cb (case ce_Certificate c of
       [] \<Rightarrow> Some []
     | leaf # rest \<Rightarrow> addAll (certEntry cb leaf (leafExtensions cb c) # map (\<lambda>cert. certEntry cb cert (Some [])) rest))"

definition leafExtension :: "cryptobyte \<Rightarrow> u16 \<Rightarrow> bytes \<Rightarrow> bool \<Rightarrow> certificate \<Rightarrow> certificate option" where
  "leafExtension cb extension extData isLast c =
     (if 1 < length (ce_Certificate c) then Some c
      else if extension = extensionStatusRequest then do {
        (statusType, s) \<leftarrow> cb_ReadUint8 cb extData;
        staple \<leftarrow> nonempty (whole (cb_ReadUint24LengthPrefixed cb s));
        if statusType \<noteq> 1 then None else Some (c\<lparr>ce_OCSPStaple := Some staple\<rparr>) }
      else if extension = extensionSCT then do {
        scts \<leftarrow> list16 cb (readBytes16 cb) extData;
        Some (c\<lparr>ce_SignedCertificateTimestamps :=
          Some ((case ce_SignedCertificateTimestamps c of None \<Rightarrow> [] | Some old \<Rightarrow> old) @ scts)\<rparr>) }
      else Some c)"

fun certEntries :: "cryptobyte \<Rightarrow> nat \<Rightarrow> bytes \<Rightarrow> certificate \<Rightarrow> certificate option" where
  "certEntries cb fuel [] c = Some c"
| "certEntries cb 0 (b # s) c = None"
| "certEntries cb (Suc fuel) (b # s) c =
     (case cb_ReadUint24LengthPrefixed cb (b # s) of
        None \<Rightarrow> None
      | Some (cert, s1) \<Rightarrow>
          (case cb_ReadUint16LengthPrefixed cb s1 of
             None \<Rightarrow> None
           | Some (extensions, s2) \<Rightarrow>
               (case extensionLoop cb False (leafExtension cb) (length extensions) [] extensions
                       (c\<lparr>ce_Certificate := ce_Certificate c @ [cert]\<rparr>) of
                  None \<Rightarrow> None | Some c' \<Rightarrow> certEntries cb fuel s2 c')))"

definition unmarshalCertificate :: "cryptobyte \<Rightarrow> bytes \<Rightarrow> (certificate \<times> bytes) option" where
  "unmarshalCertificate cb s = do {
     (certList, s1) \<leftarrow> cb_ReadUint24LengthPrefixed cb s;
     c \<leftarrow> certEntries cb (length certList) certList
       \<lparr>ce_Certificate = [], ce_OCSPStaple = None, ce_SignedCertificateTimestamps = None\<rparr>;
     Some (c, s1)
   }"

record certificateMsgTLS13 =
  cm_certificate :: certificate
  cm_ocspStapling :: bool
  cm_scts :: bool

definition certificateTLS13_marshal :: "cryptobyte \<Rightarrow> certificateMsgTLS13 \<Rightarrow> bytes option" where
  "certificateTLS13_marshal cb m =
     (let c = cm_certificate m;
          c1 = (if cm_ocspStapling m then c else c\<lparr>ce_OCSPStaple := None\<rparr>);
          c2 = (if cm_scts m then c1 else c1\<lparr>ce_SignedCertificateTimestamps := None\<rparr>)
      in message cb 11 [Some [0], marshalCertificate cb c2])"

definition certificateTLS13_unmarshal :: "cryptobyte \<Rightarrow> bytes \<Rightarrow> certificateMsgTLS13 option" where
  "certificateTLS13_unmarshal cb data = do {
     s \<leftarrow> cb_Skip cb 4 data;
     (ctxt, s1) \<leftarrow> cb_ReadUint8LengthPrefixed cb s;
     if ctxt \<noteq> [] then None
     else do {
       c \<leftarrow> whole (unmarshalCertificate cb s1);
       Some \<lparr>cm_certificate = c, cm_ocspStapling = (ce_OCSPStaple c \<noteq> None), cm_scts = (ce_SignedCertificateTimestamps c \<noteq> None)\<rparr>
     }
   }"

section \<open>Messages of TLS 1.2\<close>

text \<open>Written by hand into a buffer: a length is cut to its three bytes.\<close>

definition certificate_marshal :: "bytes list \<Rightarrow> bytes" where
  "certificate_marshal certs =
     (let n = 3 * length certs + sum_list (map length certs) in
      [11] @ be24 (n + 3) @ be24 n @ concat (map (\<lambda>c. be24 (length c) @ c) certs))"

fun certLoop :: "nat \<Rightarrow> nat \<Rightarrow> bytes \<Rightarrow> bytes list option" where
  "certLoop fuel certsLen d =
     (if certsLen = 0 then Some []
      else case fuel of
        0 \<Rightarrow> None
      | Suc fuel' \<Rightarrow>
          if length d < 4 then None
          else let certLen = val24 (d ! 0) (d ! 1) (d ! 2) in
               if length d < 3 + certLen then None
               else map_option ((#) (take certLen (drop 3 d))) (certLoop fuel' (certsLen - (3 + certLen)) (drop (3 + certLen) d)))"

declare certLoop.simps [simp del]

definition certificate_unmarshal :: "bytes \<Rightarrow> bytes list option" where
  "certificate_unmarshal data =
     (if length data < 7 then None
      else let certsLen = val24 (data ! 4) (data ! 5) (data ! 6) in
           if length data \<noteq> certsLen + 7 then None else certLoop certsLen certsLen (drop 7 data))"

definition serverKeyExchange_marshal :: "bytes \<Rightarrow> bytes" where
  "serverKeyExchange_marshal key = [12] @ be24 (length key) @ key"

definition serverKeyExchange_unmarshal :: "bytes \<Rightarrow> bytes option" where
  "serverKeyExchange_unmarshal data = (if length data < 4 then None else Some (drop 4 data))"

definition certificateStatus_marshal :: "cryptobyte \<Rightarrow> bytes \<Rightarrow> bytes option" where
  "certificateStatus_marshal cb response = message cb 22 [Some [1], bytes24 cb (Some response)]"

definition certificateStatus_unmarshal :: "cryptobyte \<Rightarrow> bytes \<Rightarrow> bytes option" where
  "certificateStatus_unmarshal cb data = do {
     s \<leftarrow> cb_Skip cb 4 data;
     (statusType, s1) \<leftarrow> cb_ReadUint8 cb s;
     if statusType \<noteq> 1 then None else nonempty (whole (cb_ReadUint24LengthPrefixed cb s1))
   }"

definition serverHelloDone_marshal :: bytes where "serverHelloDone_marshal = [14, 0, 0, 0]"

definition helloRequest_marshal :: bytes where "helloRequest_marshal = [0, 0, 0, 0]"

definition clientKeyExchange_marshal :: "bytes \<Rightarrow> bytes" where
  "clientKeyExchange_marshal ciphertext = [16] @ be24 (length ciphertext) @ ciphertext"

definition clientKeyExchange_unmarshal :: "bytes \<Rightarrow> bytes option" where
  "clientKeyExchange_unmarshal data =
     (if length data < 4 then None
      else if val24 (data ! 1) (data ! 2) (data ! 3) \<noteq> length data - 4 then None else Some (drop 4 data))"

definition finished_marshal :: "cryptobyte \<Rightarrow> bytes \<Rightarrow> bytes option" where
  "finished_marshal cb verifyData = message cb 20 [Some verifyData]"

definition finished_unmarshal :: "cryptobyte \<Rightarrow> bytes \<Rightarrow> bytes option" where
  "finished_unmarshal cb data = Option.bind (cb_Skip cb 1 data) (\<lambda>s. whole (cb_ReadUint24LengthPrefixed cb s))"

record certificateRequestMsg =
  rq_hasSignatureAlgorithm :: bool
  rq_certificateTypes :: bytes
  rq_supportedSignatureAlgorithms :: "u16 list"
  rq_certificateAuthorities :: "bytes list"

definition request_marshal :: "certificateRequestMsg \<Rightarrow> bytes" where
  "request_marshal m =
     (let casLength = sum_list (map (\<lambda>ca. 2 + length ca) (rq_certificateAuthorities m));
          algs = (if rq_hasSignatureAlgorithm m
            then be16 (length (rq_supportedSignatureAlgorithms m) * 2) @ u16s (rq_supportedSignatureAlgorithms m) else []);
          n = 1 + length (rq_certificateTypes m) + 2 + casLength + length algs
      in [13] @ be24 n @ [word_of_nat (length (rq_certificateTypes m))] @ rq_certificateTypes m @ algs @ be16 casLength @
         concat (map (\<lambda>ca. be16 (length ca) @ ca) (rq_certificateAuthorities m)))"

fun u16Pairs :: "nat \<Rightarrow> bytes \<Rightarrow> u16 list" where
  "u16Pairs (Suc n) (a # b # s) = val16 a b # u16Pairs n s"
| "u16Pairs _ _ = []"

fun caLoop :: "nat \<Rightarrow> bytes \<Rightarrow> bytes list option" where
  "caLoop fuel [] = Some []"
| "caLoop fuel [a] = None"
| "caLoop 0 (a # b # cas) = None"
| "caLoop (Suc fuel) (a # b # cas) =
     (let caLen = unat (val16 a b) in
      if length cas < caLen then None else map_option ((#) (take caLen cas)) (caLoop fuel (drop caLen cas)))"

definition request_authorities :: "bool \<Rightarrow> bytes \<Rightarrow> u16 list \<Rightarrow> bytes \<Rightarrow> certificateRequestMsg option" where
  "request_authorities hasAlg certTypes algs data =
     (if length data < 2 then None
      else let casLength = unat (val16 (data ! 0) (data ! 1)); rest = drop 2 data in
           if length rest < casLength then None
           else case caLoop casLength (take casLength rest) of
             None \<Rightarrow> None
           | Some cas \<Rightarrow> if drop casLength rest \<noteq> [] then None
               else Some \<lparr>rq_hasSignatureAlgorithm = hasAlg, rq_certificateTypes = certTypes, rq_supportedSignatureAlgorithms = algs,
                          rq_certificateAuthorities = cas\<rparr>)"

definition request_unmarshal :: "bool \<Rightarrow> bytes \<Rightarrow> certificateRequestMsg option" where
  "request_unmarshal hasAlg data0 =
     (if length data0 < 5 then None
      else if length data0 - 4 \<noteq> val24 (data0 ! 1) (data0 ! 2) (data0 ! 3) then None
      else let numCertTypes = unat (data0 ! 4); data1 = drop 5 data0 in
           if numCertTypes = 0 \<or> length data1 \<le> numCertTypes then None
           else let certTypes = take numCertTypes data1; data = drop numCertTypes data1 in
                if \<not> hasAlg then request_authorities hasAlg certTypes [] data
                else if length data < 2 then None
                else let sigAndHashLen = unat (val16 (data ! 0) (data ! 1)); rest = drop 2 data in
                     if odd sigAndHashLen \<or> length rest < sigAndHashLen then None
                     else request_authorities hasAlg certTypes (u16Pairs (sigAndHashLen div 2) rest) (drop sigAndHashLen rest))"

text \<open>The signature of a client or a server; its algorithm is there since TLS 1.2.\<close>

definition verify_marshal :: "cryptobyte \<Rightarrow> bool \<Rightarrow> u16 \<times> bytes \<Rightarrow> bytes option" where
  "verify_marshal cb hasAlg m = message cb 15 [addWhen hasAlg (Some (be16w (fst m))), bytes16 cb (Some (snd m))]"

definition verify_unmarshal :: "cryptobyte \<Rightarrow> bool \<Rightarrow> bytes \<Rightarrow> (u16 \<times> bytes) option" where
  "verify_unmarshal cb hasAlg data = do {
     s \<leftarrow> cb_Skip cb 4 data;
     (alg, s1) \<leftarrow> (if hasAlg then cb_ReadUint16 cb s else Some (0, s));
     sig \<leftarrow> whole (cb_ReadUint16LengthPrefixed cb s1);
     Some (alg, sig)
   }"

definition newSessionTicket_marshal :: "bytes \<Rightarrow> bytes" where
  "newSessionTicket_marshal ticket = [4] @ be24 (2 + 4 + length ticket) @ [0, 0, 0, 0] @ be16 (length ticket) @ ticket"

definition newSessionTicket_unmarshal :: "bytes \<Rightarrow> bytes option" where
  "newSessionTicket_unmarshal data =
     (if length data < 10 then None
      else if length data - 4 \<noteq> val24 (data ! 1) (data ! 2) (data ! 3) then None
      else if length data - 10 \<noteq> unat (val16 (data ! 8) (data ! 9)) then None else Some (drop 10 data))"

section \<open>Messages of uTLS\<close>

record compressedCertificateMsg =
  cc_raw :: "bytes option"
  cc_algorithm :: u16
  cc_uncompressedLength :: nat
  cc_compressedCertificateMessage :: bytes

text \<open>\<open>AddUint24\<close> keeps the low three bytes of a 32-bit number. What follows the certificate is not checked.\<close>

definition compressed_marshal :: "cryptobyte \<Rightarrow> compressedCertificateMsg \<Rightarrow> bytes option" where
  "compressed_marshal cb m =
     (case cc_raw m of Some raw \<Rightarrow> Some raw
      | None \<Rightarrow> message cb 25 [Some (be16w (cc_algorithm m)), Some (be24 (cc_uncompressedLength m)),
                              bytes24 cb (Some (cc_compressedCertificateMessage m))])"

definition compressed_unmarshal :: "cryptobyte \<Rightarrow> bytes \<Rightarrow> compressedCertificateMsg option" where
  "compressed_unmarshal cb data = do {
     s \<leftarrow> cb_Skip cb 4 data;
     (algorithm, s1) \<leftarrow> cb_ReadUint16 cb s;
     (n, s2) \<leftarrow> cb_ReadUint24 cb s1;
     (c, s3) \<leftarrow> cb_ReadUint24LengthPrefixed cb s2;
     Some \<lparr>cc_raw = Some data, cc_algorithm = algorithm, cc_uncompressedLength = n, cc_compressedCertificateMessage = c\<rparr>
   }"

record clientEncryptedExtensionsMsg =
  cx_raw :: "bytes option"
  cx_applicationSettings :: bytes
  cx_applicationSettingsCodepoint :: u16
  cx_customExtension :: bytes

abbreviation utlsFakeExtensionCustom :: u16 where "utlsFakeExtensionCustom \<equiv> 1234"

definition clientEncrypted_marshal :: "cryptobyte \<Rightarrow> clientEncryptedExtensionsMsg \<Rightarrow> bytes option" where
  "clientEncrypted_marshal cb m =
     (case cx_raw m of Some raw \<Rightarrow> Some raw
      | None \<Rightarrow> message cb 8 [bytes16 cb (addAll
          [addWhen (cx_applicationSettingsCodepoint m \<noteq> 0)
             (addExtension cb (cx_applicationSettingsCodepoint m) (Some (cx_applicationSettings m))),
           addWhen (cx_customExtension m \<noteq> []) (addExtension cb utlsFakeExtensionCustom (Some (cx_customExtension m)))])])"

definition clientEncryptedExtension ::
    "u16 \<Rightarrow> bytes \<Rightarrow> bool \<Rightarrow> clientEncryptedExtensionsMsg \<Rightarrow> clientEncryptedExtensionsMsg option" where
  "clientEncryptedExtension extension extData isLast m =
     (if extension = utlsExtensionApplicationSettings \<or> extension = utlsExtensionApplicationSettingsNew
      then Some (m\<lparr>cx_applicationSettingsCodepoint := extension, cx_applicationSettings := extData\<rparr>) else None)"

definition clientEncrypted_unmarshal :: "cryptobyte \<Rightarrow> bytes \<Rightarrow> clientEncryptedExtensionsMsg option" where
  "clientEncrypted_unmarshal cb data = do {
     s \<leftarrow> cb_Skip cb 4 data;
     extensions \<leftarrow> whole (cb_ReadUint16LengthPrefixed cb s);
     extensionLoop cb False clientEncryptedExtension (length extensions) [] extensions
       \<lparr>cx_raw = Some data, cx_applicationSettings = [], cx_applicationSettingsCodepoint = 0, cx_customExtension = []\<rparr>
   }"

section \<open>Any message\<close>

datatype handshakeMsg =
    HelloRequest
  | ClientHello clientHelloMsg
  | ServerHello serverHelloMsg
  | NewSessionTicketTLS13 newSessionTicketMsgTLS13
  | NewSessionTicket bytes
  | CertificateTLS13 certificateMsgTLS13
  | CertificateChain "bytes list"
  | CertificateRequestTLS13 certificateRequestMsgTLS13
  | CertificateRequest certificateRequestMsg
  | CertificateStatus bytes
  | ServerKeyExchange bytes
  | ServerHelloDone
  | ClientKeyExchange bytes
  | CertificateVerify "u16 \<times> bytes"
  | Finished bytes
  | EncryptedExtensions encryptedExtensionsMsg
  | ClientEncryptedExtensions clientEncryptedExtensionsMsg
  | EndOfEarlyData
  | KeyUpdate bool
  | CompressedCertificate compressedCertificateMsg

abbreviation VersionTLS12 :: u16 where "VersionTLS12 \<equiv> 0x303"

text \<open>\<open>marshal\<close> of the message a connection of version \<open>vers\<close> sends.\<close>

fun marshalHandshake :: "cryptobyte \<Rightarrow> u16 \<Rightarrow> handshakeMsg \<Rightarrow> bytes option" where
  "marshalHandshake cb vers HelloRequest = Some helloRequest_marshal"
| "marshalHandshake cb vers (ClientHello m) = clientHello_marshal cb m"
| "marshalHandshake cb vers (ServerHello m) = serverHello_marshal cb m"
| "marshalHandshake cb vers (NewSessionTicketTLS13 m) = ticketTLS13_marshal cb m"
| "marshalHandshake cb vers (NewSessionTicket t) = Some (newSessionTicket_marshal t)"
| "marshalHandshake cb vers (CertificateTLS13 m) = certificateTLS13_marshal cb m"
| "marshalHandshake cb vers (CertificateChain cs) = Some (certificate_marshal cs)"
| "marshalHandshake cb vers (CertificateRequestTLS13 m) = requestTLS13_marshal cb m"
| "marshalHandshake cb vers (CertificateRequest m) = Some (request_marshal m)"
| "marshalHandshake cb vers (CertificateStatus r) = certificateStatus_marshal cb r"
| "marshalHandshake cb vers (ServerKeyExchange k) = Some (serverKeyExchange_marshal k)"
| "marshalHandshake cb vers ServerHelloDone = Some serverHelloDone_marshal"
| "marshalHandshake cb vers (ClientKeyExchange c) = Some (clientKeyExchange_marshal c)"
| "marshalHandshake cb vers (CertificateVerify m) = verify_marshal cb (VersionTLS12 \<le> vers) m"
| "marshalHandshake cb vers (Finished d) = finished_marshal cb d"
| "marshalHandshake cb vers (EncryptedExtensions m) = encryptedExtensions_marshal cb m"
| "marshalHandshake cb vers (ClientEncryptedExtensions m) = clientEncrypted_marshal cb m"
| "marshalHandshake cb vers EndOfEarlyData = Some endOfEarlyData_marshal"
| "marshalHandshake cb vers (KeyUpdate u) = keyUpdate_marshal cb u"
| "marshalHandshake cb vers (CompressedCertificate m) = compressed_marshal cb m"

definition fixedLength :: "bytes \<Rightarrow> handshakeMsg \<Rightarrow> handshakeMsg option" where
  "fixedLength data m = (if length data = 4 then Some m else None)"

text \<open>\<open>unmarshalHandshakeMessage\<close>; \<open>None\<close> is the alert for an unexpected message. The data has its four bytes of header.\<close>

definition unmarshalHandshakeMessage :: "cryptobyte \<Rightarrow> u16 \<Rightarrow> bool \<Rightarrow> bytes \<Rightarrow> handshakeMsg option" where
  "unmarshalHandshakeMessage cb vers isClient data =
     (let ty = hd data in
      if ty = 0 then fixedLength data HelloRequest
      else if ty = 1 then map_option ClientHello (clientHello_unmarshal cb data)
      else if ty = 2 then map_option ServerHello (serverHello_unmarshal cb data)
      else if ty = 4 then
        if vers = VersionTLS13 then map_option NewSessionTicketTLS13 (ticketTLS13_unmarshal cb data)
        else map_option NewSessionTicket (newSessionTicket_unmarshal data)
      else if ty = 11 then
        if vers = VersionTLS13 then map_option CertificateTLS13 (certificateTLS13_unmarshal cb data)
        else map_option CertificateChain (certificate_unmarshal data)
      else if ty = 13 then
        if vers = VersionTLS13 then map_option CertificateRequestTLS13 (requestTLS13_unmarshal cb data)
        else map_option CertificateRequest (request_unmarshal (VersionTLS12 \<le> vers) data)
      else if ty = 22 then map_option CertificateStatus (certificateStatus_unmarshal cb data)
      else if ty = 12 then map_option ServerKeyExchange (serverKeyExchange_unmarshal data)
      else if ty = 14 then fixedLength data ServerHelloDone
      else if ty = 16 then map_option ClientKeyExchange (clientKeyExchange_unmarshal data)
      else if ty = 15 then map_option CertificateVerify (verify_unmarshal cb (VersionTLS12 \<le> vers) data)
      else if ty = 20 then map_option Finished (finished_unmarshal cb data)
      else if ty = 5 then fixedLength data EndOfEarlyData
      else if ty = 24 then map_option KeyUpdate (keyUpdate_unmarshal cb data)
      else if ty = 25 then map_option CompressedCertificate (compressed_unmarshal cb data)
      else if ty = 8 then
        if isClient then map_option EncryptedExtensions (encryptedExtensions_unmarshal cb data)
        else map_option ClientEncryptedExtensions (clientEncrypted_unmarshal cb data)
      else None)"

end
