(* ===== verification/Utls_Conn.thy ===== *)
theory Utls_Conn
  imports Utls_Record Utls_Handshake
begin

text \<open>
  A connection after its handshake, \<open>src/utls/conn.go\<close> and the same operations of \<open>src/utls/u_conn.go\<close>: handshake messages from records, what
  the messages after the handshake do (tickets, key updates, requests for a new handshake), reading, and closing.
\<close>

text \<open>What the handshake left: the cipher suite of TLS 1.3 with its two derivations, the resumption secret, and the parts
  of the configuration. A new handshake, the codec and the key derivation are arguments.\<close>

record connCfg =
  cc_cb :: cryptobyte
  cc_isClient :: bool
  cc_nextTrafficSecret :: "(bytes \<Rightarrow> bytes) option"
  cc_trafficKeys :: "bytes \<Rightarrow> recAead"
  cc_Renegotiation :: int
  cc_clientHandshake :: "conn \<Rightarrow> connErr option \<times> conn"
  cc_sessionCache :: bool
  cc_cacheKey :: string
  cc_resumptionSecret :: "bytes option"
  cc_resumptionPsk :: "bytes \<Rightarrow> bytes \<Rightarrow> bytes"
  cc_time :: int

abbreviation alertIllegalParameter :: byte where "alertIllegalParameter \<equiv> 47"
abbreviation alertInternalError :: byte where "alertInternalError \<equiv> 80"
abbreviation alertNoRenegotiation :: byte where "alertNoRenegotiation \<equiv> 100"

section \<open>Handshake messages\<close>

text \<open>An alert, and then an error of its own; with \<open>fatal\<close> nothing can be read afterwards.\<close>

definition alertThen :: "connEnv \<Rightarrow> byte \<Rightarrow> bool \<Rightarrow> string \<Rightarrow> conn \<Rightarrow> (connErr \<times> conn) option" where
  "alertThen env a fatal msg c = map_option (\<lambda>(err, c'). (OtherErr msg, if fatal then setErrorIn (OtherErr msg) c' else c')) (sendAlert env a c)"

text \<open>\<open>c.in.setErrorLocked(c.sendAlert(a))\<close>, and \<open>c.sendAlert(a)\<close> as the result.\<close>

definition alertIn :: "connEnv \<Rightarrow> byte \<Rightarrow> conn \<Rightarrow> (connErr \<times> conn) option" where
  "alertIn env a c = map_option (\<lambda>(err, c'). (LocalAlert a, c'\<lparr>cn_inErr := err\<rparr>)) (sendAlert env a c)"

definition alertOut :: "connEnv \<Rightarrow> byte \<Rightarrow> conn \<Rightarrow> (connErr \<times> conn) option" where
  "alertOut env a c = map_option (\<lambda>(err, c'). (LocalAlert a, c')) (sendAlert env a c)"

definition knownTypes :: "byte list" where
  "knownTypes = [0, 1, 2, 4, 5, 8, 11, 12, 13, 14, 15, 16, 20, 22, 24, 25]"

definition failing :: "(connErr \<times> conn) option \<Rightarrow> ((connErr + 'a) \<times> conn) option" where
  "failing r = map_option (\<lambda>(e, c). (Inl e, c)) r"

text \<open>A message of an unknown type gets its alert twice: from the choice of the type and from its caller.\<close>

definition unmarshalNext :: "connCfg \<Rightarrow> connEnv \<Rightarrow> bytes \<Rightarrow> conn \<Rightarrow> ((connErr + handshakeMsg) \<times> conn) option" where
  "unmarshalNext cfg env data c =
     (if hd data \<notin> set knownTypes
      then case alertIn env alertUnexpectedMessage c of None \<Rightarrow> None | Some (e, c') \<Rightarrow> failing (alertIn env alertUnexpectedMessage c')
      else case unmarshalHandshakeMessage (cc_cb cfg) (cn_vers c) (cc_isClient cfg) data of
             None \<Rightarrow> failing (alertIn env alertUnexpectedMessage c)
           | Some m \<Rightarrow> Some (Inr m, c))"

definition moreBytes :: "connEnv \<Rightarrow> nat \<Rightarrow> conn \<Rightarrow> (connErr option \<times> conn) option" where
  "moreBytes env n c = readHandshakeBytes env (Suc (length (cn_rawInput c))) n c"

definition readHandshake :: "connCfg \<Rightarrow> connEnv \<Rightarrow> conn \<Rightarrow> ((connErr + handshakeMsg) \<times> conn) option" where
  "readHandshake cfg env c =
     (case moreBytes env 4 c of
        None \<Rightarrow> None
      | Some (Some e, c1) \<Rightarrow> Some (Inl e, c1)
      | Some (None, c1) \<Rightarrow>
          let data = cn_hand c1; n = val24 (data ! 1) (data ! 2) (data ! 3);
              maxHandshakeSize = (if cn_haveVers c1 \<and> hd data = 11 then 262144 else 65536) in
          if maxHandshakeSize < n then failing (alertThen env alertInternalError True ''tls: handshake message exceeds maximum'' c1)
          else case moreBytes env (4 + n) c1 of
                 None \<Rightarrow> None
               | Some (Some e, c2) \<Rightarrow> Some (Inl e, c2)
               | Some (None, c2) \<Rightarrow> unmarshalNext cfg env (take (4 + n) (cn_hand c2)) (c2\<lparr>cn_hand := drop (4 + n) (cn_hand c2)\<rparr>))"

definition writeHandshakeRecord :: "connCfg \<Rightarrow> connEnv \<Rightarrow> handshakeMsg \<Rightarrow> conn \<Rightarrow> (nat \<times> connErr option \<times> conn) option" where
  "writeHandshakeRecord cfg env msg c =
     (case marshalHandshake (cc_cb cfg) (cn_vers c) msg of
        None \<Rightarrow> Some (0, Some (OtherErr ''marshal''), c)
      | Some data \<Rightarrow> writeRecordLocked env recordTypeHandshake data c)"

section \<open>Messages after the handshake\<close>

definition erring :: "(connErr \<times> conn) option \<Rightarrow> (connErr option \<times> conn) option" where
  "erring r = map_option (\<lambda>(e, c). (Some e, c)) r"

text \<open>Both directions move to the next secret, this side only when it was asked to; its own message is still sealed with
  the old keys. An error of the write shows at the next one.\<close>

definition handleKeyUpdate :: "connCfg \<Rightarrow> connEnv \<Rightarrow> bool \<Rightarrow> conn \<Rightarrow> (connErr option \<times> conn) option" where
  "handleKeyUpdate cfg env updateRequested c =
     (case cc_nextTrafficSecret cfg of
        None \<Rightarrow> erring (alertIn env alertInternalError c)
      | Some nextSecret \<Rightarrow>
          let renew = (\<lambda>hc. setTrafficSecret (cc_trafficKeys cfg) (nextSecret (hc_trafficSecret hc)) hc);
              c1 = c\<lparr>cn_in := renew (cn_in c)\<rparr> in
          if \<not> updateRequested then Some (None, c1)
          else case keyUpdate_marshal (cc_cb cfg) False of
                 None \<Rightarrow> Some (Some (OtherErr ''marshal''), c1)
               | Some msgBytes \<Rightarrow>
                   (case writeRecordLocked env recordTypeHandshake msgBytes c1 of
                      None \<Rightarrow> None
                    | Some (n, Some e, c2) \<Rightarrow> Some (None, setErrorOut e c2)
                    | Some (n, None, c2) \<Rightarrow> Some (None, c2\<lparr>cn_out := renew (cn_out c2)\<rparr>)))"

definition handleNewSessionTicket :: "connCfg \<Rightarrow> connEnv \<Rightarrow> newSessionTicketMsgTLS13 \<Rightarrow> conn \<Rightarrow> (connErr option \<times> conn) option" where
  "handleNewSessionTicket cfg env msg c =
     (if \<not> cc_isClient cfg then erring (alertThen env alertUnexpectedMessage False ''tls: received new session ticket from a client'' c)
      else if \<not> cc_sessionCache cfg then Some (None, c)
      else if nt_lifetime msg = 0 then Some (None, c)
      else if 604800 < unat (nt_lifetime msg)
      then erring (alertThen env alertIllegalParameter False ''tls: received a session ticket with invalid lifetime'' c)
      else case (cc_nextTrafficSecret cfg, cc_resumptionSecret cfg) of
             (Some s, Some resumption) \<Rightarrow>
               let session = \<lparr>ts_secret = cc_resumptionPsk cfg resumption (nt_nonce msg), ts_useBy = cc_time cfg + int (unat (nt_lifetime msg)),
                     ts_ageAdd = nt_ageAdd msg, ts_ticket = nt_label msg\<rparr> in
               Some (None, if cc_cacheKey cfg \<noteq> '''' then c\<lparr>cn_sessionPuts := cn_sessionPuts c @ [(cc_cacheKey cfg, session)]\<rparr> else c)
           | _ \<Rightarrow> erring (alertOut env alertInternalError c))"

text \<open>A request for a new handshake. Its answer is an alert, unless the configuration allows the client to start over.\<close>

definition handleRenegotiation :: "connCfg \<Rightarrow> connEnv \<Rightarrow> conn \<Rightarrow> (connErr option \<times> conn) option" where
  "handleRenegotiation cfg env c =
     (if cn_vers c = VersionTLS13 then Some (Some (OtherErr ''tls: internal error: unexpected renegotiation''), c)
      else case readHandshake cfg env c of
        None \<Rightarrow> None
      | Some (Inl e, c1) \<Rightarrow> Some (Some e, c1)
      | Some (Inr msg, c1) \<Rightarrow>
          if msg \<noteq> HelloRequest then erring (alertThen env alertUnexpectedMessage False ''tls: received unexpected handshake message'' c1)
          else if \<not> cc_isClient cfg then erring (alertOut env alertNoRenegotiation c1)
          else if cc_Renegotiation cfg = 0 \<or> cc_Renegotiation cfg = 1 \<and> 1 < cn_handshakes c1 then erring (alertOut env alertNoRenegotiation c1)
          else if cc_Renegotiation cfg \<noteq> 1 \<and> cc_Renegotiation cfg \<noteq> 2
          then erring (alertThen env alertInternalError False ''tls: unknown Renegotiation value'' c1)
          else let (err, c2) = cc_clientHandshake cfg (c1\<lparr>cn_handshakeComplete := False\<rparr>) in
               Some (err, if err = None then c2\<lparr>cn_handshakes := cn_handshakes c2 + 1\<rparr> else c2))"

definition handlePostHandshakeMessage :: "connCfg \<Rightarrow> connEnv \<Rightarrow> conn \<Rightarrow> (connErr option \<times> conn) option" where
  "handlePostHandshakeMessage cfg env c =
     (if cn_vers c \<noteq> VersionTLS13 then handleRenegotiation cfg env c
      else case readHandshake cfg env c of
        None \<Rightarrow> None
      | Some (Inl e, c1) \<Rightarrow> Some (Some e, c1)
      | Some (Inr msg, c1) \<Rightarrow>
          let c2 = c1\<lparr>cn_retryCount := cn_retryCount c1 + 1\<rparr> in
          if maxUselessRecords < cn_retryCount c2 then erring (alertThen env alertUnexpectedMessage True ''tls: too many non-advancing records'' c2)
          else case msg of
                 NewSessionTicketTLS13 m \<Rightarrow> handleNewSessionTicket cfg env m c2
               | KeyUpdate req \<Rightarrow> handleKeyUpdate cfg env req c2
               | _ \<Rightarrow> erring (alertThen env alertUnexpectedMessage False ''tls: received unexpected handshake message'' c2))"

section \<open>Reading and closing\<close>

text \<open>The two loops of \<open>Read\<close>: messages while there are bytes of the handshake, records until there is application data. Every message takes
  bytes and every record too, so fuel of the bytes that are there is enough as long as no new handshake is made.\<close>

fun postMessages :: "connCfg \<Rightarrow> connEnv \<Rightarrow> nat \<Rightarrow> conn \<Rightarrow> (connErr option \<times> conn) option" where
  "postMessages cfg env fuel c =
     (if cn_hand c = [] then Some (None, c)
      else case fuel of
        0 \<Rightarrow> None
      | Suc k \<Rightarrow> (case handlePostHandshakeMessage cfg env c of
            None \<Rightarrow> None
          | Some (Some e, c') \<Rightarrow> Some (Some e, c')
          | Some (None, c') \<Rightarrow> postMessages cfg env k c'))"

fun readInput :: "connCfg \<Rightarrow> connEnv \<Rightarrow> nat \<Rightarrow> conn \<Rightarrow> (connErr option \<times> conn) option" where
  "readInput cfg env fuel c =
     (if cn_input c \<noteq> [] then Some (None, c)
      else case fuel of
        0 \<Rightarrow> None
      | Suc k \<Rightarrow> (case readRecordOrCCS env False c of
            None \<Rightarrow> None
          | Some (Some e, c1) \<Rightarrow> Some (Some e, c1)
          | Some (None, c1) \<Rightarrow> (case postMessages cfg env (length (cn_hand c1) + length (cn_rawInput c1)) c1 of
                None \<Rightarrow> None
              | Some (Some e, c2) \<Rightarrow> Some (Some e, c2)
              | Some (None, c2) \<Rightarrow> readInput cfg env k c2)))"

declare postMessages.simps [simp del] readInput.simps [simp del]

text \<open>\<open>Read\<close> with a buffer of \<open>n\<close> bytes. An alert that has already arrived is read at once.\<close>

definition tlsRead :: "connCfg \<Rightarrow> connEnv \<Rightarrow> nat \<Rightarrow> conn \<Rightarrow> (bytes \<times> connErr option \<times> conn) option" where
  "tlsRead cfg env n c =
     (if n = 0 then Some ([], None, c)
      else case readInput cfg env (Suc (length (cn_rawInput c))) c of
        None \<Rightarrow> None
      | Some (Some e, c1) \<Rightarrow> Some ([], Some e, c1)
      | Some (None, c1) \<Rightarrow>
          let b = take n (cn_input c1); c2 = c1\<lparr>cn_input := drop n (cn_input c1)\<rparr> in
          if b \<noteq> [] \<and> cn_input c2 = [] \<and> cn_rawInput c2 \<noteq> [] \<and> ce_arrived env (cn_rawInput c2) \<and> hd (cn_rawInput c2) = recordTypeAlert
          then map_option (\<lambda>(err, c3). (b, err, c3)) (readRecordOrCCS env False c2)
          else Some (b, None, c2))"

text \<open>\<open>Close\<close>: \<open>active\<close> is the counter of the calls of \<open>Write\<close>, \<open>closing\<close> what closing the connection below gives.\<close>

definition connClose :: "connEnv \<Rightarrow> nat \<Rightarrow> connErr option \<Rightarrow> conn \<Rightarrow> (connErr option \<times> nat \<times> conn) option" where
  "connClose env active closing c =
     (if odd active then Some (Some (OtherErr ''use of closed network connection''), active, c)
      else if active \<noteq> 0 then Some (closing, active + 1, c\<lparr>cn_closed := True\<rparr>)
      else case (if cn_handshakeComplete c then closeNotify env c else Some (None, c)) of
             None \<Rightarrow> None
           | Some (err, c1) \<Rightarrow>
               let alertErr = (if err = None then None else Some (OtherErr ''tls: failed to send closeNotify alert (but connection was closed anyway)'')) in
               Some (if closing \<noteq> None then closing else alertErr, active + 1, c1\<lparr>cn_closed := True\<rparr>))"

definition CloseWrite :: "connEnv \<Rightarrow> conn \<Rightarrow> (connErr option \<times> conn) option" where
  "CloseWrite env c = (if \<not> cn_handshakeComplete c then Some (Some (OtherErr ''tls: CloseWrite called before handshake complete''), c) else closeNotify env c)"

end
