(* ===== verification/Utls_Handshake_Correct.thy ===== *)
theory Utls_Handshake_Correct
  imports Utls_Handshake Utls_Messages_Correct
begin

text \<open>
  Every handshake message of \<open>Utls_Handshake\<close> can be read by the peer it is sent to, and the bytes of the messages may arrive in
  any pieces.
\<close>

section \<open>Messages with extensions\<close>

abbreviation keep :: "bool \<Rightarrow> u16 \<Rightarrow> 'm \<Rightarrow> 'm" where "keep b ty m \<equiv> m"

definition serverItems :: "cryptobyte \<Rightarrow> serverHelloMsg \<Rightarrow> serverHelloMsg extItem list" where
  "serverItems cb m =
     [(sh_ocspStapling m, extensionStatusRequest, Some [], \<lambda>x. x\<lparr>sh_ocspStapling := sh_ocspStapling m\<rparr>),
      (sh_ticketSupported m, extensionSessionTicket, Some [], \<lambda>x. x\<lparr>sh_ticketSupported := sh_ticketSupported m\<rparr>),
      (sh_secureRenegotiationSupported m, extensionRenegotiationInfo, bytes8 cb (Some (sh_secureRenegotiation m)),
         \<lambda>x. x\<lparr>sh_secureRenegotiation := sh_secureRenegotiation m, sh_secureRenegotiationSupported := sh_secureRenegotiationSupported m\<rparr>),
      (sh_extendedMasterSecret m, extensionExtendedMasterSecret, Some [], \<lambda>x. x\<lparr>sh_extendedMasterSecret := sh_extendedMasterSecret m\<rparr>),
      (sh_alpnProtocol m \<noteq> '''', extensionALPN, oneProto cb (sh_alpnProtocol m), \<lambda>x. x\<lparr>sh_alpnProtocol := sh_alpnProtocol m\<rparr>),
      (sh_scts m \<noteq> [], extensionSCT, byteLists cb (sh_scts m), \<lambda>x. x\<lparr>sh_scts := sh_scts m\<rparr>),
      (sh_supportedVersion m \<noteq> 0, extensionSupportedVersions, Some (be16w (sh_supportedVersion m)),
         \<lambda>x. x\<lparr>sh_supportedVersion := sh_supportedVersion m\<rparr>),
      (ks_Group (sh_serverShare m) \<noteq> 0, extensionKeyShare, keyShareBytes cb (sh_serverShare m), \<lambda>x. x\<lparr>sh_serverShare := sh_serverShare m\<rparr>),
      (sh_selectedIdentityPresent m, extensionPreSharedKey, Some (be16w (sh_selectedIdentity m)),
         \<lambda>x. x\<lparr>sh_selectedIdentityPresent := sh_selectedIdentityPresent m, sh_selectedIdentity := sh_selectedIdentity m\<rparr>),
      (sh_cookie m \<noteq> [], extensionCookie, bytes16 cb (Some (sh_cookie m)), \<lambda>x. x\<lparr>sh_cookie := sh_cookie m\<rparr>),
      (sh_selectedGroup m \<noteq> 0, extensionKeyShare, Some (be16w (sh_selectedGroup m)), \<lambda>x. x\<lparr>sh_selectedGroup := sh_selectedGroup m\<rparr>),
      (sh_supportedPoints m \<noteq> [], extensionSupportedPoints, bytes8 cb (Some (sh_supportedPoints m)),
         \<lambda>x. x\<lparr>sh_supportedPoints := sh_supportedPoints m\<rparr>),
      (sh_encryptedClientHello m \<noteq> [], extensionEncryptedClientHello, Some (sh_encryptedClientHello m),
         \<lambda>x. x\<lparr>sh_encryptedClientHello := sh_encryptedClientHello m\<rparr>),
      (sh_serverNameAck m, extensionServerName, Some [], \<lambda>x. x\<lparr>sh_serverNameAck := sh_serverNameAck m\<rparr>)]"

text \<open>A ServerHello answers with a share, or as a retry request with a group, not with both.\<close>

definition sendableServer :: "serverHelloMsg \<Rightarrow> bool" where
  "sendableServer m \<longleftrightarrow> (sh_secureRenegotiation m \<noteq> [] \<longrightarrow> sh_secureRenegotiationSupported m) \<and> list_all (\<lambda>s. s \<noteq> []) (sh_scts m) \<and>
     (ks_Group (sh_serverShare m) = 0 \<longrightarrow> ks_Data (sh_serverShare m) = []) \<and> (sh_selectedIdentity m \<noteq> 0 \<longrightarrow> sh_selectedIdentityPresent m) \<and>
     (ks_Group (sh_serverShare m) = 0 \<or> sh_selectedGroup m = 0)"

definition leafItems :: "cryptobyte \<Rightarrow> certificate \<Rightarrow> certificate extItem list" where
  "leafItems cb c =
     [(ce_OCSPStaple c \<noteq> None, extensionStatusRequest, addAll [Some [1], bytes24 cb (ce_OCSPStaple c)], \<lambda>x. x\<lparr>ce_OCSPStaple := ce_OCSPStaple c\<rparr>),
      (ce_SignedCertificateTimestamps c \<noteq> None, extensionSCT, Option.bind (ce_SignedCertificateTimestamps c) (byteLists cb),
         \<lambda>x. x\<lparr>ce_SignedCertificateTimestamps := ce_SignedCertificateTimestamps c\<rparr>)]"

definition stapled :: "certificate \<Rightarrow> bool" where
  "stapled c \<longleftrightarrow> (ce_Certificate c = [] \<longrightarrow> ce_OCSPStaple c = None \<and> ce_SignedCertificateTimestamps c = None) \<and> ce_OCSPStaple c \<noteq> Some [] \<and>
     (case ce_SignedCertificateTimestamps c of None \<Rightarrow> True | Some scts \<Rightarrow> scts \<noteq> [] \<and> list_all (\<lambda>t. t \<noteq> []) scts)"

definition sendableRequest :: "certificateRequestMsg \<Rightarrow> bool" where
  "sendableRequest m \<longleftrightarrow> rq_certificateTypes m \<noteq> [] \<and> length (rq_certificateTypes m) < 256 \<and> 2 * length (rq_supportedSignatureAlgorithms m) < 65536 \<and>
     (rq_supportedSignatureAlgorithms m \<noteq> [] \<longrightarrow> rq_hasSignatureAlgorithm m) \<and>
     sum_list (map (\<lambda>ca. 2 + length ca) (rq_certificateAuthorities m)) < 65536"

context cryptobyte_reader
begin

lemma readOneProto_back:
  assumes "p \<noteq> ''''" "oneProto cb p = Some d"
  shows "readOneProto cb d = Some p"
proof -
  have d: "length p < 256" "d = be16 (Suc (length p)) @ word_of_nat (length p) # strBytes p"
    using assms(2) by (auto simp: oneProto_def bytes8_eq bytes16_eq)
  have "readProto cb (word_of_nat (length p) # strBytes p) = Some (p, [])"
    using readProto_back [of p "[]"] assms(1) d(1) by simp
  then show ?thesis
    using d ReadUint16_prefixed'(2) [of "Suc (length p)" "word_of_nat (length p) # strBytes p"] by (simp add: readOneProto_def)
qed

lemma byteLists_back:
  assumes "bss \<noteq> []" "list_all (\<lambda>b. b \<noteq> []) bss" "byteLists cb bss = Some d"
  shows "list16 cb (readBytes16 cb) d = Some bss"
proof -
  let ?enc = "\<lambda>b. be16 (length b) @ b"
  obtain y where y: "addAll (map (\<lambda>b. bytes16 cb (Some b)) bss) = Some y" "length y < 65536" "d = be16 (length y) @ y"
    using assms(3) by (auto simp: byteLists_def bytes16_eq)
  have "y = concat (map ?enc bss)" "list_all (\<lambda>b. bytes16 cb (Some b) = Some (?enc b)) bss"
    using addAll_enc [OF _ y(1), of ?enc] by (auto simp: bytes16_eq)
  then show ?thesis
    using assms(1, 2) y unfolding y(3) by (auto intro!: list16_back simp: list_all_iff bytes16_eq)
qed

lemma extensionLoop_plain:
  assumes "addAll (map (itemPart cb) items) = Some bs" "itemsOk handle keep items m"
  shows "extensionLoop cb False handle (length bs) [] bs m = Some (itemsResult keep items m)"
  using extensionLoop_items [OF assms] by simp

lemma serverItems_parts: "addAll (map (itemPart cb) (serverItems cb m)) = addAll (serverExtensionParts cb m)"
  by (simp add: serverItems_def serverExtensionParts_def itemPart_def emptyExtension del: addAll.simps)

lemma serverItems_ok:
  assumes "sendableServer m"
  shows "itemsOk (serverExtension cb) keep (serverItems cb m)
    (emptyServerHello\<lparr>sh_vers := v, sh_random := r, sh_sessionId := i, sh_cipherSuite := s, sh_compressionMethod := c\<rparr>)"
  using assms
  by (auto simp: serverItems_def sendableServer_def serverExtension_def bytes8_eq bytes16_eq [of "Some _"] readOneProto_back byteLists_back keyShareBytes_eq
    emptyServerHello_def)

lemma serverItems_distinct:
  assumes "sendableServer m"
  shows "distinct (presentTypes (serverItems cb m))"
proof (cases "sh_selectedGroup m = 0")
  case True
  then have "filter (\<lambda>(b, ty, body, u). b) (serverItems cb m) = filter (\<lambda>(b, ty, body, u). b) (take 10 (serverItems cb m) @ drop 11 (serverItems cb m))"
    by (simp add: serverItems_def)
  moreover have "distinct (map (\<lambda>(b, ty, body, u). ty) (take 10 (serverItems cb m) @ drop 11 (serverItems cb m)))"
    by (simp add: serverItems_def)
  ultimately show ?thesis by (metis distinct_map_filter)
next
  case False
  then have "filter (\<lambda>(b, ty, body, u). b) (serverItems cb m) = filter (\<lambda>(b, ty, body, u). b) (take 7 (serverItems cb m) @ drop 8 (serverItems cb m))"
    using assms by (simp add: serverItems_def sendableServer_def)
  moreover have "distinct (map (\<lambda>(b, ty, body, u). ty) (take 7 (serverItems cb m) @ drop 8 (serverItems cb m)))"
    by (simp add: serverItems_def)
  ultimately show ?thesis by (metis distinct_map_filter)
qed

lemma serverHello_back:
  assumes "sendableServer m" "serverHello_marshal cb m = Some bs"
  shows "serverHello_unmarshal cb bs = Some m"
proof -
  obtain exts y where exts: "addAll (serverExtensionParts cb m) = Some exts"
    and y: "addAll [Some (be16w (sh_vers m)), addBytesWithLength (sh_random m) 32, bytes8 cb (Some (sh_sessionId m)),
        Some (be16w (sh_cipherSuite m)), Some [sh_compressionMethod m], addWhen (exts \<noteq> []) (bytes16 cb (Some exts))] = Some y"
      "bs = 2 # be24 (length y) @ y"
    using assms by (auto simp: serverHello_marshal_def message_eq split: bind_splits)
  let ?m = "emptyServerHello\<lparr>sh_vers := sh_vers m, sh_random := sh_random m, sh_sessionId := sh_sessionId m,
    sh_cipherSuite := sh_cipherSuite m, sh_compressionMethod := sh_compressionMethod m\<rparr>"
  have "extensionLoop cb True (serverExtension cb) (length exts) [] exts ?m = Some (itemsResult keep (serverItems cb m) ?m)"
    using serverItems_ok [OF assms(1)] exts serverItems_distinct [OF assms(1)] by (intro extensionLoop_items) (simp_all add: serverItems_parts)
  moreover have "itemsResult keep (serverItems cb m) ?m = m"
    by (cases m) (simp add: serverItems_def emptyServerHello_def)
  ultimately show ?thesis
    using y by (auto simp: serverHello_unmarshal_def bytes8_eq bytes16_eq addBytesWithLength_def addWhen_def split: if_splits option.splits)
qed

lemma encryptedExtensions_back:
  assumes "en_applicationSettings m = []" "en_applicationSettingsCodepoint m = 0" "encryptedExtensions_marshal cb m = Some bs"
  shows "encryptedExtensions_unmarshal cb bs = Some m"
proof -
  let ?items = "[(en_alpnProtocol m \<noteq> '''', extensionALPN, oneProto cb (en_alpnProtocol m), \<lambda>x. x\<lparr>en_alpnProtocol := en_alpnProtocol m\<rparr>),
      (en_quicTransportParameters m \<noteq> None, extensionQUICTransportParameters, en_quicTransportParameters m,
         \<lambda>x. x\<lparr>en_quicTransportParameters := en_quicTransportParameters m\<rparr>),
      (en_earlyData m, extensionEarlyData, Some [], \<lambda>x. x\<lparr>en_earlyData := en_earlyData m\<rparr>),
      (en_echRetryConfigs m \<noteq> [], extensionEncryptedClientHello, Some (en_echRetryConfigs m), \<lambda>x. x\<lparr>en_echRetryConfigs := en_echRetryConfigs m\<rparr>)]
      :: encryptedExtensionsMsg extItem list"
  let ?m = "\<lparr>en_alpnProtocol = '''', en_quicTransportParameters = None, en_earlyData = False, en_echRetryConfigs = [],
        en_applicationSettings = [], en_applicationSettingsCodepoint = 0\<rparr>"
  obtain exts where exts: "addAll (map (itemPart cb) ?items) = Some exts" "length exts < 65536"
      "bs = 8 # be24 (2 + length exts) @ be16 (length exts) @ exts"
    using assms(3) by (auto simp: encryptedExtensions_marshal_def message_eq itemPart_def emptyExtension bytes16_eq addAll_Cons_Some simp del: addAll.simps(2))
  have "itemsOk (encryptedExtension cb) keep ?items ?m"
    by (auto simp: encryptedExtension_def readOneProto_back)
  then have "extensionLoop cb False (encryptedExtension cb) (length exts) [] exts ?m = Some (itemsResult keep ?items ?m)"
    by (rule extensionLoop_plain [OF exts(1)])
  moreover have "itemsResult keep ?items ?m = m" using assms(1, 2) by (cases m) simp
  ultimately show ?thesis using exts by (simp add: encryptedExtensions_unmarshal_def)
qed

lemma ticketTLS13_back:
  assumes "ticketTLS13_marshal cb m = Some bs"
  shows "ticketTLS13_unmarshal cb bs = Some m"
proof -
  let ?items = "[(nt_maxEarlyData m \<noteq> 0, extensionEarlyData, Some (be32w (nt_maxEarlyData m)), \<lambda>x. x\<lparr>nt_maxEarlyData := nt_maxEarlyData m\<rparr>)]
      :: newSessionTicketMsgTLS13 extItem list"
  let ?m = "\<lparr>nt_lifetime = nt_lifetime m, nt_ageAdd = nt_ageAdd m, nt_nonce = nt_nonce m, nt_label = nt_label m, nt_maxEarlyData = 0\<rparr>"
  obtain exts y where exts: "addAll (map (itemPart cb) ?items) = Some exts" "length exts < 65536" "length (nt_nonce m) < 256" "length (nt_label m) < 65536"
      "bs = 4 # be24 (length y) @ y"
      "y = be32w (nt_lifetime m) @ be32w (nt_ageAdd m) @ word_of_nat (length (nt_nonce m)) # nt_nonce m @
        be16 (length (nt_label m)) @ nt_label m @ be16 (length exts) @ exts"
    using assms by (auto simp: ticketTLS13_marshal_def message_eq itemPart_def bytes8_eq bytes16_eq word_gt_0 split: option.splits)
  have "itemsOk (ticketExtension cb) keep ?items ?m"
    using ReadUint32_be32 [of "nt_maxEarlyData m" "[]"] by (simp add: ticketExtension_def)
  then have "extensionLoop cb False (ticketExtension cb) (length exts) [] exts ?m = Some (itemsResult keep ?items ?m)"
    by (rule extensionLoop_plain [OF exts(1)])
  moreover have "itemsResult keep ?items ?m = m" by (cases m) simp
  ultimately show ?thesis using exts(2-) by (simp add: ticketTLS13_unmarshal_def)
qed

lemma requestTLS13_back:
  assumes "list_all (\<lambda>ca. ca \<noteq> []) (cr_certificateAuthorities m)" "requestTLS13_marshal cb m = Some bs"
  shows "requestTLS13_unmarshal cb bs = Some m"
proof -
  let ?items = "[(cr_ocspStapling m, extensionStatusRequest, Some [], \<lambda>x. x\<lparr>cr_ocspStapling := cr_ocspStapling m\<rparr>),
      (cr_scts m, extensionSCT, Some [], \<lambda>x. x\<lparr>cr_scts := cr_scts m\<rparr>),
      (cr_supportedSignatureAlgorithms m \<noteq> [], extensionSignatureAlgorithms, bytes16 cb (Some (u16s (cr_supportedSignatureAlgorithms m))),
         \<lambda>x. x\<lparr>cr_supportedSignatureAlgorithms := cr_supportedSignatureAlgorithms m\<rparr>),
      (cr_supportedSignatureAlgorithmsCert m \<noteq> [], extensionSignatureAlgorithmsCert, bytes16 cb (Some (u16s (cr_supportedSignatureAlgorithmsCert m))),
         \<lambda>x. x\<lparr>cr_supportedSignatureAlgorithmsCert := cr_supportedSignatureAlgorithmsCert m\<rparr>),
      (cr_certificateAuthorities m \<noteq> [], extensionCertificateAuthorities, byteLists cb (cr_certificateAuthorities m),
         \<lambda>x. x\<lparr>cr_certificateAuthorities := cr_certificateAuthorities m\<rparr>)]
      :: certificateRequestMsgTLS13 extItem list"
  let ?m = "\<lparr>cr_ocspStapling = False, cr_scts = False, cr_supportedSignatureAlgorithms = [], cr_supportedSignatureAlgorithmsCert = [],
    cr_certificateAuthorities = []\<rparr>"
  obtain exts y where exts: "addAll (map (itemPart cb) ?items) = Some exts" "length exts < 65536" "bs = 13 # be24 (length y) @ y"
      "y = 0 # be16 (length exts) @ exts"
    using assms(2) by (auto simp: requestTLS13_marshal_def message_eq itemPart_def emptyExtension bytes16_eq addAll_Cons_Some simp del: addAll.simps(2))
  have "itemsOk (requestExtension cb) keep ?items ?m"
    using assms(1) by (auto simp: requestExtension_def byteLists_back bytes16_eq [of "Some _"] list16_u16s)
  then have "extensionLoop cb False (requestExtension cb) (length exts) [] exts ?m = Some (itemsResult keep ?items ?m)"
    by (rule extensionLoop_plain [OF exts(1)])
  moreover have "itemsResult keep ?items ?m = m" by (cases m) simp
  moreover have "cb_ReadUint8LengthPrefixed cb y = Some ([], be16 (length exts) @ exts)"
    using ReadUint8_prefixed'(1) [of 0 "[]" "be16 (length exts) @ exts"] exts(4) by simp
  ultimately show ?thesis using exts(2,3) by (simp add: requestTLS13_unmarshal_def)
qed

text \<open>Certificates: the extensions belong to the first one.\<close>

lemma certEntry_eq:
  "certEntry cb cert (Some exts) = Some b \<longleftrightarrow>
    length cert < 16777216 \<and> length exts < 65536 \<and> b = be24 (length cert) @ cert @ be16 (length exts) @ exts"
  by (auto simp: certEntry_def bytes24_Some bytes16_Some split: if_splits)

lemma certEntry_None: "certEntry cb cert None = None"
  by (simp add: certEntry_def bytes16_def split: option.split)

lemma certEntries_step:
  assumes "length cert < 16777216" "length exts < 65536"
    and "extensionLoop cb False (leafExtension cb) (length exts) [] exts (c\<lparr>ce_Certificate := ce_Certificate c @ [cert]\<rparr>) = Some c'"
  shows "certEntries cb (Suc fuel) (be24 (length cert) @ cert @ be16 (length exts) @ exts @ rest) c = certEntries cb fuel rest c'"
proof -
  obtain b s where bs: "be24 (length cert) @ cert @ be16 (length exts) @ exts @ rest = b # s" by (simp add: be24_def)
  then have "cb_ReadUint24LengthPrefixed cb (b # s) = Some (cert, be16 (length exts) @ exts @ rest)"
    using ReadUint24_prefixed(1) [OF refl assms(1), of "be16 (length exts) @ exts @ rest"] by simp
  then show ?thesis unfolding bs using assms by simp
qed

lemma certEntries_rest:
  assumes "list_all (\<lambda>cert. length cert < 16777216) certs" "length certs \<le> fuel"
  shows "certEntries cb fuel (concat (map (\<lambda>cert. be24 (length cert) @ cert @ be16 0) certs)) c =
    Some (c\<lparr>ce_Certificate := ce_Certificate c @ certs\<rparr>)"
  using assms
proof (induction certs arbitrary: fuel c)
  case (Cons cert certs)
  obtain k where "fuel = Suc k" using Cons.prems(2) by (cases fuel) auto
  then show ?case
    using Cons certEntries_step [of cert "[]" c _ k "concat (map (\<lambda>cert. be24 (length cert) @ cert @ be16 0) certs)"] by simp
qed simp

lemma leafItems_parts: "addAll (map (itemPart cb) (leafItems cb c)) = leafExtensions cb c"
  by (auto simp: leafItems_def leafExtensions_def itemPart_def addWhen_def simp del: addAll.simps split: option.split)

lemma leafItems_ok:
  assumes "stapled c"
  shows "itemsOk (leafExtension cb) keep (leafItems cb c) \<lparr>ce_Certificate = [leaf], ce_OCSPStaple = None, ce_SignedCertificateTimestamps = None\<rparr>"
proof -
  have "leafExtension cb extensionStatusRequest (1 # be24 (length staple) @ staple) l x = Some (x\<lparr>ce_OCSPStaple := Some staple\<rparr>)"
    if "staple \<noteq> []" "length staple < 16777216" "ce_Certificate x = [leaf]" for staple l x
    using that by (simp add: leafExtension_def)
  moreover have "leafExtension cb extensionSCT d l x = Some (x\<lparr>ce_SignedCertificateTimestamps := Some scts\<rparr>)"
    if "byteLists cb scts = Some d" "scts \<noteq> []" "list_all (\<lambda>t. t \<noteq> []) scts" "ce_Certificate x = [leaf]" "ce_SignedCertificateTimestamps x = None" for scts d l x
    using that byteLists_back [of scts d] by (simp add: leafExtension_def)
  ultimately show ?thesis
    using assms by (auto simp: leafItems_def stapled_def bytes24_eq split: option.splits)
qed

lemma unmarshalCertificate_back:
  assumes "stapled c" "marshalCertificate cb c = Some b"
  shows "unmarshalCertificate cb b = Some (c, [])"
proof (cases "ce_Certificate c")
  case Nil
  then show ?thesis
    using assms ReadUint24_prefixed(2) [of 0 "[]"]
    by (cases c) (auto simp: marshalCertificate_def bytes24_Some stapled_def unmarshalCertificate_def)
next
  case (Cons leaf rest)
  let ?enc = "\<lambda>cert. be24 (length cert) @ cert @ be16 0"
  let ?c = "\<lparr>ce_Certificate = [], ce_OCSPStaple = None, ce_SignedCertificateTimestamps = None\<rparr>"
  obtain exts y z where e: "leafExtensions cb c = Some exts" "certEntry cb leaf (Some exts) = Some y"
    "addAll (map (\<lambda>cert. certEntry cb cert (Some [])) rest) = Some z" "length (y @ z) < 16777216" "b = be24 (length (y @ z)) @ y @ z"
    using assms(2) Cons by (cases "leafExtensions cb c") (auto simp: marshalCertificate_def bytes24_eq certEntry_None split: option.splits)
  have z: "z = concat (map ?enc rest)" "list_all (\<lambda>cert. certEntry cb cert (Some []) = Some (?enc cert)) rest"
    using addAll_enc [OF _ e(3), of ?enc] by (auto simp: certEntry_eq)
  have "extensionLoop cb False (leafExtension cb) (length exts) [] exts (?c\<lparr>ce_Certificate := [leaf]\<rparr>) = Some (c\<lparr>ce_Certificate := [leaf]\<rparr>)"
    using extensionLoop_plain [OF _ leafItems_ok [OF assms(1)], of exts leaf] e(1) by (cases c) (simp add: leafItems_parts, simp add: leafItems_def)
  moreover obtain k where k: "length (y @ z) = Suc k" "length rest \<le> k"
  proof -
    have "length rest \<le> length z" unfolding z(1) by (induction rest) auto
    moreover obtain v ys where "y = v # ys" using e(2) by (auto simp: certEntry_eq be24_def)
    ultimately show ?thesis using that [of "length ys + length z"] by simp
  qed
  moreover have "list_all (\<lambda>cert. length cert < 16777216) rest" using z(2) by (auto simp: certEntry_eq list_all_iff)
  ultimately have "certEntries cb (length (y @ z)) (y @ z) ?c = Some (c\<lparr>ce_Certificate := leaf # rest\<rparr>)"
    using e(2) certEntries_step [of leaf exts ?c "c\<lparr>ce_Certificate := [leaf]\<rparr>" k z] certEntries_rest [of rest k "c\<lparr>ce_Certificate := [leaf]\<rparr>"] z(1)
    by (simp add: certEntry_eq)
  then show ?thesis using e(4, 5) Cons by (cases c) (simp add: unmarshalCertificate_def)
qed

lemma certificateTLS13_back:
  assumes "stapled (cm_certificate m)" "cm_ocspStapling m = (ce_OCSPStaple (cm_certificate m) \<noteq> None)"
    and "cm_scts m = (ce_SignedCertificateTimestamps (cm_certificate m) \<noteq> None)" "certificateTLS13_marshal cb m = Some bs"
  shows "certificateTLS13_unmarshal cb bs = Some m"
proof -
  have same: "(if cm_scts m then x else x\<lparr>ce_SignedCertificateTimestamps := None\<rparr>) = x" "(if cm_ocspStapling m then x else x\<lparr>ce_OCSPStaple := None\<rparr>) = x"
    if "x = cm_certificate m" for x using assms(2, 3) that by (cases x; simp)+
  obtain y where y: "marshalCertificate cb (cm_certificate m) = Some y" "bs = 11 # be24 (Suc (length y)) @ 0 # y"
    using assms(4) by (auto simp: certificateTLS13_marshal_def same message_eq split: option.splits)
  moreover have "cb_ReadUint8LengthPrefixed cb (0 # y) = Some ([], y)"
    using ReadUint8_prefixed'(1) [of 0 "[]" y] by simp
  ultimately show ?thesis
    using assms unmarshalCertificate_back [of "cm_certificate m" y] by (cases m) (simp add: certificateTLS13_unmarshal_def)
qed

text \<open>The messages of TLS 1.2.\<close>

lemma certLoop_back:
  assumes "list_all (\<lambda>c. c \<noteq> [] \<and> length c < 16777216) certs" "length certs \<le> fuel"
  shows "certLoop fuel (length (concat (map (\<lambda>c. be24 (length c) @ c) certs))) (concat (map (\<lambda>c. be24 (length c) @ c) certs)) = Some certs"
  using assms
proof (induction certs arbitrary: fuel)
  case (Cons c certs)
  obtain k where k: "fuel = Suc k" using Cons.prems(2) by (cases fuel) auto
  have c: "c \<noteq> []" "length c < 16777216" using Cons.prems(1) by auto
  let ?rest = "concat (map (\<lambda>c. be24 (length c) @ c) certs)"
  have "val24 ((be24 (length c) @ c @ ?rest) ! 0) ((be24 (length c) @ c @ ?rest) ! 1) ((be24 (length c) @ c @ ?rest) ! 2) = length c"
    using val24_be24 [of "length c"] c(2) by (simp add: be24_def)
  moreover have "4 \<le> length (be24 (length c) @ c @ ?rest)" using c(1) by (cases c) auto
  moreover have "certLoop k (length ?rest) ?rest = Some certs" using Cons by (simp add: k)
  ultimately show ?case
    using c(1) by (simp add: k certLoop.simps [of "Suc k"] Let_def)
qed (simp add: certLoop.simps)

lemma certificate_back:
  assumes "list_all (\<lambda>c. c \<noteq> []) certs" "length (certificate_marshal certs) < 16777220"
  shows "certificate_unmarshal (certificate_marshal certs) = Some certs"
proof -
  let ?n = "3 * length certs + sum_list (map length certs)" and ?body = "concat (map (\<lambda>c. be24 (length c) @ c) certs)"
  have n: "length ?body = ?n" by (induction certs) auto
  then have small: "?n + 3 < 16777216" using assms(2) by (simp add: certificate_marshal_def Let_def)
  have "length c < 16777216" if "c \<in> set certs" for c
    using member_le_sum_list [of "length c" "map length certs"] that small by auto
  then have "certLoop ?n ?n ?body = Some certs"
    using certLoop_back [of certs ?n] assms(1) n by (auto simp: list_all_iff)
  moreover have "val24 (certificate_marshal certs ! 4) (certificate_marshal certs ! 5) (certificate_marshal certs ! 6) = ?n"
    using val24_be24 [of ?n] small by (simp add: certificate_marshal_def be24_def Let_def)
  moreover have "drop 7 (certificate_marshal certs) = ?body" by (simp add: certificate_marshal_def be24_def Let_def)
  moreover have "length (certificate_marshal certs) = ?n + 7" using n by (simp add: certificate_marshal_def Let_def)
  ultimately show ?thesis by (simp add: certificate_unmarshal_def Let_def)
qed

lemma exchange_back:
  "serverKeyExchange_unmarshal (serverKeyExchange_marshal key) = Some key"
  "length c < 16777216 \<Longrightarrow> clientKeyExchange_unmarshal (clientKeyExchange_marshal c) = Some c"
  using val24_be24 [of "length c"]
  by (simp_all add: serverKeyExchange_unmarshal_def serverKeyExchange_marshal_def clientKeyExchange_unmarshal_def clientKeyExchange_marshal_def be24_def)

lemma newSessionTicket_back: "length t < 65536 \<Longrightarrow> newSessionTicket_unmarshal (newSessionTicket_marshal t) = Some t"
  using val24_be24 [of "6 + length t"] val16_be16 [of "length t"]
  by (simp add: newSessionTicket_unmarshal_def newSessionTicket_marshal_def be24_def be16_def unat_of_nat take_bit_nat_eq_self_iff)

lemma small_back:
  "finished_marshal cb d = Some bs \<Longrightarrow> finished_unmarshal cb bs = Some d"
  "keyUpdate_marshal cb u = Some bs \<Longrightarrow> keyUpdate_unmarshal cb bs = Some u"
  "r \<noteq> [] \<Longrightarrow> certificateStatus_marshal cb r = Some bs \<Longrightarrow> certificateStatus_unmarshal cb bs = Some r"
  by (auto simp: finished_marshal_def finished_unmarshal_def message_eq Skip keyUpdate_marshal_def keyUpdate_unmarshal_def
    certificateStatus_marshal_def certificateStatus_unmarshal_def bytes24_eq split: option.splits if_splits)

lemma verify_back: "(\<not> hasAlg \<longrightarrow> a = 0) \<Longrightarrow> verify_marshal cb hasAlg (a, sig) = Some bs \<Longrightarrow> verify_unmarshal cb hasAlg bs = Some (a, sig)"
  by (auto simp: verify_marshal_def verify_unmarshal_def message_eq bytes16_eq addWhen_def split: option.splits if_splits)

lemma u16Pairs_u16s: "n = length ws \<Longrightarrow> u16Pairs n (u16s ws @ r) = ws"
proof (induction ws arbitrary: n)
  case (Cons w ws)
  then show ?case using val16_be16 [of "unat w"] by (simp add: u16s_def be16w_def be16_def)
qed (simp add: u16s_def)

lemma caLoop_back:
  assumes "list_all (\<lambda>ca. length ca < 65536) cas" "length cas \<le> fuel"
  shows "caLoop fuel (concat (map (\<lambda>ca. be16 (length ca) @ ca) cas)) = Some cas"
  using assms
proof (induction cas arbitrary: fuel)
  case (Cons ca cas)
  obtain k where "fuel = Suc k" using Cons.prems(2) by (cases fuel) auto
  then show ?case
    using Cons val16_be16 [of "length ca"] by (simp add: be16_def Let_def unat_of_nat take_bit_nat_eq_self_iff)
qed simp

lemma request_authorities_back:
  assumes "sum_list (map (\<lambda>ca. 2 + length ca) cas) < 65536"
  shows "request_authorities hasAlg types algs (be16 (sum_list (map (\<lambda>ca. 2 + length ca) cas)) @ concat (map (\<lambda>ca. be16 (length ca) @ ca) cas)) =
    Some \<lparr>rq_hasSignatureAlgorithm = hasAlg, rq_certificateTypes = types, rq_supportedSignatureAlgorithms = algs, rq_certificateAuthorities = cas\<rparr>"
proof -
  let ?n = "sum_list (map (\<lambda>ca. 2 + length ca) cas)" and ?body = "concat (map (\<lambda>ca. be16 (length ca) @ ca) cas)"
  have n: "length ?body = ?n" "length cas \<le> ?n" by (induction cas) auto
  have "length ca < 65536" if "ca \<in> set cas" for ca
    using member_le_sum_list [of "2 + length ca" "map (\<lambda>ca. 2 + length ca) cas"] that assms by auto
  then have "caLoop ?n ?body = Some cas" using caLoop_back [of cas ?n] n(2) by (simp add: list_all_iff)
  moreover have "unat (val16 ((be16 ?n @ ?body) ! 0) ((be16 ?n @ ?body) ! 1)) = ?n"
    using val16_be16 [of ?n] assms by (simp add: be16_def unat_of_nat take_bit_nat_eq_self_iff)
  moreover have "drop 2 (be16 ?n @ ?body) = ?body" by (simp add: be16_def)
  ultimately show ?thesis using n(1) by (simp add: request_authorities_def Let_def)
qed

lemma request_back:
  assumes "sendableRequest m" "length (request_marshal m) < 16777220"
  shows "request_unmarshal (rq_hasSignatureAlgorithm m) (request_marshal m) = Some m"
proof -
  let ?ts = "rq_certificateTypes m" and ?as = "rq_supportedSignatureAlgorithms m" and ?h = "rq_hasSignatureAlgorithm m"
  let ?cas = "be16 (sum_list (map (\<lambda>ca. 2 + length ca) (rq_certificateAuthorities m))) @
    concat (map (\<lambda>ca. be16 (length ca) @ ca) (rq_certificateAuthorities m))"
  let ?algs = "if ?h then be16 (length ?as * 2) @ u16s ?as else []"
  let ?body = "word_of_nat (length ?ts) # ?ts @ ?algs @ ?cas"
  have "length (concat (map (\<lambda>ca. be16 (length ca) @ ca) cas)) = sum_list (map (\<lambda>ca. 2 + length ca) cas)" for cas :: "bytes list"
    by (induction cas) auto
  then have b: "request_marshal m = 13 # be24 (length ?body) @ ?body" by (simp add: request_marshal_def Let_def ac_simps)
  then have n: "length ?body < 16777216" using assms(2) by simp
  have v: "val24 (request_marshal m ! 1) (request_marshal m ! 2) (request_marshal m ! 3) = length ?body"
    using val24_be24 [of "length ?body"] n unfolding b by (simp add: be24_def)
  have ts: "0 < length ?ts" "unat (word_of_nat (length ?ts) :: byte) = length ?ts"
    using assms(1) by (simp_all add: sendableRequest_def unat_of_nat take_bit_nat_eq_self_iff)
  have d: "drop 5 (request_marshal m) = ?ts @ ?algs @ ?cas" "request_marshal m ! 4 = word_of_nat (length ?ts)" "length (request_marshal m) = length ?body + 4"
    unfolding b by (simp_all add: be24_def)
  have cas: "request_authorities ?h ?ts ?as ?cas = Some m"
    using assms(1) request_authorities_back [of "rq_certificateAuthorities m" ?h ?ts ?as] by (cases m) (simp add: sendableRequest_def)
  show ?thesis
  proof (cases ?h)
    case False
    then have "?as = []" using assms(1) by (auto simp: sendableRequest_def)
    then show ?thesis using False cas d v ts by (simp add: request_unmarshal_def Let_def)
  next
    case True
    have "unat (val16 ((be16 (length ?as * 2) @ u16s ?as @ ?cas) ! 0) ((be16 (length ?as * 2) @ u16s ?as @ ?cas) ! 1)) = length ?as * 2"
      using val16_be16 [of "length ?as * 2"] assms(1)
      by (simp add: be16_def sendableRequest_def unat_of_nat take_bit_nat_eq_self_iff del: of_nat_mult)
    moreover have "drop 2 (be16 (length ?as * 2) @ u16s ?as @ ?cas) = u16s ?as @ ?cas" by (simp add: be16_def)
    ultimately show ?thesis using True cas d v ts by (simp add: request_unmarshal_def Let_def u16Pairs_u16s)
  qed
qed

lemma compressed_back:
  assumes "cc_raw m = None" "cc_uncompressedLength m < 16777216" "compressed_marshal cb m = Some bs"
  shows "compressed_unmarshal cb bs = Some (m\<lparr>cc_raw := Some bs\<rparr>)"
  using assms by (cases m) (auto simp: compressed_marshal_def compressed_unmarshal_def message_eq bytes24_eq split: option.splits)

lemma clientEncrypted_back:
  assumes "cx_raw m = None" "cx_customExtension m = []" "cx_applicationSettingsCodepoint m = 0 \<Longrightarrow> cx_applicationSettings m = []"
    and "cx_applicationSettingsCodepoint m \<in> {0, utlsExtensionApplicationSettings, utlsExtensionApplicationSettingsNew}"
    and "clientEncrypted_marshal cb m = Some bs"
  shows "clientEncrypted_unmarshal cb bs = Some (m\<lparr>cx_raw := Some bs\<rparr>)"
proof -
  let ?items = "[(cx_applicationSettingsCodepoint m \<noteq> 0, cx_applicationSettingsCodepoint m, Some (cx_applicationSettings m),
      \<lambda>x. x\<lparr>cx_applicationSettingsCodepoint := cx_applicationSettingsCodepoint m, cx_applicationSettings := cx_applicationSettings m\<rparr>)]
      :: clientEncryptedExtensionsMsg extItem list"
  let ?m = "\<lparr>cx_raw = Some bs, cx_applicationSettings = [], cx_applicationSettingsCodepoint = 0, cx_customExtension = []\<rparr>"
  obtain exts y where exts: "addAll (map (itemPart cb) ?items) = Some exts" "length exts < 65536" "bs = 8 # be24 (length y) @ y"
      "y = be16 (length exts) @ exts"
    using assms(1, 2, 5)
    by (auto simp: clientEncrypted_marshal_def message_eq itemPart_def bytes16_eq addWhen_def [of False] split: option.splits)
  have "itemsOk clientEncryptedExtension keep ?items ?m"
    using assms(3, 4) by (auto simp: clientEncryptedExtension_def)
  then have "extensionLoop cb False clientEncryptedExtension (length exts) [] exts ?m = Some (itemsResult keep ?items ?m)"
    by (rule extensionLoop_plain [OF exts(1)])
  moreover have "itemsResult keep ?items ?m = m\<lparr>cx_raw := Some bs\<rparr>" using assms(2) by (cases m) simp
  ultimately show ?thesis using exts(2-) by (simp add: clientEncrypted_unmarshal_def)
qed

end

section \<open>Properties\<close>

text \<open>The messages a peer accepts: \<open>toClient\<close> is the role of the receiver, \<open>vers\<close> the version both agreed on.\<close>

fun sendableMsg :: "u16 \<Rightarrow> bool \<Rightarrow> handshakeMsg \<Rightarrow> bool" where
  "sendableMsg vers toClient (ClientHello m) \<longleftrightarrow> sendable m"
| "sendableMsg vers toClient (ServerHello m) \<longleftrightarrow> sendableServer m"
| "sendableMsg vers toClient (NewSessionTicketTLS13 m) \<longleftrightarrow> vers = VersionTLS13"
| "sendableMsg vers toClient (NewSessionTicket t) \<longleftrightarrow> vers \<noteq> VersionTLS13 \<and> length t < 65536"
| "sendableMsg vers toClient (CertificateTLS13 m) \<longleftrightarrow> vers = VersionTLS13 \<and> stapled (cm_certificate m) \<and>
     cm_ocspStapling m = (ce_OCSPStaple (cm_certificate m) \<noteq> None) \<and> cm_scts m = (ce_SignedCertificateTimestamps (cm_certificate m) \<noteq> None)"
| "sendableMsg vers toClient (CertificateChain cs) \<longleftrightarrow> vers \<noteq> VersionTLS13 \<and> list_all (\<lambda>c. c \<noteq> []) cs"
| "sendableMsg vers toClient (CertificateRequestTLS13 m) \<longleftrightarrow> vers = VersionTLS13 \<and> list_all (\<lambda>ca. ca \<noteq> []) (cr_certificateAuthorities m)"
| "sendableMsg vers toClient (CertificateRequest m) \<longleftrightarrow> vers \<noteq> VersionTLS13 \<and> rq_hasSignatureAlgorithm m = (VersionTLS12 \<le> vers) \<and> sendableRequest m"
| "sendableMsg vers toClient (CertificateStatus r) \<longleftrightarrow> r \<noteq> []"
| "sendableMsg vers toClient (CertificateVerify v) \<longleftrightarrow> (vers < VersionTLS12 \<longrightarrow> fst v = 0)"
| "sendableMsg vers toClient (EncryptedExtensions m) \<longleftrightarrow> toClient \<and> en_applicationSettings m = [] \<and> en_applicationSettingsCodepoint m = 0"
| "sendableMsg vers toClient (ClientEncryptedExtensions m) \<longleftrightarrow> \<not> toClient \<and> cx_raw m = None \<and> cx_customExtension m = [] \<and>
     (cx_applicationSettingsCodepoint m = 0 \<longrightarrow> cx_applicationSettings m = []) \<and>
     cx_applicationSettingsCodepoint m \<in> {0, utlsExtensionApplicationSettings, utlsExtensionApplicationSettingsNew}"
| "sendableMsg vers toClient (CompressedCertificate m) \<longleftrightarrow> cc_raw m = None \<and> cc_uncompressedLength m < 16777216"
| "sendableMsg vers toClient _ \<longleftrightarrow> True"

text \<open>The received message keeps its bytes where the code does.\<close>

fun asReceived :: "cryptobyte \<Rightarrow> bytes \<Rightarrow> handshakeMsg \<Rightarrow> handshakeMsg" where
  "asReceived cb bs (ClientHello m) = ClientHello (m\<lparr>ch_original := Some bs, ch_extensions := presentTypes (helloItems cb m)\<rparr>)"
| "asReceived cb bs (ClientEncryptedExtensions m) = ClientEncryptedExtensions (m\<lparr>cx_raw := Some bs\<rparr>)"
| "asReceived cb bs (CompressedCertificate m) = CompressedCertificate (m\<lparr>cc_raw := Some bs\<rparr>)"
| "asReceived cb bs m = m"

context cryptobyte_reader
begin

lemma message_hd: "message cb ty parts = Some bs \<Longrightarrow> hd bs = ty"
  by (auto simp: message_eq)

lemmas marshal_defs = clientHello_marshal_def marshalMsg_def marshalMsgReorderOuterExts_def serverHello_marshal_def ticketTLS13_marshal_def
  certificateTLS13_marshal_def requestTLS13_marshal_def certificateStatus_marshal_def verify_marshal_def finished_marshal_def
  encryptedExtensions_marshal_def clientEncrypted_marshal_def keyUpdate_marshal_def compressed_marshal_def

lemma handshake_back:
  assumes "marshalHandshake cb vers m = Some bs" "sendableMsg vers toClient m" "length bs < 16777220"
  shows "unmarshalHandshakeMessage cb vers toClient bs = Some (asReceived cb bs m)"
proof (cases m)
  case (ClientHello h)
  then have "hd bs = 1" using assms by (auto simp: marshal_defs sendable_def Let_def split: bind_splits dest: message_hd)
  then show ?thesis using ClientHello assms clientHello_back [of h bs] by (simp add: unmarshalHandshakeMessage_def)
next
  case (ServerHello h)
  then have "hd bs = 2" using assms by (auto simp: marshal_defs Let_def split: bind_splits dest: message_hd)
  then show ?thesis using ServerHello assms serverHello_back [of h bs] by (simp add: unmarshalHandshakeMessage_def)
next
  case (NewSessionTicketTLS13 t)
  then show ?thesis using assms ticketTLS13_back [of t bs] message_hd
    by (auto simp: unmarshalHandshakeMessage_def ticketTLS13_marshal_def)
next
  case (CertificateTLS13 c)
  then show ?thesis using assms certificateTLS13_back [of c bs] message_hd
    by (auto simp: unmarshalHandshakeMessage_def certificateTLS13_marshal_def Let_def)
next
  case (CertificateRequestTLS13 r)
  then show ?thesis using assms requestTLS13_back [of r bs] message_hd
    by (auto simp: unmarshalHandshakeMessage_def requestTLS13_marshal_def)
next
  case (CertificateRequest r)
  then have "hd bs = 13" using assms by (auto simp: request_marshal_def Let_def)
  then show ?thesis using CertificateRequest assms request_back [of r] by (auto simp: unmarshalHandshakeMessage_def)
next
  case (CertificateChain cs)
  then have "hd bs = 11" using assms by (auto simp: certificate_marshal_def Let_def)
  then show ?thesis using CertificateChain assms certificate_back [of cs] by (auto simp: unmarshalHandshakeMessage_def)
next
  case (CertificateVerify v)
  then show ?thesis using assms verify_back [of "VersionTLS12 \<le> vers" "fst v" "snd v" bs] message_hd
    by (auto simp: unmarshalHandshakeMessage_def verify_marshal_def not_le)
next
  case (EncryptedExtensions e)
  then show ?thesis using assms encryptedExtensions_back [of e bs] message_hd
    by (auto simp: unmarshalHandshakeMessage_def encryptedExtensions_marshal_def)
next
  case (ClientEncryptedExtensions e)
  then have "hd bs = 8" using assms by (auto simp: marshal_defs dest: message_hd)
  then show ?thesis using ClientEncryptedExtensions assms clientEncrypted_back [of e bs] by (auto simp: unmarshalHandshakeMessage_def)
next
  case (CompressedCertificate c)
  then have "hd bs = 25" using assms by (auto simp: marshal_defs dest: message_hd)
  then show ?thesis using CompressedCertificate assms compressed_back [of c bs] by (auto simp: unmarshalHandshakeMessage_def)
next
  case (CertificateStatus r)
  then show ?thesis using assms small_back(3) [of r bs] message_hd
    by (auto simp: unmarshalHandshakeMessage_def certificateStatus_marshal_def)
next
  case (Finished d)
  then show ?thesis using assms small_back(1) [of d bs] message_hd
    by (auto simp: unmarshalHandshakeMessage_def finished_marshal_def)
next
  case (KeyUpdate u)
  then show ?thesis using assms small_back(2) [of u bs] message_hd
    by (auto simp: unmarshalHandshakeMessage_def keyUpdate_marshal_def)
next
  case (ServerKeyExchange k)
  then have "hd bs = 12" "bs = serverKeyExchange_marshal k" using assms(1) by (auto simp: serverKeyExchange_marshal_def)
  then show ?thesis using ServerKeyExchange exchange_back(1) [of k] by (simp add: unmarshalHandshakeMessage_def)
next
  case (ClientKeyExchange k)
  then have "hd bs = 16" "bs = clientKeyExchange_marshal k" "length k < 16777216" using assms by (auto simp: clientKeyExchange_marshal_def)
  then show ?thesis using ClientKeyExchange exchange_back(2) [of k] by (simp add: unmarshalHandshakeMessage_def)
next
  case (NewSessionTicket t)
  then have "hd bs = 4" "bs = newSessionTicket_marshal t" using assms(1) by (auto simp: newSessionTicket_marshal_def)
  then show ?thesis using NewSessionTicket assms(2) newSessionTicket_back [of t] by (simp add: unmarshalHandshakeMessage_def)
qed (use assms in \<open>auto simp: unmarshalHandshakeMessage_def fixedLength_def helloRequest_marshal_def serverHelloDone_marshal_def endOfEarlyData_marshal_def\<close>)

end

text \<open>C4. Every handshake message that a peer of the same version may get is read back from the bytes that \<open>marshal\<close> writes: the same
  message, field by field (a ClientHello also keeps its bytes and the order of its extensions).\<close>

theorem handshake_roundtrip:
  assumes "cryptobyte_reader cb" "marshalHandshake cb vers m = Some bs" "sendableMsg vers toClient m" "length bs < 16777220"
  shows "unmarshalHandshakeMessage cb vers toClient bs = Some (asReceived cb bs m)"
  using assms by (intro cryptobyte_reader.handshake_back)

theorem handshake_roundtrip_witness:
  "\<exists>bs. marshalHandshake cryptobyteRef VersionTLS13 (ServerHello (emptyServerHello\<lparr>sh_vers := VersionTLS12, sh_random := replicate 32 7,
       sh_cipherSuite := 0x1301, sh_alpnProtocol := ''h2'', sh_selectedGroup := 29\<rparr>)) = Some bs \<and>
     unmarshalHandshakeMessage cryptobyteRef VersionTLS13 True bs = Some (ServerHello (emptyServerHello\<lparr>sh_vers := VersionTLS12,
       sh_random := replicate 32 7, sh_cipherSuite := 0x1301, sh_alpnProtocol := ''h2'', sh_selectedGroup := 29\<rparr>))"
proof -
  let ?m = "emptyServerHello\<lparr>sh_vers := VersionTLS12, sh_random := replicate 32 7, sh_cipherSuite := 0x1301, sh_alpnProtocol := ''h2'', sh_selectedGroup := 29\<rparr>"
  have parts: "addAll (serverExtensionParts cryptobyteRef ?m) = Some [0, 16, 0, 5, 0, 3, 2, 104, 50, 0, 51, 0, 2, 0, 29]"
    by (simp add: serverExtensionParts_def emptyServerHello_def addWhen_def addExtension_def oneProto_def bytes8_def bytes16_def cryptobyteRef_def be16w_def be16_def
      strBytes_def)
  then obtain bs where bs: "marshalHandshake cryptobyteRef VersionTLS13 (ServerHello ?m) = Some bs" "length bs < 16777220"
    by (simp add: serverHello_marshal_def message_def bytes8_def bytes16_def bytes24_def addBytesWithLength_def addWhen_def cryptobyteRef_def emptyServerHello_def)
  have "sendableMsg VersionTLS13 True (ServerHello ?m)" by (simp add: sendableServer_def emptyServerHello_def)
  from handshake_roundtrip [OF ref.cryptobyte_reader_axioms bs(1) this bs(2)] bs(1) show ?thesis by simp
qed

end
