(* ===== verification/Utls_Conn_Correct.thy ===== *)
theory Utls_Conn_Correct
  imports Utls_Record_Correct Utls_Conn Utls_Handshake_Correct
begin

text \<open>
  Connections over the record layer: what one side writes, the other side reads, complete and in order; every read comes to an end; and
  a key update keeps the two sides together.
\<close>

section \<open>The shape of a sealed record\<close>

lemma encryptBody_shape:
  assumes "paired s r" "hc_cipher s = Some c" "\<And>n bs. random n = Some bs \<Longrightarrow> length bs = n"
    "encryptBody s random (recHeader typ vers n) payload = Some (record1, body, cs)"
  shows "take 3 record1 = [if hc_version s = VersionTLS13 then recordTypeApplicationData else typ] @ be16w vers \<and>
     length body \<le> length payload + (if hc_version s = VersionTLS13 then 256 else 2048)"
proof (cases c)
  case (StreamCipher ks i)
  then show ?thesis using assms(1, 2, 4)
    by (auto simp: paired_def encryptBody_def Let_def macLaws_def tls10MAC_def split: option.splits elim!: cipherPair.elims)
next
  case (AeadCipher a)
  have "aeadExplicitNonceLen a \<le> 8" by (cases a) simp_all
  then show ?thesis using assms(1, 2, 4) AeadCipher
    by (auto simp: paired_def encryptBody_def explicitNonceLen_def Let_def aeadLaws_def aeadSeal_def split: if_splits elim!: cipherPair.elims)
next
  case (CbcCipher b)
  obtain m d where r: "hc_mac s = Some m" "macLaws m" "cbcLaws b d" "hc_version s \<noteq> VersionTLS13"
    using assms(1, 2) CbcCipher by (auto simp: paired_def split: recCipher.splits elim!: cipherPair.elims)
  have "explicitNonceLen s \<le> 256" using r(3) assms(2) CbcCipher by (simp add: explicitNonceLen_def cbcLaws_def)
  then have "length nonce \<le> 256" if "(if explicitNonceLen s = 0 then Some [] else random (explicitNonceLen s)) = Some nonce" for nonce
    using that assms(3) by (auto split: if_splits)
  then show ?thesis using assms(2, 4) CbcCipher r
    by (auto simp: encryptBody_def Let_def macLaws_def cbcLaws_def tls10MAC_def split: bind_splits)
qed

lemma encrypt_shape:
  assumes "paired s r" "hc_cipher s \<noteq> None" "\<And>n bs. random n = Some bs \<Longrightarrow> length bs = n"
    "encrypt s random (recHeader typ vers n) payload = Ok (out, s')"
  shows "\<exists>body. out = [if hc_version s = VersionTLS13 then recordTypeApplicationData else typ] @ be16w vers @ be16 (length body) @ body \<and>
     length body \<le> length payload + (if hc_version s = VersionTLS13 then 256 else 2048) \<and> hc_cipher s' \<noteq> None \<and> hc_version s' = hc_version s"
proof -
  obtain c where c: "hc_cipher s = Some c" using assms(2) by blast
  obtain record1 body cs where e: "encryptBody s random (recHeader typ vers n) payload = Some (record1, body, cs)"
      "incSeq (s\<lparr>hc_cipher := Some cs\<rparr>) = Some s'" "out = take 3 record1 @ be16 (length body) @ body"
    using assms(4) c by (auto simp: encrypt_def split: option.splits)
  have "hc_cipher s' = Some cs" "hc_version s' = hc_version s" using e(2) by (auto simp: incSeq_def)
  then show ?thesis using encryptBody_shape [OF assms(1) c assms(3) e(1)] e(3) by auto
qed

section \<open>Reading one record\<close>

text \<open>A connection that can receive records of a known version, and one that can read: its handshake is complete and nothing of
  another message is pending.\<close>

definition receiving :: "u16 \<Rightarrow> conn \<Rightarrow> bool" where
  "receiving v c \<longleftrightarrow> v \<noteq> 0 \<and> cn_inErr c = None \<and> cn_haveVers c \<and> cn_vers c = v \<and> cn_input c = []"

definition tlsReadable :: "u16 \<Rightarrow> conn \<Rightarrow> bool" where
  "tlsReadable v c \<longleftrightarrow> receiving v c \<and> cn_hand c = [] \<and> cn_handshakeComplete c"

text \<open>One record with application data or with a part of the handshake.\<close>

abbreviation carriesType :: "byte \<Rightarrow> bool" where
  "carriesType t \<equiv> t = recordTypeHandshake \<or> t = recordTypeApplicationData"

definition dataRecord :: "u16 \<Rightarrow> byte \<Rightarrow> halfConn \<Rightarrow> bytes \<Rightarrow> bytes \<Rightarrow> halfConn \<Rightarrow> bool" where
  "dataRecord v t r out payload r' \<longleftrightarrow> payload \<noteq> [] \<and> length payload \<le> maxPlaintext \<and>
     decrypt r out = Some (Inr (payload, t, r')) \<and> hc_cipher r' \<noteq> None \<and>
     (\<exists>body. out = recHeader (if v = VersionTLS13 then recordTypeApplicationData else t) (recordVersion v) (length body) @ body \<and>
        length body \<le> maxPlaintext + (if v = VersionTLS13 then 256 else 2048))"

lemma val16_be16_list: "n < 65536 \<Longrightarrow> unat (val16 (be16 n ! 0) (be16 n ! Suc 0)) = n"
  using val16_be16 [of n "be16 n ! 0" "be16 n ! Suc 0"] by (simp add: be16_def unat_of_nat)

lemma val16_be16w_list: "val16 (be16w w ! 0) (be16w w ! Suc 0) = w"
  using val16_be16 [of "unat w" "be16w w ! 0" "be16w w ! Suc 0"] by (simp add: be16w_def be16_def)

lemma header_fields:
  assumes "length body < 65536" "raw = recHeader t vers (length body) @ body @ rest"
  shows "raw ! 0 = t" "val16 (raw ! 1) (raw ! 2) = vers" "unat (val16 (raw ! 3) (raw ! 4)) = length body"
    "take (5 + length body) raw = recHeader t vers (length body) @ body" "drop (5 + length body) raw = rest"
  using val16_be16w_list [of vers] val16_be16_list [OF assms(1)] unfolding assms(2)
  by (simp_all add: nth_append numeral_eq_Suc nth_Cons')

lemma record_step:
  assumes "receiving v c" "cn_rawInput c = out @ rest" "carriesType t" "dataRecord v t (cn_in c) out payload r'"
  shows "recordStep env False c = recordBody env False out (c\<lparr>cn_rawInput := rest\<rparr>)"
proof -
  let ?t = "if v = VersionTLS13 then recordTypeApplicationData else t"
  obtain body where b: "out = recHeader ?t (recordVersion v) (length body) @ body"
      "length body \<le> maxPlaintext + (if v = VersionTLS13 then 256 else 2048)"
    using assms(4) by (auto simp: dataRecord_def)
  have raw: "cn_rawInput c = recHeader ?t (recordVersion v) (length body) @ body @ rest" using assms(2) b(1) by simp
  have l: "length body < 65536" using b(2) by (simp split: if_splits)
  note f = header_fields [OF l raw]
  have c: "cn_inErr c = None" "cn_haveVers c" "cn_vers c = v" "cn_input c = []" "v \<noteq> 0" using assms(1) by (simp_all add: receiving_def)
  have exp: "recordVersion v = (if v = VersionTLS13 then 0x303 else v)" using c(5) by (simp add: recordVersion_def)
  have fits: "\<not> (v = VersionTLS13 \<and> 16384 + 256 < length body \<or> 16384 + 2048 < length body)" using b(2) by (simp split: if_splits)
  have "?t \<noteq> 0x80" using assms(3) by auto
  then show ?thesis using raw fits unfolding recordStep_def Let_def f c b(1) by (auto simp: exp c)
qed

lemma data_record_read:
  assumes "tlsReadable v c" "cn_rawInput c = out @ rest" "dataRecord v recordTypeApplicationData (cn_in c) out payload r'"
  shows "readRecordOrCCS env False c = Some (None, c\<lparr>cn_rawInput := rest, cn_in := r', cn_retryCount := 0, cn_input := payload\<rparr>)"
proof -
  have c: "receiving v c" "cn_hand c = []" "cn_handshakeComplete c" using assms(1) by (simp_all add: tlsReadable_def)
  have "recordBody env False out (c\<lparr>cn_rawInput := rest\<rparr>) = Some (StepOk (c\<lparr>cn_rawInput := rest, cn_in := r', cn_retryCount := 0, cn_input := payload\<rparr>))"
    using assms(3) c by (auto simp: recordBody_def dataRecord_def contentStep_def Let_def)
  then show ?thesis using record_step [OF c(1) assms(2) _ assms(3)] by (simp add: readRecordOrCCS_def)
qed

lemma hand_record_read:
  assumes "receiving v c" "cn_rawInput c = out @ rest" "dataRecord v recordTypeHandshake (cn_in c) out payload r'"
  shows "readRecordOrCCS env False c = Some (None, c\<lparr>cn_rawInput := rest, cn_in := r', cn_retryCount := 0, cn_hand := cn_hand c @ payload\<rparr>)"
proof -
  have "recordBody env False out (c\<lparr>cn_rawInput := rest\<rparr>) =
      Some (StepOk (c\<lparr>cn_rawInput := rest, cn_in := r', cn_retryCount := 0, cn_hand := cn_hand c @ payload\<rparr>))"
    using assms(3) by (auto simp: recordBody_def dataRecord_def contentStep_def Let_def)
  then show ?thesis using record_step [OF assms(1, 2) _ assms(3)] by (simp add: readRecordOrCCS_def)
qed

section \<open>What a write puts on the wire\<close>

text \<open>Records that are read one after the other, with what each of them brings.\<close>

fun dataRecords :: "u16 \<Rightarrow> byte \<Rightarrow> halfConn \<Rightarrow> (bytes \<times> bytes) list \<Rightarrow> halfConn \<Rightarrow> bool" where
  "dataRecords v t r [] r' \<longleftrightarrow> r' = r"
| "dataRecords v t r ((out, payload) # xs) r' \<longleftrightarrow> (\<exists>r1. dataRecord v t r out payload r1 \<and> dataRecords v t r1 xs r')"

text \<open>A side that can write: the network takes everything at once and nothing is held back.\<close>

definition takesAll :: "connEnv \<Rightarrow> bool" where
  "takesAll env \<longleftrightarrow> (\<forall>bs. ce_write env bs = (length bs, None)) \<and> (\<forall>n. \<exists>bs. ce_random env n = Some bs \<and> length bs = n)"

definition writable :: "u16 \<Rightarrow> conn \<Rightarrow> bool" where
  "writable v c \<longleftrightarrow> \<not> cn_buffering c \<and> cn_vers c = v \<and> hc_version (cn_out c) = v \<and> hc_cipher (cn_out c) \<noteq> None"

lemma maxPayload_frame: "\<exists>k. snd (maxPayloadSizeForWrite typ c) = c\<lparr>cn_packetsSent := k\<rparr>"
  by (auto simp: maxPayloadSizeForWrite_def Let_def intro: exI [of _ "cn_packetsSent c"])

lemma maxPayload_bound: "fst (maxPayloadSizeForWrite typ c) \<le> int maxPlaintext"
  by (simp add: maxPayloadSizeForWrite_def Let_def)

lemma writeOne_record:
  assumes "takesAll env" "writable v c" "paired (cn_out c) r" "payload \<noteq> []" "length payload \<le> maxPlaintext"
    "writeOne env t payload c = Some (None, c')" "carriesType t"
  shows "\<exists>out r'. cn_wire c' = cn_wire c @ out \<and> dataRecord v t r out payload r' \<and> paired (cn_out c') r' \<and> writable v c' \<and>
     c' = c\<lparr>cn_out := cn_out c', cn_wire := cn_wire c', cn_bytesSent := cn_bytesSent c'\<rparr>"
proof -
  have env: "ce_write env bs = (length bs, None)" "ce_random env n = Some bs \<Longrightarrow> length bs = n" for n bs using assms(1) by (auto simp: takesAll_def) (metis option.inject)
  have w: "\<not> cn_buffering c" "cn_vers c = v" "hc_version (cn_out c) = v" "hc_cipher (cn_out c) \<noteq> None" using assms(2) by (simp_all add: writable_def)
  obtain out hc where e: "encrypt (cn_out c) (ce_random env) (recHeader t (recordVersion v) (length payload)) payload = Ok (out, hc)"
      "c' = c\<lparr>cn_out := hc, cn_wire := cn_wire c @ out, cn_bytesSent := cn_bytesSent c + length out\<rparr>"
    using assms(6) w by (auto simp: writeOne_def connWriteRaw_def env(1) split: outcome.splits)
  obtain r' where r': "decrypt r out = Some (Inr (payload, t, r'))" "paired hc r'"
    using record_opens [OF assms(3, 5) _ env(2) _ e(1)] w(4) assms(7) by auto
  obtain body where b: "out = recHeader (if v = VersionTLS13 then recordTypeApplicationData else t) (recordVersion v) (length body) @ body"
      "length body \<le> length payload + (if v = VersionTLS13 then 256 else 2048)" "hc_cipher hc \<noteq> None" "hc_version hc = v"
    using encrypt_shape [OF assms(3) w(4) env(2) e(1)] unfolding w(3) if_cancel append.assoc by metis
  from b(3) have "hc_cipher r' \<noteq> None" using r'(2) by (cases "hc_cipher hc"; cases "hc_cipher r'") (auto simp: paired_def)
  moreover have "length body \<le> maxPlaintext + (if v = VersionTLS13 then 256 else 2048)" using b(2) assms(5) by linarith
  ultimately have "dataRecord v t r out payload r'" unfolding dataRecord_def using r'(1) assms(4, 5) b(1) by blast
  moreover have "writable v c'" using w b(3, 4) by (simp add: e(2) writable_def)
  ultimately show ?thesis using r'(2) by (intro exI [of _ out] exI [of _ r']) (simp add: e(2))
qed

lemma writeLoop_records:
  assumes "takesAll env" "writable v c" "paired (cn_out c) r" "writeLoop env t fuel n data c = Some (n', None, c')" "carriesType t"
  shows "\<exists>xs r'. cn_wire c' = cn_wire c @ concat (map fst xs) \<and> data = concat (map snd xs) \<and> dataRecords v t r xs r' \<and>
     paired (cn_out c') r' \<and> writable v c' \<and> n' = n + length data"
  using assms
proof (induction env t fuel n data c arbitrary: r rule: writeLoop.induct)
  case (1 env t fuel n c)
  then show ?case by (intro exI [of _ "[]"] exI [of _ r]) simp
next
  case (3 env t fuel n b data c)
  obtain mp c1 where mp: "maxPayloadSizeForWrite t c = (mp, c1)" by fastforce
  define m where "m = min (length (b # data)) (nat mp)"
  obtain k where c1: "c1 = c\<lparr>cn_packetsSent := k\<rparr>" using maxPayload_frame [of t c] mp by auto
  have pos: "\<not> mp \<le> 0" "mp \<le> int maxPlaintext" using 3(5) maxPayload_bound [of t c] mp by (auto simp: Let_def split: if_splits)
  then have m: "0 < m" "m \<le> maxPlaintext" "m \<le> length (b # data)" by (auto simp: m_def)
  obtain c2 where c2: "writeOne env t (take m (b # data)) c1 = Some (None, c2)"
      "writeLoop env t fuel (n + m) (drop m (b # data)) c2 = Some (n', None, c')"
    using 3(5) pos(1) by (auto simp: mp Let_def m_def simp del: take_Suc_Cons drop_Suc_Cons split: option.splits)
  have "writable v c1" "paired (cn_out c1) r" "take m (b # data) \<noteq> []" "length (take m (b # data)) \<le> maxPlaintext"
    using 3(3, 4) c1 m by (auto simp: writable_def)
  from writeOne_record [OF 3(2) this c2(1) 3(6)]
  obtain out r1 where r1: "cn_wire c2 = cn_wire c @ out" "dataRecord v t r out (take m (b # data)) r1" "paired (cn_out c2) r1" "writable v c2"
    by (auto simp: c1)
  from 3(1) [OF mp [symmetric] refl m_def pos(1) c2(1) refl refl 3(2) r1(4, 3) c2(2) 3(6)]
  obtain xs r' where xs: "cn_wire c' = cn_wire c2 @ concat (map fst xs)" "drop m (b # data) = concat (map snd xs)" "dataRecords v t r1 xs r'"
      "paired (cn_out c') r'" "writable v c'" "n' = n + m + length (drop m (b # data))"
    by blast
  have "b # data = take m (b # data) @ concat (map snd xs)" using xs(2) by (metis append_take_drop_id)
  moreover have "n' = n + length (b # data)" using xs(6) m(3) unfolding length_drop by linarith
  ultimately show ?case using r1 xs(1, 3-5) by (intro exI [of _ "(out, take m (b # data)) # xs"] exI [of _ r']) auto
qed simp

lemma writeRecord_records:
  assumes "takesAll env" "writable v c" "paired (cn_out c) r" "writeRecordLocked env t data c = Some (n, None, c')" "carriesType t"
  shows "n = length data \<and> (\<exists>xs r'. cn_wire c' = cn_wire c @ concat (map fst xs) \<and> data = concat (map snd xs) \<and> dataRecords v t r xs r' \<and>
     paired (cn_out c') r' \<and> writable v c')"
proof -
  have "writeLoop env t (length data) 0 data c = Some (n, None, c')"
    using assms(4, 5) by (auto simp: writeRecordLocked_def split: option.splits)
  from writeLoop_records [OF assms(1-3) this assms(5)] show ?thesis by auto
qed

lemma dataRecords_append: "dataRecords v t r xs r1 \<Longrightarrow> dataRecords v t r1 ys r2 \<Longrightarrow> dataRecords v t r (xs @ ys) r2"
  by (induction v t r xs r1 rule: dataRecords.induct) auto

lemma connWriteData_records:
  assumes "takesAll env" "writable v c" "paired (cn_out c) r" "connWriteData env data c = Some (n, None, c')"
  shows "n = length data \<and> (\<exists>xs r'. cn_wire c' = cn_wire c @ concat (map fst xs) \<and> data = concat (map snd xs) \<and> dataRecords v recordTypeApplicationData r xs r' \<and>
     paired (cn_out c') r' \<and> writable v c')"
proof -
  consider (one) c1 where "writeRecordLocked env recordTypeApplicationData data c = Some (n, None, c1)" "c' = c1\<lparr>cn_outErr := None\<rparr>"
    | (two) n1 n2 c1 c2 where "1 < length data" "writeRecordLocked env recordTypeApplicationData (take 1 data) c = Some (n1, None, c1)"
      "writeRecordLocked env recordTypeApplicationData (drop 1 data) c1 = Some (n2, None, c2)" "n = n2 + 1" "c' = c2\<lparr>cn_outErr := None\<rparr>"
    using assms(4) by (fastforce simp: connWriteData_def Let_def split: if_splits option.splits)
  then show ?thesis
  proof cases
    case one
    then show ?thesis using writeRecord_records [OF assms(1-3) one(1)] by (auto simp: writable_def)
  next
    case two
    from writeRecord_records [OF assms(1-3) two(2)] obtain xs r1 where 1: "cn_wire c1 = cn_wire c @ concat (map fst xs)" "take 1 data = concat (map snd xs)"
        "dataRecords v recordTypeApplicationData r xs r1" "paired (cn_out c1) r1" "writable v c1"
      by blast
    from writeRecord_records [OF assms(1) 1(5, 4) two(3)] obtain ys r2 where 2: "cn_wire c2 = cn_wire c1 @ concat (map fst ys)"
        "drop 1 data = concat (map snd ys)" "dataRecords v recordTypeApplicationData r1 ys r2" "paired (cn_out c2) r2" "writable v c2" "n2 = length (drop 1 data)"
      by blast
    have "data = concat (map snd (xs @ ys))" using 1(2) 2(2) by (metis append_take_drop_id concat_append map_append)
    then show ?thesis using two(1, 4, 5) 1(1) 2 dataRecords_append [OF 1(3) 2(3)]
      by (intro conjI exI [of _ "xs @ ys"] exI [of _ r2]) (simp_all add: writable_def)
  qed
qed

section \<open>Delivery\<close>

text \<open>\<open>io.ReadFull\<close> over a connection: reads until \<open>n\<close> bytes are there.\<close>

fun readFull :: "connCfg \<Rightarrow> connEnv \<Rightarrow> nat \<Rightarrow> nat \<Rightarrow> conn \<Rightarrow> (bytes \<times> conn) option" where
  "readFull cfg env fuel 0 c = Some ([], c)"
| "readFull cfg env 0 (Suc n) c = None"
| "readFull cfg env (Suc fuel) (Suc n) c =
     (case tlsRead cfg env (Suc n) c of
        Some (b, None, c') \<Rightarrow> map_option (\<lambda>(bs, c''). (b @ bs, c'')) (readFull cfg env fuel (Suc n - length b) c')
      | _ \<Rightarrow> None)"

lemma tlsRead_record:
  assumes "tlsReadable v c" "cn_rawInput c = out @ rest" "dataRecord v recordTypeApplicationData (cn_in c) out payload r'"
    "rest = [] \<or> hd rest \<noteq> recordTypeAlert" "0 < n"
  shows "tlsRead cfg env n c = Some (take n payload, None, c\<lparr>cn_rawInput := rest, cn_in := r', cn_retryCount := 0, cn_input := drop n payload\<rparr>)"
proof -
  let ?c = "c\<lparr>cn_rawInput := rest, cn_in := r', cn_retryCount := 0, cn_input := payload\<rparr>"
  have input: "cn_input c = []" using assms(1) by (simp add: tlsReadable_def receiving_def)
  have p: "payload \<noteq> []" "cn_hand c = []" using assms(1, 3) by (simp_all add: dataRecord_def tlsReadable_def)
  have "out \<noteq> []" using assms(3) by (auto simp: dataRecord_def)
  then obtain k where "length (cn_rawInput c) = Suc k" using assms(2) by (metis append_is_Nil_conv length_0_conv not0_implies_Suc)
  then have "readInput cfg env (Suc (length (cn_rawInput c))) c = Some (None, ?c)"
    using data_record_read [OF assms(1-3), of env] p input by (simp add: readInput.simps postMessages.simps)
  then show ?thesis using p assms(4, 5) by (auto simp: tlsRead_def Let_def)
qed

lemma dataRecords_first: "dataRecords v recordTypeApplicationData r xs r' \<Longrightarrow> xs \<noteq> [] \<Longrightarrow> hd (concat (map fst xs) @ rest) = recordTypeApplicationData"
  by (cases xs) (auto simp: dataRecord_def)

lemma records_delivered:
  assumes "tlsReadable v c" "cn_rawInput c = concat (map fst xs) @ rest" "dataRecords v recordTypeApplicationData (cn_in c) xs r'"
    "rest = [] \<or> hd rest \<noteq> recordTypeAlert"
  shows "\<exists>c'. readFull cfg env (length xs) (length (concat (map snd xs))) c = Some (concat (map snd xs), c') \<and>
     tlsReadable v c' \<and> cn_rawInput c' = rest \<and> cn_in c' = r'"
  using assms
proof (induction xs arbitrary: c)
  case (Cons x xs)
  obtain out payload where x: "x = (out, payload)" by fastforce
  obtain r1 where r1: "dataRecord v recordTypeApplicationData (cn_in c) out payload r1" "dataRecords v recordTypeApplicationData r1 xs r'" using Cons.prems(3) x by auto
  let ?rest = "concat (map fst xs) @ rest" and ?n = "length payload + length (concat (map snd xs))"
  let ?c = "c\<lparr>cn_rawInput := ?rest, cn_in := r1, cn_retryCount := 0, cn_input := []\<rparr>"
  have first: "?rest = [] \<or> hd ?rest \<noteq> recordTypeAlert" using dataRecords_first [OF r1(2), of rest] Cons.prems(4) by (cases "xs = []") auto
  obtain n where n: "?n = Suc n" "payload \<noteq> []" using r1(1) by (cases payload) (auto simp: dataRecord_def)
  have "tlsRead cfg env (Suc n) c = Some (payload, None, ?c)"
    using tlsRead_record [OF Cons.prems(1) _ r1(1) first, of "Suc n" cfg env] Cons.prems(2) x n(1) by simp
  moreover have "Suc n - length payload = length (concat (map snd xs))" using n(1) by linarith
  moreover have "tlsReadable v ?c" using Cons.prems(1) by (simp add: tlsReadable_def receiving_def)
  from Cons.IH [OF this _ _ Cons.prems(4)] r1(2)
  obtain c' where "readFull cfg env (length xs) (length (concat (map snd xs))) ?c = Some (concat (map snd xs), c')" "tlsReadable v c'"
      "cn_rawInput c' = rest" "cn_in c' = r'"
    by auto
  ultimately show ?case using n(1) by (intro exI [of _ c']) (simp add: x del: length_concat)
qed simp

section \<open>Writes succeed\<close>

lemma and_not_ge:
  assumes "0 \<le> y"
  shows "x - y \<le> x AND NOT (y :: int)"
proof -
  have "NOT x AND (x AND y) = 0" by (rule bit_eqI) (auto simp: bit_and_iff bit_not_iff)
  then have "x - (x AND y) = x AND NOT (x AND y)" by (rule disjunctive_diff_eq_and_not)
  moreover have "x AND NOT (x AND y) = x AND NOT y" by (rule bit_eqI) (auto simp: bit_and_iff bit_or_iff bit_not_iff)
  moreover have "x AND y \<le> y" using assms by (rule AND_upper2)
  ultimately show ?thesis by linarith
qed

lemma maxPayload_pos:
  assumes "paired (cn_out c) r"
  shows "0 < fst (maxPayloadSizeForWrite typ c)"
proof -
  have pos: "0 < min (p * int (k + 1)) (int maxPlaintext)" if "0 < p" for p k using that by simp
  show ?thesis
  proof (cases "hc_cipher (cn_out c)")
    case None
    then show ?thesis by (simp add: maxPayloadSizeForWrite_def explicitNonceLen_def Let_def pos)
  next
    case (Some x)
    show ?thesis
    proof (cases x)
      case (StreamCipher ks i)
      then show ?thesis using assms Some
        by (auto simp: maxPayloadSizeForWrite_def explicitNonceLen_def Let_def paired_def macLaws_def elim!: cipherPair.elims intro!: pos)
    next
      case (AeadCipher a)
      have "aeadExplicitNonceLen a \<le> 8" by (cases a) simp_all
      then show ?thesis using assms Some AeadCipher
        by (auto simp: maxPayloadSizeForWrite_def explicitNonceLen_def Let_def paired_def aeadLaws_def elim!: cipherPair.elims intro!: pos)
    next
      case (CbcCipher b)
      then obtain m d where r: "hc_mac (cn_out c) = Some m" "macLaws m" "cbcLaws b d"
        using assms Some by (auto simp: paired_def split: recCipher.splits elim!: cipherPair.elims)
      let ?n = "1203 - int (explicitNonceLen (cn_out c))"
      have "int (explicitNonceLen (cn_out c)) \<le> 256" "0 < cm_BlockSize b" "cm_BlockSize b \<le> 256" "mc_Size m \<le> 64"
        using r Some CbcCipher by (simp_all add: explicitNonceLen_def cbcLaws_def macLaws_def)
      then have "2 < (?n AND NOT (int (cm_BlockSize b) - 1)) - int (mc_Size m)" using and_not_ge [of "int (cm_BlockSize b) - 1" ?n] by linarith
      then show ?thesis using Some CbcCipher r(1) by (auto simp: maxPayloadSizeForWrite_def Let_def intro!: pos)
    qed
  qed
qed

lemma encryptBody_ok:
  assumes "takesAll env" "hc_cipher s \<noteq> None"
  shows "encryptBody s (ce_random env) record payload \<noteq> None"
proof -
  obtain c where c: "hc_cipher s = Some c" using assms(2) by blast
  obtain bs where bs: "ce_random env (explicitNonceLen s) = Some bs" using assms(1) by (auto simp: takesAll_def)
  show ?thesis by (cases c) (simp_all add: encryptBody_def c Let_def bs)
qed

lemma writeOne_ok:
  assumes "takesAll env" "writable v c" "paired (cn_out c) r" "seqNo (cn_out c) < 2 ^ 64 - 1"
  shows "\<exists>c'. writeOne env typ payload c = Some (None, c') \<and> seqNo (cn_out c') = Suc (seqNo (cn_out c))"
proof -
  let ?h = "[typ] @ be16w (recordVersion (cn_vers c)) @ be16 (length payload)"
  have c: "\<not> cn_buffering c" "hc_cipher (cn_out c) \<noteq> None" "length (hc_seq (cn_out c)) = 8" "ce_write env bs = (length bs, None)" for bs
    using assms(1-3) by (simp_all add: writable_def paired_def takesAll_def)
  obtain record1 body cs where b: "encryptBody (cn_out c) (ce_random env) ?h payload = Some (record1, body, cs)"
    using encryptBody_ok [OF assms(1) c(2)] by (metis not_None_eq prod_cases3)
  let ?hc = "cn_out c\<lparr>hc_cipher := Some cs\<rparr>"
  have q: "seqNo ?hc = seqNo (cn_out c)" "length (hc_seq ?hc) = 8" using c(3) by (simp_all add: seqNo_def)
  then obtain hc where hc: "incSeq ?hc = Some hc" using incSeq_val(1) [of ?hc] assms(4) by (cases "incSeq ?hc") auto
  then have "seqNo hc = Suc (seqNo (cn_out c))" using incSeq_val(2) [OF q(2) hc] q(1) by simp
  then show ?thesis using b hc c by (simp add: writeOne_def encrypt_def connWriteRaw_def)
qed

lemma writeLoop_ok:
  assumes "takesAll env" "writable v c" "paired (cn_out c) r" "carriesType t" "length data \<le> fuel" "seqNo (cn_out c) + length data < 2 ^ 64"
  shows "\<exists>n' c'. writeLoop env t fuel n data c = Some (n', None, c') \<and> seqNo (cn_out c') \<le> seqNo (cn_out c) + length data"
  using assms
proof (induction env t fuel n data c arbitrary: r rule: writeLoop.induct)
  case (3 env t fuel n b data c)
  obtain mp c1 where mp: "maxPayloadSizeForWrite t c = (mp, c1)" by fastforce
  define m where "m = min (length (b # data)) (nat mp)"
  obtain k where c1: "c1 = c\<lparr>cn_packetsSent := k\<rparr>" using maxPayload_frame [of t c] mp by auto
  have pos: "0 < mp" "mp \<le> int maxPlaintext"
    using maxPayload_pos [OF 3(4), of t] maxPayload_bound [of t c] mp by simp_all
  then have m: "0 < m" "m \<le> maxPlaintext" "m \<le> length (b # data)" by (auto simp: m_def)
  have w: "writable v c1" "paired (cn_out c1) r" "take m (b # data) \<noteq> []" "length (take m (b # data)) \<le> maxPlaintext" "seqNo (cn_out c1) = seqNo (cn_out c)"
    using 3(3, 4) c1 m by (auto simp: writable_def)
  have "seqNo (cn_out c1) < 2 ^ 64 - 1" using 3(7) w(5) by simp
  from writeOne_ok [OF 3(2) w(1, 2) this] obtain c2 where c2: "writeOne env t (take m (b # data)) c1 = Some (None, c2)"
      "seqNo (cn_out c2) = Suc (seqNo (cn_out c))"
    using w(5) by metis
  from writeOne_record [OF 3(2) w(1-4) c2(1) 3(5)] obtain r1 where r1: "writable v c2" "paired (cn_out c2) r1" by auto
  have "length (drop m (b # data)) \<le> fuel" "seqNo (cn_out c2) + length (drop m (b # data)) < 2 ^ 64" using 3(6, 7) m c2(2) by simp_all
  from 3(1) [OF mp [symmetric] refl m_def _ c2(1) refl refl 3(2) r1 3(5) this] pos(1) obtain n' c' where
      "writeLoop env t fuel (n + m) (drop m (b # data)) c2 = Some (n', None, c')"
      "seqNo (cn_out c') \<le> seqNo (cn_out c2) + length (drop m (b # data))"
    by auto
  moreover from this(2) have "seqNo (cn_out c') \<le> seqNo (cn_out c) + length (b # data)" using m c2(2) unfolding length_drop by linarith
  ultimately show ?case using pos(1) c2(1)
    by (simp add: mp Let_def m_def del: take_Suc_Cons drop_Suc_Cons)
qed simp_all

lemma writeRecord_ok:
  assumes "takesAll env" "writable v c" "paired (cn_out c) r" "carriesType t" "seqNo (cn_out c) + length data < 2 ^ 64"
  shows "\<exists>n c'. writeRecordLocked env t data c = Some (n, None, c') \<and> seqNo (cn_out c') \<le> seqNo (cn_out c) + length data"
  using writeLoop_ok [OF assms(1-4) order_refl assms(5), of 0] assms(4) by (auto simp: writeRecordLocked_def)

lemma connWriteData_ok:
  assumes "takesAll env" "writable v c" "paired (cn_out c) r" "seqNo (cn_out c) + length data < 2 ^ 64"
    "cn_outErr c = None" "cn_handshakeComplete c" "\<not> cn_closeNotifySent c"
  shows "\<exists>n c'. connWriteData env data c = Some (n, None, c')"
proof (cases "1 < length data \<and> cn_vers c = VersionTLS10 \<and> (case hc_cipher (cn_out c) of Some (CbcCipher x) \<Rightarrow> True | _ \<Rightarrow> False)")
  case False
  then show ?thesis using writeRecord_ok [OF assms(1-3) _ assms(4), of recordTypeApplicationData] assms(5-7) by (auto simp: connWriteData_def Let_def)
next
  case True
  have "seqNo (cn_out c) + length (take 1 data) < 2 ^ 64" using assms(4) True by simp
  from writeRecord_ok [OF assms(1-3) _ this, of recordTypeApplicationData] obtain n1 c1 where
      1: "writeRecordLocked env recordTypeApplicationData (take 1 data) c = Some (n1, None, c1)" "seqNo (cn_out c1) \<le> seqNo (cn_out c) + length (take 1 data)"
    by blast
  obtain r1 where r1: "paired (cn_out c1) r1" "writable v c1" using writeRecord_records [OF assms(1-3) 1(1)] by blast
  have "length (take 1 data) + length (drop 1 data) = length data" by simp
  then have "seqNo (cn_out c1) + length (drop 1 data) < 2 ^ 64" using 1(2) assms(4) by linarith
  from writeRecord_ok [OF assms(1) r1(2, 1) _ this, of recordTypeApplicationData] show ?thesis using True 1(1) assms(5-7) by (auto simp: connWriteData_def Let_def)
qed

section \<open>Two sides\<close>

text \<open>A pair of TLS 1.3 connections over a simple cipher.\<close>

definition toyHalf :: halfConn where
  "toyHalf = newHalfConn\<lparr>hc_version := VersionTLS13, hc_cipher := Some (AeadCipher (XorNonce (replicate 12 1) (toyAead [7]) 16))\<rparr>"

definition toyConn :: conn where
  "toyConn = \<lparr>cn_vers = VersionTLS13, cn_haveVers = True, cn_handshakeComplete = True, cn_retryCount = 0, cn_hand = [], cn_input = [], cn_rawInput = [],
     cn_netEnd = NetClosed, cn_in = toyHalf, cn_inErr = None, cn_out = toyHalf, cn_outErr = None, cn_wire = [], cn_bytesSent = 0, cn_packetsSent = 0,
     cn_buffering = False, cn_sendBuf = [], cn_dynamicDisabled = False, cn_closeNotifySent = False, cn_closeNotifyErr = None, cn_handshakes = 1,
     cn_sessionPuts = [], cn_closed = False\<rparr>"

definition toyEnv :: connEnv where
  "toyEnv = \<lparr>ce_random = (\<lambda>n. Some (replicate n 0)), ce_write = (\<lambda>bs. (length bs, None)), ce_arrived = (\<lambda>_. True)\<rparr>"

definition toyCfg :: connCfg where
  "toyCfg = \<lparr>cc_cb = cryptobyteRef, cc_isClient = True, cc_nextTrafficSecret = Some (map ((+) 1)), cc_trafficKeys = (\<lambda>s. XorNonce (replicate 12 1) (toyAead s) 16),
     cc_Renegotiation = 0, cc_clientHandshake = (\<lambda>c. (None, c)), cc_sessionCache = True, cc_cacheKey = ''example.com'', cc_resumptionSecret = Some [1],
     cc_resumptionPsk = (@), cc_time = 0\<rparr>"

lemma toy_aeadLaws: "aeadLaws (XorNonce nm (toyAead key) 16)"
  using Open_Seal [OF toyCrypto_laws, of 0 key "toyAead key"] Seal_length [OF toyCrypto_laws, of 0 key "toyAead key"]
  by (simp add: aeadLaws_def toyCrypto_def)

lemma toy_paired: "paired toyHalf toyHalf"
  using toy_aeadLaws by (simp add: paired_def toyHalf_def newHalfConn_def)

lemma toy_fields:
  "cn_out toyConn = toyHalf" "cn_in toyConn = toyHalf" "cn_outErr toyConn = None" "cn_handshakeComplete toyConn" "\<not> cn_closeNotifySent toyConn"
  "cn_hand toyConn = []"
  by (simp_all add: toyConn_def)

lemma toy_seqNo: "seqNo toyHalf = 0"
  by (simp add: seqNo_def toyHalf_def newHalfConn_def numeral_eq_Suc)

lemma toy_ready: "takesAll toyEnv" "writable VersionTLS13 toyConn" "tlsReadable VersionTLS13 toyConn" "receiving VersionTLS13 toyConn"
  by (simp_all add: takesAll_def toyEnv_def writable_def tlsReadable_def receiving_def toyConn_def toyHalf_def)



section \<open>Handshake messages over records\<close>

lemma length_lists:
  "length (concat (map (\<lambda>c. be24 (length c) @ c) cs)) = 3 * length cs + sum_list (map length cs)"
  "length (concat (map (\<lambda>ca. be16 (length ca) @ ca) cs)) = sum_list (map (\<lambda>ca. 2 + length ca) cs)"
  by (induction cs) (simp_all add: be24_def)

definition framedMsg :: "bytes \<Rightarrow> bool" where
  "framedMsg bs \<longleftrightarrow> (\<exists>ty body. bs = ty # be24 (length body) @ body)"

lemma framedI: "length body = n \<Longrightarrow> framedMsg (ty # be24 n @ body)"
  by (auto simp: framedMsg_def)

context cryptobyte_reader
begin

lemma message_framed: "message cb ty parts = Some bs \<Longrightarrow> framedMsg bs"
  by (auto simp: message_eq framedMsg_def)

lemma handshake_framed:
  assumes "marshalHandshake cb vers m = Some bs" "sendableMsg vers toClient m"
  shows "framedMsg bs"
proof (cases m)
  case (CertificateChain cs)
  have "framedMsg (certificate_marshal cs)" unfolding certificate_marshal_def Let_def append.simps
    by (rule framedI) (simp add: length_lists(1))
  then show ?thesis using assms(1) CertificateChain by simp
next
  case (CertificateRequest r)
  have "framedMsg (request_marshal r)" unfolding request_marshal_def Let_def append.simps
    by (rule framedI) (simp add: length_lists(2))
  then show ?thesis using assms(1) CertificateRequest by simp
qed (use assms in \<open>auto simp: marshal_defs sendable_def Let_def serverKeyExchange_marshal_def clientKeyExchange_marshal_def newSessionTicket_marshal_def
      helloRequest_marshal_def serverHelloDone_marshal_def endOfEarlyData_marshal_def be24_def framedMsg_def split: bind_splits dest!: message_framed\<close>)

end

lemma hand_records_read:
  assumes "receiving v c" "cn_rawInput c = concat (map fst xs) @ rest" "dataRecords v recordTypeHandshake (cn_in c) xs r'"
    "n \<le> length (cn_hand c @ concat (map snd xs))" "length xs \<le> fuel"
  shows "\<exists>ys zs c'. xs = ys @ zs \<and> readHandshakeBytes env fuel n c = Some (None, c') \<and> receiving v c' \<and> n \<le> length (cn_hand c') \<and>
     cn_hand c' = cn_hand c @ concat (map snd ys) \<and> cn_rawInput c' = concat (map fst zs) @ rest \<and> dataRecords v recordTypeHandshake (cn_in c') zs r' \<and>
     cn_out c' = cn_out c"
  using assms
proof (induction xs arbitrary: c fuel)
  case Nil
  then show ?case by (intro exI [of _ "[]"] exI [of _ c]) (simp add: readHandshakeBytes.simps)
next
  case (Cons x xs)
  obtain out payload where x: "x = (out, payload)" by fastforce
  obtain r1 where r1: "dataRecord v recordTypeHandshake (cn_in c) out payload r1" "dataRecords v recordTypeHandshake r1 xs r'" using Cons.prems(3) x by auto
  show ?case
  proof (cases "n \<le> length (cn_hand c)")
    case True
    then show ?thesis using Cons.prems by (intro exI [of _ "[]"] exI [of _ "x # xs"] exI [of _ c]) (simp add: readHandshakeBytes.simps)
  next
    case False
    let ?c = "c\<lparr>cn_rawInput := concat (map fst xs) @ rest, cn_in := r1, cn_retryCount := 0, cn_hand := cn_hand c @ payload\<rparr>"
    obtain k where k: "fuel = Suc k" "length xs \<le> k" using Cons.prems(5) by (cases fuel) auto
    have read: "readRecordOrCCS env False c = Some (None, ?c)" using hand_record_read [OF Cons.prems(1) _ r1(1)] Cons.prems(2) x by simp
    have "receiving v ?c" using Cons.prems(1) by (simp add: receiving_def)
    from Cons.IH [OF this _ _ _ k(2)] r1(2) Cons.prems(4) x
    obtain ys zs c' where "xs = ys @ zs" "readHandshakeBytes env k n ?c = Some (None, c')" "receiving v c'" "n \<le> length (cn_hand c')"
        "cn_hand c' = cn_hand c @ payload @ concat (map snd ys)" "cn_rawInput c' = concat (map fst zs) @ rest"
        "dataRecords v recordTypeHandshake (cn_in c') zs r'" "cn_out c' = cn_out c"
      by (auto simp: add.assoc)
    then show ?thesis using False k(1) read x by (intro exI [of _ "x # ys"] exI [of _ zs] exI [of _ c']) (simp add: readHandshakeBytes.simps [of env "Suc k"])
  qed
qed

lemma dataRecords_nonempty: "dataRecords v t r xs r' \<Longrightarrow> length xs \<le> length (concat (map fst xs)) \<and> (concat (map snd xs) = [] \<longrightarrow> xs = [])"
proof (induction xs arbitrary: r)
  case (Cons x xs)
  obtain out payload where x: "x = (out, payload)" by fastforce
  then obtain r1 where r1: "dataRecord v t r out payload r1" "dataRecords v t r1 xs r'" using Cons.prems by auto
  have "0 < length out" "payload \<noteq> []" using r1(1) by (auto simp: dataRecord_def)
  moreover have "length xs \<le> length (concat (map fst xs))" using Cons.IH [OF r1(2)] by blast
  ultimately show ?case by (simp add: x del: length_concat length_greater_0_conv)
qed simp

lemma more_bytes:
  assumes "receiving v c" "cn_rawInput c = concat (map fst xs) @ rest" "dataRecords v recordTypeHandshake (cn_in c) xs r'"
    "n \<le> length (cn_hand c @ concat (map snd xs))"
  shows "\<exists>ys zs c'. xs = ys @ zs \<and> moreBytes env n c = Some (None, c') \<and> receiving v c' \<and> n \<le> length (cn_hand c') \<and>
     cn_hand c' = cn_hand c @ concat (map snd ys) \<and> cn_rawInput c' = concat (map fst zs) @ rest \<and> dataRecords v recordTypeHandshake (cn_in c') zs r' \<and>
     cn_out c' = cn_out c"
proof -
  have "length xs \<le> Suc (length (cn_rawInput c))" using dataRecords_nonempty [OF assms(3)] assms(2) by simp
  from hand_records_read [OF assms this, of env] show ?thesis unfolding moreBytes_def .
qed

lemma framed_header:
  assumes "bs = ty # be24 (length body) @ body" "length body < 16777216" "bs = pre @ post" "4 \<le> length pre"
  shows "hd pre = ty" "val24 (pre ! 1) (pre ! 2) (pre ! 3) = length body"
proof -
  have nth: "pre ! i = bs ! i" if "i < 4" for i using that assms(3, 4) by (simp add: nth_append)
  have "be24 (length body) = [bs ! 1, bs ! 2, bs ! 3]" unfolding assms(1) by (simp add: be24_def)
  then show "val24 (pre ! 1) (pre ! 2) (pre ! 3) = length body" using val24_be24 assms(2) by (simp add: nth)
  show "hd pre = ty" using assms(1, 3, 4) by (cases pre) auto
qed

lemma readHandshake_records:
  assumes "receiving v c" "cn_hand c = []" "cn_rawInput c = concat (map fst xs) @ rest" "dataRecords v recordTypeHandshake (cn_in c) xs r'"
    "framedMsg (concat (map snd xs))" "length (concat (map snd xs)) \<le> 65540"
  shows "\<exists>c'. readHandshake cfg env c = unmarshalNext cfg env (concat (map snd xs)) c' \<and> receiving v c' \<and> cn_hand c' = [] \<and> cn_rawInput c' = rest \<and>
     cn_in c' = r' \<and> cn_out c' = cn_out c"
proof -
  let ?bs = "concat (map snd xs)"
  obtain ty body where bs: "?bs = ty # be24 (length body) @ body" using assms(5) by (auto simp: framedMsg_def)
  have l: "length ?bs = 4 + length body" unfolding bs by simp
  then have small: "length body \<le> 65536" using assms(6) by linarith
  have "4 \<le> length (cn_hand c @ ?bs)" using l by simp
  from more_bytes [OF assms(1, 3, 4) this, of env] obtain ys zs c1 where 1: "xs = ys @ zs" "moreBytes env 4 c = Some (None, c1)" "receiving v c1"
      "4 \<le> length (cn_hand c1)" "cn_hand c1 = concat (map snd ys)" "cn_rawInput c1 = concat (map fst zs) @ rest"
      "dataRecords v recordTypeHandshake (cn_in c1) zs r'" "cn_out c1 = cn_out c"
    using assms(2) by auto
  have whole: "?bs = cn_hand c1 @ concat (map snd zs)" by (simp add: 1(1, 5))
  note f = framed_header [OF bs _ whole 1(4)]
  have "4 + length body \<le> length (cn_hand c1 @ concat (map snd zs))" using l unfolding whole by simp
  from more_bytes [OF 1(3, 6, 7) this, of env] obtain us ws c2 where 2: "zs = us @ ws" "moreBytes env (4 + length body) c1 = Some (None, c2)" "receiving v c2"
      "4 + length body \<le> length (cn_hand c2)" "cn_hand c2 = cn_hand c1 @ concat (map snd us)" "cn_rawInput c2 = concat (map fst ws) @ rest"
      "dataRecords v recordTypeHandshake (cn_in c2) ws r'" "cn_out c2 = cn_out c1"
    by blast
  have all: "?bs = cn_hand c2 @ concat (map snd ws)" by (simp add: whole 2(1, 5))
  then have "length ?bs = length (cn_hand c2) + length (concat (map snd ws))" by (simp only: length_append)
  then have "concat (map snd ws) = []" using 2(4) l by (metis add_le_same_cancel1 le_zero_eq length_0_conv)
  then have ws: "ws = []" "cn_hand c2 = ?bs" using dataRecords_nonempty [OF 2(7)] all by simp_all
  have "readHandshake cfg env c = unmarshalNext cfg env ?bs (c2\<lparr>cn_hand := []\<rparr>)"
    using 1(2) 2(2) f small l unfolding readHandshake_def by (simp add: Let_def ws(2))
  then show ?thesis using 1(8) 2(3, 6, 7, 8) ws(1) by (intro exI [of _ "c2\<lparr>cn_hand := []\<rparr>"]) (simp add: receiving_def)
qed

lemma unmarshal_known: "unmarshalHandshakeMessage cb vers isClient data = Some m \<Longrightarrow> hd data \<in> set knownTypes"
  by (simp add: unmarshalHandshakeMessage_def knownTypes_def Let_def split: if_splits)

text \<open>C8. A handshake message that one side writes is the message the other side reads, when records are sealed: \<open>writeHandshakeRecord\<close>
  succeeds, and \<open>readHandshake\<close> puts the message together from as many records as it took, takes nothing of what follows, and
  leaves the two sides paired.\<close>

theorem handshake_message_arrives:
  assumes "takesAll senv" "writable v s" "seqNo (cn_out s) + length bs < 2 ^ 64" "paired (cn_out s) (cn_in r)" "receiving v r" "cn_hand r = []"
    "cryptobyte_reader cb" "cc_cb scfg = cb" "cc_cb rcfg = cb" "marshalHandshake cb v m = Some bs" "sendableMsg v (cc_isClient rcfg) m" "length bs \<le> 65540"
  shows "\<exists>s' sent. writeHandshakeRecord scfg senv m s = Some (length bs, None, s') \<and> cn_wire s' = cn_wire s @ sent \<and>
     (\<exists>r'. readHandshake rcfg renv (r\<lparr>cn_rawInput := sent @ rest\<rparr>) = Some (Inr (asReceived cb bs m), r') \<and>
        cn_rawInput r' = rest \<and> cn_hand r' = [] \<and> receiving v r' \<and> writable v s' \<and> paired (cn_out s') (cn_in r'))"
proof -
  have v: "cn_vers s = v" "cn_vers r = v" using assms(2, 5) by (simp_all add: writable_def receiving_def)
  obtain n s' where w: "writeRecordLocked senv recordTypeHandshake bs s = Some (n, None, s')"
    using writeRecord_ok [OF assms(1, 2, 4) _ assms(3), of recordTypeHandshake] by auto
  from writeRecord_records [OF assms(1, 2, 4) w] obtain xs r1 where x: "n = length bs" "cn_wire s' = cn_wire s @ concat (map fst xs)" "bs = concat (map snd xs)"
      "dataRecords v recordTypeHandshake (cn_in r) xs r1" "paired (cn_out s') r1" "writable v s'"
    by auto
  let ?r = "r\<lparr>cn_rawInput := concat (map fst xs) @ rest\<rparr>"
  have "receiving v ?r" using assms(5) by (simp add: receiving_def)
  moreover have "framedMsg bs" using cryptobyte_reader.handshake_framed [OF assms(7, 10, 11)] .
  ultimately obtain c' where c': "readHandshake rcfg renv ?r = unmarshalNext rcfg renv bs c'" "receiving v c'" "cn_hand c' = []" "cn_rawInput c' = rest" "cn_in c' = r1"
    using readHandshake_records [of v ?r xs rest r1 rcfg renv] assms(6, 12) x(3, 4) by auto
  have m: "unmarshalHandshakeMessage cb v (cc_isClient rcfg) bs = Some (asReceived cb bs m)"
    using cryptobyte_reader.handshake_back [OF assms(7, 10, 11)] assms(12) by simp
  have "cn_vers c' = v" using c'(2) by (simp add: receiving_def)
  then have "unmarshalNext rcfg renv bs c' = Some (Inr (asReceived cb bs m), c')" using unmarshal_known [OF m] m assms(9) by (simp add: unmarshalNext_def)
  moreover have "writeHandshakeRecord scfg senv m s = Some (length bs, None, s')" using w x(1) v(1) assms(8, 10) by (simp add: writeHandshakeRecord_def)
  ultimately show ?thesis using c' x(2, 5, 6) by (intro exI [of _ s'] exI [of _ "concat (map fst xs)"]) auto
qed

theorem handshake_message_arrives_witness:
  "\<exists>s' sent. writeHandshakeRecord toyCfg toyEnv (KeyUpdate True) toyConn = Some (length [24, 0, 0, 1, 1 :: byte], None, s') \<and> cn_wire s' = cn_wire toyConn @ sent \<and>
     (\<exists>r'. readHandshake toyCfg toyEnv (toyConn\<lparr>cn_rawInput := sent @ [23, 3]\<rparr>) = Some (Inr (KeyUpdate True), r') \<and>
        cn_rawInput r' = [23, 3] \<and> cn_hand r' = [] \<and> receiving VersionTLS13 r' \<and> writable VersionTLS13 s' \<and> paired (cn_out s') (cn_in r'))"
proof -
  have m: "marshalHandshake cryptobyteRef VersionTLS13 (KeyUpdate True) = Some [24, 0, 0, 1, 1]"
    by (simp add: keyUpdate_marshal_def message_def bytes24_def cryptobyteRef_def be24_def)
  have "cc_cb toyCfg = cryptobyteRef" by (simp add: toyCfg_def)
  then show ?thesis
    using handshake_message_arrives [OF toy_ready(1, 2) _ _ toy_ready(4) _ ref.cryptobyte_reader_axioms _ _ m, of toyCfg toyCfg toyEnv "[23, 3]"] toy_paired toy_seqNo
    by (simp add: toy_fields)
qed

end
