(* ===== verification/Utls_Record_Reads.thy ===== *)
theory Utls_Record_Reads
  imports Utls_Record_Correct
begin

text \<open>
  Reading records, for any input: \<open>readRecordOrCCS\<close> does exactly one thing, and it comes to an end.
\<close>

section \<open>What an alert leaves alone\<close>

definition sameIn :: "conn \<Rightarrow> conn \<Rightarrow> bool" where
  "sameIn c c' \<longleftrightarrow> cn_hand c' = cn_hand c \<and> cn_input c' = cn_input c \<and> cn_rawInput c' = cn_rawInput c \<and> cn_in c' = cn_in c"

lemma sameIn_simps [simp]: "sameIn c c" "sameIn c (c\<lparr>cn_inErr := e\<rparr>) \<longleftrightarrow> True" "sameIn c (setErrorIn e' c')  \<longleftrightarrow> sameIn c c'" "sameIn c (setErrorOut e' c') \<longleftrightarrow> sameIn c c'"
  by (simp_all add: sameIn_def setErrorIn_def setErrorOut_def)

lemma sameIn_trans [trans]: "sameIn a b \<Longrightarrow> sameIn b c \<Longrightarrow> sameIn a c"
  by (simp add: sameIn_def)

lemma writeOne_same: "writeOne env t payload c = Some (e, c') \<Longrightarrow> sameIn c c'"
  by (auto simp: writeOne_def connWriteRaw_def sameIn_def Let_def split: outcome.splits if_splits prod.splits)

lemma maxPayload_same: "maxPayloadSizeForWrite t c = (m, c') \<Longrightarrow> sameIn c c'"
  by (auto simp: maxPayloadSizeForWrite_def sameIn_def Let_def split: if_splits)

lemma writeLoop_same: "writeLoop env t fuel n data c = Some (n', e, c') \<Longrightarrow> sameIn c c'"
proof (induction env t fuel n data c rule: writeLoop.induct)
  case (3 env t fuel n b data c)
  obtain mp c1 where mp: "maxPayloadSizeForWrite t c = (mp, c1)" by fastforce
  let ?m = "min (length (b # data)) (nat mp)"
  from 3(2) mp obtain e1 c2 where w: "writeOne env t (take ?m (b # data)) c1 = Some (e1, c2)" "\<not> mp \<le> 0"
    by (auto simp: Let_def simp del: take_Suc_Cons split: option.splits if_splits)
  have "sameIn c2 c'"
  proof (cases e1)
    case None
    then show ?thesis using 3(1) [OF mp [symmetric] refl refl w(2, 1)] 3(2) mp w by (simp add: Let_def del: take_Suc_Cons drop_Suc_Cons)
  qed (use 3(2) mp w in \<open>auto simp: Let_def simp del: take_Suc_Cons drop_Suc_Cons\<close>)
  then show ?case using maxPayload_same [OF mp] writeOne_same [OF w(1)] by (meson sameIn_trans)
qed auto

lemma sendAlert_same: "sendAlert env a c = Some (e, c') \<Longrightarrow> sameIn c c'"
proof -
  assume sent: "sendAlert env a c = Some (e, c')"
  then obtain n err c1 where "writeLoop env recordTypeAlert 2 0 [if a = 100 \<or> a = 0 then 1 else 2, a] c = Some (n, err, c1)"
      "c' = c1 \<or> c' = setErrorOut (LocalAlert a) c1"
    by (simp add: sendAlert_def Let_def split: option.splits) (fastforce split: if_splits)
  then show ?thesis using writeLoop_same by fastforce
qed

lemma alertStep_err: "alertStep env a c = Some st \<Longrightarrow> \<exists>e c'. st = StepErr e c' \<and> sameIn c c'"
  by (auto simp: alertStep_def sameIn_def dest!: sendAlert_same)

lemma headerStep_err: "headerStep env a msg c = Some st \<Longrightarrow> \<exists>e c'. st = StepErr e c' \<and> sameIn c c'"
  by (auto simp: headerStep_def split: option.splits dest!: sendAlert_same)

section \<open>One effect\<close>

text \<open>What a successful read does: with \<open>expectCCS\<close> the ciphers change, otherwise the handshake grows or, after the handshake, application data is there.\<close>

definition oneEffect :: "bool \<Rightarrow> conn \<Rightarrow> conn \<Rightarrow> bool" where
  "oneEffect expectCCS c c' \<longleftrightarrow>
     (if expectCCS then cn_hand c' = cn_hand c \<and> cn_input c' = cn_input c \<and> (\<exists>hc. changeCipherSpec hc = Inr (cn_in c'))
      else cn_input c' = cn_input c \<and> (\<exists>d. d \<noteq> [] \<and> cn_hand c' = cn_hand c @ d) \<or>
           cn_handshakeComplete c \<and> cn_hand c' = cn_hand c \<and> cn_input c' \<noteq> [])"

text \<open>The effect of one record; an ignored one takes its bytes and changes nothing that its reader sees.\<close>

definition stepEffect :: "bool \<Rightarrow> conn \<Rightarrow> recStep \<Rightarrow> bool" where
  "stepEffect expectCCS c st \<longleftrightarrow>
     (case st of
        StepErr e c' \<Rightarrow> cn_hand c' = cn_hand c \<and> cn_input c' = cn_input c
      | StepRetry c' \<Rightarrow> cn_hand c' = cn_hand c \<and> cn_input c' = cn_input c \<and> cn_handshakeComplete c' = cn_handshakeComplete c
      | StepOk c' \<Rightarrow> oneEffect expectCCS c c')"

lemma alertStep_effect: "alertStep env a c = Some st \<Longrightarrow> stepEffect expectCCS c st"
  by (auto simp: stepEffect_def sameIn_def dest!: alertStep_err)

lemma headerStep_effect: "headerStep env a msg c = Some st \<Longrightarrow> stepEffect expectCCS c st"
  by (auto simp: stepEffect_def sameIn_def dest!: headerStep_err)

lemma contentStep_effect: "contentStep env expectCCS t data c = Some st \<Longrightarrow> stepEffect expectCCS c st"
  unfolding contentStep_def
  by (auto simp: stepEffect_def oneEffect_def setErrorIn_def split: if_splits sum.splits dest!: alertStep_effect [unfolded stepEffect_def, where expectCCS = expectCCS])

lemma stepEffect_cong:
  "stepEffect expectCCS c1 st \<Longrightarrow> cn_hand c1 = cn_hand c \<Longrightarrow> cn_input c1 = cn_input c \<Longrightarrow> cn_handshakeComplete c1 = cn_handshakeComplete c \<Longrightarrow> stepEffect expectCCS c st"
  by (cases st) (auto simp: stepEffect_def oneEffect_def split: if_splits)

lemma recordBody_effect: "recordBody env expectCCS record c = Some st \<Longrightarrow> stepEffect expectCCS c st"
  by (auto simp: recordBody_def Let_def split: option.splits sum.splits if_splits dest!: alertStep_effect [where expectCCS = expectCCS] contentStep_effect elim!: stepEffect_cong)

text \<open>A record is an error of its header, or it is whole.\<close>

definition stepShape :: "connEnv \<Rightarrow> bool \<Rightarrow> conn \<Rightarrow> recStep option \<Rightarrow> bool" where
  "stepShape env expectCCS c x \<longleftrightarrow> (\<exists>e c'. x = Some (StepErr e c') \<and> sameIn c c') \<or> (\<exists>a msg. x = headerStep env a msg c) \<or>
     (\<exists>n. 5 + n \<le> length (cn_rawInput c) \<and> x = recordBody env expectCCS (take (5 + n) (cn_rawInput c)) (c\<lparr>cn_rawInput := drop (5 + n) (cn_rawInput c)\<rparr>))"

lemma stepShape_if:
  "(A \<Longrightarrow> stepShape env expectCCS c x) \<Longrightarrow> (\<not> A \<Longrightarrow> stepShape env expectCCS c y) \<Longrightarrow> stepShape env expectCCS c (if A then x else y)"
  by simp

lemma stepShape_body:
  "\<not> length (cn_rawInput c) < 5 + n \<Longrightarrow>
     stepShape env expectCCS c (recordBody env expectCCS (take (5 + n) (cn_rawInput c)) (c\<lparr>cn_rawInput := drop (5 + n) (cn_rawInput c)\<rparr>))"
  unfolding stepShape_def by (intro disjI2 exI [of _ n] conjI refl) (simp add: not_less)

lemma stepShape_err:
  "stepShape env expectCCS c (headerStep env a msg c)" "stepShape env expectCCS c (Some (StepErr e c))"
  "stepShape env expectCCS c (Some (StepErr e (setErrorIn e c)))" "stepShape env expectCCS c (Some (readFailed h c))"
  unfolding stepShape_def by (auto simp: readFailed_def Let_def split: netEnd.splits)

lemma recordStep_shape: "stepShape env expectCCS c (recordStep env expectCCS c)"
  unfolding recordStep_def Let_def by (cases "cn_inErr c"; simp only: option.case; intro stepShape_if stepShape_body stepShape_err)

lemma recordStep_effect:
  assumes "recordStep env expectCCS c = Some st"
  shows "stepEffect expectCCS c st"
proof -
  from recordStep_shape [of env expectCCS c, unfolded assms] consider e c' where "st = StepErr e c'" "sameIn c c'"
    | a msg where "headerStep env a msg c = Some st"
    | bs n where "recordBody env expectCCS bs (c\<lparr>cn_rawInput := drop (5 + n) (cn_rawInput c)\<rparr>) = Some st"
    unfolding stepShape_def by auto
  then show ?thesis
  proof cases
    case 3
    then show ?thesis using stepEffect_cong [OF recordBody_effect] by simp
  qed (use headerStep_effect in \<open>auto simp: stepEffect_def sameIn_def\<close>)
qed

lemma readRecords_effect:
  "readRecords env expectCCS fuel c = Some (err, c') \<Longrightarrow>
     (case err of Some e \<Rightarrow> cn_hand c' = cn_hand c \<and> cn_input c' = cn_input c | None \<Rightarrow> oneEffect expectCCS c c')"
proof (induction env expectCCS fuel c rule: readRecords.induct)
  case (2 env expectCCS fuel c)
  obtain st where st: "recordStep env expectCCS c = Some st" using 2(2) by (auto split: option.splits)
  note eff = recordStep_effect [OF st]
  show ?case
  proof (cases st)
    case (StepRetry c1)
    let ?c = "c1\<lparr>cn_retryCount := cn_retryCount c1 + 1\<rparr>"
    have same: "cn_hand c1 = cn_hand c" "cn_input c1 = cn_input c" "cn_handshakeComplete c1 = cn_handshakeComplete c" using eff by (simp_all add: stepEffect_def StepRetry)
    show ?thesis
    proof (cases "maxUselessRecords < cn_retryCount ?c")
      case True
      then show ?thesis using 2(2) same by (auto simp: st StepRetry Let_def setErrorIn_def sameIn_def dest!: sendAlert_same)
    next
      case False
      then show ?thesis using 2(1) [OF st StepRetry refl False] 2(2) same
        by (auto simp: st StepRetry Let_def oneEffect_def split: option.splits)
    qed
  qed (use 2(2) st eff in \<open>auto simp: stepEffect_def\<close>)
qed simp

section \<open>Reading ends\<close>

text \<open>A side whose sequence number is below \<open>m\<close>.\<close>

definition seqBelow :: "nat \<Rightarrow> halfConn \<Rightarrow> bool" where
  "seqBelow m hc \<longleftrightarrow> length (hc_seq hc) = 8 \<and> seqNo hc < m"

lemma incSeq_below:
  assumes "seqBelow m hc" "m < 2 ^ 64"
  shows "\<exists>hc'. incSeq (hc\<lparr>hc_cipher := x\<rparr>) = Some hc' \<and> seqBelow (Suc m) hc'"
proof -
  let ?hc = "hc\<lparr>hc_cipher := x\<rparr>"
  have q: "length (hc_seq ?hc) = 8" "seqNo ?hc < m" using assms(1) by (simp_all add: seqBelow_def seqNo_def)
  then obtain hc' where hc': "incSeq ?hc = Some hc'" using incSeq_val(1) [OF q(1)] assms(2) by (cases "incSeq ?hc") auto
  then show ?thesis using incSeq_val(2) [OF q(1) hc'] q(2) by (simp add: seqBelow_def)
qed

lemma encrypt_no_panic:
  assumes "seqBelow m hc" "m < 2 ^ 64"
  shows "encrypt hc random record payload \<noteq> Panic"
proof -
  have "incSeq (hc\<lparr>hc_cipher := x\<rparr>) \<noteq> None" for x using incSeq_below [OF assms, of x] by auto
  then show ?thesis by (auto simp: encrypt_def split: option.splits) (metis option.distinct(1))
qed

lemma decrypt_no_panic:
  assumes "seqBelow m hc" "m < 2 ^ 64"
  shows "\<exists>x. decrypt hc record = Some x \<and> (\<forall>p t hc'. x = Inr (p, t, hc') \<longrightarrow> seqBelow (Suc m) hc')"
proof -
  have "seqBelow (Suc m) hc" using assms(1) by (simp add: seqBelow_def)
  then show ?thesis using incSeq_below [OF assms] by (fastforce simp: decrypt_def Let_def split: sum.splits)
qed

lemma sendAlert_returns:
  assumes "seqBelow m (cn_out c)" "m < 2 ^ 64"
  shows "sendAlert env a c \<noteq> None"
  using encrypt_no_panic [OF assms]
  by (auto simp: sendAlert_def Let_def numeral_2_eq_2 maxPayloadSizeForWrite_def writeOne_def split: option.splits outcome.splits prod.splits)

lemma alerts_return:
  assumes "seqBelow m (cn_out c)" "m < 2 ^ 64"
  shows "alertStep env a c \<noteq> None" "headerStep env b msg c \<noteq> None"
  using sendAlert_returns [OF assms] by (auto simp: alertStep_def headerStep_def split: option.splits)

lemma contentStep_returns:
  assumes "seqBelow m (cn_out c)" "m < 2 ^ 64"
  shows "contentStep env expectCCS t data c \<noteq> None"
  using alerts_return(1) [OF assms] by (simp add: contentStep_def split: sum.splits)

lemma contentStep_retry: "contentStep env expectCCS t data c = Some (StepRetry c') \<Longrightarrow> c' = c"
  by (auto simp: contentStep_def split: if_splits sum.splits dest!: alertStep_err)

lemma some_if:
  "(A \<Longrightarrow> \<exists>st. x = Some st \<and> P st) \<Longrightarrow> (\<not> A \<Longrightarrow> \<exists>st. y = Some st \<and> P st) \<Longrightarrow> \<exists>st. (if A then x else y) = Some st \<and> P st"
  by simp

lemma recordBody_returns:
  assumes "seqBelow m (cn_out c)" "m < 2 ^ 64" "seqBelow k (cn_in c)" "k < 2 ^ 64"
  shows "\<exists>st. recordBody env expectCCS record c = Some st \<and>
    (\<forall>c'. st = StepRetry c' \<longrightarrow> cn_out c' = cn_out c \<and> seqBelow (Suc k) (cn_in c') \<and> cn_rawInput c' = cn_rawInput c)"
proof -
  have alert: "\<exists>e c'. alertStep env a c1 = Some (StepErr e c')" if "cn_out c1 = cn_out c" for a c1
    using alerts_return(1) [of m c1 env a] alertStep_err [of env a c1] that assms(1, 2) by fastforce
  obtain x where x: "decrypt (cn_in c) record = Some x" "\<And>p t hc'. x = Inr (p, t, hc') \<Longrightarrow> seqBelow (Suc k) hc'"
    using decrypt_no_panic [OF assms(3, 4)] by blast
  show ?thesis
  proof (cases x)
    case (Inl a)
    then show ?thesis using x(1) alert [of c a] by (auto simp: recordBody_def)
  next
    case (Inr y)
    obtain p t hc where y: "y = (p, t, hc)" by (cases y)
    let ?c1 = "c\<lparr>cn_in := hc\<rparr>"
    define c2 where "c2 = (if t \<noteq> recordTypeAlert \<and> t \<noteq> recordTypeChangeCipherSpec \<and> p \<noteq> [] then ?c1\<lparr>cn_retryCount := 0\<rparr> else ?c1)"
    have c2: "cn_out c2 = cn_out c" "cn_in c2 = hc" "cn_rawInput c2 = cn_rawInput c" by (simp_all add: c2_def)
    then obtain st where st: "contentStep env expectCCS t p c2 = Some st" using contentStep_returns [of m c2] assms(1, 2) by fastforce
    let ?ok = "\<lambda>st. \<forall>c'. st = StepRetry c' \<longrightarrow> cn_out c' = cn_out c \<and> seqBelow (Suc k) (cn_in c') \<and> cn_rawInput c' = cn_rawInput c"
    have alerted: "\<exists>st. alertStep env a c1 = Some st \<and> ?ok st" if "cn_out c1 = cn_out c" for a c1 using alert [OF that] by blast
    have below: "seqBelow (Suc k) hc" using x(2) Inr y by blast
    have "c' = c2" if "st = StepRetry c'" for c' by (rule contentStep_retry [OF st [unfolded that]])
    then have "?ok st" using c2 below by blast
    with st have content: "\<exists>st. contentStep env expectCCS t p c2 = Some st \<and> ?ok st" by blast
    show ?thesis unfolding recordBody_def Let_def x(1) Inr y option.case sum.case prod.case
      by (intro some_if alerted content [unfolded c2_def]) simp_all
  qed
qed

text \<open>A side that can read to the end of its input: its sequence numbers leave room for every record that may come.\<close>

definition roomy :: "conn \<Rightarrow> bool" where
  "roomy c \<longleftrightarrow> seqBelow (2 ^ 64 - 1) (cn_out c) \<and> seqBelow (2 ^ 64 - 1 - length (cn_rawInput c)) (cn_in c)"

lemma recordStep_returns:
  assumes "roomy c"
  shows "\<exists>st. recordStep env expectCCS c = Some st \<and> (\<forall>c'. st = StepRetry c' \<longrightarrow> roomy c' \<and> length (cn_rawInput c') < length (cn_rawInput c))"
proof -
  have out: "seqBelow (2 ^ 64 - 1) (cn_out c)" "(2 :: nat) ^ 64 - 1 < 2 ^ 64" and inn: "seqBelow (2 ^ 64 - 1 - length (cn_rawInput c)) (cn_in c)"
    using assms by (simp_all add: roomy_def)
  from recordStep_shape [of env expectCCS c, unfolded stepShape_def]
  consider e c' where "recordStep env expectCCS c = Some (StepErr e c')" | a msg where "recordStep env expectCCS c = headerStep env a msg c"
    | n where "5 + n \<le> length (cn_rawInput c)"
      "recordStep env expectCCS c = recordBody env expectCCS (take (5 + n) (cn_rawInput c)) (c\<lparr>cn_rawInput := drop (5 + n) (cn_rawInput c)\<rparr>)"
    by blast
  then show ?thesis
  proof cases
    case 2
    then show ?thesis using alerts_return(2) [OF out, of env a msg] headerStep_err [of env a msg c] by fastforce
  next
    case 3
    let ?c = "c\<lparr>cn_rawInput := drop (5 + n) (cn_rawInput c)\<rparr>"
    have "2 ^ 64 - 1 - length (cn_rawInput c) < (2 :: nat) ^ 64" by (rule le_less_trans [OF diff_le_self out(2)])
    moreover have "seqBelow (2 ^ 64 - 1) (cn_out ?c)" "seqBelow (2 ^ 64 - 1 - length (cn_rawInput c)) (cn_in ?c)" using out(1) inn by simp_all
    ultimately obtain st where st: "recordStep env expectCCS c = Some st"
        "\<And>c'. st = StepRetry c' \<Longrightarrow> cn_out c' = cn_out ?c \<and> seqBelow (Suc (2 ^ 64 - 1 - length (cn_rawInput c))) (cn_in c') \<and> cn_rawInput c' = cn_rawInput ?c"
      using recordBody_returns [OF _ out(2)] unfolding 3(2) by blast
    have "roomy c'" "length (cn_rawInput c') < length (cn_rawInput c)" if "st = StepRetry c'" for c'
      using st(2) [OF that] 3(1) out(1) inn by (auto simp: roomy_def seqBelow_def)
    then show ?thesis using st(1) by blast
  qed simp
qed

lemma readRecords_returns: "roomy c \<Longrightarrow> length (cn_rawInput c) < fuel \<Longrightarrow> readRecords env expectCCS fuel c \<noteq> None"
proof (induction fuel arbitrary: c)
  case (Suc fuel)
  obtain st where st: "recordStep env expectCCS c = Some st" "\<And>c'. st = StepRetry c' \<Longrightarrow> roomy c' \<and> length (cn_rawInput c') < length (cn_rawInput c)"
    using recordStep_returns [OF Suc.prems(1)] by blast
  show ?case
  proof (cases st)
    case (StepRetry c1)
    let ?c = "c1\<lparr>cn_retryCount := cn_retryCount c1 + 1\<rparr>"
    have r: "roomy ?c" "length (cn_rawInput ?c) < fuel" using st(2) [OF StepRetry] Suc.prems(2) by (simp_all add: roomy_def)
    have "sendAlert env alertUnexpectedMessage ?c \<noteq> None" by (rule sendAlert_returns [of "2 ^ 64 - 1"]) (use r(1) in \<open>simp_all add: roomy_def\<close>)
    then show ?thesis using Suc.IH [OF r] by (simp add: st(1) StepRetry Let_def)
  qed (simp_all add: st(1))
qed simp

section \<open>The two properties\<close>

text \<open>A connection at the start of its handshake, with one record of the peer on the wire.\<close>

definition plainConn :: conn where
  "plainConn = \<lparr>cn_vers = 0, cn_haveVers = False, cn_handshakeComplete = False, cn_retryCount = 0, cn_hand = [], cn_input = [],
     cn_rawInput = [22, 3, 1, 0, 2, 7, 8, 22], cn_netEnd = NetClosed, cn_in = newHalfConn, cn_inErr = None, cn_out = newHalfConn, cn_outErr = None, cn_wire = [],
     cn_bytesSent = 0, cn_packetsSent = 0, cn_buffering = False, cn_sendBuf = [], cn_dynamicDisabled = False, cn_closeNotifySent = False,
     cn_closeNotifyErr = None, cn_handshakes = 0, cn_sessionPuts = [], cn_closed = False\<rparr>"

definition deadEnv :: connEnv where
  "deadEnv = \<lparr>ce_random = (\<lambda>_. None), ce_write = (\<lambda>bs. (0, None)), ce_arrived = (\<lambda>_. False)\<rparr>"

lemma start_seq: "replicate 8 (0 :: byte) = [0, 0, 0, 0, 0, 0, 0, 0]"
  by (simp add: numeral_eq_Suc)

lemma plainConn_roomy: "roomy plainConn"
  by (simp add: roomy_def seqBelow_def plainConn_def newHalfConn_def seqNo_def start_seq)

lemma plainConn_read: "\<exists>c'. readRecordOrCCS deadEnv False plainConn = Some (None, c') \<and> cn_hand c' = [7, 8] \<and> cn_input c' = []"
  by (simp add: readRecordOrCCS_def recordStep_def plainConn_def Let_def val16_def recordBody_def decrypt_def newHalfConn_def decryptBody_def checkMac_def
      incSeq_def contentStep_def start_seq)

text \<open>C32. One and only one thing happens, as the comment of \<open>readRecordOrCCS\<close> says: an error is returned, and then neither handshake bytes nor application data
  have come; or, where a change of ciphers is expected, it happened; or the bytes of the handshake grew; or, only after
  the handshake, application data is there.\<close>

theorem read_one_effect:
  assumes "readRecordOrCCS env expectCCS c = Some (err, c')" "cn_input c = []"
  shows "if err \<noteq> None then cn_hand c' = cn_hand c \<and> cn_input c' = []
    else if expectCCS then cn_hand c' = cn_hand c \<and> cn_input c' = [] \<and> (\<exists>hc. changeCipherSpec hc = Inr (cn_in c'))
    else if cn_input c' = [] then \<exists>d. d \<noteq> [] \<and> cn_hand c' = cn_hand c @ d
    else cn_handshakeComplete c \<and> cn_hand c' = cn_hand c"
  using readRecords_effect [OF assms(1) [unfolded readRecordOrCCS_def]] assms(2)
  by (auto simp: oneEffect_def split: option.splits if_splits)

theorem read_one_effect_witness:
  "\<exists>c'. readRecordOrCCS deadEnv False plainConn = Some (None, c') \<and> cn_input c' = [] \<and> (\<exists>d. d \<noteq> [] \<and> cn_hand c' = cn_hand plainConn @ d)"
proof -
  obtain c' where c': "readRecordOrCCS deadEnv False plainConn = Some (None, c')" "cn_input c' = []" using plainConn_read by blast
  then show ?thesis using read_one_effect [OF c'(1)] by (simp add: plainConn_def)
qed

text \<open>C33. A read always returns: whatever bytes the peer sends, \<open>readRecordOrCCS\<close> comes to an end, as long as the 64-bit sequence numbers
  are not about to wrap.\<close>

theorem read_returns:
  assumes "roomy c"
  shows "\<exists>err c'. readRecordOrCCS env expectCCS c = Some (err, c')"
  using readRecords_returns [OF assms, of "Suc (length (cn_rawInput c))" env expectCCS] by (auto simp: readRecordOrCCS_def)

theorem read_returns_witness: "\<exists>err c'. readRecordOrCCS deadEnv True plainConn = Some (err, c')"
  using read_returns [OF plainConn_roomy] by blast

end
