(* ===== verification/Utls_Hello.thy ===== *)
theory Utls_Hello
  imports Utls_Record Utls_Handshake
begin

text \<open>
  How the uTLS fork builds the bytes of a ClientHello from a list of extensions and how it takes a ClientHello apart again:
  \<open>MarshalClientHelloNoECH\<close>, \<open>ApplyConfig\<close>, \<open>SetTLSVers\<close> and the setters of \<open>src/utls/u_conn.go\<close>, \<open>writeToUConn\<close> of the
  extensions, \<open>ClientHelloSpec\<close> of \<open>src/utls/u_common.go\<close>, and \<open>src/utls/u_fingerprinter.go\<close>. Lengths are naturals.
\<close>

section \<open>The connection\<close>

text \<open>What a \<open>UConn\<close> and its configuration hold of the ClientHello. The public and the private form of the message have the same
  fields (\<open>getPrivatePtr\<close>), \<open>ch_original\<close> is \<open>Raw\<close>; \<open>uh_NextProtoNeg\<close> is in the public one only. \<open>uh_ech\<close> is the position of the ECH extension
  in the list, \<open>uh_sessionCached\<close> whether the session cache has a session for this server.\<close>

record uconnHello =
  uh_Extensions :: "tlsExtension list"
  uh_Hello :: clientHelloMsg
  uh_NextProtoNeg :: bool
  uh_omitSNIExtension :: bool
  uh_certCompressionAlgs :: "u16 list"
  uh_ech :: "nat option"
  uh_handshakes :: nat
  uh_clientFinished :: bytes
  uh_sessionCached :: bool
  uh_ServerName :: string
  uh_NextProtos :: "string list"
  uh_CurvePreferences :: "u16 list"
  uh_Renegotiation :: renegotiation
  uh_MinVersion :: u16
  uh_MaxVersion :: u16
  uh_ECHConfigList :: "bytes option"

section \<open>Writing through a buffer\<close>

text \<open>\<open>bufio.Writer\<close> in front of a \<open>bytes.Buffer\<close>: \<open>bw_size\<close> bytes of room, what is buffered, what has been flushed.\<close>

record bufWriter =
  bw_size :: nat
  bw_buf :: bytes
  bw_out :: bytes

definition bufAvailable :: "bufWriter \<Rightarrow> nat" where
  "bufAvailable w = bw_size w - length (bw_buf w)"

definition bufFlush :: "bufWriter \<Rightarrow> bufWriter" where
  "bufFlush w = w\<lparr>bw_out := bw_out w @ bw_buf w, bw_buf := []\<rparr>"

text \<open>\<open>Write\<close>: what does not fit fills the buffer, which is flushed; a rest that is still too long goes past the empty buffer.\<close>

definition bufWrite :: "bytes \<Rightarrow> bufWriter \<Rightarrow> bufWriter" where
  "bufWrite p w =
     (let n = bufAvailable w;
          (q, v) = (if n < length p \<and> bw_buf w \<noteq> [] then (drop n p, bufFlush (w\<lparr>bw_buf := bw_buf w @ take n p\<rparr>)) else (p, w))
      in if bufAvailable v < length q then v\<lparr>bw_out := bw_out v @ q\<rparr> else v\<lparr>bw_buf := bw_buf v @ q\<rparr>)"

text \<open>\<open>ReadFrom\<close> of an extension, whose \<open>Read\<close> returns all of its bytes and \<open>io.EOF\<close>, or another error. Into an empty buffer nothing is read: the
  \<open>bytes.Buffer\<close> reads itself, into the room that it has (\<open>room\<close>, of its length so far). A buffer that is full at the end is flushed.
  (An extension may leave a byte of its buffer as it is; only a buffer that was flushed before has something else than zeros there, which
  takes a random value of more than 32 bytes, and then the length check of the caller fails.)\<close>

definition bufReadFrom :: "(nat \<Rightarrow> nat) \<Rightarrow> tlsExtension \<Rightarrow> bufWriter \<Rightarrow> readErr + bufWriter" where
  "bufReadFrom room e w =
     (let v = (if bufAvailable w = 0 then bufFlush w else w) in
      if bw_buf v = [] then
        case ext_Read e (room (length (bw_out v))) of Inl err \<Rightarrow> Inl err | Inr bs \<Rightarrow> Inr (v\<lparr>bw_out := bw_out v @ bs\<rparr>)
      else
        case ext_Read e (bufAvailable v) of
          Inl err \<Rightarrow> Inl err
        | Inr bs \<Rightarrow> let v' = v\<lparr>bw_buf := bw_buf v @ bs\<rparr> in Inr (if bufAvailable v' = 0 then bufFlush v' else v'))"

fun bufReadAll :: "(nat \<Rightarrow> nat) \<Rightarrow> tlsExtension list \<Rightarrow> bufWriter \<Rightarrow> readErr + bufWriter" where
  "bufReadAll room [] w = Inr w"
| "bufReadAll room (e # es) w = (case bufReadFrom room e w of Inl err \<Rightarrow> Inl err | Inr v \<Rightarrow> bufReadAll room es v)"

section \<open>MarshalClientHelloNoECH\<close>

datatype buildErr =
    MultiplePadding
  | UnknownAead
  | ExtensionErr readErr
  | UnexpectedLength nat nat
  | InvalidVersions
  | SeparateVersions nat
  | MinUnsupported u16
  | MaxUnsupported u16

text \<open>\<open>Len\<close> of a GREASE ECH extension draws its random values the first time (\<open>None\<close> is the panic on an unknown AEAD).\<close>

fun initialised :: "greaseRandom \<Rightarrow> tlsExtension \<Rightarrow> tlsExtension option" where
  "initialised rnd (GREASEEncryptedClientHelloExtension g) = map_option GREASEEncryptedClientHelloExtension (initGreaseECH rnd g)"
| "initialised rnd e = Some e"

text \<open>The first loop: the extensions, the sum of their lengths, and whether there is padding. The \<open>k\<close>-th extension from the end
  draws from \<open>rnd k\<close>.\<close>

fun lenLoop :: "(nat \<Rightarrow> greaseRandom) \<Rightarrow> tlsExtension list \<Rightarrow> nat \<Rightarrow> bool \<Rightarrow> buildErr + tlsExtension list \<times> nat \<times> bool" where
  "lenLoop rnd [] extensionsLen padding = Inr ([], extensionsLen, padding)"
| "lenLoop rnd (UtlsPaddingExtension n w f # es) extensionsLen padding =
     (if padding then Inl MultiplePadding
      else case lenLoop rnd es extensionsLen True of
             Inl err \<Rightarrow> Inl err | Inr (es', l, p) \<Rightarrow> Inr (UtlsPaddingExtension n w f # es', l, p))"
| "lenLoop rnd (e # es) extensionsLen padding =
     (case initialised (rnd (length es)) e of
        None \<Rightarrow> Inl UnknownAead
      | Some e' \<Rightarrow>
          (case lenLoop rnd es (extensionsLen + ext_Len e') padding of
             Inl err \<Rightarrow> Inl err | Inr (es', l, p) \<Rightarrow> Inr (e' # es', l, p)))"

fun updatePadding :: "nat \<Rightarrow> tlsExtension \<Rightarrow> tlsExtension" where
  "updatePadding unpaddedLen (UtlsPaddingExtension n w f) =
     (let (n', w') = padding_Update unpaddedLen (n, w) f in UtlsPaddingExtension n' w' f)"
| "updatePadding unpaddedLen e = e"

fun isPadding :: "tlsExtension \<Rightarrow> bool" where
  "isPadding (UtlsPaddingExtension n w f) \<longleftrightarrow> True"
| "isPadding e \<longleftrightarrow> False"

definition headerLength :: "clientHelloMsg \<Rightarrow> nat" where
  "headerLength hello =
     2 + 32 + 1 + length (ch_sessionId hello) + 2 + length (ch_cipherSuites hello) * 2 + 1 + length (ch_compressionMethods hello)"

text \<open>The writes before the extensions.\<close>

definition headerWrites :: "clientHelloMsg \<Rightarrow> nat \<Rightarrow> bytes list" where
  "headerWrites hello helloLen =
     [[1], be24 helloLen, be16w (ch_vers hello), ch_random hello, [word_of_nat (length (ch_sessionId hello))], ch_sessionId hello,
      be16 (2 * length (ch_cipherSuites hello))] @ map be16w (ch_cipherSuites hello) @
     [[word_of_nat (length (ch_compressionMethods hello))], ch_compressionMethods hello]"

definition MarshalClientHelloNoECH :: "(nat \<Rightarrow> nat) \<Rightarrow> (nat \<Rightarrow> greaseRandom) \<Rightarrow> uconnHello \<Rightarrow> buildErr + uconnHello" where
  "MarshalClientHelloNoECH room rnd uc =
     (case lenLoop rnd (uh_Extensions uc) 0 False of
        Inl err \<Rightarrow> Inl err
      | Inr (exts, len1, padding) \<Rightarrow>
          let hello = uh_Hello uc;
              exts1 = (if padding then map (updatePadding (headerLength hello + 4 + len1 + 2)) exts else exts);
              extensionsLen = len1 + (if padding then sum_list (map ext_Len (filter isPadding exts1)) else 0);
              helloLen = headerLength hello + (if exts1 \<noteq> [] then 2 + extensionsLen else 0);
              w1 = fold bufWrite (headerWrites hello helloLen) \<lparr>bw_size = helloLen + 4, bw_buf = [], bw_out = []\<rparr>;
              w2 = (if exts1 \<noteq> [] then bufReadAll room exts1 (bufWrite (be16 extensionsLen) w1) else Inr w1)
          in (case w2 of
                Inl err \<Rightarrow> Inl (ExtensionErr err)
              | Inr w \<Rightarrow>
                  let helloBuffer = bw_out (bufFlush w) in
                  if length helloBuffer \<noteq> 4 + helloLen then Inl (UnexpectedLength (4 + helloLen) (length helloBuffer))
                  else Inr (uc\<lparr>uh_Extensions := exts1, uh_Hello := hello\<lparr>ch_original := Some helloBuffer\<rparr>\<rparr>)))"

section \<open>ApplyConfig\<close>

definition SNI_writeToUConn :: "string \<Rightarrow> uconnHello \<Rightarrow> uconnHello" where
  "SNI_writeToUConn serverName uc =
     uc\<lparr>uh_ServerName := (if uh_ECHConfigList uc = None then serverName else uh_ServerName uc),
        uh_Hello := (uh_Hello uc)\<lparr>ch_serverName := hostnameInSNI serverName\<rparr>\<rparr>"

text \<open>A renegotiation extension, at place \<open>i\<close> of the list, takes the verify data of the last handshake.\<close>

definition RenegotiationInfo_writeToUConn :: "nat \<Rightarrow> renegotiation \<Rightarrow> uconnHello \<Rightarrow> uconnHello" where
  "RenegotiationInfo_writeToUConn i r uc =
     (if r = RenegotiateNever then uc\<lparr>uh_Renegotiation := r\<rparr>
      else uc\<lparr>uh_Renegotiation := r, uh_Hello := (uh_Hello uc)\<lparr>ch_secureRenegotiationSupported := True\<rparr>,
              uh_Extensions := (if 0 < uh_handshakes uc
                 then (uh_Extensions uc)[i := RenegotiationInfoExtension r (uh_clientFinished uc)] else uh_Extensions uc)\<rparr>)"

definition FakePreSharedKey_writeToUConn :: "(bytes \<times> 32 word) list \<Rightarrow> bytes list \<Rightarrow> uconnHello \<Rightarrow> uconnHello" where
  "FakePreSharedKey_writeToUConn identities binders uc =
     (if uh_sessionCached uc then uc\<lparr>uh_Hello := (uh_Hello uc)\<lparr>ch_pskIdentities := identities, ch_pskBinders := binders\<rparr>\<rparr> else uc)"

text \<open>\<open>writeToUConn\<close> of the \<open>i\<close>-th extension. A GREASE ECH extension is remembered and marshals the hello.\<close>

definition writeToUConn ::
    "(nat \<Rightarrow> nat) \<Rightarrow> (nat \<Rightarrow> greaseRandom) \<Rightarrow> nat \<Rightarrow> tlsExtension \<Rightarrow> uconnHello \<Rightarrow> buildErr + uconnHello" where
  "writeToUConn room rnd i e uc =
     (let hello = uh_Hello uc in
      case e of
        SNIExtension n \<Rightarrow> Inr (SNI_writeToUConn n uc)
      | StatusRequestExtension \<Rightarrow> Inr (uc\<lparr>uh_Hello := hello\<lparr>ch_ocspStapling := True\<rparr>\<rparr>)
      | StatusRequestV2Extension \<Rightarrow> Inr (uc\<lparr>uh_Hello := hello\<lparr>ch_ocspStapling := True\<rparr>\<rparr>)
      | SupportedCurvesExtension cs \<Rightarrow> Inr (uc\<lparr>uh_CurvePreferences := cs, uh_Hello := hello\<lparr>ch_supportedCurves := cs\<rparr>\<rparr>)
      | SupportedPointsExtension ps \<Rightarrow> Inr (uc\<lparr>uh_Hello := hello\<lparr>ch_supportedPoints := ps\<rparr>\<rparr>)
      | SignatureAlgorithmsExtension as \<Rightarrow> Inr (uc\<lparr>uh_Hello := hello\<lparr>ch_supportedSignatureAlgorithms := as\<rparr>\<rparr>)
      | SignatureAlgorithmsCertExtension as \<Rightarrow> Inr (uc\<lparr>uh_Hello := hello\<lparr>ch_supportedSignatureAlgorithms := as\<rparr>\<rparr>)
      | ALPNExtension ps \<Rightarrow> Inr (uc\<lparr>uh_NextProtos := ps, uh_Hello := hello\<lparr>ch_alpnProtocols := ps\<rparr>\<rparr>)
      | SCTExtension \<Rightarrow> Inr (uc\<lparr>uh_Hello := hello\<lparr>ch_scts := True\<rparr>\<rparr>)
      | ExtendedMasterSecretExtension \<Rightarrow> Inr (uc\<lparr>uh_Hello := hello\<lparr>ch_extendedMasterSecret := True\<rparr>\<rparr>)
      | UtlsCompressCertExtension as \<Rightarrow> Inr (uc\<lparr>uh_certCompressionAlgs := as\<rparr>)
      | KeyShareExtension kss \<Rightarrow> Inr (uc\<lparr>uh_Hello := hello\<lparr>ch_keyShares := kss\<rparr>\<rparr>)
      | PSKKeyExchangeModesExtension ms \<Rightarrow> Inr (uc\<lparr>uh_Hello := hello\<lparr>ch_pskModes := ms\<rparr>\<rparr>)
      | SupportedVersionsExtension vs \<Rightarrow> Inr (uc\<lparr>uh_Hello := hello\<lparr>ch_supportedVersions := vs\<rparr>\<rparr>)
      | NPNExtension ps \<Rightarrow> Inr (uc\<lparr>uh_NextProtos := ps, uh_NextProtoNeg := True\<rparr>)
      | RenegotiationInfoExtension r c \<Rightarrow> Inr (RenegotiationInfo_writeToUConn i r uc)
      | SessionTicketExtension t \<Rightarrow> Inr (uc\<lparr>uh_Hello := hello\<lparr>ch_ticketSupported := True\<rparr>\<rparr>)
      | GREASEEncryptedClientHelloExtension g \<Rightarrow> MarshalClientHelloNoECH room rnd (uc\<lparr>uh_ech := Some i\<rparr>)
      | FakePreSharedKeyExtension ids bs omit \<Rightarrow> Inr (FakePreSharedKey_writeToUConn ids bs uc)
      | _ \<Rightarrow> Inr uc)"

text \<open>The loop of \<open>ApplyConfig\<close>, by position: an extension may change while the loop runs.\<close>

fun applyFrom :: "(nat \<Rightarrow> nat) \<Rightarrow> (nat \<Rightarrow> greaseRandom) \<Rightarrow> nat list \<Rightarrow> uconnHello \<Rightarrow> buildErr + uconnHello" where
  "applyFrom room rnd [] uc = Inr uc"
| "applyFrom room rnd (i # is) uc =
     (case writeToUConn room rnd i (uh_Extensions uc ! i) uc of Inl err \<Rightarrow> Inl err | Inr uc' \<Rightarrow> applyFrom room rnd is uc')"

definition ApplyConfig :: "(nat \<Rightarrow> nat) \<Rightarrow> (nat \<Rightarrow> greaseRandom) \<Rightarrow> uconnHello \<Rightarrow> buildErr + uconnHello" where
  "ApplyConfig room rnd uc = applyFrom room rnd [0..<length (uh_Extensions uc)] uc"

section \<open>Setters\<close>

definition SetClientRandom :: "bytes \<Rightarrow> uconnHello \<Rightarrow> string + uconnHello" where
  "SetClientRandom r uc =
     (if length r \<noteq> 32 then Inl (''Incorrect client random length! Expected: 32, got: '' @ Itoa (length r))
      else Inr (uc\<lparr>uh_Hello := (uh_Hello uc)\<lparr>ch_random := r\<rparr>\<rparr>))"

fun setName :: "string \<Rightarrow> tlsExtension \<Rightarrow> tlsExtension" where
  "setName hname (SNIExtension n) = SNIExtension hname"
| "setName hname e = e"

definition SetSNI :: "string \<Rightarrow> uconnHello \<Rightarrow> uconnHello" where
  "SetSNI sni uc =
     (let hname = hostnameInSNI sni in uc\<lparr>uh_ServerName := hname, uh_Extensions := map (setName hname) (uh_Extensions uc)\<rparr>)"

fun isSNI :: "tlsExtension \<Rightarrow> bool" where
  "isSNI (SNIExtension n) \<longleftrightarrow> True"
| "isSNI e \<longleftrightarrow> False"

definition removeSNIExtension :: "uconnHello \<Rightarrow> uconnHello" where
  "removeSNIExtension uc = uc\<lparr>uh_Extensions := filter (\<lambda>e. \<not> isSNI e) (uh_Extensions uc)\<rparr>"

text \<open>The length is computed with 16 bits.\<close>

definition makeSupportedVersions :: "u16 \<Rightarrow> u16 \<Rightarrow> u16 list" where
  "makeSupportedVersions minVers maxVers = map (\<lambda>i. maxVers - word_of_nat i) [0..<unat (maxVers - minVers + 1)]"

text \<open>\<open>findVersionsInSupportedVersionsExtensions\<close>: the least and the greatest version that is not GREASE.\<close>

fun findVersions :: "u16 list \<Rightarrow> u16 \<times> u16 \<Rightarrow> u16 \<times> u16" where
  "findVersions [] found = found"
| "findVersions (vers # versions) (minVers, maxVers) =
     findVersions versions
       (if isGREASEUint16 vers then (minVers, maxVers)
        else (if vers < minVers \<or> minVers = 0 then vers else minVers, if maxVers < vers \<or> maxVers = 0 then vers else maxVers))"

fun versionsOf :: "tlsExtension list \<Rightarrow> u16 \<times> u16 \<Rightarrow> nat \<Rightarrow> buildErr + (u16 \<times> u16) \<times> nat" where
  "versionsOf [] found present = Inr (found, present)"
| "versionsOf (SupportedVersionsExtension vs # es) found present =
     (if findVersions vs (0, 0) = (0, 0) then Inl InvalidVersions else versionsOf es (findVersions vs (0, 0)) (present + 1))"
| "versionsOf (e # es) found present = versionsOf es found present"

definition SetTLSVers :: "u16 \<Rightarrow> u16 \<Rightarrow> tlsExtension list \<Rightarrow> uconnHello \<Rightarrow> buildErr + uconnHello" where
  "SetTLSVers minTLSVers maxTLSVers specExtensions uc =
     (case (if minTLSVers = 0 \<and> maxTLSVers = 0 then
              case versionsOf specExtensions (minTLSVers, maxTLSVers) 0 of
                Inl err \<Rightarrow> Inl err
              | Inr (found, present) \<Rightarrow>
                  if present = 0 then Inr (VersionTLS10, VersionTLS12)
                  else if present = 1 then Inr found else Inl (SeparateVersions present)
            else Inr (minTLSVers, maxTLSVers)) of
        Inl err \<Rightarrow> Inl err
      | Inr (minVers, maxVers) \<Rightarrow>
          if minVers < VersionTLS10 \<or> VersionTLS13 < minVers then Inl (MinUnsupported minVers)
          else if maxVers < VersionTLS10 \<or> VersionTLS13 < maxVers then Inl (MaxUnsupported maxVers)
          else let uc1 = uc\<lparr>uh_Hello := (uh_Hello uc)\<lparr>ch_supportedVersions := makeSupportedVersions minVers maxVers\<rparr>\<rparr>
               in Inr (if uh_ECHConfigList uc = None then uc1\<lparr>uh_MinVersion := minVers, uh_MaxVersion := maxVers\<rparr> else uc1))"

section \<open>Specifications and fingerprints\<close>

record helloSpec =
  sp_CipherSuites :: "u16 list"
  sp_CompressionMethods :: bytes
  sp_Extensions :: "tlsExtension list"
  sp_TLSVersMin :: u16
  sp_TLSVersMax :: u16

definition ReadCipherSuites :: "cryptobyte \<Rightarrow> bytes \<Rightarrow> string + u16 list" where
  "ReadCipherSuites cb b =
     (case readAll (cb_ReadUint16 cb) (length b) b of
        None \<Rightarrow> Inl ''unable to read ciphersuite'' | Some suites \<Rightarrow> Inr (map unGREASEUint16 suites))"

fun isPsk :: "tlsExtension \<Rightarrow> bool" where
  "isPsk (FakePreSharedKeyExtension ids bs omit) \<longleftrightarrow> True"
| "isPsk e \<longleftrightarrow> False"

text \<open>\<open>AlwaysAddPadding\<close> of the list: before a pre-shared key, which has to be the last extension.\<close>

fun addPadding :: "tlsExtension list \<Rightarrow> tlsExtension list" where
  "addPadding [] = [UtlsPaddingExtension 0 False (Some BoringPaddingStyle)]"
| "addPadding (e # es) =
     (if isPadding e then e # es
      else if isPsk e then UtlsPaddingExtension 0 False (Some BoringPaddingStyle) # e # es else e # addPadding es)"

definition AlwaysAddPadding :: "helloSpec \<Rightarrow> helloSpec" where
  "AlwaysAddPadding chs = chs\<lparr>sp_Extensions := addPadding (sp_Extensions chs)\<rparr>"

text \<open>The first padding extension is told the length of the hello.\<close>

fun padTo :: "nat \<Rightarrow> tlsExtension list \<Rightarrow> tlsExtension list" where
  "padTo len [] = []"
| "padTo len (UtlsPaddingExtension n w f # es) = UtlsPaddingExtension n w (Some (AlwaysPadToLen len)) # es"
| "padTo len (e # es) = e # padTo len es"

fun isVersions :: "tlsExtension \<Rightarrow> bool" where
  "isVersions (SupportedVersionsExtension vs) \<longleftrightarrow> True"
| "isVersions e \<longleftrightarrow> False"

text \<open>\<open>FromRaw\<close> without real pre-shared keys. \<open>ReadTLSExtensions\<close> forgets the versions of the record and of the message when it meets a list of versions.\<close>

definition FromRaw :: "greaseRandom \<Rightarrow> cryptobyte \<Rightarrow> bytes \<Rightarrow> bool \<Rightarrow> string + helloSpec" where
  "FromRaw rnd cb raw bluntMimicry =
     (case do { (contentType, s1) \<leftarrow> cb_ReadUint8 cb raw; (recordVers, s2) \<leftarrow> cb_ReadUint16 cb s1; s3 \<leftarrow> cb_Skip cb 2 s2;
                Some (contentType, recordVers, s3) } of
        None \<Rightarrow> Inl ''unable to read record type, version, and length''
      | Some (contentType, recordVers, s3) \<Rightarrow>
          if contentType \<noteq> 22 then Inl ''record is not a handshake''
          else case do { (handshakeType, s4) \<leftarrow> cb_ReadUint8 cb s3; s5 \<leftarrow> cb_Skip cb 3 s4; (handshakeVersion, s6) \<leftarrow> cb_ReadUint16 cb s5;
                         s7 \<leftarrow> cb_Skip cb 32 s6; Some (handshakeType, handshakeVersion, s7) } of
            None \<Rightarrow> Inl ''unable to read handshake message type, length, and random''
          | Some (handshakeType, handshakeVersion, s7) \<Rightarrow>
              if handshakeType \<noteq> 1 then Inl ''handshake message is not a ClientHello''
              else case cb_ReadUint8LengthPrefixed cb s7 of
                None \<Rightarrow> Inl ''unable to read session id''
              | Some (ignoredSessionID, s8) \<Rightarrow>
                  (case cb_ReadUint16LengthPrefixed cb s8 of
                     None \<Rightarrow> Inl ''unable to read ciphersuites''
                   | Some (cipherSuitesBytes, s9) \<Rightarrow>
                       (case ReadCipherSuites cb cipherSuitesBytes of
                          Inl err \<Rightarrow> Inl err
                        | Inr cipherSuites \<Rightarrow>
                            (case cb_ReadUint8LengthPrefixed cb s9 of
                               None \<Rightarrow> Inl ''unable to read compression methods''
                             | Some (compressionMethods, s10) \<Rightarrow>
                                 let chs = \<lparr>sp_CipherSuites = cipherSuites, sp_CompressionMethods = compressionMethods, sp_Extensions = [],
                                            sp_TLSVersMin = recordVers, sp_TLSVersMax = handshakeVersion\<rparr>
                                 in if s10 = [] then Inr chs
                                    else case cb_ReadUint16LengthPrefixed cb s10 of
                                      None \<Rightarrow> Inl ''unable to read extensions data''
                                    | Some (extensions, s11) \<Rightarrow>
                                        (case ReadTLSExtensions rnd cb bluntMimicry (length extensions) extensions of
                                           Inl err \<Rightarrow> Inl err
                                         | Inr es \<Rightarrow>
                                             let chs1 = (if list_ex isVersions es then chs\<lparr>sp_TLSVersMin := 0, sp_TLSVersMax := 0\<rparr> else chs)
                                             in Inr (chs1\<lparr>sp_Extensions := padTo (length raw - 5) es\<rparr>))))))"

record fingerprinter =
  fp_AllowBluntMimicry :: bool
  fp_AlwaysAddPadding :: bool

text \<open>\<open>RawClientHello\<close> of a fingerprinter without \<open>RealPSKResumption\<close>.\<close>

definition RawClientHello :: "greaseRandom \<Rightarrow> cryptobyte \<Rightarrow> fingerprinter \<Rightarrow> bytes \<Rightarrow> string + helloSpec" where
  "RawClientHello rnd cb f raw =
     (case FromRaw rnd cb raw (fp_AllowBluntMimicry f) of
        Inl err \<Rightarrow> Inl err | Inr spec \<Rightarrow> Inr (if fp_AlwaysAddPadding f then AlwaysAddPadding spec else spec))"

end
