(* ===== verification/Utls_Hello_Correct.thy ===== *)
theory Utls_Hello_Correct
  imports Utls_Hello Utls_Messages_Correct
begin

text \<open>
  The ClientHello of \<open>Utls_Hello\<close>: which bytes it has and when it can be built at all, what a fingerprint of those bytes
  recovers, and that a server reads from them what the connection remembers.
\<close>

section \<open>The buffer\<close>

definition bufContent :: "bufWriter \<Rightarrow> bytes" where
  "bufContent w = bw_out w @ bw_buf w"

lemma bufContent_empty [simp]: "bufContent \<lparr>bw_size = n, bw_buf = [], bw_out = []\<rparr> = []"
  by (simp add: bufContent_def)

lemma bufFlush_simps [simp]:
  "bufContent (bufFlush w) = bufContent w" "bw_out (bufFlush w) = bufContent w" "bw_size (bufFlush w) = bw_size w" "bw_buf (bufFlush w) = []"
  by (simp_all add: bufFlush_def bufContent_def)

lemma bufWrite_content [simp]: "bufContent (bufWrite p w) = bufContent w @ p" "bw_size (bufWrite p w) = bw_size w"
  by (auto simp: bufWrite_def Let_def bufContent_def bufFlush_def)

lemma fold_bufWrite [simp]:
  "bufContent (fold bufWrite ps w) = bufContent w @ concat ps" "bw_size (fold bufWrite ps w) = bw_size w"
  by (induction ps arbitrary: w) simp_all

text \<open>As long as everything fits, nothing is flushed.\<close>

lemma bufWrite_fits: "length p \<le> bufAvailable w \<Longrightarrow> bufWrite p w = w\<lparr>bw_buf := bw_buf w @ p\<rparr>"
  by (simp add: bufWrite_def Let_def)

lemma fold_bufWrite_fits:
  "length (concat ps) \<le> bufAvailable w \<Longrightarrow> fold bufWrite ps w = w\<lparr>bw_buf := bw_buf w @ concat ps\<rparr>"
proof (induction ps arbitrary: w)
  case (Cons p ps)
  then show ?case by (simp add: bufWrite_fits bufAvailable_def)
qed simp

text \<open>The room left for the extensions: \<open>rem\<close> more bytes fit, and the buffer is empty only when none are to come.\<close>

definition bufRoom :: "nat \<Rightarrow> bufWriter \<Rightarrow> bool" where
  "bufRoom rem w \<longleftrightarrow> rem \<le> bufAvailable w \<and> (bw_buf w = [] \<longrightarrow> rem = 0)"

lemma ext_Read_enough: "ext_Len e \<le> avail \<Longrightarrow> ext_Read e avail = encode e"
  by (auto simp: ext_Read_def split: tlsExtension.split sum.split)

lemma ext_Read_encode: "ext_Read e avail = Inr bs \<Longrightarrow> encode e = Inr bs"
  by (auto simp: ext_Read_def split: tlsExtension.splits sum.splits if_splits)

lemma bufReadFrom_room:
  assumes "bufRoom (ext_Len e + rem) w"
  shows "case encode e of Inl err \<Rightarrow> bufReadFrom room e w = Inl err
    | Inr bs \<Rightarrow> \<exists>v. bufReadFrom room e w = Inr v \<and> bufContent v = bufContent w @ bs \<and> bufRoom rem v"
proof -
  have len: "encode e = Inr bs \<Longrightarrow> length bs = ext_Len e" for bs by (rule encode_length)
  show ?thesis
    using assms len
    by (auto simp: bufReadFrom_def Let_def bufRoom_def ext_Read_enough bufAvailable_def bufContent_def bufFlush_def split: sum.split)
qed

lemma bufReadAll_room:
  assumes "bufRoom (sum_list (map ext_Len es)) w" "list_all2 (\<lambda>e bs. encode e = Inr bs) es bss"
  shows "\<exists>v. bufReadAll room es w = Inr v \<and> bufContent v = bufContent w @ concat bss"
  using assms(2, 1)
proof (induction arbitrary: w rule: list_all2_induct)
  case (Cons e es bs bss)
  obtain v where "bufReadFrom room e w = Inr v" "bufContent v = bufContent w @ bs" "bufRoom (sum_list (map ext_Len es)) v"
    using bufReadFrom_room [of e "sum_list (map ext_Len es)" w room] Cons.prems Cons.hyps(1) by auto
  then show ?case using Cons.IH [of v] by auto
qed simp

text \<open>Whatever the room: an extension that was read added its bytes.\<close>

lemma bufReadFrom_content:
  "bufReadFrom room e w = Inr v \<Longrightarrow> \<exists>bs. encode e = Inr bs \<and> bufContent v = bufContent w @ bs"
  by (auto simp: bufReadFrom_def Let_def bufContent_def bufFlush_def dest!: ext_Read_encode split: sum.splits if_splits)

lemma bufReadAll_content:
  "bufReadAll room es w = Inr v \<Longrightarrow> \<exists>bss. list_all2 (\<lambda>e bs. encode e = Inr bs) es bss \<and> bufContent v = bufContent w @ concat bss"
proof (induction es arbitrary: w)
  case (Cons e es)
  then obtain u where u: "bufReadFrom room e w = Inr u" "bufReadAll room es u = Inr v" by (auto split: sum.splits)
  obtain bs where bs: "encode e = Inr bs" "bufContent u = bufContent w @ bs" using bufReadFrom_content [OF u(1)] by blast
  obtain bss where "list_all2 (\<lambda>e bs. encode e = Inr bs) es bss" "bufContent v = bufContent u @ concat bss" using Cons.IH [OF u(2)] by blast
  then show ?case using bs by (intro exI [of _ "bs # bss"]) simp
qed simp

lemma encoded_length: "list_all2 (\<lambda>e bs. encode e = Inr bs) es bss \<Longrightarrow> length (concat bss) = sum_list (map ext_Len es)"
  by (induction rule: list_all2_induct) (simp_all add: encode_length)

lemma encoded_unique:
  "list_all2 (\<lambda>e bs. encode e = Inr bs) es bss \<Longrightarrow> list_all2 (\<lambda>e bs. encode e = Inr bs) es bss' \<Longrightarrow> bss = bss'"
proof (induction arbitrary: bss' rule: list_all2_induct)
  case (Cons e es bs bss)
  obtain b r where r: "bss' = b # r" "encode e = Inr b" "list_all2 (\<lambda>e bs. encode e = Inr bs) es r"
    using Cons.prems unfolding list_all2_Cons1 by blast
  have "bss = r" by (rule Cons.IH [OF r(3)])
  then show ?case using Cons.hyps(1) r(1, 2) by simp
qed simp

section \<open>Marshalling\<close>

text \<open>The extensions as they are sent: random values drawn, padding computed.\<close>

definition preparedExtensions :: "(nat \<Rightarrow> greaseRandom) \<Rightarrow> uconnHello \<Rightarrow> buildErr + tlsExtension list" where
  "preparedExtensions rnd uc =
     (case lenLoop rnd (uh_Extensions uc) 0 False of
        Inl err \<Rightarrow> Inl err
      | Inr (exts, len1, padding) \<Rightarrow>
          Inr (if padding then map (updatePadding (headerLength (uh_Hello uc) + 4 + len1 + 2)) exts else exts))"

lemma lenLoop_Cons:
  "lenLoop rnd (e # es) n p =
     (if isPadding e \<and> p then Inl MultiplePadding
      else case (if isPadding e then Some e else initialised (rnd (length es)) e) of
             None \<Rightarrow> Inl UnknownAead
           | Some e' \<Rightarrow> (case lenLoop rnd es (if isPadding e then n else n + ext_Len e') (isPadding e \<or> p) of
                           Inl err \<Rightarrow> Inl err | Inr (es', l, q) \<Rightarrow> Inr (e' # es', l, q)))"
  by (cases e) (simp_all split: sum.split option.split)

lemma initialised_padding: "initialised rnd e = Some e' \<Longrightarrow> isPadding e' = isPadding e"
  by (cases e) auto

lemma lenLoop_result:
  "lenLoop rnd es n p = Inr (es', l, q) \<Longrightarrow>
     l = n + sum_list (map ext_Len (filter (\<lambda>e. \<not> isPadding e) es')) \<and> (q \<longleftrightarrow> p \<or> list_ex isPadding es') \<and>
     (p \<longrightarrow> \<not> list_ex isPadding es') \<and> length (filter isPadding es') \<le> 1"
proof (induction es arbitrary: n p es' l q)
  case (Cons e es)
  obtain e' xs where r: "lenLoop rnd es (if isPadding e then n else n + ext_Len e') (isPadding e \<or> p) = Inr (xs, l, q)" "es' = e' # xs"
    "isPadding e' = isPadding e" "isPadding e \<longrightarrow> \<not> p"
    using Cons.prems by (auto simp: lenLoop_Cons simp del: lenLoop.simps dest: initialised_padding split: if_splits option.splits sum.splits)
  have "isPadding e \<Longrightarrow> filter isPadding xs = []" using Cons.IH [OF r(1)] by (auto simp: list_ex_iff filter_empty_conv)
  then show ?case using Cons.IH [OF r(1)] r by auto
qed simp

lemma updatePadding_other: "\<not> isPadding e \<Longrightarrow> updatePadding n e = e" "isPadding (updatePadding n e) = isPadding e"
  by (cases e; simp add: Let_def split: prod.split)+

lemma lengths_split:
  "sum_list (map ext_Len es) = sum_list (map ext_Len (filter (\<lambda>e. \<not> isPadding e) es)) + sum_list (map ext_Len (filter isPadding es))"
  by (induction es) simp_all

lemma filter_updatePadding [simp]: "filter (\<lambda>e. \<not> isPadding e) (map (updatePadding n) es) = filter (\<lambda>e. \<not> isPadding e) es"
  by (induction es) (simp_all add: updatePadding_other)

definition helloBytes :: "clientHelloMsg \<Rightarrow> tlsExtension list \<Rightarrow> bytes list \<Rightarrow> bytes" where
  "helloBytes hello exts bss =
     (let extensionsLen = sum_list (map ext_Len exts);
          helloLen = headerLength hello + (if exts \<noteq> [] then 2 + extensionsLen else 0)
      in concat (headerWrites hello helloLen) @ (if exts \<noteq> [] then be16 extensionsLen @ concat bss else []))"

text \<open>\<open>MarshalClientHelloNoECH\<close> over the prepared extensions.\<close>

lemma marshal_unfold:
  "MarshalClientHelloNoECH room rnd uc =
     (case preparedExtensions rnd uc of
        Inl err \<Rightarrow> Inl err
      | Inr exts \<Rightarrow>
          let hello = uh_Hello uc;
              extensionsLen = sum_list (map ext_Len exts);
              helloLen = headerLength hello + (if exts \<noteq> [] then 2 + extensionsLen else 0);
              w1 = fold bufWrite (headerWrites hello helloLen) \<lparr>bw_size = helloLen + 4, bw_buf = [], bw_out = []\<rparr>
          in (case if exts \<noteq> [] then bufReadAll room exts (bufWrite (be16 extensionsLen) w1) else Inr w1 of
                Inl err \<Rightarrow> Inl (ExtensionErr err)
              | Inr w \<Rightarrow>
                  if length (bufContent w) \<noteq> 4 + helloLen then Inl (UnexpectedLength (4 + helloLen) (length (bufContent w)))
                  else Inr (uc\<lparr>uh_Extensions := exts, uh_Hello := hello\<lparr>ch_original := Some (bufContent w)\<rparr>\<rparr>)))"
proof (cases "lenLoop rnd (uh_Extensions uc) 0 False")
  case (Inr r)
  obtain exts l p where r: "r = (exts, l, p)" by (cases r)
  have l: "l = sum_list (map ext_Len (filter (\<lambda>e. \<not> isPadding e) exts))" "p \<longleftrightarrow> list_ex isPadding exts"
    using lenLoop_result [of rnd "uh_Extensions uc" 0 False exts l p] Inr r by auto
  have "\<not> p \<Longrightarrow> filter isPadding exts = []" using l(2) by (simp add: filter_empty_conv list_ex_iff)
  then have "l + (if p then sum_list (map ext_Len (filter isPadding (if p then map (updatePadding k) exts else exts))) else 0) =
      sum_list (map ext_Len (if p then map (updatePadding k) exts else exts))" for k
    using l(1) lengths_split [of "map (updatePadding k) exts"] lengths_split [of exts] by simp
  then show ?thesis using Inr r
    by (simp only: MarshalClientHelloNoECH_def preparedExtensions_def sum.case prod.case Let_def bufFlush_simps)
qed (simp add: MarshalClientHelloNoECH_def preparedExtensions_def)

lemma length_headerWrites:
  "length (concat (headerWrites hello n)) + 32 = headerLength hello + 4 + length (ch_random hello)"
proof -
  have "length (concat (map be16w ws)) = 2 * length ws" for ws by (induction ws) simp_all
  then show ?thesis by (simp add: headerWrites_def headerLength_def)
qed

lemma headerWrites_nonempty: "concat (headerWrites hello n) \<noteq> []"
  by (simp add: headerWrites_def)

lemma marshal_iff:
  "MarshalClientHelloNoECH room rnd uc = Inr uc' \<longleftrightarrow>
     length (ch_random (uh_Hello uc)) = 32 \<and>
     (\<exists>exts bss. preparedExtensions rnd uc = Inr exts \<and> list_all2 (\<lambda>e bs. encode e = Inr bs) exts bss \<and>
        uc' = uc\<lparr>uh_Extensions := exts, uh_Hello := (uh_Hello uc)\<lparr>ch_original := Some (helloBytes (uh_Hello uc) exts bss)\<rparr>\<rparr>)"
    (is "?L \<longleftrightarrow> ?R")
proof -
  let ?hello = "uh_Hello uc"
  let ?len = "\<lambda>exts. headerLength ?hello + (if exts \<noteq> [] then 2 + sum_list (map ext_Len exts) else 0)"
  let ?w0 = "\<lambda>exts. \<lparr>bw_size = ?len exts + 4, bw_buf = [], bw_out = []\<rparr>"
  let ?w1 = "\<lambda>exts. fold bufWrite (headerWrites ?hello (?len exts)) (?w0 exts)"
  let ?w2 = "\<lambda>exts. if exts \<noteq> [] then bufReadAll room exts (bufWrite (be16 (sum_list (map ext_Len exts))) (?w1 exts)) else Inr (?w1 exts)"
  have content: "\<exists>bss. list_all2 (\<lambda>e bs. encode e = Inr bs) exts bss \<and> bufContent w = helloBytes ?hello exts bss" if w: "?w2 exts = Inr w" for exts w
  proof (cases "exts = []")
    case False
    then have "bufReadAll room exts (bufWrite (be16 (sum_list (map ext_Len exts))) (?w1 exts)) = Inr w" using w by simp
    then obtain bss where "list_all2 (\<lambda>e bs. encode e = Inr bs) exts bss"
      "bufContent w = bufContent (bufWrite (be16 (sum_list (map ext_Len exts))) (?w1 exts)) @ concat bss"
      using bufReadAll_content by blast
    then show ?thesis using False by (intro exI [of _ bss]) (simp add: helloBytes_def Let_def)
  qed (use w in \<open>auto simp: helloBytes_def\<close>)
  have size: "length (helloBytes ?hello exts bss) + 32 = 4 + ?len exts + length (ch_random ?hello)"
    if "list_all2 (\<lambda>e bs. encode e = Inr bs) exts bss" for exts bss
    using length_headerWrites [of ?hello "?len exts"] encoded_length [OF that] by (cases "exts = []") (simp_all add: helloBytes_def Let_def)
  show ?thesis
  proof
    assume ?L
    then obtain exts w where e: "preparedExtensions rnd uc = Inr exts" "?w2 exts = Inr w" "length (bufContent w) = 4 + ?len exts"
      "uc' = uc\<lparr>uh_Extensions := exts, uh_Hello := ?hello\<lparr>ch_original := Some (bufContent w)\<rparr>\<rparr>"
      unfolding marshal_unfold Let_def by (auto split: sum.splits if_splits)
    obtain bss where "list_all2 (\<lambda>e bs. encode e = Inr bs) exts bss" "bufContent w = helloBytes ?hello exts bss" using content [OF e(2)] by blast
    then show ?R using e size [of exts bss] by auto
  next
    assume ?R
    then obtain exts bss where r: "length (ch_random ?hello) = 32" "preparedExtensions rnd uc = Inr exts" "list_all2 (\<lambda>e bs. encode e = Inr bs) exts bss"
      "uc' = uc\<lparr>uh_Extensions := exts, uh_Hello := ?hello\<lparr>ch_original := Some (helloBytes ?hello exts bss)\<rparr>\<rparr>" by blast
    let ?ps = "concat (headerWrites ?hello (?len exts))"
    have ps: "length ?ps = headerLength ?hello + 4" using length_headerWrites [of ?hello "?len exts"] r(1) by simp
    then have w1: "?w1 exts = (?w0 exts)\<lparr>bw_buf := ?ps\<rparr>" using fold_bufWrite_fits [of "headerWrites ?hello (?len exts)" "?w0 exts"]
      by (simp add: bufAvailable_def)
    have "\<exists>w. ?w2 exts = Inr w"
    proof (cases "exts = []")
      case False
      have "bufRoom (sum_list (map ext_Len exts)) (bufWrite (be16 (sum_list (map ext_Len exts))) (?w1 exts))"
        unfolding w1 using False ps by (simp add: bufRoom_def bufWrite_fits bufAvailable_def)
      then show ?thesis using bufReadAll_room [OF _ r(3), of _ room] False by auto
    qed simp
    then obtain w where w: "?w2 exts = Inr w" by blast
    obtain bss' where b: "list_all2 (\<lambda>e bs. encode e = Inr bs) exts bss'" "bufContent w = helloBytes ?hello exts bss'" using content [OF w] by blast
    have "bss' = bss" by (rule encoded_unique [OF b(1) r(3)])
    then show ?L unfolding marshal_unfold Let_def using r w b size [OF r(3)] by simp
  qed
qed

section \<open>Fingerprints\<close>

text \<open>A hello whose lengths fit their fields.\<close>

definition wellSized :: "clientHelloMsg \<Rightarrow> tlsExtension list \<Rightarrow> bool" where
  "wellSized hello exts \<longleftrightarrow>
     length (ch_sessionId hello) < 256 \<and> length (ch_cipherSuites hello) < 32768 \<and> length (ch_compressionMethods hello) < 256 \<and>
     sum_list (map ext_Len exts) < 65536"

definition recoveredSpec :: "greaseRandom \<Rightarrow> u16 \<Rightarrow> nat \<Rightarrow> clientHelloMsg \<Rightarrow> tlsExtension list \<Rightarrow> helloSpec" where
  "recoveredSpec rnd recordVers len hello exts =
     \<lparr>sp_CipherSuites = map unGREASEUint16 (ch_cipherSuites hello), sp_CompressionMethods = ch_compressionMethods hello,
      sp_Extensions = padTo len (map (recovered rnd) (filter (\<lambda>e. ext_Len e \<noteq> 0) exts)),
      sp_TLSVersMin = (if list_ex isVersions exts then 0 else recordVers),
      sp_TLSVersMax = (if list_ex isVersions exts then 0 else ch_vers hello)\<rparr>"

lemma sum_list_member: "x \<in> set xs \<Longrightarrow> (f x :: nat) \<le> sum_list (map f xs)"
  by (induction xs) auto

lemma isVersions_recovered [simp]: "isVersions (recovered rnd e) = isVersions e"
  by (cases e) simp_all

lemma isVersions_Len: "isVersions e \<Longrightarrow> ext_Len e \<noteq> 0"
  by (cases e) simp_all

lemma list_ex_versions: "list_ex isVersions (map (recovered rnd) (filter (\<lambda>e. ext_Len e \<noteq> 0) exts)) = list_ex isVersions exts"
  by (auto simp: list_ex_iff dest: isVersions_Len)

lemma helloBytes_split:
  "\<exists>n. helloBytes hello exts bss = 1 # be24 n @ be16w (ch_vers hello) @ ch_random hello @
     word_of_nat (length (ch_sessionId hello)) # ch_sessionId hello @ be16 (2 * length (ch_cipherSuites hello)) @ u16s (ch_cipherSuites hello) @
     word_of_nat (length (ch_compressionMethods hello)) # ch_compressionMethods hello @
     (if exts = [] then [] else be16 (sum_list (map ext_Len exts)) @ concat bss)"
  by (auto simp: helloBytes_def headerWrites_def Let_def u16s_def)

context cryptobyte_reader
begin

lemma Skip_app [simp]: "n = length xs \<Longrightarrow> cb_Skip cb n (xs @ r) = Some r"
  by (simp add: Skip)

lemma ReadCipherSuites_back [simp]: "ReadCipherSuites cb (u16s ws) = Inr (map unGREASEUint16 ws)"
  by (simp add: ReadCipherSuites_def)

lemma FromRaw_back:
  assumes "list_all2 (\<lambda>e bs. encode e = Inr bs) exts bss" "list_all carries exts" "length (ch_random hello) = 32" "wellSized hello exts"
  shows "FromRaw rnd cb (22 # be16w recordVers @ be16 len @ helloBytes hello exts bss) True =
    Inr (recoveredSpec rnd recordVers (length (helloBytes hello exts bss)) hello exts)"
proof -
  let ?es = "map (recovered rnd) (filter (\<lambda>e. ext_Len e \<noteq> 0) exts)"
  let ?rest = "if exts = [] then [] else be16 (sum_list (map ext_Len exts)) @ concat bss"
  have bss: "length (concat bss) = sum_list (map ext_Len exts)" by (rule encoded_length [OF assms(1)])
  have small: "list_all (\<lambda>e. ext_Len e < 65540) exts"
    using assms(4) sum_list_member [of _ exts ext_Len] by (fastforce simp: wellSized_def list_all_iff)
  have exts: "ReadTLSExtensions rnd cb True (length (concat bss)) (concat bss) = Inr ?es"
    by (rule ReadTLSExtensions_back [OF assms(1, 2) small order.refl])
  have pre: "cb_ReadUint16LengthPrefixed cb (be16 (sum_list (map ext_Len exts)) @ concat bss) = Some (concat bss, [])"
    using bss assms(4) by (intro ReadUint16_prefixed') (simp_all add: wellSized_def)
  have len: "length (22 # be16w recordVers @ be16 len @ xs) - 5 = length xs" for xs :: bytes by simp
  obtain n where raw: "helloBytes hello exts bss = 1 # be24 n @ be16w (ch_vers hello) @ ch_random hello @
     word_of_nat (length (ch_sessionId hello)) # ch_sessionId hello @ be16 (2 * length (ch_cipherSuites hello)) @ u16s (ch_cipherSuites hello) @
     word_of_nat (length (ch_compressionMethods hello)) # ch_compressionMethods hello @ ?rest"
    using helloBytes_split by blast
  show ?thesis
    unfolding FromRaw_def len
    using assms(3, 4) exts pre by (simp add: raw wellSized_def recoveredSpec_def list_ex_versions [simplified] Let_def)
qed

end

section \<open>Setters\<close>

text \<open>The list of versions counts down from the greatest to the least.\<close>

lemma makeSupportedVersions_range:
  assumes "minVers \<le> maxVers" "maxVers - minVers + 1 \<noteq> 0"
  shows "set (makeSupportedVersions minVers maxVers) = {v. minVers \<le> v \<and> v \<le> maxVers}"
proof -
  let ?n = "unat (maxVers - minVers + 1)"
  have d: "unat (maxVers - minVers) = unat maxVers - unat minVers" using assms(1) by (rule unat_sub)
  have n: "?n = unat (maxVers - minVers) + 1" using assms(2) using unatSuc [of "maxVers - minVers"] by (simp add: add.commute)
  have "maxVers - word_of_nat i \<in> {v. minVers \<le> v \<and> v \<le> maxVers}" if "i < ?n" for i
  proof -
    have i: "i \<le> unat maxVers - unat minVers" using that n d by simp
    have "unat maxVers < 2 ^ LENGTH(16)" by (rule unsigned_less)
    then have "i < 2 ^ LENGTH(16)" using i by linarith
    then have "unat (word_of_nat i :: u16) = i" by (simp add: unat_of_nat take_bit_nat_eq_self_iff)
    moreover from this have "word_of_nat i \<le> maxVers" using i by (simp add: word_le_nat_alt)
    then have "unat (maxVers - word_of_nat i) = unat maxVers - unat (word_of_nat i :: u16)" by (rule unat_sub)
    ultimately show ?thesis using i assms(1) by (simp add: word_le_nat_alt)
  qed
  moreover have "v \<in> (\<lambda>i. maxVers - word_of_nat i) ` {0..<?n}" if "minVers \<le> v" "v \<le> maxVers" for v
  proof (rule image_eqI)
    show "v = maxVers - word_of_nat (unat (maxVers - v))" by simp
    have "unat (maxVers - v) = unat maxVers - unat v" using that(2) by (rule unat_sub)
    then show "unat (maxVers - v) \<in> {0..<?n}" using n d that by (simp add: word_le_nat_alt)
  qed
  ultimately show ?thesis by (auto simp: makeSupportedVersions_def)
qed

text \<open>A name that was set is sent, and a hello without the extension names no server.\<close>

lemma SetSNI_names: "e \<in> set (uh_Extensions (SetSNI sni uc)) \<Longrightarrow> isSNI e \<Longrightarrow> e = SNIExtension (hostnameInSNI sni)"
proof -
  assume "e \<in> set (uh_Extensions (SetSNI sni uc))" "isSNI e"
  then obtain x where "e = setName (hostnameInSNI sni) x" "isSNI e" by (auto simp: SetSNI_def Let_def)
  then show ?thesis by (cases x) simp_all
qed

lemma removeSNIExtension_none: "\<not> list_ex isSNI (uh_Extensions (removeSNIExtension uc))"
  by (simp add: removeSNIExtension_def list_ex_iff)

text \<open>Padding that was added stands before a pre-shared key, and no second one is added.\<close>

lemma isPsk_isPadding: "isPsk e \<Longrightarrow> \<not> isPadding e"
  by (cases e) simp_all

lemma addPadding_once:
  "length (filter isPadding es) \<le> 1 \<Longrightarrow> \<not> list_ex isPsk (butlast es) \<Longrightarrow> length (filter isPadding (addPadding es)) = 1"
proof (induction es)
  case (Cons e es)
  then show ?case using isPsk_isPadding [of e] by (cases "es = []") (auto simp: filter_empty_conv)
qed simp

lemma addPadding_last: "es \<noteq> [] \<Longrightarrow> isPsk (last es) \<Longrightarrow> last (addPadding es) = last es"
  by (induction es) (auto split: if_splits, metis addPadding.elims list.discI)

text \<open>The algorithms for certificates overwrite the algorithms for signatures that were sent before them.\<close>

lemma signature_algorithms_overwritten:
  assumes "uh_Extensions uc = [SignatureAlgorithmsExtension as, SignatureAlgorithmsCertExtension bs]"
  shows "\<exists>uc'. ApplyConfig room rnd uc = Inr uc' \<and> ch_supportedSignatureAlgorithms (uh_Hello uc') = bs \<and>
    ch_supportedSignatureAlgorithmsCert (uh_Hello uc') = ch_supportedSignatureAlgorithmsCert (uh_Hello uc)"
  using assms by (simp add: ApplyConfig_def upt_rec writeToUConn_def Let_def)

section \<open>Properties\<close>

text \<open>C35. A ClientHello that the library marshalled and put into a record can be fingerprinted: the specification has the cipher suites with
  placeholders for GREASE values, the compression methods, and the extensions in their order, those that write nothing left out,
  names, tickets and keys dropped. The versions are those of the record and of the message, or zero when a list of versions is among the
  extensions; padding is told the length of the hello, and is added when the fingerprinter asks for it.\<close>

theorem fingerprint_recovers:
  assumes "cryptobyte_reader cb" "MarshalClientHelloNoECH room rnd uc = Inr uc'" "ch_original (uh_Hello uc') = Some raw"
    and "list_all carries (uh_Extensions uc')" "wellSized (uh_Hello uc) (uh_Extensions uc')"
  shows "RawClientHello grnd cb \<lparr>fp_AllowBluntMimicry = True, fp_AlwaysAddPadding = pad\<rparr> (22 # be16w recordVers @ be16 (length raw) @ raw) =
    Inr ((if pad then AlwaysAddPadding else id) (recoveredSpec grnd recordVers (length raw) (uh_Hello uc) (uh_Extensions uc')))"
proof -
  obtain exts bss where e: "length (ch_random (uh_Hello uc)) = 32" "list_all2 (\<lambda>e bs. encode e = Inr bs) exts bss"
    "uc' = uc\<lparr>uh_Extensions := exts, uh_Hello := (uh_Hello uc)\<lparr>ch_original := Some (helloBytes (uh_Hello uc) exts bss)\<rparr>\<rparr>"
    using assms(2) unfolding marshal_iff by blast
  then have raw: "raw = helloBytes (uh_Hello uc) exts bss" using assms(3) by simp
  have "list_all carries exts" "wellSized (uh_Hello uc) exts" using assms(4, 5) e(3) by simp_all
  then have "FromRaw grnd cb (22 # be16w recordVers @ be16 (length raw) @ raw) True =
      Inr (recoveredSpec grnd recordVers (length raw) (uh_Hello uc) exts)"
    unfolding raw using e(1, 2) by (intro cryptobyte_reader.FromRaw_back [OF assms(1)])
  then show ?thesis using e(3) by (simp add: RawClientHello_def)
qed

definition exampleHello :: uconnHello where
  "exampleHello =
     \<lparr>uh_Extensions = [SNIExtension ''a.b'', SupportedVersionsExtension [VersionTLS13, 0x1a1a], UtlsPaddingExtension 0 False (Some BoringPaddingStyle)],
      uh_Hello = emptyClientHello\<lparr>ch_vers := 0x303, ch_random := replicate 32 7, ch_cipherSuites := [0x1a1a, 0x1301], ch_compressionMethods := [0]\<rparr>,
      uh_NextProtoNeg = False, uh_omitSNIExtension = False, uh_certCompressionAlgs = [], uh_ech = None, uh_handshakes = 0, uh_clientFinished = [],
      uh_sessionCached = False, uh_ServerName = ''a.b'', uh_NextProtos = [], uh_CurvePreferences = [], uh_Renegotiation = RenegotiateNever,
      uh_MinVersion = 0, uh_MaxVersion = 0, uh_ECHConfigList = None\<rparr>"

abbreviation noGrease :: greaseRandom where
  "noGrease \<equiv> \<lparr>gr_configId = 0, gr_index = \<lambda>_. 0, gr_key = [], gr_bytes = \<lambda>n. replicate n 0\<rparr>"

lemma exampleHello_sizes:
  "SNI_Len ''a.b'' = 12" "SNI_Read ''a.b'' = [0, 0, 0, 8, 0, 6, 0, 0, 3, 97, 46, 98]"
  "SupportedVersions_Read [VersionTLS13, 0x1a1a] = Inr [0, 43, 0, 5, 4, 3, 4, 0x1a, 0x1a]"
  by code_simp+

lemma exampleHello_marshals:
  "MarshalClientHelloNoECH (\<lambda>_. 512) (\<lambda>_. noGrease) exampleHello =
     Inr (exampleHello\<lparr>uh_Hello := (uh_Hello exampleHello)\<lparr>ch_original := Some
       ([1, 0, 0, 0x42, 3, 3] @ replicate 32 7 @ [0, 0, 4, 0x1a, 0x1a, 0x13, 1, 1, 0, 0, 0x15,
         0, 0, 0, 8, 0, 6, 0, 0, 3, 97, 46, 98, 0, 43, 0, 5, 4, 3, 4, 0x1a, 0x1a])\<rparr>\<rparr>)"
proof -
  let ?exts = "uh_Extensions exampleHello"
  let ?bss = "[[0, 0, 0, 8, 0, 6, 0, 0, 3, 97, 46, 98], [0, 43, 0, 5, 4, 3, 4, 0x1a, 0x1a], []] :: bytes list"
  have "preparedExtensions (\<lambda>_. noGrease) exampleHello = Inr ?exts"
    by (simp add: preparedExtensions_def exampleHello_def exampleHello_sizes padding_Update_def BoringPaddingStyle_def headerLength_def
        emptyClientHello_def)
  moreover have "list_all2 (\<lambda>e bs. encode e = Inr bs) ?exts ?bss"
    by (simp add: exampleHello_def exampleHello_sizes padding_Read_def)
  moreover have "helloBytes (uh_Hello exampleHello) ?exts ?bss = [1, 0, 0, 0x42, 3, 3] @ replicate 32 7 @ [0, 0, 4, 0x1a, 0x1a, 0x13, 1, 1, 0, 0, 0x15,
         0, 0, 0, 8, 0, 6, 0, 0, 3, 97, 46, 98, 0, 43, 0, 5, 4, 3, 4, 0x1a, 0x1a]"
    by (simp add: helloBytes_def headerWrites_def headerLength_def exampleHello_def exampleHello_sizes emptyClientHello_def be24_def be16_def
        be16w_def padding_Len_def)
  moreover have "length (ch_random (uh_Hello exampleHello)) = 32" by (simp add: exampleHello_def)
  ultimately show ?thesis unfolding marshal_iff by (intro conjI exI [of _ ?exts] exI [of _ ?bss]) simp_all
qed

theorem fingerprint_recovers_witness:
  "RawClientHello noGrease cryptobyteRef \<lparr>fp_AllowBluntMimicry = True, fp_AlwaysAddPadding = True\<rparr>
     (22 # be16w 0x301 @ be16 70 @ [1, 0, 0, 0x42, 3, 3] @ replicate 32 7 @ [0, 0, 4, 0x1a, 0x1a, 0x13, 1, 1, 0, 0, 0x15,
         0, 0, 0, 8, 0, 6, 0, 0, 3, 97, 46, 98, 0, 43, 0, 5, 4, 3, 4, 0x1a, 0x1a]) =
   Inr \<lparr>sp_CipherSuites = [GREASE_PLACEHOLDER, 0x1301], sp_CompressionMethods = [0],
        sp_Extensions = [SNIExtension '''', SupportedVersionsExtension [VersionTLS13, GREASE_PLACEHOLDER],
          UtlsPaddingExtension 0 False (Some BoringPaddingStyle)], sp_TLSVersMin = 0, sp_TLSVersMax = 0\<rparr>"
  using fingerprint_recovers [OF ref.cryptobyte_reader_axioms exampleHello_marshals, of _ noGrease True "0x301"]
  by (simp add: exampleHello_def exampleHello_sizes wellSized_def recoveredSpec_def AlwaysAddPadding_def unGREASEUint16_def isGREASEUint16_def
      emptyClientHello_def padding_Len_def)

end
