(* ===== verification/Spec2Isabelle.thy ===== *)
theory Spec2Isabelle
  imports TLS_Fragment_Correct Rule_Restart Config_Import_Correct Cf_Pool_Correct Mitm_Cert_Correct
    Upstream_TLS_Correct Handlers_Correct Http_Forward_Correct Server_Lifecycle_Correct Tun_Flow Doh_Correct
    Cert_Verify_Correct Web_Api_Correct Cli Tunnel Utls_Ech_Accept Utls_Conn_Correct Utls_Record_Reads
    Utls_Hello_Correct
begin

text \<open>
  SniShaper-Linux: a verification library of the proxy and of the program around it.

  \<^bold>\<open>The program.\<close> SniShaper is a local HTTP and SOCKS5 proxy that hides server names. A rule manager compiles
  the user's site groups, upstreams and ECH profiles into rules; the matcher picks the rule of a host, or asks the
  automatic router and its GFW list; a handler then tunnels the connection, fragments its ClientHello, terminates
  TLS and opens an own connection with a changed name or ECH, or forwards requests to a server. Around it are a
  resolver over DNS-over-HTTPS, a pool of Cloudflare addresses, a certificate authority, the life cycle of the server,
  an external TUN process, a dashboard with a JSON API and a command line.

  \<^bold>\<open>The theories.\<close> \<open>Go_Prelude\<close> has Go's strings, the shared lemmas, the collections of simplification rules and the
  interfaces: \<open>step_system\<close> (a step relation with an invariant), \<open>background_task\<close>, \<open>simulation\<close>, the stores of the rule
  manager. Theories named \<open>_Correct\<close> hold the properties of the model they are named after.
  \<^item> \<open>Addresses\<close>, \<open>Base64\<close>, \<open>Rule_Data\<close>: hosts and addresses, the data of \<open>src/proxy/proxy.go\<close>, the encoding of ECH configurations.
  \<^item> \<open>Gfw_List\<close>, \<open>Routing\<close>: \<open>src/proxy/gfwlist.go\<close>, \<open>src/proxy/auto_routing.go\<close> and \<open>matchRule\<close>.
  \<^item> \<open>Rule_Manager\<close>, \<open>Rule_Edit\<close>, \<open>Rule_Restart\<close>, \<open>Config_Import\<close>: the state \<open>RuleManager\<close>, loading, saving and compiling,
    the editing operations, \<open>src/proxy/config.go\<close>.
  \<^item> \<open>TLS_Fragment\<close>: \<open>src/proxy/tls_fragment.go\<close>, from the first record of the client to the writes on the socket.
  \<^item> \<open>Cert_Verify\<close>, \<open>Mitm_Cert\<close>: \<open>src/proxy/cert_verify.go\<close>, \<open>src/cert/cert.go\<close> and the leaf certificates of the proxy.
  \<^item> \<open>Cf_Pool\<close>, \<open>Doh\<close>, \<open>Dialing\<close>, \<open>Upstream_TLS\<close>: \<open>src/proxy/cf_pool.go\<close>, \<open>src/proxy/doh.go\<close>, the candidates of a dial and the
    connections of \<open>establishUpstreamConn\<close>.
  \<^item> \<open>Handlers\<close>, \<open>Http_Forward\<close>, \<open>Tunnel\<close>, \<open>Tun_Flow\<close>: \<open>handleConnect\<close> and its modes, \<open>src/proxy/socks5.go\<close>, the forwarding of
    requests, the copying goroutines, \<open>src/proxy/tun_flow.go\<close>.
  \<^item> \<open>Server_Lifecycle\<close>, \<open>Ring_Log\<close>, \<open>Port_Manager\<close>, \<open>Mihomo\<close>, \<open>Core_Runtime\<close>, \<open>Web_Api\<close>, \<open>Cli\<close>: starting and stopping,
    \<open>src/core_runtime.go\<close>, \<open>src/log_writer.go\<close>, \<open>src/proxy/port_manager_linux.go\<close>, \<open>src/external_mihomo.go\<close>, \<open>src/web.go\<close>,
    \<open>src/cli.go\<close> and \<open>src/main.go\<close>.
  \<^item> \<open>Utls_Bytes\<close>, \<open>Utls_Extensions\<close>, \<open>Utls_Messages\<close>, \<open>Utls_Handshake\<close>, \<open>Utls_Hpke\<close>, \<open>Utls_Ech\<close>: of the TLS library under \<open>src/utls\<close> that makes the
    ClientHello look like a browser's, the extensions (\<open>u_tls_extensions.go\<close>), the handshake messages
    (\<open>handshake_messages.go\<close>), hybrid public key encryption (\<open>internal/hpke/hpke.go\<close>) and encrypted ClientHello (\<open>ech.go\<close>), with the whole way from client to server in \<open>Utls_Ech_Accept\<close>. The reader and builder of
    \<open>cryptobyte\<close> are parameters; their contract is the locale \<open>cryptobyte_reader\<close>, interpreted on a reference.
  \<^item> \<open>Utls_Hello\<close>: building the ClientHello out of its extensions and taking one apart into a specification
    (\<open>u_conn.go\<close>, \<open>u_common.go\<close>, \<open>u_fingerprinter.go\<close>), with the buffered writer of the standard library in between.
  \<^item> \<open>Utls_Record\<close>, \<open>Utls_Conn\<close>: the record layer of the same library (\<open>conn.go\<close>, the nonces of \<open>cipher_suites.go\<close>) and a connection after its
    handshake (\<open>conn.go\<close>, \<open>u_conn.go\<close>): the two directions with their ciphers and sequence numbers, sealing and opening of
    records, reading and writing them, handshake messages over records, tickets, key updates and closing.

  \<^bold>\<open>State and effects.\<close> A struct is a record and a method a function on it. A call that may fail returns a sum or an option, a
  panic is \<open>None\<close>. What the system decides (a dial, a file write, a handshake, the clock) is a parameter of the operation
  or a field of an environment record, so a theorem holds for every outcome. Handlers return a trace of the connections
  they open and close. Where goroutines interleave, \<open>Start\<close> and \<open>Stop\<close> and the copiers of a tunnel, the model is
  a step relation.

  \<^bold>\<open>What is shown.\<close> The fragments of a ClientHello reassemble and no record holds the whole name; the matcher takes the best
  rule; the rules are in step with the site groups and a restart restores them; every connection opened is closed,
  or the leak is exhibited; a tunnel loses nothing, ends, and counts its bytes; certificates are accepted exactly as
  the policy says; the resolver fails over as a reference search; the server's life cycle keeps its invariant under every
  interleaving and under every request of the dashboard; logs and stores refine their abstract counterparts; imports,
  exports, lists and keys round-trip. Several theorems show that the code does not do what it means to; the manifest lists
  them as findings. In the TLS library every extension and every handshake message round-trips, and
  a server rebuilds the inner ClientHello of an encrypted one byte for byte; a fingerprint recovers the specification of the ClientHello it
  was taken from; data and handshake messages written over sealed records arrive, and every read of a record returns.

  \<^bold>\<open>Bounds.\<close> Recursive lookups of the resolver carry a depth: with nodes that need no lookup themselves depth one is enough,
  and for the others no depth is. \<open>establishUpstreamConn\<close> terminates by the number of candidates and a fallback flag. The
  stream of TLS records and the lists of extensions are read with fuel equal to the length of the input, as each round takes at
  least a byte; the parser of ECH lists, which may not return, has an optional result. Byte counters are 64-bit words and wrap.

  \<^bold>\<open>Assumptions.\<close> JSON decoding inverts encoding for the configuration types; a nil slice and an empty one are the
  same; letters fold as in ASCII; the racing nodes of the resolver run one after the other up to the first success; the
  two output pipes of the TUN process are one sequence of lines.

  \<^bold>\<open>Not modelled.\<close> Of the fork under \<open>src/utls\<close> the handshake itself, the key schedule, sessions, the server side and
  the tables of browser fingerprints (its calls from \<open>src/proxy\<close> are parameters); \<open>src/proxy/error_page.go\<close> (a text no other file
  uses), the web frontend, the static files and the event stream of the dashboard, and the code that installs the CA
  in the system's store, which the repository lacks.
\<close>

end
